(* ===== verification/Prelude.thy ===== *)
theory Prelude
  imports Main
    "HOL-Library.Finite_Map"
    "HOL-Library.FSet"
    "HOL-Library.Word"
    "HOL-Library.Char_ord"
    "HOL-Library.List_Lexorder"
    "HOL-Library.Product_Lexorder"
begin

text \<open>
  Shared types, generic lemmas and the two machine interfaces of the development.

  Strings are byte strings (\<open>std::string\<close> and the bytes of a \<open>QString\<close>), compared
  lexicographically on unsigned bytes, as \<open>std::string\<close> compares and as the database orders its
  keys. A \<open>std::map\<close> and a database table are finite maps; \<open>sorted_list_of_fmap\<close> gives
  their entries in iteration (cursor) order. A table opened with \<open>MDB_DUPSORT\<close> is a finite set
  of key and value pairs.
\<close>

section \<open>Types\<close>

type_synonym u64 = "64 word"
type_synonym ('k, 'v) table = "('k, 'v) fmap"
type_synonym ('k, 'v) dup_table = "('k \<times> 'v) fset"

text \<open>The middle of the index range, where an empty order table starts counting.\<close>

abbreviation u64_half :: u64 where
  "u64_half \<equiv> 9223372036854775807"

abbreviation u64_max :: u64 where
  "u64_max \<equiv> 18446744073709551615"

named_theorems model_defs "definitions a component unfolds as one bundle"
named_theorems frame_simps "fields an operation leaves unchanged"

section \<open>Tables\<close>

definition first_key :: "('k::linorder, 'v) table \<Rightarrow> 'k option" where
  "first_key t = (if fmdom t = {||} then None else Some (fMin (fmdom t)))"

definition last_key :: "('k::linorder, 'v) table \<Rightarrow> 'k option" where
  "last_key t = (if fmdom t = {||} then None else Some (fMax (fmdom t)))"

definition dup_values :: "('k, 'v::linorder) dup_table \<Rightarrow> 'k \<Rightarrow> 'v list" where
  "dup_values t k = sorted_list_of_fset (snd |`| ffilter (\<lambda>p. fst p = k) t)"

definition dup_del_key :: "('k, 'v) dup_table \<Rightarrow> 'k \<Rightarrow> ('k, 'v) dup_table" where
  "dup_del_key t k = ffilter (\<lambda>p. fst p \<noteq> k) t"

lemma fmdom_empty_iff [simp]: "fmdom t = {||} \<longleftrightarrow> t = fmempty"
proof
  assume "fmdom t = {||}"
  then have "fmlookup t k = None" for k by (metis fempty_iff fmdomI not_None_eq)
  then show "t = fmempty" by (intro fmap_ext) simp
qed simp

lemma fmsubset_refl [simp]: "fmsubset m m"
  by (simp add: fmsubset_alt_def fmpred_iff)

lemma first_key_None_iff [simp]: "first_key t = None \<longleftrightarrow> t = fmempty"
  by (auto simp: first_key_def)

lemma last_key_None_iff [simp]: "last_key t = None \<longleftrightarrow> t = fmempty"
  by (auto simp: last_key_def)

lemma first_key_in: "first_key t = Some k \<Longrightarrow> k |\<in>| fmdom t"
  using fMin_in [of "fmdom t"] by (auto simp: first_key_def split: if_splits)

lemma last_key_in: "last_key t = Some k \<Longrightarrow> k |\<in>| fmdom t"
  using fMax_in [of "fmdom t"] by (auto simp: last_key_def split: if_splits)

lemma first_key_le: "first_key t = Some k \<Longrightarrow> j |\<in>| fmdom t \<Longrightarrow> k \<le> j"
  by (auto simp: first_key_def split: if_splits)

lemma last_key_ge: "last_key t = Some k \<Longrightarrow> j |\<in>| fmdom t \<Longrightarrow> j \<le> k"
  by (auto simp: last_key_def split: if_splits)

lemma last_key_fmupd_new:
  assumes "\<And>j. j |\<in>| fmdom t \<Longrightarrow> j \<le> k"
  shows "last_key (fmupd k v t) = Some k"
proof -
  have "fMax (finsert k (fmdom t)) = k"
    using assms by (auto intro: fMax_eqI)
  then show ?thesis by (simp add: last_key_def)
qed

lemma first_key_fmupd_new:
  assumes "\<And>j. j |\<in>| fmdom t \<Longrightarrow> k \<le> j"
  shows "first_key (fmupd k v t) = Some k"
proof -
  have "fMin (finsert k (fmdom t)) = k"
    using assms by (auto intro: fMin_eqI)
  then show ?thesis by (simp add: first_key_def)
qed

lemma set_dup_values [simp]: "set (dup_values t k) = {v. (k, v) |\<in>| t}"
  by (force simp: dup_values_def)

lemma in_dup_del_key [simp]: "p |\<in>| dup_del_key t k \<longleftrightarrow> p |\<in>| t \<and> fst p \<noteq> k"
  by (auto simp: dup_del_key_def)

section \<open>Machines\<close>

text \<open>
  Several components are driven by events (user actions, messages, timers): a state, a total
  step function, and an invariant each step keeps. What holds of one step is lifted to every run
  once, here.
\<close>

fun run :: "('s \<Rightarrow> 'e \<Rightarrow> 's) \<Rightarrow> 's \<Rightarrow> 'e list \<Rightarrow> 's" where
  "run step s [] = s"
| "run step s (e # es) = run step (step s e) es"

lemma run_append [simp]: "run step s (es @ fs) = run step (run step s es) fs"
  by (induction es arbitrary: s) auto

text \<open>What holds at the end of a run and not at its start was made true by some step.\<close>

lemma run_raises:
  assumes "P (run step s es)" and "\<not> P s"
  obtains pre e post where "es = pre @ e # post" "\<not> P (run step s pre)" "P (step (run step s pre) e)"
proof -
  have "\<exists>pre e post. es = pre @ e # post \<and> \<not> P (run step s pre) \<and> P (step (run step s pre) e)"
    using assms
  proof (induction es rule: rev_induct)
    case Nil
    then show ?case by simp
  next
    case (snoc e es)
    show ?case
    proof (cases "P (run step s es)")
      case True
      then obtain pre d post where "es = pre @ d # post" "\<not> P (run step s pre)"
        "P (step (run step s pre) d)" using snoc by blast
      then show ?thesis by (intro exI [of _ pre] exI [of _ d] exI [of _ "post @ [e]"]) simp
    next
      case False
      then show ?thesis
        using snoc.prems by (intro exI [of _ es] exI [of _ e] exI [of _ "[]"]) simp
    qed
  qed
  then show ?thesis using that by blast
qed

locale invariant_machine =
  fixes step :: "'s \<Rightarrow> 'e \<Rightarrow> 's"
    and inv :: "'s \<Rightarrow> bool"
  assumes step_inv: "inv s \<Longrightarrow> inv (step s e)"
begin

lemma run_inv: "inv s \<Longrightarrow> inv (run step s es)"
  by (induction es arbitrary: s) (auto simp: step_inv)

end

text \<open>A machine whose invariant only survives steps that meet a condition.\<close>

fun guarded_run :: "('s \<Rightarrow> 'e \<Rightarrow> 's) \<Rightarrow> ('s \<Rightarrow> 'e \<Rightarrow> bool) \<Rightarrow> 's \<Rightarrow> 'e list \<Rightarrow> bool" where
  "guarded_run step guard s [] = True"
| "guarded_run step guard s (e # es) = (guard s e \<and> guarded_run step guard (step s e) es)"

locale guarded_machine =
  fixes step :: "'s \<Rightarrow> 'e \<Rightarrow> 's"
    and guard :: "'s \<Rightarrow> 'e \<Rightarrow> bool"
    and inv :: "'s \<Rightarrow> bool"
  assumes guarded_step_inv: "inv s \<Longrightarrow> guard s e \<Longrightarrow> inv (step s e)"
begin

lemma guarded_run_inv: "inv s \<Longrightarrow> guarded_run step guard s es \<Longrightarrow> inv (run step s es)"
  by (induction es arbitrary: s) (auto simp: guarded_step_inv)

end

sublocale invariant_machine \<subseteq> unguarded: guarded_machine step "\<lambda>_ _. True" inv
  by unfold_locales (rule step_inv)

text \<open>A machine whose steps only ever append to what it has emitted.\<close>

locale logging_machine = invariant_machine step inv
  for step :: "'s \<Rightarrow> 'e \<Rightarrow> 's" and inv :: "'s \<Rightarrow> bool" +
  fixes log :: "'s \<Rightarrow> 'o list"
  assumes step_log: "\<exists>os. log (step s e) = log s @ os"
begin

lemma run_log: "\<exists>os. log (run step s es) = log s @ os"
proof (induction es arbitrary: s)
  case Nil
  then show ?case by simp
next
  case (Cons e es)
  obtain os where "log (step s e) = log s @ os" using step_log by blast
  moreover obtain os' where "log (run step (step s e) es) = log (step s e) @ os'"
    using Cons by blast
  ultimately show ?case by simp
qed

lemma run_log_mono: "x \<in> set (log s) \<Longrightarrow> x \<in> set (log (run step s es))"
  using run_log [of s es] by auto

end

section \<open>Folds\<close>

lemma fold_invariant:
  assumes "P s" and "\<And>x s. x \<in> set xs \<Longrightarrow> P s \<Longrightarrow> P (f x s)"
  shows "P (fold f xs s)"
  using assms by (induction xs arbitrary: s) auto

text \<open>A loop whose body can throw: \<open>None\<close> ends it.\<close>

fun fold_opt :: "('a \<Rightarrow> 's \<Rightarrow> 's option) \<Rightarrow> 'a list \<Rightarrow> 's \<Rightarrow> 's option" where
  "fold_opt f [] s = Some s"
| "fold_opt f (x # xs) s = Option.bind (f x s) (fold_opt f xs)"

lemma fold_opt_invariant:
  assumes "fold_opt f xs s = Some t" and "P s"
    and "\<And>x s s'. x \<in> set xs \<Longrightarrow> P s \<Longrightarrow> f x s = Some s' \<Longrightarrow> P s'"
  shows "P t"
  using assms by (induction xs arbitrary: s) (auto simp: bind_eq_Some_conv)

lemma fold_opt_append: "fold_opt f (xs @ ys) s = Option.bind (fold_opt f xs s) (fold_opt f ys)"
  by (induction xs arbitrary: s) (auto split: Option.bind_split)

lemma set_sorted_list_of_fmap [simp]:
  "set (sorted_list_of_fmap m) = {(k, v). fmlookup m k = Some v}"
  by (force simp: sorted_list_of_fmap_def fmlookup_dom_iff)

lemma sorted_list_of_fmap_empty [simp]: "sorted_list_of_fmap fmempty = []"
  by (simp add: sorted_list_of_fmap_def sorted_list_of_fset.rep_eq)

lemma map_fst_sorted_list_of_fmap:
  "map fst (sorted_list_of_fmap m) = sorted_list_of_fset (fmdom m)"
  by (simp add: sorted_list_of_fmap_def comp_def)

lemma distinct_sorted_list_of_fmap: "distinct (map fst (sorted_list_of_fmap m))"
  by (simp add: map_fst_sorted_list_of_fmap sorted_list_of_fset.rep_eq)

lemma sorted_sorted_list_of_fmap: "sorted (map fst (sorted_list_of_fmap m))"
  by (simp add: map_fst_sorted_list_of_fmap sorted_list_of_fset.rep_eq)

end
