(* ===== verification/Crypto_Types.thy ===== *)
theory Crypto_Types
  imports Prelude
begin

text \<open>
  The records of \<open>src/src/CacheCryptoStructs.h\<close>, and those fields of mtxclient's key structures
  (\<open>mtx::crypto::DeviceKeys\<close>, \<open>mtx::crypto::CrossSigningKeys\<close>) that the sources read or write.
  A record value stands for the object and for its JSON text in a table; the round trips of
  theory \<open>Cache_Json\<close> are what allows it. Fields carry a prefix for their record, since record
  fields are global names.
\<close>

section \<open>Published keys\<close>

record device_keys =
  dk_user_id :: string
  dk_device_id :: string
  dk_keys :: "(string, string) fmap"
  dk_signatures :: "(string, (string, string) fmap) fmap"

record cross_signing_keys =
  csk_user_id :: string
  csk_keys :: "(string, string) fmap"
  csk_signatures :: "(string, (string, string) fmap) fmap"

definition no_cross_signing_keys :: cross_signing_keys where
  "no_cross_signing_keys = \<lparr>csk_user_id = [], csk_keys = fmempty, csk_signatures = fmempty\<rparr>"

section \<open>Trust\<close>

datatype trust = Unverified | TOFU | Verified

text \<open>The enumeration is ordered as its C++ values are (used to state monotonicity).\<close>

fun trust_value :: "trust \<Rightarrow> nat" where
  "trust_value Unverified = 0"
| "trust_value TOFU = 1"
| "trust_value Verified = 2"

instantiation trust :: linorder
begin

definition less_eq_trust :: "trust \<Rightarrow> trust \<Rightarrow> bool" where
  "less_eq_trust a b \<longleftrightarrow> trust_value a \<le> trust_value b"

definition less_trust :: "trust \<Rightarrow> trust \<Rightarrow> bool" where
  "less_trust a b \<longleftrightarrow> trust_value a < trust_value b"

instance
proof
  fix a b :: trust
  show "a \<le> b \<Longrightarrow> b \<le> a \<Longrightarrow> a = b"
    by (cases a; cases b) (auto simp: less_eq_trust_def)
qed (auto simp: less_eq_trust_def less_trust_def)

end

record verification_status =
  vs_user_verified :: trust
  vs_verified_devices :: "string fset"
  vs_verified_device_keys :: "(string, trust) fmap"
  vs_unverified_device_count :: int
  vs_no_keys :: bool

text \<open>The status a freshly constructed \<open>VerificationStatus\<close> holds.\<close>

definition new_verification_status :: verification_status where
  "new_verification_status =
     \<lparr>vs_user_verified = Unverified, vs_verified_devices = {||},
      vs_verified_device_keys = fmempty, vs_unverified_device_count = 0, vs_no_keys = False\<rparr>"

record verification_cache =
  vc_device_verified :: "string fset"
  vc_device_blocked :: "string fset"

definition new_verification_cache :: verification_cache where
  "new_verification_cache = \<lparr>vc_device_verified = {||}, vc_device_blocked = {||}\<rparr>"

record user_key_cache =
  uk_device_keys :: "(string, device_keys) fmap"
  uk_master_keys :: cross_signing_keys
  uk_user_signing_keys :: cross_signing_keys
  uk_self_signing_keys :: cross_signing_keys
  uk_updated_at :: string
  uk_last_changed :: string
  uk_master_key_changed :: bool
  uk_seen_device_keys :: "string fset"
  uk_seen_device_ids :: "string fset"

definition new_user_key_cache :: user_key_cache where
  "new_user_key_cache =
     \<lparr>uk_device_keys = fmempty, uk_master_keys = no_cross_signing_keys,
      uk_user_signing_keys = no_cross_signing_keys, uk_self_signing_keys = no_cross_signing_keys,
      uk_updated_at = [], uk_last_changed = [], uk_master_key_changed = False,
      uk_seen_device_keys = {||}, uk_seen_device_ids = {||}\<rparr>"

section \<open>Sessions\<close>

text \<open>\<open>SharedWithUsers\<close> is user \<open>\<rightarrow>\<close> device \<open>\<rightarrow>\<close> message index (\<open>DeviceKeysToMsgIndex\<close>).\<close>

type_synonym device_keys_to_msg_index = "(string, u64) fmap"
type_synonym shared_with_users = "(string, device_keys_to_msg_index) fmap"

record group_session_data =
  gs_message_index :: u64
  gs_timestamp :: u64
  gs_trusted :: bool
  gs_sender_key :: string
  gs_sender_claimed_ed25519_key :: string
  gs_forwarding_curve25519_key_chain :: "string list"
  gs_indices :: "(32 word, string) fmap"
  gs_currently :: shared_with_users

definition new_group_session_data :: group_session_data where
  "new_group_session_data =
     \<lparr>gs_message_index = 0, gs_timestamp = 0, gs_trusted = True, gs_sender_key = [],
      gs_sender_claimed_ed25519_key = [], gs_forwarding_curve25519_key_chain = [],
      gs_indices = fmempty, gs_currently = fmempty\<rparr>"

record device_public_keys =
  dp_ed25519 :: string
  dp_curve25519 :: string

record megolm_session_index =
  ms_room_id :: string
  ms_session_id :: string

record stored_olm_session =
  so_last_message_ts :: u64
  so_pickled_session :: string

record online_backup_version =
  ob_version :: string
  ob_algorithm :: string

end
