(* ===== verification/Verification_Flow.thy ===== *)
theory Verification_Flow
  imports Crypto_Types
begin

text \<open>
  \<open>DeviceVerificationFlow\<close> (\<open>src/src/encryption/DeviceVerificationFlow.cpp\<close> and \<open>.h\<close>): one
  interactive device or user verification. The object is the record \<open>flow\<close>; every signal
  handler the constructor connects, every private send operation and every slot is a function on
  it, and \<open>flow_step\<close> is the dispatch of one event. What the object emits or sends is appended
  to \<open>vf_log\<close>, in order.

  The SAS object and the cryptographic functions belong to mtxclient: they are the fields of the
  environment \<open>vf_env\<close>, with the type of the SAS object a type parameter. \<open>mtx\<close> messages keep the
  fields the source reads or writes. Network replies (the \<open>query_keys\<close> callbacks) are events.
\<close>

section \<open>Messages\<close>

datatype sas_method = Emoji | Decimal | UnsupportedSAS
datatype verification_method = SASv1 | UnsupportedMethod
datatype rel_type = Annotation | Reference | Replace | InReplyTo | Thread | UnsupportedRelation

record relation =
  rel_type_of :: rel_type
  rel_event_id :: string
  rel_key :: "string option"

record start_msg =
  st_transaction_id :: "string option"
  st_relations :: "relation list"
  st_from_device :: string
  st_method :: verification_method
  st_key_agreement_protocols :: "string list"
  st_hashes :: "string list"
  st_message_authentication_codes :: "string list"
  st_short_authentication_string :: "sas_method list"

record accept_msg =
  ac_transaction_id :: "string option"
  ac_references :: "string option"
  ac_method :: verification_method
  ac_key_agreement_protocol :: string
  ac_hash :: string
  ac_message_authentication_code :: string
  ac_short_authentication_string :: "sas_method list"
  ac_commitment :: string

record mac_msg =
  mc_transaction_id :: "string option"
  mc_references :: "string option"
  mc_mac :: "(string, string) fmap"
  mc_keys :: string

record request_msg =
  rq_from_device :: string
  rq_methods :: "verification_method list"
  rq_timestamp :: "u64 option"
  rq_to :: string
  rq_msgtype :: string
  rq_body :: string

text \<open>The payloads a flow sends; \<open>send\<close> adds the transaction id or the relation.\<close>

datatype flow_msg =
    MRequest request_msg
  | MReady string "verification_method list"
  | MStart start_msg
  | MAccept accept_msg
  | MKey string
  | MMac "(string, string) fmap" string
  | MCancel string string
  | MDone

text \<open>\<open>msg.relations.references()\<close>: the event referenced by the first reference relation.\<close>

definition references :: "relation list \<Rightarrow> string option" where
  "references rs = map_option rel_event_id (List.find (\<lambda>r. rel_type_of r = Reference) rs)"

section \<open>State\<close>

datatype flow_state =
    PromptStartVerification
  | WaitingForOtherToAccept
  | WaitingForKeys
  | CompareEmoji
  | CompareNumber
  | WaitingForMac
  | Success
  | Failed

datatype flow_type = ToDevice | RoomMsg

datatype flow_error =
    UnknownMethod
  | MismatchedCommitment
  | MismatchedSAS
  | KeyMismatch
  | Timeout
  | User
  | OutOfOrder

text \<open>A key object the flow signed and uploads.\<close>

datatype signed_key = SignedCross cross_signing_keys | SignedDevice device_keys

datatype flow_effect =
    StateChanged
  | ErrorChanged
  | SendToDevice string "string fset" string flow_msg
  | SendRoomEvent "relation list" flow_msg
  | MarkDeviceVerified string string
  | MarkDeviceUnverified string string
  | UploadSignatures "(string \<times> string, signed_key) fmap"
  | RequestCrossSigningKeys
  | RefreshProfile

record 'sas flow =
  vf_transaction_id :: string
  vf_sender :: bool
  vf_type :: flow_type
  vf_toClient :: string
  vf_deviceId :: string
  vf_deviceIds :: "string list"
  vf_our_trusted_master_key :: string
  vf_method :: sas_method
  vf_sas :: 'sas
  vf_mac_method :: string
  vf_commitment :: string
  vf_canonical_json :: string
  vf_sasList :: "int list"
  vf_their_keys :: user_key_cache
  vf_has_model :: bool
  vf_relation :: relation
  vf_state :: flow_state
  vf_error :: flow_error
  vf_isMacVerified :: bool
  vf_keySent :: bool
  vf_macSent :: bool
  vf_acceptSent :: bool
  vf_startSent :: bool
  vf_log :: "flow_effect list"

text \<open>The environment: our identity, the library's cryptography, and the secrets in the cache.\<close>

record 'sas vf_env =
  env_user_id :: string
  env_device_id :: string
  env_identity_ed25519 :: string
  env_sas_init :: 'sas
  env_public_key :: "'sas \<Rightarrow> string"
  env_set_their_key :: "'sas \<Rightarrow> string \<Rightarrow> 'sas"
  env_generate_bytes_emoji :: "'sas \<Rightarrow> string \<Rightarrow> int list"
  env_generate_bytes_decimal :: "'sas \<Rightarrow> string \<Rightarrow> int list"
  env_calculate_mac :: "'sas \<Rightarrow> string \<Rightarrow> string \<Rightarrow> string"
  env_sha256_base64 :: "string \<Rightarrow> string"
  env_dump_start :: "start_msg \<Rightarrow> string"
  env_dump_cross :: "cross_signing_keys \<Rightarrow> string"
  env_dump_device :: "device_keys \<Rightarrow> string"
  env_sign_message :: "string \<Rightarrow> string"
  env_pk_public_key :: "string \<Rightarrow> string"
  env_pk_sign :: "string \<Rightarrow> string \<Rightarrow> string"
  env_secret :: "string \<Rightarrow> string option"

text \<open>The names of the secrets (\<open>mtx::secret_storage::secrets\<close>) the flow looks up.\<close>

abbreviation cross_signing_self_signing :: string where
  "cross_signing_self_signing \<equiv> ''m.cross_signing.self_signing''"

abbreviation cross_signing_user_signing :: string where
  "cross_signing_user_signing \<equiv> ''m.cross_signing.user_signing''"

section \<open>Private operations\<close>

definition emits :: "flow_effect list \<Rightarrow> 'sas flow \<Rightarrow> 'sas flow" where
  "emits es f = f\<lparr>vf_log := vf_log f @ es\<rparr>"

definition setState :: "flow_state \<Rightarrow> 'sas flow \<Rightarrow> 'sas flow" where
  "setState s f = (if s \<noteq> vf_state f then emits [StateChanged] (f\<lparr>vf_state := s\<rparr>) else f)"

fun is_request :: "flow_msg \<Rightarrow> bool" where
  "is_request (MRequest _) = True"
| "is_request _ = False"

definition send :: "flow_msg \<Rightarrow> 'sas flow \<Rightarrow> 'sas flow" where
  "send m f =
     (if vf_type f = ToDevice then
        emits [SendToDevice (vf_toClient f) (fset_of_list (vf_deviceIds f)) (vf_transaction_id f) m] f
      else if vf_type f = RoomMsg \<and> vf_has_model f then
        emits [SendRoomEvent (if is_request m then [] else [vf_relation f]) m] f
      else f)"

definition setEventId :: "string \<Rightarrow> 'sas flow \<Rightarrow> 'sas flow" where
  "setEventId event_id f =
     f\<lparr>vf_relation := \<lparr>rel_type_of = Reference, rel_event_id = event_id, rel_key = None\<rparr>,
       vf_transaction_id := event_id\<rparr>"

fun cancel_code :: "flow_error \<Rightarrow> string \<times> string" where
  "cancel_code UnknownMethod = (''m.unknown_method'', ''unknown method received'')"
| "cancel_code MismatchedCommitment = (''m.mismatched_commitment'', ''commitment didn't match'')"
| "cancel_code MismatchedSAS = (''m.mismatched_sas'', ''sas didn't match'')"
| "cancel_code KeyMismatch = (''m.key_match'', ''keys did not match'')"
| "cancel_code Timeout = (''m.timeout'', ''timed out'')"
| "cancel_code User = (''m.user'', ''user cancelled the verification'')"
| "cancel_code OutOfOrder = (''m.unexpected_message'', ''received messages out of order'')"

definition cancelVerification :: "flow_error \<Rightarrow> 'sas flow \<Rightarrow> 'sas flow" where
  "cancelVerification e f =
     (if vf_state f = Success \<or> vf_state f = Failed then f
      else send (MCancel (fst (cancel_code e)) (snd (cancel_code e)))
             (emits [ErrorChanged] (setState Failed (f\<lparr>vf_error := e\<rparr>))))"

definition sendVerificationKey :: "'sas vf_env \<Rightarrow> 'sas flow \<Rightarrow> 'sas flow" where
  "sendVerificationKey env f =
     (if vf_keySent f then f
      else send (MKey (env_public_key env (vf_sas f))) (f\<lparr>vf_keySent := True\<rparr>))"

definition acceptVerificationRequest :: "'sas vf_env \<Rightarrow> 'sas flow \<Rightarrow> 'sas flow" where
  "acceptVerificationRequest env f =
     (if vf_acceptSent f then f
      else
        let req = \<lparr>ac_transaction_id = None, ac_references = None, ac_method = SASv1,
                   ac_key_agreement_protocol = ''curve25519-hkdf-sha256'', ac_hash = ''sha256'',
                   ac_message_authentication_code = ''hkdf-hmac-sha256'',
                   ac_short_authentication_string =
                     (if vf_method f = Emoji then [Emoji]
                      else if vf_method f = Decimal then [Decimal] else []),
                   ac_commitment =
                     env_sha256_base64 env (env_public_key env (vf_sas f) @ vf_canonical_json f)\<rparr>
        in setState WaitingForKeys (send (MAccept req) (f\<lparr>vf_acceptSent := True\<rparr>)))"

definition sendVerificationReady :: "'sas vf_env \<Rightarrow> 'sas flow \<Rightarrow> 'sas flow" where
  "sendVerificationReady env f =
     setState WaitingForKeys (send (MReady (env_device_id env) [SASv1]) f)"

definition sendVerificationDone :: "'sas flow \<Rightarrow> 'sas flow" where
  "sendVerificationDone f = send MDone f"

definition start_request :: "'sas vf_env \<Rightarrow> 'sas flow \<Rightarrow> start_msg" where
  "start_request env f =
     \<lparr>st_transaction_id = (if vf_type f = ToDevice then Some (vf_transaction_id f) else None),
      st_relations = (if vf_type f = RoomMsg \<and> vf_has_model f then [vf_relation f] else []),
      st_from_device = env_device_id env, st_method = SASv1,
      st_key_agreement_protocols = [''curve25519-hkdf-sha256''], st_hashes = [''sha256''],
      st_message_authentication_codes = [''hkdf-hmac-sha256''],
      st_short_authentication_string = [Decimal, Emoji]\<rparr>"

definition startVerificationRequest :: "'sas vf_env \<Rightarrow> 'sas flow \<Rightarrow> 'sas flow" where
  "startVerificationRequest env f =
     (if vf_startSent f then f
      else
        let req = start_request env f;
            f1 = f\<lparr>vf_startSent := True,
                   vf_canonical_json :=
                     (if vf_type f = ToDevice \<or> vf_type f = RoomMsg \<and> vf_has_model f
                      then env_dump_start env req else vf_canonical_json f)\<rparr>
        in setState WaitingForOtherToAccept (send (MStart req) f1))"

text \<open>\<open>now\<close> is the clock, in milliseconds since the epoch.\<close>

definition sendVerificationRequest :: "'sas vf_env \<Rightarrow> u64 \<Rightarrow> 'sas flow \<Rightarrow> 'sas flow" where
  "sendVerificationRequest env now f =
     (let req = \<lparr>rq_from_device = env_device_id env, rq_methods = [SASv1],
                 rq_timestamp = (if vf_type f = ToDevice then Some now else None),
                 rq_to = (if vf_type f = RoomMsg \<and> vf_has_model f then vf_toClient f else []),
                 rq_msgtype = (if vf_type f = RoomMsg \<and> vf_has_model f
                               then ''m.key.verification.request'' else []),
                 rq_body =
                   (if vf_type f = RoomMsg \<and> vf_has_model f
                    then ''User is requesting to verify keys with you. However, your client does ''
                         @ ''not support this method, so you will need to use the legacy method of ''
                         @ ''key verification.''
                    else [])\<rparr>
      in setState WaitingForOtherToAccept (send (MRequest req) f))"

section \<open>MACs of keys\<close>

fun mac_entries ::
  "'sas vf_env \<Rightarrow> 'sas \<Rightarrow> string \<Rightarrow> (string \<times> string) list \<Rightarrow> (string, string) fmap \<Rightarrow> (string, string) fmap"
where
  "mac_entries env s info [] m = m"
| "mac_entries env s info ((key_id, key) # ks) m =
     mac_entries env s info ks (fmupd key_id (env_calculate_mac env s key (info @ key_id)) m)"

fun mac_key_list :: "(string \<times> string) list \<Rightarrow> bool \<Rightarrow> string \<Rightarrow> string" where
  "mac_key_list [] first acc = acc"
| "mac_key_list ((key_id, key) # ks) first acc =
     mac_key_list ks False (acc @ (if first then [] else '','') @ key_id)"

definition key_verification_mac ::
  "'sas vf_env \<Rightarrow> 'sas \<Rightarrow> string \<Rightarrow> string \<Rightarrow> string \<Rightarrow> string \<Rightarrow> string \<Rightarrow> (string, string) fmap
    \<Rightarrow> (string, string) fmap \<times> string"
where
  "key_verification_mac env s sender senderDevice receiver receiverDevice transactionId keys =
     (let info = ''MATRIX_KEY_VERIFICATION_MAC'' @ sender @ senderDevice @ receiver
                 @ receiverDevice @ transactionId;
          ks = sorted_list_of_fmap keys
      in (mac_entries env s info ks fmempty,
          env_calculate_mac env s (mac_key_list ks True []) (info @ ''KEY_IDS'')))"

definition acceptDevice :: "'sas vf_env \<Rightarrow> 'sas flow \<Rightarrow> 'sas flow" where
  "acceptDevice env f =
     (if \<not> vf_isMacVerified f then setState WaitingForMac f
      else if vf_state f = WaitingForMac then
        let f1 = emits [MarkDeviceVerified (vf_toClient f) (vf_deviceId f)] f;
            f2 = setState Success (sendVerificationDone f1)
        in if env_user_id env = vf_toClient f2
              \<and> (env_secret env cross_signing_self_signing = None
                 \<or> env_secret env cross_signing_user_signing = None)
           then emits [RequestCrossSigningKeys] f2 else f2
      else f)"

definition own_key_list :: "'sas vf_env \<Rightarrow> 'sas flow \<Rightarrow> (string, string) fmap" where
  "own_key_list env f =
     (let kl = fmupd (''ed25519:'' @ env_device_id env) (env_identity_ed25519 env) fmempty
      in if vf_our_trusted_master_key f \<noteq> []
         then fmupd (''ed25519:'' @ vf_our_trusted_master_key f) (vf_our_trusted_master_key f) kl
         else kl)"

definition sendVerificationMac :: "'sas vf_env \<Rightarrow> 'sas flow \<Rightarrow> 'sas flow" where
  "sendVerificationMac env f =
     (if vf_macSent f then f
      else
        let (macs, keys) =
              key_verification_mac env (vf_sas f) (env_user_id env) (env_device_id env)
                (vf_toClient f) (vf_deviceId f) (vf_transaction_id f) (own_key_list env f)
        in acceptDevice env
             (setState WaitingForMac (send (MMac macs keys) (f\<lparr>vf_macSent := True\<rparr>))))"

section \<open>Handlers\<close>

text \<open>
  Every handler but the start handler drops a message that names another transaction, and lets
  a message through that names none at all.
\<close>

definition for_other :: "string option \<Rightarrow> string option \<Rightarrow> 'sas flow \<Rightarrow> bool" where
  "for_other txn ref f =
     (case txn of
        Some t \<Rightarrow> t \<noteq> vf_transaction_id f
      | None \<Rightarrow> (case ref of
                   Some r \<Rightarrow> r \<noteq> rel_event_id (vf_relation f)
                 | None \<Rightarrow> False))"

definition handle_accept :: "'sas vf_env \<Rightarrow> accept_msg \<Rightarrow> 'sas flow \<Rightarrow> 'sas flow" where
  "handle_accept env msg f =
     (if for_other (ac_transaction_id msg) (ac_references msg) f then f
      else if ac_key_agreement_protocol msg = ''curve25519-hkdf-sha256''
              \<and> ac_hash msg = ''sha256''
              \<and> ac_message_authentication_code msg = ''hkdf-hmac-sha256'' then
        sendVerificationKey env
          (f\<lparr>vf_commitment := ac_commitment msg,
             vf_method := (if Emoji \<in> set (ac_short_authentication_string msg)
                           then Emoji else Decimal),
             vf_mac_method := ac_message_authentication_code msg\<rparr>)
      else cancelVerification UnknownMethod f)"

definition handle_cancel :: "string option \<Rightarrow> string option \<Rightarrow> 'sas flow \<Rightarrow> 'sas flow" where
  "handle_cancel txn ref f =
     (if for_other txn ref f then f
      else setState Failed (emits [ErrorChanged] (f\<lparr>vf_error := User\<rparr>)))"

text \<open>The SAS info string; both sides must build the same one.\<close>

definition sas_info :: "'sas vf_env \<Rightarrow> string \<Rightarrow> 'sas flow \<Rightarrow> string" where
  "sas_info env key f =
     (if vf_sender f then
        ''MATRIX_KEY_VERIFICATION_SAS|'' @ env_user_id env @ ''|'' @ env_device_id env @ ''|''
        @ env_public_key env (vf_sas f) @ ''|'' @ vf_toClient f @ ''|'' @ vf_deviceId f @ ''|''
        @ key @ ''|'' @ vf_transaction_id f
      else
        ''MATRIX_KEY_VERIFICATION_SAS|'' @ vf_toClient f @ ''|'' @ vf_deviceId f @ ''|'' @ key
        @ ''|'' @ env_user_id env @ ''|'' @ env_device_id env @ ''|''
        @ env_public_key env (vf_sas f) @ ''|'' @ vf_transaction_id f)"

definition show_sas :: "'sas vf_env \<Rightarrow> string \<Rightarrow> 'sas flow \<Rightarrow> 'sas flow" where
  "show_sas env info f =
     (case vf_method f of
        Emoji \<Rightarrow> setState CompareEmoji
                   (f\<lparr>vf_sasList := env_generate_bytes_emoji env (vf_sas f) info\<rparr>)
      | Decimal \<Rightarrow> setState CompareNumber
                   (f\<lparr>vf_sasList := env_generate_bytes_decimal env (vf_sas f) info\<rparr>)
      | UnsupportedSAS \<Rightarrow> f)"

definition handle_key ::
  "'sas vf_env \<Rightarrow> string option \<Rightarrow> string option \<Rightarrow> string \<Rightarrow> 'sas flow \<Rightarrow> 'sas flow"
where
  "handle_key env txn ref key f =
     (if for_other txn ref f then f
      else if vf_sender f \<and> vf_state f \<noteq> WaitingForOtherToAccept \<and> vf_state f \<noteq> WaitingForKeys
      then cancelVerification OutOfOrder f
      else if \<not> vf_sender f \<and> vf_state f \<noteq> WaitingForKeys
      then cancelVerification OutOfOrder f
      else
        let f1 = f\<lparr>vf_sas := env_set_their_key env (vf_sas f) key\<rparr>;
            info = sas_info env key f1
        in if \<not> vf_sender f1 then show_sas env info (sendVerificationKey env f1)
           else if vf_commitment f1 \<noteq> env_sha256_base64 env (key @ vf_canonical_json f1)
           then cancelVerification MismatchedCommitment f1
           else show_sas env info f1)"

text \<open>
  The keys of the other side whose MACs a message claims: for each key id the device keys in map
  order, then the three cross-signing keys, each overwriting what was found before.
\<close>

definition claimed_key :: "user_key_cache \<Rightarrow> string \<Rightarrow> string option" where
  "claimed_key tk key_id =
     (let d = fold (\<lambda>(_, k) acc. case fmlookup (dk_keys k) key_id of
                                   Some v \<Rightarrow> Some v | None \<Rightarrow> acc)
                (sorted_list_of_fmap (uk_device_keys tk)) None;
          over = (\<lambda>c acc. case fmlookup (csk_keys c) key_id of Some v \<Rightarrow> Some v | None \<Rightarrow> acc)
      in over (uk_self_signing_keys tk)
           (over (uk_user_signing_keys tk) (over (uk_master_keys tk) d)))"

definition claimed_keys :: "user_key_cache \<Rightarrow> (string, string) fmap \<Rightarrow> (string, string) fmap" where
  "claimed_keys tk macs =
     fold (\<lambda>(key_id, _) kl. case claimed_key tk key_id of
                              Some v \<Rightarrow> fmupd key_id v kl | None \<Rightarrow> kl)
       (sorted_list_of_fmap macs) fmempty"

text \<open>A stripped copy of a key object with one new signature, as the handler builds it.\<close>

definition resign_cross ::
  "string \<Rightarrow> string \<Rightarrow> (string \<Rightarrow> string) \<Rightarrow> 'sas vf_env \<Rightarrow> cross_signing_keys \<Rightarrow> cross_signing_keys"
where
  "resign_cross user key_id sign env c =
     (let j = c\<lparr>csk_signatures := fmempty\<rparr>
      in j\<lparr>csk_signatures :=
             fmupd user (fmupd key_id (sign (env_dump_cross env j)) fmempty) fmempty\<rparr>)"

definition resign_device ::
  "string \<Rightarrow> string \<Rightarrow> (string \<Rightarrow> string) \<Rightarrow> 'sas vf_env \<Rightarrow> device_keys \<Rightarrow> device_keys"
where
  "resign_device user key_id sign env d =
     (let j = d\<lparr>dk_signatures := fmempty\<rparr>
      in j\<lparr>dk_signatures :=
             fmupd user (fmupd key_id (sign (env_dump_device env j)) fmempty) fmempty\<rparr>)"

text \<open>One turn of the signing loop when we verify our own user.\<close>

definition sign_own ::
  "'sas vf_env \<Rightarrow> 'sas flow \<Rightarrow> string \<Rightarrow> (string \<times> string, signed_key) fmap
    \<Rightarrow> (string \<times> string, signed_key) fmap"
where
  "sign_own env f key_id req =
     (let tk = vf_their_keys f; me = env_user_id env
      in case fmlookup (csk_keys (uk_master_keys tk)) key_id of
           Some mk \<Rightarrow>
             fmupd (me, mk)
               (SignedCross (resign_cross me (''ed25519:'' @ env_device_id env)
                               (env_sign_message env) env (uk_master_keys tk))) req
         | None \<Rightarrow>
             if key_id = ''ed25519:'' @ vf_deviceId f then
               (case fmlookup (uk_device_keys tk) (vf_deviceId f) of
                  None \<Rightarrow> req
                | Some d \<Rightarrow>
                    (case env_secret env cross_signing_self_signing of
                       None \<Rightarrow> req
                     | Some seed \<Rightarrow>
                         fmupd (me, vf_deviceId f)
                           (SignedDevice (resign_device me (''ed25519:'' @ env_pk_public_key env seed)
                                            (env_pk_sign env seed) env d)) req))
             else req)"

text \<open>One turn of the signing loop when we verify another user.\<close>

definition sign_other ::
  "'sas vf_env \<Rightarrow> 'sas flow \<Rightarrow> string \<Rightarrow> (string \<times> string, signed_key) fmap
    \<Rightarrow> (string \<times> string, signed_key) fmap"
where
  "sign_other env f key_id req =
     (let tk = vf_their_keys f
      in case fmlookup (csk_keys (uk_master_keys tk)) key_id of
           None \<Rightarrow> req
         | Some mk \<Rightarrow>
             (case env_secret env cross_signing_user_signing of
                None \<Rightarrow> req
              | Some seed \<Rightarrow>
                  fmupd (vf_toClient f, mk)
                    (SignedCross (resign_cross (env_user_id env)
                                    (''ed25519:'' @ env_pk_public_key env seed)
                                    (env_pk_sign env seed) env (uk_master_keys tk))) req))"

definition signatures_request ::
  "'sas vf_env \<Rightarrow> (string, string) fmap \<Rightarrow> 'sas flow \<Rightarrow> (string \<times> string, signed_key) fmap"
where
  "signatures_request env macs f =
     fold (\<lambda>(key_id, _). if env_user_id env = vf_toClient f then sign_own env f key_id
                          else sign_other env f key_id)
       (sorted_list_of_fmap macs) fmempty"

definition expected_macs :: "'sas vf_env \<Rightarrow> mac_msg \<Rightarrow> 'sas flow \<Rightarrow> (string, string) fmap \<times> string" where
  "expected_macs env msg f =
     key_verification_mac env (vf_sas f) (vf_toClient f) (vf_deviceId f)
       (env_user_id env) (env_device_id env) (vf_transaction_id f)
       (claimed_keys (vf_their_keys f) (mc_mac msg))"

text \<open>
  \<open>msg.mac.at(key)\<close> would throw for a missing key; every key of \<open>macs\<close> is a key of the message
  (lemma \<open>expected_macs_dom\<close>), so the lookup below is always \<open>Some\<close>.
\<close>

definition handle_mac :: "'sas vf_env \<Rightarrow> mac_msg \<Rightarrow> 'sas flow \<Rightarrow> 'sas flow" where
  "handle_mac env msg f =
     (if for_other (mc_transaction_id msg) (mc_references msg) f then f
      else
        let (macs, keys) = expected_macs env msg f
        in if list_ex (\<lambda>(k, m). fmlookup (mc_mac msg) k \<noteq> Some m) (sorted_list_of_fmap macs)
           then cancelVerification KeyMismatch f
           else if mc_keys msg = keys then
             let req = signatures_request env (mc_mac msg) f;
                 f1 = (if req \<noteq> fmempty then emits [UploadSignatures req] f else f)
             in acceptDevice env (f1\<lparr>vf_isMacVerified := True\<rparr>)
           else cancelVerification KeyMismatch f)"

definition handle_ready ::
  "'sas vf_env \<Rightarrow> string option \<Rightarrow> string option \<Rightarrow> string \<Rightarrow> 'sas flow \<Rightarrow> 'sas flow"
where
  "handle_ready env txn ref from_device f =
     (if \<not> vf_sender f then
        if from_device \<noteq> env_device_id env
        then setState Failed (emits [ErrorChanged] (f\<lparr>vf_error := User\<rparr>))
        else f
      else case txn of
        Some t \<Rightarrow>
          if t \<noteq> vf_transaction_id f then f
          else if vf_deviceId f = [] \<and> length (vf_deviceIds f) > 1
                  \<and> from_device \<in> set (vf_deviceIds f) then
            startVerificationRequest env
              ((emits [SendToDevice (vf_toClient f)
                         (fset_of_list (filter (\<lambda>d. d \<noteq> from_device) (vf_deviceIds f)))
                         (vf_transaction_id f) (MCancel ''m.user'' ''accepted by other device'')] f)
                 \<lparr>vf_deviceId := from_device, vf_deviceIds := [from_device]\<rparr>)
          else startVerificationRequest env f
      | None \<Rightarrow>
          (case ref of
             Some r \<Rightarrow>
               if r \<noteq> rel_event_id (vf_relation f) then f
               else startVerificationRequest env (f\<lparr>vf_deviceId := from_device\<rparr>)
           | None \<Rightarrow> f))"

definition handleStartMessage :: "'sas vf_env \<Rightarrow> start_msg \<Rightarrow> 'sas flow \<Rightarrow> 'sas flow" where
  "handleStartMessage env msg f =
     (if st_transaction_id msg = None \<and> references (st_relations msg) = None
         \<or> for_other (st_transaction_id msg) (references (st_relations msg)) f then f
      else if ''curve25519-hkdf-sha256'' \<in> set (st_key_agreement_protocols msg)
              \<and> ''sha256'' \<in> set (st_hashes msg)
              \<and> ''hkdf-hmac-sha256'' \<in> set (st_message_authentication_codes msg) then
        if Emoji \<notin> set (st_short_authentication_string msg)
           \<and> Decimal \<notin> set (st_short_authentication_string msg)
        then cancelVerification UnknownMethod f
        else
          let f1 = f\<lparr>vf_method := (if Emoji \<in> set (st_short_authentication_string msg)
                                   then Emoji else Decimal)\<rparr>;
              f2 = (if \<not> vf_sender f1 then f1\<lparr>vf_canonical_json := env_dump_start env msg\<rparr>
                    else if (vf_toClient f1, vf_deviceId f1) < (env_user_id env, env_device_id env)
                    then f1\<lparr>vf_canonical_json := env_dump_start env msg, vf_sender := False\<rparr>
                    else f1)
          in if vf_sender f1 \<and> st_method msg \<noteq> SASv1 then cancelVerification UnknownMethod f2
             else if vf_state f2 \<noteq> PromptStartVerification \<and> \<not> vf_sender f2
             then acceptVerificationRequest env f2
             else f2
      else cancelVerification UnknownMethod f)"

section \<open>Slots and constructors\<close>

definition next_slot :: "'sas vf_env \<Rightarrow> u64 \<Rightarrow> 'sas flow \<Rightarrow> 'sas flow" where
  "next_slot env now f =
     (if vf_sender f then
        (case vf_state f of
           PromptStartVerification \<Rightarrow> sendVerificationRequest env now f
         | CompareEmoji \<Rightarrow> sendVerificationMac env f
         | CompareNumber \<Rightarrow> sendVerificationMac env f
         | _ \<Rightarrow> f)
      else
        (case vf_state f of
           PromptStartVerification \<Rightarrow>
             if vf_canonical_json f = [] then sendVerificationReady env f
             else acceptVerificationRequest env f
         | CompareEmoji \<Rightarrow> sendVerificationMac env f
         | CompareNumber \<Rightarrow> sendVerificationMac env f
         | _ \<Rightarrow> f))"

definition unverify :: "'sas flow \<Rightarrow> 'sas flow" where
  "unverify f = emits [MarkDeviceUnverified (vf_toClient f) (vf_deviceId f), RefreshProfile] f"

definition handle_their_keys :: "user_key_cache \<Rightarrow> bool \<Rightarrow> 'sas flow \<Rightarrow> 'sas flow" where
  "handle_their_keys res err f =
     (if err then f
      else if vf_deviceId f \<noteq> [] \<and> vf_deviceId f |\<notin>| fmdom (uk_device_keys res) then f
      else f\<lparr>vf_their_keys := res\<rparr>)"

definition handle_our_keys ::
  "user_key_cache \<Rightarrow> bool \<Rightarrow> verification_status option \<Rightarrow> 'sas flow \<Rightarrow> 'sas flow"
where
  "handle_our_keys res err status f =
     (if err then f
      else case sorted_list_of_fmap (csk_keys (uk_master_keys res)) of
             [] \<Rightarrow> f
           | (_, mk) # _ \<Rightarrow>
               (case status of
                  Some st \<Rightarrow> if vs_user_verified st = Verified
                             then f\<lparr>vf_our_trusted_master_key := mk\<rparr> else f
                | None \<Rightarrow> f))"

definition handle_timeout :: "'sas flow \<Rightarrow> 'sas flow" where
  "handle_timeout f =
     (if vf_state f \<noteq> Success \<and> vf_state f \<noteq> Failed then cancelVerification Timeout f else f)"

definition handle_flow_event_id :: "string \<Rightarrow> 'sas flow \<Rightarrow> 'sas flow" where
  "handle_flow_event_id event_id f = (if vf_has_model f then setEventId event_id f else f)"

definition new_flow ::
  "'sas vf_env \<Rightarrow> flow_type \<Rightarrow> bool \<Rightarrow> string \<Rightarrow> string list \<Rightarrow> 'sas flow"
where
  "new_flow env flow_type has_model userID devices =
     \<lparr>vf_transaction_id = [], vf_sender = False, vf_type = flow_type, vf_toClient = userID,
      vf_deviceId = (case devices of [d] \<Rightarrow> d | _ \<Rightarrow> []), vf_deviceIds = devices,
      vf_our_trusted_master_key = [], vf_method = Emoji, vf_sas = env_sas_init env,
      vf_mac_method = [], vf_commitment = [], vf_canonical_json = [], vf_sasList = [],
      vf_their_keys = new_user_key_cache, vf_has_model = has_model,
      vf_relation = \<lparr>rel_type_of = UnsupportedRelation, rel_event_id = [], rel_key = None\<rparr>,
      vf_state = PromptStartVerification, vf_error = UnknownMethod, vf_isMacVerified = False,
      vf_keySent = False, vf_macSent = False, vf_acceptSent = False, vf_startSent = False,
      vf_log = []\<rparr>"

definition NewInRoomVerification ::
  "'sas vf_env \<Rightarrow> request_msg \<Rightarrow> string \<Rightarrow> string \<Rightarrow> 'sas flow"
where
  "NewInRoomVerification env msg other_user event_id =
     (let f = setEventId event_id (new_flow env RoomMsg True other_user [rq_from_device msg])
      in if SASv1 \<notin> set (rq_methods msg) then cancelVerification UnknownMethod f else f)"

definition NewToDeviceVerification ::
  "'sas vf_env \<Rightarrow> request_msg \<Rightarrow> string \<Rightarrow> string \<Rightarrow> 'sas flow"
where
  "NewToDeviceVerification env msg other_user txn_id =
     (let f = (new_flow env ToDevice False other_user [rq_from_device msg])\<lparr>vf_transaction_id := txn_id\<rparr>
      in if SASv1 \<notin> set (rq_methods msg) then cancelVerification UnknownMethod f else f)"

definition NewToDeviceVerificationStart ::
  "'sas vf_env \<Rightarrow> start_msg \<Rightarrow> string \<Rightarrow> string \<Rightarrow> 'sas flow"
where
  "NewToDeviceVerificationStart env msg other_user txn_id =
     handleStartMessage env msg
       ((new_flow env ToDevice False other_user [st_from_device msg])\<lparr>vf_transaction_id := txn_id\<rparr>)"

definition InitiateUserVerification :: "'sas vf_env \<Rightarrow> string \<Rightarrow> 'sas flow" where
  "InitiateUserVerification env userid =
     (new_flow env RoomMsg True userid [])\<lparr>vf_sender := True\<rparr>"

text \<open>\<open>assert(!devices.empty())\<close> is the \<open>None\<close> case.\<close>

definition InitiateDeviceVerification ::
  "'sas vf_env \<Rightarrow> string \<Rightarrow> string list \<Rightarrow> string \<Rightarrow> 'sas flow option"
where
  "InitiateDeviceVerification env userid devices txn_id =
     (if devices = [] then None
      else Some ((new_flow env ToDevice False userid devices)
                   \<lparr>vf_sender := True, vf_transaction_id := txn_id\<rparr>))"

section \<open>The flow as a machine\<close>

datatype flow_event =
    EvTheirKeys user_key_cache bool
  | EvOurKeys user_key_cache bool "verification_status option"
  | EvFlowEventId string
  | EvTimeout
  | EvStart start_msg
  | EvAccept accept_msg
  | EvCancel "string option" "string option"
  | EvKey "string option" "string option" string
  | EvMac mac_msg
  | EvReady "string option" "string option" string
  | EvDone
  | EvNext u64
  | EvUserCancel
  | EvUnverify

fun flow_step :: "'sas vf_env \<Rightarrow> 'sas flow \<Rightarrow> flow_event \<Rightarrow> 'sas flow" where
  "flow_step env f (EvTheirKeys res err) = handle_their_keys res err f"
| "flow_step env f (EvOurKeys res err st) = handle_our_keys res err st f"
| "flow_step env f (EvFlowEventId e) = handle_flow_event_id e f"
| "flow_step env f EvTimeout = handle_timeout f"
| "flow_step env f (EvStart m) = handleStartMessage env m f"
| "flow_step env f (EvAccept m) = handle_accept env m f"
| "flow_step env f (EvCancel t r) = handle_cancel t r f"
| "flow_step env f (EvKey t r k) = handle_key env t r k f"
| "flow_step env f (EvMac m) = handle_mac env m f"
| "flow_step env f (EvReady t r d) = handle_ready env t r d f"
| "flow_step env f EvDone = f"
| "flow_step env f (EvNext now) = next_slot env now f"
| "flow_step env f EvUserCancel = cancelVerification User f"
| "flow_step env f EvUnverify = unverify f"

text \<open>How a flow comes into being (the five static functions).\<close>

inductive created :: "'sas vf_env \<Rightarrow> 'sas flow \<Rightarrow> bool" for env where
  in_room: "created env (NewInRoomVerification env m u e)"
| to_device: "created env (NewToDeviceVerification env m u t)"
| to_device_start: "created env (NewToDeviceVerificationStart env sm u t)"
| initiate_user: "created env (InitiateUserVerification env u)"
| initiate_device: "InitiateDeviceVerification env u ds t = Some f \<Longrightarrow> created env f"

end
