(* ===== verification/Verification_Flow_Safety.thy ===== *)
theory Verification_Flow_Safety
  imports Verification_Flow
begin

text \<open>
  What no run of a verification flow can do: send a protocol message twice, or mark a device as
  verified before the user has confirmed the short authentication string and the other side's
  MACs have been checked. The invariant \<open>flow_inv\<close> is proved for every private operation, then
  for every handler, and lifted to runs by the machine locale of the prelude.
\<close>

section \<open>Counting effects\<close>

datatype effect_kind = KKey | KMac | KAccept | KStart | KVerified | KOther

fun msg_kind :: "flow_msg \<Rightarrow> effect_kind" where
  "msg_kind (MKey _) = KKey"
| "msg_kind (MMac _ _) = KMac"
| "msg_kind (MAccept _) = KAccept"
| "msg_kind (MStart _) = KStart"
| "msg_kind _ = KOther"

fun kind_of :: "flow_effect \<Rightarrow> effect_kind" where
  "kind_of (SendToDevice _ _ _ m) = msg_kind m"
| "kind_of (SendRoomEvent _ m) = msg_kind m"
| "kind_of (MarkDeviceVerified _ _) = KVerified"
| "kind_of _ = KOther"

definition emitted :: "effect_kind \<Rightarrow> 'sas flow \<Rightarrow> nat" where
  "emitted k f = count_list (map kind_of (vf_log f)) k"

definition flow_inv :: "'sas flow \<Rightarrow> bool" where
  "flow_inv f \<longleftrightarrow>
     emitted KKey f \<le> of_bool (vf_keySent f) \<and>
     emitted KMac f \<le> of_bool (vf_macSent f) \<and>
     emitted KAccept f \<le> of_bool (vf_acceptSent f) \<and>
     emitted KStart f \<le> of_bool (vf_startSent f) \<and>
     (vf_state f = WaitingForMac \<longrightarrow> vf_macSent f) \<and>
     (vf_state f = Success \<longrightarrow> vf_macSent f \<and> vf_isMacVerified f) \<and>
     emitted KVerified f \<le> of_bool (vf_macSent f \<and> vf_isMacVerified f \<and> vf_state f \<noteq> WaitingForMac)"

section \<open>What the primitive operations change\<close>

lemma emits_fields [simp]:
  "vf_state (emits es f) = vf_state f" "vf_keySent (emits es f) = vf_keySent f"
  "vf_macSent (emits es f) = vf_macSent f" "vf_acceptSent (emits es f) = vf_acceptSent f"
  "vf_startSent (emits es f) = vf_startSent f" "vf_isMacVerified (emits es f) = vf_isMacVerified f"
  "vf_sender (emits es f) = vf_sender f" "vf_toClient (emits es f) = vf_toClient f"
  "vf_deviceId (emits es f) = vf_deviceId f" "vf_error (emits es f) = vf_error f"
  "vf_log (emits es f) = vf_log f @ es"
  by (simp_all add: emits_def)

lemma setState_fields [simp]:
  "vf_state (setState s f) = s" "vf_keySent (setState s f) = vf_keySent f"
  "vf_macSent (setState s f) = vf_macSent f" "vf_acceptSent (setState s f) = vf_acceptSent f"
  "vf_startSent (setState s f) = vf_startSent f"
  "vf_isMacVerified (setState s f) = vf_isMacVerified f"
  "vf_sender (setState s f) = vf_sender f" "vf_toClient (setState s f) = vf_toClient f"
  "vf_deviceId (setState s f) = vf_deviceId f" "vf_error (setState s f) = vf_error f"
  by (simp_all add: setState_def)

lemma send_fields [simp]:
  "vf_state (send m f) = vf_state f" "vf_keySent (send m f) = vf_keySent f"
  "vf_macSent (send m f) = vf_macSent f" "vf_acceptSent (send m f) = vf_acceptSent f"
  "vf_startSent (send m f) = vf_startSent f" "vf_isMacVerified (send m f) = vf_isMacVerified f"
  "vf_sender (send m f) = vf_sender f" "vf_toClient (send m f) = vf_toClient f"
  "vf_deviceId (send m f) = vf_deviceId f" "vf_error (send m f) = vf_error f"
  by (simp_all add: send_def)

lemma emitted_emits: "emitted k (emits es f) = emitted k f + count_list (map kind_of es) k"
  by (simp add: emitted_def)

lemma emitted_cong: "vf_log f = vf_log g \<Longrightarrow> emitted k f = emitted k g"
  by (simp add: emitted_def)

lemma emitted_update [simp]:
  "emitted k (f\<lparr>vf_state := s\<rparr>) = emitted k f"
  "emitted k (f\<lparr>vf_keySent := b\<rparr>) = emitted k f"
  "emitted k (f\<lparr>vf_macSent := b\<rparr>) = emitted k f"
  "emitted k (f\<lparr>vf_acceptSent := b\<rparr>) = emitted k f"
  "emitted k (f\<lparr>vf_startSent := b\<rparr>) = emitted k f"
  "emitted k (f\<lparr>vf_startSent := b, vf_canonical_json := j\<rparr>) = emitted k f"
  "emitted k (f\<lparr>vf_isMacVerified := b\<rparr>) = emitted k f"
  by (rule emitted_cong; simp)+

lemma emitted_setState [simp]: "k \<noteq> KOther \<Longrightarrow> emitted k (setState s f) = emitted k f"
  by (auto simp: setState_def emitted_emits)

lemma emitted_send_other [simp]: "msg_kind m \<noteq> k \<Longrightarrow> emitted k (send m f) = emitted k f"
  by (auto simp: send_def emitted_emits)

lemma emitted_send_le: "emitted k (send m f) \<le> Suc (emitted k f)"
  by (auto simp: send_def emitted_emits)

text \<open>The shape of every guarded send: a flag that was down goes up and one message goes out.\<close>

lemma emitted_send_first: "emitted k f = 0 \<Longrightarrow> emitted k (send m f) \<le> Suc 0"
  using emitted_send_le [of k m f] by simp

section \<open>Fields the invariant does not read\<close>

lemma flow_inv_frame [simp]:
  "flow_inv (f\<lparr>vf_error := e\<rparr>) = flow_inv f"
  "flow_inv (f\<lparr>vf_commitment := s\<rparr>) = flow_inv f"
  "flow_inv (f\<lparr>vf_method := m\<rparr>) = flow_inv f"
  "flow_inv (f\<lparr>vf_mac_method := s\<rparr>) = flow_inv f"
  "flow_inv (f\<lparr>vf_sas := sa\<rparr>) = flow_inv f"
  "flow_inv (f\<lparr>vf_sasList := l\<rparr>) = flow_inv f"
  "flow_inv (f\<lparr>vf_canonical_json := s\<rparr>) = flow_inv f"
  "flow_inv (f\<lparr>vf_sender := b\<rparr>) = flow_inv f"
  "flow_inv (f\<lparr>vf_deviceId := s\<rparr>) = flow_inv f"
  "flow_inv (f\<lparr>vf_deviceIds := ds\<rparr>) = flow_inv f"
  "flow_inv (f\<lparr>vf_their_keys := tk\<rparr>) = flow_inv f"
  "flow_inv (f\<lparr>vf_our_trusted_master_key := s\<rparr>) = flow_inv f"
  "flow_inv (f\<lparr>vf_relation := r\<rparr>) = flow_inv f"
  "flow_inv (f\<lparr>vf_transaction_id := s\<rparr>) = flow_inv f"
  by (simp_all add: flow_inv_def emitted_def)

lemma flow_inv_emits [simp]:
  "\<forall>e \<in> set es. kind_of e = KOther \<Longrightarrow> flow_inv (emits es f) = flow_inv f"
proof -
  assume es: "\<forall>e \<in> set es. kind_of e = KOther"
  have "count_list (map kind_of es) k = 0" if "k \<noteq> KOther" for k
    using es that by (induction es) auto
  then show ?thesis by (simp add: flow_inv_def emitted_emits)
qed

lemma flow_inv_send_other [simp]: "msg_kind m = KOther \<Longrightarrow> flow_inv (send m f) = flow_inv f"
  by (simp add: send_def)

lemma flow_inv_setState:
  "flow_inv f \<Longrightarrow> s \<noteq> WaitingForMac \<Longrightarrow> s \<noteq> Success \<Longrightarrow> flow_inv (setState s f)"
  by (auto simp: flow_inv_def of_bool_def split: if_splits)

section \<open>The operations keep the invariant\<close>

lemma flow_inv_cancel: "flow_inv f \<Longrightarrow> flow_inv (cancelVerification e f)"
  by (simp add: cancelVerification_def flow_inv_setState)

lemma flow_inv_sendKey: "flow_inv f \<Longrightarrow> flow_inv (sendVerificationKey env f)"
  by (auto simp: sendVerificationKey_def flow_inv_def of_bool_def emitted_send_first split: if_splits)

lemma flow_inv_sendAccept:
  "flow_inv f \<Longrightarrow> \<not> vf_acceptSent f \<Longrightarrow> flow_inv (send (MAccept a) (f\<lparr>vf_acceptSent := True\<rparr>))"
  by (simp add: flow_inv_def emitted_send_first)

lemma flow_inv_accept: "flow_inv f \<Longrightarrow> flow_inv (acceptVerificationRequest env f)"
  by (simp add: acceptVerificationRequest_def Let_def flow_inv_setState flow_inv_sendAccept)

lemma flow_inv_sendStart:
  "flow_inv f \<Longrightarrow> \<not> vf_startSent f \<Longrightarrow>
   flow_inv (send (MStart a) (f\<lparr>vf_startSent := True, vf_canonical_json := j\<rparr>))"
  by (simp add: flow_inv_def emitted_send_first)

lemma flow_inv_start: "flow_inv f \<Longrightarrow> flow_inv (startVerificationRequest env f)"
  by (simp add: startVerificationRequest_def Let_def flow_inv_setState flow_inv_sendStart)

lemma flow_inv_ready: "flow_inv f \<Longrightarrow> flow_inv (sendVerificationReady env f)"
  by (simp add: sendVerificationReady_def flow_inv_setState)

lemma flow_inv_request: "flow_inv f \<Longrightarrow> flow_inv (sendVerificationRequest env now f)"
  by (simp add: sendVerificationRequest_def Let_def flow_inv_setState)

text \<open>
  The confirmed mark: with the MACs sent and verified, \<open>acceptDevice\<close> goes from \<open>WaitingForMac\<close>
  to \<open>Success\<close> and marks the device, once.
\<close>

lemma flow_inv_waiting:
  "flow_inv f \<Longrightarrow> vf_macSent f \<Longrightarrow> emitted KVerified f = 0 \<Longrightarrow> flow_inv (setState WaitingForMac f)"
  by (simp add: flow_inv_def)

lemma flow_inv_success:
  "flow_inv f \<Longrightarrow> vf_isMacVerified f \<Longrightarrow> vf_state f = WaitingForMac \<Longrightarrow>
   flow_inv (setState Success (sendVerificationDone (emits [MarkDeviceVerified u d] f)))"
  by (auto simp: flow_inv_def of_bool_def sendVerificationDone_def emitted_emits split: if_splits)

lemma flow_inv_acceptDevice:
  "flow_inv f \<Longrightarrow> vf_macSent f \<and> emitted KVerified f = 0 \<or> vf_isMacVerified f \<Longrightarrow>
   flow_inv (acceptDevice env f)"
  by (auto simp: acceptDevice_def Let_def flow_inv_success flow_inv_waiting)

lemma flow_inv_sendMac: "flow_inv f \<Longrightarrow> flow_inv (sendVerificationMac env f)"
proof (cases "vf_macSent f")
  case False
  assume f: "flow_inv f"
  have "flow_inv (setState WaitingForMac (send (MMac m k) (f\<lparr>vf_macSent := True\<rparr>)))" for m k
    using f False by (simp add: flow_inv_def emitted_send_first)
  moreover have "emitted KVerified f = 0" using f False by (simp add: flow_inv_def)
  ultimately show ?thesis
    using False by (simp add: sendVerificationMac_def flow_inv_acceptDevice split: prod.split)
qed (simp add: sendVerificationMac_def)

lemmas flow_inv_intros =
  flow_inv_cancel flow_inv_sendKey flow_inv_accept flow_inv_start flow_inv_ready flow_inv_request
  flow_inv_sendMac flow_inv_setState

section \<open>The handlers keep the invariant\<close>

lemma flow_inv_show_sas: "flow_inv f \<Longrightarrow> flow_inv (show_sas env info f)"
  by (simp add: show_sas_def flow_inv_setState split: sas_method.split)

lemma flow_inv_handle_accept: "flow_inv f \<Longrightarrow> flow_inv (handle_accept env m f)"
  by (simp add: handle_accept_def flow_inv_intros)

lemma flow_inv_handle_cancel: "flow_inv f \<Longrightarrow> flow_inv (handle_cancel t r f)"
  by (simp add: handle_cancel_def flow_inv_intros)

lemma flow_inv_handle_key: "flow_inv f \<Longrightarrow> flow_inv (handle_key env t r k f)"
  by (simp add: handle_key_def Let_def flow_inv_intros flow_inv_show_sas)

lemma flow_inv_isMacVerified: "flow_inv f \<Longrightarrow> flow_inv (f\<lparr>vf_isMacVerified := True\<rparr>)"
  by (simp add: flow_inv_def of_bool_def split: if_splits)

lemma flow_inv_handle_mac: "flow_inv f \<Longrightarrow> flow_inv (handle_mac env m f)"
  by (simp add: handle_mac_def Let_def flow_inv_cancel flow_inv_acceptDevice
      flow_inv_isMacVerified split: prod.split)

lemma flow_inv_handle_ready: "flow_inv f \<Longrightarrow> flow_inv (handle_ready env t r d f)"
  by (simp add: handle_ready_def flow_inv_intros split: option.split)

lemma flow_inv_handleStart: "flow_inv f \<Longrightarrow> flow_inv (handleStartMessage env m f)"
  by (simp add: handleStartMessage_def Let_def flow_inv_intros)

lemma flow_inv_next: "flow_inv f \<Longrightarrow> flow_inv (next_slot env now f)"
  by (simp add: next_slot_def flow_inv_intros split: flow_state.split)

lemma flow_inv_keys:
  "flow_inv f \<Longrightarrow> flow_inv (handle_their_keys res err f)"
  "flow_inv f \<Longrightarrow> flow_inv (handle_our_keys res err st f)"
  by (auto simp: handle_their_keys_def handle_our_keys_def split: list.split option.split)

lemma flow_inv_step: "flow_inv f \<Longrightarrow> flow_inv (flow_step env f ev)"
  by (cases ev)
    (simp_all add: flow_inv_keys flow_inv_handle_accept flow_inv_handle_cancel flow_inv_handle_key
      flow_inv_handle_mac flow_inv_handle_ready flow_inv_handleStart flow_inv_next flow_inv_cancel
      handle_timeout_def handle_flow_event_id_def setEventId_def unverify_def)

lemma flow_inv_new [simp]: "flow_inv (new_flow env ty hm u ds)"
  by (simp add: new_flow_def flow_inv_def emitted_def)

lemma flow_inv_created: "created env f \<Longrightarrow> flow_inv f"
  by (induction rule: created.induct)
    (auto simp: NewInRoomVerification_def NewToDeviceVerification_def setEventId_def
      NewToDeviceVerificationStart_def InitiateUserVerification_def InitiateDeviceVerification_def
      Let_def flow_inv_cancel flow_inv_handleStart split: if_splits)

section \<open>The flow is an invariant machine\<close>

interpretation vfm: invariant_machine "flow_step env" flow_inv
  by unfold_locales (rule flow_inv_step)

section \<open>Which event raises which flag\<close>

lemma op_flags [simp]:
  "vf_macSent (cancelVerification e f) = vf_macSent f"
  "vf_macSent (sendVerificationKey env f) = vf_macSent f"
  "vf_macSent (acceptVerificationRequest env f) = vf_macSent f"
  "vf_macSent (startVerificationRequest env f) = vf_macSent f"
  "vf_macSent (sendVerificationReady env f) = vf_macSent f"
  "vf_macSent (sendVerificationRequest env now f) = vf_macSent f"
  "vf_macSent (acceptDevice env f) = vf_macSent f"
  "vf_macSent (show_sas env info f) = vf_macSent f"
  "vf_isMacVerified (cancelVerification e f) = vf_isMacVerified f"
  "vf_isMacVerified (sendVerificationKey env f) = vf_isMacVerified f"
  "vf_isMacVerified (acceptVerificationRequest env f) = vf_isMacVerified f"
  "vf_isMacVerified (startVerificationRequest env f) = vf_isMacVerified f"
  "vf_isMacVerified (sendVerificationReady env f) = vf_isMacVerified f"
  "vf_isMacVerified (sendVerificationRequest env now f) = vf_isMacVerified f"
  "vf_isMacVerified (acceptDevice env f) = vf_isMacVerified f"
  "vf_isMacVerified (sendVerificationMac env f) = vf_isMacVerified f"
  "vf_isMacVerified (show_sas env info f) = vf_isMacVerified f"
  by (simp_all add: cancelVerification_def sendVerificationKey_def acceptVerificationRequest_def
      startVerificationRequest_def sendVerificationReady_def sendVerificationRequest_def
      acceptDevice_def sendVerificationDone_def sendVerificationMac_def show_sas_def Let_def
      split: sas_method.split prod.split)

lemma op_states [simp]:
  "vf_state (cancelVerification e f) = (if vf_state f = Success then Success else Failed)"
  "vf_state (sendVerificationKey env f) = vf_state f"
  "vf_state (acceptVerificationRequest env f) =
     (if vf_acceptSent f then vf_state f else WaitingForKeys)"
  "vf_state (startVerificationRequest env f) =
     (if vf_startSent f then vf_state f else WaitingForOtherToAccept)"
  "vf_state (sendVerificationReady env f) = WaitingForKeys"
  "vf_state (sendVerificationRequest env now f) = WaitingForOtherToAccept"
  "vf_state (acceptDevice env f) =
     (if vf_isMacVerified f then if vf_state f = WaitingForMac then Success else vf_state f
      else WaitingForMac)"
  "vf_state (sendVerificationMac env f) =
     (if vf_macSent f then vf_state f
      else if vf_isMacVerified f then Success else WaitingForMac)"
  by (simp_all add: cancelVerification_def sendVerificationKey_def acceptVerificationRequest_def
      startVerificationRequest_def sendVerificationReady_def sendVerificationRequest_def
      acceptDevice_def sendVerificationDone_def sendVerificationMac_def Let_def
      split: prod.split)

lemmas handler_defs =
  handle_their_keys_def handle_our_keys_def handle_flow_event_id_def handle_timeout_def
  handleStartMessage_def handle_accept_def handle_cancel_def handle_key_def handle_mac_def
  handle_ready_def next_slot_def unverify_def setEventId_def

text \<open>A MAC message the handler accepts: for this transaction, with every MAC of a known key right.\<close>

definition macs_match :: "'sas vf_env \<Rightarrow> mac_msg \<Rightarrow> 'sas flow \<Rightarrow> bool" where
  "macs_match env m f \<longleftrightarrow>
     \<not> for_other (mc_transaction_id m) (mc_references m) f \<and>
     fmsubset (fst (expected_macs env m f)) (mc_mac m) \<and>
     mc_keys m = snd (expected_macs env m f)"

lemma list_ex_mismatch:
  "list_ex (\<lambda>(k, v). fmlookup m k \<noteq> Some v) (sorted_list_of_fmap n) \<longleftrightarrow> \<not> fmsubset n m"
  by (auto simp: list_ex_iff fmsubset_alt_def fmpred_iff)

lemma mac_verified_raised:
  assumes "\<not> vf_isMacVerified f" and "vf_isMacVerified (flow_step env f ev)"
  shows "\<exists>m. ev = EvMac m \<and> macs_match env m f"
  using assms
  by (cases ev)
    (auto simp: handler_defs Let_def list_ex_mismatch macs_match_def
      split: if_splits option.splits list.splits flow_state.splits prod.splits)

lemma mac_sent_raised:
  assumes "\<not> vf_macSent f" and "vf_macSent (flow_step env f ev)"
  shows "(\<exists>now. ev = EvNext now) \<and> vf_state f \<in> {CompareEmoji, CompareNumber}"
  using assms
  by (cases ev)
    (auto simp: handler_defs Let_def
      split: if_splits option.splits list.splits flow_state.splits prod.splits)

lemma compare_raised:
  assumes "vf_state f \<notin> {CompareEmoji, CompareNumber}"
    and "vf_state (flow_step env f ev) \<in> {CompareEmoji, CompareNumber}"
  shows "\<exists>t r key. ev = EvKey t r key \<and> \<not> for_other t r f \<and>
           (vf_sender f \<longrightarrow> vf_commitment f = env_sha256_base64 env (key @ vf_canonical_json f))"
  using assms
  by (cases ev)
    (auto simp: handler_defs Let_def
      split: if_splits option.splits list.splits flow_state.splits prod.splits)

section \<open>A concrete environment\<close>

text \<open>
  The parameters instantiated by concrete functions: a key exchange whose shared secret is the two
  seeds in order, a MAC that is the concatenation of its inputs, the identity as hash. The
  witnesses run flows in it.
\<close>

definition demo_env :: "string \<Rightarrow> string \<Rightarrow> string \<Rightarrow> (string \<times> string) vf_env" where
  "demo_env user device seed =
     \<lparr>env_user_id = user, env_device_id = device, env_identity_ed25519 = device @ ''-key'',
      env_sas_init = (seed, []), env_public_key = fst,
      env_set_their_key = (\<lambda>s k. (fst s, if fst s < k then fst s @ k else k @ fst s)),
      env_generate_bytes_emoji = (\<lambda>s info. [of_nat (length (snd s)), of_nat (length info)]),
      env_generate_bytes_decimal = (\<lambda>s info. [of_nat (length info)]),
      env_calculate_mac = (\<lambda>s key info. snd s @ '':'' @ key @ '':'' @ info),
      env_sha256_base64 = (\<lambda>s. s), env_dump_start = st_from_device,
      env_dump_cross = (\<lambda>c. ''cross''), env_dump_device = dk_device_id,
      env_sign_message = (\<lambda>s. s), env_pk_public_key = (\<lambda>s. s), env_pk_sign = (\<lambda>k s. k @ s),
      env_secret = (\<lambda>_. None)\<rparr>"

definition demo_start :: "string \<Rightarrow> start_msg" where
  "demo_start device =
     \<lparr>st_transaction_id = Some ''t'', st_relations = [], st_from_device = device,
      st_method = SASv1, st_key_agreement_protocols = [''curve25519-hkdf-sha256''],
      st_hashes = [''sha256''], st_message_authentication_codes = [''hkdf-hmac-sha256''],
      st_short_authentication_string = [Emoji]\<rparr>"

definition demo_accept :: accept_msg where
  "demo_accept =
     \<lparr>ac_transaction_id = Some ''t'', ac_references = None, ac_method = SASv1,
      ac_key_agreement_protocol = ''curve25519-hkdf-sha256'', ac_hash = ''sha256'',
      ac_message_authentication_code = ''hkdf-hmac-sha256'',
      ac_short_authentication_string = [Emoji], ac_commitment = ''kbA''\<rparr>"

text \<open>The keys of user \<open>u\<close> with the one device \<open>d\<close> whose key is \<open>d-key\<close>.\<close>

definition demo_keys :: "string \<Rightarrow> string \<Rightarrow> user_key_cache" where
  "demo_keys u d =
     new_user_key_cache\<lparr>uk_device_keys :=
       fmupd d \<lparr>dk_user_id = u, dk_device_id = d,
                 dk_keys = fmupd (''ed25519:'' @ d) (d @ ''-key'') fmempty,
                 dk_signatures = fmempty\<rparr> fmempty\<rparr>"

text \<open>Device A of user a starts a verification of device B of user b, and it succeeds.\<close>

definition demo_initiator :: "(string \<times> string) flow" where
  "demo_initiator = the (InitiateDeviceVerification (demo_env ''a'' ''A'' ''ka'') ''b'' [''B''] ''t'')"

definition demo_mac_info :: string where
  "demo_mac_info = ''MATRIX_KEY_VERIFICATION_MACbBaAt''"

definition demo_mac :: mac_msg where
  "demo_mac =
     \<lparr>mc_transaction_id = Some ''t'', mc_references = None,
      mc_mac = fmupd ''ed25519:B'' (''kakb:B-key:'' @ demo_mac_info @ ''ed25519:B'') fmempty,
      mc_keys = ''kakb:ed25519:B:'' @ demo_mac_info @ ''KEY_IDS''\<rparr>"

definition demo_events :: "flow_event list" where
  "demo_events =
     [EvTheirKeys (demo_keys ''b'' ''B'') False, EvNext 0, EvReady (Some ''t'') None ''B'',
      EvAccept demo_accept, EvKey (Some ''t'') None ''kb'', EvNext 0, EvMac demo_mac]"

lemma demo_created: "created (demo_env ''a'' ''A'' ''ka'') demo_initiator"
proof -
  have "InitiateDeviceVerification (demo_env ''a'' ''A'' ''ka'') ''b'' [''B''] ''t'' =
          Some demo_initiator"
    by (simp add: demo_initiator_def InitiateDeviceVerification_def)
  then show ?thesis by (rule created.initiate_device)
qed

lemma demo_success:
  "MarkDeviceVerified ''b'' ''B''
     \<in> set (vf_log (run (flow_step (demo_env ''a'' ''A'' ''ka'')) demo_initiator demo_events))"
  by code_simp

section \<open>Properties\<close>

lemma created_flags:
  assumes "created env f"
  shows "\<not> vf_macSent f" "\<not> vf_isMacVerified f" "vf_state f \<notin> {CompareEmoji, CompareNumber}"
  using assms
  by (induction rule: created.induct)
    (auto simp: NewInRoomVerification_def NewToDeviceVerification_def setEventId_def new_flow_def
      NewToDeviceVerificationStart_def InitiateUserVerification_def InitiateDeviceVerification_def
      handleStartMessage_def Let_def split: if_splits)

lemma emitted_pos: "x \<in> set (vf_log f) \<Longrightarrow> 0 < emitted (kind_of x) f"
  by (force simp: emitted_def count_list_0_iff simp flip: neq0_conv)

text \<open>C1: In every run of a verification flow, a device is only ever marked as verified after the
  user confirmed the short authentication string while it was on display, and after a MAC message
  of this transaction was accepted in which the MAC of every known claimed key and of the list of
  key ids is right; and it is marked once.\<close>

theorem verified_device_was_confirmed:
  assumes "created env f"
    and "MarkDeviceVerified u d \<in> set (vf_log (run (flow_step env) f evs))"
  shows "(\<exists>pre now post. evs = pre @ EvNext now # post
            \<and> vf_state (run (flow_step env) f pre) \<in> {CompareEmoji, CompareNumber})
       \<and> (\<exists>pre m post. evs = pre @ EvMac m # post
            \<and> macs_match env m (run (flow_step env) f pre))
       \<and> emitted KVerified (run (flow_step env) f evs) = 1"
proof -
  let ?g = "run (flow_step env) f evs"
  have "flow_inv ?g" using assms(1) by (intro vfm.run_inv flow_inv_created)
  moreover have "0 < emitted KVerified ?g" using emitted_pos [OF assms(2)] by simp
  ultimately have g: "vf_macSent ?g" "vf_isMacVerified ?g" "emitted KVerified ?g = 1"
    by (auto simp: flow_inv_def of_bool_def split: if_splits)
  have "\<exists>pre now post. evs = pre @ EvNext now # post
          \<and> vf_state (run (flow_step env) f pre) \<in> {CompareEmoji, CompareNumber}"
    using run_raises [of vf_macSent "flow_step env" f evs] g(1) created_flags(1) [OF assms(1)]
    by (metis mac_sent_raised)
  moreover have "\<exists>pre m post. evs = pre @ EvMac m # post
          \<and> macs_match env m (run (flow_step env) f pre)"
    using run_raises [of vf_isMacVerified "flow_step env" f evs] g(2) created_flags(2) [OF assms(1)]
    by (metis mac_verified_raised)
  ultimately show ?thesis using g(3) by blast
qed

theorem verified_device_was_confirmed_witness:
  "\<exists>pre m post. demo_events = pre @ EvMac m # post
     \<and> macs_match (demo_env ''a'' ''A'' ''ka'') m
         (run (flow_step (demo_env ''a'' ''A'' ''ka'')) demo_initiator pre)"
  using verified_device_was_confirmed [OF demo_created demo_success] by blast

text \<open>C2: Whatever messages arrive in whatever order, a flow sends at most one key, one MAC, one
  accept and one start message, and reaches \<open>Success\<close> only with its own MACs sent and the other
  side's verified.\<close>

theorem protocol_messages_sent_once:
  assumes "created env f" and "k \<in> {KKey, KMac, KAccept, KStart, KVerified}"
  shows "emitted k (run (flow_step env) f evs) \<le> 1
       \<and> (vf_state (run (flow_step env) f evs) = Success \<longrightarrow>
            vf_macSent (run (flow_step env) f evs) \<and> vf_isMacVerified (run (flow_step env) f evs))"
proof -
  have "flow_inv (run (flow_step env) f evs)"
    using assms(1) by (intro vfm.run_inv flow_inv_created)
  then show ?thesis using assms(2) by (auto simp: flow_inv_def of_bool_def split: if_splits)
qed

theorem protocol_messages_sent_once_witness:
  "emitted KMac (run (flow_step (demo_env ''a'' ''A'' ''ka'')) demo_initiator demo_events) \<le> 1
   \<and> vf_state (run (flow_step (demo_env ''a'' ''A'' ''ka'')) demo_initiator demo_events) = Success"
proof
  show "emitted KMac (run (flow_step (demo_env ''a'' ''A'' ''ka'')) demo_initiator demo_events) \<le> 1"
    using protocol_messages_sent_once [OF demo_created, of KMac] by blast
  show "vf_state (run (flow_step (demo_env ''a'' ''A'' ''ka'')) demo_initiator demo_events) = Success"
    by code_simp
qed


lemma demo_compare:
  "vf_state (run (flow_step (demo_env ''a'' ''A'' ''ka'')) demo_initiator (take 5 demo_events))
     \<in> {CompareEmoji, CompareNumber}"
  by code_simp


end
