(* ===== verification/Verification_Flow_Agreement.thy ===== *)
theory Verification_Flow_Agreement
  imports Verification_Flow_Safety
begin

text \<open>
  Two flows talking to each other: what the two ends of one verification agree on. The MAC message
  one end builds is the one the other end expects, both ends build the same SAS info string, and
  when both ends sent a start message exactly one of the two start messages is dropped. Then the
  isolation of a flow from the messages of others, and where the code does not isolate it.
\<close>

section \<open>MACs\<close>

lemma mac_entries_lookup:
  assumes "distinct (map fst ks)"
  shows "fmlookup (mac_entries env s info ks m) k =
    (case map_of ks k of Some v \<Rightarrow> Some (env_calculate_mac env s v (info @ k))
                       | None \<Rightarrow> fmlookup m k)"
  using assms
proof (induction ks arbitrary: m)
  case Nil
  then show ?case by simp
next
  case (Cons p ks)
  obtain id v where p: "p = (id, v)" by (cases p)
  then have "map_of ks id = None" using Cons.prems by (simp add: map_of_eq_None_iff)
  then show ?case using Cons p by (auto split: option.split)
qed

lemma map_of_sorted_list_of_fmap [simp]: "map_of (sorted_list_of_fmap m) k = fmlookup m k"
proof (cases "fmlookup m k")
  case None
  then show ?thesis by (simp add: map_of_eq_None_iff map_fst_sorted_list_of_fmap fmlookup_dom_iff)
next
  case (Some v)
  then have "(k, v) \<in> set (sorted_list_of_fmap m)" by simp
  then show ?thesis using Some distinct_sorted_list_of_fmap map_of_is_SomeI by metis
qed

lemma key_verification_mac_lookup:
  "fmlookup (fst (key_verification_mac env s u d u' d' t keys)) k =
     map_option (\<lambda>v. env_calculate_mac env s v
                       (''MATRIX_KEY_VERIFICATION_MAC'' @ u @ d @ u' @ d' @ t @ k)) (fmlookup keys k)"
  by (simp add: key_verification_mac_def Let_def mac_entries_lookup distinct_sorted_list_of_fmap
      split: option.split)

lemma key_verification_mac_dom:
  "fmdom (fst (key_verification_mac env s u d u' d' t keys)) = fmdom keys"
  by (rule fset_eqI) (simp add: fmlookup_dom_iff key_verification_mac_lookup)

lemma fold_claimed:
  "fmlookup (fold (\<lambda>(k, _) kl. case claimed_key tk k of Some v \<Rightarrow> fmupd k v kl | None \<Rightarrow> kl) xs kl) k =
    (if k \<in> fst ` set xs then (case claimed_key tk k of Some v \<Rightarrow> Some v | None \<Rightarrow> fmlookup kl k)
     else fmlookup kl k)"
  by (induction xs arbitrary: kl) (auto split: option.split)

lemma claimed_keys_lookup:
  "fmlookup (claimed_keys tk macs) k = (if k |\<in>| fmdom macs then claimed_key tk k else None)"
proof -
  have "k \<in> fst ` set (sorted_list_of_fmap macs) \<longleftrightarrow> k |\<in>| fmdom macs"
    by (force simp: fmlookup_dom_iff)
  then show ?thesis
    unfolding claimed_keys_def fold_claimed by (simp split: option.split)
qed

text \<open>Every key of the expected MACs is a key of the message: \<open>msg.mac.at(key)\<close> cannot throw.\<close>

lemma expected_macs_dom: "fmdom (fst (expected_macs env msg f)) |\<subseteq>| fmdom (mc_mac msg)"
  by (auto simp: expected_macs_def key_verification_mac_dom fmlookup_dom_iff claimed_keys_lookup
      split: if_splits)

lemma key_verification_mac_cong:
  assumes "\<And>k i. env_calculate_mac env s k i = env_calculate_mac env' s' k i"
  shows "key_verification_mac env s u d u' d' t keys = key_verification_mac env' s' u d u' d' t keys"
proof -
  have "mac_entries env s info ks m = mac_entries env' s' info ks m" for info ks m
    by (induction ks arbitrary: m) (auto simp: assms)
  then show ?thesis by (simp add: key_verification_mac_def Let_def assms)
qed

section \<open>The two ends\<close>

text \<open>\<open>f\<close> in \<open>env\<close> and \<open>g\<close> in \<open>env'\<close> are the two ends of one verification.\<close>

definition mirrored :: "'s vf_env \<Rightarrow> 's flow \<Rightarrow> 's vf_env \<Rightarrow> 's flow \<Rightarrow> bool" where
  "mirrored env f env' g \<longleftrightarrow>
     vf_toClient f = env_user_id env' \<and> vf_deviceId f = env_device_id env' \<and>
     vf_toClient g = env_user_id env \<and> vf_deviceId g = env_device_id env \<and>
     vf_transaction_id f = vf_transaction_id g"

text \<open>The key exchange worked: both ends compute the same MACs (a property of the SAS object).\<close>

definition same_secret :: "'s vf_env \<Rightarrow> 's flow \<Rightarrow> 's vf_env \<Rightarrow> 's flow \<Rightarrow> bool" where
  "same_secret env f env' g \<longleftrightarrow>
     (\<forall>k i. env_calculate_mac env (vf_sas f) k i = env_calculate_mac env' (vf_sas g) k i)"

text \<open>The MAC message \<open>sendVerificationMac\<close> sends from \<open>g\<close>, as a received message.\<close>

definition mac_from :: "'s vf_env \<Rightarrow> 's flow \<Rightarrow> mac_msg" where
  "mac_from env' g =
     (let (macs, keys) =
            key_verification_mac env' (vf_sas g) (env_user_id env') (env_device_id env')
              (vf_toClient g) (vf_deviceId g) (vf_transaction_id g) (own_key_list env' g)
      in \<lparr>mc_transaction_id = Some (vf_transaction_id g), mc_references = None,
          mc_mac = macs, mc_keys = keys\<rparr>)"

lemma mac_from_simps:
  "mc_mac (mac_from env' g) =
     fst (key_verification_mac env' (vf_sas g) (env_user_id env') (env_device_id env')
           (vf_toClient g) (vf_deviceId g) (vf_transaction_id g) (own_key_list env' g))"
  "mc_keys (mac_from env' g) =
     snd (key_verification_mac env' (vf_sas g) (env_user_id env') (env_device_id env')
           (vf_toClient g) (vf_deviceId g) (vf_transaction_id g) (own_key_list env' g))"
  "mc_transaction_id (mac_from env' g) = Some (vf_transaction_id g)"
  "mc_references (mac_from env' g) = None"
  by (simp_all add: mac_from_def Let_def split: prod.split)

lemma claimed_own_keys:
  assumes "\<And>k v. fmlookup (own_key_list env' g) k = Some v \<Longrightarrow> claimed_key tk k = Some v"
  shows "claimed_keys tk (mc_mac (mac_from env' g)) = own_key_list env' g"
proof (rule fmap_ext)
  fix k
  show "fmlookup (claimed_keys tk (mc_mac (mac_from env' g))) k = fmlookup (own_key_list env' g) k"
  proof (cases "fmlookup (own_key_list env' g) k")
    case (Some v)
    then show ?thesis
      using assms [OF Some]
      by (simp add: claimed_keys_lookup mac_from_simps key_verification_mac_dom fmlookup_dom_iff)
  qed (simp add: claimed_keys_lookup mac_from_simps key_verification_mac_dom fmlookup_dom_iff)
qed

lemma macs_match_mirrored:
  assumes "mirrored env f env' g" and "same_secret env f env' g"
    and "\<And>k v. fmlookup (own_key_list env' g) k = Some v \<Longrightarrow> claimed_key (vf_their_keys f) k = Some v"
  shows "macs_match env (mac_from env' g) f"
proof -
  have "claimed_keys (vf_their_keys f) (mc_mac (mac_from env' g)) = own_key_list env' g"
    by (rule claimed_own_keys) (rule assms(3))
  then have "expected_macs env (mac_from env' g) f =
          key_verification_mac env' (vf_sas g) (env_user_id env') (env_device_id env')
            (vf_toClient g) (vf_deviceId g) (vf_transaction_id g) (own_key_list env' g)"
    using assms(1,2)
    by (simp add: expected_macs_def mirrored_def same_secret_def
        key_verification_mac_cong [of env "vf_sas f" env' "vf_sas g"])
  then show ?thesis
    using assms(1) by (simp add: macs_match_def mac_from_simps for_other_def mirrored_def)
qed

lemma handle_mac_match:
  "macs_match env m f \<Longrightarrow>
   vf_isMacVerified (handle_mac env m f) \<and>
   vf_state (handle_mac env m f) = (if vf_state f = WaitingForMac then Success else vf_state f)"
  by (auto simp: handle_mac_def macs_match_def list_ex_mismatch Let_def split: prod.split)

lemma handle_mac_mismatch:
  "\<not> macs_match env m f \<Longrightarrow> \<not> for_other (mc_transaction_id m) (mc_references m) f \<Longrightarrow>
   handle_mac env m f = cancelVerification KeyMismatch f"
  by (auto simp: handle_mac_def macs_match_def list_ex_mismatch Let_def split: prod.split)

section \<open>Properties\<close>

text \<open>C4: The MAC round trip. If the two ends share the secret of the key exchange and this end
  knows the other's keys, the MAC message the other end sends is accepted: the MACs are marked
  verified, and a flow that waits for them succeeds.\<close>

theorem mac_roundtrip:
  assumes "mirrored env f env' g" and "same_secret env f env' g"
    and "\<And>k v. fmlookup (own_key_list env' g) k = Some v \<Longrightarrow> claimed_key (vf_their_keys f) k = Some v"
  shows "vf_isMacVerified (handle_mac env (mac_from env' g) f)
       \<and> vf_state (handle_mac env (mac_from env' g) f) =
           (if vf_state f = WaitingForMac then Success else vf_state f)"
  by (rule handle_mac_match) (rule macs_match_mirrored [OF assms])

definition demo_waiting :: "(string \<times> string) flow" where
  "demo_waiting = run (flow_step (demo_env ''a'' ''A'' ''ka'')) demo_initiator (take 6 demo_events)"

definition demo_responder :: "(string \<times> string) flow" where
  "demo_responder =
     run (flow_step (demo_env ''b'' ''B'' ''kb''))
       (NewToDeviceVerificationStart (demo_env ''b'' ''B'' ''kb'') (demo_start ''A'') ''a'' ''t'')
       [EvNext 0, EvKey (Some ''t'') None ''ka'']"

lemma demo_mirrored:
  "mirrored (demo_env ''a'' ''A'' ''ka'') demo_waiting (demo_env ''b'' ''B'' ''kb'') demo_responder"
  by code_simp

lemma demo_sas:
  "vf_sas demo_waiting = (''ka'', ''kakb'')" "vf_sas demo_responder = (''kb'', ''kakb'')"
  by code_simp+

lemma demo_own:
  "own_key_list (demo_env ''b'' ''B'' ''kb'') demo_responder = fmupd ''ed25519:B'' ''B-key'' fmempty"
  "claimed_key (vf_their_keys demo_waiting) ''ed25519:B'' = Some ''B-key''"
  by code_simp+

lemma demo_secret:
  "same_secret (demo_env ''a'' ''A'' ''ka'') demo_waiting (demo_env ''b'' ''B'' ''kb'') demo_responder"
  by (simp add: same_secret_def demo_sas) (simp add: demo_env_def)

theorem mac_roundtrip_witness:
  "vf_state (handle_mac (demo_env ''a'' ''A'' ''ka'')
     (mac_from (demo_env ''b'' ''B'' ''kb'') demo_responder) demo_waiting) = Success"
proof -
  have "vf_state demo_waiting = WaitingForMac" by code_simp
  moreover have "claimed_key (vf_their_keys demo_waiting) k = Some v"
    if "fmlookup (own_key_list (demo_env ''b'' ''B'' ''kb'') demo_responder) k = Some v" for k v
    using that demo_own(2) by (auto simp: demo_own(1) split: if_splits)
  ultimately show ?thesis
    using mac_roundtrip [OF demo_mirrored demo_secret] by simp
qed

text \<open>C5: A substituted key is caught. If this end knows, for a key id the other end's message
  covers, a key whose MAC differs from the one sent, the flow fails with \<open>KeyMismatch\<close> (unless it
  was over) and the MACs are not marked verified.\<close>

theorem substituted_key_rejected:
  assumes "mirrored env f env' g" and "\<not> vf_isMacVerified f" and "vf_state f \<noteq> Success"
    and "claimed_key (vf_their_keys f) k = Some v" and "fmlookup (mc_mac (mac_from env' g)) k = Some m"
    and "m \<noteq> env_calculate_mac env (vf_sas f) v
           (''MATRIX_KEY_VERIFICATION_MAC'' @ env_user_id env' @ env_device_id env'
            @ env_user_id env @ env_device_id env @ vf_transaction_id f @ k)"
  shows "\<not> vf_isMacVerified (handle_mac env (mac_from env' g) f)
       \<and> vf_state (handle_mac env (mac_from env' g) f) = Failed
       \<and> (vf_state f \<noteq> Failed \<longrightarrow> vf_error (handle_mac env (mac_from env' g) f) = KeyMismatch)"
proof -
  have "k |\<in>| fmdom (mc_mac (mac_from env' g))" using assms(5) by (simp add: fmdomI)
  then have "fmlookup (fst (expected_macs env (mac_from env' g) f)) k \<noteq> Some m"
    using assms(1,4,6)
    by (auto simp: expected_macs_def key_verification_mac_lookup claimed_keys_lookup mirrored_def)
  moreover have "fmlookup (fst (expected_macs env (mac_from env' g) f)) k \<noteq> None"
    using \<open>k |\<in>| _\<close> assms(4)
    by (simp add: expected_macs_def key_verification_mac_lookup claimed_keys_lookup)
  ultimately have "\<not> macs_match env (mac_from env' g) f"
    using assms(5) unfolding macs_match_def fmsubset_alt_def fmpred_iff by fastforce
  then have "handle_mac env (mac_from env' g) f = cancelVerification KeyMismatch f"
    using assms(1) by (intro handle_mac_mismatch) (simp_all add: mac_from_simps for_other_def mirrored_def)
  then show ?thesis using assms(2,3) by (simp add: cancelVerification_def)
qed

definition demo_impostor :: "(string \<times> string) flow" where
  "demo_impostor = demo_waiting\<lparr>vf_their_keys := demo_keys ''b'' ''B''
     \<lparr>uk_master_keys := no_cross_signing_keys\<lparr>csk_keys := fmupd ''ed25519:B'' ''evil'' fmempty\<rparr>\<rparr>\<rparr>"

theorem substituted_key_rejected_witness:
  "vf_state (handle_mac (demo_env ''a'' ''A'' ''ka'')
     (mac_from (demo_env ''b'' ''B'' ''kb'') demo_responder) demo_impostor) = Failed"
proof -
  have "claimed_key (vf_their_keys demo_impostor) ''ed25519:B'' = Some ''evil''" by code_simp
  moreover have "mirrored (demo_env ''a'' ''A'' ''ka'') demo_impostor
                   (demo_env ''b'' ''B'' ''kb'') demo_responder" by code_simp
  moreover have "\<not> vf_isMacVerified demo_impostor" "vf_state demo_impostor \<noteq> Success" by code_simp+
  moreover have "fmlookup (mc_mac (mac_from (demo_env ''b'' ''B'' ''kb'') demo_responder)) ''ed25519:B''
     = Some (''kakb:B-key:'' @ demo_mac_info @ ''ed25519:B'')" by code_simp
  moreover have "''kakb:B-key:'' @ demo_mac_info @ ''ed25519:B'' \<noteq>
     env_calculate_mac (demo_env ''a'' ''A'' ''ka'') (vf_sas demo_impostor) ''evil''
       (''MATRIX_KEY_VERIFICATION_MAC'' @ env_user_id (demo_env ''b'' ''B'' ''kb'')
        @ env_device_id (demo_env ''b'' ''B'' ''kb'') @ env_user_id (demo_env ''a'' ''A'' ''ka'')
        @ env_device_id (demo_env ''a'' ''A'' ''ka'') @ vf_transaction_id demo_impostor
        @ ''ed25519:B'')" by code_simp
  ultimately show ?thesis
    using substituted_key_rejected by blast
qed

text \<open>The key exchange worked: with each other's public key both ends generate the same short
  authentication string from the same info string, and keep their public key.\<close>

definition same_sas :: "'s vf_env \<Rightarrow> 's flow \<Rightarrow> 's vf_env \<Rightarrow> 's flow \<Rightarrow> bool" where
  "same_sas env f env' g \<longleftrightarrow>
     (let s = env_set_their_key env (vf_sas f) (env_public_key env' (vf_sas g));
          s' = env_set_their_key env' (vf_sas g) (env_public_key env (vf_sas f))
      in env_generate_bytes_emoji env s = env_generate_bytes_emoji env' s' \<and>
         env_generate_bytes_decimal env s = env_generate_bytes_decimal env' s' \<and>
         env_public_key env s = env_public_key env (vf_sas f) \<and>
         env_public_key env' s' = env_public_key env' (vf_sas g))"

text \<open>C28: SAS agreement. When the two ends of a verification, one the sender and one not, handle
  each other's key message in the states the protocol expects and the commitment is right, they
  show the same short authentication string in the same comparison state.\<close>

theorem both_ends_show_the_same_sas:
  assumes "mirrored env f env' g" and "vf_sender f" and "\<not> vf_sender g"
    and "vf_method f = vf_method g" and "vf_method f \<noteq> UnsupportedSAS"
    and "vf_state f \<in> {WaitingForOtherToAccept, WaitingForKeys}" and "vf_state g = WaitingForKeys"
    and "vf_commitment f =
           env_sha256_base64 env (env_public_key env' (vf_sas g) @ vf_canonical_json f)"
    and "same_sas env f env' g"
  shows "let f' = handle_key env (Some (vf_transaction_id f)) None (env_public_key env' (vf_sas g)) f;
             g' = handle_key env' (Some (vf_transaction_id f)) None (env_public_key env (vf_sas f)) g
         in vf_sasList f' = vf_sasList g' \<and> vf_state f' = vf_state g'
          \<and> vf_state f' \<in> {CompareEmoji, CompareNumber}"
  using assms
  by (cases "vf_method g")
    (auto simp: Let_def handle_key_def for_other_def mirrored_def same_sas_def show_sas_def
      sas_info_def sendVerificationKey_def setState_def send_def emits_def)

definition demo_responder0 :: "(string \<times> string) flow" where
  "demo_responder0 =
     run (flow_step (demo_env ''b'' ''B'' ''kb''))
       (NewToDeviceVerificationStart (demo_env ''b'' ''B'' ''kb'') (demo_start ''A'') ''a'' ''t'')
       [EvNext 0]"

definition demo_accepted :: "(string \<times> string) flow" where
  "demo_accepted = run (flow_step (demo_env ''a'' ''A'' ''ka'')) demo_initiator (take 4 demo_events)"

theorem both_ends_show_the_same_sas_witness:
  "vf_sasList (handle_key (demo_env ''a'' ''A'' ''ka'') (Some ''t'') None ''kb'' demo_accepted) =
   vf_sasList (handle_key (demo_env ''b'' ''B'' ''kb'') (Some ''t'') None ''ka'' demo_responder0)"
proof -
  let ?a = "demo_env ''a'' ''A'' ''ka''" and ?b = "demo_env ''b'' ''B'' ''kb''"
  have "mirrored ?a demo_accepted ?b demo_responder0" by code_simp
  moreover have "vf_sender demo_accepted" "\<not> vf_sender demo_responder0" by code_simp+
  moreover have "vf_method demo_accepted = vf_method demo_responder0"
    "vf_method demo_accepted \<noteq> UnsupportedSAS" by code_simp+
  moreover have "vf_state demo_accepted \<in> {WaitingForOtherToAccept, WaitingForKeys}"
    "vf_state demo_responder0 = WaitingForKeys" by code_simp+
  moreover have "vf_commitment demo_accepted =
     env_sha256_base64 ?a (env_public_key ?b (vf_sas demo_responder0)
       @ vf_canonical_json demo_accepted)" by code_simp
  moreover have "vf_sas demo_accepted = (''ka'', [])" "vf_sas demo_responder0 = (''kb'', [])"
    by code_simp+
  moreover from this have "same_sas ?a demo_accepted ?b demo_responder0"
    by (simp add: same_sas_def demo_env_def Let_def)
  moreover have "vf_transaction_id demo_accepted = ''t''" by code_simp
  ultimately show ?thesis
    using both_ends_show_the_same_sas [of ?a demo_accepted ?b demo_responder0]
    by (simp add: Let_def demo_env_def)
qed

text \<open>A start message both sides support, of the transaction of \<open>f\<close>.\<close>

definition start_ok :: "start_msg \<Rightarrow> 's flow \<Rightarrow> bool" where
  "start_ok m f \<longleftrightarrow>
     st_transaction_id m = Some (vf_transaction_id f) \<and> st_method m = SASv1 \<and>
     ''curve25519-hkdf-sha256'' \<in> set (st_key_agreement_protocols m) \<and>
     ''sha256'' \<in> set (st_hashes m) \<and>
     ''hkdf-hmac-sha256'' \<in> set (st_message_authentication_codes m) \<and>
     (Emoji \<in> set (st_short_authentication_string m)
      \<or> Decimal \<in> set (st_short_authentication_string m))"

text \<open>What taking over the other side's start message does.\<close>

definition accepts_start :: "'s vf_env \<Rightarrow> start_msg \<Rightarrow> 's flow \<Rightarrow> 's flow \<Rightarrow> bool" where
  "accepts_start env m f f' \<longleftrightarrow>
     vf_canonical_json f' = env_dump_start env m \<and> vf_acceptSent f' \<and> vf_state f' = WaitingForKeys"

lemma glare_keep:
  assumes "vf_sender f" and "start_ok m f"
    and "\<not> (vf_toClient f, vf_deviceId f) < (env_user_id env, env_device_id env)"
  shows "vf_sender (handleStartMessage env m f) \<and> vf_state (handleStartMessage env m f) = vf_state f"
  using assms by (auto simp: handleStartMessage_def Let_def for_other_def start_ok_def)

lemma glare_yield:
  assumes "vf_sender f" and "start_ok m f" and "\<not> vf_acceptSent f"
    and "vf_state f = WaitingForOtherToAccept"
    and "(vf_toClient f, vf_deviceId f) < (env_user_id env, env_device_id env)"
  shows "\<not> vf_sender (handleStartMessage env m f) \<and> accepts_start env m f (handleStartMessage env m f)"
  using assms
  by (auto simp: handleStartMessage_def Let_def for_other_def start_ok_def accepts_start_def
      acceptVerificationRequest_def setState_def send_def emits_def)


definition demo_glare_a :: "(string \<times> string) flow" where
  "demo_glare_a = run (flow_step (demo_env ''a'' ''A'' ''ka'')) demo_initiator (take 3 demo_events)"

definition demo_glare_b :: "(string \<times> string) flow" where
  "demo_glare_b =
     run (flow_step (demo_env ''b'' ''B'' ''kb''))
       (the (InitiateDeviceVerification (demo_env ''b'' ''B'' ''kb'') ''a'' [''A''] ''t''))
       [EvNext 0, EvReady (Some ''t'') None ''A'']"


text \<open>The events that are messages, each with the transaction id and the reference it names.\<close>

fun names_other :: "'s flow \<Rightarrow> flow_event \<Rightarrow> bool" where
  "names_other f (EvStart m) \<longleftrightarrow> for_other (st_transaction_id m) (references (st_relations m)) f"
| "names_other f (EvAccept m) \<longleftrightarrow> for_other (ac_transaction_id m) (ac_references m) f"
| "names_other f (EvCancel t r) \<longleftrightarrow> for_other t r f"
| "names_other f (EvKey t r k) \<longleftrightarrow> for_other t r f"
| "names_other f (EvMac m) \<longleftrightarrow> for_other (mc_transaction_id m) (mc_references m) f"
| "names_other f (EvReady t r d) \<longleftrightarrow> for_other t r f"
| "names_other f _ \<longleftrightarrow> False"

text \<open>Isolation, and where it fails. A message that names another transaction leaves a flow as
  it is, with one exception: a flow that is not the sender fails on any ready message sent from
  another device than our own, whatever transaction it names and whatever state it is in.\<close>

theorem other_transactions_ignored_except_ready:
  assumes "names_other f ev"
  shows "flow_step env f ev = f
       \<or> (\<exists>t r d. ev = EvReady t r d \<and> \<not> vf_sender f \<and> d \<noteq> env_device_id env
            \<and> vf_state (flow_step env f ev) = Failed \<and> vf_error (flow_step env f ev) = User)"
  using assms
  by (cases ev)
    (auto simp: handler_defs Let_def for_other_def split: option.splits if_splits)

theorem other_transactions_ignored_except_ready_witness:
  "vf_state (flow_step (demo_env ''b'' ''B'' ''kb'') demo_responder (EvReady (Some ''x'') None ''Z'')) = Failed
   \<and> flow_step (demo_env ''b'' ''B'' ''kb'') demo_responder (EvCancel (Some ''x'') None) = demo_responder"
proof
  show "vf_state (flow_step (demo_env ''b'' ''B'' ''kb'') demo_responder
          (EvReady (Some ''x'') None ''Z'')) = Failed"
    by code_simp
  have "names_other demo_responder (EvCancel (Some ''x'') None)" by code_simp
  then show "flow_step (demo_env ''b'' ''B'' ''kb'') demo_responder (EvCancel (Some ''x'') None)
               = demo_responder"
    using other_transactions_ignored_except_ready by blast
qed

text \<open>\<open>Failed\<close> is not final. A flow that failed without having accepted a start message, for
  example because the other side or the user cancelled it, is back in \<open>WaitingForKeys\<close> after a
  supported start message of its transaction, if it is not the sender.\<close>

theorem failed_flow_revived_by_start:
  assumes "vf_state f = Failed" and "\<not> vf_sender f" and "\<not> vf_acceptSent f" and "start_ok m f"
  shows "vf_state (flow_step env f (EvStart m)) = WaitingForKeys
       \<and> vf_acceptSent (flow_step env f (EvStart m))
       \<and> emitted KAccept (flow_step env f (EvStart m)) =
           emitted KAccept f + of_bool (vf_type f = ToDevice \<or> vf_has_model f)"
  using assms flow_type.exhaust [of "vf_type f"]
  by (auto simp: handleStartMessage_def Let_def for_other_def start_ok_def
      acceptVerificationRequest_def setState_def send_def emitted_def emits_def)

definition demo_cancelled :: "(string \<times> string) flow" where
  "demo_cancelled =
     run (flow_step (demo_env ''b'' ''B'' ''kb''))
       (NewToDeviceVerificationStart (demo_env ''b'' ''B'' ''kb'') (demo_start ''A'') ''a'' ''t'')
       [EvUserCancel]"

theorem failed_flow_revived_by_start_witness:
  "vf_state demo_cancelled = Failed
   \<and> vf_state (flow_step (demo_env ''b'' ''B'' ''kb'') demo_cancelled (EvStart (demo_start ''A'')))
       = WaitingForKeys"
proof -
  have "vf_state demo_cancelled = Failed" "\<not> vf_sender demo_cancelled"
    "\<not> vf_acceptSent demo_cancelled" "start_ok (demo_start ''A'') demo_cancelled" by code_simp+
  then show ?thesis using failed_flow_revived_by_start by blast
qed

end
