(* ===== verification/Verification_Manager.thy ===== *)
theory Verification_Manager
  imports Verification_Flow_Safety
begin

text \<open>
  \<open>VerificationManager\<close> (\<open>src/src/encryption/VerificationManager.cpp\<close>): the table \<open>dvList\<close> of
  running verification flows. Flows are shared objects, so the manager's state has a heap
  \<open>vm_flows\<close> of flows by address; \<open>vm_dvList\<close> maps a transaction (or event) id to an address.
  A flow connected to a timeline has the room in \<open>vm_rooms\<close>; \<open>vm_waiting\<close> lists the flows
  \<open>verifyUser\<close> started whose event id is not known yet, oldest first. What happens to all flows
  at once (a message the client dispatches, an event id a timeline reports) is a step of the
  manager as well.
\<close>

section \<open>State\<close>

datatype vm_effect = NewVerificationRequest nat | NoPrivateChatNotification

record 'sas vm =
  vm_flows :: "(nat, 'sas flow) fmap"
  vm_rooms :: "(nat, string) fmap"
  vm_next :: nat
  vm_dvList :: "(string, nat) fmap"
  vm_waiting :: "nat list"
  vm_isInitialSync :: bool
  vm_log :: "vm_effect list"

definition new_vm :: "'sas vm" where
  "new_vm = \<lparr>vm_flows = fmempty, vm_rooms = fmempty, vm_next = 0, vm_dvList = fmempty,
             vm_waiting = [], vm_isInitialSync = False, vm_log = []\<rparr>"

text \<open>A joined room as the cache and the client describe it to \<open>verifyUser\<close>.\<close>

record room_view =
  rv_room_id :: string
  rv_member_count :: nat
  rv_encrypted :: bool
  rv_members :: "string list"
  rv_has_timeline :: bool

section \<open>Operations\<close>

text \<open>
  Times are 64-bit: the milliseconds of the message become a time point in nanoseconds, and the
  difference to the clock is a signed number. The multiplication can leave the range; it is
  modelled as wrapping.
\<close>

definition isValidTime :: "u64 \<Rightarrow> u64 option \<Rightarrow> bool" where
  "isValidTime now_ns t =
     (case t of
        None \<Rightarrow> False
      | Some ms \<Rightarrow>
          let diff = sint (now_ns - ms * 1000000)
          in diff < 600000000000 \<and> diff > - 300000000000)"

text \<open>Allocate a flow, list it under a transaction id and announce it.\<close>

definition add_flow :: "string \<Rightarrow> string option \<Rightarrow> 'sas flow \<Rightarrow> 'sas vm \<Rightarrow> 'sas vm" where
  "add_flow txnid room f s =
     s\<lparr>vm_flows := fmupd (vm_next s) f (vm_flows s),
       vm_rooms := (case room of Some r \<Rightarrow> fmupd (vm_next s) r (vm_rooms s) | None \<Rightarrow> vm_rooms s),
       vm_dvList := fmupd txnid (vm_next s) (vm_dvList s),
       vm_next := Suc (vm_next s),
       vm_log := vm_log s @ [NewVerificationRequest (vm_next s)]\<rparr>"

definition receivedRoomDeviceVerificationRequest ::
  "'sas vf_env \<Rightarrow> u64 \<Rightarrow> request_msg \<Rightarrow> u64 \<Rightarrow> string \<Rightarrow> string \<Rightarrow> string \<Rightarrow> 'sas vm \<Rightarrow> 'sas vm"
where
  "receivedRoomDeviceVerificationRequest env now msg origin_server_ts sender event_id room s =
     (if vm_isInitialSync s then s
      else if \<not> isValidTime now (Some origin_server_ts) then s
      else if event_id |\<notin>| fmdom (vm_dvList s)
      then add_flow event_id (Some room) (NewInRoomVerification env msg sender event_id) s
      else s)"

definition receivedDeviceVerificationRequest ::
  "'sas vf_env \<Rightarrow> u64 \<Rightarrow> request_msg \<Rightarrow> string option \<Rightarrow> string \<Rightarrow> 'sas vm \<Rightarrow> 'sas vm"
where
  "receivedDeviceVerificationRequest env now msg transaction_id sender s =
     (if vm_isInitialSync s then s
      else if \<not> isValidTime now (rq_timestamp msg) then s
      else case transaction_id of
        None \<Rightarrow> s
      | Some txnid \<Rightarrow>
          if txnid |\<notin>| fmdom (vm_dvList s)
          then add_flow txnid None (NewToDeviceVerification env msg sender txnid) s
          else s)"

definition receivedDeviceVerificationStart ::
  "'sas vf_env \<Rightarrow> start_msg \<Rightarrow> string \<Rightarrow> 'sas vm \<Rightarrow> 'sas vm"
where
  "receivedDeviceVerificationStart env msg sender s =
     (if vm_isInitialSync s then s
      else case st_transaction_id msg of
        None \<Rightarrow> s
      | Some txnid \<Rightarrow>
          if txnid |\<notin>| fmdom (vm_dvList s)
          then add_flow txnid None (NewToDeviceVerificationStart env msg sender txnid) s
          else s)"

definition private_chat :: "string \<Rightarrow> room_view \<Rightarrow> bool" where
  "private_chat userid r \<longleftrightarrow>
     rv_member_count r = 2 \<and> rv_encrypted r \<and> userid \<in> set (rv_members r) \<and> rv_has_timeline r"

definition verifyUser :: "'sas vf_env \<Rightarrow> string \<Rightarrow> room_view list \<Rightarrow> 'sas vm \<Rightarrow> 'sas vm" where
  "verifyUser env userid joined_rooms s =
     (case List.find (private_chat userid) joined_rooms of
        Some r \<Rightarrow>
          s\<lparr>vm_flows := fmupd (vm_next s) (InitiateUserVerification env userid) (vm_flows s),
            vm_rooms := fmupd (vm_next s) (rv_room_id r) (vm_rooms s),
            vm_waiting := vm_waiting s @ [vm_next s],
            vm_next := Suc (vm_next s),
            vm_log := vm_log s @ [NewVerificationRequest (vm_next s)]\<rparr>
      | None \<Rightarrow> s\<lparr>vm_log := vm_log s @ [NoPrivateChatNotification]\<rparr>)"

text \<open>
  The first entry of the hash with this flow goes. A flow is listed at most once
  (\<open>vm_inv\<close>), so the order of the hash does not matter. The last owner gone, the flow is freed.
\<close>

definition removeVerificationFlow :: "nat \<Rightarrow> 'sas vm \<Rightarrow> 'sas vm" where
  "removeVerificationFlow p s =
     (case List.find (\<lambda>(_, q). q = p) (sorted_list_of_fmap (vm_dvList s)) of
        Some (k, _) \<Rightarrow> s\<lparr>vm_dvList := fmdrop k (vm_dvList s), vm_flows := fmdrop p (vm_flows s)\<rparr>
      | None \<Rightarrow> s)"

text \<open>\<open>txn\<close> is the transaction id the client generates; \<open>None\<close> is the failed assertion.\<close>

definition verifyOneOfDevices ::
  "'sas vf_env \<Rightarrow> string \<Rightarrow> string list \<Rightarrow> string \<Rightarrow> 'sas vm \<Rightarrow> 'sas vm option"
where
  "verifyOneOfDevices env userid deviceids txn s =
     map_option (\<lambda>f. add_flow (vf_transaction_id f) None f s)
       (InitiateDeviceVerification env userid deviceids txn)"

definition verifyDevice ::
  "'sas vf_env \<Rightarrow> string \<Rightarrow> string \<Rightarrow> string \<Rightarrow> 'sas vm \<Rightarrow> 'sas vm option"
where
  "verifyDevice env userid deviceid txn s = verifyOneOfDevices env userid [deviceid] txn s"

section \<open>What reaches the flows\<close>

text \<open>A message the client signals reaches every flow; a user action or a timer reaches one.\<close>

definition deliver :: "'sas vf_env \<Rightarrow> flow_event \<Rightarrow> 'sas vm \<Rightarrow> 'sas vm" where
  "deliver env ev s = s\<lparr>vm_flows := fmmap (\<lambda>f. flow_step env f ev) (vm_flows s)\<rparr>"

definition deliver_to :: "'sas vf_env \<Rightarrow> nat \<Rightarrow> flow_event \<Rightarrow> 'sas vm \<Rightarrow> 'sas vm" where
  "deliver_to env p ev s =
     (case fmlookup (vm_flows s) p of
        Some f \<Rightarrow> s\<lparr>vm_flows := fmupd p (flow_step env f ev) (vm_flows s)\<rparr>
      | None \<Rightarrow> s)"

text \<open>
  A timeline reports the event id of a verification request it sent. Every flow of the room takes
  it over; the flows of the room that were waiting are listed under it, each replacing the one
  before.
\<close>

definition updateFlowEventId :: "'sas vf_env \<Rightarrow> string \<Rightarrow> string \<Rightarrow> 'sas vm \<Rightarrow> 'sas vm" where
  "updateFlowEventId env room event_id s =
     (let in_room = (\<lambda>p. fmlookup (vm_rooms s) p = Some room);
          flows = fmmap_keys (\<lambda>p f. if in_room p then flow_step env f (EvFlowEventId event_id) else f)
                    (vm_flows s)
      in s\<lparr>vm_flows := flows,
           vm_dvList := fold (fmupd event_id) (filter in_room (vm_waiting s)) (vm_dvList s),
           vm_waiting := filter (\<lambda>p. \<not> in_room p) (vm_waiting s)\<rparr>)"

section \<open>The manager as a machine\<close>

datatype vm_event =
    VmRoomRequest u64 request_msg u64 string string string
  | VmRequest u64 request_msg "string option" string
  | VmStart start_msg string
  | VmVerifyUser string "room_view list"
  | VmVerifyDevices string "string list" string
  | VmRemove nat
  | VmMessage flow_event
  | VmAction nat flow_event
  | VmFlowEventId string string

text \<open>
  \<open>VmMessage\<close> is one of the message signals of the client; flow events of other kinds reach flows
  one at a time (\<open>VmAction\<close>), event ids by \<open>VmFlowEventId\<close>. A start message goes to the running
  flows and to the manager; the flow the manager creates for it is not connected yet.
\<close>

fun is_message :: "flow_event \<Rightarrow> bool" where
  "is_message (EvAccept _) = True"
| "is_message (EvCancel _ _) = True"
| "is_message (EvKey _ _ _) = True"
| "is_message (EvMac _) = True"
| "is_message (EvReady _ _ _) = True"
| "is_message EvDone = True"
| "is_message (EvStart _) = True"
| "is_message _ = False"

fun is_event_id :: "flow_event \<Rightarrow> bool" where
  "is_event_id (EvFlowEventId _) = True"
| "is_event_id _ = False"

fun vm_step :: "'sas vf_env \<Rightarrow> 'sas vm \<Rightarrow> vm_event \<Rightarrow> 'sas vm" where
  "vm_step env s (VmRoomRequest now msg ts sender e room) =
     receivedRoomDeviceVerificationRequest env now msg ts sender e room s"
| "vm_step env s (VmRequest now msg t sender) = receivedDeviceVerificationRequest env now msg t sender s"
| "vm_step env s (VmStart msg sender) =
     receivedDeviceVerificationStart env msg sender (deliver env (EvStart msg) s)"
| "vm_step env s (VmVerifyUser u rooms) = verifyUser env u rooms s"
| "vm_step env s (VmVerifyDevices u ds t) =
     (case verifyOneOfDevices env u ds t s of Some s' \<Rightarrow> s' | None \<Rightarrow> s)"
| "vm_step env s (VmRemove p) = removeVerificationFlow p s"
| "vm_step env s (VmMessage ev) = (if is_message ev then deliver env ev s else s)"
| "vm_step env s (VmAction p ev) = (if is_event_id ev then s else deliver_to env p ev s)"
| "vm_step env s (VmFlowEventId room e) = updateFlowEventId env room e s"

end
