(* ===== verification/Verification_Manager_Safety.thy ===== *)
theory Verification_Manager_Safety
  imports Verification_Manager
begin

text \<open>
  The invariant of the verification manager over all sequences of requests, user actions and
  dispatched messages, and what the table of running flows guarantees: requests for a known
  transaction and outdated requests are dropped, and a to-device flow is listed under its own
  transaction id. In-room flows lose that when a second verification starts in the room.
\<close>

section \<open>Fields of a flow that messages do not change\<close>

definition flow_id :: "'sas flow \<Rightarrow> string \<times> flow_type \<times> bool \<times> string" where
  "flow_id f = (vf_transaction_id f, vf_type f, vf_has_model f, vf_toClient f)"

lemma flow_id_prims [simp]:
  "flow_id (emits es f) = flow_id f"
  "flow_id (setState s f) = flow_id f"
  "flow_id (send m f) = flow_id f"
  by (simp_all add: flow_id_def emits_def setState_def send_def)

lemma flow_id_update [simp]:
  "flow_id (f\<lparr>vf_error := e\<rparr>) = flow_id f"
  "flow_id (f\<lparr>vf_keySent := b\<rparr>) = flow_id f"
  "flow_id (f\<lparr>vf_macSent := b\<rparr>) = flow_id f"
  "flow_id (f\<lparr>vf_acceptSent := b\<rparr>) = flow_id f"
  "flow_id (f\<lparr>vf_startSent := b\<rparr>) = flow_id f"
  "flow_id (f\<lparr>vf_isMacVerified := b\<rparr>) = flow_id f"
  "flow_id (f\<lparr>vf_sender := b\<rparr>) = flow_id f"
  "flow_id (f\<lparr>vf_method := me\<rparr>) = flow_id f"
  "flow_id (f\<lparr>vf_mac_method := s\<rparr>) = flow_id f"
  "flow_id (f\<lparr>vf_commitment := s\<rparr>) = flow_id f"
  "flow_id (f\<lparr>vf_canonical_json := s\<rparr>) = flow_id f"
  "flow_id (f\<lparr>vf_sas := sa\<rparr>) = flow_id f"
  "flow_id (f\<lparr>vf_sasList := l\<rparr>) = flow_id f"
  "flow_id (f\<lparr>vf_deviceId := s\<rparr>) = flow_id f"
  "flow_id (f\<lparr>vf_deviceIds := ds\<rparr>) = flow_id f"
  "flow_id (f\<lparr>vf_their_keys := tk\<rparr>) = flow_id f"
  "flow_id (f\<lparr>vf_our_trusted_master_key := s\<rparr>) = flow_id f"
  by (simp_all add: flow_id_def)

lemma flow_id_ops [simp]:
  "flow_id (cancelVerification e f) = flow_id f"
  "flow_id (sendVerificationKey env f) = flow_id f"
  "flow_id (acceptVerificationRequest env f) = flow_id f"
  "flow_id (startVerificationRequest env f) = flow_id f"
  "flow_id (sendVerificationReady env f) = flow_id f"
  "flow_id (sendVerificationRequest env now f) = flow_id f"
  "flow_id (acceptDevice env f) = flow_id f"
  "flow_id (sendVerificationMac env f) = flow_id f"
  "flow_id (show_sas env info f) = flow_id f"
  by (simp_all add: cancelVerification_def sendVerificationKey_def acceptVerificationRequest_def
      startVerificationRequest_def sendVerificationReady_def sendVerificationRequest_def
      acceptDevice_def sendVerificationDone_def sendVerificationMac_def show_sas_def Let_def
      split: sas_method.split prod.split)

lemma flow_id_step:
  assumes "\<And>e. ev = EvFlowEventId e \<Longrightarrow> \<not> vf_has_model f"
  shows "flow_id (flow_step env f ev) = flow_id f"
  using assms
  by (cases ev)
    (simp_all add: handler_defs Let_def split: option.split list.split flow_state.split prod.split)

text \<open>A flow that talks to devices directly has no timeline.\<close>

definition to_device_shape :: "'sas flow \<Rightarrow> bool" where
  "to_device_shape f \<longleftrightarrow> (vf_type f = ToDevice \<longleftrightarrow> \<not> vf_has_model f)"

lemma to_device_shape_id: "flow_id f = flow_id g \<Longrightarrow> to_device_shape f = to_device_shape g"
  by (simp add: flow_id_def to_device_shape_def)

lemma to_device_shape_step: "to_device_shape f \<Longrightarrow> to_device_shape (flow_step env f ev)"
proof (cases "\<exists>e. ev = EvFlowEventId e \<and> vf_has_model f")
  case True
  then show "to_device_shape f \<Longrightarrow> ?thesis"
    by (auto simp: handle_flow_event_id_def setEventId_def to_device_shape_def)
next
  case False
  then have "flow_id (flow_step env f ev) = flow_id f" by (intro flow_id_step) auto
  then show "to_device_shape f \<Longrightarrow> ?thesis" using to_device_shape_id by metis
qed

lemma to_device_shape_new:
  "to_device_shape (NewInRoomVerification env m u e)"
  "to_device_shape (NewToDeviceVerification env m u t)"
  "to_device_shape (NewToDeviceVerificationStart env sm u t)"
  "to_device_shape (InitiateUserVerification env u)"
  "InitiateDeviceVerification env u ds t = Some f \<Longrightarrow> to_device_shape f"
  by (auto simp: to_device_shape_def NewInRoomVerification_def NewToDeviceVerification_def
      NewToDeviceVerificationStart_def InitiateUserVerification_def InitiateDeviceVerification_def
      setEventId_def new_flow_def cancelVerification_def send_def emits_def setState_def Let_def
      handleStartMessage_def acceptVerificationRequest_def split: if_splits)

section \<open>The invariant\<close>

text \<open>
  The flow at an address is one the manager may hold there: it keeps its own invariant, the
  flows with a timeline are those whose room is known, and a flow without one is listed under its
  transaction id only.
\<close>

definition flow_ok :: "'sas vm \<Rightarrow> nat \<Rightarrow> 'sas flow \<Rightarrow> bool" where
  "flow_ok s p f \<longleftrightarrow>
     p < vm_next s \<and> flow_inv f \<and> to_device_shape f \<and>
     (vf_has_model f \<longleftrightarrow> p |\<in>| fmdom (vm_rooms s)) \<and>
     (vf_type f = ToDevice \<longrightarrow>
        (\<forall>t. fmlookup (vm_dvList s) t = Some p \<longrightarrow> vf_transaction_id f = t))"

definition vm_inv :: "'sas vm \<Rightarrow> bool" where
  "vm_inv s \<longleftrightarrow>
     (\<forall>p f. fmlookup (vm_flows s) p = Some f \<longrightarrow> flow_ok s p f) \<and>
     (\<forall>t p. fmlookup (vm_dvList s) t = Some p \<longrightarrow> p < vm_next s) \<and>
     (\<forall>p r. fmlookup (vm_rooms s) p = Some r \<longrightarrow> p < vm_next s)"

lemma vm_invD:
  assumes "vm_inv s"
  shows "fmlookup (vm_flows s) p = Some f \<Longrightarrow> flow_ok s p f"
    and "fmlookup (vm_dvList s) t = Some p \<Longrightarrow> p < vm_next s"
    and "fmlookup (vm_rooms s) p = Some r \<Longrightarrow> p < vm_next s"
  using assms unfolding vm_inv_def by blast+

lemma vm_invI:
  assumes "\<And>p f. fmlookup (vm_flows s) p = Some f \<Longrightarrow> flow_ok s p f"
    and "\<And>t p. fmlookup (vm_dvList s) t = Some p \<Longrightarrow> p < vm_next s"
    and "\<And>p r. fmlookup (vm_rooms s) p = Some r \<Longrightarrow> p < vm_next s"
  shows "vm_inv s"
  using assms unfolding vm_inv_def by blast

lemma fmdom_iff: "p |\<in>| fmdom m \<longleftrightarrow> (\<exists>v. fmlookup m p = Some v)"
  by (simp add: fmlookup_dom_iff)

lemma vm_inv_new [simp]: "vm_inv new_vm"
  by (rule vm_invI) (simp_all add: new_vm_def)

lemma vm_inv_add_flow:
  assumes s: "vm_inv s" and f: "flow_inv f" "to_device_shape f" "vf_has_model f \<longleftrightarrow> room \<noteq> None"
    and t: "vf_type f = ToDevice \<Longrightarrow> vf_transaction_id f = t"
  shows "vm_inv (add_flow t room f s)"
proof (rule vm_invI)
  fix p g assume "fmlookup (vm_flows (add_flow t room f s)) p = Some g"
  then consider "p = vm_next s" "g = f" | "p \<noteq> vm_next s" "fmlookup (vm_flows s) p = Some g"
    by (auto simp: add_flow_def split: if_splits)
  then show "flow_ok (add_flow t room f s) p g"
  proof cases
    case 1
    have "fmlookup (vm_dvList s) u \<noteq> Some (vm_next s)" for u using vm_invD(2) [OF s] by blast
    moreover have "vm_next s |\<notin>| fmdom (vm_rooms s)"
      unfolding fmdom_iff using vm_invD(3) [OF s] by blast
    ultimately show ?thesis
      using 1 f t by (auto simp: flow_ok_def add_flow_def split: option.split)
  next
    case 2
    then show ?thesis
      using vm_invD(1) [OF s 2(2)]
      by (auto simp: flow_ok_def add_flow_def split: option.split)
  qed
next
  fix u p assume "fmlookup (vm_dvList (add_flow t room f s)) u = Some p"
  then show "p < vm_next (add_flow t room f s)"
    using vm_invD(2) [OF s, of u p] by (auto simp: add_flow_def split: if_splits)
next
  fix p r assume "fmlookup (vm_rooms (add_flow t room f s)) p = Some r"
  then show "p < vm_next (add_flow t room f s)"
    using vm_invD(3) [OF s, of p r] by (auto simp: add_flow_def split: if_splits option.splits)
qed

lemma created_shape:
  "vf_has_model (NewInRoomVerification env m u e)"
  "\<not> vf_has_model (NewToDeviceVerification env m u t)"
  "\<not> vf_has_model (NewToDeviceVerificationStart env sm u t)"
  "vf_has_model (InitiateUserVerification env u)"
  "InitiateDeviceVerification env u ds t = Some f \<Longrightarrow> \<not> vf_has_model f"
  "vf_transaction_id (NewToDeviceVerification env m u t) = t"
  "vf_transaction_id (NewToDeviceVerificationStart env sm u t) = t"
  "vf_type (NewInRoomVerification env m u e) = RoomMsg"
  "vf_type (InitiateUserVerification env u) = RoomMsg"
  by (auto simp: NewInRoomVerification_def NewToDeviceVerification_def
      NewToDeviceVerificationStart_def InitiateUserVerification_def InitiateDeviceVerification_def
      setEventId_def new_flow_def cancelVerification_def send_def emits_def setState_def Let_def
      handleStartMessage_def acceptVerificationRequest_def split: if_splits)

lemma vm_inv_verifyUser:
  assumes s: "vm_inv s"
  shows "vm_inv (verifyUser env u rooms s)"
proof (cases "List.find (private_chat u) rooms")
  case None
  then show ?thesis using s by (simp add: verifyUser_def vm_inv_def flow_ok_def)
next
  case (Some r)
  let ?s = "verifyUser env u rooms s"
  have old: "flow_ok ?s p g" if "flow_ok s p g" for p g
    using that by (auto simp: flow_ok_def verifyUser_def Some)
  show ?thesis
  proof (rule vm_invI)
    fix p g assume g: "fmlookup (vm_flows ?s) p = Some g"
    show "flow_ok ?s p g"
    proof (cases "p = vm_next s")
      case True
      then have "g = InitiateUserVerification env u" using g by (simp add: verifyUser_def Some)
      then show ?thesis
        using True by (simp add: flow_ok_def verifyUser_def Some created_shape to_device_shape_new
            flow_inv_created [OF created.initiate_user])
    next
      case False
      then have "fmlookup (vm_flows s) p = Some g" using g by (simp add: verifyUser_def Some)
      then show ?thesis using vm_invD(1) [OF s] old by blast
    qed
  next
    fix t p assume "fmlookup (vm_dvList ?s) t = Some p"
    then show "p < vm_next ?s"
      using vm_invD(2) [OF s, of t p] by (simp add: verifyUser_def Some)
  next
    fix p r' assume "fmlookup (vm_rooms ?s) p = Some r'"
    then show "p < vm_next ?s"
      using vm_invD(3) [OF s, of p r'] by (auto simp: verifyUser_def Some split: if_splits)
  qed
qed

lemma vm_inv_remove: "vm_inv s \<Longrightarrow> vm_inv (removeVerificationFlow p s)"
  by (auto simp: removeVerificationFlow_def vm_inv_def flow_ok_def split: option.split if_splits)

text \<open>Replacing flows by successors with the same identity keeps the invariant.\<close>

lemma flow_ok_step:
  assumes "flow_ok s p f" and "\<not> is_event_id ev"
  shows "flow_ok s p (flow_step env f ev)"
proof -
  have "flow_id (flow_step env f ev) = flow_id f"
    using assms(2) by (intro flow_id_step) auto
  then show ?thesis
    using assms(1) by (simp add: flow_ok_def flow_id_def flow_inv_step to_device_shape_step)
qed

lemma vm_inv_deliver:
  assumes s: "vm_inv s" and ev: "\<not> is_event_id ev"
  shows "vm_inv (deliver env ev s)"
proof -
  have "flow_ok (deliver env ev s) p f = flow_ok s p f" for p f
    by (simp add: flow_ok_def deliver_def)
  then show ?thesis
    using vm_invD [OF s]
    by (intro vm_invI) (auto simp: deliver_def intro: flow_ok_step [OF _ ev])
qed

lemma vm_inv_deliver_to:
  assumes s: "vm_inv s" and ev: "\<not> is_event_id ev"
  shows "vm_inv (deliver_to env p ev s)"
proof -
  have "flow_ok (deliver_to env p ev s) q f = flow_ok s q f" for q f
    by (simp add: flow_ok_def deliver_to_def split: option.split)
  then show ?thesis
    using vm_invD [OF s]
    by (intro vm_invI)
      (auto simp: deliver_to_def intro: flow_ok_step [OF _ ev] split: option.splits if_splits)
qed

lemma fold_fmupd_lookup:
  "fmlookup (fold (fmupd k) vs m) t = (if t = k \<and> vs \<noteq> [] then Some (last vs) else fmlookup m t)"
  by (induction vs arbitrary: m) auto

lemma flow_inv_event_id: "flow_inv f \<Longrightarrow> flow_inv (handle_flow_event_id e f)"
  by (simp add: handle_flow_event_id_def setEventId_def)

lemma updateFlowEventId_listed:
  assumes "fmlookup (vm_dvList (updateFlowEventId env room e s)) t = Some p"
  shows "fmlookup (vm_dvList s) t = Some p \<or> fmlookup (vm_rooms s) p = Some room"
proof -
  let ?w = "filter (\<lambda>p. fmlookup (vm_rooms s) p = Some room) (vm_waiting s)"
  have "last ?w \<in> set ?w" if "?w \<noteq> []" using last_in_set that by blast
  then show ?thesis
    using assms by (auto simp: updateFlowEventId_def Let_def fold_fmupd_lookup split: if_splits)
qed

lemma vm_inv_event_id:
  assumes s: "vm_inv s"
  shows "vm_inv (updateFlowEventId env room e s)"
proof (rule vm_invI)
  let ?s = "updateFlowEventId env room e s"
  fix p g assume "fmlookup (vm_flows ?s) p = Some g"
  then obtain f where f: "fmlookup (vm_flows s) p = Some f"
    and g: "g = (if fmlookup (vm_rooms s) p = Some room then handle_flow_event_id e f else f)"
    by (auto simp: updateFlowEventId_def Let_def)
  note ok = vm_invD(1) [OF s f]
  have "vf_transaction_id g = t" if t: "vf_type g = ToDevice" "fmlookup (vm_dvList ?s) t = Some p" for t
  proof -
    have type: "vf_type f = ToDevice" "\<not> vf_has_model f"
      using t(1) ok g by (auto simp: handle_flow_event_id_def setEventId_def flow_ok_def
          to_device_shape_def split: if_splits)
    then have room: "fmlookup (vm_rooms s) p \<noteq> Some room"
      using ok by (auto simp: flow_ok_def fmdom_iff)
    then have "fmlookup (vm_dvList s) t = Some p" using updateFlowEventId_listed [OF t(2)] by blast
    then show ?thesis using ok type room g by (simp add: flow_ok_def)
  qed
  moreover have "flow_inv g" "to_device_shape g" "vf_has_model g = vf_has_model f" "p < vm_next ?s"
    "vm_rooms ?s = vm_rooms s"
    using ok g by (auto simp: flow_ok_def flow_inv_event_id updateFlowEventId_def Let_def
        handle_flow_event_id_def setEventId_def to_device_shape_def)
  ultimately show "flow_ok ?s p g" using ok by (simp add: flow_ok_def)
next
  fix t p assume "fmlookup (vm_dvList (updateFlowEventId env room e s)) t = Some p"
  then show "p < vm_next (updateFlowEventId env room e s)"
    using updateFlowEventId_listed vm_invD(2,3) [OF s]
    by (fastforce simp: updateFlowEventId_def Let_def)
next
  fix p r assume "fmlookup (vm_rooms (updateFlowEventId env room e s)) p = Some r"
  then show "p < vm_next (updateFlowEventId env room e s)"
    using vm_invD(3) [OF s] by (simp add: updateFlowEventId_def Let_def)
qed

lemma vm_inv_devices:
  "vm_inv s \<Longrightarrow> verifyOneOfDevices env u ds t s = Some s' \<Longrightarrow> vm_inv s'"
  by (auto simp: verifyOneOfDevices_def created_shape to_device_shape_new
      intro!: vm_inv_add_flow flow_inv_created [OF created.initiate_device])

lemma vm_inv_received:
  "vm_inv s \<Longrightarrow> vm_inv (receivedRoomDeviceVerificationRequest env now m ts u e room s)"
  "vm_inv s \<Longrightarrow> vm_inv (receivedDeviceVerificationRequest env now m t u s)"
  "vm_inv s \<Longrightarrow> vm_inv (receivedDeviceVerificationStart env sm u s)"
  by (auto simp: receivedRoomDeviceVerificationRequest_def receivedDeviceVerificationRequest_def
      receivedDeviceVerificationStart_def created_shape to_device_shape_new
      intro!: vm_inv_add_flow intro: flow_inv_created created.intros split: option.split)

lemma vm_inv_step: "vm_inv s \<Longrightarrow> vm_inv (vm_step env s ev)"
proof (cases ev)
  case (VmMessage m)
  then have "is_message m \<Longrightarrow> \<not> is_event_id m" by (cases m) auto
  then show "vm_inv s \<Longrightarrow> ?thesis" using VmMessage by (simp add: vm_inv_deliver)
qed (auto simp: vm_inv_received vm_inv_deliver vm_inv_deliver_to vm_inv_verifyUser vm_inv_remove
      vm_inv_event_id split: option.split intro: vm_inv_devices)

interpretation vmm: invariant_machine "vm_step env" vm_inv
  by unfold_locales (rule vm_inv_step)

section \<open>Properties\<close>

text \<open>After any sequence of requests, start messages, user actions and dispatched messages, a
  running to-device flow is listed under its own transaction id (so that requests for it are
  recognised), and every running flow has sent each protocol message at most once and is
  successful only with both sides' MACs exchanged.\<close>

theorem manager_lists_flows_under_their_transaction:
  assumes "fmlookup (vm_dvList (run (vm_step env) new_vm evs)) t = Some p"
    and "fmlookup (vm_flows (run (vm_step env) new_vm evs)) p = Some f"
  shows "(vf_type f = ToDevice \<longrightarrow> vf_transaction_id f = t) \<and> flow_inv f"
proof -
  have "vm_inv (run (vm_step env) new_vm evs)" by (rule vmm.run_inv) simp
  then have "flow_ok (run (vm_step env) new_vm evs) p f" using assms(2) vm_invD(1) by blast
  then show ?thesis using assms(1) by (simp add: flow_ok_def)
qed

definition demo_vm_events :: "vm_event list" where
  "demo_vm_events = [VmStart (demo_start ''A'') ''a'', VmAction 0 (EvNext 0)]"

theorem manager_lists_flows_under_their_transaction_witness:
  "\<exists>f. fmlookup (vm_flows (run (vm_step (demo_env ''b'' ''B'' ''kb'')) new_vm demo_vm_events)) 0 = Some f
     \<and> vf_state f = WaitingForKeys \<and> vf_transaction_id f = ''t'' \<and> flow_inv f"
proof -
  let ?s = "run (vm_step (demo_env ''b'' ''B'' ''kb'')) new_vm demo_vm_events"
  have l: "fmlookup (vm_dvList ?s) ''t'' = Some 0" by code_simp
  have "map_option vf_state (fmlookup (vm_flows ?s) 0) = Some WaitingForKeys"
    "map_option vf_type (fmlookup (vm_flows ?s) 0) = Some ToDevice" by code_simp+
  then obtain f where f: "fmlookup (vm_flows ?s) 0 = Some f" "vf_state f = WaitingForKeys"
    "vf_type f = ToDevice" by auto
  then show ?thesis
    using manager_lists_flows_under_their_transaction [OF l f(1)] by blast
qed

text \<open>A transaction is never taken over. A request or start message whose transaction (or
  event) id is that of a listed flow creates no flow and leaves the list as it is.\<close>

theorem known_transaction_not_replaced:
  assumes "t |\<in>| fmdom (vm_dvList s)"
    and "st_transaction_id sm = Some t"
  shows "receivedDeviceVerificationRequest env now m (Some t) sender s = s
       \<and> receivedRoomDeviceVerificationRequest env now m ts sender t room s = s
       \<and> receivedDeviceVerificationStart env sm sender s = s
       \<and> vm_dvList (vm_step env s (VmStart sm sender)) = vm_dvList s
       \<and> fmdom (vm_flows (vm_step env s (VmStart sm sender))) = fmdom (vm_flows s)"
  using assms
  by (simp_all add: receivedDeviceVerificationRequest_def receivedRoomDeviceVerificationRequest_def
      receivedDeviceVerificationStart_def deliver_def)

theorem known_transaction_not_replaced_witness:
  "receivedDeviceVerificationStart (demo_env ''b'' ''B'' ''kb'') (demo_start ''Z'') ''z''
     (run (vm_step (demo_env ''b'' ''B'' ''kb'')) new_vm demo_vm_events)
   = run (vm_step (demo_env ''b'' ''B'' ''kb'')) new_vm demo_vm_events"
proof -
  have "''t'' |\<in>| fmdom (vm_dvList (run (vm_step (demo_env ''b'' ''B'' ''kb'')) new_vm demo_vm_events))"
    by code_simp
  moreover have "st_transaction_id (demo_start ''Z'') = Some ''t''" by code_simp
  ultimately show ?thesis using known_transaction_not_replaced by blast
qed

text \<open>The time window of requests. As long as the timestamp in nanoseconds and the clock fit
  in the signed 64-bit range, a request is accepted exactly if it is less than ten minutes old and
  less than five minutes ahead of the clock; without a timestamp it is never accepted.\<close>

theorem request_time_window:
  assumes "uint ms * 1000000 < 2 ^ 63" and "uint now < 2 ^ 63"
  shows "isValidTime now (Some ms) \<longleftrightarrow>
           uint ms * 1000000 > uint now - 600000000000 \<and>
           uint ms * 1000000 < uint now + 300000000000"
proof -
  let ?k = "uint ms * 1000000" and ?n = "uint now"
  have small: "?k < 2 ^ 63" "?n < 2 ^ 63" using assms by simp_all
  have "now - ms * 1000000 = word_of_int (?n - ?k)" by simp
  then have "sint (now - ms * 1000000) = signed_take_bit 63 (?n - ?k)"
    by (simp only: sint_sbintrunc') simp
  also have "\<dots> = ?n - ?k"
    using small uint_ge_0 [of ms] uint_ge_0 [of now] by (intro signed_take_bit_int_eq_self) linarith+
  finally show ?thesis by (auto simp: isValidTime_def Let_def)
qed

theorem request_time_window_witness:
  "isValidTime 1700000000000000000 (Some 1699999500000) \<and>
   \<not> isValidTime 1700000000000000000 (Some 1699999400000)"
  using request_time_window [of 1699999500000 1700000000000000000]
    request_time_window [of 1699999400000 1700000000000000000] by simp

text \<open>In-room flows can lose their transaction. When a timeline reports the event id of another
  verification request sent in the room, a flow of that room keeps its place in the list but takes
  over the new event id: from then on it drops every message of its own verification.\<close>

theorem second_request_in_room_redirects_first:
  assumes "fmlookup (vm_dvList s) t = Some p" and "fmlookup (vm_rooms s) p = Some room"
    and "fmlookup (vm_flows s) p = Some f" and "vf_has_model f" and "e \<noteq> t"
  shows "\<exists>g. fmlookup (vm_flows (vm_step env s (VmFlowEventId room e))) p = Some g
            \<and> fmlookup (vm_dvList (vm_step env s (VmFlowEventId room e))) t = Some p
            \<and> vf_transaction_id g = e
            \<and> (\<forall>key. handle_key env (Some t) None key g = g)
            \<and> (\<forall>key. handle_key env None (Some t) key g = g)"
  using assms
  by (simp add: updateFlowEventId_def Let_def fold_fmupd_lookup handle_flow_event_id_def
      setEventId_def handle_key_def for_other_def)

definition demo_rooms_vm :: "(string \<times> string) vm" where
  "demo_rooms_vm =
     run (vm_step (demo_env ''a'' ''A'' ''ka'')) new_vm
       [VmVerifyUser ''b'' [\<lparr>rv_room_id = ''r'', rv_member_count = 2, rv_encrypted = True,
                             rv_members = [''a'', ''b''], rv_has_timeline = True\<rparr>],
        VmFlowEventId ''r'' ''e1'']"

theorem second_request_in_room_redirects_first_witness:
  "\<exists>g. fmlookup (vm_flows (vm_step (demo_env ''a'' ''A'' ''ka'') demo_rooms_vm
                           (VmFlowEventId ''r'' ''e2''))) 0 = Some g
     \<and> vf_transaction_id g = ''e2''"
proof -
  have "map_option vf_has_model (fmlookup (vm_flows demo_rooms_vm) 0) = Some True" by code_simp
  then obtain f where "fmlookup (vm_flows demo_rooms_vm) 0 = Some f" "vf_has_model f" by auto
  moreover have "fmlookup (vm_dvList demo_rooms_vm) ''e1'' = Some 0" by code_simp
  moreover have "fmlookup (vm_rooms demo_rooms_vm) 0 = Some ''r''" by code_simp
  ultimately show ?thesis
    using second_request_in_room_redirects_first [of demo_rooms_vm "''e1''" 0 "''r''" f "''e2''"] by blast
qed

end
