(* ===== verification/Self_Verification.thy ===== *)
theory Self_Verification
  imports Verification_Manager
begin

text \<open>
  \<open>SelfVerificationStatus\<close> (\<open>src/src/encryption/SelfVerificationStatus.cpp\<close>): the state of our own
  cross-signing setup. The cached keys and the verification status are arguments, read once per
  operation as in the code; calls to the cache, the client and the server are effects, in order.
  An operation that dereferences an empty optional or calls \<open>at\<close> with a missing key has no result:
  \<open>None\<close>.
\<close>

section \<open>State\<close>

datatype self_status = AllVerified | NoMasterKey | UnverifiedMasterKey | UnverifiedDevices

datatype self_effect =
    HasSSSSChanged
  | SelfStatusChanged
  | DropToLogin
  | MarkUserKeysOutOfDate string
  | QueryKeysIn nat string
  | QuerySecret string
  | StoreSecret string string
  | PostBackupVersion
  | UploadSSSSKey string
  | SetDefaultSSSSKey string
  | UploadSecret string string
  | UploadDeviceSigning
  | UploadOwnDeviceSignature device_keys
  | SetupFailed string
  | ShowRecoveryKey string
  | SetupCompleted

record self_verification =
  sv_status :: self_status
  sv_hasSSSS :: bool
  sv_log :: "self_effect list"

definition new_self_verification :: self_verification where
  "new_self_verification = \<lparr>sv_status = AllVerified, sv_hasSSSS = True, sv_log = []\<rparr>"

definition sv_emit :: "self_effect list \<Rightarrow> self_verification \<Rightarrow> self_verification" where
  "sv_emit es s = s\<lparr>sv_log := sv_log s @ es\<rparr>"

definition set_status :: "self_status \<Rightarrow> self_verification \<Rightarrow> self_verification" where
  "set_status st s = (if sv_status s \<noteq> st then sv_emit [SelfStatusChanged] (s\<lparr>sv_status := st\<rparr>) else s)"

section \<open>invalidate\<close>

text \<open>
  \<open>me\<close>, \<open>dev\<close> and \<open>curve\<close> are our user id, device id and identity key. The check of the device list
  does not return when there are no keys at all, so the access to \<open>keys->master_keys\<close> after it is
  the \<open>None\<close> below.
\<close>

definition own_device_listed :: "string \<Rightarrow> user_key_cache option \<Rightarrow> bool" where
  "own_device_listed dev keys = (case keys of None \<Rightarrow> False | Some k \<Rightarrow> dev |\<in>| fmdom (uk_device_keys k))"

definition own_device_seen :: "string \<Rightarrow> string \<Rightarrow> user_key_cache option \<Rightarrow> bool" where
  "own_device_seen dev curve keys =
     (case keys of None \<Rightarrow> False
      | Some k \<Rightarrow> dev |\<in>| uk_seen_device_ids k \<or> curve |\<in>| uk_seen_device_keys k)"

definition invalidate_status ::
  "user_key_cache \<Rightarrow> verification_status \<Rightarrow> self_verification \<Rightarrow> self_verification"
where
  "invalidate_status keys verif s =
     (if csk_keys (uk_master_keys keys) = fmempty then set_status NoMasterKey s
      else
        let s1 = sv_emit [QuerySecret cross_signing_self_signing] s
        in if vs_user_verified verif = Unverified then set_status UnverifiedMasterKey s1
           else if vs_unverified_device_count verif > 0 then set_status UnverifiedDevices s1
           else set_status AllVerified s1)"

definition invalidate ::
  "bool \<Rightarrow> string \<Rightarrow> string \<Rightarrow> string \<Rightarrow> user_key_cache option \<Rightarrow> verification_status
    \<Rightarrow> self_verification \<Rightarrow> self_verification option"
where
  "invalidate initialized me dev curve keys verif s =
     (if \<not> initialized then Some s
      else
        let s1 = sv_emit [HasSSSSChanged] (s\<lparr>sv_hasSSSS := False\<rparr>)
        in if \<not> own_device_listed dev keys \<and> own_device_seen dev curve keys
           then Some (sv_emit [DropToLogin] s1)
           else
             let s2 = (if \<not> own_device_listed dev keys
                       then sv_emit [MarkUserKeysOutOfDate me, QueryKeysIn 1000 me] s1 else s1)
             in map_option (\<lambda>k. invalidate_status k verif s2) keys)"

text \<open>The reply to the query of the self-signing secret.\<close>

definition secret_reply :: "bool \<Rightarrow> bool \<Rightarrow> self_verification \<Rightarrow> self_verification" where
  "secret_reply err encrypted_empty s =
     (if \<not> err \<and> \<not> encrypted_empty then sv_emit [HasSSSSChanged] (s\<lparr>sv_hasSSSS := True\<rparr>) else s)"

section \<open>Verifying ourselves\<close>

fun starts_with :: "string \<Rightarrow> string \<Rightarrow> bool" where
  "starts_with [] s = True"
| "starts_with (p # ps) [] = False"
| "starts_with (p # ps) (c # cs) = (p = c \<and> starts_with ps cs)"

text \<open>\<open>QString::remove\<close> removes every occurrence.\<close>

fun remove_ed25519 :: "string \<Rightarrow> string" where
  "remove_ed25519 [] = []"
| "remove_ed25519 (c # cs) =
     (if starts_with ''ed25519:'' (c # cs) then remove_ed25519 (drop 7 cs)
      else c # remove_ed25519 cs)"

definition master_key_devices :: "string \<Rightarrow> user_key_cache \<Rightarrow> string list" where
  "master_key_devices me keys =
     (let sigs = (case fmlookup (csk_signatures (uk_master_keys keys)) me of
                    Some m \<Rightarrow> m | None \<Rightarrow> fmempty);
          ds = map remove_ed25519
                 (filter (starts_with ''ed25519:'') (map fst (sorted_list_of_fmap sigs)))
      in filter (\<lambda>d. d |\<in>| fmdom (uk_device_keys keys)) ds)"

text \<open>The outer \<open>None\<close> is an undefined access or a failed assertion.\<close>

definition verifyMasterKey ::
  "'sas vf_env \<Rightarrow> user_key_cache option \<Rightarrow> string \<Rightarrow> 'sas vm \<Rightarrow> 'sas vm option"
where
  "verifyMasterKey env keys txn vm =
     (case keys of
        None \<Rightarrow> None
      | Some k \<Rightarrow>
          let devices = master_key_devices (env_user_id env) k
          in if devices \<noteq> [] then verifyOneOfDevices env (env_user_id env) devices txn vm
             else Some vm)"

definition unverified_devices :: "user_key_cache \<Rightarrow> verification_status \<Rightarrow> string list" where
  "unverified_devices keys verif =
     filter (\<lambda>d. d |\<notin>| vs_verified_devices verif) (map fst (sorted_list_of_fmap (uk_device_keys keys)))"

definition verifyUnverifiedDevices ::
  "'sas vf_env \<Rightarrow> user_key_cache option \<Rightarrow> verification_status \<Rightarrow> string \<Rightarrow> 'sas vm \<Rightarrow> 'sas vm option"
where
  "verifyUnverifiedDevices env keys verif txn vm =
     (case keys of
        None \<Rightarrow> Some vm
      | Some k \<Rightarrow>
          let devices = unverified_devices k verif
          in if devices \<noteq> [] then verifyOneOfDevices env (env_user_id env) devices txn vm
             else Some vm)"

section \<open>setupCrosssigning\<close>

text \<open>The private keys \<open>create_crosssigning_keys\<close> returns, and what SSSS setup returns.\<close>

record xsign_setup =
  xs_private_master_key :: string
  xs_private_self_signing_key :: string
  xs_private_user_signing_key :: string

record ssss_setup =
  ss_key_name :: string
  ss_private_key :: string
  ss_recovery_key :: string

abbreviation cross_signing_master :: string where
  "cross_signing_master \<equiv> ''m.cross_signing.master''"

abbreviation megolm_backup_v1 :: string where
  "megolm_backup_v1 \<equiv> ''m.megolm_backup.v1''"

text \<open>
  \<open>xsign\<close>, \<open>okb\<close> and \<open>ssss\<close> are the results of the three library calls (\<open>okb\<close> the encoded private
  key), \<open>enc key name secret\<close> the library's encryption. The second component tells whether the
  upload of the keys was started, with the SSSS setup its callback captures.
\<close>

definition setupCrosssigning ::
  "(string \<Rightarrow> string \<Rightarrow> string \<Rightarrow> string) \<Rightarrow> bool \<Rightarrow> bool \<Rightarrow> xsign_setup option \<Rightarrow> string option
    \<Rightarrow> ssss_setup option \<Rightarrow> self_verification
    \<Rightarrow> self_verification \<times> (xsign_setup \<times> ssss_setup option) option"
where
  "setupCrosssigning enc useSSSS useOnlineKeyBackup xsign okb ssss s =
     (case xsign of
        None \<Rightarrow> (sv_emit [SetupFailed ''Failed to create keys for cross-signing!''] s, None)
      | Some x \<Rightarrow>
          let s1 = sv_emit [StoreSecret cross_signing_master (xs_private_master_key x),
                            StoreSecret cross_signing_self_signing (xs_private_self_signing_key x),
                            StoreSecret cross_signing_user_signing (xs_private_user_signing_key x)] s
          in if useOnlineKeyBackup \<and> okb = None
             then (sv_emit [SetupFailed ''Failed to create keys for online key backup!''] s1, None)
             else
               let s2 = (if useOnlineKeyBackup
                         then sv_emit [StoreSecret megolm_backup_v1 (the okb), PostBackupVersion] s1
                         else s1)
               in if useSSSS \<and> ssss = None
                  then (sv_emit [SetupFailed
                          ''Failed to create keys for secure server side secret storage!''] s2, None)
                  else
                    let upload = (\<lambda>n v. UploadSecret n (enc (ss_private_key (the ssss)) n v));
                        s3 = (if useSSSS
                              then sv_emit
                                ([UploadSSSSKey (ss_key_name (the ssss)),
                                  SetDefaultSSSSKey (ss_key_name (the ssss)),
                                  upload cross_signing_master (xs_private_master_key x),
                                  upload cross_signing_self_signing (xs_private_self_signing_key x),
                                  upload cross_signing_user_signing (xs_private_user_signing_key x)]
                                 @ (if useOnlineKeyBackup then [upload megolm_backup_v1 (the okb)]
                                    else [])) s2
                              else s2)
                    in (sv_emit [UploadDeviceSigning] s3, Some (x, if useSSSS then ssss else None)))"

fun blocks_of_4 :: "string \<Rightarrow> string" where
  "blocks_of_4 [] = []"
| "blocks_of_4 (a # b # c # d # r) = a # b # c # d # '' '' @ blocks_of_4 r"
| "blocks_of_4 r = r @ '' ''"

definition trimmed :: "string \<Rightarrow> string" where
  "trimmed s =
     (let sp = (\<lambda>c. c \<in> {CHR '' '', CHR 0x09, CHR 0x0A, CHR 0x0B, CHR 0x0C, CHR 0x0D})
      in rev (dropWhile sp (rev (dropWhile sp s))))"

definition signs_own_device :: "'sas vf_env \<Rightarrow> string \<Rightarrow> device_keys \<Rightarrow> bool" where
  "signs_own_device env curve k \<longleftrightarrow>
     dk_user_id k = env_user_id env \<and> dk_device_id k = env_device_id env \<and>
     fmlookup (dk_keys k) (''ed25519:'' @ env_device_id env) = Some (env_identity_ed25519 env) \<and>
     fmlookup (dk_keys k) (''curve25519:'' @ env_device_id env) = Some curve"

text \<open>
  The callback of \<open>device_signing_upload\<close>. The key comparisons use \<open>operator[]\<close>, which gives the
  empty string for a missing key; an identity key is never empty. \<open>None\<close> is the exception of \<open>at\<close>.
\<close>

definition device_signing_uploaded ::
  "'sas vf_env \<Rightarrow> string \<Rightarrow> user_key_cache option \<Rightarrow> string option \<Rightarrow> xsign_setup \<Rightarrow> ssss_setup option
    \<Rightarrow> self_verification \<Rightarrow> self_verification option"
where
  "device_signing_uploaded env curve deviceKeys err x ssss s =
     (case err of
        Some e \<Rightarrow> Some (sv_emit [SetupFailed (''Encryption setup failed: '' @ e)] s)
      | None \<Rightarrow>
          map_option
            (\<lambda>s1. case ssss of
                    Some ss \<Rightarrow> sv_emit [ShowRecoveryKey (trimmed (blocks_of_4 (ss_recovery_key ss)))] s1
                  | None \<Rightarrow> sv_emit [SetupCompleted] s1)
            (case deviceKeys of
               None \<Rightarrow> Some s
             | Some dks \<Rightarrow>
                 map_option
                   (\<lambda>k. if signs_own_device env curve k
                        then let seed = xs_private_self_signing_key x;
                                 j = k\<lparr>dk_signatures := fmempty\<rparr>;
                                 old = (case fmlookup (dk_signatures k) (env_user_id env) of
                                          Some m \<Rightarrow> m | None \<Rightarrow> fmempty)
                             in sv_emit [UploadOwnDeviceSignature
                                  (k\<lparr>dk_signatures := fmupd (env_user_id env)
                                       (fmupd (''ed25519:'' @ env_pk_public_key env seed)
                                          (env_pk_sign env seed (env_dump_device env j)) old)
                                       (dk_signatures k)\<rparr>)] s
                        else s)
                   (fmlookup (uk_device_keys dks) (env_device_id env))))"

section \<open>Properties\<close>

lemma sv_emit_simps [simp]:
  "sv_status (sv_emit es s) = sv_status s" "sv_hasSSSS (sv_emit es s) = sv_hasSSSS s"
  "sv_log (sv_emit es s) = sv_log s @ es"
  by (simp_all add: sv_emit_def)

lemma set_status_simps [simp]:
  "sv_status (set_status st s) = st" "sv_hasSSSS (set_status st s) = sv_hasSSSS s"
  "sv_log (set_status st s) = sv_log s @ (if sv_status s = st then [] else [SelfStatusChanged])"
  by (simp_all add: set_status_def)

text \<open>What the status should be: the specification \<open>invalidate\<close> is checked against.\<close>

definition status_of :: "user_key_cache \<Rightarrow> verification_status \<Rightarrow> self_status" where
  "status_of keys verif =
     (if csk_keys (uk_master_keys keys) = fmempty then NoMasterKey
      else if vs_user_verified verif = Unverified then UnverifiedMasterKey
      else if vs_unverified_device_count verif > 0 then UnverifiedDevices
      else AllVerified)"

text \<open>With an open cache and our own keys known, \<open>invalidate\<close> either logs out (our device is
  gone from the list although it or its identity key was seen before) and leaves the status alone,
  or it makes the status the one of the keys and the verification state and signals a change of
  status exactly if there was one. The secure storage flag is reset either way. Without cached keys
  it reads through an empty optional: it has no result, whatever the state.\<close>

theorem invalidate_computes_status:
  "\<exists>s'. invalidate True me dev curve (Some keys) verif s = Some s' \<and> \<not> sv_hasSSSS s' \<and>
     (if dev |\<notin>| fmdom (uk_device_keys keys)
         \<and> (dev |\<in>| uk_seen_device_ids keys \<or> curve |\<in>| uk_seen_device_keys keys)
      then sv_status s' = sv_status s \<and> sv_log s' = sv_log s @ [HasSSSSChanged, DropToLogin]
      else sv_status s' = status_of keys verif
         \<and> count_list (sv_log s') SelfStatusChanged =
             count_list (sv_log s) SelfStatusChanged
             + (if sv_status s = status_of keys verif then 0 else 1)
         \<and> count_list (sv_log s') DropToLogin = count_list (sv_log s) DropToLogin)
   \<and> invalidate True me dev curve None verif s = None"
  by (simp add: invalidate_def invalidate_status_def own_device_listed_def own_device_seen_def
      status_of_def Let_def)

text \<open>Verifying the master key or the unverified devices starts at most one flow, and never
  with an empty list of devices (the assertion in \<open>InitiateDeviceVerification\<close> cannot fail): with
  our keys known both always return, with a flow exactly if there is a device to verify, and for
  exactly those devices.\<close>

theorem self_verification_starts_flow_for_devices:
  "verifyMasterKey env (Some keys) txn vm =
     Some (if master_key_devices (env_user_id env) keys = [] then vm
           else add_flow txn None
                  (the (InitiateDeviceVerification env (env_user_id env)
                          (master_key_devices (env_user_id env) keys) txn)) vm) \<and>
   verifyUnverifiedDevices env (Some keys) verif txn vm =
     Some (if unverified_devices keys verif = [] then vm
           else add_flow txn None
                  (the (InitiateDeviceVerification env (env_user_id env)
                          (unverified_devices keys verif) txn)) vm) \<and>
   set (unverified_devices keys verif) =
     {d. d |\<in>| fmdom (uk_device_keys keys) \<and> d |\<notin>| vs_verified_devices verif} \<and>
   set (master_key_devices (env_user_id env) keys) \<subseteq> fset (fmdom (uk_device_keys keys))"
  by (force simp: verifyMasterKey_def verifyUnverifiedDevices_def verifyOneOfDevices_def Let_def
      InitiateDeviceVerification_def unverified_devices_def master_key_devices_def
      fmlookup_dom_iff)

text \<open>A failed setup is not undone. If the cross-signing keys were created but the backup or the
  secure storage could not be set up, the operation reports the failure and uploads no key, yet
  the three new private keys stay in the secret store.\<close>

theorem failed_setup_keeps_private_keys:
  assumes "useOnlineKeyBackup \<and> okb = None \<or> useSSSS \<and> ssss = None"
  shows "\<exists>msg. snd (setupCrosssigning enc useSSSS useOnlineKeyBackup (Some x) okb ssss s) = None
     \<and> last (sv_log (fst (setupCrosssigning enc useSSSS useOnlineKeyBackup (Some x) okb ssss s)))
         = SetupFailed msg
     \<and> take 3 (drop (length (sv_log s))
         (sv_log (fst (setupCrosssigning enc useSSSS useOnlineKeyBackup (Some x) okb ssss s))))
         = [StoreSecret cross_signing_master (xs_private_master_key x),
            StoreSecret cross_signing_self_signing (xs_private_self_signing_key x),
            StoreSecret cross_signing_user_signing (xs_private_user_signing_key x)]"
  using assms by (auto simp: setupCrosssigning_def Let_def)

theorem failed_setup_keeps_private_keys_witness:
  "snd (setupCrosssigning (\<lambda>_ _ _. []) True False (Some \<lparr>xs_private_master_key = ''m'',
     xs_private_self_signing_key = ''s'', xs_private_user_signing_key = ''u''\<rparr>) None None
     new_self_verification) = None"
  using failed_setup_keeps_private_keys [of False None True None] by blast

end
