(* ===== verification/Timeline_Store.thy ===== *)
theory Timeline_Store
  imports Prelude
begin

text \<open>
  The timeline of one room in the cache (\<open>src/src/Cache.cpp\<close>). The eight per-room tables are the
  fields of \<open>timeline_db\<close>:

  \<^item> \<open>tl_events\<close>: \<open>/events\<close>, event id to event;
  \<^item> \<open>tl_order\<close>: \<open>/event_order\<close>, arrival index to event id and pagination token;
  \<^item> \<open>tl_ev2order\<close>: \<open>/event2order\<close>, its inverse;
  \<^item> \<open>tl_msg2order\<close>, \<open>tl_order2msg\<close>: the same for the events that are shown;
  \<^item> \<open>tl_pending\<close>: \<open>/pending\<close>, the time a message was queued to its transaction id;
  \<^item> \<open>tl_relations\<close>: \<open>/related\<close>, with several values per key.

  An event keeps the fields the cache reads: its id, transaction id, the event it redacts (for a
  redaction), the events it relates to, and the rest of its content. An operation that throws (and
  whose transaction is then rolled back) has the value \<open>None\<close>. Which events are hidden is a
  parameter.
\<close>

section \<open>State\<close>

record tl_event =
  te_id :: string
  te_txn :: string
  te_redacts :: "string option"
  te_relations :: "string list"
  te_content :: string
  te_redacted_by :: "string option"

record order_entry =
  oe_event_id :: string
  oe_prev_batch :: "string option"

record timeline_db =
  tl_events :: "(string, tl_event) table"
  tl_order :: "(u64, order_entry) table"
  tl_ev2order :: "(string, u64) table"
  tl_msg2order :: "(string, u64) table"
  tl_order2msg :: "(u64, string) table"
  tl_pending :: "(u64, string) table"
  tl_relations :: "(string, string) dup_table"

definition new_timeline :: timeline_db where
  "new_timeline = \<lparr>tl_events = fmempty, tl_order = fmempty, tl_ev2order = fmempty,
     tl_msg2order = fmempty, tl_order2msg = fmempty, tl_pending = fmempty, tl_relations = {||}\<rparr>"

record timeline_chunk =
  tc_events :: "tl_event list"
  tc_limited :: bool
  tc_prev_batch :: string

text \<open>\<open>MDB_APPEND\<close> refuses a key that is not greater than every key of the table.\<close>

definition append_key :: "'k::linorder \<Rightarrow> 'v \<Rightarrow> ('k, 'v) table \<Rightarrow> ('k, 'v) table option" where
  "append_key k v t =
     (case last_key t of
        Some l \<Rightarrow> if l < k then Some (fmupd k v t) else None
      | None \<Rightarrow> Some (fmupd k v t))"

section \<open>Saving what a sync brings\<close>

definition put_relations :: "tl_event \<Rightarrow> timeline_db \<Rightarrow> timeline_db" where
  "put_relations e db =
     db\<lparr>tl_relations :=
          fold (\<lambda>r. if r \<noteq> [] then finsert (r, te_id e) else id) (te_relations e) (tl_relations db)\<rparr>"

definition remove_pending :: "string \<Rightarrow> timeline_db \<Rightarrow> timeline_db" where
  "remove_pending txn_id db = db\<lparr>tl_pending := fmfilter (\<lambda>t. fmlookup (tl_pending db) t \<noteq> Some txn_id) (tl_pending db)\<rparr>"

text \<open>The remote echo of a message we sent takes the place of the pending message.\<close>

definition replace_pending :: "order_entry \<Rightarrow> tl_event \<Rightarrow> u64 \<Rightarrow> timeline_db \<Rightarrow> timeline_db" where
  "replace_pending entry e txn_order db =
     (let db1 = db\<lparr>tl_events := fmdrop (te_txn e) (fmupd (te_id e) e (tl_events db))\<rparr>;
          db2 = (case fmlookup (tl_msg2order db1) (te_txn e) of
                   Some m \<Rightarrow>
                     db1\<lparr>tl_order2msg := fmupd m (te_id e) (tl_order2msg db1),
                         tl_msg2order := fmdrop (te_txn e) (fmupd (te_id e) m (tl_msg2order db1))\<rparr>
                 | None \<Rightarrow> db1);
          db3 = db2\<lparr>tl_order := fmupd txn_order entry (tl_order db2),
                    tl_ev2order := fmdrop (te_txn e) (fmupd (te_id e) txn_order (tl_ev2order db2))\<rparr>;
          db4 = db3\<lparr>tl_relations :=
                  fold (\<lambda>r rel. if r \<noteq> [] then finsert (r, te_id e) (rel |-| {|(r, te_txn e)|}) else rel)
                    (te_relations e) (tl_relations db3)\<rparr>
      in remove_pending (te_txn e) db4)"

definition redact :: "tl_event \<Rightarrow> tl_event \<Rightarrow> tl_event" where
  "redact redaction old =
     old\<lparr>te_content := [], te_relations := [], te_redacted_by := Some (te_id redaction)\<rparr>"

definition apply_redaction :: "tl_event \<Rightarrow> string \<Rightarrow> timeline_db \<Rightarrow> timeline_db" where
  "apply_redaction e redacts db =
     (if redacts = [] then db
      else case fmlookup (tl_events db) redacts of
             None \<Rightarrow> db
           | Some old \<Rightarrow>
               db\<lparr>tl_events := fmupd (te_id e) e (fmupd redacts (redact e old) (tl_events db))\<rparr>)"

text \<open>The cursor of the save loop: the tables, the last indices and whether no entry was made yet.\<close>

record save_state =
  sl_db :: timeline_db
  sl_index :: u64
  sl_msgIndex :: u64
  sl_first :: bool

definition append_event ::
  "(tl_event \<Rightarrow> bool) \<Rightarrow> order_entry \<Rightarrow> tl_event \<Rightarrow> save_state \<Rightarrow> save_state option"
where
  "append_event hidden entry e s =
     (let db = sl_db s; s = s\<lparr>sl_first := False\<rparr>
      in if te_id e |\<in>| fmdom (tl_ev2order db) then
           Some (s\<lparr>sl_db := put_relations e (db\<lparr>tl_events := fmupd (te_id e) e (tl_events db)\<rparr>)\<rparr>)
         else
           let i = sl_index s + 1
           in Option.bind (append_key i entry (tl_order db)) (\<lambda>order.
                let db1 = db\<lparr>tl_order := order, tl_ev2order := fmupd (te_id e) i (tl_ev2order db)\<rparr>
                in if hidden e then
                     Some (s\<lparr>sl_index := i,
                             sl_db := put_relations e
                               (db1\<lparr>tl_events := fmupd (te_id e) e (tl_events db1)\<rparr>)\<rparr>)
                   else
                     let m = sl_msgIndex s + 1
                     in Option.bind (append_key m (te_id e) (tl_order2msg db1)) (\<lambda>o2m.
                          let db2 = db1\<lparr>tl_order2msg := o2m,
                                        tl_msg2order := fmupd (te_id e) m (tl_msg2order db1)\<rparr>
                          in Some (s\<lparr>sl_index := i, sl_msgIndex := m,
                                     sl_db := put_relations e
                                       (db2\<lparr>tl_events := fmupd (te_id e) e (tl_events db2)\<rparr>)\<rparr>))))"

definition save_event ::
  "(tl_event \<Rightarrow> bool) \<Rightarrow> string \<Rightarrow> tl_event \<Rightarrow> save_state \<Rightarrow> save_state option"
where
  "save_event hidden prev_batch e s =
     (if te_id e = [] then Some s
      else
        let entry = \<lparr>oe_event_id = te_id e,
                     oe_prev_batch = (if sl_first s \<and> prev_batch \<noteq> [] then Some prev_batch else None)\<rparr>;
            pending_order = (if te_txn e \<noteq> [] then fmlookup (tl_ev2order (sl_db s)) (te_txn e) else None)
        in case pending_order of
             Some i \<Rightarrow> Some (s\<lparr>sl_db := replace_pending entry e i (sl_db s)\<rparr>)
           | None \<Rightarrow>
               (case te_redacts e of
                  Some r \<Rightarrow> Some (s\<lparr>sl_db := apply_redaction e r (sl_db s)\<rparr>)
                | None \<Rightarrow> append_event hidden entry e s))"

text \<open>A limited timeline starts the order tables over.\<close>

definition drop_timeline :: "timeline_db \<Rightarrow> timeline_db" where
  "drop_timeline db =
     db\<lparr>tl_order := fmempty, tl_ev2order := fmempty, tl_msg2order := fmempty,
        tl_order2msg := fmempty, tl_pending := fmempty\<rparr>"

definition start_save :: "timeline_db \<Rightarrow> save_state" where
  "start_save db =
     \<lparr>sl_db = db,
      sl_index = (case last_key (tl_order db) of Some i \<Rightarrow> i | None \<Rightarrow> u64_half),
      sl_msgIndex = (case last_key (tl_order2msg db) of Some i \<Rightarrow> i | None \<Rightarrow> u64_half),
      sl_first = True\<rparr>"

definition saveTimelineMessages ::
  "(tl_event \<Rightarrow> bool) \<Rightarrow> timeline_chunk \<Rightarrow> timeline_db \<Rightarrow> timeline_db option"
where
  "saveTimelineMessages hidden res db =
     (if tc_events res = [] then Some db
      else
        let db = (if tc_limited res then drop_timeline db else db)
        in map_option sl_db (fold_opt (save_event hidden (tc_prev_batch res)) (tc_events res) (start_save db)))"

section \<open>Pending messages\<close>

text \<open>\<open>now\<close> is the clock in milliseconds; the table has one value per key.\<close>

definition savePendingMessage ::
  "(tl_event \<Rightarrow> bool) \<Rightarrow> u64 \<Rightarrow> tl_event \<Rightarrow> timeline_db \<Rightarrow> timeline_db option"
where
  "savePendingMessage hidden now message db =
     map_option (\<lambda>db. db\<lparr>tl_pending := fmupd now (te_id message) (tl_pending db)\<rparr>)
       (saveTimelineMessages hidden
          \<lparr>tc_events = [message], tc_limited = False, tc_prev_batch = []\<rparr> db)"

definition pendingEvents :: "timeline_db \<Rightarrow> string list" where
  "pendingEvents db = map snd (sorted_list_of_fmap (tl_pending db))"

fun first_pending ::
  "(u64 \<times> string) list \<Rightarrow> timeline_db \<Rightarrow> timeline_db \<times> tl_event option"
where
  "first_pending [] db = (db, None)"
| "first_pending ((t, txn) # ps) db =
     (case fmlookup (tl_events db) txn of
        Some e \<Rightarrow> (db, Some e)
      | None \<Rightarrow> first_pending ps (db\<lparr>tl_pending := fmdrop t (tl_pending db)\<rparr>))"

definition firstPendingMessage :: "timeline_db \<Rightarrow> timeline_db \<times> tl_event option" where
  "firstPendingMessage db = first_pending (sorted_list_of_fmap (tl_pending db)) db"

definition removePendingStatus :: "string \<Rightarrow> timeline_db \<Rightarrow> timeline_db" where
  "removePendingStatus txn_id db = remove_pending txn_id db"

section \<open>Pagination\<close>

record old_state =
  od_db :: timeline_db
  od_index :: u64
  od_msgIndex :: u64
  od_event_id :: string

definition save_old_event ::
  "(tl_event \<Rightarrow> bool) \<Rightarrow> tl_event \<Rightarrow> old_state \<Rightarrow> old_state option"
where
  "save_old_event hidden e s =
     (if te_redacts e \<noteq> None then Some s
      else if te_id e = [] then None
      else
        let db = od_db s; s = s\<lparr>od_event_id := te_id e\<rparr>
        in if te_id e |\<in>| fmdom (tl_ev2order db) then
             Some (s\<lparr>od_db := put_relations e (db\<lparr>tl_events := fmupd (te_id e) e (tl_events db)\<rparr>)\<rparr>)
           else
             let i = od_index s - 1;
                 db1 = db\<lparr>tl_order := fmupd i \<lparr>oe_event_id = te_id e, oe_prev_batch = None\<rparr> (tl_order db),
                          tl_ev2order := fmupd (te_id e) i (tl_ev2order db)\<rparr>
             in if hidden e then
                  Some (s\<lparr>od_index := i,
                    od_db := put_relations e (db1\<lparr>tl_events := fmupd (te_id e) e (tl_events db1)\<rparr>)\<rparr>)
                else
                  let m = od_msgIndex s - 1;
                      db2 = db1\<lparr>tl_order2msg := fmupd m (te_id e) (tl_order2msg db1),
                                tl_msg2order := fmupd (te_id e) m (tl_msg2order db1)\<rparr>
                  in Some (s\<lparr>od_index := i, od_msgIndex := m,
                       od_db := put_relations e
                                  (db2\<lparr>tl_events := fmupd (te_id e) e (tl_events db2)\<rparr>)\<rparr>))"

definition start_old :: "timeline_db \<Rightarrow> old_state" where
  "start_old db =
     \<lparr>od_db = db,
      od_index = (case first_key (tl_order db) of Some i \<Rightarrow> i | None \<Rightarrow> u64_half),
      od_msgIndex = (case first_key (tl_order2msg db) of Some i \<Rightarrow> i | None \<Rightarrow> u64_half),
      od_event_id = []\<rparr>"

definition saveOldMessages ::
  "(tl_event \<Rightarrow> bool) \<Rightarrow> tl_event list \<Rightarrow> string \<Rightarrow> timeline_db \<Rightarrow> (timeline_db \<times> u64) option"
where
  "saveOldMessages hidden chunk end_token db =
     (let s = start_old db
      in if chunk = [] then
           Some ((case fmlookup (tl_order db) (od_index s) of
                    Some oe \<Rightarrow> db\<lparr>tl_order :=
                      fmupd (od_index s) (oe\<lparr>oe_prev_batch := Some end_token\<rparr>) (tl_order db)\<rparr>
                  | None \<Rightarrow> db), od_index s)
         else
           map_option
             (\<lambda>t. ((od_db t)\<lparr>tl_order := fmupd (od_index t)
                      \<lparr>oe_event_id = od_event_id t, oe_prev_batch = Some end_token\<rparr>
                      (tl_order (od_db t))\<rparr>, od_msgIndex t))
             (fold_opt (save_old_event hidden) chunk s))"

section \<open>Expiry\<close>

definition max_restored_messages :: u64 where
  "max_restored_messages = 30000"

text \<open>The database rejects the deletion of an empty key.\<close>

definition delete_entry :: "u64 \<times> order_entry \<Rightarrow> timeline_db \<Rightarrow> timeline_db option" where
  "delete_entry p db =
     (let e = oe_event_id (snd p);
          db1 = db\<lparr>tl_ev2order := fmdrop e (tl_ev2order db), tl_events := fmdrop e (tl_events db),
                   tl_relations := dup_del_key (tl_relations db) e\<rparr>;
          db2 = (case fmlookup (tl_msg2order db1) e of
                   Some m \<Rightarrow> db1\<lparr>tl_order2msg := fmdrop m (tl_order2msg db1),
                                 tl_msg2order := fmdrop e (tl_msg2order db1)\<rparr>
                 | None \<Rightarrow> db1)
      in if e = [] then None else Some (db2\<lparr>tl_order := fmdrop (fst p) (tl_order db2)\<rparr>))"

text \<open>The loop over one room: \<open>message_count\<close> counts down to the limit.\<close>

fun delete_loop :: "u64 \<Rightarrow> (u64 \<times> order_entry) list \<Rightarrow> timeline_db \<Rightarrow> timeline_db option" where
  "delete_loop count [] db = Some db"
| "delete_loop count (p # ps) db =
     (if count > max_restored_messages
      then Option.bind (delete_entry p db) (delete_loop (count - 1) ps) else Some db)"

definition delete_old_room :: "timeline_db \<Rightarrow> timeline_db option" where
  "delete_old_room db =
     (case (last_key (tl_order db), first_key (tl_order db)) of
        (Some l, Some f) \<Rightarrow>
          if l - f < max_restored_messages then Some db
          else delete_loop (l - f) (sorted_list_of_fmap (tl_order db)) db
      | _ \<Rightarrow> Some db)"

text \<open>All rooms in one transaction: one exception undoes them all.\<close>

definition deleteOldMessages :: "(string, timeline_db) fmap \<Rightarrow> (string, timeline_db) fmap option" where
  "deleteOldMessages rooms =
     fold_opt (\<lambda>(r, db) acc. map_option (\<lambda>db'. fmupd r db' acc) (delete_old_room db))
       (sorted_list_of_fmap rooms) rooms"

section \<open>Clearing\<close>

text \<open>\<open>clearTimeline\<close> walks the order table from its end and keeps the entries down to the first with
  a pagination token; the older ones go with their events. Then it walks the shown events from the end
  to the first that is no longer in the order table, and deletes from there on. A cursor that finds
  nothing before its entry stays on it: when every shown event is still there, the oldest goes.\<close>

definition clear_entry :: "u64 \<times> order_entry \<Rightarrow> timeline_db \<Rightarrow> timeline_db" where
  "clear_entry p db =
     (let e = oe_event_id (snd p);
          db1 =
            (if e = [] then db
             else
               let db0 = db\<lparr>tl_ev2order := fmdrop e (tl_ev2order db), tl_events := fmdrop e (tl_events db),
                            tl_relations := dup_del_key (tl_relations db) e\<rparr>
               in case fmlookup (tl_msg2order db0) e of
                    Some m \<Rightarrow> db0\<lparr>tl_order2msg := fmdrop m (tl_order2msg db0),
                                  tl_msg2order := fmdrop e (tl_msg2order db0)\<rparr>
                  | None \<Rightarrow> db0)
      in db1\<lparr>tl_order := fmdrop (fst p) (tl_order db1)\<rparr>)"

fun after_token :: "(u64 \<times> order_entry) list \<Rightarrow> (u64 \<times> order_entry) list" where
  "after_token [] = []"
| "after_token (p # ps) = (if oe_prev_batch (snd p) \<noteq> None then ps else after_token ps)"

definition in_order :: "timeline_db \<Rightarrow> string \<Rightarrow> bool" where
  "in_order db e = list_ex (\<lambda>p. oe_event_id (snd p) = e) (sorted_list_of_fmap (tl_order db))"

definition lost_messages :: "timeline_db \<Rightarrow> (u64 \<times> string) list" where
  "lost_messages db =
     (let msgs = rev (sorted_list_of_fmap (tl_order2msg db))
      in case dropWhile (\<lambda>p. in_order db (snd p)) msgs of
           [] \<Rightarrow> (if msgs = [] then [] else [last msgs])
         | ps \<Rightarrow> ps)"

definition clearTimeline :: "timeline_db \<Rightarrow> timeline_db" where
  "clearTimeline db =
     (let db1 = fold clear_entry (after_token (rev (sorted_list_of_fmap (tl_order db)))) db
      in fold (\<lambda>p db. db\<lparr>tl_order2msg := fmdrop (fst p) (tl_order2msg db)\<rparr>) (lost_messages db1) db1)"

section \<open>Lookups\<close>

definition previousBatchToken :: "timeline_db \<Rightarrow> string" where
  "previousBatchToken db =
     (case first_key (tl_order db) of
        None \<Rightarrow> []
      | Some i \<Rightarrow> (case Option.bind (fmlookup (tl_order db) i) oe_prev_batch of
                     Some t \<Rightarrow> t | None \<Rightarrow> []))"

definition getTimelineRange :: "timeline_db \<Rightarrow> (u64 \<times> u64) option" where
  "getTimelineRange db =
     (case (first_key (tl_order2msg db), last_key (tl_order2msg db)) of
        (Some f, Some l) \<Rightarrow> Some (f, l) | _ \<Rightarrow> None)"

definition getTimelineIndex :: "string \<Rightarrow> timeline_db \<Rightarrow> u64 option" where
  "getTimelineIndex e db = (if e = [] then None else fmlookup (tl_msg2order db) e)"

definition getEventIndex :: "string \<Rightarrow> timeline_db \<Rightarrow> u64 option" where
  "getEventIndex e db = (if e = [] then None else fmlookup (tl_ev2order db) e)"

definition getArrivalIndex :: "string \<Rightarrow> timeline_db \<Rightarrow> u64 option" where
  "getArrivalIndex e db = fmlookup (tl_ev2order db) e"

definition getTimelineEventId :: "u64 \<Rightarrow> timeline_db \<Rightarrow> string option" where
  "getTimelineEventId i db = fmlookup (tl_order2msg db) i"

definition getLastEventId :: "timeline_db \<Rightarrow> string" where
  "getLastEventId db =
     (case last_key (tl_order2msg db) of
        None \<Rightarrow> [] | Some i \<Rightarrow> (case fmlookup (tl_order2msg db) i of Some e \<Rightarrow> e | None \<Rightarrow> []))"

definition getEvent :: "string \<Rightarrow> timeline_db \<Rightarrow> tl_event option" where
  "getEvent e db = fmlookup (tl_events db) e"

definition storeEvent :: "string \<Rightarrow> tl_event \<Rightarrow> timeline_db \<Rightarrow> timeline_db option" where
  "storeEvent e ev db =
     (if e = [] then None else Some (db\<lparr>tl_events := fmupd e ev (tl_events db)\<rparr>))"

definition replaceEvent :: "string \<Rightarrow> tl_event \<Rightarrow> timeline_db \<Rightarrow> timeline_db option" where
  "replaceEvent e ev db =
     (if e = [] \<or> [] \<in> set (te_relations ev) then None
      else Some (db\<lparr>tl_events := fmupd e ev (fmdrop e (tl_events db)),
                    tl_relations := fold (\<lambda>r. finsert (r, e)) (te_relations ev) (tl_relations db)\<rparr>))"

definition relatedEvents :: "string \<Rightarrow> timeline_db \<Rightarrow> string list" where
  "relatedEvents e db = dup_values (tl_relations db) e"

text \<open>
  The event before the first shown event after \<open>event_id\<close>. A missing order entry leaves the
  cursor at the start of the table.
\<close>

fun last_invisible :: "timeline_db \<Rightarrow> (u64 \<times> order_entry) list \<Rightarrow> u64 \<times> string \<Rightarrow> u64 \<times> string" where
  "last_invisible db [] prev = prev"
| "last_invisible db ((i, oe) # es) prev =
     (if oe_event_id oe |\<in>| fmdom (tl_msg2order db) then prev
      else last_invisible db es (i, oe_event_id oe))"

definition lastInvisibleEventAfter :: "string \<Rightarrow> timeline_db \<Rightarrow> (u64 \<times> string) option" where
  "lastInvisibleEventAfter e db =
     (if e = [] then None
      else case fmlookup (tl_ev2order db) e of
             None \<Rightarrow> None
           | Some i \<Rightarrow>
               let later = (if i |\<in>| fmdom (tl_order db)
                            then filter (\<lambda>p. i < fst p) (sorted_list_of_fmap (tl_order db))
                            else sorted_list_of_fmap (tl_order db))
               in Some (last_invisible db later (i, e)))"

text \<open>Optional indices compare with the empty one as the smallest.\<close>

fun opt_less :: "u64 option \<Rightarrow> u64 option \<Rightarrow> bool" where
  "opt_less _ None = False"
| "opt_less None (Some _) = True"
| "opt_less (Some a) (Some b) = (a < b)"

definition calculateRoomReadStatus :: "string \<Rightarrow> timeline_db \<Rightarrow> bool" where
  "calculateRoomReadStatus fullyReadEventId db =
     (let last_event_id = getLastEventId db
      in if last_event_id = [] \<or> fullyReadEventId = [] then True
         else if last_event_id = fullyReadEventId then False
         else opt_less (getEventIndex fullyReadEventId db) (getEventIndex last_event_id db))"

text \<open>
  A page of the timeline. The start index is only looked up (with an empty key, which the database
  rejects): any index but the default throws. The reading starts at an end of the table.
\<close>

record messages_page =
  mp_events :: "tl_event list"
  mp_next_index :: u64
  mp_end_of_cache :: bool

definition batch_size :: nat where
  "batch_size = 100"

definition getTimelineMessages :: "u64 \<Rightarrow> bool \<Rightarrow> timeline_db \<Rightarrow> messages_page option" where
  "getTimelineMessages index forward db =
     (if index \<noteq> u64_max then None
      else
        let entries = (if forward then sorted_list_of_fmap (tl_order2msg db)
                       else rev (sorted_list_of_fmap (tl_order2msg db)))
        in if entries = [] then Some \<lparr>mp_events = [], mp_next_index = 0, mp_end_of_cache = True\<rparr>
           else
             let more = length entries > batch_size
             in Some \<lparr>mp_events = List.map_filter (\<lambda>p. fmlookup (tl_events db) (snd p))
                                    (take batch_size entries),
                      mp_next_index = fst (if more then entries ! batch_size else last entries),
                      mp_end_of_cache = \<not> more\<rparr>)"

end
