(* ===== verification/Timeline_Invariant.thy ===== *)
theory Timeline_Invariant
  imports Timeline_Store
begin

text \<open>
  The order tables of a room are inverse to each other: what an event id maps to is an entry with
  that event id. Syncs, pending messages and the expiry of old messages keep it; pagination keeps it
  as long as the last event of the page is new, and breaks it otherwise.
\<close>

section \<open>The invariant\<close>

definition tl_inv :: "timeline_db \<Rightarrow> bool" where
  "tl_inv db \<longleftrightarrow>
     (\<forall>e i. fmlookup (tl_ev2order db) e = Some i \<longrightarrow>
        (\<exists>oe. fmlookup (tl_order db) i = Some oe \<and> oe_event_id oe = e)) \<and>
     (\<forall>e m. fmlookup (tl_msg2order db) e = Some m \<longrightarrow> fmlookup (tl_order2msg db) m = Some e) \<and>
     (\<forall>e m. fmlookup (tl_msg2order db) e = Some m \<longrightarrow> fmlookup (tl_ev2order db) e \<noteq> None)"

lemma tl_invI:
  assumes "\<And>e i. fmlookup (tl_ev2order db) e = Some i \<Longrightarrow>
             \<exists>oe. fmlookup (tl_order db) i = Some oe \<and> oe_event_id oe = e"
    and "\<And>e m. fmlookup (tl_msg2order db) e = Some m \<Longrightarrow> fmlookup (tl_order2msg db) m = Some e"
    and "\<And>e m. fmlookup (tl_msg2order db) e = Some m \<Longrightarrow> fmlookup (tl_ev2order db) e \<noteq> None"
  shows "tl_inv db"
  using assms unfolding tl_inv_def by blast

lemma tl_invD:
  assumes "tl_inv db"
  shows "fmlookup (tl_ev2order db) e = Some i \<Longrightarrow>
           \<exists>oe. fmlookup (tl_order db) i = Some oe \<and> oe_event_id oe = e"
    and "fmlookup (tl_msg2order db) e = Some m \<Longrightarrow> fmlookup (tl_order2msg db) m = Some e"
    and "fmlookup (tl_msg2order db) e = Some m \<Longrightarrow> fmlookup (tl_ev2order db) e \<noteq> None"
  using assms unfolding tl_inv_def by blast+

lemma tl_inv_ev_inj:
  "tl_inv db \<Longrightarrow> fmlookup (tl_ev2order db) e = Some i \<Longrightarrow> fmlookup (tl_ev2order db) f = Some i \<Longrightarrow> e = f"
  using tl_invD(1) [of db e i] tl_invD(1) [of db f i] by auto

lemma tl_inv_msg_inj:
  "tl_inv db \<Longrightarrow> fmlookup (tl_msg2order db) e = Some m \<Longrightarrow> fmlookup (tl_msg2order db) f = Some m \<Longrightarrow> e = f"
  using tl_invD(2) [of db e m] tl_invD(2) [of db f m] by auto

text \<open>Only the four order tables matter.\<close>

lemma tl_inv_frame [simp]:
  "tl_inv (db\<lparr>tl_events := t\<rparr>) = tl_inv db"
  "tl_inv (db\<lparr>tl_relations := r\<rparr>) = tl_inv db"
  "tl_inv (db\<lparr>tl_pending := p\<rparr>) = tl_inv db"
  "tl_inv (put_relations e db) = tl_inv db"
  "tl_inv (remove_pending txn db) = tl_inv db"
  by (simp_all add: tl_inv_def put_relations_def remove_pending_def)

lemma tl_inv_new [simp]: "tl_inv new_timeline"
  by (rule tl_invI) (simp_all add: new_timeline_def)

lemma tl_inv_drop [simp]: "tl_inv (drop_timeline db)"
  by (rule tl_invI) (simp_all add: drop_timeline_def)

lemma append_key_Some:
  "append_key k v t = Some t' \<Longrightarrow> t' = fmupd k v t \<and> (\<forall>j. j |\<in>| fmdom t \<longrightarrow> j < k)"
  using last_key_ge [of t] by (force simp: append_key_def split: option.splits if_splits)

lemma append_key_fresh: "append_key k v t = Some t' \<Longrightarrow> fmlookup t k = None"
  using append_key_Some [of k v t t'] by (metis fmdomI not_None_eq order_less_irrefl)

text \<open>A new entry under a fresh index, for an event that has none.\<close>

lemma tl_inv_new_order:
  assumes "tl_inv db" and "fmlookup (tl_ev2order db) e = None" and "oe_event_id oe = e"
    and "\<And>f. fmlookup (tl_ev2order db) f \<noteq> Some i"
  shows "tl_inv (db\<lparr>tl_order := fmupd i oe (tl_order db), tl_ev2order := fmupd e i (tl_ev2order db)\<rparr>)"
  using assms tl_invD [OF assms(1)] by (intro tl_invI) (auto split: if_splits)

lemma tl_inv_new_msg:
  assumes "tl_inv db" and "fmlookup (tl_ev2order db) e \<noteq> None" and "fmlookup (tl_msg2order db) e = None"
    and "\<And>f. fmlookup (tl_msg2order db) f \<noteq> Some m"
  shows "tl_inv (db\<lparr>tl_order2msg := fmupd m e (tl_order2msg db),
                    tl_msg2order := fmupd e m (tl_msg2order db)\<rparr>)"
  using assms tl_invD [OF assms(1)] by (intro tl_invI) (auto split: if_splits)

section \<open>Syncs\<close>

lemma replace_pending_lookups:
  "tl_order (replace_pending entry e i db) = fmupd i entry (tl_order db)"
  "fmlookup (tl_ev2order (replace_pending entry e i db)) f =
     (if f = te_txn e then None else if f = te_id e then Some i else fmlookup (tl_ev2order db) f)"
  "fmlookup (tl_msg2order (replace_pending entry e i db)) f =
     (if f = te_txn e then None
      else if f = te_id e \<and> fmlookup (tl_msg2order db) (te_txn e) \<noteq> None
      then fmlookup (tl_msg2order db) (te_txn e) else fmlookup (tl_msg2order db) f)"
  "fmlookup (tl_order2msg (replace_pending entry e i db)) m =
     (if fmlookup (tl_msg2order db) (te_txn e) = Some m then Some (te_id e)
      else fmlookup (tl_order2msg db) m)"
  "fmlookup (tl_events (replace_pending entry e i db)) f =
     (if f = te_txn e then None else if f = te_id e then Some e else fmlookup (tl_events db) f)"
  "fmlookup (tl_pending (replace_pending entry e i db)) t =
     (if fmlookup (tl_pending db) t = Some (te_txn e) then None else fmlookup (tl_pending db) t)"
  by (auto simp: replace_pending_def remove_pending_def Let_def split: option.split)

lemma tl_inv_replace_pending:
  assumes db: "tl_inv db" and i: "fmlookup (tl_ev2order db) (te_txn e) = Some i"
    and entry: "oe_event_id entry = te_id e"
  shows "tl_inv (replace_pending entry e i db)"
proof (rule tl_invI)
  fix f j assume "fmlookup (tl_ev2order (replace_pending entry e i db)) f = Some j"
  then show "\<exists>oe. fmlookup (tl_order (replace_pending entry e i db)) j = Some oe \<and> oe_event_id oe = f"
    using tl_invD(1) [OF db, of f j] tl_inv_ev_inj [OF db i, of f] entry
    by (auto simp: replace_pending_lookups split: if_splits)
next
  fix f m assume f: "fmlookup (tl_msg2order (replace_pending entry e i db)) f = Some m"
  have txn: "f \<noteq> te_txn e" using f by (auto simp: replace_pending_lookups)
  show "fmlookup (tl_order2msg (replace_pending entry e i db)) m = Some f"
  proof (cases "f = te_id e \<and> fmlookup (tl_msg2order db) (te_txn e) \<noteq> None")
    case True
    then show ?thesis using f txn by (simp add: replace_pending_lookups)
  next
    case False
    then have old: "fmlookup (tl_msg2order db) f = Some m"
      using f txn by (simp add: replace_pending_lookups split: if_splits)
    then have "fmlookup (tl_msg2order db) (te_txn e) \<noteq> Some m"
      using tl_inv_msg_inj [OF db] txn by blast
    then show ?thesis using tl_invD(2) [OF db old] by (simp add: replace_pending_lookups)
  qed
next
  fix f m assume "fmlookup (tl_msg2order (replace_pending entry e i db)) f = Some m"
  then show "fmlookup (tl_ev2order (replace_pending entry e i db)) f \<noteq> None"
    using tl_invD(3) [OF db, of f m] by (auto simp: replace_pending_lookups split: if_splits)
qed

lemma tl_inv_apply_redaction [simp]: "tl_inv (apply_redaction e r db) = tl_inv db"
  by (simp add: apply_redaction_def split: option.split)

lemma tl_inv_append_event:
  assumes db: "tl_inv (sl_db s)" and entry: "oe_event_id entry = te_id e"
    and s': "append_event hidden entry e s = Some s'"
  shows "tl_inv (sl_db s')"
proof (cases "te_id e |\<in>| fmdom (tl_ev2order (sl_db s))")
  case True
  then show ?thesis using s' db by (auto simp: append_event_def Let_def)
next
  case False
  let ?db = "sl_db s" and ?i = "sl_index s + 1" and ?m = "sl_msgIndex s + 1"
  let ?db1 = "?db\<lparr>tl_order := fmupd ?i entry (tl_order ?db),
                  tl_ev2order := fmupd (te_id e) ?i (tl_ev2order ?db)\<rparr>"
  from s' False obtain order where order: "append_key ?i entry (tl_order ?db) = Some order"
    by (auto simp: append_event_def Let_def bind_eq_Some_conv)
  have new: "fmlookup (tl_ev2order ?db) (te_id e) = None" using False by (simp add: fmlookup_dom_iff)
  have fresh: "fmlookup (tl_ev2order ?db) f \<noteq> Some ?i" for f
    using tl_invD(1) [OF db, of f ?i] append_key_fresh [OF order] by auto
  have db1: "tl_inv ?db1" by (rule tl_inv_new_order [OF db new entry fresh])
  note o = append_key_Some [OF order, THEN conjunct1]
  show ?thesis
  proof (cases "hidden e")
    case True
    then show ?thesis using s' False order o db1 by (auto simp: append_event_def Let_def)
  next
    case vis: False
    with s' False order obtain o2m where o2m: "append_key ?m (te_id e) (tl_order2msg ?db) = Some o2m"
      by (auto simp: append_event_def Let_def bind_eq_Some_conv)
    have "fmlookup (tl_msg2order ?db1) (te_id e) = None" using tl_invD(3) [OF db, of "te_id e"] new by force
    moreover have "fmlookup (tl_msg2order ?db1) f \<noteq> Some ?m" for f
      using tl_invD(2) [OF db, of f ?m] append_key_fresh [OF o2m] by auto
    ultimately have "tl_inv (?db1\<lparr>tl_order2msg := fmupd ?m (te_id e) (tl_order2msg ?db1),
                    tl_msg2order := fmupd (te_id e) ?m (tl_msg2order ?db1)\<rparr>)"
      by (intro tl_inv_new_msg [OF db1]) auto
    then show ?thesis
      using s' False order o vis append_key_Some [OF o2m, THEN conjunct1] o2m
      by (auto simp: append_event_def Let_def)
  qed
qed

lemma tl_inv_save_event:
  "tl_inv (sl_db s) \<Longrightarrow> save_event hidden pb e s = Some s' \<Longrightarrow> tl_inv (sl_db s')"
  unfolding save_event_def
  by (auto simp: Let_def tl_inv_replace_pending split: if_splits option.splits
      dest: tl_inv_append_event [rotated 2])

lemma tl_inv_saveTimelineMessages:
  assumes "tl_inv db" and "saveTimelineMessages hidden res db = Some db'"
  shows "tl_inv db'"
proof (cases "tc_events res = []")
  case False
  let ?db = "if tc_limited res then drop_timeline db else db"
  obtain s where s: "fold_opt (save_event hidden (tc_prev_batch res)) (tc_events res) (start_save ?db) = Some s"
    "db' = sl_db s"
    using assms(2) False by (auto simp: saveTimelineMessages_def Let_def)
  have "tl_inv (sl_db s)"
    using s(1) by (rule fold_opt_invariant [where P = "\<lambda>s. tl_inv (sl_db s)"])
      (use assms(1) in \<open>auto simp: start_save_def intro: tl_inv_save_event\<close>)
  then show ?thesis using s(2) by simp
qed (use assms in \<open>simp add: saveTimelineMessages_def\<close>)

lemma tl_inv_savePending:
  "tl_inv db \<Longrightarrow> savePendingMessage hidden now m db = Some db' \<Longrightarrow> tl_inv db'"
  by (auto simp: savePendingMessage_def dest: tl_inv_saveTimelineMessages)

lemma tl_inv_first_pending: "tl_inv (fst (first_pending ps db)) = tl_inv db"
  by (induction ps db rule: first_pending.induct) (auto split: option.split)

section \<open>Expiry\<close>

lemma tl_inv_delete_entry:
  assumes "tl_inv db" and "delete_entry (i, oe) db = Some db'" and "fmlookup (tl_order db) i = Some oe"
  shows "tl_inv db'"
proof -
  note d = tl_invD [OF assms(1)] and mi = tl_inv_msg_inj [OF assms(1)]
  have "oe_event_id oe = f" if "fmlookup (tl_ev2order db) f = Some i" for f
    using d(1) [OF that] assms(3) by simp
  then show ?thesis
    using assms(2) d mi
    by (intro tl_invI)
      (fastforce simp: delete_entry_def Let_def split: if_splits option.splits)+
qed

lemma delete_entry_order:
  "delete_entry (i, oe) db = Some db' \<Longrightarrow> tl_order db' = fmdrop i (tl_order db)"
  by (auto simp: delete_entry_def Let_def split: if_splits option.splits)

lemma tl_inv_delete_loop:
  assumes "tl_inv db" and "delete_loop n ps db = Some db'" and "distinct (map fst ps)"
    and "\<And>i oe. (i, oe) \<in> set ps \<Longrightarrow> fmlookup (tl_order db) i = Some oe"
  shows "tl_inv db'"
  using assms
proof (induction n ps db rule: delete_loop.induct)
  case (1 n db)
  then show ?case by simp
next
  case (2 n p ps db)
  obtain i oe where p: "p = (i, oe)" by (cases p)
  show ?case
  proof (cases "n > max_restored_messages")
    case True
    then obtain db1 where db1: "delete_entry p db = Some db1" "delete_loop (n - 1) ps db1 = Some db'"
      using 2(3) by (auto simp: bind_eq_Some_conv)
    have "tl_inv db1"
      using tl_inv_delete_entry [OF 2(2)] db1(1) 2(5) unfolding p by simp
    moreover have "fmlookup (tl_order db1) j = Some e" if "(j, e) \<in> set ps" for j e
    proof -
      have "j \<noteq> i" using that 2(4) p by force
      then show ?thesis using 2(5) [of j e] that delete_entry_order db1(1) p by fastforce
    qed
    ultimately show ?thesis using 2(1) [OF True db1(1)] db1(2) 2(4) by simp
  next
    case False
    then show ?thesis using 2(2,3) by simp
  qed
qed

lemma tl_inv_delete_old_room:
  assumes "tl_inv db" and "delete_old_room db = Some db'"
  shows "tl_inv db'"
  using assms tl_inv_delete_loop [OF assms(1), of _ "sorted_list_of_fmap (tl_order db)" db']
    distinct_sorted_list_of_fmap [of "tl_order db"]
  by (auto simp: delete_old_room_def split: option.splits if_splits)

section \<open>Pagination\<close>

text \<open>
  The loop invariant: the indices are below every index of the tables, and far enough from zero
  for the \<open>n\<close> events still to come.
\<close>

definition od_inv :: "nat \<Rightarrow> old_state \<Rightarrow> bool" where
  "od_inv n s \<longleftrightarrow>
     tl_inv (od_db s) \<and> n \<le> unat (od_index s) \<and> n \<le> unat (od_msgIndex s) \<and>
     (\<forall>i. i |\<in>| fmdom (tl_order (od_db s)) \<longrightarrow> od_index s \<le> i) \<and>
     (\<forall>m. m |\<in>| fmdom (tl_order2msg (od_db s)) \<longrightarrow> od_msgIndex s \<le> m)"

lemma word_pred_less:
  assumes "Suc n \<le> unat (i :: u64)"
  shows "i - 1 < i" and "n \<le> unat (i - 1)" and "i \<le> j \<Longrightarrow> i - 1 \<le> j" and "i \<le> j \<Longrightarrow> i - 1 \<noteq> j"
proof -
  have i: "i \<noteq> 0" using assms by auto
  then show less: "i - 1 < i" by (simp add: measure_unat unat_arith_simps word_less_nat_alt)
  show "n \<le> unat (i - 1)" using assms i by (simp add: unat_minus_one)
  show "i \<le> j \<Longrightarrow> i - 1 \<le> j" "i \<le> j \<Longrightarrow> i - 1 \<noteq> j" using less by auto
qed

lemma put_relations_tables [simp]:
  "tl_order (put_relations e db) = tl_order db" "tl_ev2order (put_relations e db) = tl_ev2order db"
  "tl_msg2order (put_relations e db) = tl_msg2order db"
  "tl_order2msg (put_relations e db) = tl_order2msg db"
  "tl_events (put_relations e db) = tl_events db" "tl_pending (put_relations e db) = tl_pending db"
  by (simp_all add: put_relations_def)

text \<open>The three outcomes of the body of the loop.\<close>

lemma save_old_event_cases:
  assumes "save_old_event hidden e s = Some s'"
  obtains (redaction) "te_redacts e \<noteq> None" "s' = s"
  | (known) "te_redacts e = None" "te_id e \<noteq> []" "te_id e |\<in>| fmdom (tl_ev2order (od_db s))"
      "od_index s' = od_index s" "od_msgIndex s' = od_msgIndex s" "od_event_id s' = te_id e"
      "tl_order (od_db s') = tl_order (od_db s)" "tl_ev2order (od_db s') = tl_ev2order (od_db s)"
      "tl_msg2order (od_db s') = tl_msg2order (od_db s)"
      "tl_order2msg (od_db s') = tl_order2msg (od_db s)"
  | (hidden) "te_redacts e = None" "te_id e \<noteq> []" "te_id e |\<notin>| fmdom (tl_ev2order (od_db s))"
      "od_index s' = od_index s - 1" "od_msgIndex s' = od_msgIndex s" "od_event_id s' = te_id e"
      "tl_order (od_db s') = fmupd (od_index s - 1) \<lparr>oe_event_id = te_id e, oe_prev_batch = None\<rparr>
                               (tl_order (od_db s))"
      "tl_ev2order (od_db s') = fmupd (te_id e) (od_index s - 1) (tl_ev2order (od_db s))"
      "tl_msg2order (od_db s') = tl_msg2order (od_db s)"
      "tl_order2msg (od_db s') = tl_order2msg (od_db s)"
  | (shown) "te_redacts e = None" "te_id e \<noteq> []" "te_id e |\<notin>| fmdom (tl_ev2order (od_db s))"
      "od_index s' = od_index s - 1" "od_msgIndex s' = od_msgIndex s - 1" "od_event_id s' = te_id e"
      "tl_order (od_db s') = fmupd (od_index s - 1) \<lparr>oe_event_id = te_id e, oe_prev_batch = None\<rparr>
                               (tl_order (od_db s))"
      "tl_ev2order (od_db s') = fmupd (te_id e) (od_index s - 1) (tl_ev2order (od_db s))"
      "tl_msg2order (od_db s') = fmupd (te_id e) (od_msgIndex s - 1) (tl_msg2order (od_db s))"
      "tl_order2msg (od_db s') = fmupd (od_msgIndex s - 1) (te_id e) (tl_order2msg (od_db s))"
  using assms
  by (cases "te_redacts e \<noteq> None"; cases "te_id e |\<in>| fmdom (tl_ev2order (od_db s))"; cases "hidden e")
    (force simp: save_old_event_def Let_def split: if_splits)+

lemma tl_inv_cong:
  assumes "tl_order db = tl_order db'" "tl_ev2order db = tl_ev2order db'"
    "tl_msg2order db = tl_msg2order db'" "tl_order2msg db = tl_order2msg db'"
  shows "tl_inv db = tl_inv db'"
  using assms by (simp add: tl_inv_def)

lemma od_inv_step:
  assumes s: "od_inv (Suc n) s" and e: "save_old_event hidden e s = Some s'"
  shows "od_inv n s'"
  using e
proof (cases rule: save_old_event_cases)
  case redaction
  then show ?thesis using s by (simp add: od_inv_def)
next
  case known
  then show ?thesis using s tl_inv_cong [of "od_db s'" "od_db s"] by (simp add: od_inv_def)
next
  case hidden
  let ?db = "od_db s"
  let ?db1 = "?db\<lparr>tl_order := fmupd (od_index s - 1) \<lparr>oe_event_id = te_id e, oe_prev_batch = None\<rparr> (tl_order ?db),
                  tl_ev2order := fmupd (te_id e) (od_index s - 1) (tl_ev2order ?db)\<rparr>"
  note w = word_pred_less [of n "od_index s"]
  have db: "tl_inv ?db" and n: "Suc n \<le> unat (od_index s)"
    and below: "i |\<in>| fmdom (tl_order ?db) \<Longrightarrow> od_index s \<le> i" for i
    using s by (auto simp: od_inv_def)
  have fresh: "fmlookup (tl_ev2order ?db) f \<noteq> Some (od_index s - 1)" for f
    using tl_invD(1) [OF db, of f] below w(4) [OF n] by (metis fmdomI)
  have "tl_inv ?db1"
    using hidden(3) by (intro tl_inv_new_order [OF db _ _ fresh]) (simp_all add: fmlookup_dom_iff)
  then have "tl_inv (od_db s')" using tl_inv_cong [of "od_db s'" ?db1] hidden by simp
  then show ?thesis using hidden s w [OF n] below by (auto simp: od_inv_def)
next
  case shown
  let ?db = "od_db s"
  let ?db1 = "?db\<lparr>tl_order := fmupd (od_index s - 1) \<lparr>oe_event_id = te_id e, oe_prev_batch = None\<rparr> (tl_order ?db),
                  tl_ev2order := fmupd (te_id e) (od_index s - 1) (tl_ev2order ?db)\<rparr>"
  let ?db2 = "?db1\<lparr>tl_order2msg := fmupd (od_msgIndex s - 1) (te_id e) (tl_order2msg ?db1),
                   tl_msg2order := fmupd (te_id e) (od_msgIndex s - 1) (tl_msg2order ?db1)\<rparr>"
  note w = word_pred_less [of n "od_index s"] and v = word_pred_less [of n "od_msgIndex s"]
  have db: "tl_inv ?db" and n: "Suc n \<le> unat (od_index s)" and m: "Suc n \<le> unat (od_msgIndex s)"
    and below: "i |\<in>| fmdom (tl_order ?db) \<Longrightarrow> od_index s \<le> i"
    and below': "j |\<in>| fmdom (tl_order2msg ?db) \<Longrightarrow> od_msgIndex s \<le> j" for i j
    using s by (auto simp: od_inv_def)
  have fresh: "fmlookup (tl_ev2order ?db) f \<noteq> Some (od_index s - 1)" for f
    using tl_invD(1) [OF db, of f] below w(4) [OF n] by (metis fmdomI)
  have db1: "tl_inv ?db1"
    using shown(3) by (intro tl_inv_new_order [OF db _ _ fresh]) (simp_all add: fmlookup_dom_iff)
  have fresh': "fmlookup (tl_msg2order ?db1) f \<noteq> Some (od_msgIndex s - 1)" for f
    using tl_invD(2) [OF db, of f] below' v(4) [OF m] by (auto dest: fmdomI)
  have none: "fmlookup (tl_msg2order ?db1) (te_id e) = None"
    using tl_invD(3) [OF db, of "te_id e"] shown(3)
    by (cases "fmlookup (tl_msg2order ?db) (te_id e)") (auto simp: fmlookup_dom_iff)
  have "tl_inv ?db2" by (rule tl_inv_new_msg [OF db1 _ none fresh']) simp
  then have "tl_inv (od_db s')" using tl_inv_cong [of "od_db s'" ?db2] shown by simp
  then show ?thesis using shown s w [OF n] v [OF m] below below' by (auto simp: od_inv_def)
qed

lemma od_inv_fold:
  "od_inv (length es + n) s \<Longrightarrow> fold_opt (save_old_event hidden) es s = Some s' \<Longrightarrow> od_inv n s'"
proof (induction es arbitrary: s)
  case (Cons e es)
  then show ?case using od_inv_step by (auto simp: bind_eq_Some_conv) blast
qed simp

lemma save_old_ids:
  "fold_opt (save_old_event hidden) es s = Some s' \<Longrightarrow>
   fset (fmdom (tl_ev2order (od_db s'))) \<subseteq> fset (fmdom (tl_ev2order (od_db s))) \<union> te_id ` set es"
proof (induction es arbitrary: s)
  case (Cons e es)
  then obtain s1 where s1: "save_old_event hidden e s = Some s1"
    "fold_opt (save_old_event hidden) es s1 = Some s'" by (auto simp: bind_eq_Some_conv)
  have "fset (fmdom (tl_ev2order (od_db s1))) \<subseteq> insert (te_id e) (fset (fmdom (tl_ev2order (od_db s))))"
    using s1(1) by (cases rule: save_old_event_cases) auto
  then show ?case using Cons.IH [OF s1(2)] by auto
qed simp

lemma save_old_redactions:
  "\<forall>e \<in> set es. te_redacts e \<noteq> None \<Longrightarrow> fold_opt (save_old_event hidden) es s = Some s"
  by (induction es) (auto simp: save_old_event_def)

end
