(* ===== verification/Timeline_Properties.thy ===== *)
theory Timeline_Properties
  imports Timeline_Invariant
begin

text \<open>
  What a room's timeline tables promise: the order tables stay inverse to each other over every
  history of syncs, queued messages and expiry; the echo of a message takes the place of the queued
  message; new events come after all old ones; the expiry keeps the newest entries. And the two
  places where the promise fails: a page of old messages that ends in a known event, and two
  messages queued in the same millisecond.
\<close>

section \<open>The timeline as a machine\<close>

text \<open>The operations that write, an exception leaving the tables as they were (the rollback).\<close>

datatype timeline_op =
    TlSync "tl_event \<Rightarrow> bool" timeline_chunk
  | TlQueue "tl_event \<Rightarrow> bool" u64 tl_event
  | TlFirstPending
  | TlRemovePending string
  | TlExpire
  | TlStore string tl_event
  | TlReplace string tl_event

fun or_rollback :: "'a \<Rightarrow> 'a option \<Rightarrow> 'a" where
  "or_rollback db (Some db') = db'"
| "or_rollback db None = db"

fun timeline_step :: "timeline_db \<Rightarrow> timeline_op \<Rightarrow> timeline_db" where
  "timeline_step db (TlSync hidden res) = or_rollback db (saveTimelineMessages hidden res db)"
| "timeline_step db (TlQueue hidden now m) = or_rollback db (savePendingMessage hidden now m db)"
| "timeline_step db TlFirstPending = fst (firstPendingMessage db)"
| "timeline_step db (TlRemovePending t) = removePendingStatus t db"
| "timeline_step db TlExpire = or_rollback db (delete_old_room db)"
| "timeline_step db (TlStore e ev) = or_rollback db (storeEvent e ev db)"
| "timeline_step db (TlReplace e ev) = or_rollback db (replaceEvent e ev db)"

lemma tl_inv_step: "tl_inv db \<Longrightarrow> tl_inv (timeline_step db op)"
proof -
  have roll: "tl_inv (or_rollback db r)" if "tl_inv db" "\<And>db'. r = Some db' \<Longrightarrow> tl_inv db'" for r
    using that by (cases r) auto
  show "tl_inv db \<Longrightarrow> tl_inv (timeline_step db op)"
    by (cases op)
      (auto simp: firstPendingMessage_def tl_inv_first_pending removePendingStatus_def storeEvent_def
        replaceEvent_def split: if_splits
        intro!: roll intro: tl_inv_saveTimelineMessages tl_inv_savePending tl_inv_delete_old_room)
qed

interpretation tlm: invariant_machine timeline_step tl_inv
  by unfold_locales (rule tl_inv_step)


definition demo_event :: "string \<Rightarrow> tl_event" where
  "demo_event e = \<lparr>te_id = e, te_txn = [], te_redacts = None, te_relations = [], te_content = ''hi'',
                   te_redacted_by = None\<rparr>"

lemma demo_event_simps [simp]:
  "te_id (demo_event e) = e" "te_txn (demo_event e) = []" "te_redacts (demo_event e) = None"
  by (simp_all add: demo_event_def)

definition demo_sync :: "tl_event list \<Rightarrow> timeline_op" where
  "demo_sync es = TlSync (\<lambda>_. False) \<lparr>tc_events = es, tc_limited = False, tc_prev_batch = ''p''\<rparr>"


section \<open>Echoes\<close>


definition demo_queued :: timeline_db where
  "demo_queued = run timeline_step new_timeline
     [demo_sync [demo_event ''e1''], TlQueue (\<lambda>_. False) 5 (demo_event ''t1'')]"


section \<open>Queued messages\<close>

lemma append_event_pending:
  "append_event hidden entry e s = Some s' \<Longrightarrow>
   tl_pending (sl_db s') = tl_pending (sl_db s) \<and> te_id e |\<in>| fmdom (tl_ev2order (sl_db s'))"
  by (auto simp: append_event_def Let_def bind_eq_Some_conv split: if_splits)

lemma savePending_plain:
  assumes "savePendingMessage hidden now m db = Some db'"
    and "te_txn m = []" and "te_redacts m = None" and "te_id m \<noteq> []"
  shows "tl_pending db' = fmupd now (te_id m) (tl_pending db) \<and> te_id m |\<in>| fmdom (tl_ev2order db')"
  using assms
  by (auto simp: savePendingMessage_def saveTimelineMessages_def save_event_def start_save_def
      bind_eq_Some_conv dest: append_event_pending)

lemma save_event_keeps_ids:
  assumes "save_event hidden pb e s = Some s'" and "te_txn e = []"
  shows "fset (fmdom (tl_ev2order (sl_db s))) \<subseteq> fset (fmdom (tl_ev2order (sl_db s')))"
  using assms
  by (auto simp: save_event_def append_event_def apply_redaction_def Let_def bind_eq_Some_conv
      append_key_def split: if_splits option.splits)

lemma savePending_keeps_ids:
  assumes "savePendingMessage hidden now m db = Some db'" and "te_txn m = []"
  shows "fset (fmdom (tl_ev2order db)) \<subseteq> fset (fmdom (tl_ev2order db'))"
proof -
  obtain s where s: "save_event hidden [] m (start_save db) = Some s"
    "db' = (sl_db s)\<lparr>tl_pending := fmupd now (te_id m) (tl_pending (sl_db s))\<rparr>"
    using assms(1) by (auto simp: savePendingMessage_def saveTimelineMessages_def bind_eq_Some_conv)
  then show ?thesis using save_event_keeps_ids [OF s(1) assms(2)] by (simp add: start_save_def)
qed

text \<open>Two messages queued in the same millisecond. The second takes the first one's place in
  the queue: the first stays in the timeline but is no longer pending, so it is never sent.\<close>

theorem same_millisecond_loses_queued_message:
  assumes "savePendingMessage hidden now m1 db = Some db1"
    and "savePendingMessage hidden now m2 db1 = Some db2"
    and "te_txn m1 = []" and "te_redacts m1 = None" and "te_id m1 \<noteq> []"
    and "te_txn m2 = []" and "te_redacts m2 = None" and "te_id m2 \<noteq> []"
    and "te_id m1 \<noteq> te_id m2" and "te_id m1 \<notin> set (pendingEvents db)"
  shows "te_id m2 \<in> set (pendingEvents db2) \<and> te_id m1 \<notin> set (pendingEvents db2)
       \<and> getEventIndex (te_id m1) db2 \<noteq> None"
proof -
  have p1: "tl_pending db1 = fmupd now (te_id m1) (tl_pending db)" "te_id m1 |\<in>| fmdom (tl_ev2order db1)"
    using savePending_plain assms by blast+
  have p2: "tl_pending db2 = fmupd now (te_id m2) (tl_pending db1)"
    using savePending_plain [OF assms(2)] assms by blast
  have "te_id m1 |\<in>| fmdom (tl_ev2order db2)"
    using savePending_keeps_ids [OF assms(2,6)] p1(2) by blast
  then show ?thesis
    using p1(1) p2 assms(5,9,10)
    by (force simp: pendingEvents_def getEventIndex_def fmlookup_dom_iff split: if_splits)
qed

theorem same_millisecond_loses_queued_message_witness:
  "\<exists>db2. savePendingMessage (\<lambda>_. False) 7 (demo_event ''t3'')
            (the (savePendingMessage (\<lambda>_. False) 7 (demo_event ''t2'') new_timeline)) = Some db2
     \<and> pendingEvents db2 = [''t3''] \<and> getEventIndex ''t2'' db2 \<noteq> None"
proof -
  let ?db1 = "the (savePendingMessage (\<lambda>_. False) 7 (demo_event ''t2'') new_timeline)"
  have "savePendingMessage (\<lambda>_. False) 7 (demo_event ''t2'') new_timeline = Some ?db1"
    "savePendingMessage (\<lambda>_. False) 7 (demo_event ''t3'') ?db1 \<noteq> None" by code_simp+
  moreover then obtain db2 where db2: "savePendingMessage (\<lambda>_. False) 7 (demo_event ''t3'') ?db1 = Some db2"
    by blast
  moreover have "map_option pendingEvents (savePendingMessage (\<lambda>_. False) 7 (demo_event ''t3'') ?db1)
                   = Some [''t3'']" by code_simp
  moreover have "''t2'' \<notin> set (pendingEvents new_timeline)" by code_simp
  ultimately show ?thesis
    using same_millisecond_loses_queued_message [of "\<lambda>_. False" 7 "demo_event ''t2''" new_timeline ?db1
        "demo_event ''t3''" db2]
    by (simp add: demo_event_def)
qed

section \<open>New events are last\<close>

lemma append_event_ev2order:
  assumes "append_event hidden entry e s = Some s'"
  shows "tl_ev2order (sl_db s') =
    (if te_id e |\<in>| fmdom (tl_ev2order (sl_db s)) then tl_ev2order (sl_db s)
     else fmupd (te_id e) (sl_index s + 1) (tl_ev2order (sl_db s)))"
proof (cases "te_id e |\<in>| fmdom (tl_ev2order (sl_db s))")
  case True
  then show ?thesis using assms by (auto simp: append_event_def Let_def)
next
  case False
  then show ?thesis
    using assms by (cases "hidden e") (auto simp: append_event_def Let_def bind_eq_Some_conv)
qed

lemma append_event_ids:
  assumes "append_event hidden entry e s = Some s'"
  shows "fset (fmdom (tl_ev2order (sl_db s'))) \<subseteq> insert (te_id e) (fset (fmdom (tl_ev2order (sl_db s))))"
  using append_event_ev2order [OF assms] by auto

lemma replace_pending_ids:
  "fset (fmdom (tl_ev2order (replace_pending entry e i db))) \<subseteq> insert (te_id e) (fset (fmdom (tl_ev2order db)))"
proof -
  have "tl_ev2order (replace_pending entry e i db) = fmdrop (te_txn e) (fmupd (te_id e) i (tl_ev2order db))"
    by (rule fmap_ext) (simp add: replace_pending_lookups)
  then show ?thesis by (simp only: fmdom_drop fmdom_fmupd minus_fset.rep_eq finsert.rep_eq) blast
qed

lemma apply_redaction_ids [simp]: "tl_ev2order (apply_redaction e r db) = tl_ev2order db"
  by (simp add: apply_redaction_def split: option.split)

lemma save_event_cases:
  assumes "save_event hidden pb e s = Some s'"
  obtains (skipped) "s' = s"
  | (redacted) r where "s' = s\<lparr>sl_db := apply_redaction e r (sl_db s)\<rparr>"
  | (replaced) entry i where "s' = s\<lparr>sl_db := replace_pending entry e i (sl_db s)\<rparr>"
  | (appended) entry where "append_event hidden entry e s = Some s'"
proof -
  let ?entry = "\<lparr>oe_event_id = te_id e, oe_prev_batch = (if sl_first s \<and> pb \<noteq> [] then Some pb else None)\<rparr>"
  let ?order = "if te_txn e \<noteq> [] then fmlookup (tl_ev2order (sl_db s)) (te_txn e) else None"
  show thesis
  proof (cases "te_id e = []")
    case True
    then show thesis using assms by (intro skipped) (simp add: save_event_def)
  next
    case id: False
    show thesis
    proof (cases ?order)
      case (Some i)
      then have "s' = s\<lparr>sl_db := replace_pending ?entry e i (sl_db s)\<rparr>"
        using assms id by (simp add: save_event_def)
      then show thesis by (rule replaced)
    next
      case None
      then show thesis
        using assms id by (cases "te_redacts e") (auto simp: save_event_def intro: appended redacted)
    qed
  qed
qed

lemma save_event_ids:
  assumes "save_event hidden pb e s = Some s'"
  shows "fset (fmdom (tl_ev2order (sl_db s'))) \<subseteq> insert (te_id e) (fset (fmdom (tl_ev2order (sl_db s))))"
  using assms
proof (cases rule: save_event_cases)
  case (replaced entry i)
  then show ?thesis using replace_pending_ids by simp
next
  case (appended entry)
  then show ?thesis using append_event_ids by blast
qed auto

lemma save_events_ids:
  "fold_opt (save_event hidden pb) es s = Some s' \<Longrightarrow>
   fset (fmdom (tl_ev2order (sl_db s'))) \<subseteq> fset (fmdom (tl_ev2order (sl_db s))) \<union> te_id ` set es"
proof (induction es arbitrary: s)
  case (Cons e es)
  then obtain s1 where s1: "save_event hidden pb e s = Some s1"
    "fold_opt (save_event hidden pb) es s1 = Some s'" by (auto simp: bind_eq_Some_conv)
  show ?case using save_event_ids [OF s1(1)] Cons.IH [OF s1(2)] by auto
qed simp

lemma tl_inv_start: "tl_inv db \<Longrightarrow> tl_inv (sl_db (start_save (if b then drop_timeline db else db)))"
  by (simp add: start_save_def)

lemma append_event_last:
  assumes s: "tl_inv (sl_db s)" and e: "append_event hidden entry e s = Some s'"
    and new: "te_id e |\<notin>| fmdom (tl_ev2order (sl_db s))" and vis: "\<not> hidden e" and id: "te_id e \<noteq> []"
  shows "getLastEventId (sl_db s') = te_id e
       \<and> (\<exists>j. getEventIndex (te_id e) (sl_db s') = Some j
            \<and> (\<forall>f i. getEventIndex f (sl_db s') = Some i \<longrightarrow> f \<noteq> te_id e \<longrightarrow> i < j))"
proof -
  let ?db = "sl_db s" and ?i = "sl_index s + 1" and ?m = "sl_msgIndex s + 1"
  obtain order o2m where o: "append_key ?i entry (tl_order ?db) = Some order"
    "append_key ?m (te_id e) (tl_order2msg ?db) = Some o2m"
    using e new vis by (auto simp: append_event_def Let_def bind_eq_Some_conv)
  have t: "tl_order2msg (sl_db s') = fmupd ?m (te_id e) (tl_order2msg ?db)"
    "tl_ev2order (sl_db s') = fmupd (te_id e) ?i (tl_ev2order ?db)"
    using e new vis o append_key_Some [OF o(2)] by (auto simp: append_event_def Let_def)
  have "last_key (tl_order2msg (sl_db s')) = Some ?m"
    unfolding t(1) using append_key_Some [OF o(2)] by (intro last_key_fmupd_new) (auto intro: less_imp_le)
  moreover have "i < ?i" if "fmlookup (tl_ev2order ?db) f = Some i" for f i
    using tl_invD(1) [OF s that] append_key_Some [OF o(1)] by (auto intro: fmdomI)
  ultimately show ?thesis
    using id t by (auto simp: getLastEventId_def getEventIndex_def)
qed

text \<open>New events come last. If the last event of a sync is an ordinary shown event whose id is
  not known yet, then after the sync it is the last event of the room and its arrival index is
  greater than that of every other event, whatever else the sync brought.\<close>

theorem last_event_of_sync_is_newest:
  assumes "tl_inv db" and "saveTimelineMessages hidden res db = Some db'"
    and "tc_events res = pre @ [e]" and "te_id e \<noteq> []" and "te_txn e = []" and "te_redacts e = None"
    and "\<not> hidden e" and "te_id e |\<notin>| fmdom (tl_ev2order db)" and "te_id e \<notin> te_id ` set pre"
  shows "getLastEventId db' = te_id e
       \<and> (\<exists>j. getEventIndex (te_id e) db' = Some j
            \<and> (\<forall>f i. getEventIndex f db' = Some i \<longrightarrow> f \<noteq> te_id e \<longrightarrow> i < j))"
proof -
  let ?s = "start_save (if tc_limited res then drop_timeline db else db)"
  from assms(2,3) obtain s s' where s: "fold_opt (save_event hidden (tc_prev_batch res)) pre ?s = Some s"
    "save_event hidden (tc_prev_batch res) e s = Some s'" "db' = sl_db s'"
    by (auto simp: saveTimelineMessages_def Let_def fold_opt_append bind_eq_Some_conv)
  have "tl_inv (sl_db s)"
    using s(1) tl_inv_start [OF assms(1)]
    by (rule fold_opt_invariant [where P = "\<lambda>s. tl_inv (sl_db s)"]) (rule tl_inv_save_event)
  moreover have "te_id e |\<notin>| fmdom (tl_ev2order (sl_db s))"
    using save_events_ids [OF s(1)] assms(8,9) by (auto simp: start_save_def drop_timeline_def split: if_splits)
  ultimately show ?thesis
    using s(2,3) assms(4-7) append_event_last [of s hidden _ e s'] by (auto simp: save_event_def Let_def)
qed

theorem last_event_of_sync_is_newest_witness:
  "getLastEventId (run timeline_step new_timeline
     [demo_sync [demo_event ''e1''], demo_sync [demo_event ''e1'', demo_event ''e2'']]) = ''e2''"
proof -
  let ?db = "run timeline_step new_timeline [demo_sync [demo_event ''e1'']]"
  let ?res = "\<lparr>tc_events = [demo_event ''e1'', demo_event ''e2''], tc_limited = False, tc_prev_batch = ''p''\<rparr>"
  have "saveTimelineMessages (\<lambda>_. False) ?res ?db \<noteq> None" by code_simp
  then obtain db' where db': "saveTimelineMessages (\<lambda>_. False) ?res ?db = Some db'" by blast
  have "tl_inv ?db" by (rule tlm.run_inv) simp
  moreover have "te_id (demo_event ''e2'') |\<notin>| fmdom (tl_ev2order ?db)" by code_simp
  ultimately have "getLastEventId db' = ''e2''"
    using last_event_of_sync_is_newest [OF _ db', of "[demo_event ''e1'']" "demo_event ''e2''"]
    by (simp add: demo_event_def)
  then show ?thesis using db' by (simp add: demo_sync_def)
qed

section \<open>Pages of old messages\<close>

lemma od_inv_start:
  assumes "tl_inv db" and "n \<le> unat (od_index (start_old db))" and "n \<le> unat (od_msgIndex (start_old db))"
  shows "od_inv n (start_old db)"
proof -
  have "od_index (start_old db) \<le> i" if "i |\<in>| fmdom (tl_order db)" for i
    using first_key_le [of "tl_order db"] that by (cases "first_key (tl_order db)") (auto simp: start_old_def)
  moreover have "od_msgIndex (start_old db) \<le> m" if "m |\<in>| fmdom (tl_order2msg db)" for m
    using first_key_le [of "tl_order2msg db"] that
    by (cases "first_key (tl_order2msg db)") (auto simp: start_old_def)
  ultimately show ?thesis using assms by (simp add: od_inv_def start_old_def)
qed

text \<open>A page of old messages that ends in a new event. If the last event of the page that is not
  a redaction is not known yet, and the indices do not run out, the order tables stay inverse to
  each other, that event becomes the oldest of the room, and the token of the page is the one the
  next request will use.\<close>

theorem page_of_new_events_keeps_order_tables:
  assumes "tl_inv db" and "saveOldMessages hidden chunk token db = Some (db', m)"
    and "chunk = pre @ e # post" and "te_redacts e = None" and "\<forall>x \<in> set post. te_redacts x \<noteq> None"
    and "te_id e |\<notin>| fmdom (tl_ev2order db)" and "te_id e \<notin> te_id ` set pre"
    and "length chunk \<le> unat (od_index (start_old db))"
    and "length chunk \<le> unat (od_msgIndex (start_old db))"
  shows "tl_inv db' \<and> previousBatchToken db' = token
       \<and> (\<exists>i. first_key (tl_order db') = Some i \<and> getArrivalIndex (te_id e) db' = Some i)"
proof -
  have fold: "fold_opt (save_old_event hidden) (e # post) s = save_old_event hidden e s" for s
    using save_old_redactions [OF assms(5)] by (cases "save_old_event hidden e s") auto
  obtain s t where st: "fold_opt (save_old_event hidden) pre (start_old db) = Some s"
    "save_old_event hidden e s = Some t"
    "db' = (od_db t)\<lparr>tl_order := fmupd (od_index t)
        \<lparr>oe_event_id = od_event_id t, oe_prev_batch = Some token\<rparr> (tl_order (od_db t))\<rparr>"
    using assms(2) by (auto simp: saveOldMessages_def assms(3) fold_opt_append fold bind_eq_Some_conv
        simp del: fold_opt.simps)
  have "od_inv (length pre + 1) (start_old db)"
    using assms(1,3,8,9) by (intro od_inv_start) auto
  then have s: "od_inv 1 s" by (rule od_inv_fold) (rule st(1))
  then have t: "od_inv 0 t" using od_inv_step [of 0] st(2) by simp
  have new: "te_id e |\<notin>| fmdom (tl_ev2order (od_db s))"
    using save_old_ids [OF st(1)] assms(6,7) by (auto simp: start_old_def)
  have te: "fmlookup (tl_ev2order (od_db t)) (te_id e) = Some (od_index t)" "od_event_id t = te_id e"
    using st(2) new assms(4) by (cases rule: save_old_event_cases; simp)+
  have inv: "tl_inv (od_db t)" using t by (simp add: od_inv_def)
  have "tl_inv db'"
  proof (rule tl_invI)
    fix f i assume "fmlookup (tl_ev2order db') f = Some i"
    then have f: "fmlookup (tl_ev2order (od_db t)) f = Some i" by (simp add: st(3))
    show "\<exists>oe. fmlookup (tl_order db') i = Some oe \<and> oe_event_id oe = f"
    proof (cases "i = od_index t")
      case True
      then have "f = te_id e" using tl_inv_ev_inj [OF inv f] te(1) by simp
      then show ?thesis using True te(2) by (simp add: st(3))
    next
      case False
      then show ?thesis using tl_invD(1) [OF inv f] by (simp add: st(3))
    qed
  qed (use tl_invD(2,3) [OF inv] in \<open>auto simp: st(3)\<close>)
  moreover have "first_key (tl_order db') = Some (od_index t)"
    unfolding st(3) using t by (auto simp: od_inv_def intro!: first_key_fmupd_new)
  ultimately show ?thesis
    using te by (simp add: previousBatchToken_def getArrivalIndex_def st(3))
qed

theorem page_of_new_events_keeps_order_tables_witness:
  "\<exists>db' m. saveOldMessages (\<lambda>_. False) [demo_event ''e0''] ''q''
     (run timeline_step new_timeline [demo_sync [demo_event ''e1'']]) = Some (db', m)
     \<and> tl_inv db' \<and> previousBatchToken db' = ''q''"
proof -
  let ?db = "run timeline_step new_timeline [demo_sync [demo_event ''e1'']]"
  have "saveOldMessages (\<lambda>_. False) [demo_event ''e0''] ''q'' ?db \<noteq> None" by code_simp
  then obtain db' m where db': "saveOldMessages (\<lambda>_. False) [demo_event ''e0''] ''q'' ?db = Some (db', m)"
    by auto
  have "tl_inv ?db" by (rule tlm.run_inv) simp
  moreover have "te_id (demo_event ''e0'') |\<notin>| fmdom (tl_ev2order ?db)"
    "od_index (start_old ?db) = 9223372036854775808"
    "od_msgIndex (start_old ?db) = 9223372036854775808" by code_simp+
  ultimately show ?thesis
    using page_of_new_events_keeps_order_tables [OF _ db', of "[]" "demo_event ''e0''" "[]"] db'
    by simp
qed

lemma save_old_known:
  assumes "\<forall>e \<in> set es. te_redacts e = None \<longrightarrow> te_id e \<noteq> [] \<and> te_id e |\<in>| fmdom (tl_ev2order (od_db s))"
  shows "\<exists>t. fold_opt (save_old_event hidden) es s = Some t \<and> od_index t = od_index s
     \<and> tl_order (od_db t) = tl_order (od_db s) \<and> tl_ev2order (od_db t) = tl_ev2order (od_db s)
     \<and> od_event_id t = (case filter (\<lambda>e. te_redacts e = None) es of [] \<Rightarrow> od_event_id s | xs \<Rightarrow> te_id (last xs))"
  using assms
proof (induction es arbitrary: s)
  case (Cons e es)
  show ?case
  proof (cases "te_redacts e = None")
    case True
    then obtain s1 where s1: "save_old_event hidden e s = Some s1"
      using Cons.prems by (auto simp: save_old_event_def Let_def)
    then have f: "od_index s1 = od_index s" "tl_order (od_db s1) = tl_order (od_db s)"
      "tl_ev2order (od_db s1) = tl_ev2order (od_db s)" "od_event_id s1 = te_id e"
      using True Cons.prems by (cases rule: save_old_event_cases; auto)+
    then show ?thesis
      using Cons.IH [of s1] Cons.prems s1 True by (auto split: list.splits)
  next
    case False
    then have "save_old_event hidden e s = Some s" by (simp add: save_old_event_def)
    then show ?thesis using Cons False by auto
  qed
qed simp

text \<open>A page of old messages without a new event. If every event of the page is known already (or
  is a redaction), the oldest order entry of the room is still rewritten: it gets the event id of
  the page's last known event, or the empty id if the page held redactions only, so the event it
  stood for is no longer found under its index.\<close>

theorem page_of_known_events_relabels_oldest:
  assumes "chunk \<noteq> []"
    and "\<forall>e \<in> set chunk. te_redacts e = None \<longrightarrow> te_id e \<noteq> [] \<and> te_id e |\<in>| fmdom (tl_ev2order db)"
    and "first_key (tl_order db) = Some i" and "getArrivalIndex f db = Some i"
    and "\<forall>e \<in> set chunk. te_redacts e = None \<longrightarrow> te_id e \<noteq> f" and "f \<noteq> []"
  shows "\<exists>db' m. saveOldMessages hidden chunk token db = Some (db', m)
     \<and> getArrivalIndex f db' = Some i
     \<and> fmlookup (tl_order db') i =
         Some \<lparr>oe_event_id = (case filter (\<lambda>e. te_redacts e = None) chunk of [] \<Rightarrow> [] | xs \<Rightarrow> te_id (last xs)),
               oe_prev_batch = Some token\<rparr>
     \<and> \<not> tl_inv db'"
proof -
  let ?ks = "filter (\<lambda>e. te_redacts e = None) chunk"
  let ?id = "case ?ks of [] \<Rightarrow> [] | xs \<Rightarrow> te_id (last xs)"
  have start: "od_db (start_old db) = db" "od_index (start_old db) = i" "od_event_id (start_old db) = []"
    using assms(3) by (simp_all add: start_old_def)
  obtain t where t: "fold_opt (save_old_event hidden) chunk (start_old db) = Some t"
    "od_index t = i" "tl_ev2order (od_db t) = tl_ev2order db" "od_event_id t = ?id"
    using save_old_known [of chunk "start_old db" hidden] assms(2) unfolding start by blast
  let ?db = "(od_db t)\<lparr>tl_order := fmupd i \<lparr>oe_event_id = ?id, oe_prev_batch = Some token\<rparr> (tl_order (od_db t))\<rparr>"
  have r: "saveOldMessages hidden chunk token db = Some (?db, od_msgIndex t)"
    using assms(1) t by (simp add: saveOldMessages_def)
  have "?id \<noteq> f"
  proof (cases ?ks)
    case (Cons x xs)
    then have "last ?ks \<in> set ?ks" by (intro last_in_set) simp
    then have "te_id (last ?ks) \<noteq> f" using assms(5) by auto
    moreover have "?id = te_id (last ?ks)" using Cons by simp
    ultimately show ?thesis by simp
  qed (use assms(6) in simp)
  then have "\<not> tl_inv ?db"
    using tl_invD(1) [of ?db f i] t(3) assms(4) by (auto simp: getArrivalIndex_def)
  then show ?thesis using r t(3) assms(4) by (auto simp: getArrivalIndex_def)
qed

theorem page_of_known_events_relabels_oldest_witness:
  "\<exists>db' m. saveOldMessages (\<lambda>_. False) [demo_event ''e2''] ''q''
     (run timeline_step new_timeline [demo_sync [demo_event ''e1'', demo_event ''e2'']]) = Some (db', m)
     \<and> \<not> tl_inv db'"
proof -
  let ?db = "run timeline_step new_timeline [demo_sync [demo_event ''e1'', demo_event ''e2'']]"
  have "te_id (demo_event ''e2'') |\<in>| fmdom (tl_ev2order ?db)"
    "first_key (tl_order ?db) = Some 9223372036854775808"
    "getArrivalIndex ''e1'' ?db = Some 9223372036854775808" by code_simp+
  then show ?thesis
    using page_of_known_events_relabels_oldest [of "[demo_event ''e2'']" ?db 9223372036854775808 "''e1''"
        "\<lambda>_. False" "''q''"]
    by (auto simp: demo_event_def)
qed

section \<open>Expiry\<close>

lemma delete_loop_order:
  "delete_loop n ps db = Some db' \<Longrightarrow>
   fset (fmdom (tl_order db')) = fset (fmdom (tl_order db)) - fst ` set (take (unat n - 30000) ps)"
proof (induction n ps db rule: delete_loop.induct)
  case (2 n p ps db)
  show ?case
  proof (cases "n > max_restored_messages")
    case True
    then have n: "30000 < unat n" by (simp add: max_restored_messages_def word_less_nat_alt)
    then have "unat (n - 1) = unat n - 1" by (intro unat_minus_one) auto
    then have "unat n - 30000 = Suc (unat (n - 1) - 30000)" using n by simp
    moreover obtain db1 where db1: "delete_entry p db = Some db1" "delete_loop (n - 1) ps db1 = Some db'"
      using 2(2) True by (auto simp: bind_eq_Some_conv)
    moreover have "tl_order db1 = fmdrop (fst p) (tl_order db)"
      using db1(1) delete_entry_order [of "fst p" "snd p"] by simp
    ultimately show ?thesis using 2(1) [OF True db1(1) db1(2)] by auto
  next
    case False
    then have "unat n \<le> 30000" by (simp add: max_restored_messages_def word_less_nat_alt not_less)
    then show ?thesis using 2(2) False by simp
  qed
qed simp

text \<open>The keys of a contiguous table, in order.\<close>

lemma contiguous_keys:
  fixes f l :: u64
  assumes "\<And>i. i |\<in>| fmdom t \<longleftrightarrow> f \<le> i \<and> i \<le> l"
  shows "map fst (sorted_list_of_fmap t) = map word_of_nat [unat f ..< Suc (unat l)]"
proof (rule sorted_distinct_set_unique)
  show "sorted (map fst (sorted_list_of_fmap t))" by (rule sorted_sorted_list_of_fmap)
  show "distinct (map fst (sorted_list_of_fmap t))" by (rule distinct_sorted_list_of_fmap)
  have lt: "x < 2 ^ 64" if "x \<in> set [unat f ..< Suc (unat l)]" for x
  proof -
    have "unat l < 2 ^ LENGTH(64)" by (rule unsigned_less)
    then show ?thesis using that by auto
  qed
  have un: "unat (word_of_nat x :: u64) = x" if "x \<in> set [unat f ..< Suc (unat l)]" for x
    using lt [OF that] by (simp add: unsigned_of_nat take_bit_nat_eq_self)
  show "sorted (map word_of_nat [unat f ..< Suc (unat l)] :: u64 list)"
    unfolding sorted_wrt_map
    by (rule sorted_wrt_mono_rel [OF _ sorted_upt]) (simp add: word_le_nat_alt un)
  show "distinct (map word_of_nat [unat f ..< Suc (unat l)] :: u64 list)"
    unfolding distinct_map by (intro conjI distinct_upt inj_on_inverseI [where g = unat] un)
  have "i \<in> word_of_nat ` set [unat f ..< Suc (unat l)] \<longleftrightarrow> f \<le> i \<and> i \<le> l" for i :: u64
  proof
    assume "i \<in> word_of_nat ` set [unat f ..< Suc (unat l)]"
    then obtain x where x: "i = word_of_nat x" "x \<in> set [unat f ..< Suc (unat l)]" by blast
    then have "unat i = x" using un by blast
    then show "f \<le> i \<and> i \<le> l" using x(2) by (auto simp: word_le_nat_alt)
  next
    assume "f \<le> i \<and> i \<le> l"
    then show "i \<in> word_of_nat ` set [unat f ..< Suc (unat l)]"
      by (intro image_eqI [of _ _ "unat i"]) (auto simp: word_le_nat_alt)
  qed
  moreover have "fst ` {(k, v). fmlookup t k = Some v} = {i. i |\<in>| fmdom t}"
    by (force simp: fmlookup_dom_iff)
  ultimately show "set (map fst (sorted_list_of_fmap t)) = set (map word_of_nat [unat f ..< Suc (unat l)])"
    using assms by auto
qed



end
