(* ===== verification/User_Keys.thy ===== *)
theory User_Keys
  imports Crypto_Types
begin

text \<open>
  The keys of users and the trust in them (\<open>src/src/Cache.cpp\<close>): the table of cached user keys and
  its updates from the server, the devices verified by hand, and the verification status computed
  from both along the chain of cross-signatures, with its in-memory cache
  (\<open>verification_storage\<close>). Signals and requests are appended to \<open>ks_log\<close>. The checks of
  signatures are parameters: mtxclient's \<open>ed25519_verify_signature\<close> on a device and on a
  cross-signing key. Tables that cannot be read or parsed are not modelled.
\<close>

section \<open>State\<close>

datatype key_effect =
    VerificationStatusChanged string
  | RequestKeys string "string list"

record key_store =
  ks_user_keys :: "(string, user_key_cache) table"
  ks_verification :: "(string, verification_cache) table"
  ks_status :: "(string, verification_status) fmap"
  ks_log :: "key_effect list"

record key_env =
  ke_local_user :: string
  ke_device_id :: string
  ke_identity_ed25519 :: string
  ke_verify_device :: "string \<Rightarrow> device_keys \<Rightarrow> string \<Rightarrow> bool"
  ke_verify_cross :: "string \<Rightarrow> cross_signing_keys \<Rightarrow> string \<Rightarrow> bool"

definition new_key_store :: key_store where
  "new_key_store = \<lparr>ks_user_keys = fmempty, ks_verification = fmempty, ks_status = fmempty, ks_log = []\<rparr>"

record query_keys_response =
  qk_device_keys :: "(string, (string, device_keys) fmap) fmap"
  qk_master_keys :: "(string, cross_signing_keys) fmap"
  qk_user_signing_keys :: "(string, cross_signing_keys) fmap"
  qk_self_signing_keys :: "(string, cross_signing_keys) fmap"

section \<open>Updating the keys of a user\<close>

definition response_users :: "query_keys_response \<Rightarrow> string fset" where
  "response_users q =
     fmdom (qk_device_keys q) |\<union>| fmdom (qk_master_keys q) |\<union>| fmdom (qk_user_signing_keys q)
     |\<union>| fmdom (qk_self_signing_keys q)"

fun the_or :: "'a \<Rightarrow> 'a option \<Rightarrow> 'a" where
  "the_or d None = d"
| "the_or d (Some x) = x"

definition response_update :: "query_keys_response \<Rightarrow> string \<Rightarrow> user_key_cache" where
  "response_update q user =
     new_user_key_cache
       \<lparr>uk_device_keys := the_or fmempty (fmlookup (qk_device_keys q) user),
        uk_master_keys := the_or no_cross_signing_keys (fmlookup (qk_master_keys q) user),
        uk_user_signing_keys := the_or no_cross_signing_keys (fmlookup (qk_user_signing_keys q) user),
        uk_self_signing_keys := the_or no_cross_signing_keys (fmlookup (qk_self_signing_keys q) user)\<rparr>"

text \<open>A device that has a key or an id we have seen before. The id is only looked at for a device
  that has keys, as in the loop.\<close>

definition key_reused :: "string \<Rightarrow> device_keys \<Rightarrow> user_key_cache \<Rightarrow> bool" where
  "key_reused device_id d u =
     list_ex (\<lambda>(_, key). key |\<in>| uk_seen_device_keys u \<or> device_id |\<in>| uk_seen_device_ids u)
       (sorted_list_of_fmap (dk_keys d))"

text \<open>The checks a new device has to pass.\<close>

definition self_signed :: "key_env \<Rightarrow> string \<Rightarrow> string \<Rightarrow> device_keys \<Rightarrow> bool" where
  "self_signed env user device_id d =
     (let device_signing_key = ''ed25519:'' @ dk_device_id d
      in device_id = dk_device_id d \<and>
         (case Option.bind (fmlookup (dk_signatures d) user) (\<lambda>s. fmlookup s device_signing_key) of
            None \<Rightarrow> False
          | Some sig \<Rightarrow>
              (case fmlookup (dk_keys d) device_signing_key of
                 None \<Rightarrow> False
               | Some key \<Rightarrow> (''curve25519:'' @ device_id) |\<in>| fmdom (dk_keys d)
                             \<and> ke_verify_device env key d sig)))"

definition mark_seen :: "string \<Rightarrow> device_keys \<Rightarrow> user_key_cache \<Rightarrow> user_key_cache" where
  "mark_seen device_id d u =
     u\<lparr>uk_seen_device_keys := fset_of_list (map snd (sorted_list_of_fmap (dk_keys d))) |\<union>| uk_seen_device_keys u,
       uk_seen_device_ids := finsert device_id (uk_seen_device_ids u)\<rparr>"

text \<open>One device of the update. A new device that fails a check is skipped (\<open>continue\<close>) without
  being marked as seen.\<close>

definition update_device ::
  "key_env \<Rightarrow> string \<Rightarrow> (string, device_keys) fmap \<Rightarrow> string \<times> device_keys \<Rightarrow> user_key_cache \<Rightarrow> user_key_cache"
where
  "update_device env user old p u =
     (let (device_id, d) = p;
          add = (\<lambda>u. u\<lparr>uk_device_keys := fmupd device_id d (uk_device_keys u)\<rparr>)
      in case fmlookup old device_id of
           Some od \<Rightarrow>
             if dk_keys od = dk_keys d then mark_seen device_id d (add u) else mark_seen device_id d u
         | None \<Rightarrow>
             if key_reused device_id d u then mark_seen device_id d u
             else if self_signed env user device_id d then mark_seen device_id d (add u)
             else u)"

definition master_key_replaced :: "user_key_cache \<Rightarrow> user_key_cache \<Rightarrow> bool" where
  "master_key_replaced update old \<longleftrightarrow>
     csk_keys (uk_master_keys old) \<noteq> fmempty \<and>
     csk_keys (uk_master_keys update) \<noteq> csk_keys (uk_master_keys old)"

definition merge_update ::
  "key_env \<Rightarrow> string \<Rightarrow> user_key_cache \<Rightarrow> user_key_cache \<Rightarrow> user_key_cache"
where
  "merge_update env user update old =
     (let u = old\<lparr>uk_master_key_changed := uk_master_key_changed old \<or> master_key_replaced update old,
                  uk_master_keys := uk_master_keys update,
                  uk_self_signing_keys := uk_self_signing_keys update,
                  uk_user_signing_keys := uk_user_signing_keys update,
                  uk_device_keys := fmempty\<rparr>
      in fold (update_device env user (uk_device_keys old))
           (sorted_list_of_fmap (uk_device_keys update)) u)"

text \<open>What is written for one user, or nothing if the fetch was for an older token.\<close>

definition updated_entry ::
  "key_env \<Rightarrow> string \<Rightarrow> string \<Rightarrow> user_key_cache \<Rightarrow> user_key_cache option \<Rightarrow> user_key_cache option"
where
  "updated_entry env sync_token user update entry =
     (case entry of
        None \<Rightarrow> Some (update\<lparr>uk_updated_at := sync_token\<rparr>)
      | Some old \<Rightarrow>
          if uk_last_changed old \<noteq> [] \<and> uk_last_changed old \<noteq> sync_token then None
          else Some ((merge_update env user update old)\<lparr>uk_updated_at := sync_token\<rparr>))"

definition write_update ::
  "key_env \<Rightarrow> string \<Rightarrow> query_keys_response \<Rightarrow> string \<Rightarrow> (string, user_key_cache) table
    \<Rightarrow> (string, user_key_cache) table"
where
  "write_update env sync_token q user t =
     (case updated_entry env sync_token user (response_update q user) (fmlookup t user) of
        Some u \<Rightarrow> fmupd user u t
      | None \<Rightarrow> t)"

text \<open>
  Forgetting cached statuses: the local user's keys are part of everybody's chain, so everything
  goes. The users of \<open>old\<close> are told their status changed.
\<close>

definition invalidate_user :: "key_env \<Rightarrow> string \<Rightarrow> key_store \<Rightarrow> key_store" where
  "invalidate_user env user s =
     (if user = ke_local_user env then s\<lparr>ks_status := fmempty\<rparr>
      else s\<lparr>ks_status := fmdrop user (ks_status s)\<rparr>)"

definition status_users :: "key_store \<Rightarrow> string list" where
  "status_users s = map fst (sorted_list_of_fmap (ks_status s))"

text \<open>The loop swaps the storage out when it meets the local user, after the users before it have been
  erased.\<close>

definition swapped_users :: "key_env \<Rightarrow> string list \<Rightarrow> key_store \<Rightarrow> string list" where
  "swapped_users env users s =
     filter (\<lambda>u. u \<notin> set (takeWhile (\<lambda>v. v \<noteq> ke_local_user env) users)) (status_users s)"

definition updateUserKeys :: "key_env \<Rightarrow> string \<Rightarrow> query_keys_response \<Rightarrow> key_store \<Rightarrow> key_store" where
  "updateUserKeys env sync_token q s =
     (let users = sorted_list_of_fset (response_users q);
          s1 = s\<lparr>ks_user_keys := fold (write_update env sync_token q) users (ks_user_keys s)\<rparr>;
          s2 = fold (invalidate_user env) users s1;
          changed = concat (map (\<lambda>u. if u = ke_local_user env then swapped_users env users s else [u]) users)
      in s2\<lparr>ks_log := ks_log s2 @ map VerificationStatusChanged changed\<rparr>)"

section \<open>Asking for keys\<close>

definition mark_out_of_date :: "string \<Rightarrow> string \<Rightarrow> (string, user_key_cache) table \<Rightarrow> (string, user_key_cache) table" where
  "mark_out_of_date sync_token user t =
     fmupd user ((the_or new_user_key_cache (fmlookup t user))\<lparr>uk_last_changed := sync_token\<rparr>) t"

definition request_keys :: "string \<Rightarrow> string list \<Rightarrow> key_effect list" where
  "request_keys sync_token user_ids =
     (let users = sorted_list_of_set (set (filter (\<lambda>u. length u \<le> 255) user_ids))
      in if users = [] then [] else [RequestKeys sync_token users])"

definition markUserKeysOutOfDate :: "string \<Rightarrow> string list \<Rightarrow> key_store \<Rightarrow> key_store" where
  "markUserKeysOutOfDate sync_token user_ids s =
     s\<lparr>ks_user_keys := fold (mark_out_of_date sync_token) (filter (\<lambda>u. length u \<le> 255) user_ids) (ks_user_keys s),
       ks_log := ks_log s @ request_keys sync_token user_ids\<rparr>"

text \<open>\<open>query_keys\<close>: an immediate call of the callback, or a request with a token.\<close>

datatype query_outcome = CallbackError | CallbackKeys user_key_cache | QueryRequest string

definition query_keys :: "string \<Rightarrow> key_store \<Rightarrow> query_outcome" where
  "query_keys user_id s =
     (if length user_id > 255 then CallbackError
      else case fmlookup (ks_user_keys s) user_id of
             Some c \<Rightarrow> if uk_updated_at c = uk_last_changed c then CallbackKeys c
                       else QueryRequest (uk_last_changed c)
           | None \<Rightarrow> QueryRequest [])"

text \<open>The reply to the request: the update, then the callback with what is stored.\<close>

definition query_keys_reply ::
  "key_env \<Rightarrow> string \<Rightarrow> string \<Rightarrow> query_keys_response option \<Rightarrow> key_store \<Rightarrow> key_store \<times> query_outcome"
where
  "query_keys_reply env user_id last_changed res s =
     (case res of
        None \<Rightarrow> (s, CallbackError)
      | Some q \<Rightarrow>
          let s1 = updateUserKeys env last_changed q s
          in (s1, CallbackKeys (the_or new_user_key_cache (fmlookup (ks_user_keys s1) user_id))))"

section \<open>Devices verified by hand\<close>

definition invalidate_and_signal :: "key_env \<Rightarrow> string \<Rightarrow> string list \<Rightarrow> key_store \<Rightarrow> key_store" where
  "invalidate_and_signal env user signals s =
     (let s1 = invalidate_user env user s
      in s1\<lparr>ks_log := ks_log s1 @ map VerificationStatusChanged signals\<rparr>)"

definition markDeviceVerified :: "key_env \<Rightarrow> string \<Rightarrow> string \<Rightarrow> key_store \<Rightarrow> key_store" where
  "markDeviceVerified env user_id key s =
     (let st = the_or new_verification_cache (fmlookup (ks_verification s) user_id)
      in if key |\<in>| vc_device_verified st then s
         else
           let st' = st\<lparr>vc_device_verified := finsert key (vc_device_verified st)\<rparr>;
               s1 = s\<lparr>ks_verification := fmupd user_id st' (ks_verification s)\<rparr>
           in invalidate_and_signal env user_id
                (if user_id = ke_local_user env then status_users s else [user_id]) s1)"

definition markDeviceUnverified :: "key_env \<Rightarrow> string \<Rightarrow> string \<Rightarrow> key_store \<Rightarrow> key_store" where
  "markDeviceUnverified env user_id key s =
     (let st = the_or new_verification_cache (fmlookup (ks_verification s) user_id);
          st' = st\<lparr>vc_device_verified := vc_device_verified st |-| {|key|}\<rparr>;
          s1 = s\<lparr>ks_verification := fmupd user_id st' (ks_verification s)\<rparr>
      in invalidate_and_signal env user_id
           ((if user_id = ke_local_user env then status_users s else []) @ [user_id]) s1)"

section \<open>The verification status\<close>

text \<open>\<open>verifyAtLeastOneSig\<close>: one of the owner's signatures is by one of the keys.\<close>

definition one_sig ::
  "(string \<Rightarrow> string \<Rightarrow> bool) \<Rightarrow> (string, (string, string) fmap) fmap \<Rightarrow> (string, string) fmap \<Rightarrow> string \<Rightarrow> bool"
where
  "one_sig verify signatures keys keyOwner =
     (case fmlookup signatures keyOwner of
        None \<Rightarrow> False
      | Some sigs \<Rightarrow>
          list_ex (\<lambda>(key_id, sig). case fmlookup keys key_id of None \<Rightarrow> False | Some k \<Rightarrow> verify k sig)
            (sorted_list_of_fmap sigs))"

definition cross_signed :: "key_env \<Rightarrow> cross_signing_keys \<Rightarrow> (string, string) fmap \<Rightarrow> string \<Rightarrow> bool" where
  "cross_signed env c keys owner =
     one_sig (\<lambda>k sig. ke_verify_cross env k c sig) (csk_signatures c) keys owner"

definition device_signed :: "key_env \<Rightarrow> device_keys \<Rightarrow> (string, string) fmap \<Rightarrow> string \<Rightarrow> bool" where
  "device_signed env d keys owner =
     one_sig (\<lambda>k sig. ke_verify_device env k d sig) (dk_signatures d) keys owner"

definition count_unverified :: "(string, device_keys) fmap \<Rightarrow> verification_status \<Rightarrow> verification_status" where
  "count_unverified dks st =
     st\<lparr>vs_unverified_device_count :=
          int (fcard (fmdom dks)) - int (fcard (ffilter (\<lambda>d. d |\<in>| fmdom dks) (vs_verified_devices st)))\<rparr>"

definition own_master_signed :: "key_env \<Rightarrow> cross_signing_keys \<Rightarrow> bool" where
  "own_master_signed env mk =
     (case Option.bind (fmlookup (csk_signatures mk) (ke_local_user env))
             (\<lambda>s. fmlookup s (''ed25519:'' @ ke_device_id env)) of
        None \<Rightarrow> False
      | Some sig \<Rightarrow> ke_verify_cross env (ke_identity_ed25519 env) mk sig)"

definition their_master_verified :: "key_env \<Rightarrow> user_key_cache \<Rightarrow> user_key_cache \<Rightarrow> bool" where
  "their_master_verified env ours theirs \<longleftrightarrow>
     cross_signed env (uk_user_signing_keys ours) (csk_keys (uk_master_keys ours)) (ke_local_user env) \<and>
     cross_signed env (uk_master_keys theirs) (csk_keys (uk_user_signing_keys ours)) (ke_local_user env)"

text \<open>The loop over the devices: those signed by the self-signing key get the user's trust.\<close>

definition trust_device ::
  "key_env \<Rightarrow> string \<Rightarrow> trust \<Rightarrow> cross_signing_keys \<Rightarrow> string \<times> device_keys \<Rightarrow> verification_status \<Rightarrow> verification_status"
where
  "trust_device env user_id level ssk p st =
     (let d = snd p
      in case fmlookup (dk_keys d) (''curve25519:'' @ dk_device_id d) of
           None \<Rightarrow> st
         | Some identkey \<Rightarrow>
             if device_signed env d (csk_keys ssk) user_id
             then st\<lparr>vs_verified_devices := finsert (dk_device_id d) (vs_verified_devices st),
                     vs_verified_device_keys := fmupd identkey level (vs_verified_device_keys st)\<rparr>
             else st)"

definition trust_devices ::
  "key_env \<Rightarrow> string \<Rightarrow> trust \<Rightarrow> (string, string) fmap \<Rightarrow> user_key_cache \<Rightarrow> verification_status \<Rightarrow> verification_status"
where
  "trust_devices env user_id level master_keys theirs st =
     (if \<not> cross_signed env (uk_self_signing_keys theirs) master_keys user_id then st
      else count_unverified (uk_device_keys theirs)
             (fold (trust_device env user_id level (uk_self_signing_keys theirs))
                (sorted_list_of_fmap (uk_device_keys theirs)) st))"

definition initial_status :: "key_env \<Rightarrow> string \<Rightarrow> key_store \<Rightarrow> verification_status" where
  "initial_status env user_id s =
     (let st = new_verification_status\<lparr>vs_unverified_device_count := 1, vs_no_keys := True,
                 vs_verified_devices :=
                   (case fmlookup (ks_verification s) user_id of
                      Some c \<Rightarrow> vc_device_verified c | None \<Rightarrow> {||})\<rparr>
      in if user_id = ke_local_user env
         then st\<lparr>vs_verified_devices := finsert (ke_device_id env) (vs_verified_devices st)\<rparr> else st)"

text \<open>The status as computed when it is not cached.\<close>

definition compute_status :: "key_env \<Rightarrow> string \<Rightarrow> key_store \<Rightarrow> verification_status" where
  "compute_status env user_id s =
     (let st0 = initial_status env user_id s;
          ourKeys = fmlookup (ks_user_keys s) (ke_local_user env);
          theirKeys = fmlookup (ks_user_keys s) user_id;
          st1 = (if theirKeys \<noteq> None then st0\<lparr>vs_no_keys := False\<rparr> else st0)
      in case (ourKeys, theirKeys) of
           (Some ours, Some theirs) \<Rightarrow>
             let st2 = count_unverified (uk_device_keys theirs) st1
             in if \<not> own_master_signed env (uk_master_keys ours) then st2
                else if user_id = ke_local_user env then
                  trust_devices env user_id Verified (csk_keys (uk_master_keys ours)) theirs
                    (st2\<lparr>vs_user_verified := Verified\<rparr>)
                else if their_master_verified env ours theirs then
                  trust_devices env user_id Verified (csk_keys (uk_master_keys theirs)) theirs
                    (st2\<lparr>vs_user_verified := Verified\<rparr>)
                else if \<not> uk_master_key_changed theirs then
                  trust_devices env user_id TOFU (csk_keys (uk_master_keys theirs)) theirs
                    (st2\<lparr>vs_user_verified := TOFU\<rparr>)
                else st2
         | _ \<Rightarrow> st1)"

definition verificationStatus :: "key_env \<Rightarrow> string \<Rightarrow> key_store \<Rightarrow> key_store \<times> verification_status" where
  "verificationStatus env user_id s =
     (case fmlookup (ks_status s) user_id of
        Some st \<Rightarrow> (s, st)
      | None \<Rightarrow> let st = compute_status env user_id s
                in (s\<lparr>ks_status := fmupd user_id st (ks_status s)\<rparr>, st))"

section \<open>Rooms\<close>

fun room_trust ::
  "key_env \<Rightarrow> string list \<Rightarrow> key_store \<times> trust \<times> string list \<Rightarrow> key_store \<times> trust \<times> string list"
where
  "room_trust env [] acc = acc"
| "room_trust env (u # us) (s, t, req) =
     (let (s1, v) = verificationStatus env u s
      in room_trust env us
           (if vs_unverified_device_count v \<noteq> 0
            then (s1, Unverified,
                  if vs_verified_devices v = {||} \<and> vs_no_keys v then req @ [u] else req)
            else (s1, if vs_user_verified v = TOFU \<and> t = Verified then TOFU else t, req)))"

text \<open>
  The write transaction of \<open>roomVerificationStatus\<close> is never committed: of the call of
  \<open>markUserKeysOutOfDate\<close> only the request to the server remains.
\<close>

definition roomVerificationStatus :: "key_env \<Rightarrow> string \<Rightarrow> string list \<Rightarrow> key_store \<Rightarrow> key_store \<times> trust" where
  "roomVerificationStatus env token members s =
     (let (s1, t, req) = room_trust env members (s, Verified, [])
      in (s1\<lparr>ks_log := ks_log s1 @ (if req = [] then [] else request_keys token req)\<rparr>, t))"

definition trusted_device :: "verification_status \<Rightarrow> string \<times> device_keys \<Rightarrow> bool" where
  "trusted_device v p =
     (case fmlookup (dk_keys (snd p)) (''curve25519:'' @ fst p) of
        None \<Rightarrow> False
      | Some c \<Rightarrow> fmlookup (vs_verified_device_keys v) c = Some Verified
                  \<and> fst p = dk_device_id (snd p) \<and> fst p |\<in>| vs_verified_devices v)"

fun members_with_keys ::
  "key_env \<Rightarrow> bool \<Rightarrow> string list \<Rightarrow> key_store \<times> (string, user_key_cache option) fmap
    \<Rightarrow> key_store \<times> (string, user_key_cache option) fmap"
where
  "members_with_keys env verified_only [] acc = acc"
| "members_with_keys env verified_only (u # us) (s, m) =
     members_with_keys env verified_only us
       (case fmlookup (ks_user_keys s) u of
          Some k \<Rightarrow>
            if verified_only then
              let (s1, v) = verificationStatus env u s;
                  dks = fmfilter (\<lambda>d. case fmlookup (uk_device_keys k) d of
                                        Some dk \<Rightarrow> trusted_device v (d, dk) | None \<Rightarrow> False)
                          (uk_device_keys k)
              in if (vs_user_verified v = Verified \<or> vs_verified_devices v \<noteq> {||}) \<and> dks \<noteq> fmempty
                 then (s1, fmupd u (Some (k\<lparr>uk_device_keys := dks\<rparr>)) m) else (s1, m)
            else (s, fmupd u (Some k) m)
        | None \<Rightarrow> if verified_only then (s, m) else (s, fmupd u None m))"

definition getMembersWithKeys ::
  "key_env \<Rightarrow> bool \<Rightarrow> string list \<Rightarrow> key_store \<Rightarrow> key_store \<times> (string, user_key_cache option) fmap"
where
  "getMembersWithKeys env verified_only members s = members_with_keys env verified_only members (s, fmempty)"

section \<open>The store as a machine\<close>

datatype key_op =
    KoUpdate string query_keys_response
  | KoMark string "string list"
  | KoVerify string string
  | KoUnverify string string
  | KoStatus string
  | KoRoom string "string list"
  | KoMembers bool "string list"

fun key_step :: "key_env \<Rightarrow> key_store \<Rightarrow> key_op \<Rightarrow> key_store" where
  "key_step env s (KoUpdate t q) = updateUserKeys env t q s"
| "key_step env s (KoMark t us) = markUserKeysOutOfDate t us s"
| "key_step env s (KoVerify u d) = markDeviceVerified env u d s"
| "key_step env s (KoUnverify u d) = markDeviceUnverified env u d s"
| "key_step env s (KoStatus u) = fst (verificationStatus env u s)"
| "key_step env s (KoRoom t us) = fst (roomVerificationStatus env t us s)"
| "key_step env s (KoMembers v us) = fst (getMembersWithKeys env v us s)"

end
