(* ===== verification/User_Keys_Safety.thy ===== *)
theory User_Keys_Safety
  imports User_Keys
begin

text \<open>
  What the key store promises: a tracked user's device ids stay bound to their keys; the trust in a
  user and in a device rests on the chain of signatures; the cached verification statuses are those
  that would be computed anew. And the two gaps: keys of a user that is not tracked yet are stored
  unchecked, and a user whose devices were never fetched counts as one without unverified devices.
\<close>

section \<open>Updates of a tracked user\<close>

text \<open>Why a device may be in the entry after an update.\<close>

definition device_justified ::
  "key_env \<Rightarrow> string \<Rightarrow> user_key_cache \<Rightarrow> string \<Rightarrow> device_keys \<Rightarrow> bool"
where
  "device_justified env user old d dk \<longleftrightarrow>
     (\<exists>od. fmlookup (uk_device_keys old) d = Some od \<and> dk_keys od = dk_keys dk) \<or>
     (d |\<notin>| fmdom (uk_device_keys old) \<and> d |\<notin>| uk_seen_device_ids old \<and>
      (\<forall>i k. fmlookup (dk_keys dk) i = Some k \<longrightarrow> k |\<notin>| uk_seen_device_keys old) \<and>
      self_signed env user d dk)"

lemma in_snd_sorted_list_of_fmap [simp]:
  "k \<in> snd ` set (sorted_list_of_fmap m) \<longleftrightarrow> (\<exists>i. fmlookup m i = Some k)"
  by force

lemma mark_seen_simps [simp]:
  "uk_device_keys (mark_seen d dk u) = uk_device_keys u"
  "uk_master_key_changed (mark_seen d dk u) = uk_master_key_changed u"
  "uk_master_keys (mark_seen d dk u) = uk_master_keys u"
  "uk_last_changed (mark_seen d dk u) = uk_last_changed u"
  "x |\<in>| uk_seen_device_ids (mark_seen d dk u) \<longleftrightarrow> x = d \<or> x |\<in>| uk_seen_device_ids u"
  "k |\<in>| uk_seen_device_keys (mark_seen d dk u) \<longleftrightarrow>
     (\<exists>i. fmlookup (dk_keys dk) i = Some k) \<or> k |\<in>| uk_seen_device_keys u"
  by (simp_all add: mark_seen_def fset_of_list_elem fset_of_list.rep_eq del: set_sorted_list_of_fmap)

lemma key_reusedD:
  assumes "\<not> key_reused d dk u" and "self_signed env user d dk"
  shows "d |\<notin>| uk_seen_device_ids u \<and>
         (\<forall>i k. fmlookup (dk_keys dk) i = Some k \<longrightarrow> k |\<notin>| uk_seen_device_keys u)"
proof -
  have all: "\<forall>i k. fmlookup (dk_keys dk) i = Some k \<longrightarrow>
      k |\<notin>| uk_seen_device_keys u \<and> d |\<notin>| uk_seen_device_ids u"
    using assms(1) by (auto simp: key_reused_def list_ex_iff)
  obtain i k where "fmlookup (dk_keys dk) i = Some k"
    using assms(2) by (auto simp: self_signed_def Let_def split: option.splits)
  then show ?thesis using all by blast
qed

text \<open>The loop over the devices of an update, with what has been seen so far growing.\<close>

definition update_ok ::
  "key_env \<Rightarrow> string \<Rightarrow> user_key_cache \<Rightarrow> user_key_cache \<Rightarrow> user_key_cache \<Rightarrow> bool"
where
  "update_ok env user update old u \<longleftrightarrow>
     (\<forall>d dk. fmlookup (uk_device_keys u) d = Some dk \<longrightarrow>
        fmlookup (uk_device_keys update) d = Some dk \<and> device_justified env user old d dk
        \<and> d |\<in>| uk_seen_device_ids u) \<and>
     uk_seen_device_ids old |\<subseteq>| uk_seen_device_ids u \<and>
     uk_seen_device_keys old |\<subseteq>| uk_seen_device_keys u \<and>
     uk_master_key_changed u = (uk_master_key_changed old \<or> master_key_replaced update old)"

lemma update_ok_mark:
  "update_ok env user update old u \<Longrightarrow> update_ok env user update old (mark_seen d dk u)"
  by (auto simp: update_ok_def fsubset_iff)

lemma update_ok_add:
  assumes "update_ok env user update old u" and "device_justified env user old d dk"
    and "fmlookup (uk_device_keys update) d = Some dk"
  shows "update_ok env user update old
           (mark_seen d dk (u\<lparr>uk_device_keys := fmupd d dk (uk_device_keys u)\<rparr>))"
  using assms by (auto simp: update_ok_def fsubset_iff split: if_splits)

lemma update_ok_device:
  assumes u: "update_ok env user update old u" and d: "fmlookup (uk_device_keys update) d = Some dk"
  shows "update_ok env user update old (update_device env user (uk_device_keys old) (d, dk) u)"
proof (cases "fmlookup (uk_device_keys old) d")
  case (Some od)
  then show ?thesis
    using update_ok_mark [OF u] update_ok_add [OF u _ d]
    by (auto simp: update_device_def device_justified_def)
next
  case None
  have "device_justified env user old d dk"
    if "\<not> key_reused d dk u" "self_signed env user d dk"
    using key_reusedD [OF that] that u None
    unfolding device_justified_def update_ok_def fsubset_iff by (auto simp: fmlookup_dom_iff)
  then show ?thesis
    using update_ok_mark [OF u] update_ok_add [OF u _ d] u None by (simp add: update_device_def)
qed

lemma update_ok_merge: "update_ok env user update old (merge_update env user update old)"
  unfolding merge_update_def Let_def
proof (rule fold_invariant [where P = "update_ok env user update old"])
  show "update_ok env user update old (old\<lparr>uk_master_key_changed :=
      uk_master_key_changed old \<or> master_key_replaced update old,
      uk_master_keys := uk_master_keys update, uk_self_signing_keys := uk_self_signing_keys update,
      uk_user_signing_keys := uk_user_signing_keys update, uk_device_keys := fmempty\<rparr>)"
    by (simp add: update_ok_def)
next
  fix p u
  assume p: "p \<in> set (sorted_list_of_fmap (uk_device_keys update))" and u: "update_ok env user update old u"
  obtain d dk where "p = (d, dk)" by (cases p)
  then show "update_ok env user update old (update_device env user (uk_device_keys old) p u)"
    using p update_ok_device [OF u] by simp
qed

lemma updated_entry_tracked:
  assumes "updated_entry env token user update (Some old) = Some new"
  shows "update_ok env user update old new"
  using assms update_ok_merge [of env user update old]
  by (auto simp: updated_entry_def update_ok_def split: if_splits)

text \<open>C36: Admission of devices. After an update of a user whose keys are tracked, every device of the
  entry is one the server sent, and either had the same keys before the update, or is new: neither
  its id nor any of its keys was seen before, and it carries a valid signature by its own key. The
  flag that the master key changed is kept, and raised if a known master key was replaced.\<close>

theorem device_admitted_only_if_known_or_new_and_signed:
  assumes "updated_entry env token user update (Some old) = Some new"
  shows "(\<forall>d dk. fmlookup (uk_device_keys new) d = Some dk \<longrightarrow>
            fmlookup (uk_device_keys update) d = Some dk \<and> device_justified env user old d dk)
       \<and> uk_master_key_changed new = (uk_master_key_changed old \<or> master_key_replaced update old)"
  using updated_entry_tracked [OF assms] by (simp add: update_ok_def)

definition demo_key_env :: key_env where
  "demo_key_env = \<lparr>ke_local_user = ''a'', ke_device_id = ''A'', ke_identity_ed25519 = ''A-key'',
     ke_verify_device = (\<lambda>k d sig. sig = k), ke_verify_cross = (\<lambda>k c sig. sig = k)\<rparr>"

definition demo_device :: "string \<Rightarrow> string \<Rightarrow> string \<Rightarrow> device_keys" where
  "demo_device u d k = \<lparr>dk_user_id = u, dk_device_id = d,
     dk_keys = fmupd (''curve25519:'' @ d) (k @ ''-c'') (fmupd (''ed25519:'' @ d) k fmempty),
     dk_signatures = fmupd u (fmupd (''ed25519:'' @ d) k fmempty) fmempty\<rparr>"

definition demo_update :: "string \<Rightarrow> device_keys list \<Rightarrow> query_keys_response" where
  "demo_update u ds =
     \<lparr>qk_device_keys = fmupd u (fmap_of_list (map (\<lambda>d. (dk_device_id d, d)) ds)) fmempty,
      qk_master_keys = fmempty, qk_user_signing_keys = fmempty, qk_self_signing_keys = fmempty\<rparr>"

theorem device_admitted_only_if_known_or_new_and_signed_witness:
  "\<exists>new. updated_entry demo_key_env ''s'' ''b''
      (response_update (demo_update ''b'' [demo_device ''b'' ''B'' ''k'']) ''b'') (Some new_user_key_cache) = Some new
     \<and> device_justified demo_key_env ''b'' new_user_key_cache ''B'' (demo_device ''b'' ''B'' ''k'')"
proof -
  let ?e = "updated_entry demo_key_env ''s'' ''b''
      (response_update (demo_update ''b'' [demo_device ''b'' ''B'' ''k'']) ''b'') (Some new_user_key_cache)"
  have "Option.bind ?e (\<lambda>n. fmlookup (uk_device_keys n) ''B'') = Some (demo_device ''b'' ''B'' ''k'')"
    by code_simp
  then obtain new where new: "?e = Some new" "fmlookup (uk_device_keys new) ''B'' = Some (demo_device ''b'' ''B'' ''k'')"
    by (auto simp: bind_eq_Some_conv)
  then show ?thesis using device_admitted_only_if_known_or_new_and_signed [OF new(1)] by blast
qed

section \<open>A device id keeps its keys\<close>

definition pinned :: "string \<Rightarrow> string \<Rightarrow> (string, string) fmap \<Rightarrow> key_store \<Rightarrow> bool" where
  "pinned user d ks s \<longleftrightarrow>
     (\<exists>u. fmlookup (ks_user_keys s) user = Some u \<and> d |\<in>| uk_seen_device_ids u \<and>
        (\<forall>dk. fmlookup (uk_device_keys u) d = Some dk \<longrightarrow> dk_keys dk = ks))"

lemma write_update_other: "user \<noteq> v \<Longrightarrow> fmlookup (write_update env t q v tab) user = fmlookup tab user"
  by (simp add: write_update_def split: option.split)

lemma fold_write_update_other:
  "user \<notin> set vs \<Longrightarrow> fmlookup (fold (write_update env t q) vs tab) user = fmlookup tab user"
  by (induction vs arbitrary: tab) (auto simp: write_update_other)

lemma updateUserKeys_keys:
  "ks_user_keys (updateUserKeys env t q s) =
     fold (write_update env t q) (sorted_list_of_fset (response_users q)) (ks_user_keys s)"
proof -
  have "ks_user_keys (fold (invalidate_user env) us s) = ks_user_keys s" for us s
    by (induction us arbitrary: s) (auto simp: invalidate_user_def)
  then show ?thesis by (simp add: updateUserKeys_def Let_def)
qed

lemma pinned_write:
  assumes "fmlookup tab user = Some u" "d |\<in>| uk_seen_device_ids u"
    "\<forall>dk. fmlookup (uk_device_keys u) d = Some dk \<longrightarrow> dk_keys dk = ks"
  shows "\<exists>u'. fmlookup (write_update env t q user tab) user = Some u' \<and> d |\<in>| uk_seen_device_ids u'
     \<and> (\<forall>dk. fmlookup (uk_device_keys u') d = Some dk \<longrightarrow> dk_keys dk = ks)"
proof (cases "updated_entry env t user (response_update q user) (Some u)")
  case None
  then show ?thesis using assms by (simp add: write_update_def)
next
  case (Some u')
  note ok = updated_entry_tracked [OF Some]
  have "d |\<in>| uk_seen_device_ids u'" using ok assms(2) by (auto simp: update_ok_def)
  moreover have "dk_keys dk = ks" if "fmlookup (uk_device_keys u') d = Some dk" for dk
    using ok that assms(2,3) unfolding update_ok_def device_justified_def by metis
  ultimately show ?thesis using Some assms(1) by (simp add: write_update_def)
qed

lemma pinned_update:
  assumes "pinned user d ks s"
  shows "pinned user d ks (updateUserKeys env t q s)"
proof -
  let ?us = "sorted_list_of_fset (response_users q)"
  have "distinct ?us" by (simp add: sorted_list_of_fset.rep_eq)
  then have "pinned user d ks (s\<lparr>ks_user_keys := fold (write_update env t q) ?us (ks_user_keys s)\<rparr>)"
  proof (cases "user \<in> set ?us")
    case False
    then show ?thesis using assms by (simp add: pinned_def fold_write_update_other)
  next
    case True
    then obtain xs ys where us: "?us = xs @ user # ys" by (metis split_list)
    then have "user \<notin> set xs" "user \<notin> set ys" using \<open>distinct ?us\<close> by auto
    then show ?thesis
      using assms pinned_write [of "fold (write_update env t q) xs (ks_user_keys s)" user _ d ks env t q]
      by (auto simp: pinned_def us fold_write_update_other)
  qed
  then show ?thesis by (simp add: pinned_def updateUserKeys_keys)
qed

interpretation pins: invariant_machine "\<lambda>s (t, q). updateUserKeys env t q s" "pinned user d ks"
  by unfold_locales (auto intro: pinned_update)

text \<open>C37: Key pinning. Once a tracked user's device id has been seen with its keys, no sequence of
  server responses can make the store hold other keys under that id: the device keeps them or is
  gone.\<close>

theorem device_id_never_changes_keys:
  assumes "fmlookup (ks_user_keys s) user = Some u" and "d |\<in>| uk_seen_device_ids u"
    and "fmlookup (uk_device_keys u) d = Some dk"
    and "Option.bind (fmlookup (ks_user_keys (run (\<lambda>s (t, q). updateUserKeys env t q s) s rs)) user)
           (\<lambda>u. fmlookup (uk_device_keys u) d) = Some dk'"
  shows "dk_keys dk' = dk_keys dk"
proof -
  have "pinned user d (dk_keys dk) s" using assms(1-3) by (auto simp: pinned_def)
  then have "pinned user d (dk_keys dk) (run (\<lambda>s (t, q). updateUserKeys env t q s) s rs)"
    by (rule pins.run_inv)
  then show ?thesis using assms(4) by (auto simp: pinned_def bind_eq_Some_conv)
qed

definition demo_tracked :: key_store where
  "demo_tracked = updateUserKeys demo_key_env ''s'' (demo_update ''b'' [demo_device ''b'' ''B'' ''k''])
     (markUserKeysOutOfDate ''s'' [''b''] new_key_store)"

theorem device_id_never_changes_keys_witness:
  "\<exists>u. fmlookup (ks_user_keys (run (\<lambda>s (t, q). updateUserKeys demo_key_env t q s) demo_tracked
        [(''s'', demo_update ''b'' [demo_device ''b'' ''B'' ''evil'', demo_device ''b'' ''C'' ''l'']),
         (''s'', demo_update ''b'' [demo_device ''b'' ''B'' ''k'', demo_device ''b'' ''C'' ''l''])])) ''b'' = Some u
     \<and> fmdom (uk_device_keys u) = {|''C''|} \<and> dk_keys (the (fmlookup (uk_device_keys u) ''C'')) = dk_keys (demo_device ''b'' ''C'' ''l'')"
proof -
  let ?rs = "[(''s'', demo_update ''b'' [demo_device ''b'' ''B'' ''evil'', demo_device ''b'' ''C'' ''l''])]"
  let ?rs' = "[(''s'', demo_update ''b'' [demo_device ''b'' ''B'' ''k'', demo_device ''b'' ''C'' ''l''])]"
  let ?run = "run (\<lambda>s (t, q). updateUserKeys demo_key_env t q s)"
  have "map_option (\<lambda>u. fmdom (uk_device_keys u)) (fmlookup (ks_user_keys (?run demo_tracked (?rs @ ?rs'))) ''b'') = Some {|''C''|}"
    by code_simp
  then obtain u where u: "fmlookup (ks_user_keys (?run demo_tracked (?rs @ ?rs'))) ''b'' = Some u"
    "fmdom (uk_device_keys u) = {|''C''|}" by auto
  then obtain dk' where dk': "fmlookup (uk_device_keys u) ''C'' = Some dk'"
    by (metis fmdomE finsertI1)
  have "map_option (\<lambda>u. ''C'' |\<in>| uk_seen_device_ids u \<and>
      fmlookup (uk_device_keys u) ''C'' = Some (demo_device ''b'' ''C'' ''l''))
      (fmlookup (ks_user_keys (?run demo_tracked ?rs)) ''b'') = Some True" by code_simp
  then obtain v where v: "fmlookup (ks_user_keys (?run demo_tracked ?rs)) ''b'' = Some v"
    "''C'' |\<in>| uk_seen_device_ids v" "fmlookup (uk_device_keys v) ''C'' = Some (demo_device ''b'' ''C'' ''l'')"
    by auto
  have "Option.bind (fmlookup (ks_user_keys (?run (?run demo_tracked ?rs) ?rs')) ''b'')
      (\<lambda>u. fmlookup (uk_device_keys u) ''C'') = Some dk'"
    using u(1) dk' by simp
  from device_id_never_changes_keys [OF v this] show ?thesis using u dk' by auto
qed

section \<open>Trust rests on signatures\<close>

lemma count_unverified_simps [simp]:
  "vs_user_verified (count_unverified dks st) = vs_user_verified st"
  "vs_verified_device_keys (count_unverified dks st) = vs_verified_device_keys st"
  "vs_verified_devices (count_unverified dks st) = vs_verified_devices st"
  "vs_no_keys (count_unverified dks st) = vs_no_keys st"
  by (simp_all add: count_unverified_def)

text \<open>A device key that got trust: signed by the user's self-signing key, which their master key
  signed.\<close>

definition cross_signed_device ::
  "key_env \<Rightarrow> string \<Rightarrow> user_key_cache \<Rightarrow> (string, string) fmap \<Rightarrow> string \<Rightarrow> bool"
where
  "cross_signed_device env user_id theirs master_keys k \<longleftrightarrow>
     cross_signed env (uk_self_signing_keys theirs) master_keys user_id \<and>
     (\<exists>d dk. fmlookup (uk_device_keys theirs) d = Some dk \<and>
        fmlookup (dk_keys dk) (''curve25519:'' @ dk_device_id dk) = Some k \<and>
        device_signed env dk (csk_keys (uk_self_signing_keys theirs)) user_id)"

lemma trust_device_simps:
  "vs_user_verified (trust_device env u level ssk p st) = vs_user_verified st"
  "fmlookup (vs_verified_device_keys (trust_device env u level ssk p st)) k =
     (if fmlookup (dk_keys (snd p)) (''curve25519:'' @ dk_device_id (snd p)) = Some k
         \<and> device_signed env (snd p) (csk_keys ssk) u
      then Some level else fmlookup (vs_verified_device_keys st) k)"
  by (auto simp: trust_device_def Let_def split: option.split)

lemma fold_trust_device:
  "vs_user_verified (fold (trust_device env u level ssk) ps st) = vs_user_verified st"
  "fmlookup (vs_verified_device_keys (fold (trust_device env u level ssk) ps st)) k =
     (if \<exists>p \<in> set ps. fmlookup (dk_keys (snd p)) (''curve25519:'' @ dk_device_id (snd p)) = Some k
                      \<and> device_signed env (snd p) (csk_keys ssk) u
      then Some level else fmlookup (vs_verified_device_keys st) k)"
  by (induction ps arbitrary: st) (auto simp: trust_device_simps)

lemma trust_devices_user [simp]:
  "vs_user_verified (trust_devices env u level mk theirs st) = vs_user_verified st"
  by (simp add: trust_devices_def fold_trust_device)

lemma trust_devices_key:
  assumes "fmlookup (vs_verified_device_keys (trust_devices env u level mk theirs st)) k = Some l"
    and "vs_verified_device_keys st = fmempty"
  shows "l = level \<and> cross_signed_device env u theirs mk k"
  using assms
  by (auto simp: trust_devices_def fold_trust_device cross_signed_device_def split: if_splits)

text \<open>The chain from our own device to a user.\<close>

definition trust_chain :: "key_env \<Rightarrow> string \<Rightarrow> trust \<Rightarrow> user_key_cache \<Rightarrow> user_key_cache \<Rightarrow> bool" where
  "trust_chain env u level ours theirs \<longleftrightarrow>
     own_master_signed env (uk_master_keys ours) \<and>
     (if u = ke_local_user env then level = Verified
      else if level = Verified then their_master_verified env ours theirs
      else level = TOFU \<and> \<not> uk_master_key_changed theirs)"

lemma initial_status_simps [simp]:
  "vs_user_verified (initial_status env u s) = Unverified"
  "vs_verified_device_keys (initial_status env u s) = fmempty"
  "vs_no_keys (initial_status env u s)" "vs_unverified_device_count (initial_status env u s) = 1"
  by (simp_all add: initial_status_def new_verification_status_def Let_def)

lemma compute_status_chain:
  assumes "vs_user_verified (compute_status env u s) \<noteq> Unverified
         \<or> fmlookup (vs_verified_device_keys (compute_status env u s)) k = Some l"
  shows "\<exists>ours theirs. fmlookup (ks_user_keys s) (ke_local_user env) = Some ours
     \<and> fmlookup (ks_user_keys s) u = Some theirs
     \<and> trust_chain env u (vs_user_verified (compute_status env u s)) ours theirs
     \<and> (fmlookup (vs_verified_device_keys (compute_status env u s)) k = Some l \<longrightarrow>
          l = vs_user_verified (compute_status env u s)
        \<and> cross_signed_device env u theirs (csk_keys (uk_master_keys theirs)) k)"
proof (cases "fmlookup (ks_user_keys s) (ke_local_user env)")
  case None
  then show ?thesis using assms by (simp add: compute_status_def Let_def split: if_splits)
next
  case ours: (Some ours)
  show ?thesis
  proof (cases "fmlookup (ks_user_keys s) u")
    case None
    then show ?thesis using assms ours by (simp add: compute_status_def Let_def)
  next
    case (Some theirs)
    let ?st = "compute_status env u s"
    have key: "l' = level \<and> cross_signed_device env u theirs mk k"
      if "fmlookup (vs_verified_device_keys (trust_devices env u level mk theirs
            (count_unverified dks (initial_status env u s\<lparr>vs_no_keys := False\<rparr>)\<lparr>vs_user_verified := level\<rparr>))) k
          = Some l'" for level mk dks l'
      by (rule trust_devices_key [OF that]) simp
    show ?thesis
      using assms ours Some key
      by (cases "u = ke_local_user env")
        (auto simp: compute_status_def Let_def trust_chain_def split: if_splits)
  qed
qed

text \<open>C38: Trust rests on signatures. If the verification status calls a user verified or trusted on
  first use, our own device key signed our master key, and: for verified, our master key signed our
  user-signing key and that signed their master key; for trusted on first use, their master key
  never changed. A device key in the status has the user's trust and is signed along their master
  and self-signing keys.\<close>

theorem verification_status_rests_on_signatures:
  assumes "compute_status env u s = st"
    and "vs_user_verified st \<noteq> Unverified \<or> fmlookup (vs_verified_device_keys st) k = Some l"
  shows "\<exists>ours theirs. fmlookup (ks_user_keys s) (ke_local_user env) = Some ours
     \<and> fmlookup (ks_user_keys s) u = Some theirs
     \<and> trust_chain env u (vs_user_verified st) ours theirs
     \<and> (fmlookup (vs_verified_device_keys st) k = Some l \<longrightarrow>
          l = vs_user_verified st
        \<and> cross_signed_device env u theirs (csk_keys (uk_master_keys theirs)) k)"
  using compute_status_chain [of env u s k l] assms by simp

definition demo_cross :: "string \<Rightarrow> string \<Rightarrow> string \<Rightarrow> string \<Rightarrow> string \<Rightarrow> cross_signing_keys" where
  "demo_cross u k signer key_id sig =
     \<lparr>csk_user_id = u, csk_keys = fmupd (''ed25519:'' @ k) k fmempty,
      csk_signatures = fmupd signer (fmupd key_id sig fmempty) fmempty\<rparr>"

text \<open>User a verified user b: A signed a's master key, which signed a's user-signing key, which
  signed b's master key; b's device B is signed by b's self-signing key.\<close>

definition demo_web :: key_store where
  "demo_web = new_key_store\<lparr>ks_user_keys :=
     fmupd ''a'' (new_user_key_cache\<lparr>
         uk_master_keys := demo_cross ''a'' ''ma'' ''a'' ''ed25519:A'' ''A-key'',
         uk_user_signing_keys := demo_cross ''a'' ''ua'' ''a'' ''ed25519:ma'' ''ma''\<rparr>)
     (fmupd ''b'' (new_user_key_cache\<lparr>
         uk_master_keys := demo_cross ''b'' ''mb'' ''a'' ''ed25519:ua'' ''ua'',
         uk_self_signing_keys := demo_cross ''b'' ''sb'' ''b'' ''ed25519:mb'' ''mb'',
         uk_device_keys := fmupd ''B'' ((demo_device ''b'' ''B'' ''kb'')
            \<lparr>dk_signatures := fmupd ''b'' (fmupd ''ed25519:sb'' ''sb'' fmempty) fmempty\<rparr>) fmempty\<rparr>)
      fmempty)\<rparr>"

theorem verification_status_rests_on_signatures_witness:
  "\<exists>ours theirs. trust_chain demo_key_env ''b'' Verified ours theirs
     \<and> cross_signed_device demo_key_env ''b'' theirs (csk_keys (uk_master_keys theirs)) ''kb-c''"
proof -
  have "vs_user_verified (compute_status demo_key_env ''b'' demo_web) = Verified"
    "fmlookup (vs_verified_device_keys (compute_status demo_key_env ''b'' demo_web)) ''kb-c'' = Some Verified"
    by code_simp+
  then show ?thesis
    using verification_status_rests_on_signatures [OF refl, of demo_key_env "''b''" demo_web "''kb-c''" Verified]
    by auto
qed

section \<open>Cached statuses are current\<close>

definition coherent :: "key_env \<Rightarrow> key_store \<Rightarrow> bool" where
  "coherent env s \<longleftrightarrow> (\<forall>u st. fmlookup (ks_status s) u = Some st \<longrightarrow> st = compute_status env u s)"

lemma compute_status_cong:
  assumes "fmlookup (ks_verification s) u = fmlookup (ks_verification t) u"
    and "fmlookup (ks_user_keys s) u = fmlookup (ks_user_keys t) u"
    and "fmlookup (ks_user_keys s) (ke_local_user env) = fmlookup (ks_user_keys t) (ke_local_user env)"
  shows "compute_status env u s = compute_status env u t"
  using assms by (simp add: compute_status_def initial_status_def)

lemma coherentD: "coherent env s \<Longrightarrow> fmlookup (ks_status s) u = Some st \<Longrightarrow> st = compute_status env u s"
  by (simp add: coherent_def)

text \<open>An operation is fine if it forgets every status whose inputs it changes.\<close>

lemma coherent_change:
  assumes "coherent env s"
    and "\<And>u st. fmlookup (ks_status t) u = Some st \<Longrightarrow>
          fmlookup (ks_status s) u = Some st \<and>
          fmlookup (ks_verification t) u = fmlookup (ks_verification s) u \<and>
          fmlookup (ks_user_keys t) u = fmlookup (ks_user_keys s) u \<and>
          fmlookup (ks_user_keys t) (ke_local_user env) = fmlookup (ks_user_keys s) (ke_local_user env)"
  shows "coherent env t"
  unfolding coherent_def
proof (intro allI impI)
  fix u st assume "fmlookup (ks_status t) u = Some st"
  then show "st = compute_status env u t"
    using assms(2) coherentD [OF assms(1)] compute_status_cong [of t u s env] by metis
qed

lemma invalidate_user_simps [simp]:
  "ks_user_keys (invalidate_user env u s) = ks_user_keys s"
  "ks_verification (invalidate_user env u s) = ks_verification s"
  "fmlookup (ks_status (invalidate_user env u s)) v =
     (if u = ke_local_user env \<or> v = u then None else fmlookup (ks_status s) v)"
  by (simp_all add: invalidate_user_def)

lemma fold_invalidate_simps [simp]:
  "ks_user_keys (fold (invalidate_user env) us s) = ks_user_keys s"
  "ks_verification (fold (invalidate_user env) us s) = ks_verification s"
  "fmlookup (ks_status (fold (invalidate_user env) us s)) v =
     (if ke_local_user env \<in> set us \<or> v \<in> set us then None else fmlookup (ks_status s) v)"
  by (induction us arbitrary: s) auto

lemma coherent_update: "coherent env s \<Longrightarrow> coherent env (updateUserKeys env t q s)"
  by (rule coherent_change [where s = s])
    (auto simp: updateUserKeys_def Let_def fold_write_update_other split: if_splits)

lemma coherent_verified: "coherent env s \<Longrightarrow> coherent env (markDeviceVerified env u d s)"
  by (rule coherent_change [where s = s])
    (auto simp: markDeviceVerified_def invalidate_and_signal_def Let_def split: if_splits)

lemma coherent_unverified: "coherent env s \<Longrightarrow> coherent env (markDeviceUnverified env u d s)"
  by (rule coherent_change [where s = s])
    (auto simp: markDeviceUnverified_def invalidate_and_signal_def Let_def split: if_splits)

lemma compute_status_store [simp]:
  "compute_status env u (s\<lparr>ks_status := x\<rparr>) = compute_status env u s"
  "compute_status env u (s\<lparr>ks_log := l\<rparr>) = compute_status env u s"
  by (rule compute_status_cong; simp)+

lemma coherent_log [simp]: "coherent env (s\<lparr>ks_log := l\<rparr>) = coherent env s"
  by (simp add: coherent_def)

lemma coherent_status:
  assumes "coherent env s"
  shows "coherent env (fst (verificationStatus env u s))
       \<and> snd (verificationStatus env u s) = compute_status env u s
       \<and> ks_user_keys (fst (verificationStatus env u s)) = ks_user_keys s
       \<and> ks_verification (fst (verificationStatus env u s)) = ks_verification s"
  using assms by (auto simp: verificationStatus_def coherent_def Let_def split: option.split if_splits)

lemma coherent_room_trust:
  "coherent env (fst a) \<Longrightarrow> coherent env (fst (room_trust env us a))"
proof (induction us arbitrary: a)
  case (Cons u us)
  obtain s t req where a: "a = (s, t, req)" by (cases a)
  show ?case
    using Cons coherent_status [of env s u]
    by (cases "verificationStatus env u s") (auto simp: a)
qed simp

lemma coherent_members:
  "coherent env (fst a) \<Longrightarrow> coherent env (fst (members_with_keys env v us a))"
proof (induction us arbitrary: a)
  case (Cons u us)
  obtain s m where a: "a = (s, m)" by (cases a)
  show ?case
    using Cons coherent_status [of env s u]
    by (cases "verificationStatus env u s") (auto simp: a Let_def split: option.split)
qed simp

text \<open>Marking only tracked users changes nothing a status depends on.\<close>

fun tracked_marks :: "key_store \<Rightarrow> key_op \<Rightarrow> bool" where
  "tracked_marks s (KoMark t us) = (\<forall>u \<in> set us. u |\<in>| fmdom (ks_user_keys s))"
| "tracked_marks s _ = True"

lemma fold_mark_lookup:
  "fmlookup (fold (mark_out_of_date t) us tab) u =
     (if u \<in> set us then Some ((the_or new_user_key_cache (fmlookup tab u))\<lparr>uk_last_changed := t\<rparr>)
      else fmlookup tab u)"
  by (induction us arbitrary: tab) (auto simp: mark_out_of_date_def)

definition clear_last_changed :: "user_key_cache \<Rightarrow> user_key_cache" where
  "clear_last_changed a = a\<lparr>uk_last_changed := []\<rparr>"

lemma clear_last_changed_simps [simp]:
  "uk_device_keys (clear_last_changed a) = uk_device_keys a"
  "uk_master_keys (clear_last_changed a) = uk_master_keys a"
  "uk_user_signing_keys (clear_last_changed a) = uk_user_signing_keys a"
  "uk_self_signing_keys (clear_last_changed a) = uk_self_signing_keys a"
  "uk_master_key_changed (clear_last_changed a) = uk_master_key_changed a"
  "clear_last_changed (a\<lparr>uk_last_changed := c\<rparr>) = clear_last_changed a"
  by (simp_all add: clear_last_changed_def)

lemma compute_status_clear:
  "compute_status env u (s\<lparr>ks_user_keys := fmmap clear_last_changed (ks_user_keys s)\<rparr>) = compute_status env u s"
proof (cases "fmlookup (ks_user_keys s) (ke_local_user env)"; cases "fmlookup (ks_user_keys s) u")
qed (simp_all add: compute_status_def initial_status_def Let_def their_master_verified_def trust_devices_def)

lemma coherent_mark:
  assumes "coherent env s" and "tracked_marks s (KoMark t us)"
  shows "coherent env (markUserKeysOutOfDate t us s)"
proof -
  let ?s = "markUserKeysOutOfDate t us s"
  have "fmmap clear_last_changed (ks_user_keys ?s) = fmmap clear_last_changed (ks_user_keys s)"
    using assms(2)
    by (intro fmap_ext) (auto simp: markUserKeysOutOfDate_def fold_mark_lookup fmlookup_dom_iff)
  then have "compute_status env u ?s = compute_status env u s" for u
    using compute_status_clear [of env u ?s] compute_status_clear [of env u s]
      compute_status_cong [of "?s\<lparr>ks_user_keys := fmmap clear_last_changed (ks_user_keys ?s)\<rparr>" u
        "s\<lparr>ks_user_keys := fmmap clear_last_changed (ks_user_keys s)\<rparr>" env]
    by (simp add: markUserKeysOutOfDate_def)
  then show ?thesis using assms(1) by (simp add: coherent_def markUserKeysOutOfDate_def)
qed

lemma coherent_step: "coherent env s \<Longrightarrow> tracked_marks s op \<Longrightarrow> coherent env (key_step env s op)"
proof (cases op)
  case (KoRoom t us)
  assume "coherent env s"
  then have "coherent env (fst (room_trust env us (s, Verified, [])))"
    by (intro coherent_room_trust) simp
  then show ?thesis
    using KoRoom by (cases "room_trust env us (s, Verified, [])") (simp add: roomVerificationStatus_def)
next
  case (KoMembers v us)
  assume "coherent env s"
  then show ?thesis using KoMembers by (simp add: getMembersWithKeys_def coherent_members)
qed (simp_all add: coherent_update coherent_mark coherent_verified coherent_unverified coherent_status
      del: tracked_marks.simps)

interpretation keym: guarded_machine "key_step env" tracked_marks "coherent env"
  by unfold_locales (rule coherent_step)

text \<open>Cached statuses are current. Over every history of key updates, manual verifications,
  status and room queries in which only users with an entry are marked as out of date, the status
  returned for a user is the one computed from the tables at that moment.\<close>

theorem cached_status_is_current:
  assumes "guarded_run (key_step env) tracked_marks new_key_store ops"
  shows "snd (verificationStatus env u (run (key_step env) new_key_store ops)) =
         compute_status env u (run (key_step env) new_key_store ops)"
proof -
  have "coherent env new_key_store" by (simp add: coherent_def new_key_store_def)
  then have "coherent env (run (key_step env) new_key_store ops)"
    using assms by (rule keym.guarded_run_inv)
  then show ?thesis using coherent_status by blast
qed

theorem cached_status_is_current_witness:
  "snd (verificationStatus demo_key_env ''b''
     (run (key_step demo_key_env) new_key_store [KoUpdate ''s'' (demo_update ''b'' []), KoStatus ''b'', KoMark ''t'' [''b'']]))
   = compute_status demo_key_env ''b''
     (run (key_step demo_key_env) new_key_store [KoUpdate ''s'' (demo_update ''b'' []), KoStatus ''b'', KoMark ''t'' [''b'']])"
proof -
  have "guarded_run (key_step demo_key_env) tracked_marks new_key_store
     [KoUpdate ''s'' (demo_update ''b'' []), KoStatus ''b'', KoMark ''t'' [''b'']]" by code_simp
  then show ?thesis by (rule cached_status_is_current)
qed

section \<open>Sharing with verified devices only\<close>

lemma members_with_keys_verified:
  assumes "coherent env (fst a)"
    and "fmlookup (snd (members_with_keys env True us a)) u = Some (Some k)"
    and "fmlookup (snd a) u \<noteq> Some (Some k)"
    and "fmlookup (uk_device_keys k) d = Some dk"
  shows "trusted_device (compute_status env u (fst a)) (d, dk)"
  using assms
proof (induction us arbitrary: a)
  case (Cons v us)
  obtain s m where a: "a = (s, m)" by (cases a)
  obtain s1 st where v: "verificationStatus env v s = (s1, st)" by (cases "verificationStatus env v s")
  have s: "coherent env s" using Cons.prems(1) a by simp
  have st: "st = compute_status env v s" "coherent env s1" "ks_user_keys s1 = ks_user_keys s"
    "ks_verification s1 = ks_verification s"
    using coherent_status [OF s, of v] v by simp_all
  have same: "compute_status env u s1 = compute_status env u s"
    using st by (intro compute_status_cong) simp_all
  show ?case
  proof (cases "fmlookup (ks_user_keys s) v")
    case None
    then show ?thesis using Cons.IH [of "(s, m)"] Cons.prems a by simp
  next
    case (Some kv)
    let ?dks = "fmfilter (\<lambda>d. case fmlookup (uk_device_keys kv) d of
                       Some dk \<Rightarrow> trusted_device st (d, dk) | None \<Rightarrow> False) (uk_device_keys kv)"
    let ?m = "if (vs_user_verified st = Verified \<or> vs_verified_devices st \<noteq> {||}) \<and> ?dks \<noteq> fmempty
              then fmupd v (Some (kv\<lparr>uk_device_keys := ?dks\<rparr>)) m else m"
    have step: "members_with_keys env True (v # us) a = members_with_keys env True us (s1, ?m)"
      using Some v a by simp
    show ?thesis
    proof (cases "fmlookup ?m u = Some (Some k)")
      case False
      then have "trusted_device (compute_status env u s1) (d, dk)"
        using Cons.IH [of "(s1, ?m)"] Cons.prems(2,4) st(2) step by simp
      then show ?thesis using same a by simp
    next
      case True
      then have "u = v" "k = kv\<lparr>uk_device_keys := ?dks\<rparr>"
        using Cons.prems(3) a by (auto split: if_splits)
      then show ?thesis using Cons.prems(4) st(1) a by (auto split: if_splits option.splits)
    qed
  qed
qed simp

text \<open>Sharing keys with verified devices only. A device that is returned for the members of a room
  under "verified only" belongs to a user who is verified along the chain of signatures from our own
  device (or to us), and its identity key is signed along that user's master and self-signing
  keys.\<close>

theorem verified_only_members_are_verified:
  assumes "guarded_run (key_step env) tracked_marks new_key_store ops"
    and "s = run (key_step env) new_key_store ops"
    and "fmlookup (snd (getMembersWithKeys env True members s)) u = Some (Some k)"
    and "fmlookup (uk_device_keys k) d = Some dk"
  shows "\<exists>ours theirs c. fmlookup (ks_user_keys s) (ke_local_user env) = Some ours
     \<and> fmlookup (ks_user_keys s) u = Some theirs \<and> trust_chain env u Verified ours theirs
     \<and> d = dk_device_id dk \<and> fmlookup (dk_keys dk) (''curve25519:'' @ d) = Some c
     \<and> cross_signed_device env u theirs (csk_keys (uk_master_keys theirs)) c"
proof -
  have "coherent env new_key_store" by (simp add: coherent_def new_key_store_def)
  then have s: "coherent env s" unfolding assms(2) using assms(1) by (rule keym.guarded_run_inv)
  have "trusted_device (compute_status env u s) (d, dk)"
    using members_with_keys_verified [of env "(s, fmempty)" members u k d dk] s assms(3,4)
    by (simp add: getMembersWithKeys_def)
  then obtain c where c: "fmlookup (dk_keys dk) (''curve25519:'' @ d) = Some c"
    "fmlookup (vs_verified_device_keys (compute_status env u s)) c = Some Verified" "d = dk_device_id dk"
    by (auto simp: trusted_device_def split: option.splits)
  then show ?thesis using compute_status_chain [of env u s c Verified] by auto
qed

theorem verified_only_members_are_verified_witness:
  "\<exists>ours theirs c. trust_chain demo_key_env ''b'' Verified ours theirs
     \<and> cross_signed_device demo_key_env ''b'' theirs (csk_keys (uk_master_keys theirs)) c"
proof -
  let ?k = "\<lambda>u. the (fmlookup (ks_user_keys demo_web) u)"
  let ?q = "\<lparr>qk_device_keys = fmupd ''b'' (uk_device_keys (?k ''b'')) fmempty,
     qk_master_keys = fmupd ''a'' (uk_master_keys (?k ''a'')) (fmupd ''b'' (uk_master_keys (?k ''b'')) fmempty),
     qk_user_signing_keys = fmupd ''a'' (uk_user_signing_keys (?k ''a'')) fmempty,
     qk_self_signing_keys = fmupd ''b'' (uk_self_signing_keys (?k ''b'')) fmempty\<rparr>"
  let ?ops = "[KoUpdate ''s'' ?q]"
  let ?s = "run (key_step demo_key_env) new_key_store ?ops"
  have g: "guarded_run (key_step demo_key_env) tracked_marks new_key_store ?ops" by simp
  have "map_option (map_option (\<lambda>k. fmlookup (uk_device_keys k) ''B''))
     (fmlookup (snd (getMembersWithKeys demo_key_env True [''a'', ''b''] ?s)) ''b'')
     = Some (Some (fmlookup (uk_device_keys (?k ''b'')) ''B''))"
    "fmlookup (uk_device_keys (?k ''b'')) ''B'' \<noteq> None" by code_simp+
  then obtain k d where k: "fmlookup (snd (getMembersWithKeys demo_key_env True [''a'', ''b''] ?s)) ''b'' = Some (Some k)"
    "fmlookup (uk_device_keys k) ''B'' = Some d" by auto
  from verified_only_members_are_verified [OF g refl k] show ?thesis by blast
qed

section \<open>Two gaps\<close>

text \<open>The first fetch of a user who has no entry yet is stored unchecked: every device the server
  sends is accepted, signed or not, whatever its id in the body, and nothing is remembered as
  seen, so that a later change of its keys is not recognised as a reuse.\<close>

theorem untracked_user_stored_unchecked:
  assumes "fmlookup (ks_user_keys s) user = None" and "user |\<in>| response_users q"
  shows "\<exists>u. fmlookup (ks_user_keys (updateUserKeys env token q s)) user = Some u
     \<and> uk_device_keys u = the_or fmempty (fmlookup (qk_device_keys q) user)
     \<and> uk_seen_device_ids u = {||} \<and> uk_seen_device_keys u = {||}"
proof -
  let ?us = "sorted_list_of_fset (response_users q)"
  have "user \<in> set ?us" using assms(2) by simp
  then obtain xs ys where us: "?us = xs @ user # ys" by (metis split_list)
  moreover have "distinct ?us" by (simp add: sorted_list_of_fset.rep_eq)
  ultimately have "user \<notin> set xs" "user \<notin> set ys" by auto
  then show ?thesis
    using assms(1)
    by (simp add: updateUserKeys_keys us fold_write_update_other write_update_def updated_entry_def
        response_update_def new_user_key_cache_def)
qed

theorem untracked_user_stored_unchecked_witness:
  "\<exists>u. fmlookup (ks_user_keys (updateUserKeys demo_key_env ''s''
      (demo_update ''b'' [(demo_device ''b'' ''B'' ''k'')\<lparr>dk_signatures := fmempty\<rparr>]) new_key_store)) ''b'' = Some u
     \<and> \<not> self_signed demo_key_env ''b'' ''B'' (the (fmlookup (uk_device_keys u) ''B''))"
proof -
  let ?q = "demo_update ''b'' [(demo_device ''b'' ''B'' ''k'')\<lparr>dk_signatures := fmempty\<rparr>]"
  have "fmlookup (ks_user_keys new_key_store) ''b'' = None" "''b'' |\<in>| response_users ?q" by code_simp+
  then obtain u where u: "fmlookup (ks_user_keys (updateUserKeys demo_key_env ''s'' ?q new_key_store)) ''b'' = Some u"
    "uk_device_keys u = the_or fmempty (fmlookup (qk_device_keys ?q) ''b'')"
    using untracked_user_stored_unchecked by blast
  have "\<not> self_signed demo_key_env ''b'' ''B''
     (the (fmlookup (the_or fmempty (fmlookup (qk_device_keys ?q) ''b'')) ''B''))" by code_simp
  then show ?thesis using u by metis
qed

text \<open>A user whose devices were never fetched. Marking a user without an entry as out of date
  creates an empty one; from then on, with our own master key signed, a computed status calls the
  user trusted on first use with no unverified device, although no device list was ever received
  and the status starts from "at least one unverified device".\<close>

theorem unfetched_user_has_no_unverified_device:
  assumes "fmlookup (ks_user_keys s) u = None" and "length u \<le> 255" and "u \<noteq> ke_local_user env"
    and "fmlookup (ks_user_keys s) (ke_local_user env) = Some ours"
    and "own_master_signed env (uk_master_keys ours)"
    and "fmlookup (ks_verification s) u = None"
  shows "vs_unverified_device_count (compute_status env u s) = 1
       \<and> (let st = compute_status env u (markUserKeysOutOfDate token [u] s)
          in vs_unverified_device_count st = 0 \<and> \<not> vs_no_keys st \<and> vs_user_verified st = TOFU)"
  using assms
  by (simp add: compute_status_def Let_def markUserKeysOutOfDate_def fold_mark_lookup
      mark_out_of_date_def their_master_verified_def cross_signed_def one_sig_def new_user_key_cache_def
      no_cross_signing_keys_def trust_devices_def count_unverified_def initial_status_def
      new_verification_status_def)

theorem unfetched_user_has_no_unverified_device_witness:
  "vs_user_verified (compute_status demo_key_env ''c'' (markUserKeysOutOfDate ''t'' [''c''] demo_web)) = TOFU"
proof -
  have "fmlookup (ks_user_keys demo_web) ''c'' = None" "fmlookup (ks_verification demo_web) ''c'' = None"
    "ke_local_user demo_key_env = ''a''" by code_simp+
  moreover have "map_option (\<lambda>o'. own_master_signed demo_key_env (uk_master_keys o'))
      (fmlookup (ks_user_keys demo_web) ''a'') = Some True" by code_simp
  ultimately show ?thesis
    using unfetched_user_has_no_unverified_device [of demo_web "''c''" demo_key_env _ "''t''"]
    by (auto simp: Let_def)
qed

end
