(* ===== verification/Cache_Json.thy ===== *)
theory Cache_Json
  imports Crypto_Types "HOL-Library.Monad_Syntax"
begin

text \<open>
  The JSON forms of the records the cache stores (\<open>to_json\<close> and \<open>from_json\<close> of
  \<open>src/src/Cache.cpp\<close>), and that reading what was written gives the record back.

  A \<open>json\<close> is the value nlohmann's class holds; its text form (\<open>dump\<close>, \<open>parse\<close>) is not modelled.
  The conversions of the standard containers are the documented ones of that class: a map with
  string keys is an object, any other map an array of pairs in key order, a set or vector an
  array, and reading a wrong kind throws (\<open>None\<close>).
\<close>

section \<open>Values and the conversions of the standard types\<close>

datatype json =
    JNull
  | JBool bool
  | JNum int
  | JStr string
  | JArr "json list"
  | JObj "(string, json) fmap"

text \<open>\<open>j[k] = v\<close> on the fresh value that \<open>to_json\<close> receives, and the two kinds of read.\<close>

fun set_key :: "string \<Rightarrow> json \<Rightarrow> json \<Rightarrow> json" where
  "set_key k v (JObj m) = JObj (fmupd k v m)"
| "set_key k v j = JObj (fmupd k v fmempty)"

fun at_key :: "string \<Rightarrow> json \<Rightarrow> json option" where
  "at_key k (JObj m) = fmlookup m k"
| "at_key k _ = None"

fun has_key :: "string \<Rightarrow> json \<Rightarrow> bool" where
  "has_key k (JObj m) = (fmlookup m k \<noteq> None)"
| "has_key k _ = False"

fun value_or :: "string \<Rightarrow> (json \<Rightarrow> 'a option) \<Rightarrow> 'a \<Rightarrow> json \<Rightarrow> 'a option" where
  "value_or k g d (JObj m) = (case fmlookup m k of None \<Rightarrow> Some d | Some v \<Rightarrow> g v)"
| "value_or k g d _ = None"

fun get_str :: "json \<Rightarrow> string option" where
  "get_str (JStr s) = Some s"
| "get_str _ = None"

fun get_bool :: "json \<Rightarrow> bool option" where
  "get_bool (JBool b) = Some b"
| "get_bool _ = None"

text \<open>An unsigned 64-bit number only comes from a number; the narrower types also take a truth
  value. Out of range numbers wrap.\<close>

fun get_u64 :: "json \<Rightarrow> u64 option" where
  "get_u64 (JNum n) = Some (word_of_int n)"
| "get_u64 _ = None"

fun get_word :: "json \<Rightarrow> 'w::len word option" where
  "get_word (JNum n) = Some (word_of_int n)"
| "get_word (JBool b) = Some (if b then 1 else 0)"
| "get_word _ = None"

definition num :: "'w::len word \<Rightarrow> json" where
  "num w = JNum (uint w)"

fun traverse :: "('a \<Rightarrow> 'b option) \<Rightarrow> 'a list \<Rightarrow> 'b list option" where
  "traverse f [] = Some []"
| "traverse f (x # xs) = do { y \<leftarrow> f x; ys \<leftarrow> traverse f xs; Some (y # ys) }"

fun get_list :: "(json \<Rightarrow> 'a option) \<Rightarrow> json \<Rightarrow> 'a list option" where
  "get_list g (JArr js) = traverse g js"
| "get_list g _ = None"

definition list_json :: "('a \<Rightarrow> json) \<Rightarrow> 'a list \<Rightarrow> json" where
  "list_json f xs = JArr (map f xs)"

definition set_json :: "string fset \<Rightarrow> json" where
  "set_json S = list_json JStr (sorted_list_of_fset S)"

definition get_set :: "json \<Rightarrow> string fset option" where
  "get_set j = map_option fset_of_list (get_list get_str j)"

definition map_json :: "('a \<Rightarrow> json) \<Rightarrow> (string, 'a) fmap \<Rightarrow> json" where
  "map_json f m = JObj (fmmap f m)"

fun get_map :: "(json \<Rightarrow> 'a option) \<Rightarrow> json \<Rightarrow> (string, 'a) fmap option" where
  "get_map g (JObj m) =
     (if fmpred (\<lambda>_ v. g v \<noteq> None) m then Some (fmmap (\<lambda>v. the (g v)) m) else None)"
| "get_map g _ = None"

definition num_map_json :: "(32 word, string) fmap \<Rightarrow> json" where
  "num_map_json m =
     list_json (\<lambda>(k, v). JArr [num k, JStr v]) (sorted_list_of_fmap m)"

fun get_pair :: "json \<Rightarrow> (32 word \<times> string) option" where
  "get_pair (JArr (k # v # _)) = do { a \<leftarrow> get_word k; b \<leftarrow> get_str v; Some (a, b) }"
| "get_pair _ = None"

text \<open>\<open>std::map::emplace\<close>: the first of two equal keys stays.\<close>

definition emplace :: "'k \<times> 'v \<Rightarrow> ('k, 'v) fmap \<Rightarrow> ('k, 'v) fmap" where
  "emplace p m = (if fst p |\<in>| fmdom m then m else fmupd (fst p) (snd p) m)"

definition get_num_map :: "json \<Rightarrow> (32 word, string) fmap option" where
  "get_num_map j = map_option (\<lambda>ps. fold emplace ps fmempty) (get_list get_pair j)"

section \<open>The stored records\<close>

definition verification_cache_to_json :: "verification_cache \<Rightarrow> json" where
  "verification_cache_to_json info =
     set_key ''device_blocked'' (set_json (vc_device_blocked info))
      (set_key ''device_verified'' (set_json (vc_device_verified info)) JNull)"

definition verification_cache_from_json :: "json \<Rightarrow> verification_cache option" where
  "verification_cache_from_json j = do {
     v \<leftarrow> at_key ''device_verified'' j \<bind> get_set;
     b \<leftarrow> at_key ''device_blocked'' j \<bind> get_set;
     Some \<lparr>vc_device_verified = v, vc_device_blocked = b\<rparr> }"

definition online_backup_version_to_json :: "online_backup_version \<Rightarrow> json" where
  "online_backup_version_to_json info =
     set_key ''a'' (JStr (ob_algorithm info)) (set_key ''v'' (JStr (ob_version info)) JNull)"

definition online_backup_version_from_json :: "json \<Rightarrow> online_backup_version option" where
  "online_backup_version_from_json j = do {
     v \<leftarrow> at_key ''v'' j \<bind> get_str;
     a \<leftarrow> at_key ''a'' j \<bind> get_str;
     Some \<lparr>ob_version = v, ob_algorithm = a\<rparr> }"

text \<open>The key structures inside a user's entry convert by functions of mtxclient, parameters here.\<close>

definition user_key_cache_to_json ::
    "(device_keys \<Rightarrow> json) \<Rightarrow> (cross_signing_keys \<Rightarrow> json) \<Rightarrow> user_key_cache \<Rightarrow> json" where
  "user_key_cache_to_json dk csk info =
     set_key ''last_changed'' (JStr (uk_last_changed info))
      (set_key ''updated_at'' (JStr (uk_updated_at info))
      (set_key ''self_signing_keys'' (csk (uk_self_signing_keys info))
      (set_key ''user_signing_keys'' (csk (uk_user_signing_keys info))
      (set_key ''master_key_changed'' (JBool (uk_master_key_changed info))
      (set_key ''master_keys'' (csk (uk_master_keys info))
      (set_key ''seen_device_ids'' (set_json (uk_seen_device_ids info))
      (set_key ''seen_device_keys'' (set_json (uk_seen_device_keys info))
      (set_key ''device_keys'' (map_json dk (uk_device_keys info)) JNull))))))))"

definition user_key_cache_from_json ::
    "(json \<Rightarrow> device_keys option) \<Rightarrow> (json \<Rightarrow> cross_signing_keys option) \<Rightarrow> json
      \<Rightarrow> user_key_cache option" where
  "user_key_cache_from_json dk csk j = do {
     devs \<leftarrow> value_or ''device_keys'' (get_map dk) fmempty j;
     seen_keys \<leftarrow> value_or ''seen_device_keys'' get_set {||} j;
     seen_ids \<leftarrow> value_or ''seen_device_ids'' get_set {||} j;
     master \<leftarrow> value_or ''master_keys'' csk no_cross_signing_keys j;
     changed \<leftarrow> value_or ''master_key_changed'' get_bool False j;
     user_signing \<leftarrow> value_or ''user_signing_keys'' csk no_cross_signing_keys j;
     self_signing \<leftarrow> value_or ''self_signing_keys'' csk no_cross_signing_keys j;
     updated \<leftarrow> value_or ''updated_at'' get_str [] j;
     last \<leftarrow> value_or ''last_changed'' get_str [] j;
     Some \<lparr>uk_device_keys = devs, uk_master_keys = master, uk_user_signing_keys = user_signing,
       uk_self_signing_keys = self_signing, uk_updated_at = updated, uk_last_changed = last,
       uk_master_key_changed = changed, uk_seen_device_keys = seen_keys,
       uk_seen_device_ids = seen_ids\<rparr> }"

definition megolm_session_index_to_json :: "megolm_session_index \<Rightarrow> json" where
  "megolm_session_index_to_json msg =
     set_key ''session_id'' (JStr (ms_session_id msg))
      (set_key ''room_id'' (JStr (ms_room_id msg)) JNull)"

definition megolm_session_index_from_json :: "json \<Rightarrow> megolm_session_index option" where
  "megolm_session_index_from_json j = do {
     r \<leftarrow> at_key ''room_id'' j \<bind> get_str;
     s \<leftarrow> at_key ''session_id'' j \<bind> get_str;
     Some \<lparr>ms_room_id = r, ms_session_id = s\<rparr> }"

definition stored_olm_session_to_json :: "stored_olm_session \<Rightarrow> json" where
  "stored_olm_session_to_json msg =
     set_key ''s'' (JStr (so_pickled_session msg))
      (set_key ''ts'' (num (so_last_message_ts msg)) JNull)"

definition stored_olm_session_from_json :: "json \<Rightarrow> stored_olm_session option" where
  "stored_olm_session_from_json j = do {
     t \<leftarrow> at_key ''ts'' j \<bind> get_u64;
     s \<leftarrow> at_key ''s'' j \<bind> get_str;
     Some \<lparr>so_last_message_ts = t, so_pickled_session = s\<rparr> }"

definition device_public_keys_to_json :: "device_public_keys \<Rightarrow> json" where
  "device_public_keys_to_json msg =
     set_key ''curve25519'' (JStr (dp_curve25519 msg))
      (set_key ''ed25519'' (JStr (dp_ed25519 msg)) JNull)"

definition device_public_keys_from_json :: "json \<Rightarrow> device_public_keys option" where
  "device_public_keys_from_json j = do {
     e \<leftarrow> at_key ''ed25519'' j \<bind> get_str;
     c \<leftarrow> at_key ''curve25519'' j \<bind> get_str;
     Some \<lparr>dp_ed25519 = e, dp_curve25519 = c\<rparr> }"

definition device_keys_to_msg_index_to_json :: "device_keys_to_msg_index \<Rightarrow> json" where
  "device_keys_to_msg_index_to_json msg = set_key ''deviceids'' (map_json num msg) JNull"

definition device_keys_to_msg_index_from_json :: "json \<Rightarrow> device_keys_to_msg_index option" where
  "device_keys_to_msg_index_from_json j = at_key ''deviceids'' j \<bind> get_map get_u64"

definition shared_with_users_to_json :: "shared_with_users \<Rightarrow> json" where
  "shared_with_users_to_json msg =
     set_key ''keys'' (map_json device_keys_to_msg_index_to_json msg) JNull"

definition shared_with_users_from_json :: "json \<Rightarrow> shared_with_users option" where
  "shared_with_users_from_json j =
     at_key ''keys'' j \<bind> get_map device_keys_to_msg_index_from_json"

definition group_session_data_to_json :: "group_session_data \<Rightarrow> json" where
  "group_session_data_to_json msg =
     set_key ''indices'' (num_map_json (gs_indices msg))
      (set_key ''currently'' (shared_with_users_to_json (gs_currently msg))
      (set_key ''forwarding_curve25519_key_chain''
         (list_json JStr (gs_forwarding_curve25519_key_chain msg))
      (set_key ''sender_claimed_ed25519_key'' (JStr (gs_sender_claimed_ed25519_key msg))
      (set_key ''sender_key'' (JStr (gs_sender_key msg))
      (set_key ''trust'' (JBool (gs_trusted msg))
      (set_key ''ts'' (num (gs_timestamp msg))
      (set_key ''message_index'' (num (gs_message_index msg)) JNull)))))))"

definition group_session_data_from_json :: "json \<Rightarrow> group_session_data option" where
  "group_session_data_from_json j = do {
     i \<leftarrow> at_key ''message_index'' j \<bind> get_u64;
     t \<leftarrow> value_or ''ts'' get_u64 0 j;
     trust \<leftarrow> value_or ''trust'' get_bool True j;
     sk \<leftarrow> value_or ''sender_key'' get_str [] j;
     ed \<leftarrow> value_or ''sender_claimed_ed25519_key'' get_str [] j;
     chain \<leftarrow> value_or ''forwarding_curve25519_key_chain'' (get_list get_str) [] j;
     cur \<leftarrow> value_or ''currently'' shared_with_users_from_json fmempty j;
     ind \<leftarrow> value_or ''indices'' get_num_map fmempty j;
     Some \<lparr>gs_message_index = i, gs_timestamp = t, gs_trusted = trust, gs_sender_key = sk,
       gs_sender_claimed_ed25519_key = ed, gs_forwarding_curve25519_key_chain = chain,
       gs_indices = ind, gs_currently = cur\<rparr> }"

section \<open>Rooms, members and receipts\<close>

record read_receipt_key =
  rk_event_id :: string
  rk_room_id :: string

definition read_receipt_key_to_json :: "read_receipt_key \<Rightarrow> json" where
  "read_receipt_key_to_json key =
     JObj (fmap_of_list [(''event_id'', JStr (rk_event_id key)), (''room_id'', JStr (rk_room_id key))])"

definition read_receipt_key_from_json :: "json \<Rightarrow> read_receipt_key option" where
  "read_receipt_key_from_json j = do {
     e \<leftarrow> at_key ''event_id'' j \<bind> get_str;
     r \<leftarrow> at_key ''room_id'' j \<bind> get_str;
     Some \<lparr>rk_event_id = e, rk_room_id = r\<rparr> }"

record member_info =
  mi_name :: string
  mi_avatar_url :: string
  mi_is_direct :: bool

definition member_info_to_json :: "member_info \<Rightarrow> json" where
  "member_info_to_json info =
     (let j = set_key ''avatar_url'' (JStr (mi_avatar_url info))
                (set_key ''name'' (JStr (mi_name info)) JNull)
      in if mi_is_direct info then set_key ''is_direct'' (JBool (mi_is_direct info)) j else j)"

definition member_info_from_json :: "json \<Rightarrow> member_info option" where
  "member_info_from_json j = do {
     n \<leftarrow> at_key ''name'' j \<bind> get_str;
     a \<leftarrow> at_key ''avatar_url'' j \<bind> get_str;
     d \<leftarrow> value_or ''is_direct'' get_bool False j;
     Some \<lparr>mi_name = n, mi_avatar_url = a, mi_is_direct = d\<rparr> }"

text \<open>The join rule is a type of mtxclient, with its conversions as parameters.\<close>

record 'j room_info =
  ri_name :: string
  ri_topic :: string
  ri_avatar_url :: string
  ri_version :: string
  ri_is_invite :: bool
  ri_is_space :: bool
  ri_member_count :: u64
  ri_join_rule :: 'j
  ri_guest_access :: bool
  ri_tags :: "string list"
  ri_approximate_last_modification_ts :: u64
  ri_highlight_count :: "16 word"
  ri_notification_count :: "16 word"

definition room_info_to_json :: "('j \<Rightarrow> json) \<Rightarrow> 'j room_info \<Rightarrow> json" where
  "room_info_to_json jr info =
     (let j = set_key ''highlight_count'' (num (ri_highlight_count info))
               (set_key ''notification_count'' (num (ri_notification_count info))
               (set_key ''app_l_ts'' (num (ri_approximate_last_modification_ts info))
               (set_key ''guest_access'' (JBool (ri_guest_access info))
               (set_key ''join_rule'' (jr (ri_join_rule info))
               (set_key ''is_space'' (JBool (ri_is_space info))
               (set_key ''is_invite'' (JBool (ri_is_invite info))
               (set_key ''version'' (JStr (ri_version info))
               (set_key ''avatar_url'' (JStr (ri_avatar_url info))
               (set_key ''topic'' (JStr (ri_topic info))
               (set_key ''name'' (JStr (ri_name info)) JNull))))))))));
          j = (if ri_member_count info \<noteq> 0 then set_key ''member_count'' (num (ri_member_count info)) j
               else j)
      in if ri_tags info \<noteq> [] then set_key ''tags'' (list_json JStr (ri_tags info)) j else j)"

definition repaired_ts :: "u64 \<Rightarrow> u64" where
  "repaired_ts t = (if t < 100000000000 then 0 else t)"

definition room_info_from_json ::
    "(json \<Rightarrow> 'j option) \<Rightarrow> string \<Rightarrow> json \<Rightarrow> 'j room_info option" where
  "room_info_from_json jr no_version j = do {
     name \<leftarrow> at_key ''name'' j \<bind> get_str;
     topic \<leftarrow> at_key ''topic'' j \<bind> get_str;
     avatar \<leftarrow> at_key ''avatar_url'' j \<bind> get_str;
     version \<leftarrow> value_or ''version'' get_str no_version j;
     invite \<leftarrow> at_key ''is_invite'' j \<bind> get_bool;
     space \<leftarrow> value_or ''is_space'' get_bool False j;
     rule \<leftarrow> at_key ''join_rule'' j \<bind> jr;
     guest \<leftarrow> at_key ''guest_access'' j \<bind> get_bool;
     ts \<leftarrow> value_or ''app_l_ts'' get_u64 0 j;
     notifications \<leftarrow> value_or ''notification_count'' get_word 0 j;
     highlights \<leftarrow> value_or ''highlight_count'' get_word 0 j;
     count \<leftarrow> (if has_key ''member_count'' j then at_key ''member_count'' j \<bind> get_u64 else Some 0);
     tags \<leftarrow> (if has_key ''tags'' j then at_key ''tags'' j \<bind> get_list get_str else Some []);
     Some \<lparr>ri_name = name, ri_topic = topic, ri_avatar_url = avatar, ri_version = version,
       ri_is_invite = invite, ri_is_space = space, ri_member_count = count, ri_join_rule = rule,
       ri_guest_access = guest, ri_tags = tags, ri_approximate_last_modification_ts = repaired_ts ts,
       ri_highlight_count = highlights, ri_notification_count = notifications\<rparr> }"

section \<open>Reading what was written\<close>

named_theorems json_simps "reading back the pieces of a written value"

lemma at_key_set_key [json_simps]:
  "at_key k (set_key k' v j) = (if k = k' then Some v else at_key k j)"
  by (cases j) auto

lemma at_key_JNull [json_simps]: "at_key k JNull = None"
  by simp

lemma is_object_set_key: "\<exists>m. set_key k v j = JObj m"
  by (cases j) auto

lemma value_or_set_key [json_simps]:
  "value_or k g d (set_key k' v j) =
     (if k = k' then g v else if j = JNull then Some d else
       (case at_key k (set_key k' v j) of None \<Rightarrow> Some d | Some w \<Rightarrow> g w))"
  by (cases j) auto

lemma set_key_not_null [simp]: "set_key k v j \<noteq> JNull"
  by (cases j) auto

lemma has_key_at_key [json_simps]: "has_key k j = (at_key k j \<noteq> None)"
  by (cases j) auto

lemma get_num [json_simps]:
  "get_u64 (num t) = Some t" "get_word (num w) = Some w"
  by (simp_all add: num_def)

lemma traverse_map: "(\<And>x. x \<in> set xs \<Longrightarrow> g (f x) = Some x) \<Longrightarrow> traverse g (map f xs) = Some xs"
  by (induction xs) auto

lemma get_list_json [json_simps]:
  "(\<And>x. x \<in> set xs \<Longrightarrow> g (f x) = Some x) \<Longrightarrow> get_list g (list_json f xs) = Some xs"
  by (simp add: list_json_def traverse_map)

lemma get_set_json [json_simps]: "get_set (set_json S) = Some S"
proof -
  have "fset_of_list (sorted_list_of_fset S) = S"
    by (metis fset_of_list.rep_eq fset_inject sorted_list_of_fset_simps(1))
  then show ?thesis by (simp add: get_set_def set_json_def get_list_json)
qed

lemma get_map_json [json_simps]:
  assumes "\<And>x. x \<in> fmran' m \<Longrightarrow> g (f x) = Some x"
  shows "get_map g (map_json f m) = Some m"
proof -
  have 1: "g (f v) = Some v" if "fmlookup m k = Some v" for k v
    using assms that by (metis fmran'I)
  then have "fmpred (\<lambda>_ v. g v \<noteq> None) (fmmap f m)"
    by (auto simp: fmpred_iff)
  moreover have "fmmap (\<lambda>v. the (g v)) (fmmap f m) = m"
    using 1 by (intro fmap_ext) (auto simp: map_option_case split: option.splits)
  ultimately show ?thesis by (simp add: map_json_def)
qed

lemma fold_emplace_lookup:
  "distinct (map fst ps) \<Longrightarrow> fst ` set ps \<inter> fset (fmdom m) = {} \<Longrightarrow>
   fmlookup (fold emplace ps m) k = (case map_of ps k of None \<Rightarrow> fmlookup m k | Some v \<Rightarrow> Some v)"
proof (induction ps arbitrary: m)
  case Nil
  then show ?case by simp
next
  case (Cons p ps)
  obtain a b where p: "p = (a, b)" by (cases p)
  have "a |\<notin>| fmdom m" using Cons.prems p by auto
  then have m: "emplace p m = fmupd a b m" by (simp add: emplace_def p)
  have "map_of ps a = None" using Cons.prems p by (simp add: map_of_eq_None_iff)
  moreover have "fst ` set ps \<inter> fset (fmdom (fmupd a b m)) = {}"
    using Cons.prems p by auto
  ultimately show ?case using Cons.IH [of "fmupd a b m"] Cons.prems p
    by (auto simp: m [unfolded p] split: option.splits)
qed

lemma fold_emplace_sorted: "fold emplace (sorted_list_of_fmap m) fmempty = m"
proof (intro fmap_ext)
  fix k
  have "map_of (sorted_list_of_fmap m) k = fmlookup m k"
  proof (cases "fmlookup m k")
    case None
    then show ?thesis by (force simp: map_of_eq_None_iff)
  next
    case (Some v)
    then have "(k, v) \<in> set (sorted_list_of_fmap m)" by simp
    then show ?thesis using Some distinct_sorted_list_of_fmap by simp
  qed
  then show "fmlookup (fold emplace (sorted_list_of_fmap m) fmempty) k = fmlookup m k"
    by (subst fold_emplace_lookup) (auto simp: distinct_sorted_list_of_fmap split: option.splits)
qed

lemma get_num_map_json [json_simps]: "get_num_map (num_map_json m) = Some m"
proof -
  have "get_list get_pair (num_map_json m) = Some (sorted_list_of_fmap m)"
    unfolding num_map_json_def by (rule get_list_json) (auto simp: get_num)
  then show ?thesis by (simp add: get_num_map_def fold_emplace_sorted)
qed

lemma get_str_bool [json_simps]: "get_str (JStr s) = Some s" "get_bool (JBool b) = Some b"
  by simp_all

declare set_key.simps [simp del] at_key.simps(1) [simp del] get_map.simps [simp del]
declare value_or.simps [simp del] has_key.simps [simp del]

lemma verification_cache_read_back [json_simps]:
  "verification_cache_from_json (verification_cache_to_json v) = Some v"
  by (simp add: verification_cache_from_json_def verification_cache_to_json_def json_simps)

lemma online_backup_version_read_back [json_simps]:
  "online_backup_version_from_json (online_backup_version_to_json v) = Some v"
  by (simp add: online_backup_version_from_json_def online_backup_version_to_json_def json_simps)

lemma megolm_session_index_read_back [json_simps]:
  "megolm_session_index_from_json (megolm_session_index_to_json v) = Some v"
  by (simp add: megolm_session_index_from_json_def megolm_session_index_to_json_def json_simps)

lemma stored_olm_session_read_back [json_simps]:
  "stored_olm_session_from_json (stored_olm_session_to_json v) = Some v"
  by (simp add: stored_olm_session_from_json_def stored_olm_session_to_json_def json_simps)

lemma device_public_keys_read_back [json_simps]:
  "device_public_keys_from_json (device_public_keys_to_json v) = Some v"
  by (simp add: device_public_keys_from_json_def device_public_keys_to_json_def json_simps)

lemma device_keys_to_msg_index_read_back [json_simps]:
  "device_keys_to_msg_index_from_json (device_keys_to_msg_index_to_json v) = Some v"
  by (simp add: device_keys_to_msg_index_from_json_def device_keys_to_msg_index_to_json_def
      json_simps)

lemma shared_with_users_read_back [json_simps]:
  "shared_with_users_from_json (shared_with_users_to_json v) = Some v"
  by (simp add: shared_with_users_from_json_def shared_with_users_to_json_def
      json_simps)

lemma group_session_data_read_back [json_simps]:
  "group_session_data_from_json (group_session_data_to_json v) = Some v"
  by (simp add: group_session_data_from_json_def group_session_data_to_json_def
      json_simps)

lemma user_key_cache_read_back [json_simps]:
  assumes "\<And>d. dkr (dk d) = Some d" "\<And>c. cskr (csk c) = Some c"
  shows "user_key_cache_from_json dkr cskr (user_key_cache_to_json dk csk v) = Some v"
  by (simp add: user_key_cache_from_json_def user_key_cache_to_json_def assms
      json_simps)

lemma read_receipt_key_read_back [json_simps]:
  "read_receipt_key_from_json (read_receipt_key_to_json v) = Some v"
  by (simp add: read_receipt_key_from_json_def read_receipt_key_to_json_def at_key.simps)

lemma member_info_read_back [json_simps]:
  "member_info_from_json (member_info_to_json v) = Some v"
  by (cases "mi_is_direct v") (simp_all add: member_info_from_json_def member_info_to_json_def
      json_simps)

lemma room_info_read_back [json_simps]:
  assumes "\<And>x. jrr (jr x) = Some x"
  shows "room_info_from_json jrr no_version (room_info_to_json jr v) =
         Some (v\<lparr>ri_approximate_last_modification_ts := repaired_ts (ri_approximate_last_modification_ts v)\<rparr>)"
  by (cases "ri_member_count v = 0"; cases "ri_tags v = []")
   (simp_all add: room_info_from_json_def room_info_to_json_def Let_def assms json_simps)

section \<open>Properties\<close>

text \<open>Each record of the cache reads back from the JSON it is stored as, field by field: trust
marks, backup versions, session indices, Olm sessions, device keys, group session data with its
replay indices and key shares, receipts and members.\<close>

theorem stored_records_read_back:
  "verification_cache_from_json (verification_cache_to_json vc) = Some vc \<and>
   online_backup_version_from_json (online_backup_version_to_json ob) = Some ob \<and>
   megolm_session_index_from_json (megolm_session_index_to_json ms) = Some ms \<and>
   stored_olm_session_from_json (stored_olm_session_to_json so) = Some so \<and>
   device_public_keys_from_json (device_public_keys_to_json dp) = Some dp \<and>
   shared_with_users_from_json (shared_with_users_to_json sw) = Some sw \<and>
   group_session_data_from_json (group_session_data_to_json gs) = Some gs \<and>
   read_receipt_key_from_json (read_receipt_key_to_json rk) = Some rk \<and>
   member_info_from_json (member_info_to_json mi) = Some mi"
  by (simp add: json_simps)

text \<open>A room's summary reads back from its JSON with every field as written except a
modification time before the year 1973, which is repaired to zero; what was read once is stable
under further writes and reads.\<close>

theorem room_info_reads_back_repaired:
  assumes "\<And>x. join_rule_from (join_rule_to x) = Some x"
  shows "room_info_from_json join_rule_from no_version (room_info_to_json join_rule_to info) =
      Some (info\<lparr>ri_approximate_last_modification_ts :=
        (if ri_approximate_last_modification_ts info < 100000000000 then 0
         else ri_approximate_last_modification_ts info)\<rparr>)
    \<and> room_info_from_json join_rule_from no_version (room_info_to_json join_rule_to
        (info\<lparr>ri_approximate_last_modification_ts :=
          repaired_ts (ri_approximate_last_modification_ts info)\<rparr>)) =
      room_info_from_json join_rule_from no_version (room_info_to_json join_rule_to info)"
  using assms by (simp add: room_info_read_back repaired_ts_def)

text \<open>A room whose time predates the repair bound.\<close>

definition demo_room_info :: "string room_info" where
  "demo_room_info =
     \<lparr>ri_name = ''room'', ri_topic = [], ri_avatar_url = [], ri_version = ''9'', ri_is_invite = False,
      ri_is_space = True, ri_member_count = 3, ri_join_rule = ''invite'', ri_guest_access = True,
      ri_tags = [''m.favourite''], ri_approximate_last_modification_ts = 5,
      ri_highlight_count = 1, ri_notification_count = 7\<rparr>"

lemma room_info_reads_back_repaired_witness:
  "room_info_from_json get_str ''none'' (room_info_to_json JStr demo_room_info) =
   Some (demo_room_info\<lparr>ri_approximate_last_modification_ts := 0\<rparr>)"
proof -
  have "get_str (JStr x) = Some x" for x by simp
  from room_info_reads_back_repaired [of get_str JStr "''none''" demo_room_info, OF this]
  show ?thesis by (simp add: demo_room_info_def)
qed

text \<open>Entries that older versions wrote still read: group session data without the fields added
later gets their defaults, and so counts as trusted; without a message index the entry is an error.\<close>

theorem old_group_session_data_reads_as_trusted:
  "group_session_data_from_json (JObj (fmap_of_list [(''message_index'', JNum n)])) =
     Some (new_group_session_data\<lparr>gs_message_index := word_of_int n\<rparr>) \<and>
   gs_trusted new_group_session_data \<and>
   group_session_data_from_json (set_key k v JNull) =
     (if k = ''message_index'' then map_option (\<lambda>i. new_group_session_data\<lparr>gs_message_index := i\<rparr>) (get_u64 v)
      else None)"
  by (cases "get_u64 v") (auto simp: group_session_data_from_json_def new_group_session_data_def
      set_key.simps at_key.simps value_or.simps)

end
