(* ===== verification/Session_Store.thy ===== *)
theory Session_Store
  imports Cache_Json
begin

text \<open>
  The session and secret part of \<open>src/src/Cache.cpp\<close>: inbound and outbound Megolm sessions with
  their data, key export and import, Olm sessions, the sync state entries, the secret storage and
  the settings behind it (\<open>src/src/UserSettings.cpp\<close>).

  A session is stored as its pickle under the pickle secret. The functions of libolm and mtxclient
  on sessions are the fields of \<open>olm_lib\<close>; \<open>lib_ok\<close> is what their documentation promises. The text
  of a JSON key is \<open>lib_dump\<close>; values stay JSON values. A database exception is \<open>None\<close>, and
  rolls back.
\<close>

section \<open>State\<close>

record ('i, 'g, 'o) olm_lib =
  lib_pickle_in :: "string \<Rightarrow> 'i \<Rightarrow> string"
  lib_unpickle_in :: "string \<Rightarrow> string \<Rightarrow> 'i option"
  lib_first_known_index :: "'i \<Rightarrow> 32 word"
  lib_export_session :: "'i \<Rightarrow> string"
  lib_import_session :: "string \<Rightarrow> 'i option"
  lib_pickle_out :: "string \<Rightarrow> 'g \<Rightarrow> string"
  lib_unpickle_out :: "string \<Rightarrow> string \<Rightarrow> 'g option"
  lib_message_index :: "'g \<Rightarrow> 32 word"
  lib_out_session_id :: "'g \<Rightarrow> string"
  lib_pickle_olm :: "string \<Rightarrow> 'o \<Rightarrow> string"
  lib_unpickle_olm :: "string \<Rightarrow> string \<Rightarrow> 'o option"
  lib_olm_session_id :: "'o \<Rightarrow> string"
  lib_dump :: "json \<Rightarrow> string"
  lib_parse :: "string \<Rightarrow> json option"

text \<open>Unpickling under the secret a session was pickled with gives it back; an exported session
  imports at the index it was exported at; the text of a session index parses to it.\<close>

definition lib_ok :: "('i, 'g, 'o) olm_lib \<Rightarrow> bool" where
  "lib_ok lib \<longleftrightarrow>
     (\<forall>k x. lib_unpickle_in lib k (lib_pickle_in lib k x) = Some x) \<and>
     (\<forall>k x. lib_unpickle_out lib k (lib_pickle_out lib k x) = Some x) \<and>
     (\<forall>k x. lib_unpickle_olm lib k (lib_pickle_olm lib k x) = Some x) \<and>
     (\<forall>x. \<exists>y. lib_import_session lib (lib_export_session lib x) = Some y \<and>
        lib_first_known_index lib y = lib_first_known_index lib x) \<and>
     (\<forall>i. lib_parse lib (lib_dump lib (megolm_session_index_to_json i)) =
        Some (megolm_session_index_to_json i))"

record settings =
  us_map :: "(string, string) fmap"
  us_saved :: "(string, string) fmap"

datatype session_effect =
    SecretChanged string
  | ReceivedSessionKey string string

record session_store =
  ss_inbound :: "(string, string) table"
  ss_session_data :: "(string, json) table"
  ss_outbound :: "(string, json) table"
  ss_olm_sessions :: "(string, (string, json) table) fmap"
  ss_encrypted_rooms :: "(string, string) table"
  ss_rooms :: "(string, json) table"
  ss_invites :: "(string, json) table"
  ss_states :: "(string, (string, json) table) fmap"
  ss_account_data :: "(string, (string, json) table) fmap"
  ss_members :: "(string, (string, json) table) fmap"
  ss_invite_states :: "(string, (string, json) table) fmap"
  ss_invite_members :: "(string, (string, json) table) fmap"
  ss_olm_account :: "string option"
  ss_backup :: "json option"
  ss_next_batch :: "string option"
  ss_format :: "string option"
  ss_secrets :: "(string, string) fmap"
  ss_settings :: settings
  ss_pickle_secret :: string
  ss_open :: bool
  ss_ready :: bool
  ss_effects :: "session_effect list"

definition new_session_store :: session_store where
  "new_session_store =
     \<lparr>ss_inbound = fmempty, ss_session_data = fmempty, ss_outbound = fmempty,
      ss_olm_sessions = fmempty, ss_encrypted_rooms = fmempty, ss_rooms = fmempty,
      ss_invites = fmempty, ss_states = fmempty, ss_account_data = fmempty, ss_members = fmempty,
      ss_invite_states = fmempty, ss_invite_members = fmempty, ss_olm_account = None,
      ss_backup = None, ss_next_batch = None, ss_format = None, ss_secrets = fmempty,
      ss_settings = \<lparr>us_map = fmempty, us_saved = fmempty\<rparr>, ss_pickle_secret = [],
      ss_open = True, ss_ready = False, ss_effects = []\<rparr>"

definition sub_table :: "'k \<Rightarrow> ('k, ('a, 'b) fmap) fmap \<Rightarrow> ('a, 'b) fmap" where
  "sub_table k m = (case fmlookup m k of None \<Rightarrow> fmempty | Some t \<Rightarrow> t)"

section \<open>Settings and secrets\<close>

text \<open>\<open>operator[]\<close> of a \<open>QMap\<close> makes an empty entry where there is none.\<close>

definition us_touch :: "string \<Rightarrow> settings \<Rightarrow> settings" where
  "us_touch key u = (if key |\<in>| fmdom (us_map u) then u else u\<lparr>us_map := fmupd key [] (us_map u)\<rparr>)"

definition us_at :: "string \<Rightarrow> settings \<Rightarrow> string" where
  "us_at key u = (case fmlookup (us_map u) key of None \<Rightarrow> [] | Some v \<Rightarrow> v)"

definition us_save :: "settings \<Rightarrow> settings" where
  "us_save u = u\<lparr>us_saved := us_saved u ++\<^sub>f us_map u\<rparr>"

definition us_load :: "settings \<Rightarrow> settings" where
  "us_load u = u\<lparr>us_map := us_saved u\<rparr>"

definition us_storeSecret :: "string \<Rightarrow> string \<Rightarrow> settings \<Rightarrow> settings" where
  "us_storeSecret key v u =
     (if us_at key u = v then us_touch key u
      else us_save (u\<lparr>us_map := fmupd key v (us_map u)\<rparr>))"

definition us_deleteSecret :: "string \<Rightarrow> settings \<Rightarrow> settings" where
  "us_deleteSecret key u =
     us_save (u\<lparr>us_map := fmdrop key (us_map u), us_saved := fmdrop key (us_saved u)\<rparr>)"

definition secretName :: "string \<Rightarrow> bool \<Rightarrow> string" where
  "secretName name internal = (if internal then ''mtx_lib.'' else ''matrix.'') @ name"

fun loadSecrets :: "(string \<times> bool) list \<Rightarrow> session_store \<Rightarrow> session_store" where
  "loadSecrets [] s = s\<lparr>ss_ready := True\<rparr>"
| "loadSecrets ((name, internal) # rest) s =
     (let key = secretName name internal;
          v = us_at key (ss_settings s);
          s = s\<lparr>ss_settings := us_touch key (ss_settings s)\<rparr>
      in loadSecrets rest (if v = [] then s else s\<lparr>ss_secrets := fmupd key v (ss_secrets s)\<rparr>))"

definition secret :: "string \<Rightarrow> bool \<Rightarrow> session_store \<Rightarrow> string option" where
  "secret name internal s = fmlookup (ss_secrets s) (secretName name internal)"

definition storeSecret :: "string \<Rightarrow> string \<Rightarrow> bool \<Rightarrow> session_store \<Rightarrow> session_store" where
  "storeSecret name v internal s =
     (let key = secretName name internal
      in s\<lparr>ss_secrets := fmupd key v (ss_secrets s),
           ss_settings := us_storeSecret key v (ss_settings s),
           ss_effects := ss_effects s @ [SecretChanged name]\<rparr>)"

definition deleteSecret :: "string \<Rightarrow> bool \<Rightarrow> session_store \<Rightarrow> session_store" where
  "deleteSecret name internal s =
     (let key = secretName name internal
      in s\<lparr>ss_secrets := fmdrop key (ss_secrets s),
           ss_settings := us_deleteSecret key (ss_settings s),
           ss_effects := ss_effects s @ [SecretChanged name]\<rparr>)"

text \<open>The random token is an argument.\<close>

definition pickleSecret :: "string \<Rightarrow> session_store \<Rightarrow> session_store \<times> string" where
  "pickleSecret token s =
     (if ss_pickle_secret s = [] then
        case secret ''pickle_secret'' True s of
          None \<Rightarrow> (storeSecret ''pickle_secret'' token True (s\<lparr>ss_pickle_secret := token\<rparr>), token)
        | Some v \<Rightarrow> (s\<lparr>ss_pickle_secret := v\<rparr>, v)
      else (s, ss_pickle_secret s))"

section \<open>Encrypted rooms\<close>

definition setEncryptedRoom :: "string \<Rightarrow> session_store \<Rightarrow> session_store" where
  "setEncryptedRoom room_id s = s\<lparr>ss_encrypted_rooms := fmupd room_id ''0'' (ss_encrypted_rooms s)\<rparr>"

definition isRoomEncrypted :: "string \<Rightarrow> session_store \<Rightarrow> bool" where
  "isRoomEncrypted room_id s = (fmlookup (ss_encrypted_rooms s) room_id \<noteq> None)"

text \<open>Reading an event's content is mtxclient's. A room without a state table is a database
  error, which is caught.\<close>

definition roomEncryptionSettings ::
    "(json \<Rightarrow> 'e option) \<Rightarrow> 'e \<Rightarrow> string \<Rightarrow> session_store \<Rightarrow> 'e option" where
  "roomEncryptionSettings content fallback room_id s =
     (case fmlookup (ss_states s) room_id of
        None \<Rightarrow> None
      | Some statesdb \<Rightarrow>
          (case fmlookup statesdb ''m.room.encryption'' of
             None \<Rightarrow> None
           | Some event \<Rightarrow>
               (case content event of Some c \<Rightarrow> Some c | None \<Rightarrow> Some fallback)))"

section \<open>Inbound Megolm sessions\<close>

definition key_text :: "('i, 'g, 'o) olm_lib \<Rightarrow> megolm_session_index \<Rightarrow> string" where
  "key_text lib index = lib_dump lib (megolm_session_index_to_json index)"

definition put_inbound ::
    "('i, 'g, 'o) olm_lib \<Rightarrow> megolm_session_index \<Rightarrow> 'i \<Rightarrow> group_session_data
      \<Rightarrow> session_store \<Rightarrow> session_store" where
  "put_inbound lib index session data s =
     (let key = key_text lib index
      in s\<lparr>ss_inbound := fmupd key (lib_pickle_in lib (ss_pickle_secret s) session) (ss_inbound s),
           ss_session_data := fmupd key (group_session_data_to_json data) (ss_session_data s)\<rparr>)"

definition saveInboundMegolmSession ::
    "('i, 'g, 'o) olm_lib \<Rightarrow> megolm_session_index \<Rightarrow> 'i \<Rightarrow> group_session_data
      \<Rightarrow> session_store \<Rightarrow> session_store option" where
  "saveInboundMegolmSession lib index session data s =
     (case fmlookup (ss_inbound s) (key_text lib index) of
        None \<Rightarrow> Some (put_inbound lib index session data s)
      | Some value \<Rightarrow>
          (case lib_unpickle_in lib (ss_pickle_secret s) value of
             None \<Rightarrow> None
           | Some old \<Rightarrow>
               if lib_first_known_index lib session > lib_first_known_index lib old then Some s
               else Some (put_inbound lib index session data s)))"

definition getInboundMegolmSession ::
    "('i, 'g, 'o) olm_lib \<Rightarrow> megolm_session_index \<Rightarrow> session_store \<Rightarrow> 'i option" where
  "getInboundMegolmSession lib index s =
     (case fmlookup (ss_inbound s) (key_text lib index) of
        None \<Rightarrow> None
      | Some value \<Rightarrow> lib_unpickle_in lib (ss_pickle_secret s) value)"

definition inboundMegolmSessionExists ::
    "('i, 'g, 'o) olm_lib \<Rightarrow> megolm_session_index \<Rightarrow> session_store \<Rightarrow> bool" where
  "inboundMegolmSessionExists lib index s = (fmlookup (ss_inbound s) (key_text lib index) \<noteq> None)"

definition getMegolmSessionData ::
    "('i, 'g, 'o) olm_lib \<Rightarrow> megolm_session_index \<Rightarrow> session_store \<Rightarrow> group_session_data option" where
  "getMegolmSessionData lib index s =
     (case fmlookup (ss_session_data s) (key_text lib index) of
        None \<Rightarrow> None
      | Some j \<Rightarrow> group_session_data_from_json j)"

section \<open>Key export and import\<close>

record exported_session =
  es_room_id :: string
  es_session_id :: string
  es_session_key :: string
  es_sender_key :: string
  es_sender_claimed_keys :: "(string, string) fmap"
  es_forwarding_curve25519_key_chain :: "string list"

text \<open>One entry of the export: \<open>None\<close> is an exception that ends it, \<open>Some None\<close> a skipped
  entry.\<close>

definition export_entry ::
    "('i, 'g, 'o) olm_lib \<Rightarrow> session_store \<Rightarrow> string \<times> string \<Rightarrow> exported_session option option" where
  "export_entry lib s entry =
     (case lib_unpickle_in lib (ss_pickle_secret s) (snd entry) of
        None \<Rightarrow> None
      | Some saved \<Rightarrow>
          (case lib_parse lib (fst entry) \<bind> megolm_session_index_from_json of
             None \<Rightarrow> Some None
           | Some index \<Rightarrow>
               (case fmlookup (ss_session_data s) (key_text lib index) of
                  None \<Rightarrow> Some None
                | Some v \<Rightarrow>
                    (case group_session_data_from_json v of
                       None \<Rightarrow> Some None
                     | Some data \<Rightarrow>
                         Some (Some
                           \<lparr>es_room_id = ms_room_id index, es_session_id = ms_session_id index,
                            es_session_key = lib_export_session lib saved,
                            es_sender_key = gs_sender_key data,
                            es_sender_claimed_keys =
                              (if gs_sender_claimed_ed25519_key data \<noteq> []
                               then fmap_of_list [(''ed25519'', gs_sender_claimed_ed25519_key data)]
                               else fmempty),
                            es_forwarding_curve25519_key_chain =
                              gs_forwarding_curve25519_key_chain data\<rparr>)))))"

fun export_entries ::
    "('i, 'g, 'o) olm_lib \<Rightarrow> session_store \<Rightarrow> (string \<times> string) list \<Rightarrow> exported_session list option" where
  "export_entries lib s [] = Some []"
| "export_entries lib s (e # es) =
     (case export_entry lib s e of
        None \<Rightarrow> None
      | Some r \<Rightarrow> map_option (\<lambda>xs. case r of None \<Rightarrow> xs | Some x \<Rightarrow> x # xs) (export_entries lib s es))"

definition exportSessionKeys ::
    "('i, 'g, 'o) olm_lib \<Rightarrow> session_store \<Rightarrow> exported_session list option" where
  "exportSessionKeys lib s = export_entries lib s (sorted_list_of_fmap (ss_inbound s))"

definition imported_index :: "exported_session \<Rightarrow> megolm_session_index" where
  "imported_index e = \<lparr>ms_room_id = es_room_id e, ms_session_id = es_session_id e\<rparr>"

definition imported_data :: "exported_session \<Rightarrow> group_session_data" where
  "imported_data e =
     new_group_session_data
       \<lparr>gs_sender_key := es_sender_key e,
        gs_forwarding_curve25519_key_chain := es_forwarding_curve25519_key_chain e,
        gs_trusted := False,
        gs_sender_claimed_ed25519_key :=
          (case fmlookup (es_sender_claimed_keys e) ''ed25519'' of None \<Rightarrow> [] | Some k \<Rightarrow> k)\<rparr>"

text \<open>One imported key; its exceptions are caught and leave the store as it was.\<close>

definition import_one ::
    "('i, 'g, 'o) olm_lib \<Rightarrow> exported_session \<Rightarrow> session_store \<Rightarrow> session_store" where
  "import_one lib e s =
     (let index = imported_index e;
          store = (\<lambda>session. (put_inbound lib index session (imported_data e) s)
            \<lparr>ss_effects := ss_effects s @ [ReceivedSessionKey (es_room_id e) (es_session_id e)]\<rparr>)
      in case lib_import_session lib (es_session_key e) of
           None \<Rightarrow> s
         | Some session \<Rightarrow>
             (case fmlookup (ss_inbound s) (key_text lib index) of
                None \<Rightarrow> store session
              | Some value \<Rightarrow>
                  (case lib_unpickle_in lib (ss_pickle_secret s) value of
                     None \<Rightarrow> s
                   | Some old \<Rightarrow>
                       if lib_first_known_index lib session \<ge> lib_first_known_index lib old then s
                       else store session)))"

definition importSessionKeys ::
    "('i, 'g, 'o) olm_lib \<Rightarrow> exported_session list \<Rightarrow> session_store \<Rightarrow> session_store" where
  "importSessionKeys lib keys s = fold (import_one lib) keys s"

section \<open>Outbound Megolm sessions\<close>

definition outboundMegolmSessionExists :: "string \<Rightarrow> session_store \<Rightarrow> bool" where
  "outboundMegolmSessionExists room_id s = (fmlookup (ss_outbound s) room_id \<noteq> None)"

definition saveOutboundMegolmSession ::
    "('i, 'g, 'o) olm_lib \<Rightarrow> string \<Rightarrow> group_session_data \<Rightarrow> 'g \<Rightarrow> session_store \<Rightarrow> session_store" where
  "saveOutboundMegolmSession lib room_id data session s =
     (let data = data\<lparr>gs_message_index := ucast (lib_message_index lib session)\<rparr>;
          index = \<lparr>ms_room_id = room_id, ms_session_id = lib_out_session_id lib session\<rparr>;
          j = set_key ''session'' (JStr (lib_pickle_out lib (ss_pickle_secret s) session)) JNull
      in s\<lparr>ss_outbound := fmupd room_id j (ss_outbound s),
           ss_session_data :=
             fmupd (key_text lib index) (group_session_data_to_json data) (ss_session_data s)\<rparr>)"

definition updateOutboundMegolmSession ::
    "('i, 'g, 'o) olm_lib \<Rightarrow> string \<Rightarrow> group_session_data \<Rightarrow> 'g \<Rightarrow> session_store \<Rightarrow> session_store" where
  "updateOutboundMegolmSession lib room_id data session s =
     (if \<not> outboundMegolmSessionExists room_id s then s
      else
        (let data = data\<lparr>gs_message_index := ucast (lib_message_index lib session)\<rparr>;
             index = \<lparr>ms_room_id = room_id, ms_session_id = lib_out_session_id lib session\<rparr>;
             j = set_key ''session'' (JStr (lib_pickle_out lib (ss_pickle_secret s) session)) JNull
         in s\<lparr>ss_outbound := fmupd room_id j (ss_outbound s),
              ss_session_data :=
                fmupd (key_text lib index) (group_session_data_to_json data) (ss_session_data s)\<rparr>))"

definition dropOutboundMegolmSession :: "string \<Rightarrow> session_store \<Rightarrow> session_store" where
  "dropOutboundMegolmSession room_id s =
     (if \<not> outboundMegolmSessionExists room_id s then s
      else s\<lparr>ss_outbound := fmdrop room_id (ss_outbound s)\<rparr>)"

text \<open>An exception gives the empty reference: no session and fresh data.\<close>

definition getOutboundMegolmSession ::
    "('i, 'g, 'o) olm_lib \<Rightarrow> string \<Rightarrow> session_store \<Rightarrow> 'g option \<times> group_session_data" where
  "getOutboundMegolmSession lib room_id s =
     (case fmlookup (ss_outbound s) room_id \<bind> at_key ''session'' \<bind> get_str
           \<bind> lib_unpickle_out lib (ss_pickle_secret s) of
        None \<Rightarrow> (None, new_group_session_data)
      | Some session \<Rightarrow>
          (case fmlookup (ss_session_data s)
             (key_text lib \<lparr>ms_room_id = room_id, ms_session_id = lib_out_session_id lib session\<rparr>) of
             None \<Rightarrow> (Some session, new_group_session_data)
           | Some j \<Rightarrow>
               (case group_session_data_from_json j of
                  None \<Rightarrow> (None, new_group_session_data)
                | Some data \<Rightarrow> (Some session, data))))"

section \<open>Olm sessions\<close>

definition saveOlmSession ::
    "('i, 'g, 'o) olm_lib \<Rightarrow> string \<Rightarrow> 'o \<Rightarrow> u64 \<Rightarrow> session_store \<Rightarrow> session_store" where
  "saveOlmSession lib curve25519 session timestamp s =
     (let stored = \<lparr>so_last_message_ts = timestamp,
                    so_pickled_session = lib_pickle_olm lib (ss_pickle_secret s) session\<rparr>
      in s\<lparr>ss_olm_sessions := fmupd curve25519
             (fmupd (lib_olm_session_id lib session) (stored_olm_session_to_json stored)
               (sub_table curve25519 (ss_olm_sessions s))) (ss_olm_sessions s)\<rparr>)"

text \<open>The outer option of the two reads is an exception, the inner one the code's result.\<close>

definition getOlmSession ::
    "('i, 'g, 'o) olm_lib \<Rightarrow> string \<Rightarrow> string \<Rightarrow> session_store \<Rightarrow> 'o option option" where
  "getOlmSession lib curve25519 session_id s =
     (case fmlookup (sub_table curve25519 (ss_olm_sessions s)) session_id of
        None \<Rightarrow> Some None
      | Some j \<Rightarrow> do {
          data \<leftarrow> stored_olm_session_from_json j;
          session \<leftarrow> lib_unpickle_olm lib (ss_pickle_secret s) (so_pickled_session data);
          Some (Some session) })"

definition newer_session :: "string \<times> json \<Rightarrow> stored_olm_session option \<Rightarrow> stored_olm_session option option" where
  "newer_session entry newest = do {
     data \<leftarrow> stored_olm_session_from_json (snd entry);
     Some (case newest of
             None \<Rightarrow> Some data
           | Some n \<Rightarrow> if so_last_message_ts n < so_last_message_ts data then Some data else Some n) }"

definition getLatestOlmSession ::
    "('i, 'g, 'o) olm_lib \<Rightarrow> string \<Rightarrow> session_store \<Rightarrow> 'o option option" where
  "getLatestOlmSession lib curve25519 s = do {
     newest \<leftarrow> fold_opt newer_session
       (sorted_list_of_fmap (sub_table curve25519 (ss_olm_sessions s))) None;
     (case newest of
        None \<Rightarrow> Some None
      | Some n \<Rightarrow> do {
          session \<leftarrow> lib_unpickle_olm lib (ss_pickle_secret s) (so_pickled_session n);
          Some (Some session) }) }"

definition getOlmSessions :: "string \<Rightarrow> session_store \<Rightarrow> string list" where
  "getOlmSessions curve25519 s =
     map fst (sorted_list_of_fmap (sub_table curve25519 (ss_olm_sessions s)))"

section \<open>Sync state, rooms and the whole store\<close>

definition saveOlmAccount :: "string \<Rightarrow> session_store \<Rightarrow> session_store" where
  "saveOlmAccount data s = s\<lparr>ss_olm_account := Some data\<rparr>"

definition restoreOlmAccount :: "session_store \<Rightarrow> string" where
  "restoreOlmAccount s = (case ss_olm_account s of None \<Rightarrow> [] | Some d \<Rightarrow> d)"

definition saveBackupVersion :: "online_backup_version \<Rightarrow> session_store \<Rightarrow> session_store" where
  "saveBackupVersion data s = s\<lparr>ss_backup := Some (online_backup_version_to_json data)\<rparr>"

definition deleteBackupVersion :: "session_store \<Rightarrow> session_store" where
  "deleteBackupVersion s = s\<lparr>ss_backup := None\<rparr>"

definition backupVersion :: "session_store \<Rightarrow> online_backup_version option" where
  "backupVersion s = ss_backup s \<bind> online_backup_version_from_json"

definition removeInvite :: "string \<Rightarrow> session_store \<Rightarrow> session_store" where
  "removeInvite room_id s =
     s\<lparr>ss_invites := fmdrop room_id (ss_invites s),
       ss_invite_states := fmdrop room_id (ss_invite_states s),
       ss_invite_members := fmdrop room_id (ss_invite_members s)\<rparr>"

definition removeRoom_txn :: "string \<Rightarrow> session_store \<Rightarrow> session_store" where
  "removeRoom_txn roomid s =
     s\<lparr>ss_rooms := fmdrop roomid (ss_rooms s),
       ss_states := fmdrop roomid (ss_states s),
       ss_account_data := fmdrop roomid (ss_account_data s),
       ss_members := fmdrop roomid (ss_members s)\<rparr>"

definition removeRoom :: "string \<Rightarrow> session_store \<Rightarrow> session_store" where
  "removeRoom roomid s = s\<lparr>ss_rooms := fmdrop roomid (ss_rooms s)\<rparr>"

definition setNextBatchToken :: "string \<Rightarrow> session_store \<Rightarrow> session_store" where
  "setNextBatchToken token s = s\<lparr>ss_next_batch := Some token\<rparr>"

definition isInitialized :: "session_store \<Rightarrow> bool" where
  "isInitialized s = (ss_open s \<and> ss_next_batch s \<noteq> None)"

definition nextBatchToken :: "session_store \<Rightarrow> string option" where
  "nextBatchToken s =
     (if \<not> ss_open s then None
      else Some (case ss_next_batch s of None \<Rightarrow> [] | Some t \<Rightarrow> t))"

text \<open>Closing the environment and deleting its files leaves no table.\<close>

definition deleteData :: "session_store \<Rightarrow> session_store" where
  "deleteData s =
     (if \<not> ss_ready s then s
      else deleteSecret ''pickle_secret'' True
        (deleteSecret ''m.cross_signing.self_signing'' False
        (deleteSecret ''m.cross_signing.user_signing'' False
        (deleteSecret ''m.cross_signing.master'' False
        (deleteSecret ''m.megolm_backup.v1'' False
          (new_session_store
            \<lparr>ss_secrets := ss_secrets s, ss_settings := ss_settings s,
             ss_pickle_secret := ss_pickle_secret s, ss_open := False,
             ss_effects := ss_effects s\<rparr>))))))"

section \<open>Format version\<close>

datatype cache_version = Older | Current | Newer

definition current_cache_format_version :: string where
  "current_cache_format_version = ''2022.04.08''"

definition formatVersion :: "session_store \<Rightarrow> cache_version" where
  "formatVersion s =
     (case ss_format s of
        None \<Rightarrow> Older
      | Some stored \<Rightarrow>
          if stored < current_cache_format_version then Older
          else if stored > current_cache_format_version then Older
          else Current)"

definition setCurrentFormat :: "session_store \<Rightarrow> session_store" where
  "setCurrentFormat s = s\<lparr>ss_format := Some current_cache_format_version\<rparr>"

text \<open>The loop of \<open>runMigrations\<close> over its list of target versions and steps; a step that fails
  ends it, with what it and the earlier ones committed.\<close>

fun run_migrations ::
    "string \<Rightarrow> (string \<times> (session_store \<Rightarrow> session_store \<times> bool)) list
      \<Rightarrow> session_store \<Rightarrow> session_store \<times> bool" where
  "run_migrations stored [] s = (setCurrentFormat s, True)"
| "run_migrations stored ((target, migration) # rest) s =
     (if target > stored then
        (case migration s of
           (s', True) \<Rightarrow> run_migrations stored rest s'
         | (s', False) \<Rightarrow> (s', False))
      else run_migrations stored rest s)"

definition runMigrations ::
    "(string \<times> (session_store \<Rightarrow> session_store \<times> bool)) list
      \<Rightarrow> session_store \<Rightarrow> session_store \<times> bool" where
  "runMigrations migrations s =
     (case ss_format s of
        None \<Rightarrow> (s, False)
      | Some stored \<Rightarrow> run_migrations stored migrations s)"

section \<open>Steps\<close>

text \<open>What a running client does to the store, one transaction at a time, and a restart of the
  program, which reloads the settings and the five secrets \<open>Cache::setup\<close> names. An exception
  leaves the store as it was. Nothing reaches the tables once they are closed.\<close>

datatype ('i, 'g, 'o) session_op =
    SaveInbound megolm_session_index 'i group_session_data
  | ImportKeys "exported_session list"
  | SaveOutbound string group_session_data 'g
  | UpdateOutbound string group_session_data 'g
  | DropOutbound string
  | SaveOlm string 'o u64
  | SaveAccount string
  | SaveBackup online_backup_version
  | DeleteBackup
  | SetEncrypted string
  | SetNextBatch string
  | RemoveInvite string
  | RemoveRoom string
  | StoreSecret string string bool
  | DeleteSecret string bool
  | PickleSecret string
  | Restart

definition setup_secrets :: "(string \<times> bool) list" where
  "setup_secrets =
     [(''m.cross_signing.master'', False), (''m.cross_signing.self_signing'', False),
      (''m.cross_signing.user_signing'', False), (''m.megolm_backup.v1'', False),
      (''pickle_secret'', True)]"

definition restart :: "session_store \<Rightarrow> session_store" where
  "restart s =
     loadSecrets setup_secrets
       (s\<lparr>ss_secrets := fmempty, ss_settings := us_load (ss_settings s), ss_pickle_secret := [],
          ss_open := True, ss_ready := False\<rparr>)"

fun session_step ::
    "('i, 'g, 'o) olm_lib \<Rightarrow> session_store \<Rightarrow> ('i, 'g, 'o) session_op \<Rightarrow> session_store" where
  "session_step lib s (SaveInbound i x d) =
     (case saveInboundMegolmSession lib i x d s of None \<Rightarrow> s | Some s' \<Rightarrow> s')"
| "session_step lib s (ImportKeys ks) = importSessionKeys lib ks s"
| "session_step lib s (SaveOutbound r d g) = saveOutboundMegolmSession lib r d g s"
| "session_step lib s (UpdateOutbound r d g) = updateOutboundMegolmSession lib r d g s"
| "session_step lib s (DropOutbound r) = dropOutboundMegolmSession r s"
| "session_step lib s (SaveOlm c x t) = saveOlmSession lib c x t s"
| "session_step lib s (SaveAccount d) = saveOlmAccount d s"
| "session_step lib s (SaveBackup d) = saveBackupVersion d s"
| "session_step lib s DeleteBackup = deleteBackupVersion s"
| "session_step lib s (SetEncrypted r) = setEncryptedRoom r s"
| "session_step lib s (SetNextBatch t) = setNextBatchToken t s"
| "session_step lib s (RemoveInvite r) = removeInvite r s"
| "session_step lib s (RemoveRoom r) = removeRoom_txn r s"
| "session_step lib s (StoreSecret n v i) = storeSecret n v i s"
| "session_step lib s (DeleteSecret n i) = deleteSecret n i s"
| "session_step lib s (PickleSecret t) = fst (pickleSecret t s)"
| "session_step lib s Restart = restart s"

end
