(* ===== verification/Session_Store_Safety.thy ===== *)
theory Session_Store_Safety
  imports Session_Store
begin

text \<open>
  What the session store keeps over any history: the settings and the secret storage agree, and
  every stored session opens under the saved pickle secret (also after a restart).
\<close>

section \<open>Secrets and settings\<close>

definition saved_at :: "string \<Rightarrow> settings \<Rightarrow> string" where
  "saved_at key u = (case fmlookup (us_saved u) key of None \<Rightarrow> [] | Some v \<Rightarrow> v)"

named_theorems secret_simps "what the settings hold after an operation"

lemma us_touch_simps [secret_simps]:
  "us_at k (us_touch k' u) = us_at k u" "us_saved (us_touch k' u) = us_saved u"
  by (auto simp: us_at_def us_touch_def split: option.splits)

lemma saved_at_touch [secret_simps]: "saved_at k (us_touch k' u) = saved_at k u"
  by (simp add: saved_at_def us_touch_simps)

definition settings_synced :: "settings \<Rightarrow> bool" where
  "settings_synced u = (\<forall>k. us_at k u = saved_at k u)"

lemma us_load_simps [secret_simps]:
  "us_at k (us_load u) = saved_at k u" "saved_at k (us_load u) = saved_at k u"
  by (auto simp: us_at_def us_load_def saved_at_def)

lemma us_at_storeSecret [secret_simps]: "us_at k (us_storeSecret k' v u) = (if k = k' then v else us_at k u)"
  by (auto simp: us_storeSecret_def us_save_def us_touch_simps) (auto simp: us_at_def)

lemma us_at_deleteSecret [secret_simps]: "us_at k (us_deleteSecret k' u) = (if k = k' then [] else us_at k u)"
  by (auto simp: us_deleteSecret_def us_save_def us_at_def)

lemma synced_storeSecret: "settings_synced u \<Longrightarrow> settings_synced (us_storeSecret k v u)"
  by (auto simp: settings_synced_def us_storeSecret_def us_save_def us_touch_simps saved_at_touch)
     (auto simp: us_at_def saved_at_def fmdom_notD split: option.splits if_splits dest: fmdomI)

lemma synced_deleteSecret: "settings_synced u \<Longrightarrow> settings_synced (us_deleteSecret k u)"
  by (auto simp: settings_synced_def us_deleteSecret_def us_save_def us_at_def saved_at_def
      split: option.splits if_splits dest: fmdomI)

lemma synced_touch: "settings_synced u \<Longrightarrow> settings_synced (us_touch k u)"
  by (simp add: settings_synced_def secret_simps)

lemma synced_load: "settings_synced (us_load u)"
  by (simp add: settings_synced_def secret_simps)

lemma loadSecrets_frame [simp]:
  "ss_inbound (loadSecrets ns s) = ss_inbound s"
  "ss_session_data (loadSecrets ns s) = ss_session_data s"
  "ss_outbound (loadSecrets ns s) = ss_outbound s"
  "ss_olm_sessions (loadSecrets ns s) = ss_olm_sessions s"
  "ss_pickle_secret (loadSecrets ns s) = ss_pickle_secret s"
  "us_at k (ss_settings (loadSecrets ns s)) = us_at k (ss_settings s)"
  "saved_at k (ss_settings (loadSecrets ns s)) = saved_at k (ss_settings s)"
  by (induction ns s rule: loadSecrets.induct) (auto simp: Let_def secret_simps)

lemma loadSecrets_ready [simp]: "ss_ready (loadSecrets ns s)"
  by (induction ns s rule: loadSecrets.induct) (auto simp: Let_def)

lemma loadSecrets_secrets:
  "fmlookup (ss_secrets (loadSecrets ns s)) k =
     (if k \<in> (\<lambda>(n, i). secretName n i) ` set ns \<and> us_at k (ss_settings s) \<noteq> []
      then Some (us_at k (ss_settings s)) else fmlookup (ss_secrets s) k)"
  by (induction ns s rule: loadSecrets.induct) (auto simp: Let_def secret_simps)

text \<open>The secret storage caches the settings, completely for the secrets that setup loads.\<close>

definition setup_names :: "string set" where
  "setup_names = (\<lambda>(n, i). secretName n i) ` set setup_secrets"

definition secrets_inv :: "session_store \<Rightarrow> bool" where
  "secrets_inv s \<longleftrightarrow>
     settings_synced (ss_settings s) \<and>
     (\<forall>k v. fmlookup (ss_secrets s) k = Some v \<longrightarrow> us_at k (ss_settings s) = v) \<and>
     (\<forall>k. k \<in> setup_names \<and> fmlookup (ss_secrets s) k = None \<longrightarrow> us_at k (ss_settings s) = [])"

lemma secrets_inv_storeSecret: "secrets_inv s \<Longrightarrow> secrets_inv (storeSecret n v i s)"
  by (auto simp: secrets_inv_def storeSecret_def Let_def secret_simps synced_storeSecret)

lemma secrets_inv_deleteSecret: "secrets_inv s \<Longrightarrow> secrets_inv (deleteSecret n i s)"
  by (auto simp: secrets_inv_def deleteSecret_def Let_def secret_simps synced_deleteSecret)

lemma secrets_inv_pickleSecret: "secrets_inv s \<Longrightarrow> secrets_inv (fst (pickleSecret t s))"
proof -
  assume s: "secrets_inv s"
  then have "secrets_inv (s\<lparr>ss_pickle_secret := k\<rparr>)" for k by (simp add: secrets_inv_def)
  then show ?thesis
    using s by (auto simp: pickleSecret_def secrets_inv_storeSecret split: option.splits)
qed

lemma secrets_inv_restart: "secrets_inv (restart s)"
proof -
  have "settings_synced (ss_settings (restart s))"
    by (simp add: settings_synced_def restart_def secret_simps)
  then show ?thesis
    by (auto simp: secrets_inv_def restart_def loadSecrets_secrets secret_simps setup_names_def)
qed

text \<open>The pickle secret as it is saved.\<close>

abbreviation pickle_name :: string where
  "pickle_name \<equiv> secretName ''pickle_secret'' True"

definition seal :: "session_store \<Rightarrow> string" where
  "seal s = us_at pickle_name (ss_settings s)"

lemma pickle_name_setup [simp]: "pickle_name \<in> setup_names"
  by (auto simp: setup_names_def setup_secrets_def)

section \<open>Sealed sessions\<close>

definition sealed_with :: "('i, 'g, 'o) olm_lib \<Rightarrow> string \<Rightarrow> session_store \<Rightarrow> bool" where
  "sealed_with lib k s \<longleftrightarrow>
     (\<forall>key v. fmlookup (ss_inbound s) key = Some v \<longrightarrow>
        (\<exists>i x. key = key_text lib i \<and> lib_unpickle_in lib k v = Some x)) \<and>
     (\<forall>r j. fmlookup (ss_outbound s) r = Some j \<longrightarrow>
        at_key ''session'' j \<bind> get_str \<bind> lib_unpickle_out lib k \<noteq> None) \<and>
     (\<forall>c n j. fmlookup (sub_table c (ss_olm_sessions s)) n = Some j \<longrightarrow>
        stored_olm_session_from_json j
          \<bind> (\<lambda>st. lib_unpickle_olm lib k (so_pickled_session st)) \<noteq> None)"

definition no_sessions :: "session_store \<Rightarrow> bool" where
  "no_sessions s \<longleftrightarrow>
     ss_inbound s = fmempty \<and> ss_outbound s = fmempty \<and>
     (\<forall>c. sub_table c (ss_olm_sessions s) = fmempty)"

lemma no_sessions_sealed: "no_sessions s \<Longrightarrow> sealed_with lib k s"
  by (simp add: no_sessions_def sealed_with_def)

lemma sealed_put_inbound:
  assumes "lib_ok lib" "sealed_with lib (ss_pickle_secret s) s"
  shows "sealed_with lib (ss_pickle_secret s) (put_inbound lib i x d s)"
  using assms by (auto simp: sealed_with_def put_inbound_def Let_def lib_ok_def)

lemma sealed_saveInbound:
  assumes "lib_ok lib" "sealed_with lib (ss_pickle_secret s) s"
    and "saveInboundMegolmSession lib i x d s = Some s'"
  shows "sealed_with lib (ss_pickle_secret s) s'"
  using assms(3) sealed_put_inbound [OF assms(1,2)] assms(2)
  by (auto simp: saveInboundMegolmSession_def split: option.splits if_splits)

lemma sealed_effects [simp]: "sealed_with lib k (s\<lparr>ss_effects := e\<rparr>) = sealed_with lib k s"
  by (simp add: sealed_with_def)

lemma import_one_cases:
  obtains (same) "import_one lib e s = s"
  | (stored) x where "lib_import_session lib (es_session_key e) = Some x"
      "import_one lib e s = (put_inbound lib (imported_index e) x (imported_data e) s)
         \<lparr>ss_effects := ss_effects s @ [ReceivedSessionKey (es_room_id e) (es_session_id e)]\<rparr>"
      "\<And>v old. fmlookup (ss_inbound s) (key_text lib (imported_index e)) = Some v \<Longrightarrow>
         lib_unpickle_in lib (ss_pickle_secret s) v = Some old \<Longrightarrow>
         lib_first_known_index lib x < lib_first_known_index lib old"
proof (cases "lib_import_session lib (es_session_key e)")
  case None
  then show ?thesis using same by (simp add: import_one_def)
next
  case (Some x)
  note x = this
  show ?thesis
  proof (cases "fmlookup (ss_inbound s) (key_text lib (imported_index e))")
    case None
    then show ?thesis using x stored [OF x] by (simp add: import_one_def Let_def)
  next
    case (Some v)
    note v = this
    show ?thesis
    proof (cases "lib_unpickle_in lib (ss_pickle_secret s) v")
      case None
      then show ?thesis using x v same by (simp add: import_one_def)
    next
      case (Some old)
      then have "lib_first_known_index lib x \<ge> lib_first_known_index lib old \<Longrightarrow> ?thesis"
        using x v same by (simp add: import_one_def)
      moreover have "lib_first_known_index lib x < lib_first_known_index lib old \<Longrightarrow> ?thesis"
        using Some by (intro stored [OF x]) (simp_all add: import_one_def x v)
      ultimately show ?thesis by (meson leI)
    qed
  qed
qed

lemma put_inbound_frame [simp]:
  "ss_pickle_secret (put_inbound lib i x d s) = ss_pickle_secret s"
  "ss_settings (put_inbound lib i x d s) = ss_settings s"
  "ss_secrets (put_inbound lib i x d s) = ss_secrets s"
  "ss_outbound (put_inbound lib i x d s) = ss_outbound s"
  "ss_olm_sessions (put_inbound lib i x d s) = ss_olm_sessions s"
  by (simp_all add: put_inbound_def Let_def)

lemma import_one_frame [simp]:
  "ss_pickle_secret (import_one lib e s) = ss_pickle_secret s"
  "ss_settings (import_one lib e s) = ss_settings s"
  "ss_secrets (import_one lib e s) = ss_secrets s"
  by (cases rule: import_one_cases [of lib e s]; simp)+

lemma importSessionKeys_frame [simp]:
  "ss_pickle_secret (importSessionKeys lib ks s) = ss_pickle_secret s"
  "ss_settings (importSessionKeys lib ks s) = ss_settings s"
  "ss_secrets (importSessionKeys lib ks s) = ss_secrets s"
  unfolding importSessionKeys_def by (induction ks arbitrary: s) auto

lemma sealed_import:
  assumes "lib_ok lib" "sealed_with lib (ss_pickle_secret s) s"
  shows "sealed_with lib (ss_pickle_secret s) (importSessionKeys lib ks s)"
proof -
  have "ss_pickle_secret (fold (import_one lib) ks s) = ss_pickle_secret s \<and>
      sealed_with lib (ss_pickle_secret s) (fold (import_one lib) ks s)"
  proof (rule fold_invariant)
    show "ss_pickle_secret s = ss_pickle_secret s \<and> sealed_with lib (ss_pickle_secret s) s"
      using assms by simp
  next
    fix e t
    assume t: "ss_pickle_secret t = ss_pickle_secret s \<and> sealed_with lib (ss_pickle_secret s) t"
    show "ss_pickle_secret (import_one lib e t) = ss_pickle_secret s \<and>
        sealed_with lib (ss_pickle_secret s) (import_one lib e t)"
      using t sealed_put_inbound [OF assms(1), of t]
      by (cases rule: import_one_cases [of lib e t]) auto
  qed
  then show ?thesis by (simp add: importSessionKeys_def)
qed

lemma sealed_saveOutbound:
  assumes "lib_ok lib" "sealed_with lib (ss_pickle_secret s) s"
  shows "sealed_with lib (ss_pickle_secret s) (saveOutboundMegolmSession lib r d g s)"
  using assms by (auto simp: sealed_with_def saveOutboundMegolmSession_def Let_def lib_ok_def at_key_set_key)

lemma updateOutbound_eq:
  "updateOutboundMegolmSession lib r d g s =
     (if outboundMegolmSessionExists r s then saveOutboundMegolmSession lib r d g s else s)"
  by (simp add: updateOutboundMegolmSession_def saveOutboundMegolmSession_def)

lemma sealed_dropOutbound:
  "sealed_with lib k s \<Longrightarrow> sealed_with lib k (dropOutboundMegolmSession r s)"
  by (auto simp: sealed_with_def dropOutboundMegolmSession_def)

lemma sub_table_fmupd [simp]:
  "sub_table c (fmupd c' t m) = (if c = c' then t else sub_table c m)"
  by (simp add: sub_table_def)

lemma sealed_saveOlm:
  assumes "lib_ok lib" "sealed_with lib (ss_pickle_secret s) s"
  shows "sealed_with lib (ss_pickle_secret s) (saveOlmSession lib c x t s)"
  using assms
  by (auto simp: sealed_with_def saveOlmSession_def Let_def lib_ok_def stored_olm_session_read_back)

section \<open>The machine\<close>

text \<open>The client asks for the pickle secret, with a fresh token, before it handles sessions, and
  stores or deletes no other value under its name.\<close>

fun session_guard :: "session_store \<Rightarrow> ('i, 'g, 'o) session_op \<Rightarrow> bool" where
  "session_guard s (SaveInbound i x d) = (ss_pickle_secret s \<noteq> [])"
| "session_guard s (ImportKeys ks) = (ss_pickle_secret s \<noteq> [])"
| "session_guard s (SaveOutbound r d g) = (ss_pickle_secret s \<noteq> [])"
| "session_guard s (UpdateOutbound r d g) = (ss_pickle_secret s \<noteq> [])"
| "session_guard s (SaveOlm c x t) = (ss_pickle_secret s \<noteq> [])"
| "session_guard s (StoreSecret n v i) = (secretName n i \<noteq> pickle_name)"
| "session_guard s (DeleteSecret n i) = (secretName n i \<noteq> pickle_name)"
| "session_guard s (PickleSecret t) = (t \<noteq> [])"
| "session_guard s _ = True"

definition session_inv :: "('i, 'g, 'o) olm_lib \<Rightarrow> session_store \<Rightarrow> bool" where
  "session_inv lib s \<longleftrightarrow>
     secrets_inv s \<and>
     (ss_pickle_secret s = [] \<or> ss_pickle_secret s = seal s) \<and>
     (fmlookup (ss_secrets s) pickle_name \<noteq> Some []) \<and>
     sealed_with lib (seal s) s \<and>
     (seal s = [] \<longrightarrow> no_sessions s)"

lemma session_inv_new: "session_inv lib new_session_store"
  by (auto simp: session_inv_def secrets_inv_def settings_synced_def new_session_store_def
      us_at_def saved_at_def seal_def sealed_with_def no_sessions_def sub_table_def)

text \<open>An operation that leaves secrets and settings alone keeps the invariant as soon as it keeps
  the seal.\<close>

lemma session_inv_sessions:
  assumes "session_inv lib s" "ss_pickle_secret s \<noteq> []"
    and "sealed_with lib (ss_pickle_secret s) s'"
    and "ss_secrets s' = ss_secrets s" "ss_settings s' = ss_settings s"
      "ss_pickle_secret s' = ss_pickle_secret s"
  shows "session_inv lib s'"
  using assms by (auto simp: session_inv_def secrets_inv_def seal_def)

lemma session_inv_sealed:
  "session_inv lib s \<Longrightarrow> ss_pickle_secret s \<noteq> [] \<Longrightarrow> sealed_with lib (ss_pickle_secret s) s"
  by (auto simp: session_inv_def)

text \<open>An operation that leaves sessions, secrets and settings alone.\<close>

lemma session_inv_frame:
  assumes "session_inv lib s"
    and "ss_inbound s' = ss_inbound s" "ss_outbound s' = ss_outbound s"
      "ss_olm_sessions s' = ss_olm_sessions s"
    and "ss_secrets s' = ss_secrets s" "ss_settings s' = ss_settings s"
      "ss_pickle_secret s' = ss_pickle_secret s"
  shows "session_inv lib s'"
  using assms by (simp add: session_inv_def secrets_inv_def seal_def sealed_with_def no_sessions_def)

lemma secret_ops_frame [simp]:
  "ss_inbound (storeSecret n v i s) = ss_inbound s"
  "ss_outbound (storeSecret n v i s) = ss_outbound s"
  "ss_olm_sessions (storeSecret n v i s) = ss_olm_sessions s"
  "ss_session_data (storeSecret n v i s) = ss_session_data s"
  "ss_pickle_secret (storeSecret n v i s) = ss_pickle_secret s"
  "ss_inbound (deleteSecret n i s) = ss_inbound s"
  "ss_outbound (deleteSecret n i s) = ss_outbound s"
  "ss_olm_sessions (deleteSecret n i s) = ss_olm_sessions s"
  "ss_session_data (deleteSecret n i s) = ss_session_data s"
  "ss_pickle_secret (deleteSecret n i s) = ss_pickle_secret s"
  by (simp_all add: storeSecret_def deleteSecret_def Let_def)

lemma secret_ops_settings:
  "ss_settings (storeSecret n v i s) = us_storeSecret (secretName n i) v (ss_settings s)"
  "ss_secrets (storeSecret n v i s) = fmupd (secretName n i) v (ss_secrets s)"
  "ss_settings (deleteSecret n i s) = us_deleteSecret (secretName n i) (ss_settings s)"
  "ss_secrets (deleteSecret n i s) = fmdrop (secretName n i) (ss_secrets s)"
  by (simp_all add: storeSecret_def deleteSecret_def Let_def)

lemma sealed_tables:
  "ss_inbound s' = ss_inbound s \<Longrightarrow> ss_outbound s' = ss_outbound s \<Longrightarrow>
   ss_olm_sessions s' = ss_olm_sessions s \<Longrightarrow>
   sealed_with lib k s' = sealed_with lib k s \<and> no_sessions s' = no_sessions s"
  by (simp add: sealed_with_def no_sessions_def)

lemma session_inv_storeSecret:
  assumes "session_inv lib s" "secretName n i \<noteq> pickle_name"
  shows "session_inv lib (storeSecret n v i s)"
  using assms sealed_tables [of "storeSecret n v i s" s lib]
  by (auto simp: session_inv_def secrets_inv_storeSecret seal_def secret_ops_settings secret_simps)

lemma session_inv_deleteSecret:
  assumes "session_inv lib s" "secretName n i \<noteq> pickle_name"
  shows "session_inv lib (deleteSecret n i s)"
  using assms sealed_tables [of "deleteSecret n i s" s lib]
  by (auto simp: session_inv_def secrets_inv_deleteSecret seal_def secret_ops_settings secret_simps)

lemma pickleSecret_frame [simp]:
  "ss_inbound (fst (pickleSecret t s)) = ss_inbound s"
  "ss_outbound (fst (pickleSecret t s)) = ss_outbound s"
  "ss_olm_sessions (fst (pickleSecret t s)) = ss_olm_sessions s"
  "ss_session_data (fst (pickleSecret t s)) = ss_session_data s"
  by (auto simp: pickleSecret_def split: option.splits)

lemma pickleSecret_cases:
  assumes "secrets_inv s" "fmlookup (ss_secrets s) pickle_name \<noteq> Some []"
    and "ss_pickle_secret s = [] \<or> ss_pickle_secret s = seal s"
  shows "ss_pickle_secret (fst (pickleSecret t s)) = (if seal s = [] then t else seal s)"
    and "seal (fst (pickleSecret t s)) = (if seal s = [] then t else seal s)"
    and "t \<noteq> [] \<Longrightarrow> fmlookup (ss_secrets (fst (pickleSecret t s))) pickle_name \<noteq> Some []"
proof -
  have none: "fmlookup (ss_secrets s) pickle_name = None \<Longrightarrow> seal s = []"
    and some: "\<And>v. fmlookup (ss_secrets s) pickle_name = Some v \<Longrightarrow> seal s = v"
    using assms(1) pickle_name_setup by (auto simp: secrets_inv_def seal_def)
  show "ss_pickle_secret (fst (pickleSecret t s)) = (if seal s = [] then t else seal s)"
    and "seal (fst (pickleSecret t s)) = (if seal s = [] then t else seal s)"
    using none some assms
    by (auto simp: pickleSecret_def secret_def storeSecret_def Let_def seal_def secret_simps
        split: option.splits)
  show "t \<noteq> [] \<Longrightarrow> fmlookup (ss_secrets (fst (pickleSecret t s))) pickle_name \<noteq> Some []"
    using none some assms
    by (auto simp: pickleSecret_def secret_def storeSecret_def Let_def split: option.splits)
qed

lemma session_inv_pickleSecret:
  assumes "session_inv lib s" "t \<noteq> []"
  shows "session_inv lib (fst (pickleSecret t s))"
proof -
  let ?s = "fst (pickleSecret t s)"
  have s: "secrets_inv s" "fmlookup (ss_secrets s) pickle_name \<noteq> Some []"
    "ss_pickle_secret s = [] \<or> ss_pickle_secret s = seal s"
    using assms by (auto simp: session_inv_def)
  note c = pickleSecret_cases [OF s, of t]
  have "sealed_with lib (seal ?s) ?s \<and> (seal ?s = [] \<longrightarrow> no_sessions ?s)"
    using assms c(2) sealed_tables [of ?s s lib] by (auto simp: session_inv_def no_sessions_sealed)
  then show ?thesis
    using c assms secrets_inv_pickleSecret [OF s(1)] by (simp add: session_inv_def)
qed

lemma restart_frame [simp]:
  "ss_inbound (restart s) = ss_inbound s"
  "ss_outbound (restart s) = ss_outbound s"
  "ss_olm_sessions (restart s) = ss_olm_sessions s"
  "ss_session_data (restart s) = ss_session_data s"
  "ss_pickle_secret (restart s) = []"
  by (simp_all add: restart_def)

lemma seal_restart: "secrets_inv s \<Longrightarrow> seal (restart s) = seal s"
  by (simp add: seal_def restart_def secret_simps secrets_inv_def settings_synced_def)

lemma session_inv_restart:
  assumes "session_inv lib s"
  shows "session_inv lib (restart s)"
proof -
  have "fmlookup (ss_secrets (restart s)) pickle_name \<noteq> Some []"
    by (auto simp: restart_def loadSecrets_secrets)
  then show ?thesis
    using assms secrets_inv_restart seal_restart sealed_tables [of "restart s" s lib]
    by (auto simp: session_inv_def)
qed

lemma saveOutbound_frame [simp]:
  "ss_secrets (saveOutboundMegolmSession lib r d g s) = ss_secrets s"
  "ss_settings (saveOutboundMegolmSession lib r d g s) = ss_settings s"
  "ss_pickle_secret (saveOutboundMegolmSession lib r d g s) = ss_pickle_secret s"
  by (simp_all add: saveOutboundMegolmSession_def Let_def)

lemma session_step_inv:
  assumes lib: "lib_ok lib" and inv: "session_inv lib s" and guard: "session_guard s e"
  shows "session_inv lib (session_step lib s e)"
proof (cases e)
  case (SaveInbound i x d)
  show ?thesis
  proof (cases "saveInboundMegolmSession lib i x d s")
    case None
    then show ?thesis using inv SaveInbound by simp
  next
    case (Some s')
    moreover have "ss_secrets s' = ss_secrets s \<and> ss_settings s' = ss_settings s \<and>
        ss_pickle_secret s' = ss_pickle_secret s"
      using Some by (auto simp: saveInboundMegolmSession_def split: option.splits if_splits)
    moreover have k: "ss_pickle_secret s \<noteq> []" using guard SaveInbound by simp
    ultimately show ?thesis
      using sealed_saveInbound [OF lib session_inv_sealed [OF inv k] Some] SaveInbound inv
      by (auto intro: session_inv_sessions)
  qed
next
  case (ImportKeys ks)
  then have k: "ss_pickle_secret s \<noteq> []" using guard by simp
  then show ?thesis
    using sealed_import [OF lib session_inv_sealed [OF inv k]] inv ImportKeys
    by (auto intro: session_inv_sessions)
next
  case (SaveOutbound r d g)
  then have k: "ss_pickle_secret s \<noteq> []" using guard by simp
  then show ?thesis
    using sealed_saveOutbound [OF lib session_inv_sealed [OF inv k]] inv SaveOutbound
    by (auto intro: session_inv_sessions)
next
  case (UpdateOutbound r d g)
  then have k: "ss_pickle_secret s \<noteq> []" using guard by simp
  then show ?thesis
    using sealed_saveOutbound [OF lib session_inv_sealed [OF inv k]] inv UpdateOutbound
    by (auto intro: session_inv_sessions simp: updateOutbound_eq)
next
  case (SaveOlm c x t)
  then have k: "ss_pickle_secret s \<noteq> []" using guard by simp
  have "session_inv lib (saveOlmSession lib c x t s)"
    using sealed_saveOlm [OF lib session_inv_sealed [OF inv k]]
    by (rule session_inv_sessions [OF inv k]) (simp_all add: saveOlmSession_def Let_def)
  then show ?thesis using SaveOlm by simp
next
  case (DropOutbound r)
  have "session_inv lib (dropOutboundMegolmSession r s)"
    using inv sealed_dropOutbound [of lib "seal s" s r]
    by (auto simp: session_inv_def dropOutboundMegolmSession_def secrets_inv_def seal_def
        no_sessions_def)
  then show ?thesis using DropOutbound by simp
next
  case (StoreSecret n v i)
  then show ?thesis using inv guard session_inv_storeSecret by auto
next
  case (DeleteSecret n i)
  then show ?thesis using inv guard session_inv_deleteSecret by auto
next
  case (PickleSecret t)
  then show ?thesis using inv guard session_inv_pickleSecret by auto
next
  case Restart
  then show ?thesis using inv session_inv_restart by simp
qed (((simp, rule session_inv_frame [OF inv]);
      simp add: saveOlmAccount_def saveBackupVersion_def deleteBackupVersion_def setEncryptedRoom_def
        setNextBatchToken_def removeInvite_def removeRoom_txn_def)+)

interpretation sessions: guarded_machine "session_step lib" session_guard
  "\<lambda>s. lib_ok lib \<longrightarrow> session_inv lib s" for lib
  by unfold_locales (simp add: session_step_inv)

end
