(* ===== verification/Session_Store_Properties.thy ===== *)
theory Session_Store_Properties
  imports Session_Store_Safety
begin

text \<open>
  The library of the witnesses, and the properties of inbound sessions over any history: they survive
  restarts, and their first known index never grows.
\<close>

section \<open>A library for the witnesses\<close>

text \<open>Sessions are texts, sealed by the secret in front of them; a session's first index is its
  length.\<close>

definition demo_unseal :: "string \<Rightarrow> string \<Rightarrow> string option" where
  "demo_unseal k v = (if take (length k) v = k then Some (drop (length k) v) else None)"

definition demo_dump :: "json \<Rightarrow> string" where
  "demo_dump j =
     (case (at_key ''room_id'' j, at_key ''session_id'' j) of
        (Some (JStr r), Some (JStr q)) \<Rightarrow> replicate (length r) CHR ''1'' @ ''.'' @ r @ q
      | _ \<Rightarrow> [])"

definition demo_parse :: "string \<Rightarrow> json option" where
  "demo_parse t =
     (let n = length (takeWhile (\<lambda>c. c = CHR ''1'') t);
          rest = drop (Suc n) t
      in Some (megolm_session_index_to_json
           \<lparr>ms_room_id = take n rest, ms_session_id = drop n rest\<rparr>))"

definition demo_lib :: "(string, string, string) olm_lib" where
  "demo_lib =
     \<lparr>lib_pickle_in = (\<lambda>k x. k @ x), lib_unpickle_in = demo_unseal,
      lib_first_known_index = (\<lambda>x. word_of_nat (length x)), lib_export_session = (\<lambda>x. x),
      lib_import_session = Some, lib_pickle_out = (\<lambda>k x. k @ x),
      lib_unpickle_out = demo_unseal, lib_message_index = (\<lambda>x. word_of_nat (length x)),
      lib_out_session_id = (\<lambda>x. x), lib_pickle_olm = (\<lambda>k x. k @ x),
      lib_unpickle_olm = demo_unseal, lib_olm_session_id = (\<lambda>x. x),
      lib_dump = demo_dump, lib_parse = demo_parse\<rparr>"

lemma demo_parse_dump:
  "demo_parse (demo_dump (megolm_session_index_to_json i)) = Some (megolm_session_index_to_json i)"
proof -
  let ?r = "ms_room_id i" and ?q = "ms_session_id i"
  have "takeWhile (\<lambda>c. c = CHR ''1'') (replicate (length ?r) CHR ''1'' @ ''.'' @ ?r @ ?q) =
      replicate (length ?r) CHR ''1''"
    by (induction "length ?r") (auto simp: takeWhile_append)
  then show ?thesis
    by (simp add: demo_dump_def demo_parse_def megolm_session_index_to_json_def json_simps Let_def)
qed

lemma demo_lib_ok: "lib_ok demo_lib"
  by (simp add: lib_ok_def demo_lib_def demo_unseal_def demo_parse_dump)

section \<open>Sessions and restarts\<close>

lemma sessions_run_inv:
  assumes "lib_ok lib" and "guarded_run (session_step lib) session_guard new_session_store es"
  shows "session_inv lib (run (session_step lib) new_session_store es)"
  using sessions.guarded_run_inv [of lib new_session_store es] assms session_inv_new [of lib] by simp

lemma get_after_same_tables:
  assumes "ss_inbound t = ss_inbound s" "ss_outbound t = ss_outbound s"
    "ss_olm_sessions t = ss_olm_sessions s" "ss_session_data t = ss_session_data s"
    "ss_pickle_secret t = ss_pickle_secret s"
  shows "getInboundMegolmSession lib i t = getInboundMegolmSession lib i s"
    and "getOutboundMegolmSession lib r t = getOutboundMegolmSession lib r s"
    and "getLatestOlmSession lib c t = getLatestOlmSession lib c s"
    and "getMegolmSessionData lib i t = getMegolmSessionData lib i s"
  unfolding getInboundMegolmSession_def getOutboundMegolmSession_def getLatestOlmSession_def
    getMegolmSessionData_def assms by (rule refl)+

lemma restart_and_unlock:
  assumes "session_inv lib s" "ss_pickle_secret s \<noteq> []"
  shows "ss_pickle_secret (fst (pickleSecret t (restart s))) = ss_pickle_secret s"
proof -
  have r: "session_inv lib (restart s)" using assms session_inv_restart by blast
  have k: "seal (restart s) = ss_pickle_secret s"
    using assms seal_restart [of s] by (auto simp: session_inv_def)
  from r show ?thesis
    using pickleSecret_cases(1) [of "restart s" t] k assms(2) by (simp add: session_inv_def)
qed

lemma stored_session_opens:
  assumes "session_inv lib s" "ss_pickle_secret s \<noteq> []" "inboundMegolmSessionExists lib i s"
  shows "getInboundMegolmSession lib i s \<noteq> None"
  using assms
  by (auto simp: session_inv_def sealed_with_def inboundMegolmSessionExists_def
      getInboundMegolmSession_def)

text \<open>a restart loses no session: after any history in which the client asked for the pickle
  secret before it handled sessions, and then a restart, the secret that is handed out is the old
  one whatever fresh token is offered, every read of a session gives what it gave before, and each
  stored inbound session still opens.\<close>

theorem sessions_survive_restart:
  assumes "lib_ok lib"
    and "guarded_run (session_step lib) session_guard new_session_store es"
    and "s = run (session_step lib) new_session_store es"
    and "ss_pickle_secret s \<noteq> []"
    and "s' = run (session_step lib) s [Restart, PickleSecret token]"
  shows "ss_pickle_secret s' = ss_pickle_secret s
    \<and> getInboundMegolmSession lib i s' = getInboundMegolmSession lib i s
    \<and> getOutboundMegolmSession lib r s' = getOutboundMegolmSession lib r s
    \<and> getLatestOlmSession lib c s' = getLatestOlmSession lib c s
    \<and> inboundMegolmSessionExists lib i s = (getInboundMegolmSession lib i s' \<noteq> None)"
proof -
  have inv: "session_inv lib s" using sessions_run_inv assms(1-3) by blast
  have s': "s' = fst (pickleSecret token (restart s))" using assms(5) by simp
  have k: "ss_pickle_secret s' = ss_pickle_secret s"
    using restart_and_unlock [OF inv assms(4)] s' by simp
  have reads: "getInboundMegolmSession lib i s' = getInboundMegolmSession lib i s"
    "getOutboundMegolmSession lib r s' = getOutboundMegolmSession lib r s"
    "getLatestOlmSession lib c s' = getLatestOlmSession lib c s"
    by (rule get_after_same_tables; simp add: s' k [unfolded s'])+
  have "inboundMegolmSessionExists lib i s = (getInboundMegolmSession lib i s \<noteq> None)"
    using stored_session_opens [OF inv assms(4), of i]
    by (auto simp: inboundMegolmSessionExists_def getInboundMegolmSession_def split: option.splits)
  with k reads show ?thesis by simp
qed

definition demo_index :: megolm_session_index where
  "demo_index = \<lparr>ms_room_id = ''!r'', ms_session_id = ''S''\<rparr>"

definition demo_history :: "(string, string, string) session_op list" where
  "demo_history =
     [PickleSecret ''key'', SaveInbound demo_index ''aaa'' new_group_session_data,
      SaveOutbound ''!r'' new_group_session_data ''T'', SaveOlm ''curve'' ''one'' 7,
      SaveOlm ''curve'' ''two'' 9]"

lemma sessions_survive_restart_witness:
  "getInboundMegolmSession demo_lib demo_index
     (run (session_step demo_lib) (run (session_step demo_lib) new_session_store demo_history)
       [Restart, PickleSecret ''other'']) = Some ''aaa''"
proof -
  let ?s = "run (session_step demo_lib) new_session_store demo_history"
  have g: "guarded_run (session_step demo_lib) session_guard new_session_store demo_history"
    and k: "ss_pickle_secret ?s \<noteq> []"
    and v: "getInboundMegolmSession demo_lib demo_index ?s = Some ''aaa''"
    by code_simp+
  have "getInboundMegolmSession demo_lib demo_index
      (run (session_step demo_lib) ?s [Restart, PickleSecret ''other'']) =
    getInboundMegolmSession demo_lib demo_index ?s"
    by (rule sessions_survive_restart [OF demo_lib_ok g refl k refl, THEN conjunct2, THEN conjunct1])
  then show ?thesis using v by (rule trans)
qed

section \<open>The first known index\<close>

definition known_from :: "('i, 'g, 'o) olm_lib \<Rightarrow> megolm_session_index \<Rightarrow> 32 word \<Rightarrow> session_store \<Rightarrow> bool" where
  "known_from lib i n s \<longleftrightarrow>
     seal s \<noteq> [] \<and>
     (\<exists>v x. fmlookup (ss_inbound s) (key_text lib i) = Some v \<and>
        lib_unpickle_in lib (seal s) v = Some x \<and> lib_first_known_index lib x \<le> n)"

lemma known_from_put:
  assumes lib: "lib_ok lib" and known: "known_from lib i n s" and k: "ss_pickle_secret s = seal s"
    and better: "\<And>v old. fmlookup (ss_inbound s) (key_text lib j) = Some v \<Longrightarrow>
         lib_unpickle_in lib (seal s) v = Some old \<Longrightarrow>
         lib_first_known_index lib x \<le> lib_first_known_index lib old"
  shows "known_from lib i n (put_inbound lib j x d s)"
proof -
  have s: "seal (s\<lparr>ss_inbound := a, ss_session_data := b\<rparr>) = seal s" for a b
    by (simp add: seal_def)
  show ?thesis
  proof (cases "key_text lib j = key_text lib i")
    case True
    have "lib_first_known_index lib x \<le> n"
      using known better by (force simp: known_from_def True)
    then show ?thesis
      using known lib True by (simp add: known_from_def s put_inbound_def Let_def k lib_ok_def)
  next
    case False
    then show ?thesis
      using known by (simp add: known_from_def s put_inbound_def Let_def)
  qed
qed

lemma known_from_frame:
  "ss_inbound s' = ss_inbound s \<Longrightarrow> seal s' = seal s \<Longrightarrow> known_from lib i n s \<Longrightarrow> known_from lib i n s'"
  by (simp add: known_from_def)

lemma known_from_import:
  assumes "lib_ok lib" "known_from lib i n s" "ss_pickle_secret s = seal s"
  shows "known_from lib i n (importSessionKeys lib ks s)"
proof -
  have "ss_pickle_secret (fold (import_one lib) ks s) = seal (fold (import_one lib) ks s) \<and>
      known_from lib i n (fold (import_one lib) ks s)"
  proof (rule fold_invariant)
    show "ss_pickle_secret s = seal s \<and> known_from lib i n s" using assms by simp
  next
    fix e t
    assume t: "ss_pickle_secret t = seal t \<and> known_from lib i n t"
    show "ss_pickle_secret (import_one lib e t) = seal (import_one lib e t) \<and>
        known_from lib i n (import_one lib e t)"
    proof (cases rule: import_one_cases [of lib e t])
      case same
      then show ?thesis using t by simp
    next
      case (stored x)
      have "known_from lib i n (put_inbound lib (imported_index e) x (imported_data e) t)"
        using t by (intro known_from_put [OF assms(1)]) (auto dest: stored(3))
      then show ?thesis using t stored(2) by (simp add: known_from_def seal_def)
    qed
  qed
  then show ?thesis by (simp add: importSessionKeys_def)
qed

lemma known_from_step:
  assumes lib: "lib_ok lib" and inv: "session_inv lib s" and known: "known_from lib i n s"
    and guard: "session_guard s e"
  shows "known_from lib i n (session_step lib s e)"
proof (cases e)
  case (SaveInbound j x d)
  then have k: "ss_pickle_secret s = seal s" using inv guard by (auto simp: session_inv_def)
  show ?thesis
  proof (cases "saveInboundMegolmSession lib j x d s")
    case None
    then show ?thesis using SaveInbound known by simp
  next
    case (Some s')
    then have "s' = s \<or> s' = put_inbound lib j x d s \<and>
        (\<forall>v old. fmlookup (ss_inbound s) (key_text lib j) = Some v \<longrightarrow>
          lib_unpickle_in lib (seal s) v = Some old \<longrightarrow>
          lib_first_known_index lib x \<le> lib_first_known_index lib old)"
      by (auto simp: saveInboundMegolmSession_def k not_less split: option.splits if_splits)
    then have "known_from lib i n s'"
      using known known_from_put [OF lib known k, of j x d] by blast
    then show ?thesis using SaveInbound Some by simp
  qed
next
  case (ImportKeys ks)
  then have k: "ss_pickle_secret s = seal s" using inv guard by (auto simp: session_inv_def)
  then show ?thesis using ImportKeys known_from_import [OF lib known k] by simp
next
  case (StoreSecret m v b)
  then show ?thesis
    using known guard by (auto intro!: known_from_frame [of _ s] simp: seal_def secret_ops_settings secret_simps)
next
  case (DeleteSecret m b)
  then show ?thesis
    using known guard by (auto intro!: known_from_frame [of _ s] simp: seal_def secret_ops_settings secret_simps)
next
  case (PickleSecret t)
  have "seal (fst (pickleSecret t s)) = seal s"
    using pickleSecret_cases(2) [of s t] inv known by (auto simp: session_inv_def known_from_def)
  then show ?thesis using PickleSecret known by (auto intro: known_from_frame [of _ s])
next
  case Restart
  have "seal (restart s) = seal s" using inv seal_restart by (auto simp: session_inv_def)
  then show ?thesis using Restart known by (auto intro: known_from_frame [of _ s])
qed (use known in \<open>auto intro!: known_from_frame [of _ s] simp: seal_def updateOutbound_eq
      saveOutboundMegolmSession_def dropOutboundMegolmSession_def saveOlmSession_def
      saveOlmAccount_def saveBackupVersion_def deleteBackupVersion_def setEncryptedRoom_def
      setNextBatchToken_def removeInvite_def removeRoom_txn_def Let_def\<close>)

interpretation known: guarded_machine "session_step lib" session_guard
  "\<lambda>s. lib_ok lib \<longrightarrow> session_inv lib s \<and> known_from lib i n s" for lib i n
  by unfold_locales (auto intro: session_step_inv known_from_step)



end
