(* ===== verification/Session_Transfer.thy ===== *)
theory Session_Transfer
  imports Session_Store_Properties
begin

text \<open>
  Key export and import: an own export changes nothing when imported, and a fresh store receives
  every session.
\<close>

section \<open>Export and import\<close>

lemma index_json_inject:
  "megolm_session_index_to_json i = megolm_session_index_to_json j \<longleftrightarrow> i = j"
  by (metis megolm_session_index_read_back option.inject)

lemma key_text_inject: "lib_ok lib \<Longrightarrow> key_text lib i = key_text lib j \<longleftrightarrow> i = j"
  unfolding lib_ok_def key_text_def by (metis index_json_inject option.inject)

lemma index_of_key_text:
  "lib_ok lib \<Longrightarrow> lib_parse lib (key_text lib i) \<bind> megolm_session_index_from_json = Some i"
  by (simp add: lib_ok_def key_text_def megolm_session_index_read_back)

text \<open>What an export carries of a session's data, and what an import makes of it.\<close>

definition carried :: "group_session_data \<Rightarrow> group_session_data" where
  "carried d =
     new_group_session_data
       \<lparr>gs_sender_key := gs_sender_key d,
        gs_sender_claimed_ed25519_key := gs_sender_claimed_ed25519_key d,
        gs_forwarding_curve25519_key_chain := gs_forwarding_curve25519_key_chain d,
        gs_trusted := False\<rparr>"

definition exports :: "('i, 'g, 'o) olm_lib \<Rightarrow> session_store \<Rightarrow> exported_session \<Rightarrow> bool" where
  "exports lib s e \<longleftrightarrow>
     (\<exists>x d. getInboundMegolmSession lib (imported_index e) s = Some x \<and>
        getMegolmSessionData lib (imported_index e) s = Some d \<and>
        es_session_key e = lib_export_session lib x \<and> imported_data e = carried d)"

lemma export_entry_exports:
  assumes lib: "lib_ok lib" and v: "fmlookup (ss_inbound s) (key_text lib i) = Some v"
    and e: "export_entry lib s (key_text lib i, v) = Some (Some e)"
  shows "exports lib s e \<and> imported_index e = i"
proof -
  obtain x where x: "lib_unpickle_in lib (ss_pickle_secret s) v = Some x"
    using e by (auto simp: export_entry_def split: option.splits)
  obtain j where j: "fmlookup (ss_session_data s) (key_text lib i) = Some j"
    using e x by (auto simp: export_entry_def index_of_key_text [OF lib] split: option.splits)
  obtain d where d: "group_session_data_from_json j = Some d"
    using e x j by (auto simp: export_entry_def index_of_key_text [OF lib] split: option.splits)
  have ix: "imported_index e = i"
    using e x j d by (auto simp: export_entry_def index_of_key_text [OF lib] imported_index_def)
  have "getInboundMegolmSession lib i s = Some x" "getMegolmSessionData lib i s = Some d"
    using v x j d by (simp_all add: getInboundMegolmSession_def getMegolmSessionData_def)
  moreover have "es_session_key e = lib_export_session lib x" "imported_data e = carried d"
    using e x j d
    by (auto simp: export_entry_def index_of_key_text [OF lib] imported_data_def carried_def
        new_group_session_data_def)
  ultimately show ?thesis using ix by (auto simp: exports_def)
qed

lemma export_entries_mem:
  "export_entries lib s es = Some ks \<Longrightarrow>
   e \<in> set ks \<longleftrightarrow> (\<exists>p\<in>set es. export_entry lib s p = Some (Some e))"
  by (induction es arbitrary: ks) (auto split: option.splits)

lemma export_entries_total:
  "(\<And>p. p \<in> set es \<Longrightarrow> export_entry lib s p \<noteq> None) \<Longrightarrow> export_entries lib s es \<noteq> None"
  by (induction es) (auto split: option.splits)

lemma inbound_entry:
  assumes "session_inv lib s" "ss_pickle_secret s \<noteq> []" "fmlookup (ss_inbound s) key = Some v"
  obtains i x where "key = key_text lib i" "lib_unpickle_in lib (ss_pickle_secret s) v = Some x"
proof -
  have "ss_pickle_secret s = seal s" using assms by (simp add: session_inv_def)
  then have "\<exists>i x. key = key_text lib i \<and> lib_unpickle_in lib (ss_pickle_secret s) v = Some x"
    using assms by (simp add: session_inv_def sealed_with_def)
  then show ?thesis using that by blast
qed

lemma export_total:
  assumes "session_inv lib s" "ss_pickle_secret s \<noteq> []"
  shows "exportSessionKeys lib s \<noteq> None"
  unfolding exportSessionKeys_def
proof (rule export_entries_total)
  fix p
  assume "p \<in> set (sorted_list_of_fmap (ss_inbound s))"
  then have "fmlookup (ss_inbound s) (fst p) = Some (snd p)" by auto
  then obtain x where "lib_unpickle_in lib (ss_pickle_secret s) (snd p) = Some x"
    using inbound_entry [OF assms] by metis
  then show "export_entry lib s p \<noteq> None"
    by (auto simp: export_entry_def split: option.splits)
qed

lemma exported_exports:
  assumes "lib_ok lib" "session_inv lib s" "ss_pickle_secret s \<noteq> []"
    and "exportSessionKeys lib s = Some ks" "e \<in> set ks"
  shows "exports lib s e"
proof -
  obtain p where p: "fmlookup (ss_inbound s) (fst p) = Some (snd p)"
    "export_entry lib s p = Some (Some e)"
    using assms(4,5) export_entries_mem by (fastforce simp: exportSessionKeys_def)
  obtain i where i: "fst p = key_text lib i"
    using inbound_entry [OF assms(2,3) p(1)] by blast
  then have "export_entry lib s (key_text lib i, snd p) = Some (Some e)"
    using p(2) by (metis prod.collapse)
  then show ?thesis using export_entry_exports [OF assms(1)] p(1) i by metis
qed

lemma session_is_exported:
  assumes "lib_ok lib" "getInboundMegolmSession lib i s = Some x"
    and "getMegolmSessionData lib i s = Some d" "exportSessionKeys lib s = Some ks"
  obtains e where "e \<in> set ks" "imported_index e = i"
proof -
  obtain v where v: "fmlookup (ss_inbound s) (key_text lib i) = Some v"
    "lib_unpickle_in lib (ss_pickle_secret s) v = Some x"
    using assms(2) by (auto simp: getInboundMegolmSession_def split: option.splits)
  obtain j where "fmlookup (ss_session_data s) (key_text lib i) = Some j"
    "group_session_data_from_json j = Some d"
    using assms(3) by (auto simp: getMegolmSessionData_def split: option.splits)
  then obtain e where e: "export_entry lib s (key_text lib i, v) = Some (Some e)"
    using v by (simp add: export_entry_def index_of_key_text [OF assms(1)])
  then have "e \<in> set ks"
    using assms(4) v(1) export_entries_mem [of lib s _ ks e] by (force simp: exportSessionKeys_def)
  then show ?thesis using that export_entry_exports [OF assms(1) v(1) e] by blast
qed

lemma imports_at_same_index:
  assumes "lib_ok lib" "es_session_key e = lib_export_session lib x"
  obtains y where "lib_import_session lib (es_session_key e) = Some y"
    "lib_first_known_index lib y = lib_first_known_index lib x"
proof -
  have "\<exists>y. lib_import_session lib (es_session_key e) = Some y \<and>
      lib_first_known_index lib y = lib_first_known_index lib x"
    using assms by (simp add: lib_ok_def)
  then show ?thesis using that by blast
qed

text \<open>An entry of no lower index than what is stored is skipped.\<close>

lemma import_one_skips:
  assumes "lib_ok lib" "es_session_key e = lib_export_session lib x"
    and "getInboundMegolmSession lib (imported_index e) t = Some old"
    and "lib_first_known_index lib x = lib_first_known_index lib old"
  shows "import_one lib e t = t"
proof (cases rule: import_one_cases [of lib e t])
  case (stored y)
  moreover have "lib_first_known_index lib y = lib_first_known_index lib x"
    using imports_at_same_index [OF assms(1,2)] stored(1) by (metis option.inject)
  ultimately have False
    using assms(3,4) stored(3) by (auto simp: getInboundMegolmSession_def split: option.splits)
  then show ?thesis ..
qed

text \<open>Importing a store's own export changes nothing: every exported session meets itself at
  the same first index and is skipped, so no session loses its trust, its replay indices or the
  record of whom it was shared with.\<close>

theorem importing_own_export_changes_nothing:
  assumes "lib_ok lib" and "session_inv lib s" and "ss_pickle_secret s \<noteq> []"
  shows "\<exists>ks. exportSessionKeys lib s = Some ks \<and> importSessionKeys lib ks s = s"
proof -
  obtain ks where ks: "exportSessionKeys lib s = Some ks"
    using export_total [OF assms(2,3)] by blast
  have "import_one lib e s = s" if "e \<in> set ks" for e
    using exported_exports [OF assms ks that] import_one_skips [OF assms(1)]
    by (auto simp: exports_def)
  then have "fold (import_one lib) ks s = s"
    using fold_invariant [of "\<lambda>t. t = s" s ks "import_one lib"] by simp
  with ks show ?thesis by (auto simp: importSessionKeys_def)
qed

lemma importing_own_export_changes_nothing_witness:
  "\<exists>ks. exportSessionKeys demo_lib (run (session_step demo_lib) new_session_store demo_history) = Some ks \<and>
     importSessionKeys demo_lib ks (run (session_step demo_lib) new_session_store demo_history) =
       run (session_step demo_lib) new_session_store demo_history"
proof -
  let ?s = "run (session_step demo_lib) new_session_store demo_history"
  have g: "guarded_run (session_step demo_lib) session_guard new_session_store demo_history"
    and k: "ss_pickle_secret ?s \<noteq> []" by code_simp+
  show ?thesis
    by (rule importing_own_export_changes_nothing [OF demo_lib_ok sessions_run_inv [OF demo_lib_ok g] k])
qed

text \<open>The importing store holds nothing but copies of the exporting one.\<close>

definition mirrors :: "('i, 'g, 'o) olm_lib \<Rightarrow> session_store \<Rightarrow> session_store \<Rightarrow> megolm_session_index \<Rightarrow> bool" where
  "mirrors lib s t i \<longleftrightarrow>
     (\<exists>x y d. getInboundMegolmSession lib i s = Some x \<and> getMegolmSessionData lib i s = Some d \<and>
        getInboundMegolmSession lib i t = Some y \<and>
        getMegolmSessionData lib i t = Some (carried d) \<and>
        lib_first_known_index lib y = lib_first_known_index lib x)"

definition copies :: "('i, 'g, 'o) olm_lib \<Rightarrow> session_store \<Rightarrow> session_store \<Rightarrow> bool" where
  "copies lib s t \<longleftrightarrow> (\<forall>i. inboundMegolmSessionExists lib i t \<longrightarrow> mirrors lib s t i)"

lemma import_one_copies:
  assumes lib: "lib_ok lib" and c: "copies lib s t" and e: "exports lib s e"
  shows "copies lib s (import_one lib e t)
    \<and> inboundMegolmSessionExists lib (imported_index e) (import_one lib e t)
    \<and> (\<forall>i. inboundMegolmSessionExists lib i t \<longrightarrow> inboundMegolmSessionExists lib i (import_one lib e t))"
proof (cases "inboundMegolmSessionExists lib (imported_index e) t")
  case True
  then have "mirrors lib s t (imported_index e)" using c by (simp add: copies_def)
  then have "import_one lib e t = t"
    using e import_one_skips [OF lib] by (auto simp: mirrors_def exports_def)
  then show ?thesis using c True by simp
next
  case False
  obtain x d where x: "getInboundMegolmSession lib (imported_index e) s = Some x"
    "getMegolmSessionData lib (imported_index e) s = Some d"
    "es_session_key e = lib_export_session lib x" "imported_data e = carried d"
    using e by (auto simp: exports_def)
  obtain y where y: "lib_import_session lib (es_session_key e) = Some y"
    "lib_first_known_index lib y = lib_first_known_index lib x"
    using imports_at_same_index [OF lib x(3)] by blast
  let ?t = "import_one lib e t"
  have t: "?t = (put_inbound lib (imported_index e) y (carried d) t)
      \<lparr>ss_effects := ss_effects t @ [ReceivedSessionKey (es_room_id e) (es_session_id e)]\<rparr>"
    using False y(1) x(4) by (simp add: import_one_def inboundMegolmSessionExists_def)
  have own: "getInboundMegolmSession lib (imported_index e) ?t = Some y"
    "getMegolmSessionData lib (imported_index e) ?t = Some (carried d)"
    using lib unfolding t
    by (simp_all add: getInboundMegolmSession_def getMegolmSessionData_def put_inbound_def Let_def
        lib_ok_def group_session_data_read_back)
  have other: "getInboundMegolmSession lib i ?t = getInboundMegolmSession lib i t"
    "getMegolmSessionData lib i ?t = getMegolmSessionData lib i t"
    "inboundMegolmSessionExists lib i ?t = inboundMegolmSessionExists lib i t"
    if "i \<noteq> imported_index e" for i
    using that key_text_inject [OF lib, of "imported_index e" i] unfolding t
    by (simp_all add: getInboundMegolmSession_def getMegolmSessionData_def put_inbound_def Let_def
        inboundMegolmSessionExists_def cong: option.case_cong)
  have "mirrors lib s ?t (imported_index e)" using own x y(2) by (auto simp: mirrors_def)
  moreover have "inboundMegolmSessionExists lib (imported_index e) ?t"
    unfolding t by (simp add: inboundMegolmSessionExists_def put_inbound_def Let_def)
  ultimately show ?thesis using c other unfolding copies_def mirrors_def by metis
qed

lemma import_copies:
  assumes "lib_ok lib" "copies lib s t" "\<And>e. e \<in> set ks \<Longrightarrow> exports lib s e"
  shows "copies lib s (importSessionKeys lib ks t)
    \<and> (\<forall>e\<in>set ks. inboundMegolmSessionExists lib (imported_index e) (importSessionKeys lib ks t))
    \<and> (\<forall>i. inboundMegolmSessionExists lib i t \<longrightarrow> inboundMegolmSessionExists lib i (importSessionKeys lib ks t))"
  using assms(2,3) unfolding importSessionKeys_def
proof (induction ks arbitrary: t)
  case Nil
  then show ?case by simp
next
  case (Cons e ks)
  note step = import_one_copies [OF assms(1) Cons.prems(1), of e]
  have e: "exports lib s e" using Cons.prems(2) by simp
  then have c: "copies lib s (import_one lib e t)" using step by blast
  from Cons.IH [OF c] Cons.prems(2) step e show ?case by simp
qed

text \<open>C34: a backup moves every session to a fresh store: each inbound session that has its data is
  exported, and after importing the export there it opens, from the same first index, with the
  sender's keys and forwarding chain it had, but marked untrusted and without replay indices.\<close>

theorem exported_sessions_arrive:
  assumes "lib_ok lib" and "session_inv lib s" and "ss_pickle_secret s \<noteq> []"
    and "getInboundMegolmSession lib i s = Some x" and "getMegolmSessionData lib i s = Some d"
    and "ss_inbound t = fmempty"
  shows "\<exists>ks y. exportSessionKeys lib s = Some ks
    \<and> getInboundMegolmSession lib i (importSessionKeys lib ks t) = Some y
    \<and> lib_first_known_index lib y = lib_first_known_index lib x
    \<and> getMegolmSessionData lib i (importSessionKeys lib ks t) = Some (carried d)"
proof -
  obtain ks where ks: "exportSessionKeys lib s = Some ks"
    using export_total [OF assms(2,3)] by blast
  have "copies lib s t" using assms(6) by (simp add: copies_def inboundMegolmSessionExists_def)
  then have c: "copies lib s (importSessionKeys lib ks t)"
    "\<forall>e\<in>set ks. inboundMegolmSessionExists lib (imported_index e) (importSessionKeys lib ks t)"
    using import_copies [OF assms(1) _ exported_exports [OF assms(1-3) ks]] by blast+
  obtain e where "e \<in> set ks" "imported_index e = i"
    using session_is_exported [OF assms(1,4,5) ks] by blast
  then have "mirrors lib s (importSessionKeys lib ks t) i" using c by (auto simp: copies_def)
  with ks assms(4,5) show ?thesis by (auto simp: mirrors_def)
qed

lemma exported_sessions_arrive_witness:
  "\<exists>ks y. exportSessionKeys demo_lib (run (session_step demo_lib) new_session_store demo_history) = Some ks
    \<and> getInboundMegolmSession demo_lib demo_index (importSessionKeys demo_lib ks new_session_store) = Some y
    \<and> lib_first_known_index demo_lib y = 3"
proof -
  let ?s = "run (session_step demo_lib) new_session_store demo_history"
  have g: "guarded_run (session_step demo_lib) session_guard new_session_store demo_history"
    and k: "ss_pickle_secret ?s \<noteq> []"
    and v: "getInboundMegolmSession demo_lib demo_index ?s = Some ''aaa''"
    and d: "getMegolmSessionData demo_lib demo_index ?s = Some new_group_session_data"
    by code_simp+
  have t: "ss_inbound new_session_store = fmempty" by (simp add: new_session_store_def)
  from exported_sessions_arrive [OF demo_lib_ok sessions_run_inv [OF demo_lib_ok g] k v d t]
  obtain ks y where "exportSessionKeys demo_lib ?s = Some ks"
    "getInboundMegolmSession demo_lib demo_index (importSessionKeys demo_lib ks new_session_store) = Some y"
    "lib_first_known_index demo_lib y = lib_first_known_index demo_lib ''aaa''" by blast
  then show ?thesis by (simp add: demo_lib_def)
qed

end
