(* ===== verification/Session_Lifecycle.thy ===== *)
theory Session_Lifecycle
  imports Session_Transfer
begin

text \<open>
  The life of outbound and Olm sessions, of secrets over restarts and logout, and what the format
  version does to a store that a later version wrote.
\<close>

section \<open>Outbound sessions\<close>

text \<open>The life of a room's outbound session: after a save it and its data are read back, the
  data with the session's own message index; an update replaces both; a drop leaves the room
  without a session, so that no update brings it back, but keeps the session's data, so that the
  key can still be shared; the other rooms keep theirs.\<close>

theorem outbound_session_lifecycle:
  assumes "lib_ok lib"
    and "saved = saveOutboundMegolmSession lib r d g s"
    and "dropped = dropOutboundMegolmSession r saved"
  shows "getOutboundMegolmSession lib r saved =
      (Some g, d\<lparr>gs_message_index := ucast (lib_message_index lib g)\<rparr>)
    \<and> getOutboundMegolmSession lib r (updateOutboundMegolmSession lib r d' g' saved) =
      (Some g', d'\<lparr>gs_message_index := ucast (lib_message_index lib g')\<rparr>)
    \<and> getOutboundMegolmSession lib r dropped = (None, new_group_session_data)
    \<and> updateOutboundMegolmSession lib r d' g' dropped = dropped
    \<and> getMegolmSessionData lib \<lparr>ms_room_id = r, ms_session_id = lib_out_session_id lib g\<rparr> dropped =
      Some (d\<lparr>gs_message_index := ucast (lib_message_index lib g)\<rparr>)
    \<and> (r' \<noteq> r \<longrightarrow> getOutboundMegolmSession lib r' dropped = getOutboundMegolmSession lib r' s)"
proof -
  have same: "getOutboundMegolmSession lib r (saveOutboundMegolmSession lib r d g s) =
      (Some g, d\<lparr>gs_message_index := ucast (lib_message_index lib g)\<rparr>)" for d g s
    using assms(1)
    by (simp add: getOutboundMegolmSession_def saveOutboundMegolmSession_def Let_def lib_ok_def
        at_key_set_key group_session_data_read_back)
  have exists: "outboundMegolmSessionExists r saved"
    by (simp add: assms(2) outboundMegolmSessionExists_def saveOutboundMegolmSession_def Let_def)
  have dropped: "dropped = saved\<lparr>ss_outbound := fmdrop r (ss_outbound saved)\<rparr>"
    using exists by (simp add: assms(3) dropOutboundMegolmSession_def)
  have gone: "\<not> outboundMegolmSessionExists r dropped"
    by (simp add: dropped outboundMegolmSessionExists_def)
  have none: "getOutboundMegolmSession lib r dropped = (None, new_group_session_data)"
    by (simp add: dropped getOutboundMegolmSession_def)
  have data: "getMegolmSessionData lib \<lparr>ms_room_id = r, ms_session_id = lib_out_session_id lib g\<rparr> dropped =
      Some (d\<lparr>gs_message_index := ucast (lib_message_index lib g)\<rparr>)"
    by (simp add: dropped assms(2) getMegolmSessionData_def saveOutboundMegolmSession_def Let_def
        group_session_data_read_back)
  have other: "getOutboundMegolmSession lib r' dropped = getOutboundMegolmSession lib r' s" if "r' \<noteq> r"
    using that
    by (simp add: dropped assms(2) getOutboundMegolmSession_def saveOutboundMegolmSession_def Let_def
        key_text_inject [OF assms(1)] cong: option.case_cong)
  show ?thesis
    using same [of d g s] same [of d' g' saved] exists gone none data other
    by (simp add: assms(2) updateOutbound_eq)
qed

lemma outbound_session_lifecycle_witness:
  "getOutboundMegolmSession demo_lib ''!r''
     (dropOutboundMegolmSession ''!r''
       (saveOutboundMegolmSession demo_lib ''!r'' new_group_session_data ''T'' new_session_store)) =
   (None, new_group_session_data)"
  by (rule outbound_session_lifecycle [OF demo_lib_ok refl refl, THEN conjunct2, THEN conjunct2, THEN conjunct1])

section \<open>Olm sessions\<close>

definition stored_olm :: "string \<Rightarrow> session_store \<Rightarrow> string \<Rightarrow> stored_olm_session option" where
  "stored_olm c s n = fmlookup (sub_table c (ss_olm_sessions s)) n \<bind> stored_olm_session_from_json"

lemma newer_session_eq:
  "stored_olm_session_from_json (snd p) = Some st \<Longrightarrow>
   newer_session p acc = Some (Some (case acc of
       None \<Rightarrow> st | Some n \<Rightarrow> if so_last_message_ts n < so_last_message_ts st then st else n))"
  by (auto simp: newer_session_def split: option.splits)

lemma newest_of_fold:
  assumes "fold_opt newer_session xs acc = Some r"
  shows "(r = None \<longleftrightarrow> acc = None \<and> xs = []) \<and>
    (\<forall>st. r = Some st \<longrightarrow>
       (acc = Some st \<or> (\<exists>p\<in>set xs. stored_olm_session_from_json (snd p) = Some st)) \<and>
       (\<forall>p\<in>set xs. \<exists>st'. stored_olm_session_from_json (snd p) = Some st' \<and>
          so_last_message_ts st' \<le> so_last_message_ts st) \<and>
       (\<forall>a. acc = Some a \<longrightarrow> so_last_message_ts a \<le> so_last_message_ts st))"
  using assms
proof (induction xs arbitrary: acc)
  case Nil
  then show ?case by auto
next
  case (Cons p xs)
  obtain st where st: "stored_olm_session_from_json (snd p) = Some st"
    using Cons.prems by (auto simp: newer_session_def bind_eq_Some_conv)
  show ?case
  proof (cases acc)
    case None
    then have "fold_opt newer_session xs (Some st) = Some r"
      using Cons.prems by (simp add: newer_session_eq [OF st])
    from Cons.IH [OF this] show ?thesis using None st by auto
  next
    case (Some a)
    let ?next = "if so_last_message_ts a < so_last_message_ts st then st else a"
    have "fold_opt newer_session xs (Some ?next) = Some r"
      using Cons.prems Some by (simp add: newer_session_eq [OF st])
    from Cons.IH [OF this] show ?thesis using Some st by (fastforce split: if_splits)
  qed
qed

text \<open>The Olm session chosen for a device is stored for it, and no session stored for it was
  used later; there is none exactly when the device has no session at all.\<close>

theorem latest_olm_session_is_newest:
  assumes "getLatestOlmSession lib c s = Some latest"
  shows "case latest of
      None \<Rightarrow> getOlmSessions c s = []
    | Some x \<Rightarrow> \<exists>n st. stored_olm c s n = Some st
        \<and> lib_unpickle_olm lib (ss_pickle_secret s) (so_pickled_session st) = Some x
        \<and> (\<forall>n'\<in>set (getOlmSessions c s). \<exists>st'. stored_olm c s n' = Some st' \<and>
             so_last_message_ts st' \<le> so_last_message_ts st)"
proof -
  let ?xs = "sorted_list_of_fmap (sub_table c (ss_olm_sessions s))"
  obtain r where r: "fold_opt newer_session ?xs None = Some r"
    using assms by (auto simp: getLatestOlmSession_def bind_eq_Some_conv)
  note newest = newest_of_fold [OF r]
  show ?thesis
  proof (cases r)
    case None
    then show ?thesis
      using assms r newest by (auto simp: getLatestOlmSession_def getOlmSessions_def)
  next
    case (Some st)
    obtain x where x: "latest = Some x"
      "lib_unpickle_olm lib (ss_pickle_secret s) (so_pickled_session st) = Some x"
      using assms r Some by (auto simp: getLatestOlmSession_def bind_eq_Some_conv)
    obtain p where p: "p \<in> set ?xs" "stored_olm_session_from_json (snd p) = Some st"
      using newest Some by auto
    then have "stored_olm c s (fst p) = Some st" by (auto simp: stored_olm_def)
    moreover have "\<exists>st'. stored_olm c s n' = Some st' \<and> so_last_message_ts st' \<le> so_last_message_ts st"
      if "n' \<in> set (getOlmSessions c s)" for n'
    proof -
      have "n' \<in> fst ` set ?xs" using that unfolding getOlmSessions_def set_map .
      then obtain q where "q \<in> set ?xs" "fst q = n'" by blast
      then show ?thesis using newest Some by (fastforce simp: stored_olm_def)
    qed
    ultimately show ?thesis using x by auto
  qed
qed

lemma latest_olm_session_is_newest_witness:
  "\<exists>n st. stored_olm ''curve'' (run (session_step demo_lib) new_session_store demo_history) n = Some st
     \<and> demo_unseal ''key'' (so_pickled_session st) = Some ''two''"
proof -
  let ?s = "run (session_step demo_lib) new_session_store demo_history"
  have l: "getLatestOlmSession demo_lib ''curve'' ?s = Some (Some ''two'')"
    and k: "ss_pickle_secret ?s = ''key''" by code_simp+
  from latest_olm_session_is_newest [OF l] show ?thesis
    unfolding k by (auto simp: demo_lib_def)
qed

lemma fold_newer_total:
  "(\<And>p. p \<in> set xs \<Longrightarrow> stored_olm_session_from_json (snd p) \<noteq> None) \<Longrightarrow>
   fold_opt newer_session xs acc \<noteq> None"
proof (induction xs arbitrary: acc)
  case Nil
  then show ?case by simp
next
  case (Cons p xs)
  obtain st where st: "stored_olm_session_from_json (snd p) = Some st" using Cons.prems [of p] by auto
  show ?case using Cons.IH Cons.prems by (simp add: newer_session_eq [OF st])
qed

text \<open>A session saved with a later time than every session of the device becomes the one that
  is chosen, and reads back under its own name.\<close>

theorem just_used_session_is_chosen:
  assumes "lib_ok lib"
    and "\<forall>n\<in>set (getOlmSessions c s). n \<noteq> lib_olm_session_id lib x \<longrightarrow>
      (\<exists>st. stored_olm c s n = Some st \<and> so_last_message_ts st < ts)"
  shows "getLatestOlmSession lib c (saveOlmSession lib c x ts s) = Some (Some x)
    \<and> getOlmSession lib c (lib_olm_session_id lib x) (saveOlmSession lib c x ts s) = Some (Some x)"
proof -
  let ?s = "saveOlmSession lib c x ts s" and ?id = "lib_olm_session_id lib x"
  let ?new = "\<lparr>so_last_message_ts = ts, so_pickled_session = lib_pickle_olm lib (ss_pickle_secret s) x\<rparr>"
  let ?xs = "sorted_list_of_fmap (sub_table c (ss_olm_sessions ?s))"
  have k: "ss_pickle_secret ?s = ss_pickle_secret s" by (simp add: saveOlmSession_def Let_def)
  have tab: "sub_table c (ss_olm_sessions ?s) =
      fmupd ?id (stored_olm_session_to_json ?new) (sub_table c (ss_olm_sessions s))"
    by (simp add: saveOlmSession_def Let_def)
  have entry: "p = (?id, stored_olm_session_to_json ?new) \<or>
      (\<exists>st. stored_olm_session_from_json (snd p) = Some st \<and> so_last_message_ts st < ts)"
    if "p \<in> set ?xs" for p
  proof (cases "fst p = ?id")
    case True
    then show ?thesis using that tab by (cases p) auto
  next
    case False
    then have "fmlookup (sub_table c (ss_olm_sessions s)) (fst p) = Some (snd p)"
      using that tab by (cases p) auto
    then have "fst p \<in> set (getOlmSessions c s)" "stored_olm c s (fst p) = stored_olm_session_from_json (snd p)"
      by (force simp: getOlmSessions_def stored_olm_def)+
    then show ?thesis using assms(2) False by auto
  qed
  have mem: "(?id, stored_olm_session_to_json ?new) \<in> set ?xs" by (simp add: tab)
  have "fold_opt newer_session ?xs None \<noteq> None"
    using entry by (intro fold_newer_total) (fastforce simp: stored_olm_session_read_back)
  then obtain r where r: "fold_opt newer_session ?xs None = Some r" by blast
  note newest = newest_of_fold [OF r]
  then obtain st where st: "r = Some st" using mem by (metis empty_iff empty_set not_None_eq)
  have "ts \<le> so_last_message_ts st"
    using newest st mem by (force simp: stored_olm_session_read_back)
  moreover obtain p where "p \<in> set ?xs" "stored_olm_session_from_json (snd p) = Some st"
    using newest st by blast
  ultimately have "st = ?new"
    using entry [of p] by (auto simp: stored_olm_session_read_back)
  then show ?thesis
    using assms(1) r st
    by (simp add: getLatestOlmSession_def getOlmSession_def k tab lib_ok_def
        stored_olm_session_read_back)
qed

lemma just_used_session_is_chosen_witness:
  "getLatestOlmSession demo_lib ''curve''
     (saveOlmSession demo_lib ''curve'' ''one'' 12
       (run (session_step demo_lib) new_session_store demo_history)) = Some (Some ''one'')"
proof -
  let ?s = "run (session_step demo_lib) new_session_store demo_history"
  have l: "getOlmSessions ''curve'' ?s = [''one'', ''two'']" by code_simp
  have demo_id: "lib_olm_session_id demo_lib x = x" for x by (simp add: demo_lib_def)
  have "stored_olm ''curve'' ?s ''two'' = Some \<lparr>so_last_message_ts = 9, so_pickled_session = ''keytwo''\<rparr>"
    by code_simp
  then have h: "\<forall>n\<in>set (getOlmSessions ''curve'' ?s). n \<noteq> lib_olm_session_id demo_lib ''one'' \<longrightarrow>
      (\<exists>st. stored_olm ''curve'' ?s n = Some st \<and> so_last_message_ts st < 12)"
    unfolding l demo_id by simp
  show ?thesis by (rule just_used_session_is_chosen [OF demo_lib_ok h, THEN conjunct1])
qed

section \<open>Secrets\<close>

lemma secretName_inject: "secretName n i = secretName m j \<longleftrightarrow> n = m \<and> i = j"
  by (cases i; cases j) (auto simp: secretName_def)

lemma secrets_inv_frame:
  "ss_secrets s' = ss_secrets s \<Longrightarrow> ss_settings s' = ss_settings s \<Longrightarrow> secrets_inv s \<Longrightarrow> secrets_inv s'"
  by (simp add: secrets_inv_def)

lemma secrets_inv_step:
  assumes "secrets_inv s"
  shows "secrets_inv (session_step lib s e)"
proof (cases e)
  case (SaveInbound i x d)
  then show ?thesis
    using assms by (auto intro!: secrets_inv_frame [of _ s] simp: saveInboundMegolmSession_def
        split: option.splits)
next
  case (PickleSecret t)
  then show ?thesis using assms secrets_inv_pickleSecret by simp
next
  case (StoreSecret n v i)
  then show ?thesis using assms secrets_inv_storeSecret by simp
next
  case (DeleteSecret n i)
  then show ?thesis using assms secrets_inv_deleteSecret by simp
next
  case Restart
  then show ?thesis using secrets_inv_restart by simp
qed (use assms in \<open>auto intro!: secrets_inv_frame [of _ s] simp: updateOutbound_eq
      dropOutboundMegolmSession_def saveOlmSession_def saveOlmAccount_def saveBackupVersion_def
      deleteBackupVersion_def setEncryptedRoom_def setNextBatchToken_def removeInvite_def
      removeRoom_txn_def Let_def\<close>)

interpretation secrets: invariant_machine "session_step lib" secrets_inv for lib
  by unfold_locales (rule secrets_inv_step)

lemma secrets_inv_run: "secrets_inv (run (session_step lib) new_session_store es)"
  by (rule secrets.run_inv) (simp add: secrets_inv_def settings_synced_def new_session_store_def
      us_at_def saved_at_def)

text \<open>the secret storage is a map that survives restarts: a stored secret is read back and the
  other names keep theirs; a deleted one is gone; and after any history, a restart gives each
  secret that setup loads its old value, unless that value is empty, and no other secret.\<close>

theorem secrets_survive_restart:
  assumes "s = run (session_step lib) new_session_store es"
  shows "secret n i (storeSecret n v i s) = Some v
    \<and> secret n i (deleteSecret n i s) = None
    \<and> secret n i (restart s) =
        (if (n, i) \<in> set setup_secrets \<and> secret n i s \<noteq> Some [] then secret n i s else None)
    \<and> (secretName m j = secretName n i \<or>
        secret m j (storeSecret n v i s) = secret m j s \<and> secret m j (deleteSecret n i s) = secret m j s)"
proof -
  have inv: "secrets_inv s" unfolding assms by (rule secrets_inv_run)
  have set: "secretName n i \<in> (\<lambda>(n, i). secretName n i) ` set setup_secrets \<longleftrightarrow> (n, i) \<in> set setup_secrets"
    by (auto simp: secretName_inject intro!: rev_image_eqI)
  have "saved_at (secretName n i) (ss_settings s) = us_at (secretName n i) (ss_settings s)"
    using inv by (simp add: secrets_inv_def settings_synced_def)
  then have "secret n i (restart s) =
      (if (n, i) \<in> set setup_secrets \<and> us_at (secretName n i) (ss_settings s) \<noteq> []
       then Some (us_at (secretName n i) (ss_settings s)) else None)"
    by (simp add: secret_def restart_def loadSecrets_secrets secret_simps set)
  moreover have "(n, i) \<in> set setup_secrets \<Longrightarrow> secret n i s = None \<Longrightarrow>
      us_at (secretName n i) (ss_settings s) = []"
    using inv set by (simp add: secrets_inv_def secret_def setup_names_def)
  moreover have "secret n i s = Some w \<Longrightarrow> us_at (secretName n i) (ss_settings s) = w" for w
    using inv by (simp add: secrets_inv_def secret_def)
  ultimately have "secret n i (restart s) =
      (if (n, i) \<in> set setup_secrets \<and> secret n i s \<noteq> Some [] then secret n i s else None)"
    by (cases "secret n i s") auto
  then show ?thesis by (simp add: secret_def secret_ops_settings)
qed

lemma secrets_survive_restart_witness:
  "secret ''m.megolm_backup.v1'' False (restart (storeSecret ''m.megolm_backup.v1'' ''k'' False new_session_store)) = Some ''k''"
proof -
  let ?s = "run (session_step demo_lib) new_session_store [StoreSecret ''m.megolm_backup.v1'' ''k'' False]"
  have "secret ''m.megolm_backup.v1'' False ?s = Some ''k''" by code_simp
  then show ?thesis
    using secrets_survive_restart [OF refl [of ?s], of "''m.megolm_backup.v1''" False]
    by (simp add: setup_secrets_def)
qed

lemma deleteSecrets_gone:
  assumes "settings_synced (ss_settings s)"
  shows "settings_synced (ss_settings (deleteSecret n i s))"
    "us_at k (ss_settings (deleteSecret n i s)) = (if k = secretName n i then [] else us_at k (ss_settings s))"
    "fmlookup (ss_secrets (deleteSecret n i s)) k = (if k = secretName n i then None else fmlookup (ss_secrets s) k)"
  using assms by (auto simp: secret_ops_settings synced_deleteSecret secret_simps)

text \<open>C35: logging out forgets everything: no session, token or format entry is left, the database
  is closed, and the five secrets are gone from the storage and from the saved settings, so that
  no restart brings one back.\<close>

theorem logout_forgets_secrets_and_sessions:
  assumes "s = run (session_step lib) new_session_store es" and "ss_ready s"
    and "(n, i) \<in> set setup_secrets"
  shows "secret n i (deleteData s) = None \<and> secret n i (restart (deleteData s)) = None
    \<and> saved_at (secretName n i) (ss_settings (deleteData s)) = []
    \<and> no_sessions (deleteData s) \<and> \<not> isInitialized (deleteData s)
    \<and> nextBatchToken (deleteData s) = None \<and> formatVersion (deleteData s) = Older
    \<and> deleteData (deleteData s) = deleteData s"
proof -
  let ?d = "new_session_store
    \<lparr>ss_secrets := ss_secrets s, ss_settings := ss_settings s, ss_pickle_secret := ss_pickle_secret s,
     ss_open := False, ss_effects := ss_effects s\<rparr>"
  have "settings_synced (ss_settings s)"
    unfolding assms(1) using secrets_inv_run [of lib es] by (simp add: secrets_inv_def)
  then have d: "settings_synced (ss_settings ?d)" by simp
  have synced: "settings_synced (ss_settings (deleteData s))"
    using assms(2) d by (simp add: deleteData_def deleteSecrets_gone)
  have gone: "us_at (secretName n i) (ss_settings (deleteData s)) = []"
    "fmlookup (ss_secrets (deleteData s)) (secretName n i) = None"
    using assms(2,3) d
    by (auto simp: deleteData_def deleteSecrets_gone secretName_inject setup_secrets_def)
  have saved: "saved_at (secretName n i) (ss_settings (deleteData s)) = []"
    using synced gone(1) by (simp add: settings_synced_def)
  have flags: "\<not> ss_ready (deleteData s)" "\<not> ss_open (deleteData s)" "ss_format (deleteData s) = None"
    using assms(2) by (simp_all add: deleteData_def deleteSecret_def Let_def new_session_store_def)
  have "no_sessions (deleteData s)"
    using assms(2) by (simp add: no_sessions_def deleteData_def new_session_store_def sub_table_def)
  moreover have "secret n i (restart (deleteData s)) = None"
    using saved by (simp add: secret_def restart_def loadSecrets_secrets secret_simps)
  moreover have "deleteData (deleteData s) = deleteData s"
    using flags(1) by (simp add: deleteData_def [of "deleteData s"])
  ultimately show ?thesis
    using gone saved flags
    by (simp add: secret_def isInitialized_def nextBatchToken_def formatVersion_def)
qed

lemma logout_forgets_secrets_and_sessions_witness:
  "secret ''pickle_secret'' True
     (deleteData (run (session_step demo_lib) new_session_store (Restart # demo_history))) = None"
proof -
  let ?s = "run (session_step demo_lib) new_session_store (Restart # demo_history)"
  have r: "ss_ready ?s" by code_simp
  have m: "(''pickle_secret'', True) \<in> set setup_secrets" by (simp add: setup_secrets_def)
  show ?thesis by (rule logout_forgets_secrets_and_sessions [OF refl r m, THEN conjunct1])
qed

section \<open>Format version\<close>

lemma run_migrations_none_newer:
  "\<forall>(target, m)\<in>set ms. target \<le> stored \<Longrightarrow> run_migrations stored ms s = (setCurrentFormat s, True)"
  by (induction ms) auto

text \<open>a store that a later version wrote is never recognised as newer: its version is reported
  as \<open>Older\<close>, the migrations that then run skip every step, and the store is relabelled with
  the current version, so that the next start accepts it as current.\<close>

theorem newer_store_is_relabelled:
  assumes "ss_format s = Some stored" and "stored > current_cache_format_version"
    and "\<forall>(target, m)\<in>set migrations. target \<le> current_cache_format_version"
  shows "formatVersion s = Older
    \<and> runMigrations migrations s = (setCurrentFormat s, True)
    \<and> formatVersion (fst (runMigrations migrations s)) = Current
    \<and> (\<forall>t. formatVersion t \<noteq> Newer)"
proof -
  have "\<forall>(target, m)\<in>set migrations. target \<le> stored"
    using assms(2,3) by (auto intro: order.trans less_imp_le)
  then have "runMigrations migrations s = (setCurrentFormat s, True)"
    using assms(1) run_migrations_none_newer by (simp add: runMigrations_def)
  then show ?thesis
    using assms(1,2) by (auto simp: formatVersion_def setCurrentFormat_def split: option.splits)
qed

lemma newer_store_is_relabelled_witness:
  "formatVersion (new_session_store\<lparr>ss_format := Some ''2023.03.12''\<rparr>) = Older"
proof -
  have v: "''2023.03.12'' > current_cache_format_version" by code_simp
  have m: "\<forall>(target, m)\<in>set [(''2022.04.08'', \<lambda>s. (s, True))]. target \<le> current_cache_format_version"
    by (simp add: current_cache_format_version_def)
  have f: "ss_format (new_session_store\<lparr>ss_format := Some ''2023.03.12''\<rparr>) = Some ''2023.03.12''" by simp
  show ?thesis by (rule newer_store_is_relabelled [OF f v m, THEN conjunct1])
qed

end
