(* ===== verification/Olm_Client.thy ===== *)
theory Olm_Client
  imports Verification_Flow Session_Store User_Keys
begin

text \<open>
  The state and the sending side of \<open>src/src/encryption/Olm.cpp\<close>. The functions there work on the
  cache (the session store and the key store of this development), on the Olm account, and on two
  static maps: the secret requests in flight and the times of the last one-time key claims.

  libolm, mtxclient and the settings are the fields of \<open>olm_env\<close>. Network requests and calls of the
  client object are appended to \<open>os_effects\<close>; the callbacks of requests are operations of their own.
  Random values, transaction ids and the time are arguments.
\<close>

section \<open>Messages\<close>

datatype request_action = Request | Cancellation

record secret_request =
  sr_action :: request_action
  sr_name :: string
  sr_requesting_device_id :: string
  sr_request_id :: string

record key_request =
  kr_action :: request_action
  kr_algorithm :: string
  kr_room_id :: string
  kr_session_id :: string
  kr_sender_key :: string
  kr_request_id :: string
  kr_requesting_device_id :: string

record room_key =
  rmk_room_id :: string
  rmk_session_id :: string
  rmk_session_key :: string

record forwarded_key =
  fk_room_id :: string
  fk_session_id :: string
  fk_session_key :: string
  fk_sender_key :: string
  fk_sender_claimed_ed25519_key :: string
  fk_forwarding_curve25519_key_chain :: "string list"

text \<open>The events that are sent encrypted to single devices.\<close>

datatype outgoing =
    OutRoomKey room_key
  | OutForwardedKey forwarded_key
  | OutSecret string string
  | OutDummy

text \<open>A to-device event after parsing. Verification messages are the events of the verification
  flow; requests and start messages carry the sender the event names.\<close>

datatype device_event =
    DeVerification flow_event
  | DeRequest request_msg "string option" string
  | DeStart start_msg string
  | DeRoomKey room_key
  | DeForwardedKey forwarded_key
  | DeSecretSend string string
  | DeSecretRequest secret_request
  | DeOther

record cipher_content =
  cc_type :: nat
  cc_body :: string

record olm_message =
  om_sender_key :: string
  om_sender :: string
  om_ciphertext :: "(string, cipher_content) fmap"

section \<open>Environment and state\<close>

record encryption_settings =
  enc_rotation_period_ms :: u64
  enc_rotation_period_msgs :: u64

datatype group_decrypt_error = UnknownMessageIndex | OtherOlmError

record ('i, 'g, 'o, 'a, 'c) olm_env =
  oe_lib :: "('i, 'g, 'o) olm_lib"
  oe_keys :: key_env
  oe_curve25519 :: string
  oe_random_token :: string
  oe_use_online_backup :: bool
  oe_share_with_trusted :: bool
  oe_only_verified :: bool
  oe_save_account :: "string \<Rightarrow> 'a \<Rightarrow> string"
  oe_create_inbound :: "'a \<Rightarrow> string \<Rightarrow> string \<Rightarrow> ('a \<times> 'o) option"
  oe_matches_inbound :: "'o \<Rightarrow> string \<Rightarrow> string \<Rightarrow> bool"
  oe_create_outbound :: "string \<Rightarrow> string \<Rightarrow> 'o option"
  oe_olm_decrypt :: "'o \<Rightarrow> cipher_content \<Rightarrow> ('o \<times> string) option"
  oe_olm_encrypt :: "'o \<Rightarrow> outgoing \<Rightarrow> string \<Rightarrow> string \<Rightarrow> string \<Rightarrow> 'o \<times> 'c"
  oe_init_inbound :: "string \<Rightarrow> 'i option"
  oe_group_decrypt :: "'i \<Rightarrow> string \<Rightarrow> group_decrypt_error + ('i \<times> string \<times> 32 word)"
  oe_session_key :: "'g \<Rightarrow> string"
  oe_group_encrypt :: "'g \<Rightarrow> string \<Rightarrow> 'g \<times> string"
  oe_export_at :: "'i \<Rightarrow> 32 word \<Rightarrow> string option"
  oe_parse :: "string \<Rightarrow> json option"
  oe_parse_event :: "json \<Rightarrow> device_event option"
  oe_verify_signature :: "string \<Rightarrow> json \<Rightarrow> string \<Rightarrow> bool"
  oe_verify_identity :: "device_keys \<Rightarrow> string \<Rightarrow> string \<Rightarrow> bool"
  oe_encrypt_backup :: "string \<Rightarrow> exported_session \<Rightarrow> string option"
  oe_encryption_content :: "json \<Rightarrow> encryption_settings option"
  oe_default_encryption :: encryption_settings

abbreviation oe_user_id :: "('i, 'g, 'o, 'a, 'c) olm_env \<Rightarrow> string" where
  "oe_user_id env \<equiv> ke_local_user (oe_keys env)"

abbreviation oe_device_id :: "('i, 'g, 'o, 'a, 'c) olm_env \<Rightarrow> string" where
  "oe_device_id env \<equiv> ke_device_id (oe_keys env)"

abbreviation oe_ed25519 :: "('i, 'g, 'o, 'a, 'c) olm_env \<Rightarrow> string" where
  "oe_ed25519 env \<equiv> ke_identity_ed25519 (oe_keys env)"

type_synonym 'v per_device = "(string, (string, 'v) fmap) fmap"

datatype 'c olm_effect =
    SendOlmMessages "'c per_device"
  | ClaimKeys "(string, string fset) fmap" outgoing "device_public_keys per_device"
  | QueryDeviceKeys "(string, string list) fmap" outgoing
  | QuerySender olm_message string
  | ReceivedVerification flow_event
  | ReceivedRequest request_msg "string option" string
  | ReceivedStart start_msg string
  | SessionKeyReceived string string
  | PutRoomKeys string megolm_session_index "32 word" nat string
  | GetRoomKeys string
  | GetRoomKey string string string
  | ImportLater "exported_session list"
  | SendSecretRequest secret_request "string fset"
  | SendKeyRequest key_request "string fset"
  | DownloadSecretKey string "(string, string) fmap"

record ('a, 'c) olm_state =
  os_store :: session_store
  os_keys :: key_store
  os_account :: 'a
  os_requests :: "(string, string) fmap"
  os_rate_limit :: "(string \<times> string, int) fmap"
  os_effects :: "'c olm_effect list"

definition emit :: "'c olm_effect \<Rightarrow> ('a, 'c) olm_state \<Rightarrow> ('a, 'c) olm_state" where
  "emit e st = st\<lparr>os_effects := os_effects st @ [e]\<rparr>"

definition map_store :: "(session_store \<Rightarrow> session_store) \<Rightarrow> ('a, 'c) olm_state \<Rightarrow> ('a, 'c) olm_state" where
  "map_store f st = st\<lparr>os_store := f (os_store st)\<rparr>"

definition own_status ::
    "('i, 'g, 'o, 'a, 'c) olm_env \<Rightarrow> string \<Rightarrow> ('a, 'c) olm_state
      \<Rightarrow> ('a, 'c) olm_state \<times> verification_status" where
  "own_status env user st =
     (let (ks, v) = verificationStatus (oe_keys env) user (os_keys st) in (st\<lparr>os_keys := ks\<rparr>, v))"

definition put2 :: "'k \<Rightarrow> 'l \<Rightarrow> 'v \<Rightarrow> ('k, ('l, 'v) fmap) fmap \<Rightarrow> ('k, ('l, 'v) fmap) fmap" where
  "put2 k l v m = fmupd k (fmupd l v (sub_table k m)) m"

section \<open>Sending to devices\<close>

text \<open>What \<open>send_encrypted_to_device_messages\<close> collects while it goes over its targets. After an
  exception nothing more happens, and what was collected is lost.\<close>

record ('a, 'c) send_acc =
  sa_state :: "('a, 'c) olm_state"
  sa_messages :: "'c per_device"
  sa_keys :: "device_public_keys per_device"
  sa_query :: "(string, string list) fmap"
  sa_ok :: bool

definition claim_interval :: int where
  "claim_interval = 60 * 60 * 10"

definition last_claim :: "string \<Rightarrow> string \<Rightarrow> ('a, 'c) olm_state \<Rightarrow> int" where
  "last_claim user device st =
     (case fmlookup (os_rate_limit st) (user, device) of None \<Rightarrow> 0 | Some t \<Rightarrow> t)"

text \<open>The device has its two keys and is not our own.\<close>

definition start_claim ::
    "int \<Rightarrow> string \<Rightarrow> string \<Rightarrow> string \<Rightarrow> string \<Rightarrow> ('a, 'c) send_acc \<Rightarrow> ('a, 'c) send_acc" where
  "start_claim now user device ed curve acc =
     (if last_claim user device (sa_state acc) + claim_interval < now then
        acc\<lparr>sa_keys := put2 user device \<lparr>dp_ed25519 = ed, dp_curve25519 = curve\<rparr> (sa_keys acc),
            sa_state := (sa_state acc)
              \<lparr>os_rate_limit := fmupd (user, device) now (os_rate_limit (sa_state acc))\<rparr>\<rparr>
      else acc)"

definition send_to_session ::
    "('i, 'g, 'o, 'a, 'c) olm_env \<Rightarrow> u64 \<Rightarrow> outgoing \<Rightarrow> string \<Rightarrow> string \<Rightarrow> string \<Rightarrow> string \<Rightarrow> 'o
      \<Rightarrow> ('a, 'c) send_acc \<Rightarrow> ('a, 'c) send_acc" where
  "send_to_session env ms ev user device ed curve session acc =
     (let (session', content) = oe_olm_encrypt env session ev user ed curve
      in acc\<lparr>sa_messages := put2 user device content (sa_messages acc),
             sa_state := map_store (saveOlmSession (oe_lib env) curve session' ms) (sa_state acc)\<rparr>)"

fun send_devices ::
    "('i, 'g, 'o, 'a, 'c) olm_env \<Rightarrow> int \<Rightarrow> u64 \<Rightarrow> outgoing \<Rightarrow> bool \<Rightarrow> string \<Rightarrow> (string, device_keys) fmap
      \<Rightarrow> string list \<Rightarrow> ('a, 'c) send_acc \<Rightarrow> ('a, 'c) send_acc" where
  "send_devices env now ms ev force user dks [] acc = acc"
| "send_devices env now ms ev force user dks (device # devices) acc =
     (case fmlookup dks device of
        None \<Rightarrow> acc\<lparr>sa_query := fmupd user [] (sa_query acc)\<rparr>
      | Some d \<Rightarrow>
          (case (fmlookup (dk_keys d) (''curve25519:'' @ device), fmlookup (dk_keys d) (''ed25519:'' @ device)) of
             (Some curve, Some ed) \<Rightarrow>
               if curve = oe_curve25519 env then send_devices env now ms ev force user dks devices acc
               else
                 (case getLatestOlmSession (oe_lib env) curve (os_store (sa_state acc)) of
                    None \<Rightarrow> acc\<lparr>sa_ok := False\<rparr>
                  | Some latest \<Rightarrow>
                      send_devices env now ms ev force user dks devices
                        (case latest of
                           Some session \<Rightarrow>
                             if force then start_claim now user device ed curve acc
                             else send_to_session env ms ev user device ed curve session acc
                         | None \<Rightarrow> start_claim now user device ed curve acc))
           | _ \<Rightarrow> send_devices env now ms ev force user dks devices acc))"

definition send_user ::
    "('i, 'g, 'o, 'a, 'c) olm_env \<Rightarrow> int \<Rightarrow> u64 \<Rightarrow> outgoing \<Rightarrow> bool \<Rightarrow> string \<times> string list
      \<Rightarrow> ('a, 'c) send_acc \<Rightarrow> ('a, 'c) send_acc" where
  "send_user env now ms ev force p acc =
     (let (user, devices) = p
      in if \<not> sa_ok acc then acc
         else case fmlookup (ks_user_keys (os_keys (sa_state acc))) user of
                None \<Rightarrow> acc\<lparr>sa_query := fmupd user devices (sa_query acc)\<rparr>
              | Some k \<Rightarrow>
                  send_devices env now ms ev force user (uk_device_keys k)
                    (if devices = [] then map fst (sorted_list_of_fmap (uk_device_keys k)) else devices)
                    acc)"

definition claimed_devices :: "device_public_keys per_device \<Rightarrow> (string, string fset) fmap" where
  "claimed_devices pks = fmmap fmdom pks"

definition emit_unless :: "bool \<Rightarrow> 'c olm_effect \<Rightarrow> ('a, 'c) olm_state \<Rightarrow> ('a, 'c) olm_state" where
  "emit_unless b e st = (if b then st else emit e st)"

definition send_encrypted_to_device_messages ::
    "('i, 'g, 'o, 'a, 'c) olm_env \<Rightarrow> int \<Rightarrow> u64 \<Rightarrow> (string, string list) fmap \<Rightarrow> outgoing \<Rightarrow> bool
      \<Rightarrow> ('a, 'c) olm_state \<Rightarrow> ('a, 'c) olm_state \<times> bool" where
  "send_encrypted_to_device_messages env now ms targets ev force st =
     (let acc = fold (send_user env now ms ev force) (sorted_list_of_fmap targets)
                  \<lparr>sa_state = st, sa_messages = fmempty, sa_keys = fmempty, sa_query = fmempty, sa_ok = True\<rparr>
      in if \<not> sa_ok acc then (sa_state acc, False)
         else
           (emit_unless (sa_query acc = fmempty) (QueryDeviceKeys (sa_query acc) ev)
             (emit_unless (sa_keys acc = fmempty) (ClaimKeys (claimed_devices (sa_keys acc)) ev (sa_keys acc))
               (emit_unless (sa_messages acc = fmempty) (SendOlmMessages (sa_messages acc))
                 (sa_state acc))), True))"

section \<open>Claimed keys\<close>

text \<open>\<open>signedKey["signatures"][user].value("ed25519:" + device, "")\<close>: a missing key of the first two
  reads becomes null, of which the third throws.\<close>

definition key_signature :: "string \<Rightarrow> string \<Rightarrow> json \<Rightarrow> string option" where
  "key_signature user device j =
     (case at_key ''signatures'' j \<bind> at_key user of
        None \<Rightarrow> None
      | Some s \<Rightarrow> value_or (''ed25519:'' @ device) get_str [] s)"

text \<open>The first of the one-time keys the server returned for a device.\<close>

fun first_value :: "json \<Rightarrow> json option" where
  "first_value (JObj m) = (case sorted_list_of_fmap m of [] \<Rightarrow> None | p # _ \<Rightarrow> Some (snd p))"
| "first_value (JArr js) = (case js of [] \<Rightarrow> None | j # _ \<Rightarrow> Some j)"
| "first_value JNull = None"
| "first_value j = Some j"

definition claim_device ::
    "('i, 'g, 'o, 'a, 'c) olm_env \<Rightarrow> u64 \<Rightarrow> outgoing \<Rightarrow> device_public_keys per_device \<Rightarrow> string
      \<Rightarrow> string \<times> json \<Rightarrow> ('a, 'c) send_acc \<Rightarrow> ('a, 'c) send_acc" where
  "claim_device env ms ev pks user p acc =
     (let (device, keys) = p
      in if \<not> sa_ok acc then acc
         else case first_value keys of
                None \<Rightarrow> acc
              | Some signedKey \<Rightarrow>
                  if \<not> has_key ''key'' signedKey then acc
                  else
                    (case (at_key ''key'' signedKey \<bind> get_str, fmlookup pks user \<bind> (\<lambda>m. fmlookup m device),
                           key_signature user device signedKey) of
                       (Some otk, Some pk, Some sig) \<Rightarrow>
                         if sig = [] \<or> \<not> oe_verify_signature env (dp_ed25519 pk) signedKey sig then acc
                         else
                           (case oe_create_outbound env (dp_curve25519 pk) otk of
                              None \<Rightarrow> acc\<lparr>sa_ok := False\<rparr>
                            | Some session \<Rightarrow>
                                send_to_session env ms ev user device (dp_ed25519 pk) (dp_curve25519 pk) session acc)
                     | _ \<Rightarrow> acc\<lparr>sa_ok := False\<rparr>))"

text \<open>The reply to \<open>ClaimKeys\<close>.\<close>

definition handle_claimed_keys ::
    "('i, 'g, 'o, 'a, 'c) olm_env \<Rightarrow> u64 \<Rightarrow> outgoing \<Rightarrow> device_public_keys per_device \<Rightarrow> json per_device
      \<Rightarrow> ('a, 'c) olm_state \<Rightarrow> ('a, 'c) olm_state" where
  "handle_claimed_keys env ms ev pks res st =
     (let acc = fold (\<lambda>(user, devices). fold (claim_device env ms ev pks user) (sorted_list_of_fmap devices))
                  (sorted_list_of_fmap res)
                  \<lparr>sa_state = st, sa_messages = fmempty, sa_keys = fmempty, sa_query = fmempty, sa_ok = True\<rparr>
      in if \<not> sa_ok acc then sa_state acc
         else emit_unless (sa_messages acc = fmempty) (SendOlmMessages (sa_messages acc)) (sa_state acc))"

section \<open>Queried device keys\<close>

record ('a, 'c) query_acc =
  qa_state :: "('a, 'c) olm_state"
  qa_keys :: "device_public_keys per_device"
  qa_claims :: "(string, string fset) fmap"

definition emplace2 :: "string \<Rightarrow> string \<Rightarrow> 'v \<Rightarrow> 'v per_device \<Rightarrow> 'v per_device" where
  "emplace2 k l v m = fmupd k (emplace (l, v) (sub_table k m)) m"

text \<open>The keys are filed under the user the device's keys name, the claim under the user of the
  reply.\<close>

definition query_device ::
    "('i, 'g, 'o, 'a, 'c) olm_env \<Rightarrow> int \<Rightarrow> string \<Rightarrow> device_keys \<Rightarrow> ('a, 'c) query_acc \<Rightarrow> ('a, 'c) query_acc" where
  "query_device env now user d acc =
     (let user_id = dk_user_id d; device_id = dk_device_id d
      in if user_id = oe_user_id env \<and> device_id = oe_device_id env then acc
         else
           case (fmlookup (dk_keys d) (''curve25519:'' @ device_id), fmlookup (dk_keys d) (''ed25519:'' @ device_id)) of
             (Some curve, Some ed) \<Rightarrow>
               if curve = oe_curve25519 env \<or> \<not> oe_verify_identity env d device_id user_id then acc
               else if last_claim user device_id (qa_state acc) + claim_interval < now then
                 acc\<lparr>qa_keys := emplace2 user_id device_id \<lparr>dp_ed25519 = ed, dp_curve25519 = curve\<rparr> (qa_keys acc),
                     qa_claims := fmupd user (finsert device_id
                       (case fmlookup (qa_claims acc) user of None \<Rightarrow> {||} | Some S \<Rightarrow> S)) (qa_claims acc),
                     qa_state := (qa_state acc)
                       \<lparr>os_rate_limit := fmupd (user, device_id) now (os_rate_limit (qa_state acc))\<rparr>\<rparr>
               else acc
           | _ \<Rightarrow> acc)"

text \<open>The reply to \<open>QueryDeviceKeys\<close>; \<open>None\<close> is a failed request.\<close>

definition handle_queried_keys ::
    "('i, 'g, 'o, 'a, 'c) olm_env \<Rightarrow> int \<Rightarrow> outgoing \<Rightarrow> query_keys_response option
      \<Rightarrow> ('a, 'c) olm_state \<Rightarrow> ('a, 'c) olm_state" where
  "handle_queried_keys env now ev res st =
     (case (res, nextBatchToken (os_store st)) of
        (Some q, Some token) \<Rightarrow>
          (let st = st\<lparr>os_keys := updateUserKeys (oe_keys env) token q (os_keys st)\<rparr>;
               acc = fold (\<lambda>(user, devices). fold (query_device env now user) (map snd (sorted_list_of_fmap devices)))
                       (sorted_list_of_fmap (qk_device_keys q))
                       \<lparr>qa_state = st, qa_keys = fmempty, qa_claims = fmempty\<rparr>
           in emit_unless (qa_claims acc = fmempty) (ClaimKeys (qa_claims acc) ev (qa_keys acc)) (qa_state acc))
      | _ \<Rightarrow> st)"

end
