(* ===== verification/Olm_Receiving.thy ===== *)
theory Olm_Receiving
  imports Olm_Client
begin

text \<open>
  The receiving side of \<open>src/src/encryption/Olm.cpp\<close>: Olm messages, room keys and forwarded keys,
  key requests, secrets, and the online key backup.

  A JSON or libolm exception that leaves a function ends the handling of the message; the state
  stays as far as it was committed. \<open>Threw\<close> marks it where callers go on differently.
\<close>

section \<open>Decrypting an Olm message\<close>

datatype 'r outcome = Threw | Done 'r

text \<open>The session that decrypted the message is saved under its own id, not under the sender's
  key. A plaintext that does not parse lets the loop go on.\<close>

fun try_sessions ::
    "('i, 'g, 'o, 'a, 'c) olm_env \<Rightarrow> u64 \<Rightarrow> string \<Rightarrow> cipher_content \<Rightarrow> string list
      \<Rightarrow> ('a, 'c) olm_state \<Rightarrow> ('a, 'c) olm_state \<times> json outcome" where
  "try_sessions env ms sender_key msg [] st = (st, Done JNull)"
| "try_sessions env ms sender_key msg (n # ids) st =
     (case getOlmSession (oe_lib env) sender_key n (os_store st) of
        None \<Rightarrow> (st, Threw)
      | Some None \<Rightarrow> try_sessions env ms sender_key msg ids st
      | Some (Some session) \<Rightarrow>
          (case oe_olm_decrypt env session msg of
             None \<Rightarrow> try_sessions env ms sender_key msg ids st
           | Some (session', text) \<Rightarrow>
               let st = map_store (saveOlmSession (oe_lib env) n session' ms) st
               in case oe_parse env text of
                    Some j \<Rightarrow> (st, Done j)
                  | None \<Rightarrow> try_sessions env ms sender_key msg ids st))"

definition try_olm_decryption ::
    "('i, 'g, 'o, 'a, 'c) olm_env \<Rightarrow> u64 \<Rightarrow> string \<Rightarrow> cipher_content
      \<Rightarrow> ('a, 'c) olm_state \<Rightarrow> ('a, 'c) olm_state \<times> json outcome" where
  "try_olm_decryption env ms sender_key msg st =
     try_sessions env ms sender_key msg (getOlmSessions sender_key (os_store st)) st"

definition save_account ::
    "('i, 'g, 'o, 'a, 'c) olm_env \<Rightarrow> ('a, 'c) olm_state \<Rightarrow> ('a, 'c) olm_state" where
  "save_account env st =
     (let (s, k) = pickleSecret (oe_random_token env) (os_store st)
      in st\<lparr>os_store := saveOlmAccount (oe_save_account env k (os_account st)) s\<rparr>)"

text \<open>The account after \<open>mark_keys_as_published\<close> of the Olm client is an argument.\<close>

definition mark_keys_as_published ::
    "('i, 'g, 'o, 'a, 'c) olm_env \<Rightarrow> 'a \<Rightarrow> ('a, 'c) olm_state \<Rightarrow> ('a, 'c) olm_state" where
  "mark_keys_as_published env account st = save_account env (st\<lparr>os_account := account\<rparr>)"

definition handle_pre_key_olm_message ::
    "('i, 'g, 'o, 'a, 'c) olm_env \<Rightarrow> u64 \<Rightarrow> string \<Rightarrow> cipher_content
      \<Rightarrow> ('a, 'c) olm_state \<Rightarrow> ('a, 'c) olm_state \<times> json outcome" where
  "handle_pre_key_olm_message env ms sender_key content st =
     (case oe_create_inbound env (os_account st) sender_key (cc_body content) of
        None \<Rightarrow> (st, Done JNull)
      | Some (account, session) \<Rightarrow>
          let st = save_account env (st\<lparr>os_account := account\<rparr>)
          in if \<not> oe_matches_inbound env session sender_key (cc_body content) then (st, Done JNull)
             else case oe_olm_decrypt env session content of
                    None \<Rightarrow> (st, Done JNull)
                  | Some (session', text) \<Rightarrow>
                      (case oe_parse env text of
                         None \<Rightarrow> (st, Threw)
                       | Some j \<Rightarrow>
                           (map_store (saveOlmSession (oe_lib env) sender_key session' ms) st, Done j)))"

section \<open>Key backup\<close>

text \<open>\<open>oe_encrypt_backup\<close> reads the backup key and encrypts; either may throw, which is caught.\<close>

definition backup_session_key ::
    "('i, 'g, 'o, 'a, 'c) olm_env \<Rightarrow> megolm_session_index \<Rightarrow> group_session_data \<Rightarrow> 'i
      \<Rightarrow> ('a, 'c) olm_state \<Rightarrow> ('a, 'c) olm_state" where
  "backup_session_key env idx data session st =
     (if \<not> oe_use_online_backup env then st
      else case (backupVersion (os_store st), secret ''m.megolm_backup.v1'' False (os_store st)) of
             (Some v, Some k) \<Rightarrow>
               (case oe_encrypt_backup env k
                  \<lparr>es_room_id = ms_room_id idx, es_session_id = ms_session_id idx,
                   es_session_key = lib_export_session (oe_lib env) session,
                   es_sender_key = gs_sender_key data,
                   es_sender_claimed_keys = fmap_of_list [(''ed25519'', gs_sender_claimed_ed25519_key data)],
                   es_forwarding_curve25519_key_chain = gs_forwarding_curve25519_key_chain data\<rparr> of
                  None \<Rightarrow> st
                | Some text \<Rightarrow>
                    emit (PutRoomKeys (ob_version v) idx (lib_first_known_index (oe_lib env) session)
                      (length (gs_forwarding_curve25519_key_chain data)) text) st)
           | _ \<Rightarrow> st)"

text \<open>The two ways to ask the backup, and the replies with the decrypted entries; \<open>None\<close> is an
  error of the request or of decryption. An entry of another algorithm ends a download.\<close>

definition download_full_keybackup ::
    "('i, 'g, 'o, 'a, 'c) olm_env \<Rightarrow> ('a, 'c) olm_state \<Rightarrow> ('a, 'c) olm_state" where
  "download_full_keybackup env st =
     (if \<not> oe_use_online_backup env then st
      else case (backupVersion (os_store st), secret ''m.megolm_backup.v1'' False (os_store st)) of
             (Some v, Some k) \<Rightarrow> emit (GetRoomKeys (ob_version v)) st
           | _ \<Rightarrow> st)"

fun backup_sessions :: "(exported_session \<times> bool) list \<Rightarrow> exported_session list option" where
  "backup_sessions [] = Some []"
| "backup_sessions ((s, megolm) # ss) = (if megolm then map_option ((#) s) (backup_sessions ss) else None)"

definition handle_full_keybackup ::
    "(exported_session \<times> bool) list option \<Rightarrow> ('a, 'c) olm_state \<Rightarrow> ('a, 'c) olm_state" where
  "handle_full_keybackup res st =
     (case res \<bind> backup_sessions of None \<Rightarrow> st | Some keys \<Rightarrow> emit (ImportLater keys) st)"

definition lookup_keybackup ::
    "('i, 'g, 'o, 'a, 'c) olm_env \<Rightarrow> string \<Rightarrow> string \<Rightarrow> ('a, 'c) olm_state \<Rightarrow> ('a, 'c) olm_state" where
  "lookup_keybackup env room session_id st =
     (if \<not> oe_use_online_backup env then st
      else case (backupVersion (os_store st), secret ''m.megolm_backup.v1'' False (os_store st)) of
             (Some v, Some k) \<Rightarrow> emit (GetRoomKey (ob_version v) room session_id) st
           | _ \<Rightarrow> st)"

text \<open>Saving a session in the cache; an exception is caught and logged.\<close>

definition save_inbound ::
    "('i, 'g, 'o, 'a, 'c) olm_env \<Rightarrow> megolm_session_index \<Rightarrow> 'i \<Rightarrow> group_session_data
      \<Rightarrow> ('a, 'c) olm_state \<Rightarrow> ('a, 'c) olm_state option" where
  "save_inbound env index session data st =
     map_option (\<lambda>s. st\<lparr>os_store := s\<rparr>)
       (saveInboundMegolmSession (oe_lib env) index session data (os_store st))"

definition handle_looked_up_key ::
    "('i, 'g, 'o, 'a, 'c) olm_env \<Rightarrow> string \<Rightarrow> string \<Rightarrow> (exported_session \<times> bool) option
      \<Rightarrow> ('a, 'c) olm_state \<Rightarrow> ('a, 'c) olm_state" where
  "handle_looked_up_key env room session_id res st =
     (case res of
        Some (s, True) \<Rightarrow>
          (let index = \<lparr>ms_room_id = room, ms_session_id = session_id\<rparr>;
               data = new_group_session_data
                 \<lparr>gs_forwarding_curve25519_key_chain := es_forwarding_curve25519_key_chain s,
                  gs_sender_claimed_ed25519_key :=
                    (case fmlookup (es_sender_claimed_keys s) ''ed25519'' of None \<Rightarrow> [] | Some k \<Rightarrow> k),
                  gs_sender_key := es_sender_key s,
                  gs_trusted := False\<rparr>
           in case lib_import_session (oe_lib env) (es_session_key s) of
                None \<Rightarrow> st
              | Some session \<Rightarrow>
                  let better =
                    (if \<not> inboundMegolmSessionExists (oe_lib env) index (os_store st) then Some True
                     else map_option (\<lambda>old. lib_first_known_index (oe_lib env) session
                              < lib_first_known_index (oe_lib env) old)
                            (getInboundMegolmSession (oe_lib env) index (os_store st)))
                  in if better = Some True then
                       (case save_inbound env index session data st of
                          None \<Rightarrow> st
                        | Some st' \<Rightarrow> emit (SessionKeyReceived room session_id) st')
                     else st)
      | _ \<Rightarrow> st)"

section \<open>Room keys\<close>

definition create_inbound_megolm_session ::
    "('i, 'g, 'o, 'a, 'c) olm_env \<Rightarrow> room_key \<Rightarrow> string \<Rightarrow> string
      \<Rightarrow> ('a, 'c) olm_state \<Rightarrow> ('a, 'c) olm_state" where
  "create_inbound_megolm_session env key sender_key sender_ed25519 st =
     (let index = \<lparr>ms_room_id = rmk_room_id key, ms_session_id = rmk_session_id key\<rparr>;
          data = new_group_session_data
            \<lparr>gs_forwarding_curve25519_key_chain := [sender_key],
             gs_sender_claimed_ed25519_key := sender_ed25519,
             gs_sender_key := sender_key\<rparr>
      in case oe_init_inbound env (rmk_session_key key) of
           None \<Rightarrow> st
         | Some session \<Rightarrow>
             let st = backup_session_key env index data session st
             in case save_inbound env index session data st of
                  None \<Rightarrow> st
                | Some st' \<Rightarrow> emit (SessionKeyReceived (rmk_room_id key) (rmk_session_id key)) st')"

definition forwarded_trusted :: "forwarded_key \<Rightarrow> bool" where
  "forwarded_trusted key \<longleftrightarrow> fk_forwarding_curve25519_key_chain key = [fk_sender_key key]"

definition import_inbound_megolm_session ::
    "('i, 'g, 'o, 'a, 'c) olm_env \<Rightarrow> forwarded_key \<Rightarrow> ('a, 'c) olm_state \<Rightarrow> ('a, 'c) olm_state" where
  "import_inbound_megolm_session env key st =
     (let index = \<lparr>ms_room_id = fk_room_id key, ms_session_id = fk_session_id key\<rparr>;
          data = new_group_session_data
            \<lparr>gs_forwarding_curve25519_key_chain := fk_forwarding_curve25519_key_chain key,
             gs_sender_claimed_ed25519_key := fk_sender_claimed_ed25519_key key,
             gs_sender_key := fk_sender_key key,
             gs_trusted := forwarded_trusted key\<rparr>
      in case lib_import_session (oe_lib env) (fk_session_key key) of
           None \<Rightarrow> st
         | Some session \<Rightarrow>
             let st = backup_session_key env index data session st
             in case save_inbound env index session data st of
                  None \<Rightarrow> st
                | Some st' \<Rightarrow> emit (SessionKeyReceived (fk_room_id key) (fk_session_id key)) st')"

section \<open>Secrets\<close>

definition handle_secret_request ::
    "('i, 'g, 'o, 'a, 'c) olm_env \<Rightarrow> int \<Rightarrow> u64 \<Rightarrow> secret_request \<Rightarrow> string
      \<Rightarrow> ('a, 'c) olm_state \<Rightarrow> ('a, 'c) olm_state" where
  "handle_secret_request env now ms r sender st =
     (if sr_action r \<noteq> Request then st
      else if sender \<noteq> oe_user_id env then st
      else
        let (st, v) = own_status env (oe_user_id env) st
        in if fmlookup (ks_user_keys (os_keys st)) (oe_user_id env) = None then st
           else if sr_requesting_device_id r |\<notin>| vs_verified_devices v then st
           else case secret (sr_name r) False (os_store st) of
                  None \<Rightarrow> st
                | Some value \<Rightarrow>
                    fst (send_encrypted_to_device_messages env now ms
                      (fmap_of_list [(oe_user_id env, [sr_requesting_device_id r])])
                      (OutSecret (sr_request_id r) value) False st))"

text \<open>The device of ours with a key; reading a missing key gives the empty string, and no device
  the empty id.\<close>

definition device_with_key :: "string \<Rightarrow> user_key_cache \<Rightarrow> string" where
  "device_with_key key k =
     (case List.find (\<lambda>(dev, d). (case fmlookup (dk_keys d) (''curve25519:'' @ dev) of None \<Rightarrow> [] | Some c \<Rightarrow> c) = key)
        (sorted_list_of_fmap (uk_device_keys k)) of
        None \<Rightarrow> []
      | Some (dev, _) \<Rightarrow> dev)"

definition handle_secret_send ::
    "('i, 'g, 'o, 'a, 'c) olm_env \<Rightarrow> olm_message \<Rightarrow> string \<Rightarrow> string
      \<Rightarrow> ('a, 'c) olm_state \<Rightarrow> ('a, 'c) olm_state" where
  "handle_secret_send env msg request_id value st =
     (if om_sender msg \<noteq> oe_user_id env then st
      else case fmlookup (os_requests st) request_id of
             None \<Rightarrow> st
           | Some name \<Rightarrow>
               let st = st\<lparr>os_requests := fmdrop request_id (os_requests st)\<rparr>;
                   cancel = \<lparr>sr_action = Cancellation, sr_name = [],
                             sr_requesting_device_id = oe_device_id env, sr_request_id = request_id\<rparr>;
                   (st, v) = own_status env (oe_user_id env) st
               in case fmlookup (ks_user_keys (os_keys st)) (oe_user_id env) of
                    None \<Rightarrow> st
                  | Some k \<Rightarrow>
                      let dev = device_with_key (om_sender_key msg) k
                      in if dev |\<notin>| vs_verified_devices v
                           \<or> fmlookup (vs_verified_device_keys v) (om_sender_key msg) \<noteq> Some Verified
                         then st
                         else
                           map_store (storeSecret name value False)
                             (emit (SendSecretRequest cancel
                                (vs_verified_devices v |-| {|oe_device_id env, dev|})) st))"

text \<open>The four requests of \<open>request_cross_signing_keys\<close>, with their transaction ids; the failure of a
  request and its time-out.\<close>

definition request_secret ::
    "('i, 'g, 'o, 'a, 'c) olm_env \<Rightarrow> string fset \<Rightarrow> string \<times> string \<Rightarrow> ('a, 'c) olm_state \<Rightarrow> ('a, 'c) olm_state" where
  "request_secret env devices p st =
     (let (name, txn) = p;
          r = \<lparr>sr_action = Request, sr_name = name, sr_requesting_device_id = oe_device_id env,
               sr_request_id = ''ss.'' @ txn\<rparr>
      in emit (SendSecretRequest r (devices |-| {|oe_device_id env|}))
           (st\<lparr>os_requests := fmupd (sr_request_id r) name (os_requests st)\<rparr>))"

definition requested_secrets :: "string list" where
  "requested_secrets =
     [''m.cross_signing.master'', ''m.cross_signing.self_signing'', ''m.cross_signing.user_signing'',
      ''m.megolm_backup.v1'']"

definition request_cross_signing_keys ::
    "('i, 'g, 'o, 'a, 'c) olm_env \<Rightarrow> string list \<Rightarrow> ('a, 'c) olm_state \<Rightarrow> ('a, 'c) olm_state" where
  "request_cross_signing_keys env txns st =
     (let (st, v) = own_status env (oe_user_id env) st
      in fold (request_secret env (vs_verified_devices v)) (zip requested_secrets txns) st)"

definition secret_request_failed :: "string \<Rightarrow> ('a, 'c) olm_state \<Rightarrow> ('a, 'c) olm_state" where
  "secret_request_failed request_id st = st\<lparr>os_requests := fmdrop request_id (os_requests st)\<rparr>"

definition secret_request_timeout ::
    "secret_request \<Rightarrow> string fset \<Rightarrow> ('a, 'c) olm_state \<Rightarrow> ('a, 'c) olm_state" where
  "secret_request_timeout r devices st =
     (if fmlookup (os_requests st) (sr_request_id r) = None then st
      else emit (SendSecretRequest (r\<lparr>sr_action := Cancellation\<rparr>) devices)
             (st\<lparr>os_requests := fmdrop (sr_request_id r) (os_requests st)\<rparr>))"

text \<open>The secrets the server stores, each with the first key it is encrypted with, grouped by that
  key (\<open>download_cross_signing_keys\<close>). A failed read is \<open>None\<close>.\<close>

definition add_secret ::
    "string \<times> (string, string) fmap option \<Rightarrow> (string, (string, string) fmap) fmap
      \<Rightarrow> (string, (string, string) fmap) fmap" where
  "add_secret p m =
     (case snd p of
        None \<Rightarrow> m
      | Some encrypted \<Rightarrow>
          (case sorted_list_of_fmap encrypted of
             [] \<Rightarrow> m
           | (key, text) # _ \<Rightarrow> put2 key (fst p) text m))"

definition download_cross_signing_keys ::
    "(string, string) fmap option \<Rightarrow> (string, string) fmap option \<Rightarrow> (string, string) fmap option
      \<Rightarrow> (string, string) fmap option \<Rightarrow> ('a, 'c) olm_state \<Rightarrow> ('a, 'c) olm_state" where
  "download_cross_signing_keys backup master self_signing user_signing st =
     (let secrets = fold add_secret
            [(''m.megolm_backup.v1'', backup), (''m.cross_signing.master'', master),
             (''m.cross_signing.self_signing'', self_signing),
             (''m.cross_signing.user_signing'', user_signing)] fmempty
      in fold (\<lambda>(key, s). emit (DownloadSecretKey key s)) (sorted_list_of_fmap secrets) st)"

section \<open>Key requests\<close>

definition megolm_algo :: string where
  "megolm_algo = ''m.megolm.v1.aes-sha2''"

definition send_key_request_for ::
    "('i, 'g, 'o, 'a, 'c) olm_env \<Rightarrow> string \<Rightarrow> megolm_session_index \<Rightarrow> string \<Rightarrow> string \<Rightarrow> bool
      \<Rightarrow> ('a, 'c) olm_state \<Rightarrow> ('a, 'c) olm_state" where
  "send_key_request_for env sender index sender_key request_id cancel st =
     emit (SendKeyRequest
       \<lparr>kr_action = (if cancel then Cancellation else Request), kr_algorithm = megolm_algo,
        kr_room_id = ms_room_id index, kr_session_id = ms_session_id index,
        kr_sender_key = sender_key, kr_request_id = request_id,
        kr_requesting_device_id = oe_device_id env\<rparr> {|sender, oe_user_id env|}) st"

definition isRoomMember :: "string \<Rightarrow> string \<Rightarrow> session_store \<Rightarrow> bool" where
  "isRoomMember user_id room_id s = (fmlookup (sub_table room_id (ss_members s)) user_id \<noteq> None)"

definition send_megolm_key_to_device ::
    "('i, 'g, 'o, 'a, 'c) olm_env \<Rightarrow> int \<Rightarrow> u64 \<Rightarrow> string \<Rightarrow> string \<Rightarrow> forwarded_key
      \<Rightarrow> ('a, 'c) olm_state \<Rightarrow> ('a, 'c) olm_state" where
  "send_megolm_key_to_device env now ms user device payload st =
     fst (send_encrypted_to_device_messages env now ms (fmap_of_list [(user, [device])])
       (OutForwardedKey payload) False st)"

text \<open>The index a requesting device may see the session from: the one it was given the session at.\<close>

definition shared_index :: "group_session_data \<Rightarrow> string \<Rightarrow> string \<Rightarrow> u64 option" where
  "shared_index data user device =
     fmlookup (gs_currently data) user \<bind> (\<lambda>devices. fmlookup devices device)"

text \<open>The session a request is about, if we have it and may talk to the sender about it.\<close>

definition requested_session ::
    "('i, 'g, 'o, 'a, 'c) olm_env \<Rightarrow> key_request \<Rightarrow> string \<Rightarrow> session_store \<Rightarrow> (group_session_data \<times> 'i) option" where
  "requested_session env r sender s =
     (let index = \<lparr>ms_room_id = kr_room_id r, ms_session_id = kr_session_id r\<rparr>
      in if kr_algorithm r \<noteq> megolm_algo then None
         else case getMegolmSessionData (oe_lib env) index s of
                None \<Rightarrow> None
              | Some data \<Rightarrow>
                  if sender \<noteq> oe_user_id env \<and> gs_sender_key data \<noteq> oe_curve25519 env then None
                  else case getInboundMegolmSession (oe_lib env) index s of
                         None \<Rightarrow> None
                       | Some session \<Rightarrow>
                           if isRoomMember sender (kr_room_id r) s then Some (data, session) else None)"

text \<open>The index the key is exported at: the first one we have for a verified device, else the one the
  device was given the session at.\<close>

definition entitled_index ::
    "('i, 'g, 'o, 'a, 'c) olm_env \<Rightarrow> group_session_data \<Rightarrow> string \<Rightarrow> string \<Rightarrow> verification_status \<Rightarrow> u64 option" where
  "entitled_index env data sender device v =
     (if (oe_share_with_trusted env \<or> sender = oe_user_id env) \<and> device |\<in>| vs_verified_devices v
      then Some (- 1) else shared_index data sender device)"

definition handle_key_request_message ::
    "('i, 'g, 'o, 'a, 'c) olm_env \<Rightarrow> int \<Rightarrow> u64 \<Rightarrow> key_request \<Rightarrow> string
      \<Rightarrow> ('a, 'c) olm_state \<Rightarrow> ('a, 'c) olm_state" where
  "handle_key_request_message env now ms r sender st =
     (case requested_session env r sender (os_store st) of
        None \<Rightarrow> st
      | Some (data, session) \<Rightarrow>
          let (st, v) = own_status env sender st
          in case entitled_index env data sender (kr_requesting_device_id r) v of
               None \<Rightarrow> st
             | Some minimumIndex \<Rightarrow>
                 (case oe_export_at env session (ucast minimumIndex) of
                    None \<Rightarrow> st
                  | Some key \<Rightarrow>
                      send_megolm_key_to_device env now ms sender (kr_requesting_device_id r)
                        \<lparr>fk_room_id = kr_room_id r, fk_session_id = kr_session_id r,
                         fk_session_key = key, fk_sender_key = gs_sender_key data,
                         fk_sender_claimed_ed25519_key = gs_sender_claimed_ed25519_key data,
                         fk_forwarding_curve25519_key_chain =
                           gs_forwarding_curve25519_key_chain data\<rparr> st))"

section \<open>Olm messages\<close>

text \<open>The device list of the sender has a device with both keys.\<close>

definition from_their_device :: "user_key_cache \<Rightarrow> string \<Rightarrow> string \<Rightarrow> bool" where
  "from_their_device k sender_key sender_ed25519 =
     list_ex (\<lambda>(dev, d). fmlookup (dk_keys d) (''curve25519:'' @ dev) = Some sender_key
        \<and> fmlookup (dk_keys d) (''ed25519:'' @ dev) = Some sender_ed25519)
       (sorted_list_of_fmap (uk_device_keys k))"

text \<open>The checks of a decrypted payload; a field of another kind throws. \<open>None\<close> is a rejection, else
  the sender's signing key.\<close>

definition accepted_payload ::
    "('i, 'g, 'o, 'a, 'c) olm_env \<Rightarrow> olm_message \<Rightarrow> user_key_cache \<Rightarrow> json \<Rightarrow> string option" where
  "accepted_payload env msg keys payload = do {
     receiver_ed25519 \<leftarrow> at_key ''recipient_keys'' payload \<bind> at_key ''ed25519'' \<bind> get_str;
     receiver \<leftarrow>
       (if receiver_ed25519 = [] \<or> receiver_ed25519 \<noteq> oe_ed25519 env then None
        else at_key ''recipient'' payload \<bind> get_str);
     sender_ed25519 \<leftarrow>
       (if receiver = [] \<or> receiver \<noteq> oe_user_id env then None
        else at_key ''keys'' payload \<bind> at_key ''ed25519'' \<bind> get_str);
     (if sender_ed25519 = [] \<or> \<not> from_their_device keys (om_sender_key msg) sender_ed25519 then None
      else Some sender_ed25519) }"

fun handle_device_event ::
    "('i, 'g, 'o, 'a, 'c) olm_env \<Rightarrow> int \<Rightarrow> u64 \<Rightarrow> olm_message \<Rightarrow> string \<Rightarrow> device_event
      \<Rightarrow> ('a, 'c) olm_state \<Rightarrow> ('a, 'c) olm_state" where
  "handle_device_event env now ms msg ed (DeVerification e) st = emit (ReceivedVerification e) st"
| "handle_device_event env now ms msg ed (DeRequest r t sender) st = emit (ReceivedRequest r t sender) st"
| "handle_device_event env now ms msg ed (DeStart m sender) st = emit (ReceivedStart m sender) st"
| "handle_device_event env now ms msg ed (DeRoomKey k) st =
     create_inbound_megolm_session env k (om_sender_key msg) ed st"
| "handle_device_event env now ms msg ed (DeForwardedKey k) st =
     import_inbound_megolm_session env
       (k\<lparr>fk_forwarding_curve25519_key_chain :=
            fk_forwarding_curve25519_key_chain k @ [om_sender_key msg]\<rparr>) st"
| "handle_device_event env now ms msg ed (DeSecretSend n v) st = handle_secret_send env msg n v st"
| "handle_device_event env now ms msg ed (DeSecretRequest r) st =
     handle_secret_request env now ms r (om_sender msg) st"
| "handle_device_event env now ms msg ed DeOther st = st"

text \<open>A broken channel: a new session with each device of the sender that has the key, unless one of
  the sender's devices has no key at all, which throws.\<close>

definition recover_channel ::
    "('i, 'g, 'o, 'a, 'c) olm_env \<Rightarrow> int \<Rightarrow> u64 \<Rightarrow> olm_message \<Rightarrow> user_key_cache
      \<Rightarrow> ('a, 'c) olm_state \<Rightarrow> ('a, 'c) olm_state" where
  "recover_channel env now ms msg keys st =
     (let devices = sorted_list_of_fmap (uk_device_keys keys);
          key_of = (\<lambda>(dev, d). fmlookup (dk_keys d) (''curve25519:'' @ dev));
          targets = map fst (filter (\<lambda>p. key_of p = Some (om_sender_key msg)) devices)
      in if list_ex (\<lambda>p. key_of p = None) devices then st
         else fst (send_encrypted_to_device_messages env now ms
                (if targets = [] then fmempty else fmap_of_list [(om_sender msg, targets)]) OutDummy True st))"

text \<open>The message is a map, so at most one of its texts is for us.\<close>

definition decrypt_olm ::
    "('i, 'g, 'o, 'a, 'c) olm_env \<Rightarrow> u64 \<Rightarrow> olm_message \<Rightarrow> cipher_content
      \<Rightarrow> ('a, 'c) olm_state \<Rightarrow> ('a, 'c) olm_state \<times> json outcome" where
  "decrypt_olm env ms msg cipher st =
     (case try_olm_decryption env ms (om_sender_key msg) cipher st of
        (st, Done JNull) \<Rightarrow>
          if cc_type cipher = 0 then handle_pre_key_olm_message env ms (om_sender_key msg) cipher st
          else (st, Done JNull)
      | r \<Rightarrow> r)"

definition handle_olm_message ::
    "('i, 'g, 'o, 'a, 'c) olm_env \<Rightarrow> int \<Rightarrow> u64 \<Rightarrow> olm_message \<Rightarrow> user_key_cache
      \<Rightarrow> ('a, 'c) olm_state \<Rightarrow> ('a, 'c) olm_state" where
  "handle_olm_message env now ms msg keys st =
     (if om_sender_key msg = oe_ed25519 env then st
      else case fmlookup (om_ciphertext msg) (oe_curve25519 env) of
             None \<Rightarrow> st
           | Some cipher \<Rightarrow>
               (case decrypt_olm env ms msg cipher st of
                  (st, Threw) \<Rightarrow> st
                | (st, Done JNull) \<Rightarrow> recover_channel env now ms msg keys st
                | (st, Done payload) \<Rightarrow>
                    (case accepted_payload env msg keys payload of
                       None \<Rightarrow> st
                     | Some ed \<Rightarrow>
                         (case at_key ''type'' payload \<bind> get_str of
                            None \<Rightarrow> st
                          | Some _ \<Rightarrow>
                              (case oe_parse_event env payload of
                                 None \<Rightarrow> st
                               | Some e \<Rightarrow> handle_device_event env now ms msg ed e st)))))"

section \<open>To-device messages\<close>

datatype to_device =
    TdEncrypted olm_message
  | TdKeyRequest key_request string
  | TdVerification flow_event
  | TdRequest request_msg "string option" string
  | TdStart start_msg string
  | TdSecretRequest secret_request string
  | TdUnparsed

text \<open>\<open>cache::query_keys\<close> with the handler as callback: at once for keys that are up to date, else the
  message waits for the reply. A name that is too long is an error, which drops the message.\<close>

fun handle_to_device_message ::
    "('i, 'g, 'o, 'a, 'c) olm_env \<Rightarrow> int \<Rightarrow> u64 \<Rightarrow> to_device \<Rightarrow> ('a, 'c) olm_state \<Rightarrow> ('a, 'c) olm_state" where
  "handle_to_device_message env now ms (TdEncrypted msg) st =
     (case query_keys (om_sender msg) (os_keys st) of
        CallbackError \<Rightarrow> st
      | CallbackKeys k \<Rightarrow> handle_olm_message env now ms msg k st
      | QueryRequest token \<Rightarrow> emit (QuerySender msg token) st)"
| "handle_to_device_message env now ms (TdKeyRequest r sender) st =
     (if kr_action r = Request then handle_key_request_message env now ms r sender st else st)"
| "handle_to_device_message env now ms (TdVerification e) st = emit (ReceivedVerification e) st"
| "handle_to_device_message env now ms (TdRequest r t sender) st = emit (ReceivedRequest r t sender) st"
| "handle_to_device_message env now ms (TdStart m sender) st = emit (ReceivedStart m sender) st"
| "handle_to_device_message env now ms (TdSecretRequest r sender) st =
     handle_secret_request env now ms r sender st"
| "handle_to_device_message env now ms TdUnparsed st = st"

definition handle_to_device_messages ::
    "('i, 'g, 'o, 'a, 'c) olm_env \<Rightarrow> int \<Rightarrow> u64 \<Rightarrow> to_device list \<Rightarrow> ('a, 'c) olm_state \<Rightarrow> ('a, 'c) olm_state" where
  "handle_to_device_messages env now ms msgs st = fold (handle_to_device_message env now ms) msgs st"

definition handle_queried_sender ::
    "('i, 'g, 'o, 'a, 'c) olm_env \<Rightarrow> int \<Rightarrow> u64 \<Rightarrow> olm_message \<Rightarrow> string \<Rightarrow> query_keys_response option
      \<Rightarrow> ('a, 'c) olm_state \<Rightarrow> ('a, 'c) olm_state" where
  "handle_queried_sender env now ms msg last_changed res st =
     (case query_keys_reply (oe_keys env) (om_sender msg) last_changed res (os_keys st) of
        (ks, CallbackKeys k) \<Rightarrow> handle_olm_message env now ms msg k (st\<lparr>os_keys := ks\<rparr>)
      | (ks, _) \<Rightarrow> st\<lparr>os_keys := ks\<rparr>)"

end
