(* ===== verification/Group_Encryption.thy ===== *)
theory Group_Encryption
  imports Olm_Receiving
begin

text \<open>
  Encryption and decryption of room messages (\<open>encrypt_group_message\<close>, \<open>decryptEvent\<close> and
  \<open>calculate_trust\<close> of \<open>src/src/encryption/Olm.cpp\<close>): when the room's session is kept or rotated,
  with whom it is shared, and how a message index that was used before is detected.

  The two maps of the source, members and devices the session was shared with, are walked in key
  order with one iterator each; here these are the sorted lists of their entries.
\<close>

section \<open>Keeping or rotating a session\<close>

definition devices_of :: "user_key_cache option \<Rightarrow> string list" where
  "devices_of k = (case k of None \<Rightarrow> [] | Some k \<Rightarrow> map fst (sorted_list_of_fmap (uk_device_keys k)))"

text \<open>All devices of a member but the one that sends.\<close>

definition other_devices :: "string \<Rightarrow> string \<Rightarrow> string \<Rightarrow> user_key_cache option \<Rightarrow> string list" where
  "other_devices own device_id user k = filter (\<lambda>dev. user \<noteq> own \<or> dev \<noteq> device_id) (devices_of k)"

definition device_removed :: "user_key_cache option \<Rightarrow> device_keys_to_msg_index \<Rightarrow> bool" where
  "device_removed k shared = list_ex (\<lambda>dev. dev \<notin> set (devices_of k)) (map fst (sorted_list_of_fmap shared))"

definition new_devices ::
    "string \<Rightarrow> string \<Rightarrow> string \<Rightarrow> user_key_cache option \<Rightarrow> device_keys_to_msg_index \<Rightarrow> string list" where
  "new_devices own device_id user k shared =
     filter (\<lambda>dev. dev |\<notin>| fmdom shared) (other_devices own device_id user k)"

definition push_devices :: "string \<Rightarrow> string list \<Rightarrow> (string, string list) fmap \<Rightarrow> (string, string list) fmap" where
  "push_devices user devs m =
     (if devs = [] then m
      else fmupd user ((case fmlookup m user of None \<Rightarrow> [] | Some ds \<Rightarrow> ds) @ devs) m)"

text \<open>The loop: \<open>None\<close> leaves it without a session, so that a new one is made; else the session is
  kept and shared with the devices collected. With no member and no entry it is not entered.\<close>

fun compare_members ::
    "string \<Rightarrow> string \<Rightarrow> (string \<times> user_key_cache option) list \<Rightarrow> (string \<times> device_keys_to_msg_index) list
      \<Rightarrow> (string, string list) fmap \<Rightarrow> (string, string list) fmap option" where
  "compare_members own dev [] [] targets = None"
| "compare_members own dev [] (s # ss) targets = None"
| "compare_members own dev (m # ms) [] targets =
     Some (fold (\<lambda>(user, k). fmupd user (other_devices own dev user k)) (m # ms) targets)"
| "compare_members own dev ((user, k) # ms) ((user', shared) # ss) targets =
     (if user > user' then None
      else if user < user' then
        compare_members own dev ms ((user', shared) # ss) (fmupd user (other_devices own dev user k) targets)
      else if device_removed k shared then None
      else
        let targets = push_devices user (new_devices own dev user k shared) targets
        in if ms = [] \<and> ss = [] then Some targets else compare_members own dev ms ss targets)"

definition room_members :: "string \<Rightarrow> session_store \<Rightarrow> string list" where
  "room_members room_id s = map fst (sorted_list_of_fmap (sub_table room_id (ss_members s)))"

definition encryption_settings_of ::
    "('i, 'g, 'o, 'a, 'c) olm_env \<Rightarrow> string \<Rightarrow> session_store \<Rightarrow> encryption_settings" where
  "encryption_settings_of env room_id s =
     (case roomEncryptionSettings (oe_encryption_content env) (oe_default_encryption env) room_id s of
        None \<Rightarrow> oe_default_encryption env
      | Some e \<Rightarrow> e)"

definition within_limits ::
    "('i, 'g, 'o, 'a, 'c) olm_env \<Rightarrow> u64 \<Rightarrow> string \<Rightarrow> group_session_data \<Rightarrow> session_store \<Rightarrow> bool" where
  "within_limits env ms room_id data s \<longleftrightarrow>
     gs_message_index data < enc_rotation_period_msgs (encryption_settings_of env room_id s) \<and>
     ms - gs_timestamp data < enc_rotation_period_ms (encryption_settings_of env room_id s)"

text \<open>The session that is kept, if any, with the devices it still has to be sent to.\<close>

definition kept_session ::
    "('i, 'g, 'o, 'a, 'c) olm_env \<Rightarrow> u64 \<Rightarrow> string \<Rightarrow> string \<Rightarrow> (string, user_key_cache option) fmap
      \<Rightarrow> session_store \<Rightarrow> ('g \<times> group_session_data \<times> (string, string list) fmap) option" where
  "kept_session env ms room_id device_id members s =
     (if \<not> outboundMegolmSessionExists room_id s then None
      else
        let (session, data) = getOutboundMegolmSession (oe_lib env) room_id s
        in if \<not> within_limits env ms room_id data s then None
           else
             case (session, compare_members (oe_user_id env) device_id (sorted_list_of_fmap members)
                              (sorted_list_of_fmap (gs_currently data)) fmempty) of
               (Some g, Some targets) \<Rightarrow> Some (g, data, targets)
             | _ \<Rightarrow> None)"

section \<open>A new session\<close>

definition share_all :: "string \<Rightarrow> string \<Rightarrow> (string, user_key_cache option) fmap \<Rightarrow> (string, string list) fmap" where
  "share_all own device_id members = fmmap_keys (other_devices own device_id) members"

definition shared_at_zero :: "(string, string list) fmap \<Rightarrow> shared_with_users" where
  "shared_at_zero targets = fmmap (\<lambda>devs. fmap_of_list (map (\<lambda>dev. (dev, 0)) devs)) targets"

definition create_session ::
    "('i, 'g, 'o, 'a, 'c) olm_env \<Rightarrow> u64 \<Rightarrow> string \<Rightarrow> string \<Rightarrow> (string, user_key_cache option) fmap \<Rightarrow> 'g
      \<Rightarrow> ('a, 'c) olm_state \<Rightarrow> ('a, 'c) olm_state \<times> (group_session_data \<times> (string, string list) fmap) option" where
  "create_session env ms room_id device_id members fresh st =
     (let targets = share_all (oe_user_id env) device_id members;
          data = new_group_session_data
            \<lparr>gs_timestamp := ms, gs_sender_claimed_ed25519_key := oe_ed25519 env,
             gs_sender_key := oe_curve25519 env, gs_currently := shared_at_zero targets\<rparr>;
          index = \<lparr>ms_room_id = room_id, ms_session_id = lib_out_session_id (oe_lib env) fresh\<rparr>
      in case oe_init_inbound env (oe_session_key env fresh) of
           None \<Rightarrow> (st, None)
         | Some inbound \<Rightarrow>
             let st = backup_session_key env index data inbound st
             in case save_inbound env index inbound data st of
                  None \<Rightarrow> (st, None)
                | Some st \<Rightarrow>
                    (map_store (saveOutboundMegolmSession (oe_lib env) room_id data fresh) st,
                     Some (data, targets)))"

section \<open>Encrypting\<close>

record encrypted_content =
  en_algorithm :: string
  en_ciphertext :: string
  en_sender_key :: string
  en_session_id :: string
  en_device_id :: string
  en_relations :: "relation list"

definition encrypt_group_message_with_session ::
    "('i, 'g, 'o, 'a, 'c) olm_env \<Rightarrow> 'g \<Rightarrow> string \<Rightarrow> string \<Rightarrow> relation list \<Rightarrow> 'g \<times> encrypted_content" where
  "encrypt_group_message_with_session env session device_id body rels =
     (let (session', text) = oe_group_encrypt env session body
      in (session',
          \<lparr>en_algorithm = megolm_algo, en_ciphertext = text, en_sender_key = oe_curve25519 env,
           en_session_id = lib_out_session_id (oe_lib env) session', en_device_id = device_id,
           en_relations = rels\<rparr>))"

text \<open>The devices a session was sent to, recorded with a message index unless they have one.\<close>

definition record_devices ::
    "u64 \<Rightarrow> (string, string list) fmap \<Rightarrow> shared_with_users \<Rightarrow> shared_with_users" where
  "record_devices i targets currently =
     fold (\<lambda>(user, devs) cur. fmupd user (fold (\<lambda>dev. emplace (dev, i)) devs (sub_table user cur)) cur)
       (sorted_list_of_fmap targets) currently"

text \<open>An exception on the way gives no message; what was committed before it stays.\<close>

definition encrypt_group_message ::
    "('i, 'g, 'o, 'a, 'c) olm_env \<Rightarrow> int \<Rightarrow> u64 \<Rightarrow> string \<Rightarrow> string \<Rightarrow> string \<Rightarrow> relation list \<Rightarrow> 'g
      \<Rightarrow> ('a, 'c) olm_state \<Rightarrow> ('a, 'c) olm_state \<times> encrypted_content option" where
  "encrypt_group_message env now ms room_id device_id body rels fresh st =
     (let (ks, members) = getMembersWithKeys (oe_keys env) (oe_only_verified env)
            (room_members room_id (os_store st)) (os_keys st);
          st = st\<lparr>os_keys := ks\<rparr>
      in case (case kept_session env ms room_id device_id members (os_store st) of
                 Some r \<Rightarrow> (st, Some r)
               | None \<Rightarrow> map_prod id (map_option (Pair fresh))
                           (create_session env ms room_id device_id members fresh st)) of
           (st, None) \<Rightarrow> (st, None)
         | (st, Some (session, data, targets)) \<Rightarrow>
             let key = \<lparr>rmk_room_id = room_id, rmk_session_id = lib_out_session_id (oe_lib env) session,
                        rmk_session_key = oe_session_key env session\<rparr>;
                 (st, ok) = (if targets = fmempty then (st, True)
                             else send_encrypted_to_device_messages env now ms targets (OutRoomKey key) False st)
             in if \<not> ok then (st, None)
                else
                  let (session', content) = encrypt_group_message_with_session env session device_id body rels;
                      i = ucast (lib_message_index (oe_lib env) session');
                      data = data\<lparr>gs_message_index := i,
                                  gs_currently := record_devices i targets (gs_currently data)\<rparr>
                  in (map_store (updateOutboundMegolmSession (oe_lib env) room_id data session') st, Some content))"

section \<open>Decrypting\<close>

datatype decryption_error =
    NoError
  | MissingSession
  | MissingSessionIndex
  | DbError
  | DecryptionFailed
  | ParsingFailed
  | ReplayAttack

record encrypted_event =
  ee_event_id :: string
  ee_sender :: string
  ee_origin_server_ts :: u64
  ee_unsigned :: json
  ee_ciphertext :: string
  ee_relations :: "relation list"

text \<open>The fields of the outer event are added to the decrypted body; a body that is neither an object
  nor null throws.\<close>

fun is_record_json :: "json \<Rightarrow> bool" where
  "is_record_json (JObj _) = True"
| "is_record_json JNull = True"
| "is_record_json _ = False"

definition add_event_fields :: "encrypted_event \<Rightarrow> json \<Rightarrow> json option" where
  "add_event_fields e body =
     (if is_record_json body
      then Some (set_key ''unsigned'' (ee_unsigned e)
             (set_key ''origin_server_ts'' (num (ee_origin_server_ts e))
             (set_key ''sender'' (JStr (ee_sender e))
             (set_key ''event_id'' (JStr (ee_event_id e)) body))))
      else None)"

definition is_event_id :: "string \<Rightarrow> bool" where
  "is_event_id e = (case e of [] \<Rightarrow> False | c # _ \<Rightarrow> c = CHR ''$'')"

text \<open>The check of the message index: a rejection, or the store with the index noted.\<close>

definition check_index ::
    "('i, 'g, 'o, 'a, 'c) olm_env \<Rightarrow> megolm_session_index \<Rightarrow> string \<Rightarrow> bool \<Rightarrow> 'i \<Rightarrow> 32 word
      \<Rightarrow> ('a, 'c) olm_state \<Rightarrow> decryption_error + ('a, 'c) olm_state" where
  "check_index env index event_id dont_write_db session message_index st =
     (let data = (case getMegolmSessionData (oe_lib env) index (os_store st) of
                    None \<Rightarrow> new_group_session_data | Some d \<Rightarrow> d)
      in if \<not> is_event_id event_id then Inr st
         else case fmlookup (gs_indices data) message_index of
                Some e \<Rightarrow> if e \<noteq> event_id then Inl ReplayAttack else Inr st
              | None \<Rightarrow>
                  if dont_write_db then Inr st
                  else
                    (case save_inbound env index session
                       (data\<lparr>gs_indices := fmupd message_index event_id (gs_indices data)\<rparr>) st of
                       None \<Rightarrow> Inl DecryptionFailed
                     | Some st' \<Rightarrow> Inr st'))"

definition decryptEvent ::
    "('i, 'g, 'o, 'a, 'c) olm_env \<Rightarrow> (json \<Rightarrow> 'e option) \<Rightarrow> (relation list \<Rightarrow> 'e \<Rightarrow> 'e)
      \<Rightarrow> megolm_session_index \<Rightarrow> encrypted_event \<Rightarrow> bool
      \<Rightarrow> ('a, 'c) olm_state \<Rightarrow> ('a, 'c) olm_state \<times> decryption_error \<times> 'e option" where
  "decryptEvent env te_from_json set_relations index event dont_write_db st =
     (case getInboundMegolmSession (oe_lib env) index (os_store st) of
        None \<Rightarrow> (st, MissingSession, None)
      | Some session \<Rightarrow>
          (case oe_group_decrypt env session (ee_ciphertext event) of
             Inl UnknownMessageIndex \<Rightarrow> (st, MissingSessionIndex, None)
           | Inl OtherOlmError \<Rightarrow> (st, DecryptionFailed, None)
           | Inr (session', text, message_index) \<Rightarrow>
               (case check_index env index (ee_event_id event) dont_write_db session' message_index st of
                  Inl err \<Rightarrow> (st, err, None)
                | Inr st \<Rightarrow>
                    (case oe_parse env text \<bind> add_event_fields event \<bind> te_from_json of
                       None \<Rightarrow> (st, ParsingFailed, None)
                     | Some te \<Rightarrow> (st, NoError, Some (set_relations (ee_relations event) te))))))"

definition calculate_trust ::
    "('i, 'g, 'o, 'a, 'c) olm_env \<Rightarrow> string \<Rightarrow> megolm_session_index
      \<Rightarrow> ('a, 'c) olm_state \<Rightarrow> ('a, 'c) olm_state \<times> trust" where
  "calculate_trust env user_id index st =
     (let (st, status) = own_status env user_id st
      in (st,
          case getMegolmSessionData (oe_lib env) index (os_store st) of
            None \<Rightarrow> Unverified
          | Some data \<Rightarrow>
              if \<not> gs_trusted data then Unverified
              else (case fmlookup (vs_verified_device_keys status) (gs_sender_key data) of
                      None \<Rightarrow> Unverified
                    | Some t \<Rightarrow> t)))"

section \<open>Steps\<close>

text \<open>What drives the Olm client: messages, replies, timers, and the calls of the application.\<close>

datatype ('g, 'a) olm_op =
    OlToDevice int u64 "to_device list"
  | OlQueriedSender int u64 olm_message string "query_keys_response option"
  | OlClaimed u64 outgoing "device_public_keys per_device" "json per_device"
  | OlQueriedKeys int outgoing "query_keys_response option"
  | OlSend int u64 "(string, string list) fmap" outgoing bool
  | OlEncrypt int u64 string string string "relation list" 'g
  | OlDecrypt megolm_session_index encrypted_event bool
  | OlTrust string megolm_session_index
  | OlDownload
  | OlDownloaded "(exported_session \<times> bool) list option"
  | OlImport "exported_session list"
  | OlLookup string string
  | OlLookedUp string string "(exported_session \<times> bool) option"
  | OlRequestKey string megolm_session_index string string bool
  | OlRequestSecrets "string list"
  | OlSecretFailed string
  | OlSecretTimeout secret_request "string fset"
  | OlPublished 'a

fun olm_step ::
    "('i, 'g, 'o, 'a, 'c) olm_env \<Rightarrow> ('a, 'c) olm_state \<Rightarrow> ('g, 'a) olm_op \<Rightarrow> ('a, 'c) olm_state" where
  "olm_step env st (OlToDevice now ms msgs) = handle_to_device_messages env now ms msgs st"
| "olm_step env st (OlQueriedSender now ms msg t q) = handle_queried_sender env now ms msg t q st"
| "olm_step env st (OlClaimed ms ev pks res) = handle_claimed_keys env ms ev pks res st"
| "olm_step env st (OlQueriedKeys now ev q) = handle_queried_keys env now ev q st"
| "olm_step env st (OlSend now ms targets ev force) =
     fst (send_encrypted_to_device_messages env now ms targets ev force st)"
| "olm_step env st (OlEncrypt now ms room dev body rels fresh) =
     fst (encrypt_group_message env now ms room dev body rels fresh st)"
| "olm_step env st (OlDecrypt index event dont_write_db) =
     fst (decryptEvent env Some (\<lambda>_ j. j) index event dont_write_db st)"
| "olm_step env st (OlTrust user index) = fst (calculate_trust env user index st)"
| "olm_step env st OlDownload = download_full_keybackup env st"
| "olm_step env st (OlDownloaded res) = handle_full_keybackup res st"
| "olm_step env st (OlImport keys) = map_store (importSessionKeys (oe_lib env) keys) st"
| "olm_step env st (OlLookup room n) = lookup_keybackup env room n st"
| "olm_step env st (OlLookedUp room n res) = handle_looked_up_key env room n res st"
| "olm_step env st (OlRequestKey sender index c n cancel) = send_key_request_for env sender index c n cancel st"
| "olm_step env st (OlRequestSecrets txns) = request_cross_signing_keys env txns st"
| "olm_step env st (OlSecretFailed n) = secret_request_failed n st"
| "olm_step env st (OlSecretTimeout r devices) = secret_request_timeout r devices st"
| "olm_step env st (OlPublished account) = mark_keys_as_published env account st"

end
