(* ===== verification/Olm_Safety.thy ===== *)
theory Olm_Safety
  imports Group_Encryption Session_Store_Properties
begin

text \<open>
  What the functions of \<open>Olm.cpp\<close> do to the stores they work on. Whatever messages arrive and are
  sent, the session store only moves by its own guarded operations, so that its invariant and its
  properties carry over; and the functions that only send change nothing but Olm sessions.
\<close>

section \<open>The session store moves by its own operations\<close>

lemma guarded_run_append:
  "guarded_run step guard s (es @ fs) \<longleftrightarrow>
     guarded_run step guard s es \<and> guarded_run step guard (run step s es) fs"
  by (induction es arbitrary: s) auto

definition store_run :: "('i, 'g, 'o) olm_lib \<Rightarrow> session_store \<Rightarrow> session_store \<Rightarrow> bool" where
  "store_run lib s s' \<longleftrightarrow>
     (\<exists>es. guarded_run (session_step lib) session_guard s es \<and> s' = run (session_step lib) s es)"

lemma store_run_refl [simp]: "store_run lib s s"
  unfolding store_run_def by (rule exI [of _ "[]"]) simp

lemma store_run_trans: "store_run lib s t \<Longrightarrow> store_run lib t u \<Longrightarrow> store_run lib s u"
  unfolding store_run_def by (metis guarded_run_append run_append)

lemma store_run_step: "session_guard s e \<Longrightarrow> store_run lib s (session_step lib s e)"
  unfolding store_run_def by (rule exI [of _ "[e]"]) simp

text \<open>What the store shares with the cache of the rooms, and whether it is open.\<close>

definition shared_part ::
  "session_store \<Rightarrow> string option \<times> (string, (string, json) table) fmap \<times> (string, string) table \<times> bool \<times> bool"
where
  "shared_part s = (ss_next_batch s, ss_members s, ss_encrypted_rooms s, ss_open s, ss_ready s)"

text \<open>Once the pickle secret is known it stays, and the store moves by its guarded operations; never is
the shared part touched.\<close>

definition evolves :: "('i, 'g, 'o) olm_lib \<Rightarrow> session_store \<Rightarrow> session_store \<Rightarrow> bool" where
  "evolves lib s s' \<longleftrightarrow>
     (ss_pickle_secret s \<noteq> [] \<longrightarrow> ss_pickle_secret s' = ss_pickle_secret s \<and> store_run lib s s')
     \<and> shared_part s' = shared_part s"

lemma evolves_refl [simp]: "evolves lib s s"
  by (simp add: evolves_def)

lemma evolves_trans: "evolves lib s t \<Longrightarrow> evolves lib t u \<Longrightarrow> evolves lib s u"
  unfolding evolves_def using store_run_trans by metis

lemma evolves_step:
  assumes "ss_pickle_secret s \<noteq> [] \<Longrightarrow> session_guard s e"
    and "ss_pickle_secret s \<noteq> [] \<Longrightarrow> ss_pickle_secret (session_step lib s e) = ss_pickle_secret s"
    and "shared_part (session_step lib s e) = shared_part s"
  shows "evolves lib s (session_step lib s e)"
  using assms store_run_step [of s e lib] by (simp add: evolves_def)

lemma shared_put_inbound [simp]: "shared_part (put_inbound lib i x d s) = shared_part s"
  by (simp add: put_inbound_def shared_part_def Let_def)

lemma shared_saveInbound: "saveInboundMegolmSession lib i x d s = Some s' \<Longrightarrow> shared_part s' = shared_part s"
  by (auto simp: saveInboundMegolmSession_def Let_def split: option.splits if_splits)

lemma shared_import [simp]: "shared_part (importSessionKeys lib ks s) = shared_part s"
proof -
  have "shared_part (import_one lib k s) = shared_part s" for k s
    by (simp add: import_one_def Let_def put_inbound_def shared_part_def split: option.split)
  then show ?thesis unfolding importSessionKeys_def by (induction ks arbitrary: s) simp_all
qed

lemma evolves_saveOlm: "evolves lib s (saveOlmSession lib c x t s)"
  using evolves_step [of s "SaveOlm c x t" lib] by (simp add: saveOlmSession_def Let_def shared_part_def)

lemma evolves_saveInbound: "saveInboundMegolmSession lib i x d s = Some s' \<Longrightarrow> evolves lib s s'"
  using evolves_step [of s "SaveInbound i x d" lib] shared_saveInbound [of lib i x d s s']
  by (auto simp: saveInboundMegolmSession_def split: option.splits if_splits)

lemma evolves_import: "evolves lib s (importSessionKeys lib ks s)"
  using evolves_step [of s "ImportKeys ks" lib] by simp

lemma shared_saveOutbound [simp]: "shared_part (saveOutboundMegolmSession lib r d g s) = shared_part s"
  by (simp add: saveOutboundMegolmSession_def Let_def shared_part_def)

lemma evolves_saveOutbound: "evolves lib s (saveOutboundMegolmSession lib r d g s)"
  using evolves_step [of s "SaveOutbound r d g" lib] by simp

lemma evolves_updateOutbound: "evolves lib s (updateOutboundMegolmSession lib r d g s)"
  using evolves_step [of s "UpdateOutbound r d g" lib] by (simp add: updateOutbound_eq)

lemma evolves_storeSecret: "evolves lib s (storeSecret n v False s)"
  using evolves_step [of s "StoreSecret n v False" lib]
  by (simp add: secretName_def) (simp add: storeSecret_def Let_def shared_part_def)

lemma evolves_saveAccount: "evolves lib s (saveOlmAccount d s)"
  using evolves_step [of s "SaveAccount d" lib] by (simp add: saveOlmAccount_def shared_part_def)

lemma shared_pickleSecret: "shared_part (fst (pickleSecret t s)) = shared_part s"
  by (simp add: pickleSecret_def storeSecret_def Let_def shared_part_def split: option.split)

lemma pickleSecret_known: "ss_pickle_secret s \<noteq> [] \<Longrightarrow> pickleSecret t s = (s, ss_pickle_secret s)"
  by (simp add: pickleSecret_def)

section \<open>Functions that only send\<close>

fun is_send :: "'c olm_effect \<Rightarrow> bool" where
  "is_send (SendOlmMessages _) = True"
| "is_send (ClaimKeys _ _ _) = True"
| "is_send (QueryDeviceKeys _ _) = True"
| "is_send _ = False"

definition sends_only :: "('a, 'c) olm_state \<Rightarrow> ('a, 'c) olm_state \<Rightarrow> bool" where
  "sends_only st st' \<longleftrightarrow>
     ss_inbound (os_store st') = ss_inbound (os_store st) \<and>
     ss_session_data (os_store st') = ss_session_data (os_store st) \<and>
     ss_outbound (os_store st') = ss_outbound (os_store st) \<and>
     (\<forall>n. secret n False (os_store st') = secret n False (os_store st)) \<and>
     os_requests st' = os_requests st \<and>
     ks_user_keys (os_keys st') = ks_user_keys (os_keys st) \<and>
     (\<exists>es. os_effects st' = os_effects st @ es \<and> list_all is_send es)"

lemma sends_only_refl [simp]: "sends_only st st"
  by (simp add: sends_only_def)

lemma sends_only_trans: "sends_only s t \<Longrightarrow> sends_only t u \<Longrightarrow> sends_only s u"
  unfolding sends_only_def by (metis append_assoc list_all_append)

definition quiet :: "('i, 'g, 'o) olm_lib \<Rightarrow> ('a, 'c) olm_state \<Rightarrow> ('a, 'c) olm_state \<Rightarrow> bool" where
  "quiet lib st st' \<longleftrightarrow> evolves lib (os_store st) (os_store st') \<and> sends_only st st'"

lemma quiet_refl [simp]: "quiet lib st st"
  by (simp add: quiet_def)

lemma quiet_trans: "quiet lib s t \<Longrightarrow> quiet lib t u \<Longrightarrow> quiet lib s u"
  unfolding quiet_def using evolves_trans sends_only_trans by metis

lemma quiet_saveOlm [intro]: "quiet lib st (map_store (saveOlmSession lib c x t) st)"
  by (simp add: quiet_def map_store_def evolves_saveOlm sends_only_def)
     (simp add: saveOlmSession_def Let_def secret_def)

lemma quiet_rate [intro]: "quiet lib st (st\<lparr>os_rate_limit := r\<rparr>)"
  by (simp add: quiet_def sends_only_def)

lemma quiet_emit: "is_send e \<Longrightarrow> quiet lib st (emit e st)"
  by (simp add: quiet_def sends_only_def emit_def)

lemma quiet_emit_unless: "is_send e \<Longrightarrow> quiet lib st (emit_unless b e st)"
  by (simp add: emit_unless_def quiet_emit)

lemma quiet_fold:
  assumes "\<And>x acc. x \<in> set xs \<Longrightarrow> quiet lib (f acc) (f (g x acc))"
  shows "quiet lib (f acc) (f (fold g xs acc))"
  using assms
proof (induction xs arbitrary: acc)
  case Nil
  then show ?case by simp
next
  case (Cons x xs)
  have "quiet lib (f acc) (f (g x acc))" using Cons.prems by simp
  moreover have "quiet lib (f (g x acc)) (f (fold g xs (g x acc)))" using Cons by simp
  ultimately show ?case by (simp add: quiet_trans)
qed

lemma quiet_start_claim: "quiet lib (sa_state acc) (sa_state (start_claim now u d ed c acc))"
  by (auto simp: start_claim_def)

lemma quiet_send_to_session:
  "quiet (oe_lib env) (sa_state acc) (sa_state (send_to_session env ms ev u d ed c x acc))"
  by (auto simp: send_to_session_def split: prod.splits)

lemma quiet_send_devices:
  "quiet (oe_lib env) (sa_state acc) (sa_state (send_devices env now ms ev force u dks devs acc))"
proof (induction devs arbitrary: acc)
  case Nil
  then show ?case by simp
next
  case (Cons d devs)
  have claim: "quiet (oe_lib env) (sa_state acc)
      (sa_state (send_devices env now ms ev force u dks devs (start_claim now u d ed c acc)))" for ed c
    by (rule quiet_trans [OF quiet_start_claim Cons.IH])
  have session: "quiet (oe_lib env) (sa_state acc)
      (sa_state (send_devices env now ms ev force u dks devs (send_to_session env ms ev u d ed c x acc)))" for ed c x
    by (rule quiet_trans [OF quiet_send_to_session Cons.IH])
  show ?case
    using Cons.IH claim session by (auto split: option.splits)
qed

lemma quiet_send_user: "quiet (oe_lib env) (sa_state acc) (sa_state (send_user env now ms ev force p acc))"
  by (auto simp: send_user_def quiet_send_devices split: prod.splits option.splits)

lemma quiet_send:
  "quiet (oe_lib env) st (fst (send_encrypted_to_device_messages env now ms targets ev force st))"
proof -
  let ?start = "\<lparr>sa_state = st, sa_messages = fmempty, sa_keys = fmempty, sa_query = fmempty, sa_ok = True\<rparr>"
  let ?acc = "fold (send_user env now ms ev force) (sorted_list_of_fmap targets) ?start"
  have "quiet (oe_lib env) (sa_state ?start) (sa_state ?acc)"
    by (rule quiet_fold [where f = sa_state]) (rule quiet_send_user)
  then have "quiet (oe_lib env) st (sa_state ?acc)" by simp
  then show ?thesis
    by (auto simp: send_encrypted_to_device_messages_def Let_def
        intro!: quiet_trans [OF _ quiet_emit_unless])
qed

lemma quiet_claim_device:
  "quiet (oe_lib env) (sa_state acc) (sa_state (claim_device env ms ev pks u p acc))"
  by (auto simp: claim_device_def quiet_send_to_session split: prod.splits option.splits)

lemma quiet_handle_claimed_keys: "quiet (oe_lib env) st (handle_claimed_keys env ms ev pks res st)"
proof -
  let ?start = "\<lparr>sa_state = st, sa_messages = fmempty, sa_keys = fmempty, sa_query = fmempty, sa_ok = True\<rparr>"
  let ?acc = "fold (\<lambda>(user, devices). fold (claim_device env ms ev pks user) (sorted_list_of_fmap devices))
                  (sorted_list_of_fmap res) ?start"
  have "quiet (oe_lib env) (sa_state ?start) (sa_state ?acc)"
  proof (rule quiet_fold [where f = sa_state])
    fix p :: "string \<times> (string, json) fmap" and acc
    show "quiet (oe_lib env) (sa_state acc)
        (sa_state ((case p of (user, devices) \<Rightarrow> fold (claim_device env ms ev pks user) (sorted_list_of_fmap devices)) acc))"
      by (cases p) (simp add: quiet_fold quiet_claim_device)
  qed
  then have "quiet (oe_lib env) st (sa_state ?acc)" by simp
  then show ?thesis
    by (auto simp: handle_claimed_keys_def Let_def intro!: quiet_trans [OF _ quiet_emit_unless])
qed

lemma status_user_keys: "ks_user_keys (fst (verificationStatus env u s)) = ks_user_keys s"
  by (auto simp: verificationStatus_def Let_def split: option.splits)

lemma own_status_frame [simp]:
  "os_store (fst (own_status env u st)) = os_store st"
  "os_requests (fst (own_status env u st)) = os_requests st"
  "os_effects (fst (own_status env u st)) = os_effects st"
  "os_account (fst (own_status env u st)) = os_account st"
  "os_rate_limit (fst (own_status env u st)) = os_rate_limit st"
  "ks_user_keys (os_keys (fst (own_status env u st))) = ks_user_keys (os_keys st)"
  by (auto simp: own_status_def split: prod.splits) (metis fst_conv status_user_keys)

lemma quiet_own_status: "quiet lib st (fst (own_status env u st))"
  by (simp add: quiet_def sends_only_def)

lemma quiet_try_sessions:
  "quiet (oe_lib env) st (fst (try_sessions env ms c msg ids st))"
proof (induction ids arbitrary: st)
  case Nil
  then show ?case by simp
next
  case (Cons n ids)
  have "quiet (oe_lib env) st (fst (try_sessions env ms c msg ids (map_store (saveOlmSession (oe_lib env) n x ms) st)))" for x
    by (rule quiet_trans [OF quiet_saveOlm Cons.IH])
  then show ?case
    using Cons.IH by (auto simp: Let_def split: option.splits prod.splits)
qed

lemma secret_pickleSecret: "secret n False (fst (pickleSecret t s)) = secret n False s"
  by (auto simp: pickleSecret_def secret_def secret_ops_settings secretName_def split: option.splits)

lemma quiet_save_account: "quiet (oe_lib env) st (save_account env (st\<lparr>os_account := a\<rparr>))"
proof -
  let ?s = "os_store st"
  obtain s k where sk: "pickleSecret (oe_random_token env) ?s = (s, k)" by (cases "pickleSecret (oe_random_token env) ?s")
  have "evolves (oe_lib env) ?s (saveOlmAccount d s)" for d
    using pickleSecret_known [of ?s "oe_random_token env"] evolves_saveAccount [of "oe_lib env" ?s d] sk
      shared_pickleSecret [of "oe_random_token env" ?s]
    by (cases "ss_pickle_secret ?s = []") (simp_all add: evolves_def, simp add: saveOlmAccount_def shared_part_def)
  moreover have "ss_inbound s = ss_inbound ?s" "ss_outbound s = ss_outbound ?s"
    "ss_session_data s = ss_session_data ?s" "secret n False s = secret n False ?s" for n
    using pickleSecret_frame [of "oe_random_token env" ?s] secret_pickleSecret [of n "oe_random_token env" ?s]
    by (simp_all add: sk)
  moreover have "save_account env (st\<lparr>os_account := a\<rparr>) =
      st\<lparr>os_account := a, os_store := saveOlmAccount (oe_save_account env k a) s\<rparr>"
    by (simp add: save_account_def sk)
  ultimately show ?thesis
    by (simp add: quiet_def sends_only_def) (simp add: saveOlmAccount_def secret_def)
qed

lemma quiet_pre_key: "quiet (oe_lib env) st (fst (handle_pre_key_olm_message env ms c msg st))"
  by (auto simp: handle_pre_key_olm_message_def Let_def quiet_save_account split: option.splits prod.splits
      intro!: quiet_trans [OF quiet_save_account quiet_saveOlm])

lemma quiet_decrypt_olm: "quiet (oe_lib env) st (fst (decrypt_olm env ms msg cipher st))"
proof -
  obtain st1 r where r: "try_olm_decryption env ms (om_sender_key msg) cipher st = (st1, r)"
    by (cases "try_olm_decryption env ms (om_sender_key msg) cipher st")
  then have st1: "quiet (oe_lib env) st st1"
    by (metis fst_conv quiet_try_sessions try_olm_decryption_def)
  show ?thesis
    using quiet_trans [OF st1 quiet_pre_key] st1 by (auto simp: decrypt_olm_def r split: outcome.splits json.splits)
qed

lemma quiet_recover: "quiet (oe_lib env) st (recover_channel env now ms msg keys st)"
  by (simp add: recover_channel_def Let_def quiet_send)

lemma quiet_handle_secret_request: "quiet (oe_lib env) st (handle_secret_request env now ms r sender st)"
proof -
  obtain st1 v where v: "own_status env (oe_user_id env) st = (st1, v)"
    by (cases "own_status env (oe_user_id env) st")
  then have st1: "quiet (oe_lib env) st st1" by (metis fst_conv quiet_own_status)
  show ?thesis
    using st1 quiet_trans [OF st1 quiet_send]
    by (auto simp: handle_secret_request_def v Let_def split: option.splits)
qed

lemma quiet_handle_key_request: "quiet (oe_lib env) st (handle_key_request_message env now ms r sender st)"
proof -
  obtain st1 v where v: "own_status env sender st = (st1, v)" by (cases "own_status env sender st")
  then have st1: "quiet (oe_lib env) st st1" by (metis fst_conv quiet_own_status)
  show ?thesis
    using st1 quiet_trans [OF st1 quiet_send]
    by (simp add: handle_key_request_message_def v send_megolm_key_to_device_def split: option.split)
qed

section \<open>All functions\<close>

lemma evolves_backup [simp]: "os_store (backup_session_key env i d x st) = os_store st"
  by (auto simp: backup_session_key_def emit_def split: option.splits)

lemma save_inbound_evolves:
  "save_inbound env i x d st = Some st' \<Longrightarrow> evolves (oe_lib env) (os_store st) (os_store st')"
  by (auto simp: save_inbound_def evolves_saveInbound)

lemma emit_store [simp]: "os_store (emit e st) = os_store st"
  by (simp add: emit_def)

lemma evolves_create_inbound:
  "evolves (oe_lib env) (os_store st) (os_store (create_inbound_megolm_session env k c ed st))"
  by (auto simp: create_inbound_megolm_session_def Let_def split: option.splits dest: save_inbound_evolves)

lemma evolves_import_inbound:
  "evolves (oe_lib env) (os_store st) (os_store (import_inbound_megolm_session env k st))"
  by (auto simp: import_inbound_megolm_session_def Let_def split: option.splits dest: save_inbound_evolves)

lemma evolves_secret_send:
  "evolves (oe_lib env) (os_store st) (os_store (handle_secret_send env msg n v st))"
proof -
  obtain st1 vs where st1: "own_status env (oe_user_id env) (st\<lparr>os_requests := fmdrop n (os_requests st)\<rparr>) = (st1, vs)"
    by (cases "own_status env (oe_user_id env) (st\<lparr>os_requests := fmdrop n (os_requests st)\<rparr>)")
  then have "os_store st1 = os_store st"
    using own_status_frame(1) [of env "oe_user_id env" "st\<lparr>os_requests := fmdrop n (os_requests st)\<rparr>"] by simp
  then show ?thesis
    by (simp add: handle_secret_send_def Let_def st1 map_store_def evolves_storeSecret split: option.split)
qed

lemma evolves_quiet: "quiet lib st st' \<Longrightarrow> evolves lib (os_store st) (os_store st')"
  by (simp add: quiet_def)

lemma evolves_device_event:
  "evolves (oe_lib env) (os_store st) (os_store (handle_device_event env now ms msg ed e st))"
  by (cases e) (simp_all add: evolves_create_inbound evolves_import_inbound evolves_secret_send
      evolves_quiet [OF quiet_handle_secret_request])

text \<open>How \<open>handle_olm_message\<close> ends: quietly, or with an accepted payload.\<close>

lemma handle_olm_message_cases:
  obtains (quiet) "quiet (oe_lib env) st (handle_olm_message env now ms msg keys st)"
  | (event) cipher payload ed e st1 where
      "fmlookup (om_ciphertext msg) (oe_curve25519 env) = Some cipher"
      "decrypt_olm env ms msg cipher st = (st1, Done payload)" "quiet (oe_lib env) st st1"
      "accepted_payload env msg keys payload = Some ed" "oe_parse_event env payload = Some e"
      "handle_olm_message env now ms msg keys st = handle_device_event env now ms msg ed e st1"
proof (cases "om_sender_key msg = oe_ed25519 env \<or> fmlookup (om_ciphertext msg) (oe_curve25519 env) = None")
  case True
  then show ?thesis using quiet by (auto simp: handle_olm_message_def)
next
  case False
  then obtain cipher where c: "fmlookup (om_ciphertext msg) (oe_curve25519 env) = Some cipher" by auto
  obtain st1 r where r: "decrypt_olm env ms msg cipher st = (st1, r)" by (cases "decrypt_olm env ms msg cipher st")
  have st1: "quiet (oe_lib env) st st1" using quiet_decrypt_olm [of env st ms msg cipher] r by simp
  have eq: "handle_olm_message env now ms msg keys st =
      (case (st1, r) of
         (st, Threw) \<Rightarrow> st
       | (st, Done JNull) \<Rightarrow> recover_channel env now ms msg keys st
       | (st, Done payload) \<Rightarrow>
           (case accepted_payload env msg keys payload of
              None \<Rightarrow> st
            | Some ed \<Rightarrow>
                (case at_key ''type'' payload \<bind> get_str of
                   None \<Rightarrow> st
                 | Some _ \<Rightarrow>
                     (case oe_parse_event env payload of
                        None \<Rightarrow> st
                      | Some e \<Rightarrow> handle_device_event env now ms msg ed e st))))"
    using False by (simp add: handle_olm_message_def c r)
  show ?thesis
  proof (cases r)
    case Threw
    then show ?thesis using quiet st1 eq by simp
  next
    case (Done payload)
    note payload = this
    show ?thesis
    proof (cases "payload = JNull")
      case True
      then show ?thesis using quiet eq Done quiet_trans [OF st1 quiet_recover] by simp
    next
      case False
      then have eq': "handle_olm_message env now ms msg keys st =
          (case accepted_payload env msg keys payload of
              None \<Rightarrow> st1
            | Some ed \<Rightarrow>
                (case at_key ''type'' payload \<bind> get_str of
                   None \<Rightarrow> st1
                 | Some _ \<Rightarrow>
                     (case oe_parse_event env payload of
                        None \<Rightarrow> st1
                      | Some e \<Rightarrow> handle_device_event env now ms msg ed e st1)))"
        using eq Done by (auto split: json.splits)
      show ?thesis
      proof (cases "accepted_payload env msg keys payload = None
          \<or> at_key ''type'' payload \<bind> get_str = None \<or> oe_parse_event env payload = None")
        case True
        then have "handle_olm_message env now ms msg keys st = st1"
          using eq' by (auto split: option.splits)
        then show ?thesis using quiet st1 by simp
      next
        case False
        then obtain ed t e where "accepted_payload env msg keys payload = Some ed"
          "at_key ''type'' payload \<bind> get_str = Some t" "oe_parse_event env payload = Some e" by auto
        then show ?thesis using event [OF c _ st1] r payload eq' by simp
      qed
    qed
  qed
qed

lemma evolves_handle_olm_message:
  "evolves (oe_lib env) (os_store st) (os_store (handle_olm_message env now ms msg keys st))"
proof (cases rule: handle_olm_message_cases [of env st now ms msg keys])
  case quiet
  then show ?thesis by (rule evolves_quiet)
next
  case (event cipher payload ed e st1)
  then show ?thesis using evolves_trans [OF evolves_quiet evolves_device_event] by metis
qed

lemma evolves_to_device:
  "evolves (oe_lib env) (os_store st) (os_store (handle_to_device_message env now ms m st))"
  by (cases m) (auto simp: evolves_handle_olm_message evolves_quiet [OF quiet_handle_key_request]
      evolves_quiet [OF quiet_handle_secret_request] split: query_outcome.splits)

lemma evolves_fold:
  assumes "\<And>x st. evolves lib (os_store st) (os_store (g x st))"
  shows "evolves lib (os_store st) (os_store (fold g xs st))"
  using assms evolves_trans by (induction xs arbitrary: st) (simp, fastforce)

lemma evolves_queried_sender:
  "evolves (oe_lib env) (os_store st) (os_store (handle_queried_sender env now ms msg t q st))"
proof -
  obtain ks r where r: "query_keys_reply (oe_keys env) (om_sender msg) t q (os_keys st) = (ks, r)"
    by (cases "query_keys_reply (oe_keys env) (om_sender msg) t q (os_keys st)")
  show ?thesis
    using evolves_handle_olm_message [of env "st\<lparr>os_keys := ks\<rparr>" now ms msg]
    by (simp add: handle_queried_sender_def r split: query_outcome.split)
qed

lemma emit_unless_store [simp]: "os_store (emit_unless b e st) = os_store st"
  by (simp add: emit_unless_def)

lemma query_device_store: "os_store (qa_state (query_device env now u d acc)) = os_store (qa_state acc)"
  by (auto simp: query_device_def Let_def split: option.splits)

lemma query_devices_store:
  "os_store (qa_state (fold (query_device env now u) ds acc)) = os_store (qa_state acc)"
  by (induction ds arbitrary: acc) (simp_all add: query_device_store)

lemma query_users_store:
  "os_store (qa_state (fold (\<lambda>(user, devices). fold (query_device env now user) (map snd (sorted_list_of_fmap devices))) us acc))
   = os_store (qa_state acc)"
  by (induction us arbitrary: acc) (auto simp: query_devices_store)

lemma queried_keys_store: "os_store (handle_queried_keys env now ev res st) = os_store st"
  by (simp add: handle_queried_keys_def Let_def query_users_store split: option.split)

lemma evolves_create_session:
  "evolves (oe_lib env) (os_store st) (os_store (fst (create_session env ms room dev members fresh st)))"
proof -
  have *: "evolves (oe_lib env) (os_store st) (saveOutboundMegolmSession (oe_lib env) room d fresh (os_store st2))"
    if "save_inbound env i x d (backup_session_key env i d x st) = Some st2" for i x d st2
    using evolves_trans [OF save_inbound_evolves [OF that] evolves_saveOutbound] by simp
  show ?thesis
    using * by (simp add: create_session_def Let_def map_store_def split: option.split)
qed

lemma evolves_encrypt:
  "evolves (oe_lib env) (os_store st) (os_store (fst (encrypt_group_message env now ms room dev body rels fresh st)))"
proof -
  obtain ks members where m: "getMembersWithKeys (oe_keys env) (oe_only_verified env)
      (room_members room (os_store st)) (os_keys st) = (ks, members)"
    by (cases "getMembersWithKeys (oe_keys env) (oe_only_verified env) (room_members room (os_store st)) (os_keys st)")
  let ?st = "st\<lparr>os_keys := ks\<rparr>"
  let ?r = "case kept_session env ms room dev members (os_store ?st) of
      Some r \<Rightarrow> (?st, Some r)
    | None \<Rightarrow> map_prod id (map_option (Pair fresh)) (create_session env ms room dev members fresh ?st)"
  obtain st1 r where r: "?r = (st1, r)" by (cases ?r)
  have st1: "evolves (oe_lib env) (os_store st) (os_store st1)"
    using r evolves_create_session [of env ?st ms room dev members fresh]
    by (auto split: option.splits) (metis (no_types) fst_conv fst_map_prod id_apply)
  show ?thesis
  proof (cases r)
    case None
    then show ?thesis using st1 r by (simp add: encrypt_group_message_def m)
  next
    case (Some q)
    obtain g d ts where q: "q = (g, d, ts)" by (cases q)
    let ?key = "\<lparr>rmk_room_id = room, rmk_session_id = lib_out_session_id (oe_lib env) g,
                 rmk_session_key = oe_session_key env g\<rparr>"
    obtain st2 ok where s: "(if ts = fmempty then (st1, True)
        else send_encrypted_to_device_messages env now ms ts (OutRoomKey ?key) False st1) = (st2, ok)"
      by (cases "if ts = fmempty then (st1, True)
        else send_encrypted_to_device_messages env now ms ts (OutRoomKey ?key) False st1")
    then have "quiet (oe_lib env) st1 st2"
      using quiet_send [of env st1 now ms ts "OutRoomKey ?key" False] by (auto split: if_splits)
    then have st2: "evolves (oe_lib env) (os_store st) (os_store st2)"
      using evolves_trans [OF st1 evolves_quiet] by blast
    obtain g' content where c: "encrypt_group_message_with_session env g dev body rels = (g', content)"
      by (cases "encrypt_group_message_with_session env g dev body rels")
    have r': "?r = (st1, Some (g, d, ts))" using r Some q by simp
    show ?thesis
      using st2 evolves_trans [OF st2 evolves_updateOutbound]
      unfolding encrypt_group_message_def m
      by (simp only: Let_def prod.case r' option.case s c) (simp add: map_store_def)
  qed
qed

lemma evolves_decrypt:
  "evolves (oe_lib env) (os_store st) (os_store (fst (decryptEvent env f g index event dw st)))"
proof -
  have "evolves (oe_lib env) (os_store st) (os_store st')"
    if "check_index env index n dw x m st = Inr st'" for n x m st'
    using that by (auto simp: check_index_def Let_def split: if_splits option.splits dest: save_inbound_evolves)
  then show ?thesis
    by (auto simp: decryptEvent_def split: option.splits sum.splits group_decrypt_error.splits)
qed

lemma request_secret_store [simp]: "os_store (request_secret env ds p st) = os_store st"
  by (cases p) (simp add: request_secret_def Let_def)

lemma request_secrets_store [simp]: "os_store (fold (request_secret env ds) ps st) = os_store st"
  by (induction ps arbitrary: st) auto

lemma evolves_looked_up:
  "evolves (oe_lib env) (os_store st) (os_store (handle_looked_up_key env room n res st))"
  by (simp add: handle_looked_up_key_def Let_def split: option.split prod.split bool.split)
     (auto dest: save_inbound_evolves)

lemma evolves_olm_step: "evolves (oe_lib env) (os_store st) (os_store (olm_step env st e))"
proof (cases e)
  case (OlToDevice now ms msgs)
  then show ?thesis
    by (simp add: handle_to_device_messages_def) (rule evolves_fold, rule evolves_to_device)
next
  case (OlRequestSecrets txns)
  obtain st1 v where "own_status env (oe_user_id env) st = (st1, v)" by (cases "own_status env (oe_user_id env) st")
  moreover from this have "os_store st1 = os_store st" by (metis fst_conv own_status_frame(1))
  ultimately show ?thesis using OlRequestSecrets by (simp add: request_cross_signing_keys_def)
next
  case (OlTrust user index)
  obtain st1 v where "own_status env user st = (st1, v)" by (cases "own_status env user st")
  moreover from this have "os_store st1 = os_store st" by (metis fst_conv own_status_frame(1))
  ultimately show ?thesis using OlTrust by (simp add: calculate_trust_def)
next
  case (OlPublished account)
  then show ?thesis by (simp add: mark_keys_as_published_def evolves_quiet [OF quiet_save_account])
qed (simp_all add: evolves_queried_sender evolves_quiet [OF quiet_handle_claimed_keys] queried_keys_store
    evolves_quiet [OF quiet_send] evolves_encrypt evolves_decrypt evolves_import map_store_def
    evolves_looked_up download_full_keybackup_def handle_full_keybackup_def lookup_keybackup_def
    send_key_request_for_def secret_request_failed_def secret_request_timeout_def split: option.split)

lemma evolves_run: "evolves (oe_lib env) (os_store st) (os_store (run (olm_step env) st es))"
proof (induction es arbitrary: st)
  case Nil
  then show ?case by simp
next
  case (Cons e es)
  then show ?case using evolves_trans [OF evolves_olm_step] by fastforce
qed

end
