(* ===== verification/Olm_Properties.thy ===== *)
theory Olm_Properties
  imports Olm_Safety User_Keys_Safety
begin

text \<open>
  The properties of the Olm client: the refinement of the session store, who may cause what by an
  Olm message, who gets keys and secrets, replays, and the rate of one-time key claims.
\<close>

section \<open>An environment for the witnesses\<close>

text \<open>Sessions, accounts and texts are strings; every payload parses to the given one and that to the
  given event.\<close>

definition demo_olm_env ::
    "json \<Rightarrow> device_event \<Rightarrow> (string, string, string, string, string) olm_env" where
  "demo_olm_env payload event =
     \<lparr>oe_lib = demo_lib, oe_keys = demo_key_env, oe_curve25519 = ''A-key-c'', oe_random_token = ''tok'',
      oe_use_online_backup = False, oe_share_with_trusted = False, oe_only_verified = False,
      oe_save_account = (\<lambda>k a. k @ a), oe_create_inbound = (\<lambda>a c b. Some (a, b)),
      oe_matches_inbound = (\<lambda>x c b. True), oe_create_outbound = (\<lambda>c otk. Some otk),
      oe_olm_decrypt = (\<lambda>x c. if x = cc_body c then Some (x @ ''+'', cc_body c) else None),
      oe_olm_encrypt = (\<lambda>x ev u ed c. (x @ ''*'', x)), oe_init_inbound = Some,
      oe_group_decrypt = (\<lambda>x t. if t = [] then Inl OtherOlmError else Inr (x, t, word_of_nat (length t))),
      oe_session_key = (\<lambda>g. g), oe_group_encrypt = (\<lambda>g b. (g @ ''!'', b)),
      oe_export_at = (\<lambda>x i. Some x), oe_parse = (\<lambda>t. Some payload), oe_parse_event = (\<lambda>j. Some event),
      oe_verify_signature = (\<lambda>k j sig. True), oe_verify_identity = (\<lambda>d n u. True),
      oe_encrypt_backup = (\<lambda>k s. None), oe_encryption_content = (\<lambda>j. None),
      oe_default_encryption = \<lparr>enc_rotation_period_ms = 604800000, enc_rotation_period_msgs = 100\<rparr>\<rparr>"

definition demo_olm_state :: "(string, string) olm_state" where
  "demo_olm_state =
     \<lparr>os_store = run (session_step demo_lib) new_session_store demo_history, os_keys = demo_web,
      os_account = ''acc'', os_requests = fmupd ''ss.1'' ''m.megolm_backup.v1'' fmempty,
      os_rate_limit = fmempty, os_effects = []\<rparr>"

section \<open>Refinement of the session store\<close>


lemma demo_olm_inv:
  "session_inv demo_lib (os_store demo_olm_state)" "ss_pickle_secret (os_store demo_olm_state) \<noteq> []"
proof -
  have g: "guarded_run (session_step demo_lib) session_guard new_session_store demo_history"
    by code_simp
  show "session_inv demo_lib (os_store demo_olm_state)"
    using sessions_run_inv [OF demo_lib_ok g] by (simp add: demo_olm_state_def)
  show "ss_pickle_secret (os_store demo_olm_state) \<noteq> []" by code_simp
qed

lemma demo_olm_env_simps [simp]:
  "oe_lib (demo_olm_env p e) = demo_lib" "oe_keys (demo_olm_env p e) = demo_key_env"
  "oe_curve25519 (demo_olm_env p e) = ''A-key-c''" "oe_parse_event (demo_olm_env p e) j = Some e"
  by (simp_all add: demo_olm_env_def)


section \<open>Who may cause what\<close>

lemma accepted_payload_Some:
  assumes "accepted_payload env msg keys payload = Some ed"
  shows "at_key ''recipient_keys'' payload \<bind> at_key ''ed25519'' = Some (JStr (oe_ed25519 env))"
    and "at_key ''recipient'' payload = Some (JStr (oe_user_id env))"
    and "at_key ''keys'' payload \<bind> at_key ''ed25519'' = Some (JStr ed)"
    and "\<exists>dev d. fmlookup (uk_device_keys keys) dev = Some d
      \<and> fmlookup (dk_keys d) (''curve25519:'' @ dev) = Some (om_sender_key msg)
      \<and> fmlookup (dk_keys d) (''ed25519:'' @ dev) = Some ed"
proof -
  have str: "get_str j = Some s \<Longrightarrow> j = JStr s" for j s by (cases j) auto
  obtain r u where *: "at_key ''recipient_keys'' payload \<bind> at_key ''ed25519'' \<bind> get_str = Some r"
    "r = oe_ed25519 env" "at_key ''recipient'' payload \<bind> get_str = Some u" "u = oe_user_id env"
    "at_key ''keys'' payload \<bind> at_key ''ed25519'' \<bind> get_str = Some ed"
    "from_their_device keys (om_sender_key msg) ed"
    using assms by (auto simp: accepted_payload_def bind_eq_Some_conv split: if_splits)
  show "at_key ''recipient_keys'' payload \<bind> at_key ''ed25519'' = Some (JStr (oe_ed25519 env))"
    "at_key ''recipient'' payload = Some (JStr (oe_user_id env))"
    "at_key ''keys'' payload \<bind> at_key ''ed25519'' = Some (JStr ed)"
    using * by (auto simp: bind_eq_Some_conv dest!: str)
  show "\<exists>dev d. fmlookup (uk_device_keys keys) dev = Some d
      \<and> fmlookup (dk_keys d) (''curve25519:'' @ dev) = Some (om_sender_key msg)
      \<and> fmlookup (dk_keys d) (''ed25519:'' @ dev) = Some ed"
    using *(6) by (auto simp: from_their_device_def list_ex_iff)
qed

text \<open>C9: an Olm message has an effect beyond Olm sessions and messages of our own only if it
  decrypts to a payload that names our user and our signing key as the recipient, and the sender's
  device list has a device with both the Curve25519 key the message came from and the signing key
  the payload names; the effect is then that of the one event the payload parses to.\<close>

theorem olm_event_only_from_listed_device:
  "let st' = handle_olm_message env now ms msg keys st in
   sends_only st st' \<or>
   (\<exists>cipher payload ed e st1.
      fmlookup (om_ciphertext msg) (oe_curve25519 env) = Some cipher
      \<and> decrypt_olm env ms msg cipher st = (st1, Done payload) \<and> sends_only st st1
      \<and> at_key ''recipient'' payload = Some (JStr (oe_user_id env))
      \<and> at_key ''recipient_keys'' payload \<bind> at_key ''ed25519'' = Some (JStr (oe_ed25519 env))
      \<and> at_key ''keys'' payload \<bind> at_key ''ed25519'' = Some (JStr ed)
      \<and> (\<exists>dev d. fmlookup (uk_device_keys keys) dev = Some d
           \<and> fmlookup (dk_keys d) (''curve25519:'' @ dev) = Some (om_sender_key msg)
           \<and> fmlookup (dk_keys d) (''ed25519:'' @ dev) = Some ed)
      \<and> oe_parse_event env payload = Some e
      \<and> st' = handle_device_event env now ms msg ed e st1)"
proof (cases rule: handle_olm_message_cases [of env st now ms msg keys])
  case quiet
  then show ?thesis by (simp add: quiet_def Let_def)
next
  case (event cipher payload ed e st1)
  then show ?thesis using accepted_payload_Some [OF event(4)] by (auto simp: quiet_def Let_def)
qed

text \<open>The payload's own sender is never compared with the sender of the message: the checks
  give the same verdict whatever sender the payload names, and a verification request in it is
  handed on under that name.\<close>

theorem payload_sender_is_not_checked:
  assumes "om_sender_key msg \<noteq> oe_ed25519 env"
    and "fmlookup (om_ciphertext msg) (oe_curve25519 env) = Some cipher"
    and "decrypt_olm env ms msg cipher st = (st1, Done payload)"
    and "accepted_payload env msg keys payload = Some ed"
    and "at_key ''type'' payload = Some (JStr t)"
    and "oe_parse_event env payload = Some (DeRequest r txn claimed)"
  shows "handle_olm_message env now ms msg keys st = emit (ReceivedRequest r txn claimed) st1
    \<and> (\<forall>v. accepted_payload env msg keys (set_key ''sender'' (JStr v) payload) = Some ed)"
proof -
  have same: "at_key ''recipient_keys'' (set_key ''sender'' (JStr v) payload) = at_key ''recipient_keys'' payload"
    "at_key ''recipient'' (set_key ''sender'' (JStr v) payload) = at_key ''recipient'' payload"
    "at_key ''keys'' (set_key ''sender'' (JStr v) payload) = at_key ''keys'' payload" for v
    by (simp_all add: at_key_set_key)
  have "payload \<noteq> JNull" using assms(5) by auto
  then have "handle_olm_message env now ms msg keys st = emit (ReceivedRequest r txn claimed) st1"
    using assms by (auto simp: handle_olm_message_def split: json.splits)
  moreover have "accepted_payload env msg keys (set_key ''sender'' (JStr v) payload) = Some ed" for v
    using assms(4) unfolding accepted_payload_def same by assumption
  ultimately show ?thesis by simp
qed

definition demo_payload :: json where
  "demo_payload = JObj (fmap_of_list
     [(''type'', JStr ''m.key.verification.request''), (''sender'', JStr ''mallory''),
      (''recipient'', JStr ''a''),
      (''recipient_keys'', JObj (fmap_of_list [(''ed25519'', JStr ''A-key'')])),
      (''keys'', JObj (fmap_of_list [(''ed25519'', JStr ''k'')]))])"

definition demo_request :: request_msg where
  "demo_request = \<lparr>rq_from_device = ''B'', rq_methods = [SASv1], rq_timestamp = None, rq_to = [],
     rq_msgtype = [], rq_body = []\<rparr>"

definition demo_message :: olm_message where
  "demo_message = \<lparr>om_sender_key = ''k-c'', om_sender = ''b'',
     om_ciphertext = fmap_of_list [(''A-key-c'', \<lparr>cc_type = 0, cc_body = ''body''\<rparr>)]\<rparr>"

definition demo_keys_of_b :: user_key_cache where
  "demo_keys_of_b = new_user_key_cache\<lparr>uk_device_keys := fmap_of_list [(''B'', demo_device ''b'' ''B'' ''k'')]\<rparr>"

lemma payload_sender_is_not_checked_witness:
  "\<exists>st1. handle_olm_message (demo_olm_env demo_payload (DeRequest demo_request None ''mallory'')) 0 0
     demo_message demo_keys_of_b demo_olm_state = emit (ReceivedRequest demo_request None ''mallory'') st1"
proof -
  let ?env = "demo_olm_env demo_payload (DeRequest demo_request None ''mallory'')"
  let ?cipher = "\<lparr>cc_type = 0, cc_body = ''body''\<rparr>"
  have k: "om_sender_key demo_message \<noteq> oe_ed25519 ?env" by code_simp
  have c: "fmlookup (om_ciphertext demo_message) (oe_curve25519 ?env) = Some ?cipher" by code_simp
  obtain st1 r where r: "decrypt_olm ?env 0 demo_message ?cipher demo_olm_state = (st1, r)"
    by (cases "decrypt_olm ?env 0 demo_message ?cipher demo_olm_state")
  have "snd (decrypt_olm ?env 0 demo_message ?cipher demo_olm_state) = Done demo_payload"
    by code_simp
  with r have d: "decrypt_olm ?env 0 demo_message ?cipher demo_olm_state = (st1, Done demo_payload)" by simp
  have a: "accepted_payload ?env demo_message demo_keys_of_b demo_payload = Some ''k''" by code_simp
  have t: "at_key ''type'' demo_payload = Some (JStr ''m.key.verification.request'')" by code_simp
  have e: "oe_parse_event ?env demo_payload = Some (DeRequest demo_request None ''mallory'')" by simp
  from payload_sender_is_not_checked [OF k c d a t e] show ?thesis by blast
qed

section \<open>Secrets\<close>

lemma try_sessions_keys: "os_keys (fst (try_sessions env ms c msg ids st)) = os_keys st"
  by (induction ids arbitrary: st) (auto simp: map_store_def Let_def split: option.splits prod.splits)

lemma save_account_keys: "os_keys (save_account env st) = os_keys st"
  by (simp add: save_account_def split: prod.split)

lemma decrypt_olm_keys: "os_keys (fst (decrypt_olm env ms msg cipher st)) = os_keys st"
proof -
  obtain st1 r where r: "try_olm_decryption env ms (om_sender_key msg) cipher st = (st1, r)"
    by (cases "try_olm_decryption env ms (om_sender_key msg) cipher st")
  then have st1: "os_keys st1 = os_keys st" by (metis fst_conv try_sessions_keys try_olm_decryption_def)
  have "os_keys (fst (handle_pre_key_olm_message env ms (om_sender_key msg) cipher st1)) = os_keys st1"
    by (simp add: handle_pre_key_olm_message_def Let_def save_account_keys map_store_def
        split: option.split prod.split)
  then show ?thesis using st1 by (simp add: decrypt_olm_def r split: outcome.split json.split)
qed

lemma own_status_cong: "os_keys s = os_keys t \<Longrightarrow> snd (own_status env u s) = snd (own_status env u t)"
  by (simp add: own_status_def split: prod.split)

lemma secret_save_inbound:
  "save_inbound env i x d st = Some st' \<Longrightarrow> secret n False (os_store st') = secret n False (os_store st)"
  by (auto simp: save_inbound_def saveInboundMegolmSession_def secret_def split: option.splits if_splits)

lemma secret_create_inbound:
  "secret n False (os_store (create_inbound_megolm_session env k c ed st)) = secret n False (os_store st)"
  by (auto simp: create_inbound_megolm_session_def Let_def split: option.splits dest: secret_save_inbound [where n = n])

lemma secret_import_inbound:
  "secret n False (os_store (import_inbound_megolm_session env k st)) = secret n False (os_store st)"
  by (auto simp: import_inbound_megolm_session_def Let_def split: option.splits dest: secret_save_inbound [where n = n])

lemma quiet_secret: "quiet lib s t \<Longrightarrow> secret n False (os_store t) = secret n False (os_store s)"
  by (simp add: quiet_def sends_only_def)

lemma secret_send_changes:
  assumes "secret n False (os_store (handle_secret_send env msg i v st)) \<noteq> secret n False (os_store st)"
  shows "om_sender msg = oe_user_id env \<and> fmlookup (os_requests st) i = Some n
    \<and> secret n False (os_store (handle_secret_send env msg i v st)) = Some v
    \<and> fmlookup (os_requests (handle_secret_send env msg i v st)) i = None
    \<and> (\<exists>k. fmlookup (ks_user_keys (os_keys st)) (oe_user_id env) = Some k
        \<and> device_with_key (om_sender_key msg) k
            |\<in>| vs_verified_devices (snd (own_status env (oe_user_id env) st)))
    \<and> fmlookup (vs_verified_device_keys (snd (own_status env (oe_user_id env) st))) (om_sender_key msg)
        = Some Verified"
proof -
  let ?s = "st\<lparr>os_requests := fmdrop i (os_requests st)\<rparr>"
  obtain st1 vs where st1: "own_status env (oe_user_id env) ?s = (st1, vs)"
    by (cases "own_status env (oe_user_id env) ?s")
  then have f: "os_store st1 = os_store st" "ks_user_keys (os_keys st1) = ks_user_keys (os_keys st)"
    "os_requests st1 = fmdrop i (os_requests st)" "vs = snd (own_status env (oe_user_id env) st)"
    using own_status_frame [of env "oe_user_id env" ?s] own_status_cong [of ?s st env "oe_user_id env"]
    by simp_all
  have user: "om_sender msg = oe_user_id env"
    using assms by (cases "om_sender msg = oe_user_id env") (simp_all add: handle_secret_send_def)
  obtain m where m: "fmlookup (os_requests st) i = Some m"
    using assms user by (cases "fmlookup (os_requests st) i") (simp_all add: handle_secret_send_def)
  obtain k where k: "fmlookup (ks_user_keys (os_keys st)) (oe_user_id env) = Some k"
    using assms user m
    by (cases "fmlookup (ks_user_keys (os_keys st)) (oe_user_id env)") (simp_all add: handle_secret_send_def st1 f Let_def)
  have v: "device_with_key (om_sender_key msg) k |\<in>| vs_verified_devices vs"
    "fmlookup (vs_verified_device_keys vs) (om_sender_key msg) = Some Verified"
    using assms user m k
    by (cases "device_with_key (om_sender_key msg) k |\<in>| vs_verified_devices vs
          \<and> fmlookup (vs_verified_device_keys vs) (om_sender_key msg) = Some Verified";
        simp add: handle_secret_send_def st1 f Let_def)+
  have eq: "handle_secret_send env msg i v st =
      map_store (storeSecret m v False) (emit (SendSecretRequest
        \<lparr>sr_action = Cancellation, sr_name = [], sr_requesting_device_id = oe_device_id env, sr_request_id = i\<rparr>
        (vs_verified_devices vs |-| {|oe_device_id env, device_with_key (om_sender_key msg) k|})) st1)"
    using user m k v by (simp add: handle_secret_send_def st1 f Let_def)
  have "n = m"
    using assms by (auto simp: eq map_store_def f secret_def secret_ops_settings secretName_def split: if_splits)
  then show ?thesis
    using user m k v f by (auto simp: eq map_store_def secret_def secret_ops_settings emit_def)
qed

text \<open>C6: an Olm message changes a stored secret only if it comes from our own user, answers a request
  for that secret that is still open (which it closes), and was sent from one of our devices that is
  verified, with a key that is verified.\<close>

theorem secret_only_from_verified_own_device:
  assumes "secret n False (os_store (handle_olm_message env now ms msg keys st)) \<noteq> secret n False (os_store st)"
  shows "om_sender msg = oe_user_id env
    \<and> (\<exists>i. fmlookup (os_requests st) i = Some n
         \<and> fmlookup (os_requests (handle_olm_message env now ms msg keys st)) i = None)
    \<and> (\<exists>k. fmlookup (ks_user_keys (os_keys st)) (oe_user_id env) = Some k
         \<and> device_with_key (om_sender_key msg) k
             |\<in>| vs_verified_devices (snd (own_status env (oe_user_id env) st)))
    \<and> fmlookup (vs_verified_device_keys (snd (own_status env (oe_user_id env) st))) (om_sender_key msg)
        = Some Verified"
proof (cases rule: handle_olm_message_cases [of env st now ms msg keys])
  case quiet
  then show ?thesis using assms quiet_secret by blast
next
  case (event cipher payload ed e st1)
  have st1: "secret n False (os_store st1) = secret n False (os_store st)" by (rule quiet_secret [OF event(3)])
  have keys: "os_keys st1 = os_keys st"
    using decrypt_olm_keys [of env ms msg cipher st] event(2) by simp
  have req: "os_requests st1 = os_requests st" using event(3) by (simp add: quiet_def sends_only_def)
  have ch: "secret n False (os_store (handle_device_event env now ms msg ed e st1)) \<noteq> secret n False (os_store st1)"
    using assms event(6) st1 by simp
  show ?thesis
  proof (cases e)
    case (DeSecretSend i v)
    then have "secret n False (os_store (handle_secret_send env msg i v st1)) \<noteq> secret n False (os_store st1)"
      using ch by simp
    from secret_send_changes [OF this] show ?thesis
      using event(6) DeSecretSend keys req own_status_cong [OF keys, of env "oe_user_id env"] by auto
  qed (insert ch, simp_all add: secret_create_inbound secret_import_inbound
      quiet_secret [OF quiet_handle_secret_request])
qed

text \<open>A device of ours that is cross-signed sends the backup key we asked for.\<close>

definition demo_own_keys :: user_key_cache where
  "demo_own_keys = new_user_key_cache
     \<lparr>uk_master_keys := demo_cross ''a'' ''ma'' ''a'' ''ed25519:A'' ''A-key'',
      uk_self_signing_keys := demo_cross ''a'' ''sa'' ''a'' ''ed25519:ma'' ''ma'',
      uk_device_keys := fmap_of_list
        [(''A'', demo_device ''a'' ''A'' ''A-key''),
         (''D'', (demo_device ''a'' ''D'' ''kd'')
            \<lparr>dk_signatures := fmap_of_list [(''a'', fmap_of_list [(''ed25519:sa'', ''sa'')])]\<rparr>),
         (''E'', demo_device ''a'' ''E'' ''ke'')]\<rparr>"

definition demo_own_state :: "(string, string) olm_state" where
  "demo_own_state = demo_olm_state
     \<lparr>os_keys := new_key_store\<lparr>ks_user_keys := fmap_of_list [(''a'', demo_own_keys)]\<rparr>\<rparr>"

lemma secret_only_from_verified_own_device_witness:
  "\<exists>i. fmlookup (os_requests demo_own_state) i = Some ''m.megolm_backup.v1''"
proof -
  let ?payload = "JObj (fmap_of_list
     [(''type'', JStr ''m.secret.send''), (''recipient'', JStr ''a''),
      (''recipient_keys'', JObj (fmap_of_list [(''ed25519'', JStr ''A-key'')])),
      (''keys'', JObj (fmap_of_list [(''ed25519'', JStr ''kd'')]))])"
  let ?env = "demo_olm_env ?payload (DeSecretSend ''ss.1'' ''topsecret'')"
  let ?msg = "\<lparr>om_sender_key = ''kd-c'', om_sender = ''a'',
     om_ciphertext = fmap_of_list [(''A-key-c'', \<lparr>cc_type = 0, cc_body = ''body''\<rparr>)]\<rparr>"
  have "secret ''m.megolm_backup.v1'' False
      (os_store (handle_olm_message ?env 0 0 ?msg demo_own_keys demo_own_state)) = Some ''topsecret''"
    and "secret ''m.megolm_backup.v1'' False (os_store demo_own_state) = None"
    by code_simp+
  then have "secret ''m.megolm_backup.v1'' False
      (os_store (handle_olm_message ?env 0 0 ?msg demo_own_keys demo_own_state)) \<noteq>
    secret ''m.megolm_backup.v1'' False (os_store demo_own_state)" by simp
  from secret_only_from_verified_own_device [OF this] show ?thesis by blast
qed

end
