(* ===== verification/Olm_Access.thy ===== *)
theory Olm_Access
  imports Olm_Properties
begin

text \<open>
  Who gets room keys on request, what happens when an Olm message is delivered twice, and how often
  one-time keys of a device are claimed.
\<close>

section \<open>Key requests\<close>

lemma requested_session_Some:
  assumes "requested_session env r sender s = Some (data, session)"
  shows "kr_algorithm r = megolm_algo"
    and "getMegolmSessionData (oe_lib env) \<lparr>ms_room_id = kr_room_id r, ms_session_id = kr_session_id r\<rparr> s = Some data"
    and "getInboundMegolmSession (oe_lib env) \<lparr>ms_room_id = kr_room_id r, ms_session_id = kr_session_id r\<rparr> s = Some session"
    and "isRoomMember sender (kr_room_id r) s"
    and "sender = oe_user_id env \<or> gs_sender_key data = oe_curve25519 env"
  using assms by (auto simp: requested_session_def Let_def split: if_splits option.splits)


text \<open>Our own verified device \<open>D\<close> asks for the session we stored.\<close>

definition demo_key_request :: key_request where
  "demo_key_request =
     \<lparr>kr_action = Request, kr_algorithm = megolm_algo, kr_room_id = ms_room_id demo_index,
      kr_session_id = ms_session_id demo_index, kr_sender_key = ''x'', kr_request_id = ''r1'',
      kr_requesting_device_id = ''D''\<rparr>"

definition demo_request_state :: "(string, string) olm_state" where
  "demo_request_state = map_store (saveOlmSession demo_lib ''kd-c'' ''os'' 5)
     (map_store (\<lambda>s. s\<lparr>ss_members := fmap_of_list [(ms_room_id demo_index, fmap_of_list [(''a'', JNull)])]\<rparr>)
       demo_own_state)"


section \<open>Messages that arrive twice\<close>

lemma get_saved_elsewhere:
  assumes "n \<noteq> k"
  shows "getOlmSession lib k i (saveOlmSession lib n x ms s) = getOlmSession lib k i s"
    and "getOlmSessions k (saveOlmSession lib n x ms s) = getOlmSessions k s"
  using assms by (simp_all add: saveOlmSession_def getOlmSession_def getOlmSessions_def sub_table_def Let_def
      cong: option.case_cong)

text \<open>Two states that give the same sessions of a sender.\<close>

definition same_sessions ::
    "('i, 'g, 'o) olm_lib \<Rightarrow> string \<Rightarrow> ('a, 'c) olm_state \<Rightarrow> ('a, 'c) olm_state \<Rightarrow> bool" where
  "same_sessions lib k st st' \<longleftrightarrow>
     getOlmSessions k (os_store st') = getOlmSessions k (os_store st) \<and>
     (\<forall>i. getOlmSession lib k i (os_store st') = getOlmSession lib k i (os_store st))"

lemma same_sessions_save:
  "n \<noteq> k \<Longrightarrow> same_sessions lib k st (map_store (saveOlmSession lib n x ms) st)"
  by (simp add: same_sessions_def map_store_def get_saved_elsewhere)

lemma try_sessions_same:
  assumes "same_sessions (oe_lib env) k st st'" and "k \<notin> set ids"
  shows "snd (try_sessions env ms' k msg ids st') = snd (try_sessions env ms k msg ids st)
    \<and> same_sessions (oe_lib env) k st (fst (try_sessions env ms k msg ids st))"
  using assms
proof (induction ids arbitrary: st st')
  case Nil
  then show ?case by (simp add: same_sessions_def)
next
  case (Cons n ids)
  have n: "n \<noteq> k" and ids: "k \<notin> set ids" using Cons.prems(2) by auto
  have g: "getOlmSession (oe_lib env) k n (os_store st') = getOlmSession (oe_lib env) k n (os_store st)"
    using Cons.prems(1) by (simp add: same_sessions_def)
  note skip = Cons.IH [OF Cons.prems(1) ids]
  show ?case
  proof (cases "getOlmSession (oe_lib env) k n (os_store st)")
    case None
    then show ?thesis using g by (simp add: same_sessions_def)
  next
    case (Some s)
    note read = this
    show ?thesis
    proof (cases s)
      case None
      then show ?thesis using g read skip by simp
    next
      case (Some session)
      show ?thesis
      proof (cases "oe_olm_decrypt env session msg")
        case None
        then show ?thesis using g read Some skip by simp
      next
        case (Some p)
        obtain x t where p: "p = (x, t)" by (cases p)
        let ?st = "map_store (saveOlmSession (oe_lib env) n x ms) st"
        let ?st' = "map_store (saveOlmSession (oe_lib env) n x ms') st'"
        have saved: "same_sessions (oe_lib env) k st ?st" by (rule same_sessions_save [OF n])
        have both: "same_sessions (oe_lib env) k ?st ?st'"
          using Cons.prems(1) by (simp add: same_sessions_def map_store_def get_saved_elsewhere [OF n])
        have "same_sessions (oe_lib env) k st (fst (try_sessions env ms k msg ids ?st))"
          using Cons.IH [OF both ids] saved by (simp add: same_sessions_def)
        then show ?thesis
          using g read \<open>s = Some session\<close> Some p saved Cons.IH [OF both ids]
          by (simp add: Let_def split: option.split)
      qed
    qed
  qed
qed

text \<open>A message decrypted with a known Olm session leaves the sessions of its sender as they were
  (the session is saved under its own id, not under the sender's key), so that the same message
  decrypts again to the same payload, however often it is delivered.\<close>

theorem olm_message_can_be_replayed:
  assumes "om_sender_key msg \<notin> set (getOlmSessions (om_sender_key msg) (os_store st))"
    and "cc_type cipher \<noteq> 0"
  shows "snd (decrypt_olm env ms' msg cipher (fst (decrypt_olm env ms msg cipher st)))
      = snd (decrypt_olm env ms msg cipher st)
    \<and> same_sessions (oe_lib env) (om_sender_key msg) st (fst (decrypt_olm env ms msg cipher st))"
proof -
  let ?k = "om_sender_key msg"
  let ?dec = "\<lambda>ms st. try_olm_decryption env ms ?k cipher st"
  have d: "decrypt_olm env ms msg cipher st = ?dec ms st" for ms st
    using assms(2) by (cases "?dec ms st") (simp add: decrypt_olm_def split: outcome.split json.split)
  let ?ids = "getOlmSessions ?k (os_store st)"
  have refl: "same_sessions (oe_lib env) ?k st st" by (simp add: same_sessions_def)
  have kept: "same_sessions (oe_lib env) ?k st (fst (try_sessions env ms ?k cipher ?ids st))"
    using try_sessions_same [OF refl assms(1)] by blast
  then have "getOlmSessions ?k (os_store (fst (try_sessions env ms ?k cipher ?ids st))) = ?ids"
    by (simp add: same_sessions_def)
  then show ?thesis
    using try_sessions_same [OF kept assms(1)] kept by (simp add: d try_olm_decryption_def)
qed

lemma olm_message_can_be_replayed_witness:
  "snd (decrypt_olm (demo_olm_env demo_payload DeOther) 0 demo_message \<lparr>cc_type = 1, cc_body = ''s''\<rparr>
     (fst (decrypt_olm (demo_olm_env demo_payload DeOther) 0 demo_message \<lparr>cc_type = 1, cc_body = ''s''\<rparr>
        (map_store (saveOlmSession demo_lib ''k-c'' ''s'' 5) demo_olm_state)))) = Done demo_payload"
proof -
  let ?st = "map_store (saveOlmSession demo_lib ''k-c'' ''s'' 5) demo_olm_state"
  let ?env = "demo_olm_env demo_payload DeOther"
  have k: "om_sender_key demo_message \<notin> set (getOlmSessions (om_sender_key demo_message) (os_store ?st))"
    by code_simp
  have t: "cc_type \<lparr>cc_type = 1, cc_body = ''s''\<rparr> \<noteq> 0" by simp
  have "snd (decrypt_olm ?env 0 demo_message \<lparr>cc_type = 1, cc_body = ''s''\<rparr> ?st) = Done demo_payload"
    by code_simp
  with olm_message_can_be_replayed [OF k t, of ?env 0 0] show ?thesis by simp
qed

end
