(* ===== verification/Key_Claims.thy ===== *)
theory Key_Claims
  imports Olm_Access
begin

text \<open>
  How often one-time keys are claimed: \<open>send_encrypted_to_device_messages\<close> and the reply to its key
  query note the time of a claim per device and make the next one only ten hours later.
\<close>

section \<open>Claims\<close>

text \<open>The effect claims a one-time key of the device.\<close>

fun claims :: "string \<Rightarrow> string \<Rightarrow> 'c olm_effect \<Rightarrow> bool" where
  "claims u d (ClaimKeys c _ _) = (case fmlookup c u of None \<Rightarrow> False | Some S \<Rightarrow> d |\<in>| S)"
| "claims u d _ = False"

text \<open>What happens in a step at a given time about the claims of each device: none is made and the
  noted time stays, or the last noted time is more than ten hours ago and the new one is now.\<close>

definition limited :: "int \<Rightarrow> ('a, 'c) olm_state \<Rightarrow> ('a, 'c) olm_state \<Rightarrow> bool" where
  "limited now st st' \<longleftrightarrow>
     (\<exists>es. os_effects st' = os_effects st @ es \<and>
       (\<forall>u d. last_claim u d st' = last_claim u d st \<and> (\<forall>e\<in>set es. \<not> claims u d e)
          \<or> last_claim u d st + claim_interval < now \<and> last_claim u d st' = now))"

lemma limited_trans:
  assumes "limited now s t" and "limited now t u"
  shows "limited now s u"
proof -
  obtain es where es: "os_effects t = os_effects s @ es"
    "\<forall>a d. last_claim a d t = last_claim a d s \<and> (\<forall>e\<in>set es. \<not> claims a d e)
          \<or> last_claim a d s + claim_interval < now \<and> last_claim a d t = now"
    using assms(1) by (auto simp: limited_def)
  obtain fs where fs: "os_effects u = os_effects t @ fs"
    "\<forall>a d. last_claim a d u = last_claim a d t \<and> (\<forall>e\<in>set fs. \<not> claims a d e)
          \<or> last_claim a d t + claim_interval < now \<and> last_claim a d u = now"
    using assms(2) by (auto simp: limited_def)
  have "last_claim a d u = last_claim a d s \<and> (\<forall>e\<in>set (es @ fs). \<not> claims a d e)
          \<or> last_claim a d s + claim_interval < now \<and> last_claim a d u = now" for a d
    using es(2) [rule_format, of a d] fs(2) [rule_format, of a d] by (auto simp: claim_interval_def)
  then show ?thesis
    unfolding limited_def by (intro exI [of _ "es @ fs"]) (simp add: es(1) fs(1))
qed

lemma limited_frame:
  "os_effects st' = os_effects st \<Longrightarrow> os_rate_limit st' = os_rate_limit st \<Longrightarrow> limited now st st'"
  unfolding limited_def last_claim_def by (intro exI [of _ "[]"]) simp

lemma limited_refl [simp]: "limited now st st"
  by (rule limited_frame) simp_all

lemma limited_emit: "\<forall>u d. \<not> claims u d e \<Longrightarrow> limited now st (emit e st)"
  unfolding limited_def last_claim_def by (intro exI [of _ "[e]"]) (simp add: emit_def)

lemma limited_emit_unless: "\<forall>u d. \<not> claims u d e \<Longrightarrow> limited now st (emit_unless b e st)"
  by (simp add: emit_unless_def limited_emit)

lemma limited_map_store [simp]: "limited now st (map_store f st)"
  by (rule limited_frame) (simp_all add: map_store_def)

lemma limited_store [simp]: "limited now st (st\<lparr>os_store := s\<rparr>)"
  by (rule limited_frame) simp_all

lemma limited_keys [simp]: "limited now st (st\<lparr>os_keys := k\<rparr>)"
  by (rule limited_frame) simp_all

lemma limited_requests [simp]: "limited now st (st\<lparr>os_requests := r\<rparr>)"
  by (rule limited_frame) simp_all

lemma limited_own_status: "limited now st (fst (own_status env u st))"
  by (rule limited_frame) simp_all

lemma limited_fold:
  assumes "\<And>x st. limited now st (g x st)"
  shows "limited now st (fold g xs st)"
  using assms limited_trans by (induction xs arbitrary: st) (simp, fastforce)

section \<open>Claims while sending\<close>

text \<open>No claim yet, and the noted times have moved for exactly the devices whose keys are to be
  claimed.\<close>

definition claims_noted ::
    "int \<Rightarrow> ('a, 'c) olm_state \<Rightarrow> ('a, 'c) olm_state \<Rightarrow> (string \<Rightarrow> string \<Rightarrow> bool) \<Rightarrow> bool" where
  "claims_noted now st st' C \<longleftrightarrow>
     (\<exists>es. os_effects st' = os_effects st @ es \<and> (\<forall>e\<in>set es. \<forall>u d. \<not> claims u d e)) \<and>
     (\<forall>u d. last_claim u d st' = last_claim u d st \<and> \<not> C u d
        \<or> last_claim u d st + claim_interval < now \<and> last_claim u d st' = now)"

lemma claims_noted_start: "\<forall>u d. \<not> C u d \<Longrightarrow> claims_noted now st st C"
  by (simp add: claims_noted_def)

lemma claims_noted_emit:
  assumes "claims_noted now st st' C" and "\<forall>u d. \<not> claims u d e"
  shows "claims_noted now st (emit_unless b e st') C"
proof -
  obtain es where "os_effects st' = os_effects st @ es" "\<forall>e\<in>set es. \<forall>u d. \<not> claims u d e"
    using assms(1) by (auto simp: claims_noted_def)
  then show ?thesis
    using assms unfolding claims_noted_def last_claim_def
    by (intro conjI exI [of _ "es @ (if b then [] else [e])"]) (simp_all add: emit_unless_def emit_def)
qed

lemma limited_claims_noted:
  assumes "claims_noted now st st' C" and "\<forall>u d. claims u d e \<longrightarrow> C u d"
  shows "limited now st (emit_unless b e st')"
proof -
  obtain es where es: "os_effects st' = os_effects st @ es" "\<forall>e\<in>set es. \<forall>u d. \<not> claims u d e"
    using assms(1) by (auto simp: claims_noted_def)
  have "limited now st st'"
    using assms(1) es unfolding limited_def claims_noted_def by (intro exI [of _ es]) auto
  moreover have "limited now st (emit e st')"
    using assms es unfolding limited_def claims_noted_def last_claim_def
    by (intro exI [of _ "es @ [e]"]) (auto simp: emit_def)
  ultimately show ?thesis by (simp add: emit_unless_def)
qed

lemma last_claim_upd [simp]:
  "last_claim u d (st\<lparr>os_rate_limit := fmupd p now (os_rate_limit st)\<rparr>) = (if p = (u, d) then now else last_claim u d st)"
  by (auto simp: last_claim_def)

lemma last_claim_map_store [simp]: "last_claim u d (map_store f st) = last_claim u d st"
  by (simp add: last_claim_def map_store_def)

lemma claims_noted_add:
  assumes "claims_noted now st s C" and "last_claim u d s + claim_interval < now"
    and "\<And>a b. C' a b \<Longrightarrow> C a b \<or> (a, b) = (u, d)"
  shows "claims_noted now st (s\<lparr>os_rate_limit := fmupd (u, d) now (os_rate_limit s)\<rparr>) C'"
proof -
  have old: "last_claim a b s = last_claim a b st \<and> \<not> C a b
      \<or> last_claim a b st + claim_interval < now \<and> last_claim a b s = now" for a b
    using assms(1) by (simp add: claims_noted_def)
  have "last_claim a b (s\<lparr>os_rate_limit := fmupd (u, d) now (os_rate_limit s)\<rparr>) = last_claim a b st \<and> \<not> C' a b
      \<or> last_claim a b st + claim_interval < now
        \<and> last_claim a b (s\<lparr>os_rate_limit := fmupd (u, d) now (os_rate_limit s)\<rparr>) = now" for a b
  proof (cases "(a, b) = (u, d)")
    case True
    then show ?thesis using old [of u d] assms(2) by (auto simp: claim_interval_def)
  next
    case False
    then have "last_claim a b (s\<lparr>os_rate_limit := fmupd (u, d) now (os_rate_limit s)\<rparr>) = last_claim a b s" by auto
    then show ?thesis using old [of a b] False assms(3) by metis
  qed
  then show ?thesis using assms(1) by (simp add: claims_noted_def)
qed

definition keyed :: "('a, 'c) send_acc \<Rightarrow> string \<Rightarrow> string \<Rightarrow> bool" where
  "keyed acc u d \<longleftrightarrow> (\<exists>m. fmlookup (sa_keys acc) u = Some m \<and> d |\<in>| fmdom m)"

lemma keyed_put2: "keyed (acc\<lparr>sa_keys := put2 u d v (sa_keys acc), sa_state := s\<rparr>) a b \<Longrightarrow> keyed acc a b \<or> (a, b) = (u, d)"
  by (auto simp: keyed_def put2_def sub_table_def split: if_splits option.splits)

abbreviation acc_noted :: "int \<Rightarrow> ('a, 'c) olm_state \<Rightarrow> ('a, 'c) send_acc \<Rightarrow> bool" where
  "acc_noted now st acc \<equiv> claims_noted now st (sa_state acc) (keyed acc)"

lemma keyed_frame [simp]:
  "keyed (acc\<lparr>sa_query := q\<rparr>) = keyed acc" "keyed (acc\<lparr>sa_ok := b\<rparr>) = keyed acc"
  by (simp_all add: keyed_def fun_eq_iff)

lemma noted_start_claim:
  assumes "acc_noted now st acc"
  shows "acc_noted now st (start_claim now u d ed c acc)"
proof (cases "last_claim u d (sa_state acc) + claim_interval < now")
  case False
  then show ?thesis using assms by (simp add: start_claim_def)
next
  case True
  then show ?thesis
    using claims_noted_add [OF assms True keyed_put2] by (simp add: start_claim_def)
qed

lemma noted_send_to_session:
  "acc_noted now st acc \<Longrightarrow> acc_noted now st (send_to_session env ms ev u d ed c x acc)"
  by (auto simp: send_to_session_def claims_noted_def keyed_def map_store_def last_claim_def split: prod.split)

lemma noted_send_devices:
  "acc_noted now st acc \<Longrightarrow> acc_noted now st (send_devices env now ms ev force u dks devs acc)"
proof (induction devs arbitrary: acc)
  case Nil
  then show ?case by simp
next
  case (Cons d devs)
  have claim: "acc_noted now st (send_devices env now ms ev force u dks devs (start_claim now u d ed c acc))" for ed c
    by (rule Cons.IH [OF noted_start_claim [OF Cons.prems]])
  have session: "acc_noted now st
      (send_devices env now ms ev force u dks devs (send_to_session env ms ev u d ed c x acc))" for ed c x
    by (rule Cons.IH [OF noted_send_to_session [OF Cons.prems]])
  show ?case
    using claim session Cons.IH [OF Cons.prems] Cons.prems by (cases force) (simp_all split: option.split)
qed

lemma noted_send_user: "acc_noted now st acc \<Longrightarrow> acc_noted now st (send_user env now ms ev force p acc)"
  using noted_send_devices [of now st acc env ms ev force]
  by (simp add: send_user_def split: prod.split option.split)

lemma limited_send:
  "limited now st (fst (send_encrypted_to_device_messages env now ms targets ev force st))"
proof -
  let ?start = "\<lparr>sa_state = st, sa_messages = fmempty, sa_keys = fmempty, sa_query = fmempty, sa_ok = True\<rparr>"
  let ?acc = "fold (send_user env now ms ev force) (sorted_list_of_fmap targets) ?start"
  have "acc_noted now st ?start" by (simp add: claims_noted_def keyed_def)
  then have acc: "acc_noted now st ?acc"
    by (rule fold_invariant [where P = "acc_noted now st"]) (rule noted_send_user)
  let ?sent = "emit_unless (sa_messages ?acc = fmempty) (SendOlmMessages (sa_messages ?acc)) (sa_state ?acc)"
  let ?claimed = "emit_unless (sa_keys ?acc = fmempty)
      (ClaimKeys (claimed_devices (sa_keys ?acc)) ev (sa_keys ?acc)) ?sent"
  have "claims_noted now st ?sent (keyed ?acc)"
    by (rule claims_noted_emit [OF acc]) simp
  then have claimed: "limited now st ?claimed"
    by (rule limited_claims_noted) (auto simp: claimed_devices_def keyed_def split: option.splits)
  have queried: "limited now st (emit_unless (sa_query ?acc = fmempty) (QueryDeviceKeys (sa_query ?acc) ev) ?claimed)"
    by (rule limited_trans [OF claimed limited_emit_unless]) simp
  have "limited now st (emit_unless True (QueryDeviceKeys fmempty ev) (sa_state ?acc))"
    by (rule limited_claims_noted [OF acc]) simp
  then have failed: "limited now st (sa_state ?acc)" by (simp add: emit_unless_def)
  show ?thesis
    using failed queried by (simp add: send_encrypted_to_device_messages_def Let_def)
qed

section \<open>Claims after a key query\<close>

definition query_claimed :: "('a, 'c) query_acc \<Rightarrow> string \<Rightarrow> string \<Rightarrow> bool" where
  "query_claimed acc u d \<longleftrightarrow> (\<exists>S. fmlookup (qa_claims acc) u = Some S \<and> d |\<in>| S)"

abbreviation query_noted :: "int \<Rightarrow> ('a, 'c) olm_state \<Rightarrow> ('a, 'c) query_acc \<Rightarrow> bool" where
  "query_noted now st acc \<equiv> claims_noted now st (qa_state acc) (query_claimed acc)"

lemma query_claimed_upd:
  "query_claimed (acc\<lparr>qa_keys := ks,
      qa_claims := fmupd u (finsert n (case fmlookup (qa_claims acc) u of None \<Rightarrow> {||} | Some S \<Rightarrow> S)) (qa_claims acc),
      qa_state := s\<rparr>) a b \<Longrightarrow> query_claimed acc a b \<or> (a, b) = (u, n)"
  by (auto simp: query_claimed_def split: if_splits option.splits)

lemma noted_query_device:
  assumes "query_noted now st acc"
  shows "query_noted now st (query_device env now u d acc)"
  using assms claims_noted_add [OF assms _ query_claimed_upd]
  by (simp add: query_device_def Let_def split: option.split)

lemma limited_queried_keys:
  fixes st :: "('a, 'c) olm_state"
  shows "limited now st (handle_queried_keys env now ev res st)"
proof -
  have "limited now st (handle_queried_keys env now ev (Some q) st)" if "nextBatchToken (os_store st) = Some t" for q t
  proof -
    let ?st = "st\<lparr>os_keys := updateUserKeys (oe_keys env) t q (os_keys st)\<rparr>"
    let ?start = "\<lparr>qa_state = ?st, qa_keys = fmempty, qa_claims = fmempty\<rparr>"
    let ?acc = "fold (\<lambda>(user, devices). fold (query_device env now user) (map snd (sorted_list_of_fmap devices)))
        (sorted_list_of_fmap (qk_device_keys q)) ?start"
    have "query_noted now ?st ?start" by (simp add: claims_noted_def query_claimed_def)
    then have "query_noted now ?st ?acc"
    proof (rule fold_invariant [where P = "query_noted now ?st"])
      fix p :: "string \<times> (string, device_keys) fmap" and acc :: "('a, 'c) query_acc"
      assume "query_noted now ?st acc"
      then have "query_noted now ?st (fold (query_device env now (fst p)) (map snd (sorted_list_of_fmap (snd p))) acc)"
        by (rule fold_invariant [where P = "query_noted now ?st"]) (rule noted_query_device)
      then show "query_noted now ?st ((case p of (user, devices) \<Rightarrow>
          fold (query_device env now user) (map snd (sorted_list_of_fmap devices))) acc)"
        by (simp add: case_prod_unfold)
    qed
    then have "limited now ?st (emit_unless (qa_claims ?acc = fmempty) (ClaimKeys (qa_claims ?acc) ev (qa_keys ?acc)) (qa_state ?acc))"
      by (rule limited_claims_noted) (auto simp: query_claimed_def split: option.splits)
    then show ?thesis
      using limited_trans [OF limited_keys] that by (simp add: handle_queried_keys_def Let_def)
  qed
  then show ?thesis by (cases res; cases "nextBatchToken (os_store st)") (auto simp: handle_queried_keys_def)
qed

section \<open>The other functions\<close>

lemma try_sessions_frame:
  "os_effects (fst (try_sessions env ms c msg ids st)) = os_effects st
    \<and> os_rate_limit (fst (try_sessions env ms c msg ids st)) = os_rate_limit st"
  by (induction ids arbitrary: st) (auto simp: map_store_def Let_def split: option.splits prod.splits)

lemma limited_account: "limited now st (save_account env (st\<lparr>os_account := a\<rparr>))"
  by (rule limited_frame) (simp_all add: save_account_def split: prod.split)

lemma limited_decrypt_olm: "limited now st (fst (decrypt_olm env ms msg cipher st))"
proof -
  obtain st1 r where r: "try_olm_decryption env ms (om_sender_key msg) cipher st = (st1, r)"
    by (cases "try_olm_decryption env ms (om_sender_key msg) cipher st")
  then have "os_effects st1 = os_effects st" "os_rate_limit st1 = os_rate_limit st"
    using try_sessions_frame [of env ms "om_sender_key msg" cipher "getOlmSessions (om_sender_key msg) (os_store st)" st]
    by (simp_all add: try_olm_decryption_def)
  then have st1: "limited now st st1" by (rule limited_frame)
  have "limited now st1 (fst (handle_pre_key_olm_message env ms (om_sender_key msg) cipher st1))"
    by (simp add: handle_pre_key_olm_message_def Let_def limited_account limited_trans [OF limited_account limited_map_store]
        split: option.split prod.split)
  then show ?thesis
    using limited_trans [OF st1] st1 by (simp add: decrypt_olm_def r split: outcome.split json.split)
qed

lemma limited_backup: "limited now st (backup_session_key env i d x st)"
  by (simp add: backup_session_key_def limited_emit split: option.split)

lemma limited_save_inbound: "save_inbound env i x d st = Some st' \<Longrightarrow> limited now st st'"
  by (auto simp: save_inbound_def)

lemma limited_key_saved:
  assumes "save_inbound env i x d (backup_session_key env i d x st) = Some st'"
  shows "limited now st st'" and "limited now st (emit (SessionKeyReceived a b) st')"
proof -
  show st': "limited now st st'" by (rule limited_trans [OF limited_backup limited_save_inbound [OF assms]])
  show "limited now st (emit (SessionKeyReceived a b) st')" by (rule limited_trans [OF st' limited_emit]) simp
qed

lemma limited_create_inbound: "limited now st (create_inbound_megolm_session env k c ed st)"
  by (simp add: create_inbound_megolm_session_def Let_def limited_backup limited_key_saved split: option.split)

lemma limited_import_inbound: "limited now st (import_inbound_megolm_session env k st)"
  by (simp add: import_inbound_megolm_session_def Let_def limited_backup limited_key_saved split: option.split)

lemma limited_secret_request: "limited now st (handle_secret_request env now ms r sender st)"
proof -
  obtain st1 v where v: "own_status env (oe_user_id env) st = (st1, v)" by (cases "own_status env (oe_user_id env) st")
  then have st1: "limited now st st1" by (metis fst_conv limited_own_status)
  show ?thesis
    by (simp add: handle_secret_request_def v Let_def st1 limited_trans [OF st1 limited_send] split: option.split)
qed

lemma limited_key_request: "limited now st (handle_key_request_message env now ms r sender st)"
proof -
  obtain st1 v where v: "own_status env sender st = (st1, v)" by (cases "own_status env sender st")
  then have st1: "limited now st st1" by (metis fst_conv limited_own_status)
  show ?thesis
    by (simp add: handle_key_request_message_def v send_megolm_key_to_device_def st1 limited_trans [OF st1 limited_send]
        split: option.split)
qed

lemma limited_secret_send: "limited now st (handle_secret_send env msg n v st)"
proof -
  let ?s = "st\<lparr>os_requests := fmdrop n (os_requests st)\<rparr>"
  obtain st1 vs where v: "own_status env (oe_user_id env) ?s = (st1, vs)" by (cases "own_status env (oe_user_id env) ?s")
  then have st1: "limited now st st1" using limited_trans [OF limited_requests limited_own_status] by (metis fst_conv)
  have "limited now st (map_store f (emit (SendSecretRequest a b) st1))" for f a b
    by (rule limited_trans [OF limited_trans [OF st1 limited_emit] limited_map_store]) simp
  then show ?thesis using st1 by (simp add: handle_secret_send_def Let_def v split: option.split)
qed

lemma limited_device_event: "limited now st (handle_device_event env now ms msg ed e st)"
  by (cases e) (simp_all add: limited_emit limited_create_inbound limited_import_inbound limited_secret_send
      limited_secret_request)

lemma limited_olm_message: "limited now st (handle_olm_message env now ms msg keys st)"
proof -
  have *: "limited now st (case decrypt_olm env ms msg cipher st of
      (st, Threw) \<Rightarrow> st
    | (st, Done JNull) \<Rightarrow> recover_channel env now ms msg keys st
    | (st, Done payload) \<Rightarrow>
        (case accepted_payload env msg keys payload of
           None \<Rightarrow> st
         | Some ed \<Rightarrow>
             (case at_key ''type'' payload \<bind> get_str of
                None \<Rightarrow> st
              | Some _ \<Rightarrow>
                  (case oe_parse_event env payload of
                     None \<Rightarrow> st
                   | Some e \<Rightarrow> handle_device_event env now ms msg ed e st))))" for cipher
  proof -
    obtain st1 r where r: "decrypt_olm env ms msg cipher st = (st1, r)" by (cases "decrypt_olm env ms msg cipher st")
    then have st1: "limited now st st1" by (metis fst_conv limited_decrypt_olm)
    have "limited now st1 (recover_channel env now ms msg keys st1)"
      by (simp add: recover_channel_def Let_def limited_send)
    then have "limited now st (recover_channel env now ms msg keys st1)" by (rule limited_trans [OF st1])
    moreover have "limited now st (handle_device_event env now ms msg ed e st1)" for ed e
      by (rule limited_trans [OF st1 limited_device_event])
    ultimately show ?thesis
      using st1 by (cases r) (simp_all add: r split: json.split option.split)
  qed
  show ?thesis using * by (simp add: handle_olm_message_def split: option.split)
qed

lemma limited_to_device: "limited now st (handle_to_device_message env now ms m st)"
  by (cases m) (simp_all add: limited_olm_message limited_emit limited_key_request limited_secret_request
      split: query_outcome.split)

lemma limited_queried_sender: "limited now st (handle_queried_sender env now ms msg t q st)"
proof -
  obtain ks r where r: "query_keys_reply (oe_keys env) (om_sender msg) t q (os_keys st) = (ks, r)"
    by (cases "query_keys_reply (oe_keys env) (om_sender msg) t q (os_keys st)")
  show ?thesis
    by (simp add: handle_queried_sender_def r limited_trans [OF limited_keys limited_olm_message]
        split: query_outcome.split)
qed

lemma limited_claimed_keys:
  fixes st :: "('a, 'c) olm_state"
  shows "limited now st (handle_claimed_keys env ms ev pks res st)"
proof -
  let ?start = "\<lparr>sa_state = st, sa_messages = fmempty, sa_keys = fmempty, sa_query = fmempty, sa_ok = True\<rparr>"
  let ?acc = "fold (\<lambda>(user, devices). fold (claim_device env ms ev pks user) (sorted_list_of_fmap devices))
      (sorted_list_of_fmap res) ?start"
  have one: "limited now st (sa_state (claim_device env ms ev pks u p acc))" if "limited now st (sa_state acc)" for u p acc
  proof -
    have "limited now (sa_state acc) (sa_state (claim_device env ms ev pks u p acc))"
      by (rule limited_frame) (simp_all add: claim_device_def send_to_session_def map_store_def
          split: prod.split option.split)
    with that show ?thesis by (rule limited_trans)
  qed
  have "limited now st (sa_state ?start)" by simp
  then have "limited now st (sa_state ?acc)"
  proof (rule fold_invariant [where P = "\<lambda>acc. limited now st (sa_state acc)"])
    fix p :: "string \<times> (string, json) fmap" and acc :: "('a, 'c) send_acc"
    assume "limited now st (sa_state acc)"
    then have "limited now st (sa_state (fold (claim_device env ms ev pks (fst p)) (sorted_list_of_fmap (snd p)) acc))"
      by (rule fold_invariant [where P = "\<lambda>acc. limited now st (sa_state acc)"]) (rule one)
    then show "limited now st (sa_state ((case p of (user, devices) \<Rightarrow>
        fold (claim_device env ms ev pks user) (sorted_list_of_fmap devices)) acc))"
      by (simp add: case_prod_unfold)
  qed
  moreover from this have "limited now st (emit_unless b (SendOlmMessages x) (sa_state ?acc))" for b x
    by (rule limited_trans [OF _ limited_emit_unless]) simp
  ultimately show ?thesis by (simp add: handle_claimed_keys_def Let_def)
qed

lemma limited_create_session: "limited now st (fst (create_session env ms room dev members fresh st))"
  by (simp add: create_session_def Let_def limited_backup limited_key_saved(1)
      limited_trans [OF limited_key_saved(1) limited_map_store] split: option.split)

lemma limited_encrypt: "limited now st (fst (encrypt_group_message env now ms room dev body rels fresh st))"
proof -
  obtain ks members where m: "getMembersWithKeys (oe_keys env) (oe_only_verified env)
      (room_members room (os_store st)) (os_keys st) = (ks, members)"
    by (cases "getMembersWithKeys (oe_keys env) (oe_only_verified env) (room_members room (os_store st)) (os_keys st)")
  let ?st = "st\<lparr>os_keys := ks\<rparr>"
  let ?r = "case kept_session env ms room dev members (os_store ?st) of
      Some r \<Rightarrow> (?st, Some r)
    | None \<Rightarrow> map_prod id (map_option (Pair fresh)) (create_session env ms room dev members fresh ?st)"
  obtain st1 r where r: "?r = (st1, r)" by (cases ?r)
  have "limited now st (fst ?r)"
    by (simp add: limited_trans [OF limited_keys limited_create_session] split: option.split)
  then have st1: "limited now st st1" by (simp only: r fst_conv)
  show ?thesis
  proof (cases r)
    case None
    then show ?thesis using st1 r by (simp add: encrypt_group_message_def m)
  next
    case (Some q)
    obtain g d ts where q: "q = (g, d, ts)" by (cases q)
    let ?key = "\<lparr>rmk_room_id = room, rmk_session_id = lib_out_session_id (oe_lib env) g,
                 rmk_session_key = oe_session_key env g\<rparr>"
    obtain st2 ok where s: "(if ts = fmempty then (st1, True)
        else send_encrypted_to_device_messages env now ms ts (OutRoomKey ?key) False st1) = (st2, ok)"
      by (cases "if ts = fmempty then (st1, True)
        else send_encrypted_to_device_messages env now ms ts (OutRoomKey ?key) False st1")
    have "limited now st (fst (if ts = fmempty then (st1, True)
        else send_encrypted_to_device_messages env now ms ts (OutRoomKey ?key) False st1))"
      by (simp add: st1 limited_trans [OF st1 limited_send])
    then have st2: "limited now st st2" by (simp only: s fst_conv)
    obtain g' content where c: "encrypt_group_message_with_session env g dev body rels = (g', content)"
      by (cases "encrypt_group_message_with_session env g dev body rels")
    have r': "?r = (st1, Some (g, d, ts))" using r Some q by simp
    show ?thesis
      using st2 limited_trans [OF st2 limited_map_store]
      unfolding encrypt_group_message_def m
      by (simp only: Let_def prod.case r' option.case s c) simp
  qed
qed

lemma limited_decrypt: "limited now st (fst (decryptEvent env f g index event dw st))"
proof -
  have "limited now st st'" if "check_index env index n dw x m st = Inr st'" for n x m st'
    using that by (auto simp: check_index_def Let_def split: if_splits option.splits dest: limited_save_inbound)
  then show ?thesis
    by (simp add: decryptEvent_def split: option.split sum.split group_decrypt_error.split prod.split)
qed

lemma limited_looked_up: "limited now st (handle_looked_up_key env room n res st)"
proof -
  have "limited now st (emit (SessionKeyReceived a b) st')" if "save_inbound env i x d st = Some st'" for i x d st' a b
    by (rule limited_trans [OF limited_save_inbound [OF that] limited_emit]) simp
  then show ?thesis
    by (simp add: handle_looked_up_key_def Let_def split: option.split prod.split bool.split)
qed

lemma limited_request_secret: "limited now st (request_secret env ds p st)"
  by (cases p) (simp add: request_secret_def Let_def limited_trans [OF limited_requests limited_emit]
      limited_trans [OF limited_emit limited_requests])

text \<open>The time of an operation, for those that read the clock for claims.\<close>

fun op_time :: "('g, 'a) olm_op \<Rightarrow> int" where
  "op_time (OlToDevice now _ _) = now"
| "op_time (OlQueriedSender now _ _ _ _) = now"
| "op_time (OlQueriedKeys now _ _) = now"
| "op_time (OlSend now _ _ _ _) = now"
| "op_time (OlEncrypt now _ _ _ _ _ _) = now"
| "op_time _ = 0"

lemma limited_olm_step: "limited (op_time e) st (olm_step env st e)"
proof (cases e)
  case (OlToDevice now ms msgs)
  then show ?thesis by (simp add: handle_to_device_messages_def limited_fold limited_to_device)
next
  case (OlTrust user index)
  then show ?thesis
    using limited_own_status [of 0 st env user] by (simp add: calculate_trust_def case_prod_unfold Let_def)
next
  case (OlRequestSecrets txns)
  obtain st1 v where v: "own_status env (oe_user_id env) st = (st1, v)" by (cases "own_status env (oe_user_id env) st")
  then have "limited 0 st st1" by (metis fst_conv limited_own_status)
  then have "limited 0 st (fold (request_secret env ds) ps st1)" for ds ps
    by (rule limited_trans) (rule limited_fold, rule limited_request_secret)
  then show ?thesis using OlRequestSecrets v by (simp add: request_cross_signing_keys_def)
next
  case (OlSecretTimeout r devices)
  then show ?thesis by (simp add: secret_request_timeout_def limited_trans [OF limited_requests limited_emit])
qed (simp_all add: limited_queried_sender limited_queried_keys limited_send limited_encrypt limited_decrypt
    limited_claimed_keys limited_looked_up limited_emit download_full_keybackup_def handle_full_keybackup_def
    lookup_keybackup_def send_key_request_for_def secret_request_failed_def
    mark_keys_as_published_def limited_account split: option.split)

section \<open>Ten hours between two claims\<close>

definition new_effects ::
    "('i, 'g, 'o, 'a, 'c) olm_env \<Rightarrow> ('a, 'c) olm_state \<Rightarrow> ('g, 'a) olm_op \<Rightarrow> 'c olm_effect list" where
  "new_effects env st e = drop (length (os_effects st)) (os_effects (olm_step env st e))"

lemma claim_in_step:
  assumes "x \<in> set (new_effects env st e)" and "claims u d x"
  shows "last_claim u d st + claim_interval < op_time e \<and> last_claim u d (olm_step env st e) = op_time e"
proof -
  obtain es where es: "os_effects (olm_step env st e) = os_effects st @ es"
    "\<forall>u d. last_claim u d (olm_step env st e) = last_claim u d st \<and> (\<forall>x\<in>set es. \<not> claims u d x)
      \<or> last_claim u d st + claim_interval < op_time e \<and> last_claim u d (olm_step env st e) = op_time e"
    using limited_olm_step [of e st env] by (auto simp: limited_def)
  then have "x \<in> set es" using assms(1) by (simp add: new_effects_def)
  with assms(2) es(2) show ?thesis by blast
qed

lemma last_claim_grows: "last_claim u d st \<le> last_claim u d (run (olm_step env) st es)"
proof (induction es arbitrary: st)
  case Nil
  then show ?case by simp
next
  case (Cons e es)
  have "last_claim u d st \<le> last_claim u d (olm_step env st e)"
    using limited_olm_step [of e st env] by (auto simp: limited_def claim_interval_def) (smt (verit))
  then show ?case using Cons [of "olm_step env st e"] by simp
qed

text \<open>C12: however the client is driven in between, and whatever the clock says, two claims of a
  one-time key of the same device are more than ten hours apart.\<close>

theorem claims_are_ten_hours_apart:
  assumes "x \<in> set (new_effects env st e)" and "claims u d x"
    and "st' = run (olm_step env) (olm_step env st e) es"
    and "y \<in> set (new_effects env st' e')" and "claims u d y"
  shows "op_time e + 60 * 60 * 10 < op_time e'"
  using claim_in_step [OF assms(1,2)] claim_in_step [OF assms(4,5)]
    last_claim_grows [of u d "olm_step env st e" env es] assms(3)
  by (simp add: claim_interval_def)

lemma claims_are_ten_hours_apart_witness:
  "(50000 :: int) + 60 * 60 * 10 < 90000"
proof -
  let ?env = "demo_olm_env JNull DeOther"
  let ?send = "\<lambda>t. OlSend t 6 (fmap_of_list [(''a'', [''D''])]) OutDummy False :: (string, string) olm_op"
  let ?st = "run (olm_step ?env) (olm_step ?env demo_own_state (?send 50000)) [?send 60000]"
  have one: "\<exists>x\<in>set (new_effects ?env demo_own_state (?send 50000)). claims ''a'' ''D'' x" by code_simp
  have two: "\<exists>x\<in>set (new_effects ?env ?st (?send 90000)). claims ''a'' ''D'' x" by code_simp
  obtain x where x: "x \<in> set (new_effects ?env demo_own_state (?send 50000))" "claims ''a'' ''D'' x"
    using one by blast
  obtain y where y: "y \<in> set (new_effects ?env ?st (?send 90000))" "claims ''a'' ''D'' y"
    using two by blast
  from claims_are_ten_hours_apart [OF x refl y] show ?thesis by simp
qed

end
