(* ===== verification/Group_Properties.thy ===== *)
theory Group_Properties
  imports Key_Claims
begin

text \<open>
  The properties of room encryption: when a session may be kept, who it is shared with, the message
  index recorded for a recipient, and the detection of replayed messages.
\<close>

section \<open>Comparing members with recipients\<close>

text \<open>What the loop is for: the session may stay if every recipient is still there with every device.\<close>

definition recipients_remain ::
    "(string \<times> user_key_cache option) list \<Rightarrow> (string \<times> device_keys_to_msg_index) list \<Rightarrow> bool" where
  "recipients_remain ms ss \<longleftrightarrow>
     (\<forall>(u, shared)\<in>set ss. \<exists>k. (u, k) \<in> set ms \<and> \<not> device_removed k shared)"

text \<open>And the devices a member still has to be given the session.\<close>

definition missing_devices ::
    "string \<Rightarrow> string \<Rightarrow> string \<Rightarrow> user_key_cache option \<Rightarrow> device_keys_to_msg_index option \<Rightarrow> string list option" where
  "missing_devices own dev u k shared =
     (case shared of
        None \<Rightarrow> Some (other_devices own dev u k)
      | Some s \<Rightarrow> (case new_devices own dev u k s of [] \<Rightarrow> None | ds \<Rightarrow> Some ds))"

lemma fold_other_devices:
  "distinct (map fst ms) \<Longrightarrow>
   fmlookup (fold (\<lambda>(user, k). fmupd user (other_devices own dev user k)) ms T) u =
     (case map_of ms u of None \<Rightarrow> fmlookup T u | Some k \<Rightarrow> Some (other_devices own dev u k))"
proof (induction ms arbitrary: T)
  case Nil
  then show ?case by simp
next
  case (Cons m ms)
  obtain u' k' where m: "m = (u', k')" by (cases m)
  have "map_of ms u' = None" using Cons.prems m by (simp add: map_of_eq_None_iff)
  then show ?case using Cons m by (auto split: option.split)
qed

lemma lookup_push_devices:
  "fmlookup T u = None \<Longrightarrow>
   fmlookup (push_devices u ds T) v =
     (if v = u then (case ds of [] \<Rightarrow> None | _ \<Rightarrow> Some ds) else fmlookup T v)"
  by (auto simp: push_devices_def split: list.split)

text \<open>One step of the loop against its specification, for lists sorted by user.\<close>

lemma compare_members_spec:
  assumes "sorted (map fst ms)" and "distinct (map fst ms)" and "sorted (map fst ss)" and "distinct (map fst ss)"
    and "\<forall>u\<in>fst ` set ms. fmlookup T u = None"
  shows "case compare_members own dev ms ss T of
     None \<Rightarrow> ms = [] \<or> \<not> recipients_remain ms ss
   | Some T' \<Rightarrow> ms \<noteq> [] \<and> recipients_remain ms ss \<and>
       (\<forall>u. fmlookup T' u = (case map_of ms u of
          None \<Rightarrow> fmlookup T u
        | Some k \<Rightarrow> missing_devices own dev u k (map_of ss u)))"
  using assms
proof (induction own dev ms ss T rule: compare_members.induct)
  case (1 own dev T)
  then show ?case by simp
next
  case (2 own dev s ss T)
  then show ?case by simp
next
  case (3 own dev m ms T)
  then show ?case
    using fold_other_devices [of "m # ms" own dev T]
    by (simp add: recipients_remain_def missing_devices_def split: option.split)
next
  case (4 own dev user k ms user' shared ss T)
  let ?ms = "(user, k) # ms" and ?ss = "(user', shared) # ss"
  have later: "\<And>u k. (u, k) \<in> set ms \<Longrightarrow> user < u" "\<And>u d. (u, d) \<in> set ss \<Longrightarrow> user' < u"
    using 4(3-6) by (force simp: order.strict_iff_order)+
  have fresh: "fmlookup T user = None" "\<forall>u\<in>fst ` set ms. fmlookup T u = None" using 4(7) by simp_all
  have map: "map_of ms user = None" using 4(4) by (simp add: map_of_eq_None_iff)
  consider (gone) "user > user'" | (joined) "user < user'" | (both) "user = user'" by fastforce
  then show ?case
  proof cases
    case gone
    then have "(user', k') \<notin> set ?ms" for k' using later(1) [of user' k'] by auto
    then show ?thesis using gone by (auto simp: recipients_remain_def)
  next
    case joined
    let ?T = "fmupd user (other_devices own dev user k) T"
    have no: "map_of ?ss user = None"
      using joined later(2) by (force simp: map_of_eq_None_iff)
    have remain: "recipients_remain ?ms ?ss \<longleftrightarrow> recipients_remain ms ?ss"
      using joined later(2) by (force simp: recipients_remain_def)
    have "\<not> user > user'" using joined by simp
    note IH = "4.IH"(1) [OF this joined, of]
    have IH': "case compare_members own dev ms ?ss ?T of
         None \<Rightarrow> ms = [] \<or> \<not> recipients_remain ms ?ss
       | Some T' \<Rightarrow> ms \<noteq> [] \<and> recipients_remain ms ?ss \<and>
           (\<forall>u. fmlookup T' u = (case map_of ms u of
              None \<Rightarrow> fmlookup ?T u
            | Some k \<Rightarrow> missing_devices own dev u k (map_of ?ss u)))"
      by (rule IH) (use 4(3-6) fresh later(1) in auto)
    have step: "compare_members own dev ?ms ?ss T = compare_members own dev ms ?ss ?T"
      using joined by (auto dest: order.asym)
    show ?thesis
    proof (cases "compare_members own dev ms ?ss ?T")
      case None
      then show ?thesis using IH' unfolding step remain by (auto simp: recipients_remain_def)
    next
      case (Some T')
      have eq: "fmlookup T' u = (case map_of ms u of
          None \<Rightarrow> fmlookup ?T u | Some k \<Rightarrow> missing_devices own dev u k (map_of ?ss u))" for u
        using IH' Some by simp
      have "fmlookup T' u = (case map_of ?ms u of
          None \<Rightarrow> fmlookup T u | Some k \<Rightarrow> missing_devices own dev u k (map_of ?ss u))" for u
      proof (cases "u = user")
        case True
        then show ?thesis using eq [of u] map no by (simp add: missing_devices_def)
      next
        case False
        then show ?thesis using eq [of u] by (cases "map_of ms u") simp_all
      qed
      then show ?thesis using IH' Some unfolding step remain by simp
    qed
  next
    case both
    let ?T = "push_devices user (new_devices own dev user k shared) T"
    have remain: "recipients_remain ?ms ?ss \<longleftrightarrow> \<not> device_removed k shared \<and> recipients_remain ms ss"
      using both later by (fastforce simp: recipients_remain_def)
    have target: "fmlookup ?T u = (if u = user then missing_devices own dev user k (Some shared) else fmlookup T u)" for u
      by (simp add: lookup_push_devices [OF fresh(1)] missing_devices_def split: list.split)
    show ?thesis
    proof (cases "device_removed k shared")
      case True
      then show ?thesis using both remain by simp
    next
      case kept: False
      show ?thesis
      proof (cases "ms = [] \<and> ss = []")
        case True
        then show ?thesis using both kept remain target by (simp add: Let_def recipients_remain_def)
      next
        case False
        have "\<not> user > user'" "\<not> user < user'" using both by simp_all
        note IH = "4.IH"(2) [OF this kept refl False]
        have IH': "case compare_members own dev ms ss ?T of
             None \<Rightarrow> ms = [] \<or> \<not> recipients_remain ms ss
           | Some T' \<Rightarrow> ms \<noteq> [] \<and> recipients_remain ms ss \<and>
               (\<forall>u. fmlookup T' u = (case map_of ms u of
                  None \<Rightarrow> fmlookup ?T u
                | Some k \<Rightarrow> missing_devices own dev u k (map_of ss u)))"
          by (rule IH) (use 4(3-6) fresh later(1) target in auto)
        have step: "compare_members own dev ?ms ?ss T = compare_members own dev ms ss ?T"
          using both kept False by (simp add: Let_def)
        have ss: "map_of ?ss u = (if u = user then Some shared else map_of ss u)" for u using both by auto
        show ?thesis
        proof (cases "compare_members own dev ms ss ?T")
          case None
          then show ?thesis using IH' False unfolding step remain
            by (cases ss) (auto simp: recipients_remain_def)
        next
          case (Some T')
          then show ?thesis
            using IH' map kept target unfolding step remain ss by (auto split: option.splits)
        qed
      qed
    qed
  qed
qed

definition every_recipient_remains :: "(string, user_key_cache option) fmap \<Rightarrow> shared_with_users \<Rightarrow> bool" where
  "every_recipient_remains members currently \<longleftrightarrow>
     fmpred (\<lambda>u shared. \<exists>k. fmlookup members u = Some k \<and> fset (fmdom shared) \<subseteq> set (devices_of k)) currently"

lemma sorted_list_of_fmap_Nil_iff [simp]: "sorted_list_of_fmap m = [] \<longleftrightarrow> m = fmempty"
proof
  assume "sorted_list_of_fmap m = []"
  then have "map_of (sorted_list_of_fmap m) = Map.empty" by simp
  then show "m = fmempty" by (simp add: fmap_ext)
qed simp

lemma device_removed_iff: "device_removed k shared \<longleftrightarrow> \<not> fset (fmdom shared) \<subseteq> set (devices_of k)"
  by (auto simp: device_removed_def list_ex_iff map_fst_sorted_list_of_fmap)

lemma recipients_remain_iff:
  "recipients_remain (sorted_list_of_fmap members) (sorted_list_of_fmap currently)
    \<longleftrightarrow> every_recipient_remains members currently"
  by (auto simp: recipients_remain_def every_recipient_remains_def device_removed_iff fmpred_iff)


section \<open>Seen message indices\<close>

text \<open>libolm: decrypting a message does not move the first index a session opens.\<close>

definition decrypt_keeps_first_index :: "('i, 'g, 'o, 'a, 'c) olm_env \<Rightarrow> bool" where
  "decrypt_keeps_first_index env \<longleftrightarrow>
     (\<forall>x t x' s i. oe_group_decrypt env x t = Inr (x', s, i) \<longrightarrow>
        lib_first_known_index (oe_lib env) x' = lib_first_known_index (oe_lib env) x)"

lemma decrypt_first_index:
  "decrypt_keeps_first_index env \<Longrightarrow> oe_group_decrypt env x t = Inr (x', s, i) \<Longrightarrow>
   lib_first_known_index (oe_lib env) x' \<le> lib_first_known_index (oe_lib env) x"
  unfolding decrypt_keeps_first_index_def by (metis order.refl)

text \<open>The event a message index of a session was first seen in.\<close>

definition seen_in :: "('i, 'g, 'o) olm_lib \<Rightarrow> megolm_session_index \<Rightarrow> 32 word \<Rightarrow> string \<Rightarrow> session_store \<Rightarrow> bool" where
  "seen_in lib index i e s \<longleftrightarrow>
     (\<exists>d. getMegolmSessionData lib index s = Some d \<and> fmlookup (gs_indices d) i = Some e)"

lemma get_inbound_put:
  assumes "lib_ok lib"
  shows "getInboundMegolmSession lib j (put_inbound lib i x d s) =
      (if key_text lib j = key_text lib i then Some x else getInboundMegolmSession lib j s)"
    and "getMegolmSessionData lib j (put_inbound lib i x d s) =
      (if key_text lib j = key_text lib i then Some d else getMegolmSessionData lib j s)"
  using assms by (simp_all add: getInboundMegolmSession_def getMegolmSessionData_def put_inbound_def Let_def
      lib_ok_def group_session_data_read_back cong: option.case_cong)

lemma get_data_key:
  "key_text lib j = key_text lib i \<Longrightarrow> getMegolmSessionData lib j s = getMegolmSessionData lib i s"
  by (simp add: getMegolmSessionData_def)

lemma save_inbound_put:
  assumes "save_inbound env i x d st = Some st'"
    and "getInboundMegolmSession (oe_lib env) i (os_store st) = Some old"
    and "lib_first_known_index (oe_lib env) x \<le> lib_first_known_index (oe_lib env) old"
  shows "st' = st\<lparr>os_store := put_inbound (oe_lib env) i x d (os_store st)\<rparr>"
  using assms by (auto simp: save_inbound_def saveInboundMegolmSession_def getInboundMegolmSession_def
      not_less split: option.splits if_splits)

text \<open>Decrypting keeps every index seen, and notes the index of the event.\<close>

lemma check_index_keeps:
  assumes lib: "lib_ok (oe_lib env)"
    and "check_index env j ev dw y k st = Inr st'"
    and j: "getInboundMegolmSession (oe_lib env) j (os_store st) = Some old"
      "lib_first_known_index (oe_lib env) y \<le> lib_first_known_index (oe_lib env) old"
  shows "seen_in (oe_lib env) l i e (os_store st) \<Longrightarrow> seen_in (oe_lib env) l i e (os_store st')"
    and "is_event_id ev \<Longrightarrow> \<not> dw \<Longrightarrow> seen_in (oe_lib env) j k ev (os_store st')"
proof -
  let ?d = "case getMegolmSessionData (oe_lib env) j (os_store st) of None \<Rightarrow> new_group_session_data | Some d \<Rightarrow> d"
  let ?d' = "?d\<lparr>gs_indices := fmupd k ev (gs_indices ?d)\<rparr>"
  consider (same) "st' = st" "is_event_id ev \<Longrightarrow> \<not> dw \<Longrightarrow> fmlookup (gs_indices ?d) k = Some ev"
    | (saved) "fmlookup (gs_indices ?d) k = None" "save_inbound env j y ?d' st = Some st'"
    using assms(2) by (auto simp: check_index_def Let_def split: if_splits option.splits)
  then have "(seen_in (oe_lib env) l i e (os_store st) \<longrightarrow> seen_in (oe_lib env) l i e (os_store st'))
    \<and> (is_event_id ev \<longrightarrow> \<not> dw \<longrightarrow> seen_in (oe_lib env) j k ev (os_store st'))"
  proof cases
    case same
    then show ?thesis by (auto simp: seen_in_def new_group_session_data_def split: option.splits)
  next
    case saved
    have st': "st' = st\<lparr>os_store := put_inbound (oe_lib env) j y ?d' (os_store st)\<rparr>"
      by (rule save_inbound_put [OF saved(2) j])
    have "fmlookup (gs_indices d) i = Some e \<longrightarrow> i \<noteq> k"
      if "getMegolmSessionData (oe_lib env) j (os_store st) = Some d" for d
      using saved(1) that by auto
    then show ?thesis
      using get_data_key [of "oe_lib env" l j "os_store st"]
      by (auto simp: st' seen_in_def get_inbound_put [OF lib])
  qed
  then show "seen_in (oe_lib env) l i e (os_store st) \<Longrightarrow> seen_in (oe_lib env) l i e (os_store st')"
    "is_event_id ev \<Longrightarrow> \<not> dw \<Longrightarrow> seen_in (oe_lib env) j k ev (os_store st')"
    by blast+
qed

lemma decryptEvent_checked:
  assumes "getInboundMegolmSession (oe_lib env) j (os_store st) = Some y"
    and "oe_group_decrypt env y (ee_ciphertext ev) = Inr (y', t, k)"
  shows "fst (decryptEvent env f g j ev dw st) =
    (case check_index env j (ee_event_id ev) dw y' k st of Inl _ \<Rightarrow> st | Inr st' \<Rightarrow> st')"
  by (simp add: decryptEvent_def assms split: sum.split option.split)

lemma decryptEvent_keeps:
  assumes "lib_ok (oe_lib env)" and "decrypt_keeps_first_index env" and "seen_in (oe_lib env) l i e (os_store st)"
  shows "seen_in (oe_lib env) l i e (os_store (fst (decryptEvent env f g j ev dw st)))"
proof (cases "getInboundMegolmSession (oe_lib env) j (os_store st)")
  case None
  then show ?thesis using assms(3) by (simp add: decryptEvent_def)
next
  case (Some y)
  show ?thesis
  proof (cases "oe_group_decrypt env y (ee_ciphertext ev)")
    case (Inl err)
    then show ?thesis using assms(3) Some by (cases err) (simp_all add: decryptEvent_def)
  next
    case (Inr p)
    obtain y' t k where p: "p = (y', t, k)" by (cases p)
    have "lib_first_known_index (oe_lib env) y' \<le> lib_first_known_index (oe_lib env) y"
      using decrypt_first_index [OF assms(2) Inr [unfolded p]] .
    then show ?thesis
      using assms(3) check_index_keeps(1) [OF assms(1) _ Some]
      by (simp add: decryptEvent_checked [OF Some Inr [unfolded p]] split: sum.split)
  qed
qed

fun is_decrypt :: "('g, 'a) olm_op \<Rightarrow> bool" where
  "is_decrypt (OlDecrypt _ _ _) = True"
| "is_decrypt _ = False"

lemma decrypts_keep:
  assumes "lib_ok (oe_lib env)" and "decrypt_keeps_first_index env" and "list_all is_decrypt ops"
    and "seen_in (oe_lib env) l i e (os_store st)"
  shows "seen_in (oe_lib env) l i e (os_store (run (olm_step env) st ops))"
  using assms(3,4)
proof (induction ops arbitrary: st)
  case Nil
  then show ?case by simp
next
  case (Cons op ops)
  then obtain j ev dw where op: "op = OlDecrypt j ev dw" by (cases op) auto
  have "seen_in (oe_lib env) l i e (os_store (olm_step env st op))"
    using decryptEvent_keeps [OF assms(1,2) Cons.prems(2)] by (simp add: op)
  then show ?case using Cons by simp
qed


definition demo_event :: "string \<Rightarrow> encrypted_event" where
  "demo_event n = \<lparr>ee_event_id = n, ee_sender = ''b'', ee_origin_server_ts = 1, ee_unsigned = JNull,
     ee_ciphertext = ''text'', ee_relations = []\<rparr>"

lemma demo_lib_of_env: "lib_ok (oe_lib (demo_olm_env p e))"
  by (simp add: demo_lib_ok)


section \<open>Keys that arrive again\<close>

text \<open>A room key that opens the stored session from the same or an earlier index makes the client
  forget every message index it has seen: no event is then rejected as a replay, the ones decrypted
  before included.\<close>

theorem repeated_room_key_forgets_seen_indices:
  assumes "lib_ok (oe_lib env)"
    and "index = \<lparr>ms_room_id = rmk_room_id k, ms_session_id = rmk_session_id k\<rparr>"
    and "getInboundMegolmSession (oe_lib env) index (os_store st) = Some old"
    and "oe_init_inbound env (rmk_session_key k) = Some x"
    and "lib_first_known_index (oe_lib env) x \<le> lib_first_known_index (oe_lib env) old"
    and "st' = handle_device_event env now ms msg ed (DeRoomKey k) st"
  shows "getInboundMegolmSession (oe_lib env) index (os_store st') = Some x
    \<and> map_option gs_indices (getMegolmSessionData (oe_lib env) index (os_store st')) = Some fmempty
    \<and> (\<forall>ev dw. fst (snd (decryptEvent env f g index ev dw st')) \<noteq> ReplayAttack)"
proof -
  let ?d = "new_group_session_data
      \<lparr>gs_forwarding_curve25519_key_chain := [om_sender_key msg],
       gs_sender_claimed_ed25519_key := ed, gs_sender_key := om_sender_key msg\<rparr>"
  let ?st = "backup_session_key env index ?d x st"
  have old: "getInboundMegolmSession (oe_lib env) index (os_store ?st) = Some old" using assms(3) by simp
  have "save_inbound env index x ?d ?st \<noteq> None"
    using old by (auto simp: save_inbound_def saveInboundMegolmSession_def getInboundMegolmSession_def
        split: option.splits)
  then obtain st2 where st2: "save_inbound env index x ?d ?st = Some st2" by auto
  have "os_store st2 = put_inbound (oe_lib env) index x ?d (os_store st)"
    using save_inbound_put [OF st2 old assms(5)] by simp
  moreover have "st' = emit (SessionKeyReceived (rmk_room_id k) (rmk_session_id k)) st2"
    using assms(4) st2 by (simp add: assms(2,6) create_inbound_megolm_session_def)
  ultimately have s: "os_store st' = put_inbound (oe_lib env) index x ?d (os_store st)" by simp
  have "check_index env index e dw y i st' \<noteq> Inl ReplayAttack" for e dw y i
    by (auto simp: check_index_def s get_inbound_put [OF assms(1)] new_group_session_data_def Let_def
        split: option.splits)
  then have "fst (snd (decryptEvent env f g index ev dw st')) \<noteq> ReplayAttack" for ev dw
    by (auto simp: decryptEvent_def split: option.split sum.split group_decrypt_error.split)
  then show ?thesis
    by (simp add: s get_inbound_put [OF assms(1)] new_group_session_data_def)
qed

lemma repeated_room_key_forgets_seen_indices_witness:
  "fst (snd (decryptEvent (demo_olm_env JNull DeOther) Some (\<lambda>_ j. j) demo_index (demo_event ''$2'') False
     (handle_device_event (demo_olm_env JNull DeOther) 0 0 demo_message ''k''
       (DeRoomKey \<lparr>rmk_room_id = ms_room_id demo_index, rmk_session_id = ms_session_id demo_index, rmk_session_key = ''I''\<rparr>)
       (fst (decryptEvent (demo_olm_env JNull DeOther) Some (\<lambda>_ j. j) demo_index (demo_event ''$1'') False
         demo_olm_state))))) \<noteq> ReplayAttack"
proof -
  let ?env = "demo_olm_env JNull DeOther"
  let ?st = "fst (decryptEvent ?env Some (\<lambda>_ j. j) demo_index (demo_event ''$1'') False demo_olm_state)"
  let ?k = "\<lparr>rmk_room_id = ms_room_id demo_index, rmk_session_id = ms_session_id demo_index, rmk_session_key = ''I''\<rparr>"
  have i: "demo_index = \<lparr>ms_room_id = rmk_room_id ?k, ms_session_id = rmk_session_id ?k\<rparr>" by simp
  have "map_option (\<lambda>x. 1 \<le> length x) (getInboundMegolmSession (oe_lib ?env) demo_index (os_store ?st)) = Some True"
    by code_simp
  then obtain old where old: "getInboundMegolmSession (oe_lib ?env) demo_index (os_store ?st) = Some old" by auto
  have "map_option (\<lambda>x. lib_first_known_index (oe_lib ?env) ''I'' \<le> lib_first_known_index (oe_lib ?env) x)
      (getInboundMegolmSession (oe_lib ?env) demo_index (os_store ?st)) = Some True" by code_simp
  then have le: "lib_first_known_index (oe_lib ?env) ''I'' \<le> lib_first_known_index (oe_lib ?env) old"
    using old by simp
  have k: "oe_init_inbound ?env (rmk_session_key ?k) = Some ''I''" by (simp add: demo_olm_env_def)
  from repeated_room_key_forgets_seen_indices [OF demo_lib_of_env i old k le refl] show ?thesis by blast
qed

lemma save_inbound_stores:
  assumes "lib_ok (oe_lib env)" and "save_inbound env i x d st = Some st'" and "os_store st' \<noteq> os_store st"
  shows "os_store st' = put_inbound (oe_lib env) i x d (os_store st)"
  using assms by (auto simp: save_inbound_def saveInboundMegolmSession_def split: option.splits if_splits)

text \<open>C13: a forwarded room key that is stored is kept as a key of the session creator it names, and is
  trusted exactly if it was not forwarded before and that creator's key is the one the message came
  from.\<close>

theorem forwarded_key_trusted_only_from_creator:
  assumes "lib_ok (oe_lib env)"
    and "st' = handle_device_event env now ms msg ed (DeForwardedKey k) st"
    and "os_store st' \<noteq> os_store st"
  shows "\<exists>d. getMegolmSessionData (oe_lib env) \<lparr>ms_room_id = fk_room_id k, ms_session_id = fk_session_id k\<rparr> (os_store st') = Some d
    \<and> gs_sender_key d = fk_sender_key k
    \<and> (gs_trusted d \<longleftrightarrow> fk_forwarding_curve25519_key_chain k = [] \<and> fk_sender_key k = om_sender_key msg)"
proof -
  let ?k = "k\<lparr>fk_forwarding_curve25519_key_chain := fk_forwarding_curve25519_key_chain k @ [om_sender_key msg]\<rparr>"
  let ?index = "\<lparr>ms_room_id = fk_room_id k, ms_session_id = fk_session_id k\<rparr>"
  let ?d = "new_group_session_data
      \<lparr>gs_forwarding_curve25519_key_chain := fk_forwarding_curve25519_key_chain ?k,
       gs_sender_claimed_ed25519_key := fk_sender_claimed_ed25519_key k,
       gs_sender_key := fk_sender_key k, gs_trusted := forwarded_trusted ?k\<rparr>"
  obtain x st2 where x: "lib_import_session (oe_lib env) (fk_session_key k) = Some x"
    "save_inbound env ?index x ?d (backup_session_key env ?index ?d x st) = Some st2"
    "os_store st' = os_store st2"
    using assms(2,3) by (auto simp: import_inbound_megolm_session_def Let_def split: option.splits)
  then have "os_store st' = put_inbound (oe_lib env) ?index x ?d (os_store st)"
    using save_inbound_stores [OF assms(1) x(2)] assms(3) by simp
  then show ?thesis
    by (auto simp: get_inbound_put [OF assms(1)] new_group_session_data_def forwarded_trusted_def)
qed

definition demo_forwarded :: forwarded_key where
  "demo_forwarded = \<lparr>fk_room_id = ''!new'', fk_session_id = ''S'', fk_session_key = ''I'', fk_sender_key = ''k-c'',
     fk_sender_claimed_ed25519_key = ''k'', fk_forwarding_curve25519_key_chain = []\<rparr>"

lemma forwarded_key_trusted_only_from_creator_witness:
  "\<exists>d. getMegolmSessionData demo_lib \<lparr>ms_room_id = fk_room_id demo_forwarded, ms_session_id = fk_session_id demo_forwarded\<rparr>
     (os_store (handle_device_event (demo_olm_env JNull DeOther) 0 0 demo_message ''k'' (DeForwardedKey demo_forwarded)
       demo_olm_state)) = Some d"
proof -
  let ?st' = "handle_device_event (demo_olm_env JNull DeOther) 0 0 demo_message ''k'' (DeForwardedKey demo_forwarded)
       demo_olm_state"
  have "fmlookup (ss_inbound (os_store ?st')) (key_text demo_lib
      \<lparr>ms_room_id = fk_room_id demo_forwarded, ms_session_id = fk_session_id demo_forwarded\<rparr>) \<noteq>
    fmlookup (ss_inbound (os_store demo_olm_state)) (key_text demo_lib
      \<lparr>ms_room_id = fk_room_id demo_forwarded, ms_session_id = fk_session_id demo_forwarded\<rparr>)" by code_simp
  then have "os_store ?st' \<noteq> os_store demo_olm_state" by auto
  from forwarded_key_trusted_only_from_creator [OF demo_lib_of_env refl this] show ?thesis
    unfolding demo_olm_env_simps by blast
qed

section \<open>The index a device is recorded at\<close>

lemma fold_emplace:
  "fmlookup (fold (\<lambda>d. emplace (d, i)) ds m) x =
     (case fmlookup m x of None \<Rightarrow> (if x \<in> set ds then Some i else None) | Some v \<Rightarrow> Some v)"
  by (induction ds arbitrary: m) (auto simp: emplace_def fmlookup_dom_iff split: option.split)

lemma sub_table_upd: "sub_table u (fmupd v t m) = (if u = v then t else sub_table u m)"
  by (simp add: sub_table_def)

lemma record_devices_fold:
  "distinct (map fst ts) \<Longrightarrow>
   fmlookup (sub_table u (fold (\<lambda>(user, devs) cur. fmupd user (fold (\<lambda>dev. emplace (dev, i)) devs (sub_table user cur)) cur) ts cur)) d =
     (case fmlookup (sub_table u cur) d of
        None \<Rightarrow> (if \<exists>devs. (u, devs) \<in> set ts \<and> d \<in> set devs then Some i else None)
      | Some v \<Rightarrow> Some v)"
proof (induction ts arbitrary: cur)
  case Nil
  then show ?case by (simp split: option.split)
next
  case (Cons p ts)
  obtain v devs where p: "p = (v, devs)" by (cases p)
  have no: "(v, ds) \<notin> set ts" for ds using Cons.prems p by force
  show ?case
    using Cons no by (auto simp: p sub_table_upd fold_emplace split: option.split)
qed

lemma shared_index_sub_table: "shared_index d u dev = fmlookup (sub_table u (gs_currently d)) dev"
  by (simp add: shared_index_def sub_table_def split: option.split)

definition is_target :: "(string, string list) fmap \<Rightarrow> string \<Rightarrow> string \<Rightarrow> bool" where
  "is_target targets u dev \<longleftrightarrow> (case fmlookup targets u of None \<Rightarrow> False | Some devs \<Rightarrow> dev \<in> set devs)"

lemma shared_index_recorded:
  "shared_index (d\<lparr>gs_message_index := j, gs_currently := record_devices i targets (gs_currently d)\<rparr>) u dev =
     (case shared_index d u dev of
        None \<Rightarrow> (if is_target targets u dev then Some i else None)
      | Some v \<Rightarrow> Some v)"
  by (simp add: shared_index_sub_table record_devices_def record_devices_fold [OF distinct_sorted_list_of_fmap] is_target_def
      split: option.split)

text \<open>a message encrypted with a kept session moves it on and records every device the session was
  newly sent to, devices recorded before keeping their index; but the index recorded is the one after
  the message, while the key that was sent opens the message itself.\<close>

theorem new_recipients_recorded_after_the_message:
  assumes "lib_ok (oe_lib env)"
    and "getMembersWithKeys (oe_keys env) (oe_only_verified env) (room_members room (os_store st)) (os_keys st) = (ks, members)"
    and "kept_session env ms room dev members (os_store st) = Some (g, data, targets)"
    and "oe_group_encrypt env g body = (g', text)"
    and "encrypt_group_message env now ms room dev body rels fresh st = (st', Some content)"
  shows "let key = \<lparr>rmk_room_id = room, rmk_session_id = lib_out_session_id (oe_lib env) g,
                   rmk_session_key = oe_session_key env g\<rparr>;
             (st1, ok) = (if targets = fmempty then (st\<lparr>os_keys := ks\<rparr>, True)
               else send_encrypted_to_device_messages env now ms targets (OutRoomKey key) False (st\<lparr>os_keys := ks\<rparr>));
             (session, data') = getOutboundMegolmSession (oe_lib env) room (os_store st')
         in ok \<and> os_effects st' = os_effects st1 \<and> session = Some g' \<and> en_ciphertext content = text
            \<and> gs_message_index data' = ucast (lib_message_index (oe_lib env) g')
            \<and> (\<forall>u d. shared_index data' u d =
                (case shared_index data u d of
                   None \<Rightarrow> (if is_target targets u d then Some (ucast (lib_message_index (oe_lib env) g')) else None)
                 | Some i \<Rightarrow> Some i))"
proof -
  let ?st = "st\<lparr>os_keys := ks\<rparr>"
  let ?key = "\<lparr>rmk_room_id = room, rmk_session_id = lib_out_session_id (oe_lib env) g, rmk_session_key = oe_session_key env g\<rparr>"
  let ?i = "ucast (lib_message_index (oe_lib env) g') :: u64"
  let ?data = "data\<lparr>gs_message_index := ?i, gs_currently := record_devices ?i targets (gs_currently data)\<rparr>"
  obtain st1 ok where s: "(if targets = fmempty then (?st, True)
      else send_encrypted_to_device_messages env now ms targets (OutRoomKey ?key) False ?st) = (st1, ok)"
    by (cases "if targets = fmempty then (?st, True)
      else send_encrypted_to_device_messages env now ms targets (OutRoomKey ?key) False ?st")
  then have "quiet (oe_lib env) ?st st1"
    using quiet_send [of env ?st now ms targets "OutRoomKey ?key" False] by (auto split: if_splits)
  then have out: "ss_outbound (os_store st1) = ss_outbound (os_store st)"
    by (simp add: quiet_def sends_only_def)
  have c: "encrypt_group_message_with_session env g dev body rels =
      (g', \<lparr>en_algorithm = megolm_algo, en_ciphertext = text, en_sender_key = oe_curve25519 env,
        en_session_id = lib_out_session_id (oe_lib env) g', en_device_id = dev, en_relations = rels\<rparr>)"
    by (simp add: encrypt_group_message_with_session_def assms(4))
  have kept: "kept_session env ms room dev members (os_store ?st) = Some (g, data, targets)" using assms(3) by simp
  have "(if \<not> ok then (st1, None) else
      (map_store (updateOutboundMegolmSession (oe_lib env) room ?data g') st1,
       Some \<lparr>en_algorithm = megolm_algo, en_ciphertext = text, en_sender_key = oe_curve25519 env,
        en_session_id = lib_out_session_id (oe_lib env) g', en_device_id = dev, en_relations = rels\<rparr>)) = (st', Some content)"
    using assms(5) unfolding encrypt_group_message_def assms(2)
    by (simp only: Let_def prod.case kept option.case s c)
  then have r: ok "st' = map_store (updateOutboundMegolmSession (oe_lib env) room ?data g') st1" "en_ciphertext content = text"
    by (auto split: if_splits)
  have "outboundMegolmSessionExists room (os_store st1)"
    using assms(3) out by (auto simp: kept_session_def outboundMegolmSessionExists_def split: if_splits)
  then have "getOutboundMegolmSession (oe_lib env) room (os_store st') = (Some g', ?data)"
    using assms(1) by (simp add: r map_store_def updateOutbound_eq getOutboundMegolmSession_def
        saveOutboundMegolmSession_def Let_def lib_ok_def at_key_set_key group_session_data_read_back)
  moreover have "os_effects st' = os_effects st1" by (simp add: r map_store_def)
  ultimately show ?thesis using r s by (simp add: Let_def shared_index_recorded)
qed

text \<open>A room of our own three devices; the session was made when only \<open>D\<close> was there besides the
  sending device \<open>A\<close>.\<close>

definition demo_room_state :: "(string, string) olm_state" where
  "demo_room_state = map_store (saveOutboundMegolmSession demo_lib ''!q''
       (new_group_session_data\<lparr>gs_currently := fmap_of_list [(''a'', fmap_of_list [(''D'', 0)])]\<rparr>) ''GG'')
     (map_store (saveOlmSession demo_lib ''ke-c'' ''os'' 5)
       (map_store (\<lambda>s. s\<lparr>ss_members := fmap_of_list [(''!q'', fmap_of_list [(''a'', JNull)])]\<rparr>) demo_own_state))"

lemma new_recipients_recorded_after_the_message_witness:
  "shared_index (snd (getOutboundMegolmSession demo_lib ''!q'' (os_store (fst
      (encrypt_group_message (demo_olm_env JNull DeOther) 50000 6 ''!q'' ''A'' ''hi'' [] ''F'' demo_room_state))))) ''a'' ''E''
    = Some 3"
proof -
  let ?env = "demo_olm_env JNull DeOther"
  let ?e = "encrypt_group_message ?env 50000 6 ''!q'' ''A'' ''hi'' [] ''F'' demo_room_state"
  obtain ks members where m: "getMembersWithKeys (oe_keys ?env) (oe_only_verified ?env)
      (room_members ''!q'' (os_store demo_room_state)) (os_keys demo_room_state) = (ks, members)"
    by (cases "getMembersWithKeys (oe_keys ?env) (oe_only_verified ?env)
      (room_members ''!q'' (os_store demo_room_state)) (os_keys demo_room_state)")
  have "map_option (\<lambda>(g, d, ts). (g, fmlookup ts ''a'', shared_index d ''a'' ''E''))
      (kept_session ?env 6 ''!q'' ''A'' (snd (getMembersWithKeys (oe_keys ?env) (oe_only_verified ?env)
        (room_members ''!q'' (os_store demo_room_state)) (os_keys demo_room_state))) (os_store demo_room_state))
    = Some (''GG'', Some [''E''], None)"
    by code_simp
  from this [unfolded m snd_conv] obtain d ts where k: "kept_session ?env 6 ''!q'' ''A'' members (os_store demo_room_state) = Some (''GG'', d, ts)"
    "fmlookup ts ''a'' = Some [''E'']" "shared_index d ''a'' ''E'' = None"
    by auto
  have "(case ?e of (_, None) \<Rightarrow> False | (_, Some _) \<Rightarrow> True)" by code_simp
  then obtain st' c where e: "?e = (st', Some c)" by (auto split: prod.splits option.splits)
  have g: "oe_group_encrypt ?env ''GG'' ''hi'' = (''GG!'', ''hi'')" by (simp add: demo_olm_env_def)
  obtain s' d' where o: "getOutboundMegolmSession (oe_lib ?env) ''!q'' (os_store st') = (s', d')"
    by (cases "getOutboundMegolmSession (oe_lib ?env) ''!q'' (os_store st')")
  have "shared_index d' ''a'' ''E'' = Some (ucast (lib_message_index (oe_lib ?env) ''GG!''))"
    using new_recipients_recorded_after_the_message [OF demo_lib_of_env m k(1) g e] k(2,3) o
    by (auto simp: Let_def is_target_def split: prod.splits)
  then show ?thesis using o by (simp add: e demo_lib_def)
qed

section \<open>Sharing with verified devices only\<close>

text \<open>An empty list of devices stands for all devices known of a user. When only verified devices
  get keys and the sending device is our only verified one, the list for ourselves is empty, so that
  the new session goes to every device of ours, the unverified ones included.\<close>

theorem empty_target_reaches_all_own_devices:
  assumes "oe_only_verified env"
    and "getMembersWithKeys (oe_keys env) True us (os_keys st) = (ks, members)"
    and "fmlookup members (oe_user_id env) = Some k" and "devices_of k = [dev]"
    and "fmlookup (ks_user_keys (os_keys (sa_state acc))) (oe_user_id env) = Some cached"
    and "uk_device_keys cached \<noteq> fmempty"
  shows "fmlookup (share_all (oe_user_id env) dev members) (oe_user_id env) = Some []
    \<and> send_user env now ms ev force (oe_user_id env, []) acc
      = send_user env now ms ev force (oe_user_id env, map fst (sorted_list_of_fmap (uk_device_keys cached))) acc"
  using assms by (auto simp: share_all_def other_devices_def send_user_def)

text \<open>Our device \<open>A\<close> is cross-signed, our device \<open>E\<close> is not.\<close>

definition demo_shy_keys :: user_key_cache where
  "demo_shy_keys = demo_own_keys\<lparr>uk_device_keys := fmap_of_list
     [(''A'', (demo_device ''a'' ''A'' ''A-key'')
         \<lparr>dk_signatures := fmap_of_list [(''a'', fmap_of_list [(''ed25519:sa'', ''sa'')])]\<rparr>),
      (''E'', demo_device ''a'' ''E'' ''ke'')]\<rparr>"

definition demo_shy_state :: "(string, string) olm_state" where
  "demo_shy_state = map_store (\<lambda>s. s\<lparr>ss_members := fmap_of_list [(''!n'', fmap_of_list [(''a'', JNull)])]\<rparr>)
     (demo_olm_state\<lparr>os_keys := new_key_store\<lparr>ks_user_keys := fmap_of_list [(''a'', demo_shy_keys)]\<rparr>\<rparr>)"

definition shy_env :: "(string, string, string, string, string) olm_env" where
  "shy_env = (demo_olm_env JNull DeOther)\<lparr>oe_only_verified := True\<rparr>"

lemma empty_target_reaches_all_own_devices_witness:
  "send_user shy_env 50000 6 (OutDummy) False (''a'', [])
     \<lparr>sa_state = demo_shy_state, sa_messages = fmempty, sa_keys = fmempty, sa_query = fmempty, sa_ok = True\<rparr>
   = send_user shy_env 50000 6 (OutDummy) False (''a'', [''A'', ''E''])
     \<lparr>sa_state = demo_shy_state, sa_messages = fmempty, sa_keys = fmempty, sa_query = fmempty, sa_ok = True\<rparr>
   \<and> ''E'' |\<notin>| vs_verified_devices (snd (own_status shy_env ''a'' demo_shy_state))
   \<and> map (claims ''a'' ''E'') (os_effects (fst
       (encrypt_group_message shy_env 50000 6 ''!n'' ''A'' ''hi'' [] ''F'' demo_shy_state))) = [True]"
proof -
  let ?acc = "\<lparr>sa_state = demo_shy_state, sa_messages = fmempty, sa_keys = fmempty, sa_query = fmempty, sa_ok = True\<rparr>"
  obtain ks members where m: "getMembersWithKeys (oe_keys shy_env) True [''a''] (os_keys demo_shy_state) = (ks, members)"
    by (cases "getMembersWithKeys (oe_keys shy_env) True [''a''] (os_keys demo_shy_state)")
  have "map_option devices_of (fmlookup (snd (getMembersWithKeys (oe_keys shy_env) True [''a''] (os_keys demo_shy_state)))
      (oe_user_id shy_env)) = Some [''A'']" by code_simp
  from this [unfolded m snd_conv] obtain k where k: "fmlookup members (oe_user_id shy_env) = Some k" "devices_of k = [''A'']"
    by auto
  have v: "oe_only_verified shy_env" by code_simp
  have u: "oe_user_id shy_env = ''a''" by code_simp
  have c: "fmlookup (ks_user_keys (os_keys (sa_state ?acc))) (oe_user_id shy_env) = Some demo_shy_keys"
    by (simp add: u demo_shy_state_def map_store_def)
  have l: "map fst (sorted_list_of_fmap (uk_device_keys demo_shy_keys)) = [''A'', ''E'']" by code_simp
  then have n: "uk_device_keys demo_shy_keys \<noteq> fmempty" by auto
  have "''E'' |\<notin>| vs_verified_devices (snd (own_status shy_env ''a'' demo_shy_state))" by code_simp
  moreover have "map (claims ''a'' ''E'') (os_effects (fst
       (encrypt_group_message shy_env 50000 6 ''!n'' ''A'' ''hi'' [] ''F'' demo_shy_state))) = [True]" by code_simp
  ultimately show ?thesis
    using empty_target_reaches_all_own_devices [OF v m k c n, of 50000 6 OutDummy False] unfolding l u by blast
qed

end
