(* ===== verification/Event_Store.thy ===== *)
theory Event_Store
  imports Timeline_Store Group_Encryption "HOL-Library.Option_ord"
begin

text \<open>
  \<open>EventStore\<close> (\<open>src/src/timeline/EventStore.cpp\<close>): the timeline of a room as it is shown. It works on
  the room's tables in the cache (\<open>timeline_db\<close>) and, to decrypt, on the Olm client. Its own state is
  the range of shown events, the caches of events and decryption results (the part of the static caches
  that belongs to the room; entries may be evicted at any time), the key requests in flight and the
  queue of messages to send.

  A callback of a request and a slot that is called through the event loop are operations. The kinds
  of events of mtxclient are read through the accessors in \<open>store_env\<close>.
\<close>

section \<open>Environment and state\<close>

record ('i, 'g, 'o, 'a, 'c) store_env =
  sv_olm :: "('i, 'g, 'o, 'a, 'c) olm_env"
  sv_room :: string
  sv_hidden :: "tl_event \<Rightarrow> bool"
  sv_supported :: "tl_event \<Rightarrow> bool"
  sv_encrypted :: "tl_event \<Rightarrow> encrypted_event option"
  sv_session_id :: "tl_event \<Rightarrow> string"
  sv_sender :: "tl_event \<Rightarrow> string"
  sv_relations :: "tl_event \<Rightarrow> relation list"
  sv_synthesized :: "tl_event \<Rightarrow> bool"
  sv_set_relations :: "relation list \<Rightarrow> tl_event \<Rightarrow> tl_event"
  sv_parse :: "json \<Rightarrow> tl_event option"
  sv_files :: "tl_event \<Rightarrow> string list"
  sv_formatted_body :: "tl_event \<Rightarrow> string option"
  sv_set_formatted_body :: "string \<Rightarrow> tl_event \<Rightarrow> tl_event"
  sv_reaction_key :: "tl_event \<Rightarrow> string option"
  sv_verification :: "tl_event \<Rightarrow> bool"
  sv_verification_request :: "tl_event \<Rightarrow> bool"
  sv_document :: "tl_event \<Rightarrow> string"
  sv_with_content :: "encrypted_content \<Rightarrow> tl_event \<Rightarrow> tl_event"
  sv_display_name :: "string \<Rightarrow> string"
  sv_txn_id :: "nat \<Rightarrow> string"

datatype ev_effect =
    SendRoomMessage string tl_event
  | StartRetryTimer
  | ReadEvent string
  | FetchEvent string string
  | FetchMessages string
  | RequestKey tl_event string bool
  | LookupKey string
  | RoomVerification tl_event
  | UpdateFlowEventId string
  | NewEncryptedImage string
  | ResetModel
  | InsertRows int int
  | DataChanged int int
  | PinsChanged
  | FetchedMore

record key_requests =
  kq_request_id :: string
  kq_events :: "tl_event list"
  kq_requested_at :: int

type_synonym decryption_result = "decryption_error \<times> tl_event option"

record ('a, 'c) event_store =
  ev_db :: timeline_db
  ev_olm :: "('a, 'c) olm_state"
  ev_first :: u64
  ev_last :: u64
  ev_decrypted :: "(string, decryption_result) fmap"
  ev_events :: "(u64, tl_event) fmap"
  ev_by_id :: "(string, tl_event) fmap"
  ev_requests :: "(string, key_requests) fmap"
  ev_current_txn :: string
  ev_error_count :: int
  ev_no_more :: bool
  ev_suppress :: bool
  ev_txn_count :: nat
  ev_log :: "ev_effect list"

definition signal :: "ev_effect \<Rightarrow> ('a, 'c) event_store \<Rightarrow> ('a, 'c) event_store" where
  "signal e st = st\<lparr>ev_log := ev_log st @ [e]\<rparr>"

definition new_event_store :: "timeline_db \<Rightarrow> ('a, 'c) olm_state \<Rightarrow> ('a, 'c) event_store" where
  "new_event_store db olm =
     \<lparr>ev_db = db, ev_olm = olm,
      ev_first = (case getTimelineRange db of None \<Rightarrow> u64_max | Some r \<Rightarrow> fst r),
      ev_last = (case getTimelineRange db of None \<Rightarrow> u64_max | Some r \<Rightarrow> snd r),
      ev_decrypted = fmempty, ev_events = fmempty, ev_by_id = fmempty, ev_requests = fmempty,
      ev_current_txn = [], ev_error_count = 0, ev_no_more = False, ev_suppress = True,
      ev_txn_count = 0, ev_log = []\<rparr>"

section \<open>Indices\<close>

definition store_size :: "('a, 'c) event_store \<Rightarrow> int" where
  "store_size st =
     (if ev_last st \<noteq> u64_max \<and> ev_last st \<ge> ev_first st
      then sint (ucast (ev_last st - ev_first st) :: 32 word) + 1 else 0)"

definition toExternalIdx :: "('a, 'c) event_store \<Rightarrow> u64 \<Rightarrow> int" where
  "toExternalIdx st idx = sint (ucast (idx - ev_first st) :: 32 word)"

definition toInternalIdx :: "('a, 'c) event_store \<Rightarrow> int \<Rightarrow> u64" where
  "toInternalIdx st idx = ev_first st + word_of_int idx"

definition idToIndex :: "string \<Rightarrow> ('a, 'c) event_store \<Rightarrow> int option" where
  "idToIndex e st = map_option (toExternalIdx st) (getTimelineIndex e (ev_db st))"

definition indexToId :: "int \<Rightarrow> ('a, 'c) event_store \<Rightarrow> string option" where
  "indexToId i st = getTimelineEventId (toInternalIdx st i) (ev_db st)"

definition changed :: "u64 \<Rightarrow> ('a, 'c) event_store \<Rightarrow> ('a, 'c) event_store" where
  "changed idx st = signal (DataChanged (toExternalIdx st idx) (toExternalIdx st idx)) st"

definition forget_events :: "('a, 'c) event_store \<Rightarrow> ('a, 'c) event_store" where
  "forget_events st = st\<lparr>ev_decrypted := fmempty, ev_events := fmempty\<rparr>"

section \<open>Key requests\<close>

text \<open>Ten minutes between automatic requests for a session, one between manual ones.\<close>

definition request_delay :: "bool \<Rightarrow> int" where
  "request_delay manual = (if manual then 60 else 60 * 10)"

definition send_requests ::
    "('i, 'g, 'o, 'a, 'c) store_env \<Rightarrow> tl_event \<Rightarrow> string \<Rightarrow> ('a, 'c) event_store \<Rightarrow> ('a, 'c) event_store" where
  "send_requests env e request_id st =
     signal (RequestKey e request_id False) (signal (LookupKey (sv_session_id env e)) st)"

definition requestSession ::
    "('i, 'g, 'o, 'a, 'c) store_env \<Rightarrow> int \<Rightarrow> bool \<Rightarrow> tl_event \<Rightarrow> ('a, 'c) event_store \<Rightarrow> ('a, 'c) event_store" where
  "requestSession env now manual e st =
     (let session = sv_session_id env e
      in if ev_suppress st then st
         else case fmlookup (ev_requests st) session of
                Some r \<Rightarrow>
                  let r = r\<lparr>kq_events := kq_events r @ [e]\<rparr>
                  in if kq_requested_at r + request_delay manual < now then
                       send_requests env e (kq_request_id r)
                         (st\<lparr>ev_requests := fmupd session (r\<lparr>kq_requested_at := now\<rparr>) (ev_requests st)\<rparr>)
                     else st\<lparr>ev_requests := fmupd session r (ev_requests st)\<rparr>
              | None \<Rightarrow>
                  let r = \<lparr>kq_request_id = ''key_request.'' @ sv_txn_id env (ev_txn_count st),
                           kq_events = [e], kq_requested_at = now\<rparr>
                  in send_requests env e (kq_request_id r)
                       (st\<lparr>ev_requests := fmupd session r (ev_requests st),
                           ev_txn_count := ev_txn_count st + 1\<rparr>))"

definition drop_cached :: "tl_event \<Rightarrow> ('a, 'c) event_store \<Rightarrow> ('a, 'c) event_store" where
  "drop_cached e st =
     (case getTimelineIndex (te_id e) (ev_db st) of
        None \<Rightarrow> st
      | Some idx \<Rightarrow>
          changed idx
            (st\<lparr>ev_decrypted := fmdrop (te_id e) (ev_decrypted st),
                ev_by_id := fmdrop (te_id e) (ev_by_id st),
                ev_events := fmdrop (toInternalIdx st (toExternalIdx st idx)) (ev_events st)\<rparr>))"

definition receivedSessionKey :: "string \<Rightarrow> ('a, 'c) event_store \<Rightarrow> ('a, 'c) event_store" where
  "receivedSessionKey session st =
     (case fmlookup (ev_requests st) session of
        None \<Rightarrow> st
      | Some r \<Rightarrow>
          let st = st\<lparr>ev_requests := fmupd session (r\<lparr>kq_events := []\<rparr>) (ev_requests st)\<rparr>;
              st = (case kq_events r of [] \<Rightarrow> st | e # _ \<Rightarrow> signal (RequestKey e (kq_request_id r) True) st)
          in fold drop_cached (kq_events r) st)"

definition enableKeyRequests :: "bool \<Rightarrow> ('a, 'c) event_store \<Rightarrow> ('a, 'c) event_store" where
  "enableKeyRequests suppress st =
     (if suppress then st\<lparr>ev_suppress := True\<rparr> else st\<lparr>ev_decrypted := fmempty, ev_suppress := False\<rparr>)"

section \<open>Decryption\<close>

definition decrypt_event ::
    "('i, 'g, 'o, 'a, 'c) store_env \<Rightarrow> int \<Rightarrow> string \<Rightarrow> tl_event \<Rightarrow> encrypted_event
      \<Rightarrow> ('a, 'c) event_store \<Rightarrow> ('a, 'c) event_store \<times> decryption_result" where
  "decrypt_event env now event_id e enc st =
     (case fmlookup (ev_decrypted st) event_id of
        Some r \<Rightarrow> (st, r)
      | None \<Rightarrow>
          let (olm, r) = decryptEvent (sv_olm env) (sv_parse env) (sv_set_relations env)
                 \<lparr>ms_room_id = sv_room env, ms_session_id = sv_session_id env e\<rparr> enc False (ev_olm st);
              st = st\<lparr>ev_olm := olm\<rparr>;
              st = (case r of
                      (NoError, Some d) \<Rightarrow> fold (\<lambda>f. signal (NewEncryptedImage f)) (sv_files env d) st
                    | (err, _) \<Rightarrow>
                        if err = MissingSession \<or> err = MissingSessionIndex
                        then requestSession env now False e st else st)
          in (st\<lparr>ev_decrypted := fmupd event_id r (ev_decrypted st)\<rparr>, r))"

section \<open>Reading events\<close>

text \<open>The end of both \<open>get\<close>: the decrypted event if there is one.\<close>

definition shown ::
    "('i, 'g, 'o, 'a, 'c) store_env \<Rightarrow> int \<Rightarrow> bool \<Rightarrow> string \<Rightarrow> tl_event
      \<Rightarrow> ('a, 'c) event_store \<Rightarrow> ('a, 'c) event_store \<times> tl_event" where
  "shown env now decrypt event_id e st =
     (case (if decrypt then sv_encrypted env e else None) of
        None \<Rightarrow> (st, e)
      | Some enc \<Rightarrow>
          let (st, r) = decrypt_event env now event_id e enc st
          in (st, case snd r of None \<Rightarrow> e | Some d \<Rightarrow> d))"

definition get_by_id ::
    "('i, 'g, 'o, 'a, 'c) store_env \<Rightarrow> int \<Rightarrow> string \<Rightarrow> string \<Rightarrow> bool
      \<Rightarrow> ('a, 'c) event_store \<Rightarrow> ('a, 'c) event_store \<times> tl_event option" where
  "get_by_id env now event_id related_to decrypt st =
     (if event_id = [] then (st, None)
      else case fmlookup (ev_by_id st) event_id of
             Some e \<Rightarrow> map_prod id Some (shown env now decrypt event_id e st)
           | None \<Rightarrow>
               (case getEvent event_id (ev_db st) of
                  None \<Rightarrow> (signal (FetchEvent event_id related_to) st, None)
                | Some e \<Rightarrow>
                    map_prod id Some (shown env now decrypt event_id e
                      (st\<lparr>ev_by_id := fmupd event_id e (ev_by_id st)\<rparr>))))"

definition relation_of :: "rel_type \<Rightarrow> relation list \<Rightarrow> relation option" where
  "relation_of t rs = List.find (\<lambda>r. rel_type_of r = t) rs"

definition replaces :: "('i, 'g, 'o, 'a, 'c) store_env \<Rightarrow> tl_event \<Rightarrow> string option" where
  "replaces env e = map_option rel_event_id (relation_of Replace (sv_relations env e))"

definition reply_to :: "('i, 'g, 'o, 'a, 'c) store_env \<Rightarrow> tl_event \<Rightarrow> string option" where
  "reply_to env e = map_option rel_event_id (relation_of InReplyTo (sv_relations env e))"

text \<open>An edit of the event by its own sender; a synthesized relation gets the reply of the original.\<close>

definition as_edit ::
    "('i, 'g, 'o, 'a, 'c) store_env \<Rightarrow> string \<Rightarrow> tl_event \<Rightarrow> tl_event \<Rightarrow> tl_event option" where
  "as_edit env event_id original e =
     (if replaces env e = Some event_id \<and> sv_sender env original = sv_sender env e then
        Some (case (if sv_synthesized env e \<and> reply_to env e = None then reply_to env original else None) of
                None \<Rightarrow> e
              | Some r \<Rightarrow>
                  sv_set_relations env
                    (sv_relations env e @ [\<lparr>rel_type_of = InReplyTo, rel_event_id = r, rel_key = None\<rparr>]) e)
      else None)"

fun collect_edits ::
    "('i, 'g, 'o, 'a, 'c) store_env \<Rightarrow> int \<Rightarrow> string \<Rightarrow> tl_event \<Rightarrow> string list
      \<Rightarrow> ('a, 'c) event_store \<Rightarrow> ('a, 'c) event_store \<times> tl_event list" where
  "collect_edits env now event_id original [] st = (st, [])"
| "collect_edits env now event_id original (i # ids) st =
     (let (st, related) = get_by_id env now i event_id False st;
          (st, es) = collect_edits env now event_id original ids st
      in (st, (case related \<bind> as_edit env event_id original of None \<Rightarrow> es | Some e \<Rightarrow> e # es)))"

definition edits ::
    "('i, 'g, 'o, 'a, 'c) store_env \<Rightarrow> int \<Rightarrow> string
      \<Rightarrow> ('a, 'c) event_store \<Rightarrow> ('a, 'c) event_store \<times> tl_event list" where
  "edits env now event_id st =
     (let ids = relatedEvents event_id (ev_db st);
          (st, original) = get_by_id env now event_id [] False st
      in case original of
           None \<Rightarrow> (st, [])
         | Some e \<Rightarrow>
             if te_redacted_by e \<noteq> None then (st, [])
             else
               let (st, es) = collect_edits env now event_id e ids st
               in (st, sort_key (\<lambda>e. getArrivalIndex (te_id e) (ev_db st)) es))"

text \<open>An event is shown as its latest edit.\<close>

definition resolve_edit ::
    "('i, 'g, 'o, 'a, 'c) store_env \<Rightarrow> int \<Rightarrow> string
      \<Rightarrow> ('a, 'c) event_store \<Rightarrow> ('a, 'c) event_store \<times> string" where
  "resolve_edit env now event_id st =
     (let (st, es) = edits env now event_id st
      in if es = [] then (st, event_id)
         else (st\<lparr>ev_by_id := fmupd (te_id (last es)) (last es) (ev_by_id st)\<rparr>, te_id (last es)))"

definition get_event ::
    "('i, 'g, 'o, 'a, 'c) store_env \<Rightarrow> int \<Rightarrow> string \<Rightarrow> string \<Rightarrow> bool
      \<Rightarrow> ('a, 'c) event_store \<Rightarrow> ('a, 'c) event_store \<times> tl_event option" where
  "get_event env now event_id related_to decrypt st =
     (if event_id = [] then (st, None)
      else
        let (st, i) = resolve_edit env now event_id st
        in get_by_id env now i related_to decrypt st)"

definition load_at ::
    "('i, 'g, 'o, 'a, 'c) store_env \<Rightarrow> int \<Rightarrow> string
      \<Rightarrow> ('a, 'c) event_store \<Rightarrow> ('a, 'c) event_store \<times> tl_event option" where
  "load_at env now event_id st =
     (let (st, es) = edits env now event_id st
      in (st, if es = [] then getEvent event_id (ev_db st) else Some (last es)))"

definition get_at ::
    "('i, 'g, 'o, 'a, 'c) store_env \<Rightarrow> int \<Rightarrow> int \<Rightarrow> bool
      \<Rightarrow> ('a, 'c) event_store \<Rightarrow> ('a, 'c) event_store \<times> tl_event option" where
  "get_at env now i decrypt st =
     (let idx = toInternalIdx st i
      in if idx > ev_last st \<or> idx < ev_first st then (st, None)
         else case fmlookup (ev_events st) idx of
                Some e \<Rightarrow> map_prod id Some (shown env now decrypt (te_id e) e st)
              | None \<Rightarrow>
                  (case getTimelineEventId idx (ev_db st) of
                     None \<Rightarrow> (st, None)
                   | Some event_id \<Rightarrow>
                       (case load_at env now event_id st of
                          (st, None) \<Rightarrow> (st, None)
                        | (st, Some e) \<Rightarrow>
                            map_prod id Some (shown env now decrypt (te_id e) e
                              (st\<lparr>ev_events := fmupd idx e (ev_events st)\<rparr>)))))"

definition decryptionError ::
    "('i, 'g, 'o, 'a, 'c) store_env \<Rightarrow> int \<Rightarrow> string
      \<Rightarrow> ('a, 'c) event_store \<Rightarrow> ('a, 'c) event_store \<times> decryption_error" where
  "decryptionError env now event_id st =
     (if event_id = [] then (st, NoError)
      else
        let (st, i) = resolve_edit env now event_id st;
            (st, e) =
              (case fmlookup (ev_by_id st) i of
                 Some e \<Rightarrow> (st, Some e)
               | None \<Rightarrow>
                   (case getEvent i (ev_db st) of
                      None \<Rightarrow> (st, None)
                    | Some e \<Rightarrow> (st\<lparr>ev_by_id := fmupd i e (ev_by_id st)\<rparr>, Some e)))
        in case e of
             None \<Rightarrow> (st, NoError)
           | Some e \<Rightarrow>
               (case sv_encrypted env e of
                  None \<Rightarrow> (st, NoError)
                | Some enc \<Rightarrow> map_prod id fst (decrypt_event env now i e enc st)))"

section \<open>Reactions\<close>

record reaction =
  ra_key :: string
  ra_count :: int
  ra_users :: "string list"
  ra_self :: string

text \<open>One more reaction with a key: the entries stay in the order their keys were first seen.\<close>

fun add_reaction ::
    "('i, 'g, 'o, 'a, 'c) store_env \<Rightarrow> tl_event \<Rightarrow> string \<Rightarrow> reaction list \<Rightarrow> reaction list" where
  "add_reaction env e key [] =
     [\<lparr>ra_key = key, ra_count = 1, ra_users = [sv_display_name env (sv_sender env e)],
       ra_self = (if sv_sender env e = oe_user_id (sv_olm env) then te_id e else [])\<rparr>]"
| "add_reaction env e key (r # rs) =
     (if ra_key r = key then
        r\<lparr>ra_count := ra_count r + 1, ra_users := ra_users r @ [sv_display_name env (sv_sender env e)],
          ra_self := (if sv_sender env e = oe_user_id (sv_olm env) then te_id e else ra_self r)\<rparr> # rs
      else r # add_reaction env e key rs)"

fun collect_reactions ::
    "('i, 'g, 'o, 'a, 'c) store_env \<Rightarrow> int \<Rightarrow> string \<Rightarrow> string list \<Rightarrow> reaction list
      \<Rightarrow> ('a, 'c) event_store \<Rightarrow> ('a, 'c) event_store \<times> reaction list" where
  "collect_reactions env now event_id [] rs st = (st, rs)"
| "collect_reactions env now event_id (i # ids) rs st =
     (let (st, related) = get_event env now i event_id True st
      in collect_reactions env now event_id ids
           (case related \<bind> (\<lambda>e. map_option (Pair e) (sv_reaction_key env e)) of
              None \<Rightarrow> rs
            | Some (e, key) \<Rightarrow> add_reaction env e key rs) st)"

definition reactions ::
    "('i, 'g, 'o, 'a, 'c) store_env \<Rightarrow> int \<Rightarrow> string
      \<Rightarrow> ('a, 'c) event_store \<Rightarrow> ('a, 'c) event_store \<times> reaction list" where
  "reactions env now event_id st =
     collect_reactions env now event_id (relatedEvents event_id (ev_db st)) [] st"

end
