(* ===== verification/Event_Sync.thy ===== *)
theory Event_Sync
  imports Event_Store
begin

text \<open>
  \<open>EventStore\<close>, continued: what a sync, a page of old messages, a cleared timeline and a queued message
  do to it, and the queue that sends the messages one after the other.
\<close>

section \<open>Syncs\<close>

text \<open>A redacted reaction: the event it reacts to is shown anew.\<close>

definition fix_reaction ::
    "('i, 'g, 'o, 'a, 'c) store_env \<Rightarrow> string \<Rightarrow> ('a, 'c) event_store \<Rightarrow> ('a, 'c) event_store" where
  "fix_reaction env redacted st =
     (case fmlookup (ev_by_id st) redacted \<bind> (\<lambda>e. relation_of Annotation (sv_relations env e)) of
        None \<Rightarrow> st
      | Some r \<Rightarrow>
          (case idToIndex (rel_event_id r) st of
             None \<Rightarrow> st
           | Some i \<Rightarrow>
               signal (DataChanged i i)
                 (st\<lparr>ev_by_id := fmdrop redacted (ev_by_id st),
                     ev_events := fmdrop (toInternalIdx st i) (ev_events st)\<rparr>)))"

definition related_to :: "('i, 'g, 'o, 'a, 'c) store_env \<Rightarrow> tl_event \<Rightarrow> string list" where
  "related_to env e =
     (case te_redacts e of
        Some r \<Rightarrow> [r]
      | None \<Rightarrow> sort (remdups (map rel_event_id (sv_relations env e))))"

definition edited_event :: "('i, 'g, 'o, 'a, 'c) store_env \<Rightarrow> tl_event \<Rightarrow> string" where
  "edited_event env e =
     (if te_redacts e \<noteq> None then []
      else fold (\<lambda>r edited. if rel_type_of r = Replace then rel_event_id r else edited) (sv_relations env e) [])"

definition refresh :: "string \<Rightarrow> ('a, 'c) event_store \<Rightarrow> ('a, 'c) event_store" where
  "refresh event_id st =
     (case getTimelineIndex event_id (ev_db st) of
        None \<Rightarrow> st
      | Some idx \<Rightarrow>
          changed idx
            (st\<lparr>ev_by_id := fmdrop event_id (ev_by_id st), ev_decrypted := fmdrop event_id (ev_decrypted st),
                ev_events := fmdrop idx (ev_events st)\<rparr>))"

definition refresh_own :: "tl_event \<Rightarrow> ('a, 'c) event_store \<Rightarrow> ('a, 'c) event_store" where
  "refresh_own e st =
     (if te_txn e = [] then st
      else case getTimelineIndex (te_id e) (ev_db st) of
             None \<Rightarrow> st
           | Some idx \<Rightarrow> changed idx (st\<lparr>ev_events := fmdrop idx (ev_events st)\<rparr>))"

definition refresh_edits :: "string \<Rightarrow> ('a, 'c) event_store \<Rightarrow> ('a, 'c) event_store" where
  "refresh_edits edited st =
     (if edited = [] then st
      else fold (\<lambda>i st. case getTimelineIndex i (ev_db st) of None \<Rightarrow> st | Some idx \<Rightarrow> changed idx st)
             (relatedEvents edited (ev_db st)) st)"

definition check_verification ::
    "('i, 'g, 'o, 'a, 'c) store_env \<Rightarrow> int \<Rightarrow> tl_event \<Rightarrow> ('a, 'c) event_store \<Rightarrow> ('a, 'c) event_store" where
  "check_verification env now e st =
     (case sv_encrypted env e of
        None \<Rightarrow> st
      | Some enc \<Rightarrow>
          (case decrypt_event env now (te_id e) e enc st of
             (st, (_, Some d)) \<Rightarrow>
               if sv_sender env d \<noteq> oe_user_id (sv_olm env) \<and> sv_verification env d
               then signal (RoomVerification d) st else st
           | (st, _) \<Rightarrow> st))"

definition handle_event ::
    "('i, 'g, 'o, 'a, 'c) store_env \<Rightarrow> int \<Rightarrow> tl_event \<Rightarrow> ('a, 'c) event_store \<Rightarrow> ('a, 'c) event_store" where
  "handle_event env now e st =
     (let st = (case te_redacts e of None \<Rightarrow> st | Some r \<Rightarrow> fix_reaction env r st);
          st = fold refresh (related_to env e) st;
          st = refresh_own e st;
          st = refresh_edits (edited_event env e) st
      in check_verification env now e st)"

definition update_range :: "bool \<Rightarrow> u64 \<times> u64 \<Rightarrow> ('a, 'c) event_store \<Rightarrow> ('a, 'c) event_store" where
  "update_range limited rg st =
     (if limited then
        forget_events (signal ResetModel (st\<lparr>ev_last := snd rg, ev_first := fst rg\<rparr>))
      else if snd rg > ev_last st then
        (signal (InsertRows (toExternalIdx st (ev_last st + 1)) (toExternalIdx st (snd rg))) st)
          \<lparr>ev_last := snd rg\<rparr>
      else st)"

definition empty_range :: "('a, 'c) event_store \<Rightarrow> ('a, 'c) event_store" where
  "empty_range st = forget_events (signal ResetModel (st\<lparr>ev_first := u64_max, ev_last := u64_max\<rparr>))"

definition handleSync ::
    "('i, 'g, 'o, 'a, 'c) store_env \<Rightarrow> int \<Rightarrow> timeline_chunk \<Rightarrow> ('a, 'c) event_store \<Rightarrow> ('a, 'c) event_store" where
  "handleSync env now chunk st =
     (case getTimelineRange (ev_db st) of
        None \<Rightarrow> empty_range st
      | Some rg \<Rightarrow>
          fold (handle_event env now) (tc_events chunk) (update_range (tc_limited chunk) rg st))"

section \<open>Older messages\<close>

definition fetchMore :: "('a, 'c) event_store \<Rightarrow> ('a, 'c) event_store" where
  "fetchMore st =
     (if ev_no_more st then signal FetchedMore st
      else signal (FetchMessages (previousBatchToken (ev_db st))) st)"

text \<open>The reply to a request from a token, and the page once it is handed on; \<open>None\<close> is an error.\<close>

definition messages_failed :: "string \<Rightarrow> ('a, 'c) event_store \<Rightarrow> ('a, 'c) event_store" where
  "messages_failed from_token st =
     (if previousBatchToken (ev_db st) \<noteq> from_token then st else signal FetchedMore st)"

definition oldMessagesRetrieved ::
    "('i, 'g, 'o, 'a, 'c) store_env \<Rightarrow> tl_event list \<Rightarrow> string \<Rightarrow> ('a, 'c) event_store \<Rightarrow> ('a, 'c) event_store" where
  "oldMessagesRetrieved env chunk end_token st =
     (if end_token = [] \<or> previousBatchToken (ev_db st) = end_token then
        signal FetchedMore (st\<lparr>ev_no_more := True\<rparr>)
      else
        case saveOldMessages (sv_hidden env) chunk end_token (ev_db st) of
          None \<Rightarrow> st
        | Some (db, newFirst) \<Rightarrow>
            let st = st\<lparr>ev_db := db\<rparr>
            in if newFirst = ev_first st then fetchMore st
               else if ev_last st \<noteq> u64_max then
                 let oldFirst = ev_first st;
                     st = (signal (InsertRows (toExternalIdx st newFirst) (toExternalIdx st (ev_first st - 1))) st)
                            \<lparr>ev_first := newFirst\<rparr>
                 in changed oldFirst (signal FetchedMore st)
               else
                 (case getTimelineRange db of
                    None \<Rightarrow> fetchMore st
                  | Some (f, l) \<Rightarrow>
                      if l - f \<noteq> 0 then
                        signal FetchedMore
                          ((signal (InsertRows 0 (sint (ucast (l - f) :: 32 word))) st)
                             \<lparr>ev_first := f, ev_last := l\<rparr>)
                      else fetchMore st))"

definition clear_timeline :: "('a, 'c) event_store \<Rightarrow> ('a, 'c) event_store" where
  "clear_timeline st =
     (let st = st\<lparr>ev_db := clearTimeline (ev_db st)\<rparr>
      in case getTimelineRange (ev_db st) of
           None \<Rightarrow> empty_range st
         | Some r \<Rightarrow> forget_events (signal ResetModel (st\<lparr>ev_last := snd r, ev_first := fst r\<rparr>)))"

definition event_fetched ::
    "string \<Rightarrow> string \<Rightarrow> tl_event \<Rightarrow> ('a, 'c) event_store \<Rightarrow> ('a, 'c) event_store" where
  "event_fetched event_id related e st =
     (case storeEvent event_id e (ev_db st) of
        None \<Rightarrow> st
      | Some db \<Rightarrow>
          let st = st\<lparr>ev_db := db\<rparr>
          in if related = [] then st
             else if related = ''pins'' then signal PinsChanged st
             else case idToIndex related st of None \<Rightarrow> st | Some i \<Rightarrow> signal (DataChanged i i) st)"

section \<open>The queue\<close>

definition valid_txn_id :: "string \<Rightarrow> bool" where
  "valid_txn_id txn = (case txn of [] \<Rightarrow> False | c # _ \<Rightarrow> c = CHR ''m'')"

text \<open>The message that is first in the queue is sent, unless one is on its way. The transaction id is
  taken as current before it is checked.\<close>

definition processPending ::
    "('i, 'g, 'o, 'a, 'c) store_env \<Rightarrow> ('a, 'c) event_store \<Rightarrow> ('a, 'c) event_store" where
  "processPending env st =
     (if ev_current_txn st \<noteq> [] then st
      else
        let (db, pending) = firstPendingMessage (ev_db st); st = st\<lparr>ev_db := db\<rparr>
        in case pending of
             None \<Rightarrow> st
           | Some e \<Rightarrow>
               let txn = te_id e; st = st\<lparr>ev_current_txn := txn\<rparr>
               in if \<not> valid_txn_id txn then st\<lparr>ev_db := removePendingStatus txn (ev_db st)\<rparr>
                  else if sv_supported env e then signal (SendRoomMessage txn e) st else st)"

definition messageFailed :: "string \<Rightarrow> ('a, 'c) event_store \<Rightarrow> ('a, 'c) event_store" where
  "messageFailed txn st =
     (let st =
        (if ev_current_txn st \<noteq> txn then st
         else
           let st = st\<lparr>ev_error_count := ev_error_count st + 1\<rparr>
           in if ev_error_count st > 10
              then st\<lparr>ev_db := removePendingStatus txn (ev_db st), ev_error_count := 0\<rparr> else st)
      in signal StartRetryTimer st)"

definition retry_timeout ::
    "('i, 'g, 'o, 'a, 'c) store_env \<Rightarrow> ('a, 'c) event_store \<Rightarrow> ('a, 'c) event_store" where
  "retry_timeout env st = processPending env (st\<lparr>ev_current_txn := []\<rparr>)"

section \<open>A message was sent\<close>

fun replace_first :: "string \<Rightarrow> string \<Rightarrow> string \<Rightarrow> string" where
  "replace_first old new s =
     (if take (length old) s = old then new @ drop (length old) s
      else case s of [] \<Rightarrow> [] | c # cs \<Rightarrow> c # replace_first old new cs)"

text \<open>Messages still in the queue may relate to the one that was sent under its transaction id: the
  id becomes the event id. \<open>None\<close> when the message does not relate to it.\<close>

definition relink ::
    "('i, 'g, 'o, 'a, 'c) store_env \<Rightarrow> string \<Rightarrow> string \<Rightarrow> tl_event \<Rightarrow> tl_event option" where
  "relink env txn event_id e =
     (let rels = sv_relations env e;
          e = (case sv_formatted_body env e of
                 Some body \<Rightarrow>
                   if reply_to env e = Some txn
                   then sv_set_formatted_body env (replace_first txn event_id body) e else e
               | None \<Rightarrow> e)
      in if list_ex (\<lambda>r. rel_event_id r = txn) rels then
           Some (sv_set_relations env
             (map (\<lambda>r. if rel_event_id r = txn then r\<lparr>rel_event_id := event_id\<rparr> else r) rels) e)
         else None)"

text \<open>An encrypted message is encrypted again with the room's session; without one it stays as it is.\<close>

definition reencrypt ::
    "('i, 'g, 'o, 'a, 'c) store_env \<Rightarrow> tl_event \<Rightarrow> tl_event
      \<Rightarrow> ('a, 'c) olm_state \<Rightarrow> ('a, 'c) olm_state \<times> tl_event option" where
  "reencrypt env original e olm =
     (let lib = oe_lib (sv_olm env); room = sv_room env
      in case getOutboundMegolmSession lib room (os_store olm) of
           (None, _) \<Rightarrow> (olm, None)
         | (Some session, data) \<Rightarrow>
             let (session, content) = encrypt_group_message_with_session (sv_olm env) session
                   (oe_device_id (sv_olm env)) (sv_document env e) (sv_relations env e);
                 data = data\<lparr>gs_message_index := ucast (lib_message_index lib session)\<rparr>
             in (map_store (updateOutboundMegolmSession lib room data session) olm,
                 Some (sv_with_content env content original)))"

definition replace_queued ::
    "string \<Rightarrow> tl_event \<Rightarrow> ('a, 'c) event_store \<Rightarrow> ('a, 'c) event_store option" where
  "replace_queued pid e st =
     map_option
       (\<lambda>db. let st = st\<lparr>ev_db := db, ev_by_id := fmdrop pid (ev_by_id st)\<rparr>
             in case getTimelineIndex pid db of
                  None \<Rightarrow> st
                | Some idx \<Rightarrow>
                    st\<lparr>ev_events := fmdrop (toInternalIdx st (toExternalIdx st idx)) (ev_events st)\<rparr>)
       (replaceEvent pid e (ev_db st))"

definition relink_queued ::
    "('i, 'g, 'o, 'a, 'c) store_env \<Rightarrow> int \<Rightarrow> string \<Rightarrow> string \<Rightarrow> string
      \<Rightarrow> ('a, 'c) event_store \<Rightarrow> ('a, 'c) event_store option" where
  "relink_queued env now txn event_id pid st =
     (case getEvent pid (ev_db st) of
        None \<Rightarrow> Some st
      | Some e \<Rightarrow>
          (case sv_encrypted env e of
             None \<Rightarrow>
               (case relink env txn event_id e of None \<Rightarrow> Some st | Some e' \<Rightarrow> replace_queued pid e' st)
           | Some enc \<Rightarrow>
               let (st, r) = decrypt_event env now (te_id e) e enc st
               in case snd r of
                    None \<Rightarrow>
                      (case relink env txn event_id e of None \<Rightarrow> Some st | Some e' \<Rightarrow> replace_queued pid e' st)
                  | Some d \<Rightarrow>
                      (case relink env txn event_id d of
                         None \<Rightarrow> Some st
                       | Some d' \<Rightarrow>
                           (case reencrypt env e d' (ev_olm st) of
                              (olm, None) \<Rightarrow> Some st
                            | (olm, Some e') \<Rightarrow> replace_queued pid e' (st\<lparr>ev_olm := olm\<rparr>)))))"

text \<open>An exception while a message is replaced ends the handler.\<close>

definition messageSent ::
    "('i, 'g, 'o, 'a, 'c) store_env \<Rightarrow> int \<Rightarrow> string \<Rightarrow> string
      \<Rightarrow> ('a, 'c) event_store \<Rightarrow> ('a, 'c) event_store option" where
  "messageSent env now txn event_id st =
     map_option
       (\<lambda>st.
          let st = signal (ReadEvent event_id) st;
              st = (case idToIndex event_id st of None \<Rightarrow> st | Some i \<Rightarrow> signal (DataChanged i i) st)
          in processPending env
               (st\<lparr>ev_db := removePendingStatus txn (ev_db st), ev_current_txn := [], ev_error_count := 0\<rparr>))
       (fold_opt (relink_queued env now txn event_id) (pendingEvents (ev_db st)) st)"

text \<open>What the callback of a sent message does besides: a verification request that was sent
  encrypted tells its flow the event id.\<close>

definition sent_reply ::
    "('i, 'g, 'o, 'a, 'c) store_env \<Rightarrow> int \<Rightarrow> tl_event \<Rightarrow> string \<Rightarrow> ('a, 'c) event_store \<Rightarrow> ('a, 'c) event_store" where
  "sent_reply env now e event_id st =
     (case sv_encrypted env e of
        None \<Rightarrow> st
      | Some enc \<Rightarrow>
          (case decrypt_event env now (te_id e) e enc st of
             (st, (_, Some d)) \<Rightarrow>
               if sv_verification_request env d then signal (UpdateFlowEventId event_id) st else st
           | (st, _) \<Rightarrow> st))"

text \<open>A message is queued: saved in the cache, shown, and sent if nothing is on its way.\<close>

definition addPending ::
    "('i, 'g, 'o, 'a, 'c) store_env \<Rightarrow> int \<Rightarrow> u64 \<Rightarrow> tl_event \<Rightarrow> ('a, 'c) event_store \<Rightarrow> ('a, 'c) event_store" where
  "addPending env now ms e st =
     (case savePendingMessage (sv_hidden env) ms e (ev_db st) of
        None \<Rightarrow> st
      | Some db \<Rightarrow>
          processPending env
            (handleSync env now \<lparr>tc_events = [e], tc_limited = False, tc_prev_batch = []\<rparr> (st\<lparr>ev_db := db\<rparr>)))"

section \<open>Steps\<close>

datatype ev_op =
    EvSave timeline_chunk
  | EvSync int timeline_chunk
  | EvAddPending int u64 tl_event
  | EvProcessPending
  | EvMessageFailed string
  | EvRetry
  | EvMessageSent int string string
  | EvSentReply int tl_event string
  | EvFetchMore
  | EvMessagesFailed string
  | EvOldMessages "tl_event list" string
  | EvClear
  | EvFetched string string tl_event
  | EvKeyReceived string
  | EvEnableRequests bool
  | EvRequest int bool tl_event
  | EvGet int string string bool
  | EvGetAt int int bool
  | EvEdits int string
  | EvReactions int string
  | EvDecryptionError int string
  | EvEvict string u64

fun ev_step ::
    "('i, 'g, 'o, 'a, 'c) store_env \<Rightarrow> ('a, 'c) event_store \<Rightarrow> ev_op \<Rightarrow> ('a, 'c) event_store" where
  "ev_step env st (EvSave chunk) =
     (case saveTimelineMessages (sv_hidden env) chunk (ev_db st) of None \<Rightarrow> st | Some db \<Rightarrow> st\<lparr>ev_db := db\<rparr>)"
| "ev_step env st (EvSync now chunk) = handleSync env now chunk st"
| "ev_step env st (EvAddPending now ms e) = addPending env now ms e st"
| "ev_step env st EvProcessPending = processPending env st"
| "ev_step env st (EvMessageFailed txn) = messageFailed txn st"
| "ev_step env st EvRetry = retry_timeout env st"
| "ev_step env st (EvMessageSent now txn event_id) =
     (case messageSent env now txn event_id st of None \<Rightarrow> st | Some st' \<Rightarrow> st')"
| "ev_step env st (EvSentReply now e event_id) = sent_reply env now e event_id st"
| "ev_step env st EvFetchMore = fetchMore st"
| "ev_step env st (EvMessagesFailed t) = messages_failed t st"
| "ev_step env st (EvOldMessages chunk t) = oldMessagesRetrieved env chunk t st"
| "ev_step env st EvClear = clear_timeline st"
| "ev_step env st (EvFetched i related e) = event_fetched i related e st"
| "ev_step env st (EvKeyReceived session) = receivedSessionKey session st"
| "ev_step env st (EvEnableRequests b) = enableKeyRequests b st"
| "ev_step env st (EvRequest now manual e) = requestSession env now manual e st"
| "ev_step env st (EvGet now i related decrypt) = fst (get_event env now i related decrypt st)"
| "ev_step env st (EvGetAt now i decrypt) = fst (get_at env now i decrypt st)"
| "ev_step env st (EvEdits now i) = fst (edits env now i st)"
| "ev_step env st (EvReactions now i) = fst (reactions env now i st)"
| "ev_step env st (EvDecryptionError now i) = fst (decryptionError env now i st)"
| "ev_step env st (EvEvict i idx) =
     st\<lparr>ev_decrypted := fmdrop i (ev_decrypted st), ev_by_id := fmdrop i (ev_by_id st),
        ev_events := fmdrop idx (ev_events st)\<rparr>"

end
