(* ===== verification/Event_Queue.thy ===== *)
theory Event_Queue
  imports Event_Sync Olm_Properties
begin

text \<open>
  The queue of messages to send: what is sent and when, that every queued message is sent or given up
  after a bounded number of replies, and what blocks the queue.
\<close>

section \<open>What reading and decrypting leave alone\<close>

text \<open>The transaction ids of the send requests that were made.\<close>

fun sent_txn :: "ev_effect \<Rightarrow> string option" where
  "sent_txn (SendRoomMessage txn _) = Some txn"
| "sent_txn _ = None"

definition sent_txns :: "('a, 'c) event_store \<Rightarrow> string list" where
  "sent_txns st = List.map_filter sent_txn (ev_log st)"

lemma sent_txns_signal [simp]:
  "sent_txns (signal e st) = sent_txns st @ (case sent_txn e of None \<Rightarrow> [] | Some t \<Rightarrow> [t])"
  by (simp add: sent_txns_def signal_def List.map_filter_def split: option.split)

definition same_queue :: "('a, 'c) event_store \<Rightarrow> ('a, 'c) event_store \<Rightarrow> bool" where
  "same_queue st st' \<longleftrightarrow> ev_db st' = ev_db st \<and> ev_current_txn st' = ev_current_txn st
     \<and> ev_error_count st' = ev_error_count st \<and> sent_txns st' = sent_txns st"

lemma same_queue_refl [simp]: "same_queue st st"
  by (simp add: same_queue_def)

lemma same_queue_trans: "same_queue s t \<Longrightarrow> same_queue t u \<Longrightarrow> same_queue s u"
  by (simp add: same_queue_def)

lemma signal_fields [simp]:
  "ev_db (signal e st) = ev_db st" "ev_current_txn (signal e st) = ev_current_txn st"
  "ev_error_count (signal e st) = ev_error_count st"
  by (simp_all add: signal_def)

lemma sent_txns_update [simp]:
  "sent_txns (t\<lparr>ev_olm := o1\<rparr>) = sent_txns t" "sent_txns (t\<lparr>ev_decrypted := d\<rparr>) = sent_txns t"
  "sent_txns (t\<lparr>ev_events := e\<rparr>) = sent_txns t" "sent_txns (t\<lparr>ev_by_id := b\<rparr>) = sent_txns t"
  "sent_txns (t\<lparr>ev_requests := r\<rparr>) = sent_txns t" "sent_txns (t\<lparr>ev_txn_count := n\<rparr>) = sent_txns t"
  "sent_txns (t\<lparr>ev_first := i\<rparr>) = sent_txns t" "sent_txns (t\<lparr>ev_last := i\<rparr>) = sent_txns t"
  "sent_txns (t\<lparr>ev_db := db\<rparr>) = sent_txns t" "sent_txns (t\<lparr>ev_current_txn := x\<rparr>) = sent_txns t"
  "sent_txns (t\<lparr>ev_error_count := c\<rparr>) = sent_txns t"
  by (simp_all add: sent_txns_def)

lemma same_queue_signal [simp]: "sent_txn e = None \<Longrightarrow> same_queue s (signal e t) = same_queue s t"
  by (simp add: same_queue_def)

lemma same_queue_update [simp]:
  "same_queue s (t\<lparr>ev_olm := o1\<rparr>) = same_queue s t"
  "same_queue s (t\<lparr>ev_decrypted := d\<rparr>) = same_queue s t"
  "same_queue s (t\<lparr>ev_events := e\<rparr>) = same_queue s t"
  "same_queue s (t\<lparr>ev_by_id := b\<rparr>) = same_queue s t"
  "same_queue s (t\<lparr>ev_requests := r\<rparr>) = same_queue s t"
  "same_queue s (t\<lparr>ev_txn_count := n\<rparr>) = same_queue s t"
  "same_queue s (t\<lparr>ev_first := i\<rparr>) = same_queue s t"
  "same_queue s (t\<lparr>ev_last := i\<rparr>) = same_queue s t"
  by (simp_all add: same_queue_def)

lemma same_queue_fold:
  assumes "\<And>x st. same_queue st (f x st)"
  shows "same_queue st (fold f xs st)"
  using assms same_queue_trans by (induction xs arbitrary: st) (simp, fastforce)

lemma same_queue_request: "same_queue st (requestSession env now manual e st)"
  by (simp add: requestSession_def send_requests_def Let_def split: option.split)

lemma same_queue_decrypt: "same_queue st (fst (decrypt_event env now i e enc st))"
proof -
  obtain olm r where r: "decryptEvent (sv_olm env) (sv_parse env) (sv_set_relations env)
      \<lparr>ms_room_id = sv_room env, ms_session_id = sv_session_id env e\<rparr> enc False (ev_olm st) = (olm, r)"
    by (cases "decryptEvent (sv_olm env) (sv_parse env) (sv_set_relations env)
      \<lparr>ms_room_id = sv_room env, ms_session_id = sv_session_id env e\<rparr> enc False (ev_olm st)")
  have 1: "same_queue st (fold (\<lambda>f. signal (NewEncryptedImage f)) fs (st\<lparr>ev_olm := olm\<rparr>))" for fs
    by (rule same_queue_trans [OF _ same_queue_fold]) simp_all
  have 2: "same_queue st (requestSession env now False e (st\<lparr>ev_olm := olm\<rparr>))"
    by (rule same_queue_trans [OF _ same_queue_request]) simp
  show ?thesis
    using 1 2 by (cases r) (simp add: decrypt_event_def r Let_def split: option.split decryption_error.split)
qed

section \<open>Accessors\<close>

text \<open>What is relied on of the accessors of mtxclient's events: changing relations, the text or the
  encrypted content leaves the id and the kind alone, the relations are the ones set, and a relation
  names an event.\<close>

definition accessors_ok :: "('i, 'g, 'o, 'a, 'c) store_env \<Rightarrow> bool" where
  "accessors_ok env \<longleftrightarrow>
     (\<forall>rs e. te_id (sv_set_relations env rs e) = te_id e
        \<and> sv_supported env (sv_set_relations env rs e) = sv_supported env e
        \<and> te_relations (sv_set_relations env rs e) = map rel_event_id rs) \<and>
     (\<forall>b e. te_id (sv_set_formatted_body env b e) = te_id e
        \<and> sv_supported env (sv_set_formatted_body env b e) = sv_supported env e) \<and>
     (\<forall>c e. te_id (sv_with_content env c e) = te_id e
        \<and> sv_supported env (sv_with_content env c e) = sv_supported env e
        \<and> te_relations (sv_with_content env c e) = map rel_event_id (en_relations c)) \<and>
     (\<forall>e. \<forall>r\<in>set (sv_relations env e). rel_event_id r \<noteq> [])"

lemma accessors_okD:
  assumes "accessors_ok env"
  shows "te_id (sv_set_relations env rs e) = te_id e"
    and "sv_supported env (sv_set_relations env rs e) = sv_supported env e"
    and "te_relations (sv_set_relations env rs e) = map rel_event_id rs"
    and "te_id (sv_set_formatted_body env b e) = te_id e"
    and "sv_supported env (sv_set_formatted_body env b e) = sv_supported env e"
    and "te_id (sv_with_content env c e) = te_id e"
    and "sv_supported env (sv_with_content env c e) = sv_supported env e"
    and "te_relations (sv_with_content env c e) = map rel_event_id (en_relations c)"
    and "r \<in> set (sv_relations env e) \<Longrightarrow> rel_event_id r \<noteq> []"
    and "r \<in> set (sv_relations env e) \<Longrightarrow> [] \<noteq> rel_event_id r"
  using assms by (simp_all add: accessors_ok_def) metis

section \<open>A queue that can be sent\<close>

definition sendable :: "('i, 'g, 'o, 'a, 'c) store_env \<Rightarrow> timeline_db \<Rightarrow> string \<Rightarrow> bool" where
  "sendable env db txn \<longleftrightarrow>
     (\<exists>e. getEvent txn db = Some e \<and> te_id e = txn \<and> valid_txn_id txn \<and> sv_supported env e)"

definition queue_ok :: "('i, 'g, 'o, 'a, 'c) store_env \<Rightarrow> timeline_db \<Rightarrow> bool" where
  "queue_ok env db \<longleftrightarrow> (\<forall>txn\<in>set (pendingEvents db). sendable env db txn)"

lemma pending_iff: "txn \<in> set (pendingEvents db) \<longleftrightarrow> (\<exists>t. fmlookup (tl_pending db) t = Some txn)"
  by (force simp: pendingEvents_def)

lemma pending_remove:
  "set (pendingEvents (removePendingStatus txn db)) = set (pendingEvents db) - {txn}"
  by (auto simp: pending_iff removePendingStatus_def remove_pending_def split: if_splits) (metis option.inject)

lemma queue_ok_remove: "queue_ok env db \<Longrightarrow> queue_ok env (removePendingStatus txn db)"
  by (simp add: queue_ok_def pending_remove)
     (simp add: sendable_def getEvent_def removePendingStatus_def remove_pending_def)

lemma first_of_queue:
  assumes "queue_ok env db"
  shows "fst (firstPendingMessage db) = db"
    and "snd (firstPendingMessage db) =
      (case pendingEvents db of [] \<Rightarrow> None | txn # _ \<Rightarrow> getEvent txn db)"
proof -
  have "fst (firstPendingMessage db) = db \<and> snd (firstPendingMessage db) =
      (case pendingEvents db of [] \<Rightarrow> None | txn # _ \<Rightarrow> getEvent txn db)"
  proof (cases "sorted_list_of_fmap (tl_pending db)")
    case Nil
    then show ?thesis by (simp add: firstPendingMessage_def pendingEvents_def)
  next
    case (Cons p ps)
    then have "snd p \<in> set (pendingEvents db)" by (simp add: pendingEvents_def)
    then obtain e where "fmlookup (tl_events db) (snd p) = Some e"
      using assms by (auto simp: queue_ok_def sendable_def getEvent_def)
    then show ?thesis using Cons
      by (cases p) (simp add: firstPendingMessage_def pendingEvents_def getEvent_def)
  qed
  then show "fst (firstPendingMessage db) = db" "snd (firstPendingMessage db) =
      (case pendingEvents db of [] \<Rightarrow> None | txn # _ \<Rightarrow> getEvent txn db)" by blast+
qed

text \<open>An idle store takes up the first message of its queue.\<close>

lemma processPending_idle:
  assumes "queue_ok env (ev_db st)" and "ev_current_txn st = []"
  shows "case pendingEvents (ev_db st) of
     [] \<Rightarrow> processPending env st = st
   | txn # _ \<Rightarrow> \<exists>e. getEvent txn (ev_db st) = Some e \<and>
       processPending env st = signal (SendRoomMessage txn e) (st\<lparr>ev_current_txn := txn\<rparr>)"
proof -
  obtain db m where f: "firstPendingMessage (ev_db st) = (db, m)" by (cases "firstPendingMessage (ev_db st)")
  then have db: "db = ev_db st" "m = (case pendingEvents (ev_db st) of [] \<Rightarrow> None | txn # _ \<Rightarrow> getEvent txn (ev_db st))"
    using first_of_queue [OF assms(1)] by simp_all
  show ?thesis
  proof (cases "pendingEvents (ev_db st)")
    case Nil
    then show ?thesis using f db assms(2) by (simp add: processPending_def)
  next
    case (Cons txn ps)
    then obtain e where e: "getEvent txn (ev_db st) = Some e" "te_id e = txn" "valid_txn_id txn" "sv_supported env e"
      using assms(1) by (auto simp: queue_ok_def sendable_def)
    then show ?thesis using f db assms(2) Cons by (simp add: processPending_def Let_def)
  qed
qed

text \<open>Relinking a queued message keeps the queue.\<close>

lemma relink_ok:
  assumes "accessors_ok env" and "relink env txn event_id e = Some e'" and "event_id \<noteq> []"
  shows "te_id e' = te_id e" and "sv_supported env e' = sv_supported env e" and "[] \<notin> set (te_relations e')"
  using assms accessors_okD [OF assms(1)]
  by (auto simp: relink_def Let_def split: if_splits option.splits)

lemma reencrypt_ok:
  assumes "accessors_ok env" and "reencrypt env original e olm = (olm', Some e')"
  shows "te_id e' = te_id original" and "sv_supported env e' = sv_supported env original"
    and "[] \<notin> set (te_relations e')"
  using assms accessors_okD [OF assms(1)]
  by (auto simp: reencrypt_def encrypt_group_message_with_session_def Let_def split: prod.splits option.splits)

lemma replace_queued_ok:
  assumes "queue_ok env (ev_db st)" and "sendable env (ev_db st) pid" and "te_id e = pid" and "sv_supported env e"
    and "[] \<notin> set (te_relations e)"
  shows "\<exists>st'. replace_queued pid e st = Some st' \<and> queue_ok env (ev_db st')
    \<and> tl_pending (ev_db st') = tl_pending (ev_db st) \<and> sent_txns st' = sent_txns st"
proof -
  have pid: "pid \<noteq> []" "valid_txn_id pid" using assms(2) by (auto simp: sendable_def valid_txn_id_def)
  then obtain db where db: "replaceEvent pid e (ev_db st) = Some db" using assms(5) by (simp add: replaceEvent_def)
  then have t: "tl_pending db = tl_pending (ev_db st)"
    "getEvent i db = (if i = pid then Some e else getEvent i (ev_db st))" for i
    by (auto simp: replaceEvent_def getEvent_def split: if_splits)
  have "queue_ok env db"
    using assms(1,3,4) pid t by (auto simp: queue_ok_def pending_iff sendable_def)
  then show ?thesis
    using db t(1) by (auto simp: replace_queued_def Let_def split: option.split)
qed

lemma relink_queued_ok:
  assumes "accessors_ok env" and "event_id \<noteq> []" and "queue_ok env (ev_db st)" and "sendable env (ev_db st) pid"
  shows "\<exists>st'. relink_queued env now txn event_id pid st = Some st' \<and> queue_ok env (ev_db st')
    \<and> tl_pending (ev_db st') = tl_pending (ev_db st) \<and> sent_txns st' = sent_txns st"
proof -
  obtain e where e: "getEvent pid (ev_db st) = Some e" "te_id e = pid" "sv_supported env e"
    using assms(4) by (auto simp: sendable_def)
  have plain: "\<exists>st'. (case relink env txn event_id e of None \<Rightarrow> Some s | Some e' \<Rightarrow> replace_queued pid e' s) = Some st'
      \<and> queue_ok env (ev_db st') \<and> tl_pending (ev_db st') = tl_pending (ev_db st) \<and> sent_txns st' = sent_txns st"
    if s: "ev_db s = ev_db st" "sent_txns s = sent_txns st" for s
  proof (cases "relink env txn event_id e")
    case None
    then show ?thesis using assms(3) s by simp
  next
    case (Some e')
    note k = relink_ok [OF assms(1) Some assms(2)]
    show ?thesis using replace_queued_ok [of env s pid e'] assms(3,4) k e s Some by simp
  qed
  show ?thesis
  proof (cases "sv_encrypted env e")
    case None
    then show ?thesis using plain [of st] e by (simp add: relink_queued_def)
  next
    case (Some enc)
    obtain s r where sr: "decrypt_event env now (te_id e) e enc st = (s, r)"
      by (cases "decrypt_event env now (te_id e) e enc st")
    have s: "ev_db s = ev_db st" "sent_txns s = sent_txns st"
      using same_queue_decrypt [of st env now "te_id e" e enc] sr by (simp_all add: same_queue_def)
    show ?thesis
    proof (cases "snd r")
      case None
      then show ?thesis using plain [OF s] e Some sr by (simp add: relink_queued_def)
    next
      case (Some d)
      show ?thesis
      proof (cases "relink env txn event_id d")
        case None
        then show ?thesis using e \<open>sv_encrypted env e = Some enc\<close> sr Some s assms(3) by (simp add: relink_queued_def)
      next
        case (Some d')
        obtain olm x where x: "reencrypt env e d' (ev_olm s) = (olm, x)" by (cases "reencrypt env e d' (ev_olm s)")
        show ?thesis
        proof (cases x)
          case None
          then show ?thesis using e \<open>sv_encrypted env e = Some enc\<close> sr \<open>snd r = Some d\<close> Some x s assms(3)
            by (simp add: relink_queued_def)
        next
          case (Some e')
          note k = reencrypt_ok [OF assms(1) x [unfolded Some]]
          show ?thesis
            using replace_queued_ok [of env "s\<lparr>ev_olm := olm\<rparr>" pid e'] k assms(3,4) s e
              \<open>sv_encrypted env e = Some enc\<close> sr \<open>snd r = Some d\<close> \<open>relink env txn event_id d = Some d'\<close> x Some
            by (simp add: relink_queued_def)
        qed
      qed
    qed
  qed
qed

lemma relink_all_ok:
  fixes st :: "('a, 'c) event_store"
  assumes "accessors_ok env" and "event_id \<noteq> []" and "queue_ok env (ev_db st)"
    and "set pids \<subseteq> set (pendingEvents (ev_db st))"
  shows "\<exists>st'. fold_opt (relink_queued env now txn event_id) pids st = Some st' \<and> queue_ok env (ev_db st')
    \<and> tl_pending (ev_db st') = tl_pending (ev_db st) \<and> sent_txns st' = sent_txns st"
  using assms(3,4)
proof (induction pids arbitrary: st)
  case Nil
  then show ?case by simp
next
  case (Cons pid pids)
  then have "sendable env (ev_db st) pid" by (simp add: queue_ok_def)
  from relink_queued_ok [OF assms(1,2) Cons.prems(1) this] obtain st1 where
    st1: "relink_queued env now txn event_id pid st = Some st1" "queue_ok env (ev_db st1)"
      "tl_pending (ev_db st1) = tl_pending (ev_db st)" "sent_txns st1 = sent_txns st" by metis
  have "set pids \<subseteq> set (pendingEvents (ev_db st1))" using Cons.prems(2) st1(3) by (simp add: pendingEvents_def)
  from Cons.IH [OF st1(2) this] show ?case using st1 by simp
qed

section \<open>Every queued message is sent\<close>

lemma sorted_list_of_fmap_filter:
  "sorted_list_of_fmap (fmfilter P m) = filter (P \<circ> fst) (sorted_list_of_fmap m)"
proof -
  have "sorted_list_of_fset (ffilter P (fmdom m)) = filter P (sorted_list_of_fset (fmdom m))"
    by (rule sorted_distinct_set_unique) (auto simp: sorted_list_of_fset.rep_eq intro: sorted_wrt_filter)
  then show ?thesis
    by (simp add: sorted_list_of_fmap_def filter_map comp_def)
qed

lemma pending_filter: "pendingEvents (removePendingStatus txn db) = filter (\<lambda>t. t \<noteq> txn) (pendingEvents db)"
proof -
  have "filter (\<lambda>p. fmlookup (tl_pending db) (fst p) \<noteq> Some txn) (sorted_list_of_fmap (tl_pending db))
      = filter (\<lambda>p. snd p \<noteq> txn) (sorted_list_of_fmap (tl_pending db))"
    by (rule filter_cong) auto
  then show ?thesis
    by (simp add: pendingEvents_def removePendingStatus_def remove_pending_def sorted_list_of_fmap_filter
        filter_map comp_def)
qed

lemma remdups_adj_snoc:
  "remdups_adj (xs @ [x]) = (if xs \<noteq> [] \<and> last xs = x then remdups_adj xs else remdups_adj xs @ [x])"
  by (induction xs rule: remdups_adj.induct) auto

text \<open>A reply to the send request on its way: an error, then the timer; or the event id. The state of
  the queue between replies: the first message is on its way, and what was sent is what left the queue
  followed by it.\<close>

datatype reply = Refused | Accepted int string

fun reply_ops :: "reply \<Rightarrow> string \<Rightarrow> ev_op list" where
  "reply_ops Refused txn = [EvMessageFailed txn, EvRetry]"
| "reply_ops (Accepted now event_id) txn = [EvMessageSent now txn event_id]"

definition on_reply ::
    "('i, 'g, 'o, 'a, 'c) store_env \<Rightarrow> ('a, 'c) event_store \<Rightarrow> reply \<Rightarrow> ('a, 'c) event_store" where
  "on_reply env st r = run (ev_step env) st (reply_ops r (ev_current_txn st))"

fun valid_reply :: "reply \<Rightarrow> bool" where
  "valid_reply Refused = True"
| "valid_reply (Accepted now event_id) = (event_id \<noteq> [])"

definition sending ::
    "('i, 'g, 'o, 'a, 'c) store_env \<Rightarrow> string list \<Rightarrow> string list \<Rightarrow> ('a, 'c) event_store \<Rightarrow> bool" where
  "sending env start queue st \<longleftrightarrow>
     queue_ok env (ev_db st) \<and> distinct (pendingEvents (ev_db st)) \<and> 0 \<le> ev_error_count st \<and> ev_error_count st \<le> 10
     \<and> ev_current_txn st = (case pendingEvents (ev_db st) of [] \<Rightarrow> [] | txn # _ \<Rightarrow> txn)
     \<and> (\<exists>sent before. sent_txns st = start @ sent \<and> queue = before @ pendingEvents (ev_db st)
          \<and> remdups_adj sent = before @ take 1 (pendingEvents (ev_db st))
          \<and> (pendingEvents (ev_db st) \<noteq> [] \<longrightarrow> last sent = hd (pendingEvents (ev_db st))))"

definition replies_left :: "('a, 'c) event_store \<Rightarrow> int" where
  "replies_left st = 11 * int (length (pendingEvents (ev_db st))) - ev_error_count st"

lemma sending_next:
  assumes "queue_ok env (ev_db st)" and "ev_current_txn st = []" and "distinct (pendingEvents (ev_db st))"
    and "0 \<le> ev_error_count st" and "ev_error_count st \<le> 10"
    and "sent_txns st = start @ sent" and "queue = before @ pendingEvents (ev_db st)"
    and "remdups_adj sent = before \<or> (pendingEvents (ev_db st) \<noteq> [] \<and> sent \<noteq> []
      \<and> last sent = hd (pendingEvents (ev_db st)) \<and> remdups_adj sent = before @ [hd (pendingEvents (ev_db st))])"
    and "distinct queue"
  shows "sending env start queue (processPending env st)"
    and "ev_error_count (processPending env st) = ev_error_count st"
    and "ev_db (processPending env st) = ev_db st"
proof -
  have "sending env start queue (processPending env st)
    \<and> ev_error_count (processPending env st) = ev_error_count st \<and> ev_db (processPending env st) = ev_db st"
  proof (cases "pendingEvents (ev_db st)")
    case Nil
    then have "processPending env st = st" using processPending_idle [OF assms(1,2)] by simp
    then show ?thesis using assms Nil by (simp add: sending_def)
  next
    case (Cons txn ps)
    then obtain e where p: "processPending env st = signal (SendRoomMessage txn e) (st\<lparr>ev_current_txn := txn\<rparr>)"
      using processPending_idle [OF assms(1,2)] by auto
    have "remdups_adj (sent @ [txn]) = before @ [txn]"
    proof (cases "remdups_adj sent = before")
      case True
      then have "sent \<noteq> [] \<Longrightarrow> last sent \<in> set before" using last_in_set by (metis remdups_adj_set)
      then show ?thesis using True assms(7,9) Cons by (auto simp: remdups_adj_snoc)
    next
      case False
      then show ?thesis using assms(8) Cons by (simp add: remdups_adj_snoc)
    qed
    then show ?thesis using assms Cons p by (auto simp: sending_def)
  qed
  then show "sending env start queue (processPending env st)"
    "ev_error_count (processPending env st) = ev_error_count st" "ev_db (processPending env st) = ev_db st" by blast+
qed

lemma sending_removed:
  assumes "sending env start queue st" and "pendingEvents (ev_db st) = txn # ps" and "distinct queue"
    and "ev_db st' = removePendingStatus txn db" and "queue_ok env db" and "tl_pending db = tl_pending (ev_db st)"
    and "sent_txns st' = sent_txns st" and "ev_current_txn st' = []" and "ev_error_count st' = 0"
  shows "sending env start queue (processPending env st')"
    and "replies_left (processPending env st') \<le> replies_left st - 1"
proof -
  have p: "pendingEvents (ev_db st') = ps"
  proof -
    have "pendingEvents db = txn # ps" using assms(2,6) by (simp add: pendingEvents_def)
    moreover have "txn \<notin> set ps" using assms(1,2) by (simp add: sending_def)
    ultimately have "pendingEvents (removePendingStatus txn db) = filter (\<lambda>t. t \<noteq> txn) ps"
      "filter (\<lambda>t. t \<noteq> txn) ps = ps" by (auto simp: pending_filter filter_id_conv)
    then show ?thesis using assms(4) by simp
  qed
  obtain sent before where s: "sent_txns st = start @ sent" "queue = before @ txn # ps"
    "remdups_adj sent = before @ [txn]" using assms(1,2) by (auto simp: sending_def)
  have q: "queue_ok env (ev_db st')" using queue_ok_remove [OF assms(5)] assms(4) by simp
  note n = sending_next [of env st' start sent queue "before @ [txn]"]
  show "sending env start queue (processPending env st')"
    using n(1) q p s assms(3,7-9) by simp
  have "ev_error_count (processPending env st') = 0" "ev_db (processPending env st') = ev_db st'"
    using n(2,3) q p s assms(3,7-9) by simp_all
  then show "replies_left (processPending env st') \<le> replies_left st - 1"
    using p assms(1,2) by (simp add: replies_left_def sending_def)
qed

lemma sending_reply:
  fixes st :: "('a, 'c) event_store"
  assumes "accessors_ok env" and "sending env start queue st" and "valid_reply r" and "distinct queue"
    and "pendingEvents (ev_db st) \<noteq> []"
  shows "sending env start queue (on_reply env st r)" and "replies_left (on_reply env st r) \<le> replies_left st - 1"
proof -
  obtain txn ps where p: "pendingEvents (ev_db st) = txn # ps" using assms(5) by (auto simp: neq_Nil_conv)
  have c: "ev_current_txn st = txn" "queue_ok env (ev_db st)" using assms(2) p by (simp_all add: sending_def)
  have "sending env start queue (on_reply env st r) \<and> replies_left (on_reply env st r) \<le> replies_left st - 1"
  proof (cases r)
    case Refused
    show ?thesis
    proof (cases "ev_error_count st = 10")
      case True
      define st' where "st' = (messageFailed txn st)\<lparr>ev_current_txn := []\<rparr>"
      have r: "on_reply env st r = processPending env st'"
        by (simp add: on_reply_def Refused c st'_def retry_timeout_def)
      have "ev_db st' = removePendingStatus txn (ev_db st)" "sent_txns st' = sent_txns st"
        "ev_current_txn st' = []" "ev_error_count st' = 0"
        using True c by (simp_all add: st'_def messageFailed_def Let_def)
      from sending_removed [OF assms(2) p assms(4) this(1) c(2) refl this(2-4)] show ?thesis by (simp add: r)
    next
      case False
      define st' where "st' = (messageFailed txn st)\<lparr>ev_current_txn := []\<rparr>"
      have r: "on_reply env st r = processPending env st'"
        by (simp add: on_reply_def Refused c st'_def retry_timeout_def)
      have e: "0 \<le> ev_error_count st" "ev_error_count st < 10" using assms(2) False by (simp_all add: sending_def)
      then have f: "ev_db st' = ev_db st" "sent_txns st' = sent_txns st"
        "ev_current_txn st' = []" "ev_error_count st' = ev_error_count st + 1"
        using c by (simp_all add: st'_def messageFailed_def Let_def)
      obtain sent before where s: "sent_txns st = start @ sent" "queue = before @ txn # ps"
        "remdups_adj sent = before @ [txn]" "last sent = txn" using assms(2) p by (auto simp: sending_def)
      then have "sent \<noteq> []" by auto
      note n = sending_next [of env st' start sent queue before]
      have "sending env start queue (processPending env st')"
        using n(1) s f e c p assms(4) \<open>sent \<noteq> []\<close> by simp
      moreover have "ev_error_count (processPending env st') = ev_error_count st + 1" "ev_db (processPending env st') = ev_db st"
        using n(2,3) s f e c p assms(4) \<open>sent \<noteq> []\<close> by simp_all
      ultimately show ?thesis by (simp add: r replies_left_def)
    qed
  next
    case (Accepted now event_id)
    then have "event_id \<noteq> []" using assms(3) by simp
    from relink_all_ok [OF assms(1) this c(2) subset_refl] obtain st1 where
      st1: "fold_opt (relink_queued env now txn event_id) (pendingEvents (ev_db st)) st = Some st1"
        "queue_ok env (ev_db st1)" "tl_pending (ev_db st1) = tl_pending (ev_db st)" "sent_txns st1 = sent_txns st"
      by metis
    define st2 where "st2 = signal (ReadEvent event_id) st1"
    define st3 where "st3 = (case idToIndex event_id st2 of None \<Rightarrow> st2 | Some i \<Rightarrow> signal (DataChanged i i) st2)"
    define st' where "st' = st3\<lparr>ev_db := removePendingStatus txn (ev_db st3), ev_current_txn := [], ev_error_count := 0\<rparr>"
    have r: "on_reply env st r = processPending env st'"
      using st1(1) by (simp add: on_reply_def Accepted c messageSent_def Let_def
          st2_def st3_def st'_def cong: option.case_cong)
    have "ev_db st3 = ev_db st1" "sent_txns st3 = sent_txns st1"
      by (simp_all add: st3_def st2_def split: option.split)
    then have "ev_db st' = removePendingStatus txn (ev_db st1)" "sent_txns st' = sent_txns st"
      "ev_current_txn st' = []" "ev_error_count st' = 0"
      using st1(4) by (simp_all add: st'_def)
    from sending_removed [OF assms(2) p assms(4) this(1) st1(2,3) this(2-4)] show ?thesis by (simp add: r)
  qed
  then show "sending env start queue (on_reply env st r)" "replies_left (on_reply env st r) \<le> replies_left st - 1"
    by blast+
qed

lemma sending_idle:
  assumes "sending env start queue st" and "pendingEvents (ev_db st) = []"
  shows "sending env start queue (on_reply env st r)" and "pendingEvents (ev_db (on_reply env st r)) = []"
proof -
  have c: "ev_current_txn st = []" using assms by (simp add: sending_def)
  define st' where "st' = (case r of Refused \<Rightarrow> (messageFailed [] st)\<lparr>ev_current_txn := []\<rparr>
    | Accepted now event_id \<Rightarrow>
        (case idToIndex event_id st of None \<Rightarrow> signal (ReadEvent event_id) st
         | Some i \<Rightarrow> signal (DataChanged i i) (signal (ReadEvent event_id) st))
        \<lparr>ev_db := removePendingStatus [] (ev_db st), ev_current_txn := [], ev_error_count := 0\<rparr>)"
  have r: "on_reply env st r = processPending env st'"
    using assms(2) c by (cases r)
      (simp_all add: on_reply_def st'_def retry_timeout_def messageSent_def Let_def idToIndex_def toExternalIdx_def
        signal_def split: option.split)
  have f: "pendingEvents (ev_db st') = []" "ev_current_txn st' = []" "sent_txns st' = sent_txns st"
    "0 \<le> ev_error_count st'" "ev_error_count st' \<le> 10"
    using assms c by (cases r; simp add: st'_def messageFailed_def Let_def pending_filter sending_def split: option.split)+
  have "processPending env st' = st'"
    using processPending_idle [of env st'] f by (simp add: queue_ok_def)
  then show "sending env start queue (on_reply env st r)" "pendingEvents (ev_db (on_reply env st r)) = []"
    using assms f by (auto simp: r sending_def queue_ok_def)
qed

lemma sending_replies:
  assumes "accessors_ok env" and "distinct queue" and "sending env start queue st"
    and "list_all valid_reply rs" and "replies_left st \<le> int (length rs)"
  shows "sending env start queue (fold (\<lambda>r st. on_reply env st r) rs st)
    \<and> pendingEvents (ev_db (fold (\<lambda>r st. on_reply env st r) rs st)) = []"
  using assms(3-5)
proof (induction rs arbitrary: st)
  case Nil
  then show ?case by (cases "pendingEvents (ev_db st)") (simp_all add: sending_def replies_left_def)
next
  case (Cons r rs)
  show ?case
  proof (cases "pendingEvents (ev_db st) = []")
    case True
    then have "sending env start queue (on_reply env st r)" "replies_left (on_reply env st r) \<le> int (length rs)"
      using sending_idle [OF Cons.prems(1) True, of r] by (simp_all add: replies_left_def sending_def)
    with Cons show ?thesis by simp
  next
    case False
    with Cons sending_reply [OF assms(1) Cons.prems(1) _ assms(2) False, of r] show ?thesis by fastforce
  qed
qed


text \<open>A room with two queued messages, the second an edit of the first.\<close>

definition demo_store_env :: "(string, string, string, string, string) store_env" where
  "demo_store_env =
     \<lparr>sv_olm = demo_olm_env JNull DeOther, sv_room = ''!r'', sv_hidden = (\<lambda>e. te_relations e \<noteq> []),
      sv_supported = (\<lambda>e. True), sv_encrypted = (\<lambda>e. None), sv_session_id = te_content,
      sv_sender = te_content,
      sv_relations = (\<lambda>e. map (\<lambda>i. \<lparr>rel_type_of = Replace, rel_event_id = i, rel_key = None\<rparr>)
        (filter (\<lambda>i. i \<noteq> []) (te_relations e))),
      sv_synthesized = (\<lambda>e. False),
      sv_set_relations = (\<lambda>rs e. e\<lparr>te_relations := map rel_event_id rs\<rparr>),
      sv_parse = (\<lambda>j. None), sv_files = (\<lambda>e. []), sv_formatted_body = (\<lambda>e. None),
      sv_set_formatted_body = (\<lambda>b e. e\<lparr>te_content := b\<rparr>), sv_reaction_key = (\<lambda>e. None),
      sv_verification = (\<lambda>e. False), sv_verification_request = (\<lambda>e. False), sv_document = te_content,
      sv_with_content = (\<lambda>c e. e\<lparr>te_relations := map rel_event_id (en_relations c)\<rparr>),
      sv_display_name = (\<lambda>u. u), sv_txn_id = (\<lambda>n. ''m'')\<rparr>"

definition demo_event :: "string \<Rightarrow> string \<Rightarrow> string list \<Rightarrow> tl_event" where
  "demo_event i sender rels = \<lparr>te_id = i, te_txn = [], te_redacts = None, te_relations = rels,
     te_content = sender, te_redacted_by = None\<rparr>"

definition demo_queue :: "(string, string) event_store" where
  "demo_queue = (new_event_store
     (the (savePendingMessage (sv_hidden demo_store_env) 2 (demo_event ''m2'' ''A'' [''m1''])
       (the (savePendingMessage (sv_hidden demo_store_env) 1 (demo_event ''m1'' ''A'' []) new_timeline))))
     demo_olm_state)"

lemma demo_accessors: "accessors_ok demo_store_env"
  by (simp add: accessors_ok_def demo_store_env_def)


end
