(* ===== verification/Event_Safety.thy ===== *)
theory Event_Safety
  imports Event_Queue
begin

text \<open>
  What holds at every step of an event store: one message is on its way at a time, keys are not asked for
  too often, and only the sender of an event edits it.
\<close>

section \<open>Steps that send nothing\<close>

text \<open>\<open>paced now manual\<close>: each session is asked for at most once, and only if the last request for it is
  old enough; the time is then noted. \<open>calm now\<close>: besides, nothing is sent.\<close>

definition last_request :: "string \<Rightarrow> ('a, 'c) event_store \<Rightarrow> int option" where
  "last_request s st = map_option kq_requested_at (fmlookup (ev_requests st) s)"

definition paced :: "int \<Rightarrow> bool \<Rightarrow> ('a, 'c) event_store \<Rightarrow> ('a, 'c) event_store \<Rightarrow> bool" where
  "paced now manual st st' \<longleftrightarrow>
     (\<exists>es. ev_log st' = ev_log st @ es \<and>
       (\<forall>s. last_request s st' = last_request s st \<and> LookupKey s \<notin> set es
          \<or> last_request s st' = Some now \<and> (\<forall>t. last_request s st = Some t \<longrightarrow> t + request_delay manual < now)))"

definition calm :: "int \<Rightarrow> ('a, 'c) event_store \<Rightarrow> ('a, 'c) event_store \<Rightarrow> bool" where
  "calm now st st' \<longleftrightarrow> paced now False st st' \<and> sent_txns st' = sent_txns st
     \<and> ev_current_txn st' = ev_current_txn st"

fun no_lookup :: "ev_effect \<Rightarrow> bool" where
  "no_lookup (LookupKey _) = False"
| "no_lookup _ = True"

lemma no_lookupD: "no_lookup e \<Longrightarrow> e \<noteq> LookupKey s"
  by auto

lemma paced_trans:
  assumes "paced now m s t" and "paced now m t u"
  shows "paced now m s u"
proof -
  obtain es where es: "ev_log t = ev_log s @ es"
    "\<forall>k. last_request k t = last_request k s \<and> LookupKey k \<notin> set es
       \<or> last_request k t = Some now \<and> (\<forall>x. last_request k s = Some x \<longrightarrow> x + request_delay m < now)"
    using assms(1) by (auto simp: paced_def)
  obtain fs where fs: "ev_log u = ev_log t @ fs"
    "\<forall>k. last_request k u = last_request k t \<and> LookupKey k \<notin> set fs
       \<or> last_request k u = Some now \<and> (\<forall>x. last_request k t = Some x \<longrightarrow> x + request_delay m < now)"
    using assms(2) by (auto simp: paced_def)
  have "last_request k u = last_request k s \<and> LookupKey k \<notin> set (es @ fs)
     \<or> last_request k u = Some now \<and> (\<forall>x. last_request k s = Some x \<longrightarrow> x + request_delay m < now)" for k
    using es(2) [rule_format, of k] fs(2) [rule_format, of k] by (auto simp: request_delay_def)
  then show ?thesis unfolding paced_def by (intro exI [of _ "es @ fs"]) (simp add: es(1) fs(1))
qed

lemma calm_trans: "calm now s t \<Longrightarrow> calm now t u \<Longrightarrow> calm now s u"
  using paced_trans by (fastforce simp: calm_def)

lemma paced_frame: "ev_log st' = ev_log st \<Longrightarrow> ev_requests st' = ev_requests st \<Longrightarrow> paced now m st st'"
  unfolding paced_def last_request_def by (intro exI [of _ "[]"]) simp

lemma calm_frame:
  "ev_log st' = ev_log st \<Longrightarrow> ev_requests st' = ev_requests st \<Longrightarrow> ev_current_txn st' = ev_current_txn st
    \<Longrightarrow> calm now st st'"
  by (simp add: calm_def paced_frame sent_txns_def)

lemma calm_refl [simp]: "calm now st st"
  by (rule calm_frame) simp_all

lemma paced_signal: "paced now m s t \<Longrightarrow> no_lookup e \<Longrightarrow> paced now m s (signal e t)"
proof (rule paced_trans [of now m s t], assumption)
  assume "no_lookup e"
  then show "paced now m t (signal e t)"
    unfolding paced_def last_request_def by (intro exI [of _ "[e]"]) (auto simp: signal_def)
qed

lemma calm_signal: "calm now s t \<Longrightarrow> no_lookup e \<Longrightarrow> sent_txn e = None \<Longrightarrow> calm now s (signal e t)"
  by (simp add: calm_def paced_signal)

lemma calm_update [intro]:
  assumes "calm now s t"
  shows "calm now s (t\<lparr>ev_db := db\<rparr>)" "calm now s (t\<lparr>ev_olm := o1\<rparr>)" "calm now s (t\<lparr>ev_decrypted := d\<rparr>)"
    "calm now s (t\<lparr>ev_events := e\<rparr>)" "calm now s (t\<lparr>ev_by_id := b\<rparr>)" "calm now s (t\<lparr>ev_first := i\<rparr>)"
    "calm now s (t\<lparr>ev_last := i\<rparr>)" "calm now s (t\<lparr>ev_no_more := n\<rparr>)" "calm now s (t\<lparr>ev_suppress := n\<rparr>)"
    "calm now s (t\<lparr>ev_txn_count := c\<rparr>)" "calm now s (t\<lparr>ev_error_count := ec\<rparr>)"
  by (rule calm_trans [OF assms calm_frame]; simp)+

lemma calm_fold:
  assumes "\<And>x st. calm now st (f x st)" and "calm now s st"
  shows "calm now s (fold f xs st)"
  using assms(2)
proof (induction xs arbitrary: st)
  case (Cons x xs)
  then show ?case using Cons.IH [OF calm_trans [OF Cons.prems assms(1)]] by simp
qed simp

lemmas calm_intros = calm_refl calm_update calm_signal

lemma paced_request: "paced now manual st (requestSession env now manual e st)"
proof -
  let ?s = "sv_session_id env e"
  have same: "paced now manual st (st\<lparr>ev_requests := fmupd ?s r (ev_requests st)\<rparr>)"
    if "fmlookup (ev_requests st) ?s = Some r0" "kq_requested_at r = kq_requested_at r0" for r r0
    using that unfolding paced_def last_request_def by (intro exI [of _ "[]"]) auto
  have new: "paced now manual st (send_requests env e i
      (st\<lparr>ev_requests := fmupd ?s r (ev_requests st), ev_txn_count := n\<rparr>))"
    if "kq_requested_at r = now" "\<forall>t. last_request ?s st = Some t \<longrightarrow> t + request_delay manual < now" for r i n
    using that unfolding paced_def last_request_def
    by (intro exI [of _ "[LookupKey ?s, RequestKey e i False]"]) (auto simp: send_requests_def signal_def)
  have count: "st\<lparr>ev_requests := x\<rparr> = st\<lparr>ev_requests := x, ev_txn_count := ev_txn_count st\<rparr>" for x by simp
  show ?thesis
  proof (cases "fmlookup (ev_requests st) ?s")
    case None
    then show ?thesis
      using new by (simp add: requestSession_def Let_def paced_frame last_request_def)
  next
    case (Some r)
    show ?thesis
    proof (cases "kq_requested_at r + request_delay manual < now")
      case True
      then show ?thesis
        using Some new [of "r\<lparr>kq_events := kq_events r @ [e], kq_requested_at := now\<rparr>" "kq_request_id r" "ev_txn_count st"]
        by (simp add: requestSession_def Let_def paced_frame last_request_def)
    next
      case False
      then show ?thesis
        using Some same by (simp add: requestSession_def Let_def paced_frame)
    qed
  qed
qed

lemma calm_request: "calm now st (requestSession env now False e st)"
proof -
  have "same_queue st (requestSession env now False e st)" by (rule same_queue_request)
  then show ?thesis by (simp add: calm_def paced_request same_queue_def)
qed

lemma calm_decrypt: "calm now st (fst (decrypt_event env now i e enc st))"
proof -
  obtain olm r where r: "decryptEvent (sv_olm env) (sv_parse env) (sv_set_relations env)
      \<lparr>ms_room_id = sv_room env, ms_session_id = sv_session_id env e\<rparr> enc False (ev_olm st) = (olm, r)"
    by (cases "decryptEvent (sv_olm env) (sv_parse env) (sv_set_relations env)
      \<lparr>ms_room_id = sv_room env, ms_session_id = sv_session_id env e\<rparr> enc False (ev_olm st)")
  have 1: "calm now st (fold (\<lambda>f. signal (NewEncryptedImage f)) fs (st\<lparr>ev_olm := olm\<rparr>))" for fs
    by (rule calm_fold) (auto intro: calm_intros)
  have 2: "calm now st (requestSession env now False e (st\<lparr>ev_olm := olm\<rparr>))"
    by (rule calm_trans [OF _ calm_request]) (auto intro: calm_intros)
  show ?thesis
    using 1 2 by (cases r) (auto simp: decrypt_event_def r Let_def intro: calm_intros split: option.split decryption_error.split)
qed

text \<open>The same for a step whose result is at hand as a pair.\<close>

lemma calm_then:
  assumes "p = (st', r)" and "calm now st (fst p)" and "calm now s st"
  shows "calm now s st'"
  using assms calm_trans by simp

section \<open>Reading events\<close>

lemma calm_shown: "calm now s st \<Longrightarrow> calm now s (fst (shown env now d i e st))"
  by (auto simp: shown_def split: option.split prod.split intro: calm_then [OF _ calm_decrypt])

lemma calm_get_by_id: "calm now st (fst (get_by_id env now i r d st))"
  by (auto simp: get_by_id_def intro!: calm_shown calm_intros split: option.split)

lemma calm_collect_edits: "calm now st (fst (collect_edits env now i orig ids st))"
proof (induction ids arbitrary: st)
  case (Cons x ids)
  obtain st1 r where g: "get_by_id env now x i False st = (st1, r)" by (cases "get_by_id env now x i False st")
  then have "calm now st st1" using calm_get_by_id by (metis fst_conv)
  then show ?case by (auto simp: g split: prod.split intro: calm_then [OF _ Cons.IH])
qed simp

lemma calm_edits: "calm now st (fst (edits env now i st))"
proof -
  obtain st1 r where g: "get_by_id env now i [] False st = (st1, r)" by (cases "get_by_id env now i [] False st")
  then have "calm now st st1" using calm_get_by_id by (metis fst_conv)
  then show ?thesis
    by (auto simp: edits_def g Let_def split: option.split prod.split intro: calm_then [OF _ calm_collect_edits])
qed

lemma calm_resolve: "calm now st (fst (resolve_edit env now i st))"
  using calm_edits [of now st env i]
  by (auto simp: resolve_edit_def Let_def intro: calm_intros split: prod.split)

lemma calm_get_event: "calm now st (fst (get_event env now i r d st))"
proof -
  obtain st1 x where g: "resolve_edit env now i st = (st1, x)" by (cases "resolve_edit env now i st")
  then have "calm now st st1" using calm_resolve by (metis fst_conv)
  then show ?thesis using calm_trans [OF _ calm_get_by_id] by (auto simp: get_event_def g)
qed

lemma calm_get_at: "calm now st (fst (get_at env now i d st))"
proof -
  have l: "calm now st (fst (load_at env now x st))" for x
    using calm_edits [of now st env x] by (auto simp: load_at_def Let_def split: prod.split)
  then have "calm now st s" if "load_at env now x st = (s, r)" for x s r using that by (metis fst_conv)
  then show ?thesis
    by (auto simp: get_at_def Let_def intro!: calm_shown calm_intros split: option.split prod.split)
qed

lemma calm_decryptionError: "calm now st (fst (decryptionError env now i st))"
proof -
  obtain st1 x where g: "resolve_edit env now i st = (st1, x)" by (cases "resolve_edit env now i st")
  then have "calm now st st1" using calm_resolve by (metis fst_conv)
  then show ?thesis
    by (auto simp: decryptionError_def g Let_def intro!: calm_trans [OF _ calm_decrypt] calm_intros split: option.split)
qed

lemma calm_reactions: "calm now st (fst (reactions env now i st))"
proof -
  have "calm now st (fst (collect_reactions env now i ids rs st))" for ids rs st
  proof (induction ids arbitrary: rs st)
    case (Cons x ids)
    obtain st1 r where g: "get_event env now x i True st = (st1, r)" by (cases "get_event env now x i True st")
    then have "calm now st st1" using calm_get_event by (metis fst_conv)
    then show ?case using calm_trans [OF _ Cons.IH] by (simp add: g)
  qed simp
  then show ?thesis by (simp add: reactions_def)
qed

section \<open>Syncs and pages\<close>

lemma calm_changed: "calm now s st \<Longrightarrow> calm now s (changed i st)"
  by (simp add: changed_def calm_signal)

lemmas calm_rules = calm_changed calm_intros

lemma calm_fix_reaction: "calm now s st \<Longrightarrow> calm now s (fix_reaction env r st)"
  by (auto simp: fix_reaction_def intro!: calm_rules split: option.split)

lemma calm_refresh: "calm now s st \<Longrightarrow> calm now s (refresh i st)"
  by (auto simp: refresh_def intro!: calm_rules split: option.split)

lemma calm_refresh_own: "calm now s st \<Longrightarrow> calm now s (refresh_own e st)"
  by (auto simp: refresh_own_def intro!: calm_rules split: option.split)

lemma calm_refresh_edits: "calm now s st \<Longrightarrow> calm now s (refresh_edits i st)"
  unfolding refresh_edits_def
  by (auto intro!: calm_fold calm_rules split: option.split)

lemma calm_check_verification: "calm now s st \<Longrightarrow> calm now s (check_verification env now e st)"
  by (auto simp: check_verification_def intro!: calm_rules intro: calm_then [OF _ calm_decrypt]
      split: option.split prod.split)

lemma calm_handle_event: "calm now s st \<Longrightarrow> calm now s (handle_event env now e st)"
proof -
  assume s: "calm now s st"
  define st1 where "st1 = (case te_redacts e of None \<Rightarrow> st | Some r \<Rightarrow> fix_reaction env r st)"
  define st2 where "st2 = fold refresh (related_to env e) st1"
  have "calm now s st1" using s by (simp add: st1_def calm_fix_reaction split: option.split)
  then have "calm now s st2" unfolding st2_def by (auto intro: calm_fold calm_refresh calm_refl)
  then have "calm now s (check_verification env now e (refresh_edits (edited_event env e) (refresh_own e st2)))"
    by (intro calm_check_verification calm_refresh_edits calm_refresh_own)
  then show ?thesis by (simp add: handle_event_def Let_def st1_def st2_def)
qed

lemma calm_update_range: "calm now s st \<Longrightarrow> calm now s (update_range l rg st)"
  by (auto simp: update_range_def forget_events_def intro!: calm_rules)

lemma calm_empty_range: "calm now s st \<Longrightarrow> calm now s (empty_range st)"
  by (auto simp: empty_range_def forget_events_def intro!: calm_rules)

lemma calm_handleSync: "calm now s st \<Longrightarrow> calm now s (handleSync env now chunk st)"
  by (auto simp: handleSync_def intro!: calm_empty_range calm_fold calm_handle_event calm_update_range calm_refl
      split: option.split)

lemma calm_fetchMore: "calm now s st \<Longrightarrow> calm now s (fetchMore st)"
  by (auto simp: fetchMore_def intro!: calm_rules)

lemma calm_oldMessages: "calm now st (oldMessagesRetrieved env chunk t st)"
  by (auto simp: oldMessagesRetrieved_def Let_def intro!: calm_fetchMore calm_rules split: option.split prod.split)

lemma calm_clear: "calm now st (clear_timeline st)"
  by (auto simp: clear_timeline_def Let_def forget_events_def intro!: calm_empty_range calm_rules split: option.split)

lemma calm_event_fetched: "calm now st (event_fetched i r e st)"
  by (auto simp: event_fetched_def Let_def intro!: calm_rules split: option.split)

lemma calm_receivedSessionKey:
  fixes st :: "('a, 'b) event_store"
  shows "calm now st (receivedSessionKey k st)"
proof (cases "fmlookup (ev_requests st) k")
  case None
  then show ?thesis by (simp add: receivedSessionKey_def)
next
  case (Some r)
  let ?st1 = "st\<lparr>ev_requests := fmupd k (r\<lparr>kq_events := []\<rparr>) (ev_requests st)\<rparr>"
  have "paced now False st ?st1"
    using Some unfolding paced_def last_request_def by (intro exI [of _ "[]"]) auto
  then have 1: "calm now st ?st1" by (simp add: calm_def)
  have d: "calm now s t \<Longrightarrow> calm now s (drop_cached e t)" for e and s t :: "('a, 'b) event_store"
    by (auto simp: drop_cached_def intro!: calm_rules split: option.split)
  then have ds: "calm now s t \<Longrightarrow> calm now s (fold drop_cached es t)" for es and s t :: "('a, 'b) event_store"
    by (rule calm_fold) simp_all
  then show ?thesis
    using 1 Some by (auto simp: receivedSessionKey_def Let_def intro!: ds d calm_signal split: list.split)
qed

lemma calm_sent_reply: "calm now st (sent_reply env now e i st)"
  by (auto simp: sent_reply_def intro!: calm_rules intro: calm_then [OF _ calm_decrypt] split: option.split prod.split)

section \<open>The queue\<close>

lemma calm_relink_queued: "relink_queued env now txn i pid st = Some st' \<Longrightarrow> calm now st st'"
proof -
  assume r: "relink_queued env now txn i pid st = Some st'"
  have q: "calm now s st'" if "replace_queued pid e t = Some st'" "calm now s t" for e s t
    using that by (auto simp: replace_queued_def Let_def intro!: calm_rules split: option.splits)
  show ?thesis
  proof (cases "getEvent pid (ev_db st)")
    case None
    then show ?thesis using r by (simp add: relink_queued_def)
  next
    case (Some e)
    show ?thesis
    proof (cases "sv_encrypted env e")
      case None
      then show ?thesis using r Some q by (auto simp: relink_queued_def split: option.splits)
    next
      case (Some enc)
      obtain s d where d: "decrypt_event env now (te_id e) e enc st = (s, d)"
        by (cases "decrypt_event env now (te_id e) e enc st")
      then have "calm now st s" using calm_decrypt by (metis fst_conv)
      then show ?thesis
        using r Some \<open>getEvent pid (ev_db st) = Some e\<close> d q
        by (auto simp: relink_queued_def intro: calm_update split: option.splits prod.splits)
    qed
  qed
qed

lemma calm_relink_all: "fold_opt (relink_queued env now txn i) pids st = Some st' \<Longrightarrow> calm now st st'"
proof (induction pids arbitrary: st)
  case (Cons p ps)
  then obtain st1 where "relink_queued env now txn i p st = Some st1"
    "fold_opt (relink_queued env now txn i) ps st1 = Some st'" by (auto simp: bind_eq_Some_conv)
  then show ?case using calm_relink_queued Cons.IH calm_trans by blast
qed simp

lemma first_pending_again:
  assumes "first_pending ps db = (db', r)" and "ps = sorted_list_of_fmap (tl_pending db)"
  shows "firstPendingMessage db' = (db', r)"
  using assms
proof (induction ps db rule: first_pending.induct)
  case (1 db)
  then show ?case by (simp add: firstPendingMessage_def)
next
  case (2 t txn ps db)
  show ?case
  proof (cases "fmlookup (tl_events db) txn")
    case None
    have "distinct (map fst ((t, txn) # ps))" unfolding 2(3) by (rule distinct_sorted_list_of_fmap)
    then have "filter (\<lambda>p. fst p \<noteq> t) ((t, txn) # ps) = ps" by (auto simp: filter_id_conv)
    moreover have "sorted_list_of_fmap (fmdrop t (tl_pending db)) = filter (\<lambda>p. fst p \<noteq> t) ((t, txn) # ps)"
      unfolding 2(3) by (simp add: fmfilter_alt_defs(1) sorted_list_of_fmap_filter comp_def)
    ultimately have "sorted_list_of_fmap (fmdrop t (tl_pending db)) = ps" by (simp only:)
    then have ps: "ps = sorted_list_of_fmap (tl_pending (db\<lparr>tl_pending := fmdrop t (tl_pending db)\<rparr>))"
      by simp
    have "first_pending ps (db\<lparr>tl_pending := fmdrop t (tl_pending db)\<rparr>) = (db', r)" using 2(2) None by simp
    from 2(1) [OF None this ps] show ?thesis .
  next
    case (Some e)
    have "firstPendingMessage db = first_pending ((t, txn) # ps) db"
      by (simp only: firstPendingMessage_def 2(3))
    then show ?thesis using 2(2) Some by simp
  qed
qed

text \<open>A step of the queue sends at most the message that is first.\<close>

definition sends_first ::
    "('i, 'g, 'o, 'a, 'c) store_env \<Rightarrow> ('a, 'c) event_store \<Rightarrow> ('a, 'c) event_store \<Rightarrow> bool" where
  "sends_first env st st' \<longleftrightarrow>
     (\<exists>es e. ev_log st' = ev_log st @ es @ [SendRoomMessage (te_id e) e] \<and> sent_txns st' = sent_txns st @ [te_id e]
       \<and> ev_current_txn st' = te_id e \<and> valid_txn_id (te_id e) \<and> sv_supported env e
       \<and> firstPendingMessage (ev_db st') = (ev_db st', Some e))"

lemma processPending_sends:
  "sent_txns (processPending env st) = sent_txns st
    \<and> (ev_current_txn st \<noteq> [] \<longrightarrow> ev_current_txn (processPending env st) = ev_current_txn st)
   \<or> ev_current_txn st = [] \<and> sends_first env st (processPending env st)"
proof (cases "ev_current_txn st = []")
  case True
  obtain db r where f: "firstPendingMessage (ev_db st) = (db, r)" by (cases "firstPendingMessage (ev_db st)")
  then have "firstPendingMessage db = (db, r)" using first_pending_again by (metis firstPendingMessage_def)
  then show ?thesis
    using True f by (cases r) (auto simp: processPending_def Let_def sends_first_def, simp add: signal_def)
qed (simp add: processPending_def)

lemma paced_processPending: "paced now m st (processPending env st)"
proof -
  obtain db r where f: "firstPendingMessage (ev_db st) = (db, r)" by (cases "firstPendingMessage (ev_db st)")
  show ?thesis
    by (cases r) (auto simp: processPending_def Let_def f paced_frame intro!: paced_signal)
qed

lemma sends_first_after:
  assumes "calm now st st1" and "sends_first env st1 st'"
  shows "sends_first env st st'"
proof -
  obtain es where "ev_log st1 = ev_log st @ es" "sent_txns st1 = sent_txns st"
    using assms(1) by (auto simp: calm_def paced_def)
  then show ?thesis
    using assms(2) unfolding sends_first_def by (metis append_assoc)
qed

section \<open>Steps\<close>

fun ev_time :: "ev_op \<Rightarrow> int option" where
  "ev_time (EvSync now _) = Some now"
| "ev_time (EvAddPending now _ _) = Some now"
| "ev_time (EvMessageSent now _ _) = Some now"
| "ev_time (EvSentReply now _ _) = Some now"
| "ev_time (EvRequest now _ _) = Some now"
| "ev_time (EvGet now _ _ _) = Some now"
| "ev_time (EvGetAt now _ _) = Some now"
| "ev_time (EvEdits now _) = Some now"
| "ev_time (EvReactions now _) = Some now"
| "ev_time (EvDecryptionError now _) = Some now"
| "ev_time _ = None"

fun ev_manual :: "ev_op \<Rightarrow> bool" where
  "ev_manual (EvRequest _ manual _) = manual"
| "ev_manual _ = False"

fun ev_frees :: "ev_op \<Rightarrow> bool" where
  "ev_frees EvRetry = True"
| "ev_frees (EvMessageSent _ _ _) = True"
| "ev_frees _ = False"

lemma calm_messageFailed: "calm now st (messageFailed txn st)"
  by (auto simp: messageFailed_def Let_def intro!: calm_rules)

lemma messageSent_parts:
  fixes st :: "('a, 'b) event_store"
  assumes "messageSent env now txn i st = Some st'"
  shows "\<exists>st1. calm now st st1 \<and> st' = processPending env (st1\<lparr>ev_current_txn := []\<rparr>)"
proof -
  obtain s where s: "fold_opt (relink_queued env now txn i) (pendingEvents (ev_db st)) st = Some s"
    using assms by (auto simp: messageSent_def)
  define s1 where "s1 = (case idToIndex i (signal (ReadEvent i) s) of None \<Rightarrow> signal (ReadEvent i) s
    | Some x \<Rightarrow> signal (DataChanged x x) (signal (ReadEvent i) s))"
  define st1 where "st1 = s1\<lparr>ev_db := removePendingStatus txn (ev_db s1), ev_error_count := 0\<rparr>"
  have "calm now st st1"
    using calm_relink_all [OF s] unfolding st1_def s1_def
    by (auto intro!: calm_rules split: option.split)
  have comm: "x\<lparr>ev_error_count := 0, ev_current_txn := []\<rparr> = x\<lparr>ev_current_txn := [], ev_error_count := 0\<rparr>"
    for x :: "('a, 'b) event_store" by simp
  have "st' = processPending env (st1\<lparr>ev_current_txn := []\<rparr>)"
    using assms s by (simp add: messageSent_def st1_def s1_def Let_def comm cong: option.case_cong)
  with \<open>calm now st st1\<close> show ?thesis by blast
qed

lemma ev_step_quiet:
  assumes "\<not> ev_frees op" and "\<And>now ms e. op \<noteq> EvAddPending now ms e" and "op \<noteq> EvProcessPending"
    and "\<not> ev_manual op" and "\<And>t. ev_time op = Some t \<Longrightarrow> t = now"
  shows "calm now st (ev_step env st op)"
  using assms
  by (cases op)
     (auto simp: messages_failed_def enableKeyRequests_def calm_handleSync calm_messageFailed calm_sent_reply
       calm_fetchMore calm_oldMessages calm_clear calm_event_fetched calm_receivedSessionKey calm_request
       calm_get_event calm_get_at calm_edits calm_reactions calm_decryptionError
       intro!: calm_rules split: option.split)

lemma paced_txn [simp]: "paced now m s (t\<lparr>ev_current_txn := x\<rparr>) = paced now m s t"
  by (simp add: paced_def last_request_def)

lemma ev_step_paced:
  assumes "\<And>t. ev_time op = Some t \<Longrightarrow> t = now"
  shows "paced now (ev_manual op) st (ev_step env st op)"
proof (cases "ev_frees op \<or> op = EvProcessPending \<or> ev_manual op \<or> (\<exists>now ms e. op = EvAddPending now ms e)")
  case False
  then show ?thesis using ev_step_quiet [of op now st env] assms by (auto simp: calm_def)
next
  case True
  then consider "op = EvRetry" | t txn i where "op = EvMessageSent t txn i" | "op = EvProcessPending"
    | t e where "op = EvRequest t True e" | t ms e where "op = EvAddPending t ms e"
    by (cases op) auto
  then show ?thesis
  proof cases
    case 1
    then show ?thesis
      using paced_trans [OF _ paced_processPending, of now False st "st\<lparr>ev_current_txn := []\<rparr>"] paced_frame [of st st]
      by (simp add: retry_timeout_def)
  next
    case (2 t txn i)
    then show ?thesis
    proof (cases "messageSent env t txn i st")
      case None
      then show ?thesis using 2 by (simp add: paced_frame)
    next
      case (Some st')
      from messageSent_parts [OF this] obtain st1 where st1: "calm t st st1"
        "st' = processPending env (st1\<lparr>ev_current_txn := []\<rparr>)" by blast
      then have "paced t False st (st1\<lparr>ev_current_txn := []\<rparr>)" by (simp add: calm_def)
      from paced_trans [OF this paced_processPending] show ?thesis using 2 Some st1 assms by simp
    qed
  next
    case 3
    then show ?thesis by (simp add: paced_processPending)
  next
    case (4 t e)
    then show ?thesis using assms paced_request [of now True st env e] by simp
  next
    case (5 t ms e)
    then show ?thesis
    proof (cases "savePendingMessage (sv_hidden env) ms e (ev_db st)")
      case None
      then show ?thesis using 5 by (simp add: addPending_def paced_frame)
    next
      case (Some db)
      have "calm t st (handleSync env t \<lparr>tc_events = [e], tc_limited = False, tc_prev_batch = []\<rparr> (st\<lparr>ev_db := db\<rparr>))"
        by (intro calm_handleSync calm_intros)
      then have "paced t False st (handleSync env t \<lparr>tc_events = [e], tc_limited = False, tc_prev_batch = []\<rparr> (st\<lparr>ev_db := db\<rparr>))"
        by (simp add: calm_def)
      from paced_trans [OF this paced_processPending] show ?thesis
        using 5 assms Some by (simp add: addPending_def)
    qed
  qed
qed

definition new_effects :: "('a, 'c) event_store \<Rightarrow> ('a, 'c) event_store \<Rightarrow> ev_effect list" where
  "new_effects st st' = drop (length (ev_log st)) (ev_log st')"

definition asks_at ::
    "('i, 'g, 'o, 'a, 'c) store_env \<Rightarrow> string \<Rightarrow> ('a, 'c) event_store \<Rightarrow> ev_op \<Rightarrow> int \<Rightarrow> bool" where
  "asks_at env s st op now \<longleftrightarrow> ev_time op = Some now \<and> LookupKey s \<in> set (new_effects st (ev_step env st op))"

lemma last_request_step:
  assumes "last_request s st = Some t"
  shows "\<exists>t'. last_request s (ev_step env st op) = Some t' \<and> t \<le> t'"
proof -
  have "\<exists>now. \<forall>t. ev_time op = Some t \<longrightarrow> t = now" by (cases "ev_time op") auto
  then obtain now where "paced now (ev_manual op) st (ev_step env st op)" using ev_step_paced by blast
  then show ?thesis using assms unfolding paced_def request_delay_def by (smt (verit) option.inject)
qed

lemma last_request_run:
  "last_request s st = Some t \<Longrightarrow> \<exists>t'. last_request s (run (ev_step env) st ops) = Some t' \<and> t \<le> t'"
proof (induction ops arbitrary: st t)
  case (Cons op ops)
  from last_request_step [OF Cons.prems] obtain u where "last_request s (ev_step env st op) = Some u" "t \<le> u" by blast
  with Cons.IH [OF this(1)] show ?case by fastforce
qed simp

lemma asks_noted:
  assumes "asks_at env s st op now"
  shows "last_request s (ev_step env st op) = Some now"
    and "last_request s st = Some t \<Longrightarrow> t + request_delay (ev_manual op) < now"
proof -
  have "paced now (ev_manual op) st (ev_step env st op)"
    by (rule ev_step_paced) (use assms in \<open>simp add: asks_at_def\<close>)
  then show "last_request s (ev_step env st op) = Some now"
    "last_request s st = Some t \<Longrightarrow> t + request_delay (ev_manual op) < now"
    using assms by (auto simp: paced_def asks_at_def new_effects_def)
qed

section \<open>Properties\<close>

text \<open>whatever happens in a room, the keys of a session are asked for at most every ten minutes, and a
  request the user makes comes more than a minute after the last one.\<close>

theorem key_requests_are_paced:
  assumes "asks_at env s st op now"
    and "asks_at env s (run (ev_step env) (ev_step env st op) ops) op' now'"
  shows "now + (if ev_manual op' then 60 else 600) < now'"
proof -
  from last_request_run [OF asks_noted(1) [OF assms(1)]] obtain t where
    "last_request s (run (ev_step env) (ev_step env st op) ops) = Some t" "now \<le> t" by blast
  with asks_noted(2) [OF assms(2) this(1)] show ?thesis by (simp add: request_delay_def split: if_splits)
qed

lemma key_requests_are_paced_witness:
  "\<exists>st. asks_at demo_store_env ''s'' st (EvRequest 100 True (demo_event ''$e'' ''s'' [])) 100
   \<and> asks_at demo_store_env ''s'' (run (ev_step demo_store_env)
        (ev_step demo_store_env st (EvRequest 100 True (demo_event ''$e'' ''s'' [])))
        [EvRequest 500 False (demo_event ''$e'' ''s'' [])]) (EvRequest 170 True (demo_event ''$f'' ''s'' [])) 170
   \<and> (100::int) + (if ev_manual (EvRequest 170 True (demo_event ''$f'' ''s'' [])) then 60 else 600) < 170"
proof -
  have a: "asks_at demo_store_env ''s'' (demo_queue\<lparr>ev_suppress := False\<rparr>)
      (EvRequest 100 True (demo_event ''$e'' ''s'' [])) 100"
    unfolding asks_at_def by code_simp
  have b: "asks_at demo_store_env ''s'' (run (ev_step demo_store_env)
        (ev_step demo_store_env (demo_queue\<lparr>ev_suppress := False\<rparr>) (EvRequest 100 True (demo_event ''$e'' ''s'' [])))
        [EvRequest 500 False (demo_event ''$e'' ''s'' [])]) (EvRequest 170 True (demo_event ''$f'' ''s'' [])) 170"
    unfolding asks_at_def by code_simp
  from a b key_requests_are_paced [OF a b] show ?thesis by blast
qed

lemma messageSent_txn:
  assumes "calm now st st1" and "st' = processPending env (st1\<lparr>ev_current_txn := []\<rparr>)"
  shows "sent_txns st' = sent_txns st \<or> sends_first env st st'"
  using assms processPending_sends [of env "st1\<lparr>ev_current_txn := []\<rparr>"]
    sends_first_after [of now st st1 env st'] by (auto simp: calm_def sends_first_def)


section \<open>Edits\<close>

definition stored_event :: "('a, 'c) event_store \<Rightarrow> string \<Rightarrow> tl_event \<Rightarrow> bool" where
  "stored_event st i e \<longleftrightarrow> fmlookup (ev_by_id st) i = Some e \<or> getEvent i (ev_db st) = Some e"

lemma get_by_id_False:
  assumes "get_by_id env now i r False st = (st', x)"
  shows "ev_db st' = ev_db st" and "stored_event st' j e \<Longrightarrow> stored_event st j e"
    and "x = Some e \<Longrightarrow> stored_event st i e"
  using assms by (auto simp: get_by_id_def shown_def stored_event_def signal_def split: if_splits option.splits)

lemma collect_edits_from:
  assumes "collect_edits env now i orig ids st = (st', es)" and "e \<in> set es"
  shows "\<exists>j\<in>set ids. \<exists>e0. stored_event st j e0 \<and> as_edit env i orig e0 = Some e"
  using assms
proof (induction ids arbitrary: st es)
  case (Cons x ids)
  obtain st1 r where g: "get_by_id env now x i False st = (st1, r)" by (cases "get_by_id env now x i False st")
  obtain es1 where c: "collect_edits env now i orig ids st1 = (st', es1)" "es = (case r \<bind> as_edit env i orig of None \<Rightarrow> es1 | Some y \<Rightarrow> y # es1)"
    using Cons.prems(1) g by (auto split: prod.splits)
  show ?case
  proof (cases "e \<in> set es1")
    case True
    from Cons.IH [OF c(1) this] get_by_id_False(2) [OF g] show ?thesis by auto
  next
    case False
    then obtain e0 where "r = Some e0" "as_edit env i orig e0 = Some e"
      using Cons.prems(2) c(2) by (auto split: option.splits bind_splits)
    with get_by_id_False(3) [OF g] show ?thesis by auto
  qed
qed simp

text \<open>the edits of an event are replacements of it by its own sender, in the order they arrived;
  an event that is redacted or not known has none.\<close>

theorem edits_are_by_the_sender:
  assumes "edits env now i st = (st', es)" and "e \<in> set es"
  shows "\<exists>orig j e0. stored_event st i orig \<and> te_redacted_by orig = None \<and> j \<in> set (relatedEvents i (ev_db st))
    \<and> stored_event st j e0 \<and> replaces env e0 = Some i \<and> sv_sender env e0 = sv_sender env orig
    \<and> as_edit env i orig e0 = Some e \<and> getArrivalIndex (te_id e) (ev_db st') \<le> getArrivalIndex (te_id (last es)) (ev_db st')"
proof -
  obtain st1 x where g: "get_by_id env now i [] False st = (st1, x)" by (cases "get_by_id env now i [] False st")
  obtain orig where o: "x = Some orig" "te_redacted_by orig = None"
    using assms g by (auto simp: edits_def Let_def split: option.splits if_splits)
  obtain fs where c: "collect_edits env now i orig (relatedEvents i (ev_db st)) st1 = (st', fs)"
    "es = sort_key (\<lambda>e. getArrivalIndex (te_id e) (ev_db st')) fs"
    using assms(1) g o by (auto simp: edits_def Let_def split: prod.splits)
  have "e \<in> set fs" using assms(2) c(2) by simp
  from collect_edits_from [OF c(1) this] obtain j e0 where j: "j \<in> set (relatedEvents i (ev_db st))"
    "stored_event st1 j e0" "as_edit env i orig e0 = Some e" by blast
  have "sorted (map (\<lambda>e. getArrivalIndex (te_id e) (ev_db st')) es)" using c(2) by simp
  then have "getArrivalIndex (te_id e) (ev_db st') \<le> getArrivalIndex (te_id (last es)) (ev_db st')"
    using assms(2) by (cases es rule: rev_cases) (auto simp: sorted_append)
  moreover have "replaces env e0 = Some i" "sv_sender env e0 = sv_sender env orig"
    using j(3) by (auto simp: as_edit_def split: if_splits)
  moreover have "stored_event st j e0" "stored_event st i orig"
    using get_by_id_False [OF g] j(2) o by auto
  ultimately show ?thesis using j o by blast
qed

lemma edits_are_by_the_sender_witness:
  "\<exists>orig j e0. stored_event demo_queue ''m1'' orig \<and> stored_event demo_queue j e0
    \<and> sv_sender demo_store_env e0 = sv_sender demo_store_env orig"
proof -
  let ?e = "demo_event ''m2'' ''A'' [''m1'']"
  obtain st' es where e: "edits demo_store_env 0 ''m1'' demo_queue = (st', es)"
    by (cases "edits demo_store_env 0 ''m1'' demo_queue")
  have "snd (edits demo_store_env 0 ''m1'' demo_queue) = [?e]" by code_simp
  with e have "?e \<in> set es" by simp
  from edits_are_by_the_sender [OF e this] show ?thesis by blast
qed

end
