(* ===== verification/Call_Session.thy ===== *)
theory Call_Session
  imports Prelude "HOL-Library.Sublist"
begin

text \<open>
  \<open>WebRTCSession\<close> (\<open>src/src/voip/WebRTCSession.cpp\<close>): the media session of a call. GStreamer is not
  modelled: whether it can build and start the pipeline and what it parses a session description to are
  fields of \<open>gst_env\<close>, and its callbacks are operations of the call manager. What the code itself does
  with a session description and with its own state is here. A session that is ended or changes its
  state signals the call manager, which acts before the session goes on; so those functions are in
  \<open>Call_Manager\<close>.
\<close>

section \<open>Session descriptions\<close>

text \<open>\<open>tolower\<close> of the C locale.\<close>

definition lower :: "char \<Rightarrow> char" where
  "lower c = (if CHR ''A'' \<le> c \<and> c \<le> CHR ''Z'' then char_of (of_char c + 32 :: nat) else c)"

fun prefix_ci :: "string \<Rightarrow> string \<Rightarrow> bool" where
  "prefix_ci [] hay = True"
| "prefix_ci (n # ns) [] = False"
| "prefix_ci (n # ns) (c # cs) = (lower n = lower c \<and> prefix_ci ns cs)"

text \<open>\<open>std::search\<close> has found something if it does not return the end.\<close>

fun contains_ci :: "string \<Rightarrow> string \<Rightarrow> bool" where
  "contains_ci [] needle = False"
| "contains_ci (c # cs) needle = (prefix_ci needle (c # cs) \<or> contains_ci cs needle)"

definition is_digit :: "char \<Rightarrow> bool" where
  "is_digit c = (CHR ''0'' \<le> c \<and> c \<le> CHR ''9'')"

definition digit_value :: "char \<Rightarrow> nat" where
  "digit_value c = of_char c - 48"

fun read_digits :: "nat \<Rightarrow> string \<Rightarrow> nat" where
  "read_digits n [] = n"
| "read_digits n (c # cs) = (if is_digit c then read_digits (10 * n + digit_value c) cs else n)"

definition is_space :: "char \<Rightarrow> bool" where
  "is_space c = (c = CHR '' '' \<or> (of_char c :: nat) \<in> {9..13})"

text \<open>\<open>std::atoi\<close>, whose result is undefined where an \<open>int\<close> is too small.\<close>

definition atoi :: "string \<Rightarrow> int" where
  "atoi s =
     (case dropWhile is_space s of
        [] \<Rightarrow> 0
      | c # cs \<Rightarrow>
          if c = CHR ''-'' then - int (read_digits 0 cs)
          else if c = CHR ''+'' then int (read_digits 0 cs)
          else int (read_digits 0 (c # cs)))"

record sdp_media =
  sm_media :: string
  sm_attributes :: "(string \<times> string) list"

definition attribute_values :: "string \<Rightarrow> sdp_media \<Rightarrow> string list" where
  "attribute_values k m = map snd (filter (\<lambda>a. fst a = k) (sm_attributes m))"

text \<open>The payload type of the first encoding that matches; -1 if there is none.\<close>

fun payload_type :: "string \<Rightarrow> string list \<Rightarrow> int" where
  "payload_type encoding [] = -1"
| "payload_type encoding (v # vs) = (if contains_ci v encoding then atoi v else payload_type encoding vs)"

record media_attributes =
  ma_payload_type :: int
  ma_recv_only :: bool
  ma_send_only :: bool

text \<open>The result says whether the description has the medium; the attributes are reset first.\<close>

fun getMediaAttributes :: "string \<Rightarrow> string \<Rightarrow> sdp_media list \<Rightarrow> bool \<times> media_attributes" where
  "getMediaAttributes medium encoding [] =
     (False, \<lparr>ma_payload_type = -1, ma_recv_only = False, ma_send_only = False\<rparr>)"
| "getMediaAttributes medium encoding (m # ms) =
     (if sm_media m = medium then
        (True, \<lparr>ma_payload_type = payload_type encoding (attribute_values ''rtpmap'' m),
                ma_recv_only = attribute_values ''recvonly'' m \<noteq> [],
                ma_send_only = attribute_values ''sendonly'' m \<noteq> []\<rparr>)
      else getMediaAttributes medium encoding ms)"

section \<open>State\<close>

datatype call_type = Voice | Video

datatype web_state =
    Disconnected | IceFailed | Initiating | Initiated | OfferSent | AnswerSent | Connecting | Connected

fun state_number :: "web_state \<Rightarrow> nat" where
  "state_number Disconnected = 0"
| "state_number IceFailed = 1"
| "state_number Initiating = 2"
| "state_number Initiated = 3"
| "state_number OfferSent = 4"
| "state_number AnswerSent = 5"
| "state_number Connecting = 6"
| "state_number Connected = 7"

lemma state_number_inject [simp]: "state_number a = state_number b \<longleftrightarrow> a = b"
  by (cases a; cases b) simp_all

instantiation web_state :: linorder
begin

definition less_eq_web_state :: "web_state \<Rightarrow> web_state \<Rightarrow> bool" where
  "less_eq_web_state a b \<longleftrightarrow> state_number a \<le> state_number b"

definition less_web_state :: "web_state \<Rightarrow> web_state \<Rightarrow> bool" where
  "less_web_state a b \<longleftrightarrow> state_number a < state_number b"

instance
  by standard (auto simp: less_eq_web_state_def less_web_state_def)

end

record candidate =
  ca_mid :: string
  ca_mline :: "16 word"
  ca_candidate :: string

text \<open>Signals that GStreamer's threads emit wait in \<open>ws_signals\<close> until the main thread handles them.\<close>

datatype call_signal =
    SigOffer string "candidate list"
  | SigAnswer string "candidate list"
  | SigState web_state

record web_session =
  ws_state :: web_state
  ws_type :: call_type
  ws_offering :: bool
  ws_recv_only :: bool
  ws_send_only :: bool
  ws_video_item :: bool
  ws_pipe :: bool
  ws_muted :: bool
  ws_have_video :: bool
  ws_local_sdp :: string
  ws_local_candidates :: "candidate list"
  ws_turn_servers :: "string list"
  ws_signals :: "call_signal list"

definition new_session :: web_session where
  "new_session =
     \<lparr>ws_state = Disconnected, ws_type = Voice, ws_offering = False, ws_recv_only = False,
      ws_send_only = False, ws_video_item = False, ws_pipe = False, ws_muted = False,
      ws_have_video = False, ws_local_sdp = [], ws_local_candidates = [], ws_turn_servers = [],
      ws_signals = []\<rparr>"

definition clear_session :: "web_session \<Rightarrow> web_session" where
  "clear_session s =
     s\<lparr>ws_type := Voice, ws_offering := False, ws_recv_only := False, ws_send_only := False,
       ws_video_item := False, ws_pipe := False, ws_have_video := False, ws_local_sdp := [],
       ws_local_candidates := []\<rparr>"

text \<open>What GStreamer answers: are the plugins there, is there an audio source, do the elements link,
  can the pipeline play.\<close>

record gst_env =
  gs_plugins :: "bool \<Rightarrow> bool"
  gs_have_camera :: bool
  gs_have_mic :: bool
  gs_audio_source :: bool
  gs_audio_links :: bool
  gs_video_links :: bool
  gs_webrtcbin :: bool
  gs_plays :: bool
  gs_parse_sdp :: "string \<Rightarrow> sdp_media list option"

definition addVideoPipeline :: "gst_env \<Rightarrow> web_session \<Rightarrow> bool" where
  "addVideoPipeline g s =
     (if ws_type s = Video \<and> \<not> gs_have_camera g then \<not> ws_offering s else gs_video_links g)"

definition createPipeline :: "gst_env \<Rightarrow> web_session \<Rightarrow> web_session \<times> bool" where
  "createPipeline g s =
     (if \<not> gs_audio_source g then (s, False)
      else
        let s = s\<lparr>ws_pipe := True, ws_muted := False\<rparr>
        in (s, gs_audio_links g \<and> (ws_type s = Voice \<or> ws_send_only s \<or> addVideoPipeline g s)))"

definition isMicMuted :: "web_session \<Rightarrow> bool" where
  "isMicMuted s = (ws_state s \<ge> Initiated \<and> ws_muted s)"

definition session_toggleMicMute :: "web_session \<Rightarrow> web_session" where
  "session_toggleMicMute s = (if ws_state s < Initiated then s else s\<lparr>ws_muted := \<not> ws_muted s\<rparr>)"

section \<open>Callbacks of GStreamer\<close>

definition set_local_description :: "string \<Rightarrow> web_session \<Rightarrow> web_session" where
  "set_local_description sdp s = s\<lparr>ws_local_sdp := sdp\<rparr>"

definition addLocalICECandidate :: "16 word \<Rightarrow> string \<Rightarrow> web_session \<Rightarrow> web_session" where
  "addLocalICECandidate mline c s =
     s\<lparr>ws_local_candidates := ws_local_candidates s @ [\<lparr>ca_mid = [], ca_mline = mline, ca_candidate = c\<rparr>]\<rparr>"

definition ice_gathering_complete :: "web_session \<Rightarrow> web_session" where
  "ice_gathering_complete s =
     s\<lparr>ws_signals := ws_signals s @
        (if ws_offering s then [SigOffer (ws_local_sdp s) (ws_local_candidates s), SigState OfferSent]
         else [SigAnswer (ws_local_sdp s) (ws_local_candidates s), SigState AnswerSent])\<rparr>"

datatype ice_connection =
  IceNew | IceChecking | IceConnected | IceCompleted | IceConnectionFailed | IceDisconnected | IceClosed

definition iceConnectionStateChanged :: "ice_connection \<Rightarrow> web_session \<Rightarrow> web_session" where
  "iceConnectionStateChanged i s =
     (case i of
        IceChecking \<Rightarrow> s\<lparr>ws_signals := ws_signals s @ [SigState Connecting]\<rparr>
      | IceConnectionFailed \<Rightarrow> s\<lparr>ws_signals := ws_signals s @ [SigState IceFailed]\<rparr>
      | _ \<Rightarrow> s)"

text \<open>A new pad with decoded media; whether it links is told by GStreamer.\<close>

definition linkNewPad :: "string \<Rightarrow> bool \<Rightarrow> web_session \<Rightarrow> web_session" where
  "linkNewPad medium links s =
     (if medium = ''audio'' \<or> medium = ''video'' \<and> ws_video_item s then
        let s = (if medium = ''video'' then s\<lparr>ws_have_video := True\<rparr> else s)
        in if links \<and> (ws_type s = Voice \<or> ws_have_video s \<or> ws_recv_only s)
           then s\<lparr>ws_signals := ws_signals s @ [SigState Connected]\<rparr> else s
      else s)"

section \<open>Properties\<close>

lemma prefix_ci_iff: "prefix_ci n h \<longleftrightarrow> prefix (map lower n) (map lower h)"
  by (induction n h rule: prefix_ci.induct) auto

text \<open>The search is the one for a contiguous part, upper and lower case taken as equal.\<close>

theorem contains_is_sublist:
  "contains_ci hay needle = (hay \<noteq> [] \<and> sublist (map lower needle) (map lower hay))"
  by (induction hay) (auto simp: prefix_ci_iff sublist_Cons_right)

end
