(* ===== verification/Call_Manager.thy ===== *)
theory Call_Manager
  imports Call_Session
begin

text \<open>
  \<open>CallManager\<close> (\<open>src/src/voip/CallManager.cpp\<close>) on top of the media session: invites, answers,
  candidates and hang-ups that come with a sync, what the user does, the signals of the session, the
  timers, and the TURN servers. Every operation comes with the environment it meets (devices, room
  members, what GStreamer answers), which may change from one operation to the next.
\<close>

section \<open>State\<close>

datatype hangup_reason =
    ReasonIceFailed | ReasonInviteTimeOut | ReasonIceTimeOut | ReasonUserHangUp | ReasonUserMediaFailed
  | ReasonUserBusy | ReasonUnknownError | ReasonUser

datatype call_message =
    CallInvite string string
  | CallCandidates string "candidate list"
  | CallAnswer string string
  | CallHangUp string hangup_reason

datatype call_effect =
    NewMessage string call_message
  | ShowNotification string
  | NewInviteState
  | NewCallState
  | MicMuteChanged
  | InviteTimer string
  | StartPipeline int int
  | AddTurnServer string
  | AddIceCandidate "16 word" string
  | SetRemoteDescription string
  | GetTurnServer

record call_manager =
  cm_session :: web_session
  cm_room :: string
  cm_party :: string
  cm_party_name :: string
  cm_party_avatar :: string
  cm_call_id :: string
  cm_type :: call_type
  cm_have_invite :: bool
  cm_invite_sdp :: string
  cm_remote_candidates :: "candidate list"
  cm_turn_uris :: "string list"
  cm_turn_interval :: "int option"
  cm_log :: "call_effect list"

definition new_call_manager :: call_manager where
  "new_call_manager =
     \<lparr>cm_session = new_session, cm_room = [], cm_party = [], cm_party_name = [], cm_party_avatar = [],
      cm_call_id = [], cm_type = Voice, cm_have_invite = False, cm_invite_sdp = [],
      cm_remote_candidates = [], cm_turn_uris = [], cm_turn_interval = None, cm_log = []\<rparr>"

record room_member =
  rm_user_id :: string
  rm_display_name :: string

record call_env =
  ca_gst :: gst_env
  ca_local_user :: string
  ca_member_count :: "string \<Rightarrow> int"
  ca_members :: "string \<Rightarrow> room_member list"
  ca_avatar_url :: "string \<Rightarrow> string"
  ca_plugin_error :: string
  ca_clock_ms :: nat
  ca_number :: "nat \<Rightarrow> string"
  ca_percent_encode :: "string \<Rightarrow> string"

definition signal_call :: "call_effect \<Rightarrow> call_manager \<Rightarrow> call_manager" where
  "signal_call e st = st\<lparr>cm_log := cm_log st @ [e]\<rparr>"

definition map_session :: "(web_session \<Rightarrow> web_session) \<Rightarrow> call_manager \<Rightarrow> call_manager" where
  "map_session f st = st\<lparr>cm_session := f (cm_session st)\<rparr>"

definition call_state :: "call_manager \<Rightarrow> web_state" where
  "call_state st = ws_state (cm_session st)"

definition isOnCall :: "call_manager \<Rightarrow> bool" where
  "isOnCall st = (call_state st \<noteq> Disconnected)"

section \<open>The end of a call\<close>

definition clear_call :: "call_manager \<Rightarrow> call_manager" where
  "clear_call st =
     (signal_call NewInviteState
       (st\<lparr>cm_room := [], cm_party := [], cm_party_name := [], cm_party_avatar := [], cm_call_id := [],
           cm_type := Voice, cm_have_invite := False\<rparr>))
       \<lparr>cm_invite_sdp := [], cm_remote_candidates := []\<rparr>"

definition set_state :: "web_state \<Rightarrow> call_manager \<Rightarrow> call_manager" where
  "set_state s st = map_session (\<lambda>w. w\<lparr>ws_state := s\<rparr>) st"

text \<open>The signal that the session is disconnected, and the end of the session, which emits it.\<close>

definition disconnected :: "call_manager \<Rightarrow> call_manager" where
  "disconnected st = signal_call NewCallState (clear_call (set_state Disconnected st))"

definition session_end :: "call_manager \<Rightarrow> call_manager" where
  "session_end st =
     (let st = map_session clear_session st in if call_state st \<noteq> Disconnected then disconnected st else st)"

definition endCall :: "call_manager \<Rightarrow> call_manager" where
  "endCall st = clear_call (session_end st)"

definition hangUp :: "hangup_reason \<Rightarrow> call_manager \<Rightarrow> call_manager" where
  "hangUp reason st =
     (if cm_call_id st \<noteq> []
      then endCall (signal_call (NewMessage (cm_room st) (CallHangUp (cm_call_id st) reason)) st) else st)"

definition ice_failed_text :: "string list \<Rightarrow> string" where
  "ice_failed_text uris =
     ''Call connection failed.'' @ (if uris = [] then '' Your homeserver has no configured TURN server.'' else [])"

definition state_changed :: "web_state \<Rightarrow> call_manager \<Rightarrow> call_manager" where
  "state_changed s st =
     (case s of
        Disconnected \<Rightarrow> disconnected st
      | IceFailed \<Rightarrow>
          signal_call NewCallState
            (hangUp ReasonIceFailed
              (signal_call (ShowNotification (ice_failed_text (cm_turn_uris st))) (set_state IceFailed st)))
      | _ \<Rightarrow> signal_call NewCallState (set_state s st))"

section \<open>The session\<close>

definition startPipeline :: "gst_env \<Rightarrow> int \<Rightarrow> int \<Rightarrow> call_manager \<Rightarrow> call_manager \<times> bool" where
  "startPipeline g opus vp8 st =
     (if call_state st \<noteq> Disconnected then (st, False)
      else
        let st = signal_call (StartPipeline opus vp8) (state_changed Initiating st);
            (w, created) = createPipeline g (cm_session st);
            st = st\<lparr>cm_session := w\<rparr>
        in if \<not> created \<or> \<not> gs_webrtcbin g then (session_end st, False)
           else
             let st = fold (\<lambda>u. signal_call (AddTurnServer u)) (ws_turn_servers w) st
             in if \<not> gs_plays g then (session_end st, False) else (state_changed Initiated st, True))"

definition createOffer :: "gst_env \<Rightarrow> call_type \<Rightarrow> call_manager \<Rightarrow> call_manager \<times> bool" where
  "createOffer g t st =
     startPipeline g 111 96 (map_session (\<lambda>w. (clear_session w)\<lparr>ws_offering := True, ws_type := t\<rparr>) st)"

definition acceptOffer :: "gst_env \<Rightarrow> string \<Rightarrow> call_manager \<Rightarrow> call_manager \<times> bool" where
  "acceptOffer g sdp st =
     (if call_state st \<noteq> Disconnected then (st, False)
      else
        let st = map_session clear_session st
        in case gs_parse_sdp g sdp of
             None \<Rightarrow> (st, False)
           | Some medias \<Rightarrow>
               let (has_audio, audio) = getMediaAttributes ''audio'' ''opus'' medias
               in if \<not> has_audio \<or> ma_payload_type audio = -1 then (st, False)
                  else
                    let (has_video, video) = getMediaAttributes ''video'' ''vp8'' medias;
                        st = map_session (\<lambda>w. w\<lparr>ws_recv_only := ma_recv_only video,
                               ws_send_only := ma_send_only video\<rparr>) st
                    in if has_video \<and> ma_payload_type video = -1 then (st, False)
                       else
                         let st = map_session (\<lambda>w. w\<lparr>ws_type := (if has_video then Video else Voice)\<rparr>) st
                         in case startPipeline g (ma_payload_type audio) (ma_payload_type video) st of
                              (st, started) \<Rightarrow>
                                if started then (signal_call (SetRemoteDescription sdp) st, True) else (st, False))"

definition acceptAnswer :: "gst_env \<Rightarrow> string \<Rightarrow> call_manager \<Rightarrow> call_manager \<times> bool" where
  "acceptAnswer g sdp st =
     (if call_state st \<noteq> OfferSent then (st, False)
      else case gs_parse_sdp g sdp of
             None \<Rightarrow> (session_end st, False)
           | Some medias \<Rightarrow>
               let st =
                 (if ws_type (cm_session st) = Voice then st
                  else
                    let (has_video, video) = getMediaAttributes ''video'' ''vp8'' medias
                    in map_session (\<lambda>w. w\<lparr>ws_recv_only := \<not> has_video \<or> ma_recv_only video,
                         ws_send_only := ma_send_only video\<rparr>) st)
               in (signal_call (SetRemoteDescription sdp) st, True))"

definition acceptICECandidates :: "candidate list \<Rightarrow> call_manager \<Rightarrow> call_manager" where
  "acceptICECandidates cs st =
     (if call_state st \<ge> Initiated
      then fold (\<lambda>c st. if ca_candidate c \<noteq> [] then signal_call (AddIceCandidate (ca_mline c) (ca_candidate c)) st else st)
             cs st
      else st)"

section \<open>What the user does\<close>

text \<open>The other of the two members, and under which name it is shown.\<close>

definition other_member :: "call_env \<Rightarrow> string \<Rightarrow> room_member" where
  "other_member env room =
     (let ms = ca_members env room in if rm_user_id (hd ms) = ca_local_user env then last ms else hd ms)"

definition shown_name :: "room_member \<Rightarrow> string" where
  "shown_name m = (if rm_display_name m = [] then rm_user_id m else rm_display_name m)"

definition set_party :: "call_env \<Rightarrow> string \<Rightarrow> call_manager \<Rightarrow> call_manager" where
  "set_party env room st =
     (let m = other_member env room
      in st\<lparr>cm_party := rm_user_id m, cm_party_name := shown_name m, cm_party_avatar := ca_avatar_url env room\<rparr>)"

definition generateCallID :: "call_env \<Rightarrow> string" where
  "generateCallID env = CHR ''c'' # ca_number env (ca_clock_ms env)"

definition plugins_missing :: "call_env \<Rightarrow> call_type \<Rightarrow> bool" where
  "plugins_missing env t = (\<not> gs_plugins (ca_gst env) False \<or> t = Video \<and> \<not> gs_plugins (ca_gst env) True)"

definition sendInvite :: "call_env \<Rightarrow> string \<Rightarrow> call_type \<Rightarrow> call_manager \<Rightarrow> call_manager \<times> bool" where
  "sendInvite env room t st =
     (let notify = (\<lambda>s. (signal_call (ShowNotification s) st, False))
      in if isOnCall st then (st, False)
         else if ca_member_count env room \<noteq> 2 then notify ''Calls are limited to 1:1 rooms.''
         else if plugins_missing env t then notify (ca_plugin_error env)
         else if t = Video \<and> \<not> gs_have_camera (ca_gst env) then notify ''Camera not connected!''
         else if t = Voice \<and> \<not> gs_have_mic (ca_gst env) then notify ''Microphone not connected!''
         else
           let st = st\<lparr>cm_type := t, cm_room := room\<rparr>;
               st = map_session (\<lambda>w. w\<lparr>ws_turn_servers := cm_turn_uris st\<rparr>) st;
               st = signal_call NewInviteState (set_party env room (st\<lparr>cm_call_id := generateCallID env\<rparr>))
           in case createOffer (ca_gst env) t st of
                (st, True) \<Rightarrow> (st, True)
              | (st, False) \<Rightarrow> (endCall (signal_call (ShowNotification ''Problem setting up call.'') st), False))"

definition acceptInvite :: "call_env \<Rightarrow> call_manager \<Rightarrow> call_manager" where
  "acceptInvite env st =
     (if \<not> cm_have_invite st then st
      else if plugins_missing env (cm_type st)
      then hangUp ReasonUser (signal_call (ShowNotification (ca_plugin_error env)) st)
      else
        let st = map_session (\<lambda>w. w\<lparr>ws_turn_servers := cm_turn_uris st\<rparr>) st
        in case acceptOffer (ca_gst env) (cm_invite_sdp st) st of
             (st, False) \<Rightarrow> hangUp ReasonUser (signal_call (ShowNotification ''Problem setting up call.'') st)
           | (st, True) \<Rightarrow>
               signal_call NewInviteState
                 ((acceptICECandidates (cm_remote_candidates st) st)
                   \<lparr>cm_remote_candidates := [], cm_have_invite := False\<rparr>))"

definition toggleMicMute :: "call_manager \<Rightarrow> call_manager" where
  "toggleMicMute st = signal_call MicMuteChanged (map_session session_toggleMicMute st)"

section \<open>Events of a room\<close>

record call_event =
  ce_room :: string
  ce_sender :: string
  ce_message :: call_message

definition handle_invite :: "call_env \<Rightarrow> string \<Rightarrow> string \<Rightarrow> string \<Rightarrow> call_manager \<Rightarrow> call_manager" where
  "handle_invite env room call_id sdp st =
     (if call_id = [] then st
      else if isOnCall st \<or> ca_member_count env room \<noteq> 2
      then signal_call (NewMessage room (CallHangUp call_id ReasonInviteTimeOut)) st
      else
        signal_call NewInviteState
          ((set_party env room (st\<lparr>cm_room := room, cm_call_id := call_id, cm_remote_candidates := []\<rparr>))
            \<lparr>cm_have_invite := True, cm_type := (if contains_ci sdp ''m=video'' then Video else Voice),
             cm_invite_sdp := sdp\<rparr>))"

definition handle_candidates ::
    "call_env \<Rightarrow> string \<Rightarrow> string \<Rightarrow> candidate list \<Rightarrow> call_manager \<Rightarrow> call_manager" where
  "handle_candidates env sender call_id cs st =
     (if sender = ca_local_user env \<or> cm_call_id st \<noteq> call_id then st
      else if isOnCall st then acceptICECandidates cs st
      else st\<lparr>cm_remote_candidates := cm_remote_candidates st @ cs\<rparr>)"

definition handle_answer :: "call_env \<Rightarrow> string \<Rightarrow> string \<Rightarrow> string \<Rightarrow> call_manager \<Rightarrow> call_manager" where
  "handle_answer env sender call_id sdp st =
     (if sender = ca_local_user env \<and> cm_call_id st = call_id then
        if isOnCall st then st
        else signal_call NewInviteState
               ((signal_call (ShowNotification ''Call answered on another device.'') st)\<lparr>cm_have_invite := False\<rparr>)
      else if isOnCall st \<and> cm_call_id st = call_id then
        case acceptAnswer (ca_gst env) sdp st of
          (st, True) \<Rightarrow> st
        | (st, False) \<Rightarrow> hangUp ReasonUser (signal_call (ShowNotification ''Problem setting up call.'') st)
      else st)"

definition handle_hangup :: "string \<Rightarrow> call_manager \<Rightarrow> call_manager" where
  "handle_hangup call_id st = (if cm_call_id st = call_id then endCall st else st)"

definition syncEvent :: "call_env \<Rightarrow> call_event \<Rightarrow> call_manager \<Rightarrow> call_manager" where
  "syncEvent env ev st =
     (case ce_message ev of
        CallInvite call_id sdp \<Rightarrow> handle_invite env (ce_room ev) call_id sdp st
      | CallCandidates call_id cs \<Rightarrow> handle_candidates env (ce_sender ev) call_id cs st
      | CallAnswer call_id sdp \<Rightarrow> handle_answer env (ce_sender ev) call_id sdp st
      | CallHangUp call_id reason \<Rightarrow> handle_hangup call_id st)"

section \<open>Signals of the session\<close>

definition offer_created :: "string \<Rightarrow> candidate list \<Rightarrow> call_manager \<Rightarrow> call_manager" where
  "offer_created sdp cs st =
     signal_call (InviteTimer (cm_call_id st))
       (signal_call (NewMessage (cm_room st) (CallCandidates (cm_call_id st) cs))
         (signal_call (NewMessage (cm_room st) (CallInvite (cm_call_id st) sdp)) st))"

definition answer_created :: "string \<Rightarrow> candidate list \<Rightarrow> call_manager \<Rightarrow> call_manager" where
  "answer_created sdp cs st =
     signal_call (NewMessage (cm_room st) (CallCandidates (cm_call_id st) cs))
       (signal_call (NewMessage (cm_room st) (CallAnswer (cm_call_id st) sdp)) st)"

definition invite_timeout :: "string \<Rightarrow> call_manager \<Rightarrow> call_manager" where
  "invite_timeout call_id st =
     (if call_state st = OfferSent \<and> call_id = cm_call_id st
      then signal_call (ShowNotification ''The remote side failed to pick up.'') (hangUp ReasonInviteTimeOut st)
      else st)"

definition deliver_signal :: "call_manager \<Rightarrow> call_manager" where
  "deliver_signal st =
     (case ws_signals (cm_session st) of
        [] \<Rightarrow> st
      | s # ss \<Rightarrow>
          let st = map_session (\<lambda>w. w\<lparr>ws_signals := ss\<rparr>) st
          in case s of
               SigOffer sdp cs \<Rightarrow> offer_created sdp cs st
             | SigAnswer sdp cs \<Rightarrow> answer_created sdp cs st
             | SigState x \<Rightarrow> state_changed x st)"

section \<open>TURN servers\<close>

record turn_server =
  ts_username :: string
  ts_password :: string
  ts_ttl :: "32 word"
  ts_uris :: "string list"

text \<open>\<open>turn(s)://username:password@host:port\<close> for each uri with such a scheme.\<close>

definition turn_uri :: "(string \<Rightarrow> string) \<Rightarrow> string \<Rightarrow> string \<Rightarrow> string \<Rightarrow> string option" where
  "turn_uri enc user password uri =
     (let scheme = takeWhile (\<lambda>c. c \<noteq> CHR '':'') uri
      in if scheme = uri \<or> scheme \<noteq> ''turn'' \<and> scheme \<noteq> ''turns'' then None
         else Some (scheme @ ''://'' @ enc user @ '':'' @ enc password @ ''@'' @ drop (length scheme + 1) uri))"

definition getTurnURIs :: "(string \<Rightarrow> string) \<Rightarrow> turn_server \<Rightarrow> string list" where
  "getTurnURIs enc res =
     List.map_filter (turn_uri enc (ts_username res) (ts_password res)) (ts_uris res)"

text \<open>\<open>ttl * 1000\<close> is computed on 32 bits; then 9/10 of it becomes an \<open>int\<close>, which is not defined for a
  number that does not fit.\<close>

definition turn_interval :: "32 word \<Rightarrow> int option" where
  "turn_interval ttl =
     (let ms = uint (max ttl 3600 * 1000) * 9 div 10 in if ms < 2 ^ 31 then Some ms else None)"

definition refreshTurnServer :: "call_manager \<Rightarrow> call_manager" where
  "refreshTurnServer st = st\<lparr>cm_turn_uris := [], cm_turn_interval := Some 2000\<rparr>"

definition turn_server_failed :: "call_manager \<Rightarrow> call_manager" where
  "turn_server_failed st = st\<lparr>cm_turn_interval := Some 5000\<rparr>"

definition turnServerRetrieved :: "call_env \<Rightarrow> turn_server \<Rightarrow> call_manager \<Rightarrow> call_manager" where
  "turnServerRetrieved env res st =
     st\<lparr>cm_turn_uris := getTurnURIs (ca_percent_encode env) res, cm_turn_interval := turn_interval (ts_ttl res)\<rparr>"

section \<open>Steps\<close>

datatype call_op =
    CmSendInvite string call_type
  | CmAcceptInvite
  | CmHangUp
  | CmToggleMicMute
  | CmVideoItem
  | CmSyncEvent call_event
  | CmInviteTimeout string
  | CmDeliver
  | CmPipelineError
  | CmLocalDescription string
  | CmLocalCandidate "16 word" string
  | CmGatheringComplete
  | CmIceConnection ice_connection
  | CmNewPad string bool
  | CmRefreshTurnServer
  | CmTurnTimer
  | CmTurnFailed
  | CmTurnServer turn_server

text \<open>GStreamer calls back only while there is a pipeline; what it emits then may be handled later.\<close>

definition from_pipeline :: "(web_session \<Rightarrow> web_session) \<Rightarrow> call_manager \<Rightarrow> call_manager" where
  "from_pipeline f st = (if ws_pipe (cm_session st) then map_session f st else st)"

fun call_step :: "call_manager \<Rightarrow> call_env \<times> call_op \<Rightarrow> call_manager" where
  "call_step st (env, CmSendInvite room t) = fst (sendInvite env room t st)"
| "call_step st (env, CmAcceptInvite) = acceptInvite env st"
| "call_step st (env, CmHangUp) = hangUp ReasonUser st"
| "call_step st (env, CmToggleMicMute) = toggleMicMute st"
| "call_step st (env, CmVideoItem) = map_session (\<lambda>w. w\<lparr>ws_video_item := True\<rparr>) st"
| "call_step st (env, CmSyncEvent ev) = syncEvent env ev st"
| "call_step st (env, CmInviteTimeout call_id) = invite_timeout call_id st"
| "call_step st (env, CmDeliver) = deliver_signal st"
| "call_step st (env, CmPipelineError) = (if ws_pipe (cm_session st) then session_end st else st)"
| "call_step st (env, CmLocalDescription sdp) = from_pipeline (set_local_description sdp) st"
| "call_step st (env, CmLocalCandidate mline c) = from_pipeline (addLocalICECandidate mline c) st"
| "call_step st (env, CmGatheringComplete) = from_pipeline ice_gathering_complete st"
| "call_step st (env, CmIceConnection i) = from_pipeline (iceConnectionStateChanged i) st"
| "call_step st (env, CmNewPad medium links) = from_pipeline (linkNewPad medium links) st"
| "call_step st (env, CmRefreshTurnServer) = refreshTurnServer st"
| "call_step st (env, CmTurnTimer) = signal_call GetTurnServer st"
| "call_step st (env, CmTurnFailed) = turn_server_failed st"
| "call_step st (env, CmTurnServer res) = turnServerRetrieved env res st"

end
