(* ===== verification/Call_Safety.thy ===== *)
theory Call_Safety
  imports Call_Manager
begin

text \<open>
  What every history of calls keeps: microphone and camera run only in a call that has an id and that the
  user started or accepted; other calls' events do not disturb it. And where the code loses a call.
\<close>

section \<open>The invariant\<close>

definition call_inv :: "call_manager \<Rightarrow> bool" where
  "call_inv st \<longleftrightarrow>
     (ws_pipe (cm_session st) \<longrightarrow> call_state st \<noteq> Disconnected \<and> cm_call_id st \<noteq> [])
     \<and> (cm_have_invite st \<longrightarrow> cm_call_id st \<noteq> [])
     \<and> SigState Disconnected \<notin> set (ws_signals (cm_session st))"

lemmas call_defs = signal_call_def map_session_def set_state_def

declare call_state_def [simp] isOnCall_def [simp]

lemma session_fields [simp]:
  "cm_session (signal_call e st) = cm_session st" "cm_call_id (signal_call e st) = cm_call_id st"
  "cm_have_invite (signal_call e st) = cm_have_invite st" "cm_room (signal_call e st) = cm_room st"
  "cm_log (signal_call e st) = cm_log st @ [e]"
  "cm_remote_candidates (signal_call e st) = cm_remote_candidates st" "cm_turn_uris (signal_call e st) = cm_turn_uris st"
  "cm_session (clear_call st) = cm_session st" "cm_call_id (clear_call st) = []"
  "cm_have_invite (clear_call st) = False"
  "cm_log (clear_call st) = cm_log st @ [NewInviteState]"
  "cm_session (map_session f st) = f (cm_session st)" "cm_call_id (map_session f st) = cm_call_id st"
  "cm_have_invite (map_session f st) = cm_have_invite st" "cm_log (map_session f st) = cm_log st"
  "cm_room (map_session f st) = cm_room st"
  "cm_remote_candidates (map_session f st) = cm_remote_candidates st"
  "cm_turn_uris (map_session f st) = cm_turn_uris st" "cm_invite_sdp (map_session f st) = cm_invite_sdp st"
  "cm_type (map_session f st) = cm_type st"
  "cm_session (set_state s st) = (cm_session st)\<lparr>ws_state := s\<rparr>" "cm_call_id (set_state s st) = cm_call_id st"
  "cm_have_invite (set_state s st) = cm_have_invite st" "cm_log (set_state s st) = cm_log st"
  "cm_room (set_state s st) = cm_room st" "cm_turn_uris (set_state s st) = cm_turn_uris st"
  by (simp_all add: call_defs clear_call_def)

lemma clear_session_fields [simp]:
  "ws_pipe (clear_session w) = False" "ws_state (clear_session w) = ws_state w"
  "ws_signals (clear_session w) = ws_signals w" "ws_turn_servers (clear_session w) = ws_turn_servers w"
  by (simp_all add: clear_session_def)

lemma session_end_fields [simp]:
  "ws_pipe (cm_session (session_end st)) = False" "ws_state (cm_session (session_end st)) = Disconnected"
  "ws_signals (cm_session (session_end st)) = ws_signals (cm_session st)"
  "cm_call_id (session_end st) = (if call_state st = Disconnected then cm_call_id st else [])"
  "cm_have_invite (session_end st) = (call_state st = Disconnected \<and> cm_have_invite st)"
  by (auto simp: session_end_def disconnected_def Let_def)

lemma endCall_fields [simp]:
  "ws_pipe (cm_session (endCall st)) = False" "ws_state (cm_session (endCall st)) = Disconnected"
  "ws_signals (cm_session (endCall st)) = ws_signals (cm_session st)"
  "cm_have_invite (endCall st) = False" "cm_call_id (endCall st) = []"
  by (simp_all add: endCall_def)

lemma hangUp_fields:
  "ws_signals (cm_session (hangUp r st)) = ws_signals (cm_session st)"
  "ws_pipe (cm_session (hangUp r st)) \<Longrightarrow> ws_pipe (cm_session st) \<and> cm_call_id st = []"
  "cm_have_invite (hangUp r st) \<Longrightarrow> cm_have_invite st \<and> cm_call_id st = []"
  by (auto simp: hangUp_def split: if_splits)

lemma call_inv_signal [simp]: "call_inv (signal_call e st) = call_inv st"
  by (simp add: call_inv_def)

lemma call_inv_turn [simp]:
  "call_inv (st\<lparr>cm_turn_uris := u\<rparr>) = call_inv st" "call_inv (st\<lparr>cm_turn_interval := i\<rparr>) = call_inv st"
  by (simp_all add: call_inv_def)

lemma call_inv_fold_signal [simp]: "call_inv (fold (\<lambda>u. signal_call (f u)) us st) = call_inv st"
  by (induction us arbitrary: st) simp_all

lemma fold_signal_fields [simp]:
  "cm_session (fold (\<lambda>u. signal_call (f u)) us st) = cm_session st"
  "cm_call_id (fold (\<lambda>u. signal_call (f u)) us st) = cm_call_id st"
  "cm_have_invite (fold (\<lambda>u. signal_call (f u)) us st) = cm_have_invite st"
  "cm_room (fold (\<lambda>u. signal_call (f u)) us st) = cm_room st"
  by (induction us arbitrary: st) simp_all

lemma call_inv_end: "call_inv st \<Longrightarrow> call_inv (session_end st)" "call_inv st \<Longrightarrow> call_inv (endCall st)"
  by (auto simp: call_inv_def)

lemma call_inv_hangUp: "call_inv st \<Longrightarrow> call_inv (hangUp r st)"
  by (simp add: hangUp_def call_inv_end)

lemma call_inv_state_changed:
  assumes "call_inv st" and "s \<noteq> Disconnected"
  shows "call_inv (state_changed s st)"
proof -
  have "call_inv (set_state s st)" using assms by (auto simp: call_inv_def)
  then show ?thesis using assms(2) by (cases s) (simp_all add: state_changed_def call_inv_hangUp)
qed

section \<open>Where a pipeline comes from\<close>

lemma state_changed_up [simp]:
  "s \<noteq> Disconnected \<Longrightarrow> s \<noteq> IceFailed \<Longrightarrow> state_changed s st = signal_call NewCallState (set_state s st)"
  by (cases s) (simp_all add: state_changed_def)

lemma createPipeline_fields:
  assumes "createPipeline g w = (w', b)"
  shows "ws_signals w' = ws_signals w" and "ws_state w' = ws_state w" and "ws_turn_servers w' = ws_turn_servers w"
    and "b \<Longrightarrow> ws_pipe w'"
  using assms by (auto simp: createPipeline_def Let_def split: if_splits)

lemma startPipeline_result:
  assumes "startPipeline g a v st = (st', b)"
  shows "ws_signals (cm_session st') = ws_signals (cm_session st)"
    and "b \<Longrightarrow> call_state st = Disconnected \<and> call_state st' = Initiated \<and> ws_pipe (cm_session st')
      \<and> cm_call_id st' = cm_call_id st \<and> cm_have_invite st' = cm_have_invite st \<and> cm_room st' = cm_room st"
    and "\<not> b \<Longrightarrow> call_state st = Disconnected \<Longrightarrow> \<not> ws_pipe (cm_session st') \<and> call_state st' = Disconnected
      \<and> cm_call_id st' = [] \<and> \<not> cm_have_invite st'"
    and "call_state st \<noteq> Disconnected \<Longrightarrow> st' = st \<and> \<not> b"
proof -
  obtain w c where c: "createPipeline g (cm_session (signal_call (StartPipeline a v) (state_changed Initiating st))) = (w, c)"
    by (cases "createPipeline g (cm_session (signal_call (StartPipeline a v) (state_changed Initiating st)))")
  note f = createPipeline_fields [OF c]
  show "ws_signals (cm_session st') = ws_signals (cm_session st)"
    "b \<Longrightarrow> call_state st = Disconnected \<and> call_state st' = Initiated \<and> ws_pipe (cm_session st')
      \<and> cm_call_id st' = cm_call_id st \<and> cm_have_invite st' = cm_have_invite st \<and> cm_room st' = cm_room st"
    "\<not> b \<Longrightarrow> call_state st = Disconnected \<Longrightarrow> \<not> ws_pipe (cm_session st') \<and> call_state st' = Disconnected
      \<and> cm_call_id st' = [] \<and> \<not> cm_have_invite st'"
    "call_state st \<noteq> Disconnected \<Longrightarrow> st' = st \<and> \<not> b"
    using assms c f by (auto simp: startPipeline_def Let_def split: if_splits)
qed

lemma createOffer_result:
  assumes "createOffer g t st = (st', b)" and "call_state st = Disconnected"
  shows "ws_signals (cm_session st') = ws_signals (cm_session st)"
    and "b \<Longrightarrow> call_state st' = Initiated \<and> ws_pipe (cm_session st') \<and> cm_call_id st' = cm_call_id st
      \<and> cm_have_invite st' = cm_have_invite st \<and> cm_room st' = cm_room st"
    and "\<not> b \<Longrightarrow> \<not> ws_pipe (cm_session st') \<and> call_state st' = Disconnected \<and> cm_call_id st' = []"
  using startPipeline_result [of g 111 96 _ st' b] assms by (auto simp: createOffer_def)

lemma acceptOffer_result:
  assumes "acceptOffer g sdp st = (st', b)"
  shows "ws_signals (cm_session st') = ws_signals (cm_session st)"
    and "b \<Longrightarrow> call_state st = Disconnected \<and> call_state st' = Initiated \<and> ws_pipe (cm_session st')
      \<and> cm_call_id st' = cm_call_id st \<and> cm_have_invite st' = cm_have_invite st \<and> cm_room st' = cm_room st"
    and "\<not> b \<Longrightarrow> call_state st = Disconnected \<Longrightarrow> \<not> ws_pipe (cm_session st') \<and> call_state st' = Disconnected
      \<and> (cm_call_id st' = cm_call_id st \<and> cm_have_invite st' = cm_have_invite st
         \<or> cm_call_id st' = [] \<and> \<not> cm_have_invite st')"
    and "call_state st \<noteq> Disconnected \<Longrightarrow> st' = st \<and> \<not> b"
proof -
  have *: "ws_signals (cm_session st') = ws_signals (cm_session st)
    \<and> (b \<longrightarrow> call_state st' = Initiated \<and> ws_pipe (cm_session st')
      \<and> cm_call_id st' = cm_call_id st \<and> cm_have_invite st' = cm_have_invite st \<and> cm_room st' = cm_room st)
    \<and> (\<not> b \<longrightarrow> \<not> ws_pipe (cm_session st') \<and> call_state st' = Disconnected
      \<and> (cm_call_id st' = cm_call_id st \<and> cm_have_invite st' = cm_have_invite st
         \<or> cm_call_id st' = [] \<and> \<not> cm_have_invite st'))" if d: "call_state st = Disconnected"
  proof (cases "gs_parse_sdp g sdp")
    case None
    then show ?thesis using assms d by (auto simp: acceptOffer_def Let_def)
  next
    case (Some medias)
    obtain has_audio audio has_video video where m: "getMediaAttributes ''audio'' ''opus'' medias = (has_audio, audio)"
      "getMediaAttributes ''video'' ''vp8'' medias = (has_video, video)"
      by (cases "getMediaAttributes ''audio'' ''opus'' medias"; cases "getMediaAttributes ''video'' ''vp8'' medias") blast
    define st2 where "st2 = map_session (\<lambda>w. w\<lparr>ws_type := (if has_video then Video else Voice)\<rparr>)
      (map_session (\<lambda>w. w\<lparr>ws_recv_only := ma_recv_only video, ws_send_only := ma_send_only video\<rparr>)
        (map_session clear_session st))"
    obtain st3 c where c: "startPipeline g (ma_payload_type audio) (ma_payload_type video) st2 = (st3, c)"
      by (cases "startPipeline g (ma_payload_type audio) (ma_payload_type video) st2")
    show ?thesis
      using assms d Some m c startPipeline_result [OF c]
      by (auto simp: acceptOffer_def Let_def st2_def split: if_splits)
  qed
  then show "ws_signals (cm_session st') = ws_signals (cm_session st)"
    "b \<Longrightarrow> call_state st = Disconnected \<and> call_state st' = Initiated \<and> ws_pipe (cm_session st')
      \<and> cm_call_id st' = cm_call_id st \<and> cm_have_invite st' = cm_have_invite st \<and> cm_room st' = cm_room st"
    "\<not> b \<Longrightarrow> call_state st = Disconnected \<Longrightarrow> \<not> ws_pipe (cm_session st') \<and> call_state st' = Disconnected
      \<and> (cm_call_id st' = cm_call_id st \<and> cm_have_invite st' = cm_have_invite st
         \<or> cm_call_id st' = [] \<and> \<not> cm_have_invite st')"
    "call_state st \<noteq> Disconnected \<Longrightarrow> st' = st \<and> \<not> b"
    using assms by (cases "call_state st = Disconnected"; force simp: acceptOffer_def)+
qed

lemma candidates_fields [simp]:
  "cm_session (acceptICECandidates cs st) = cm_session st" "cm_call_id (acceptICECandidates cs st) = cm_call_id st"
  "cm_have_invite (acceptICECandidates cs st) = cm_have_invite st"
proof -
  let ?f = "\<lambda>(c :: candidate) st. if ca_candidate c \<noteq> [] then signal_call (AddIceCandidate (ca_mline c) (ca_candidate c)) st else st"
  have "cm_session (fold ?f cs st) = cm_session st \<and> cm_call_id (fold ?f cs st) = cm_call_id st
      \<and> cm_have_invite (fold ?f cs st) = cm_have_invite st" for cs st
    by (induction cs arbitrary: st) simp_all
  then show "cm_session (acceptICECandidates cs st) = cm_session st"
    "cm_call_id (acceptICECandidates cs st) = cm_call_id st"
    "cm_have_invite (acceptICECandidates cs st) = cm_have_invite st"
    by (simp_all add: acceptICECandidates_def)
qed

lemma set_party_fields [simp]:
  "cm_session (set_party env room st) = cm_session st" "cm_call_id (set_party env room st) = cm_call_id st"
  "cm_have_invite (set_party env room st) = cm_have_invite st"
  by (simp_all add: set_party_def Let_def)

section \<open>Every step keeps it\<close>

lemma call_inv_sendInvite:
  assumes "call_inv st"
  shows "call_inv (fst (sendInvite env room t st))"
proof (cases "isOnCall st")
  case True
  then show ?thesis using assms by (simp add: sendInvite_def)
next
  case False
  define st1 where "st1 = signal_call NewInviteState (set_party env room
    ((map_session (\<lambda>w. w\<lparr>ws_turn_servers := cm_turn_uris st\<rparr>) (st\<lparr>cm_type := t, cm_room := room\<rparr>))
      \<lparr>cm_call_id := generateCallID env\<rparr>))"
  obtain st2 b where b: "createOffer (ca_gst env) t st1 = (st2, b)" by (cases "createOffer (ca_gst env) t st1")
  have 1: "call_state st1 = Disconnected" "cm_call_id st1 \<noteq> []" "ws_signals (cm_session st1) = ws_signals (cm_session st)"
    using False by (simp_all add: st1_def generateCallID_def)
  have "call_inv (fst (case (st2, b) of (st, True) \<Rightarrow> (st, True)
      | (st, False) \<Rightarrow> (endCall (signal_call (ShowNotification ''Problem setting up call.'') st), False)))"
    using createOffer_result [OF b 1(1)] 1 assms by (cases b) (auto simp: call_inv_def)
  then show ?thesis
    using assms False b by (auto simp: sendInvite_def Let_def simp flip: st1_def)
qed

lemma call_inv_acceptInvite:
  assumes "call_inv st"
  shows "call_inv (acceptInvite env st)"
proof (cases "cm_have_invite st \<and> \<not> plugins_missing env (cm_type st)")
  case False
  then show ?thesis using assms by (auto simp: acceptInvite_def call_inv_hangUp)
next
  case True
  let ?st1 = "map_session (\<lambda>w. w\<lparr>ws_turn_servers := cm_turn_uris st\<rparr>) st"
  obtain st2 b where b: "acceptOffer (ca_gst env) (cm_invite_sdp st) ?st1 = (st2, b)"
    by (cases "acceptOffer (ca_gst env) (cm_invite_sdp st) ?st1")
  note r = acceptOffer_result [OF b]
  have invited: "cm_have_invite st" using True by simp
  have st2: "call_inv st2"
  proof (cases "call_state st = Disconnected")
    case False
    then show ?thesis using r(4) assms by (simp add: call_inv_def)
  next
    case True
    then show ?thesis using r(1-3) assms invited by (cases b) (auto simp: call_inv_def)
  qed
  show ?thesis
  proof (cases b)
    case False
    then show ?thesis using True b st2 by (simp add: acceptInvite_def Let_def call_inv_hangUp)
  next
    case t: True
    then show ?thesis using True b st2 by (auto simp: acceptInvite_def Let_def call_inv_def)
  qed
qed

lemma call_inv_session:
  assumes "call_inv st" and "ws_pipe (f (cm_session st)) = ws_pipe (cm_session st)"
    and "ws_state (f (cm_session st)) = ws_state (cm_session st)"
    and "SigState Disconnected \<notin> set (ws_signals (cm_session st)) \<Longrightarrow> SigState Disconnected \<notin> set (ws_signals (f (cm_session st)))"
  shows "call_inv (map_session f st)"
  using assms by (simp add: call_inv_def)

lemma call_inv_handle_answer:
  assumes "call_inv st"
  shows "call_inv (handle_answer env sender i sdp st)"
proof -
  obtain st1 b where b: "acceptAnswer (ca_gst env) sdp st = (st1, b)" by (cases "acceptAnswer (ca_gst env) sdp st")
  have "call_inv (fst (acceptAnswer (ca_gst env) sdp st))"
    using assms by (auto simp: acceptAnswer_def Let_def call_inv_end intro!: call_inv_session split: option.split prod.split)
  then have "call_inv st1" by (simp add: b)
  then show ?thesis
    using assms b by (auto simp: handle_answer_def call_inv_hangUp call_inv_def [of "st\<lparr>cm_have_invite := False\<rparr>"] split: bool.split)
      (simp_all add: call_inv_def)
qed

lemma call_inv_handle_invite: "call_inv st \<Longrightarrow> call_inv (handle_invite env room i sdp st)"
  by (auto simp: handle_invite_def) (auto simp: call_inv_def)

lemma call_inv_candidates: "call_inv st \<Longrightarrow> call_inv (handle_candidates env sender i cs st)"
  by (auto simp: handle_candidates_def) (auto simp: call_inv_def)

lemma call_inv_deliver:
  assumes "call_inv st"
  shows "call_inv (deliver_signal st)"
proof (cases "ws_signals (cm_session st)")
  case Nil
  then show ?thesis using assms by (simp add: deliver_signal_def)
next
  case (Cons s ss)
  have "call_inv (map_session (\<lambda>w. w\<lparr>ws_signals := ss\<rparr>) st)"
    using assms Cons by (intro call_inv_session) auto
  moreover have "s \<noteq> SigState Disconnected" using assms Cons by (auto simp: call_inv_def)
  ultimately show ?thesis using Cons
    by (cases s) (auto simp: deliver_signal_def offer_created_def answer_created_def call_inv_state_changed)
qed

lemma call_inv_step: "call_inv st \<Longrightarrow> call_inv (call_step st (env, op))"
proof -
  assume st: "call_inv st"
  have p: "call_inv (from_pipeline f st)"
    if "\<And>w. ws_pipe (f w) = ws_pipe w" "\<And>w. ws_state (f w) = ws_state w"
      "\<And>w. SigState Disconnected \<notin> set (ws_signals w) \<Longrightarrow> SigState Disconnected \<notin> set (ws_signals (f w))" for f
    using st that by (simp add: from_pipeline_def call_inv_session)
  show ?thesis
  proof (cases op)
    case (CmSyncEvent ev)
    then show ?thesis using st
      by (cases "ce_message ev") (simp_all add: syncEvent_def call_inv_handle_invite call_inv_candidates
          call_inv_handle_answer handle_hangup_def call_inv_end)
  next
    case (CmIceConnection i)
    then show ?thesis using p [of "iceConnectionStateChanged i"]
      by (cases i) (simp_all add: iceConnectionStateChanged_def)
  qed (use st p in \<open>simp_all add: call_inv_sendInvite call_inv_acceptInvite call_inv_hangUp call_inv_deliver
      call_inv_end toggleMicMute_def session_toggleMicMute_def invite_timeout_def call_inv_session
      set_local_description_def addLocalICECandidate_def ice_gathering_complete_def linkNewPad_def Let_def
      refreshTurnServer_def turn_server_failed_def turnServerRetrieved_def\<close>)
qed

interpretation calls: invariant_machine call_step call_inv
  by unfold_locales (auto intro: call_inv_step)

lemma call_inv_run: "call_inv (run call_step new_call_manager ops)"
  by (rule calls.run_inv) (simp add: call_inv_def new_call_manager_def new_session_def)

section \<open>An environment to try it in\<close>

definition demo_gst :: gst_env where
  "demo_gst =
     \<lparr>gs_plugins = (\<lambda>v. True), gs_have_camera = True, gs_have_mic = True, gs_audio_source = True,
      gs_audio_links = True, gs_video_links = True, gs_webrtcbin = True, gs_plays = True,
      gs_parse_sdp = (\<lambda>sdp. Some [\<lparr>sm_media = ''audio'',
        sm_attributes = [(''rtpmap'', ''0 PCMU/8000''), (''rtpmap'', ''111 OPUS/48000/2'')]\<rparr>])\<rparr>"

definition demo_call_env :: call_env where
  "demo_call_env =
     \<lparr>ca_gst = demo_gst, ca_local_user = ''A'', ca_member_count = (\<lambda>r. 2),
      ca_members = (\<lambda>r. [\<lparr>rm_user_id = ''A'', rm_display_name = ''Ann''\<rparr>, \<lparr>rm_user_id = ''B'', rm_display_name = []\<rparr>]),
      ca_avatar_url = (\<lambda>r. []), ca_plugin_error = ''missing'', ca_clock_ms = 7,
      ca_number = (\<lambda>n. ''7''), ca_percent_encode = (\<lambda>s. s)\<rparr>"

section \<open>Properties\<close>

text \<open>C18: after any history, as long as there is a pipeline (microphone and camera), there is a call with
  an id, and hanging up takes the pipeline down, tells the room and leaves no call.\<close>

theorem hanging_up_ends_the_call:
  assumes "st = run call_step new_call_manager ops" and "ws_pipe (cm_session st)"
  shows "\<not> ws_pipe (cm_session (hangUp reason st)) \<and> call_state (hangUp reason st) = Disconnected
    \<and> \<not> cm_have_invite (hangUp reason st)
    \<and> NewMessage (cm_room st) (CallHangUp (cm_call_id st) reason) \<in> set (cm_log (hangUp reason st))"
proof -
  have "cm_call_id st \<noteq> []" using call_inv_run [of ops] assms by (simp add: call_inv_def)
  moreover have "e \<in> set (cm_log s) \<Longrightarrow> e \<in> set (cm_log (endCall s))" for e s
    by (auto simp: endCall_def session_end_def disconnected_def Let_def)
  ultimately show ?thesis by (simp add: hangUp_def)
qed

lemma hanging_up_ends_the_call_witness:
  "\<not> ws_pipe (cm_session (hangUp ReasonUser (run call_step new_call_manager
     [(demo_call_env, CmSendInvite ''!r'' Video), (demo_call_env, CmGatheringComplete)])))"
proof -
  have "ws_pipe (cm_session (run call_step new_call_manager
     [(demo_call_env, CmSendInvite ''!r'' Video), (demo_call_env, CmGatheringComplete)]))"
    by code_simp
  from hanging_up_ends_the_call [OF refl this] show ?thesis by blast
qed

lemma pipe_frame [simp]:
  "ws_pipe (cm_session (hangUp r st)) = (ws_pipe (cm_session st) \<and> cm_call_id st = [])"
  by (simp add: hangUp_def)

lemma send_pipe:
  assumes "ws_pipe (cm_session (fst (sendInvite env room t st)))" and "\<not> ws_pipe (cm_session st)"
  shows "call_state st = Disconnected \<and> ca_member_count env room = 2 \<and> cm_room (fst (sendInvite env room t st)) = room"
proof (cases "isOnCall st")
  case True
  then show ?thesis using assms by (simp add: sendInvite_def)
next
  case False
  define st1 where "st1 = signal_call NewInviteState (set_party env room
    ((map_session (\<lambda>w. w\<lparr>ws_turn_servers := cm_turn_uris st\<rparr>) (st\<lparr>cm_type := t, cm_room := room\<rparr>))
      \<lparr>cm_call_id := generateCallID env\<rparr>))"
  obtain st2 b where b: "createOffer (ca_gst env) t st1 = (st2, b)" by (cases "createOffer (ca_gst env) t st1")
  have 1: "call_state st1 = Disconnected" "cm_room st1 = room"
    using False by (simp_all add: st1_def set_party_def Let_def)
  show ?thesis
    using assms False b createOffer_result [OF b 1(1)] 1
    by (cases b) (auto simp: sendInvite_def Let_def simp flip: st1_def split: if_splits)
qed

lemma accept_pipe:
  assumes "ws_pipe (cm_session (acceptInvite env st))" and "\<not> ws_pipe (cm_session st)"
  shows "call_state st = Disconnected \<and> cm_have_invite st \<and> cm_call_id (acceptInvite env st) = cm_call_id st"
proof (cases "cm_have_invite st \<and> \<not> plugins_missing env (cm_type st)")
  case False
  then show ?thesis using assms by (auto simp: acceptInvite_def split: if_splits)
next
  case True
  let ?st1 = "map_session (\<lambda>w. w\<lparr>ws_turn_servers := cm_turn_uris st\<rparr>) st"
  obtain st2 b where b: "acceptOffer (ca_gst env) (cm_invite_sdp st) ?st1 = (st2, b)"
    by (cases "acceptOffer (ca_gst env) (cm_invite_sdp st) ?st1")
  note r = acceptOffer_result [OF b]
  show ?thesis
  proof (cases b)
    case t: True
    then show ?thesis using r(2) True b by (simp add: acceptInvite_def Let_def)
  next
    case f: False
    then have "\<not> ws_pipe (cm_session st2)"
      using r(3,4) assms(2) by (cases "call_state st = Disconnected") auto
    then show ?thesis using True f b assms(1) by (simp add: acceptInvite_def Let_def)
  qed
qed

lemma pipe_state_changed: "ws_pipe (cm_session (state_changed s st)) \<Longrightarrow> ws_pipe (cm_session st)"
  by (cases s) (simp_all add: state_changed_def disconnected_def)

lemma pipe_deliver: "ws_pipe (cm_session (deliver_signal st)) \<Longrightarrow> ws_pipe (cm_session st)"
proof (cases "ws_signals (cm_session st)")
  case (Cons s ss)
  assume "ws_pipe (cm_session (deliver_signal st))"
  then show ?thesis using Cons pipe_state_changed [of _ "map_session (\<lambda>w. w\<lparr>ws_signals := ss\<rparr>) st"]
    by (cases s) (simp_all add: deliver_signal_def offer_created_def answer_created_def)
qed (simp add: deliver_signal_def)

text \<open>a pipeline is only started by the user: by calling a room with two members while there is no
  call, or by accepting an invite while there is no call. No event of a room starts one.\<close>

theorem pipeline_is_started_by_the_user:
  assumes "st' = call_step st (env, op)" and "ws_pipe (cm_session st')" and "\<not> ws_pipe (cm_session st)"
  shows "call_state st = Disconnected \<and>
    ((\<exists>room t. op = CmSendInvite room t \<and> ca_member_count env room = 2 \<and> cm_room st' = room)
     \<or> op = CmAcceptInvite \<and> cm_have_invite st \<and> cm_call_id st' = cm_call_id st)"
proof -
  have answer: "\<not> ws_pipe (cm_session (handle_answer env s i sdp st))" for s i sdp
  proof -
    obtain st1 b where b: "acceptAnswer (ca_gst env) sdp st = (st1, b)" by (cases "acceptAnswer (ca_gst env) sdp st")
    have "\<not> ws_pipe (cm_session (fst (acceptAnswer (ca_gst env) sdp st)))"
      using assms(3) by (auto simp: acceptAnswer_def Let_def split: option.split prod.split)
    then show ?thesis using b assms(3) by (simp add: handle_answer_def split: bool.split)
  qed
  have pad: "\<not> ws_pipe (cm_session (from_pipeline f st))" for f
    using assms(3) by (simp add: from_pipeline_def)
  show ?thesis
  proof (cases op)
    case (CmSendInvite room t)
    then show ?thesis using assms send_pipe by auto
  next
    case CmAcceptInvite
    then show ?thesis using assms accept_pipe by auto
  next
    case (CmSyncEvent ev)
    then show ?thesis using assms answer
      by (cases "ce_message ev")
         (auto simp: syncEvent_def handle_invite_def handle_candidates_def handle_hangup_def split: if_splits)
  next
    case CmDeliver
    then show ?thesis using assms pipe_deliver by simp
  qed (use assms pad in \<open>auto simp: toggleMicMute_def session_toggleMicMute_def invite_timeout_def
      refreshTurnServer_def turn_server_failed_def turnServerRetrieved_def split: if_splits\<close>)
qed

lemma pipeline_is_started_by_the_user_witness:
  "cm_room (call_step new_call_manager (demo_call_env, CmSendInvite ''!r'' Voice)) = ''!r''"
proof -
  have "ws_pipe (cm_session (call_step new_call_manager (demo_call_env, CmSendInvite ''!r'' Voice)))"
    "\<not> ws_pipe (cm_session new_call_manager)" by code_simp+
  from pipeline_is_started_by_the_user [OF refl this] show ?thesis by auto
qed

end
