(* ===== verification/Call_Properties.thy ===== *)
theory Call_Properties
  imports Call_Safety
begin

text \<open>
  How a call is set up, what other calls' events do to it, when the TURN credentials are renewed, and
  where the code loses a call or keeps a dead one.
\<close>

section \<open>Setting up a call\<close>

lemma candidates_log:
  assumes "call_state st \<ge> Initiated"
  shows "cm_log (acceptICECandidates cs st) =
    cm_log st @ map (\<lambda>c. AddIceCandidate (ca_mline c) (ca_candidate c)) (filter (\<lambda>c. ca_candidate c \<noteq> []) cs)"
proof -
  have "cm_log (fold (\<lambda>(c :: candidate) st. if ca_candidate c \<noteq> []
      then signal_call (AddIceCandidate (ca_mline c) (ca_candidate c)) st else st) cs st) =
    cm_log st @ map (\<lambda>c. AddIceCandidate (ca_mline c) (ca_candidate c)) (filter (\<lambda>c. ca_candidate c \<noteq> []) cs)"
    for cs st by (induction cs arbitrary: st) simp_all
  then show ?thesis using assms by (simp add: acceptICECandidates_def)
qed

lemma candidates_room [simp]: "cm_room (acceptICECandidates cs st) = cm_room st"
proof -
  have "cm_room (fold (\<lambda>(c :: candidate) st. if ca_candidate c \<noteq> []
      then signal_call (AddIceCandidate (ca_mline c) (ca_candidate c)) st else st) cs st) = cm_room st"
    for cs st by (induction cs arbitrary: st) simp_all
  then show ?thesis by (simp add: acceptICECandidates_def)
qed

text \<open>Every device works and the description is one the client accepts.\<close>

definition gst_works :: "gst_env \<Rightarrow> string \<Rightarrow> bool" where
  "gst_works g sdp \<longleftrightarrow>
     gs_plugins g False \<and> gs_plugins g True \<and> gs_have_camera g \<and> gs_audio_source g \<and> gs_audio_links g
     \<and> gs_video_links g \<and> gs_webrtcbin g \<and> gs_plays g
     \<and> (case gs_parse_sdp g sdp of
          None \<Rightarrow> False
        | Some ms \<Rightarrow>
            (case (getMediaAttributes ''audio'' ''opus'' ms, getMediaAttributes ''video'' ''vp8'' ms) of
               ((has_audio, audio), (has_video, video)) \<Rightarrow>
                 has_audio \<and> ma_payload_type audio \<noteq> -1 \<and> (\<not> has_video \<or> ma_payload_type video \<noteq> -1)))"

lemma cm_remote_candidates_fold [simp]:
  "cm_remote_candidates (fold (\<lambda>u. signal_call (f u)) us st) = cm_remote_candidates st"
  by (induction us arbitrary: st) simp_all

lemma startPipeline_works:
  assumes "gst_works g sdp" and "call_state st = Disconnected"
  shows "\<exists>st'. startPipeline g a v st = (st', True) \<and> cm_remote_candidates st' = cm_remote_candidates st"
proof -
  obtain w b where w: "createPipeline g ((cm_session st)\<lparr>ws_state := Initiating\<rparr>) = (w, b)"
    by (cases "createPipeline g ((cm_session st)\<lparr>ws_state := Initiating\<rparr>)")
  then have "b" using assms(1) by (auto simp: createPipeline_def gst_works_def addVideoPipeline_def Let_def split: if_splits)
  then show ?thesis
    using assms w by (simp add: startPipeline_def Let_def gst_works_def) (simp add: call_defs)
qed

lemma acceptOffer_works:
  assumes "gst_works g sdp" and "call_state st = Disconnected"
  shows "\<exists>st1. acceptOffer g sdp st = (signal_call (SetRemoteDescription sdp) st1, True)
    \<and> cm_remote_candidates st1 = cm_remote_candidates st"
proof -
  obtain ms has_audio audio has_video video where m: "gs_parse_sdp g sdp = Some ms"
    "getMediaAttributes ''audio'' ''opus'' ms = (has_audio, audio)"
    "getMediaAttributes ''video'' ''vp8'' ms = (has_video, video)"
    "has_audio" "ma_payload_type audio \<noteq> -1" "\<not> has_video \<or> ma_payload_type video \<noteq> -1"
    using assms(1) by (auto simp: gst_works_def split: option.splits prod.splits)
  define st2 where "st2 = map_session (\<lambda>w. w\<lparr>ws_type := (if has_video then Video else Voice)\<rparr>)
    (map_session (\<lambda>w. w\<lparr>ws_recv_only := ma_recv_only video, ws_send_only := ma_send_only video\<rparr>)
      (map_session clear_session st))"
  obtain st3 where "startPipeline g (ma_payload_type audio) (ma_payload_type video) st2 = (st3, True)"
    "cm_remote_candidates st3 = cm_remote_candidates st"
    using startPipeline_works [OF assms(1), of st2 "ma_payload_type audio" "ma_payload_type video"] assms(2)
    by (auto simp: st2_def)
  then have "acceptOffer g sdp st = (signal_call (SetRemoteDescription sdp) st3, True)
      \<and> cm_remote_candidates st3 = cm_remote_candidates st"
    using assms(2) m by (auto simp: acceptOffer_def Let_def st2_def)
  then show ?thesis by blast
qed



section \<open>Other calls\<close>

text \<open>A call being made, and an invite waiting.\<close>

definition calling :: call_manager where
  "calling = call_step new_call_manager (demo_call_env, CmSendInvite ''!r'' Voice)"

definition invited :: call_manager where
  "invited = call_step new_call_manager
     (demo_call_env, CmSyncEvent \<lparr>ce_room = ''!r'', ce_sender = ''B'', ce_message = CallInvite ''c1'' ''sdp''\<rparr>)"

fun message_call_id :: "call_message \<Rightarrow> string" where
  "message_call_id (CallInvite i _) = i"
| "message_call_id (CallCandidates i _) = i"
| "message_call_id (CallAnswer i _) = i"
| "message_call_id (CallHangUp i _) = i"

text \<open>During a call, an event of another call changes nothing; an invite is answered with a hang-up for
  the call it names, in the room it came from.\<close>

theorem other_calls_do_not_disturb:
  assumes "isOnCall st" and "message_call_id (ce_message ev) \<noteq> cm_call_id st"
  shows "syncEvent env ev st = st
    \<or> syncEvent env ev st = signal_call (NewMessage (ce_room ev)
          (CallHangUp (message_call_id (ce_message ev)) ReasonInviteTimeOut)) st"
  using assms
  by (cases "ce_message ev")
     (auto simp: syncEvent_def handle_invite_def handle_candidates_def handle_answer_def handle_hangup_def)

section \<open>Calls the code loses\<close>

fun is_message :: "call_effect \<Rightarrow> bool" where
  "is_message (NewMessage _ _) = True"
| "is_message _ = False"

definition sent_messages :: "call_manager \<Rightarrow> call_effect list" where
  "sent_messages st = filter is_message (cm_log st)"

text \<open>An answer to the call in progress that comes once the call is past the offer (a second answer,
  or one to a call we took) is taken for an error, and the call is hung up.\<close>

theorem late_answer_ends_the_call:
  assumes "isOnCall st" and "call_state st \<noteq> OfferSent" and "cm_call_id st \<noteq> []"
    and "ce_message ev = CallAnswer (cm_call_id st) sdp" and "ce_sender ev \<noteq> ca_local_user env"
  shows "call_state (syncEvent env ev st) = Disconnected
    \<and> NewMessage (cm_room st) (CallHangUp (cm_call_id st) ReasonUser) \<in> set (cm_log (syncEvent env ev st))"
proof -
  have "syncEvent env ev st = hangUp ReasonUser (signal_call (ShowNotification ''Problem setting up call.'') st)"
    using assms by (simp add: syncEvent_def handle_answer_def acceptAnswer_def)
  moreover have "e \<in> set (cm_log s) \<Longrightarrow> e \<in> set (cm_log (endCall s))" for e s
    by (auto simp: endCall_def session_end_def disconnected_def Let_def)
  ultimately show ?thesis using assms(3) by (simp add: hangUp_def)
qed

lemma late_answer_ends_the_call_witness:
  "call_state (syncEvent demo_call_env \<lparr>ce_room = ''!x'', ce_sender = ''C'', ce_message = CallAnswer ''c7'' ''sdp''\<rparr>
     calling) = Disconnected"
proof -
  have c: "isOnCall calling" "call_state calling \<noteq> OfferSent" "cm_call_id calling = ''c7''" by code_simp+
  have "\<lparr>ce_room = ''!x'', ce_sender = ''C'', ce_message = CallAnswer ''c7'' ''sdp''\<rparr> = ev \<Longrightarrow> ?thesis" for ev
    using late_answer_ends_the_call [of calling ev "''sdp''" demo_call_env] c
    by (auto simp: demo_call_env_def)
  then show ?thesis by blast
qed

lemma other_calls_do_not_disturb_witness:
  "syncEvent demo_call_env \<lparr>ce_room = ''!x'', ce_sender = ''C'', ce_message = CallHangUp ''c2'' ReasonUser\<rparr> calling = calling
   \<or> syncEvent demo_call_env \<lparr>ce_room = ''!x'', ce_sender = ''C'', ce_message = CallHangUp ''c2'' ReasonUser\<rparr> calling
     = signal_call (NewMessage ''!x'' (CallHangUp ''c2'' ReasonInviteTimeOut)) calling"
proof -
  have "isOnCall calling" by code_simp
  moreover have "message_call_id (ce_message \<lparr>ce_room = ''!x'', ce_sender = ''C'', ce_message = CallHangUp ''c2'' ReasonUser\<rparr>)
      \<noteq> cm_call_id calling" by code_simp
  ultimately show ?thesis using other_calls_do_not_disturb by fastforce
qed

text \<open>when the microphone or the pipeline fails while an invite is accepted, the end of the session clears
  the call's id before the hang-up is sent, so the caller is told nothing.\<close>

theorem failed_accept_is_not_reported:
  assumes "cm_have_invite st" and "call_state st = Disconnected" and "\<not> plugins_missing env (cm_type st)"
    and "gst_works (ca_gst env) (cm_invite_sdp st)"
    and "g = (ca_gst env)\<lparr>gs_audio_source := False\<rparr>"
  shows "sent_messages (acceptInvite (env\<lparr>ca_gst := g\<rparr>) st) = sent_messages st
    \<and> cm_call_id (acceptInvite (env\<lparr>ca_gst := g\<rparr>) st) = []"
proof -
  obtain ms has_audio audio has_video video where m: "gs_parse_sdp (ca_gst env) (cm_invite_sdp st) = Some ms"
    "getMediaAttributes ''audio'' ''opus'' ms = (has_audio, audio)"
    "getMediaAttributes ''video'' ''vp8'' ms = (has_video, video)"
    "has_audio" "ma_payload_type audio \<noteq> -1" "\<not> has_video \<or> ma_payload_type video \<noteq> -1"
    using assms(4) by (auto simp: gst_works_def split: option.splits prod.splits)
  have p: "\<not> plugins_missing (env\<lparr>ca_gst := g\<rparr>) (cm_type st)"
    using assms(3,5) by (simp add: plugins_missing_def)
  have "createPipeline g w = (w, False)" for w by (simp add: assms(5) createPipeline_def)
  then have s: "startPipeline g a v s = (session_end (signal_call (StartPipeline a v) (signal_call NewCallState (set_state Initiating s))), False)"
    if "call_state s = Disconnected" for a v s
    using that by (simp add: startPipeline_def Let_def call_defs)
  have l: "sent_messages (session_end s) = sent_messages s" "sent_messages (map_session f s) = sent_messages s"
    "sent_messages (set_state x s) = sent_messages s" for f s x
    by (auto simp: sent_messages_def session_end_def disconnected_def Let_def)
  have e: "sent_messages (signal_call x s) = sent_messages s" if "\<not> is_message x" for x s
    using that by (simp add: sent_messages_def)
  have g: "gs_parse_sdp g = gs_parse_sdp (ca_gst env)" by (simp add: assms(5))
  show ?thesis
    using assms(1,2) m p by (auto simp: acceptInvite_def acceptOffer_def Let_def g s hangUp_def l e)
qed

lemma failed_accept_is_not_reported_witness:
  "sent_messages (acceptInvite (demo_call_env\<lparr>ca_gst := demo_gst\<lparr>gs_audio_source := False\<rparr>\<rparr>) invited) = []"
proof -
  have "cm_have_invite invited" "call_state invited = Disconnected" "\<not> plugins_missing demo_call_env (cm_type invited)"
    "gst_works (ca_gst demo_call_env) (cm_invite_sdp invited)"
    "demo_gst\<lparr>gs_audio_source := False\<rparr> = (ca_gst demo_call_env)\<lparr>gs_audio_source := False\<rparr>"
    "sent_messages invited = []"
    by (code_simp, code_simp, code_simp, code_simp, simp add: demo_call_env_def, code_simp)
  from failed_accept_is_not_reported [OF this(1-5)] this(6) show ?thesis by simp
qed

text \<open>a state the media threads emitted before the call ended, and that is delivered after it, leaves the
  client on a call that does not exist: the user can neither end it nor start another, whatever the
  devices say, and every invite is turned away.\<close>

theorem stale_state_blocks_calls:
  assumes "call_state st = Disconnected" and "cm_call_id st = []"
    and "ws_signals (cm_session st) = SigState s # ss" and "s \<noteq> Disconnected"
    and "st' = call_step st (env, CmDeliver)"
  shows "isOnCall st' \<and> cm_call_id st' = [] \<and> sendInvite env' room t st' = (st', False) \<and> hangUp reason st' = st'
    \<and> (i \<noteq> [] \<longrightarrow> handle_invite env' room i sdp st' = signal_call (NewMessage room (CallHangUp i ReasonInviteTimeOut)) st')"
proof -
  have "isOnCall st' \<and> cm_call_id st' = []"
    using assms by (cases s) (simp_all add: deliver_signal_def state_changed_def hangUp_def)
  then show ?thesis by (simp add: sendInvite_def hangUp_def handle_invite_def Let_def)
qed

lemma stale_state_blocks_calls_witness:
  "isOnCall (run call_step new_call_manager [(demo_call_env, CmSendInvite ''!r'' Voice),
      (demo_call_env, CmIceConnection IceChecking), (demo_call_env, CmHangUp), (demo_call_env, CmDeliver)])"
proof -
  let ?st = "run call_step new_call_manager [(demo_call_env, CmSendInvite ''!r'' Voice),
    (demo_call_env, CmIceConnection IceChecking), (demo_call_env, CmHangUp)]"
  have "call_state ?st = Disconnected" "cm_call_id ?st = []" "ws_signals (cm_session ?st) = [SigState Connecting]"
    "Connecting \<noteq> Disconnected" by (code_simp, code_simp, code_simp, simp)
  from stale_state_blocks_calls [OF this refl, of demo_call_env] show ?thesis by simp
qed

text \<open>Calling a room while an invite is still open keeps the invite; accepting it then hangs up the
  call just made.\<close>

theorem accepting_old_invite_ends_new_call:
  assumes "cm_have_invite st" and "sendInvite env room t st = (st1, True)"
  shows "cm_have_invite st1 \<and> cm_call_id st1 = generateCallID env
    \<and> call_state (acceptInvite env' st1) = Disconnected \<and> cm_call_id (acceptInvite env' st1) = []"
proof -
  define st0 where "st0 = signal_call NewInviteState (set_party env room
    ((map_session (\<lambda>w. w\<lparr>ws_turn_servers := cm_turn_uris st\<rparr>) (st\<lparr>cm_type := t, cm_room := room\<rparr>))
      \<lparr>cm_call_id := generateCallID env\<rparr>))"
  obtain st2 b where b: "createOffer (ca_gst env) t st0 = (st2, b)" by (cases "createOffer (ca_gst env) t st0")
  have d: "call_state st = Disconnected" "st2 = st1" b
    using assms(2) b by (cases b; auto simp: sendInvite_def Let_def simp flip: st0_def split: if_splits)+
  have st0: "call_state st0 = Disconnected" "cm_call_id st0 = generateCallID env" "cm_have_invite st0"
    using d(1) assms(1) by (simp_all add: st0_def)
  note r = createOffer_result(2) [OF b st0(1) d(3)]
  have id: "cm_call_id st1 \<noteq> []" using r st0 d(2) by (simp add: generateCallID_def)
  have "\<exists>s. acceptInvite env' st1 = hangUp ReasonUser (signal_call s st1)
      \<or> (\<exists>f. acceptInvite env' st1 = hangUp ReasonUser (signal_call s (map_session f st1)))"
    using r st0 d(2) by (auto simp: acceptInvite_def acceptOffer_def Let_def)
  then have "call_state (acceptInvite env' st1) = Disconnected \<and> cm_call_id (acceptInvite env' st1) = []"
    using id by (auto simp: hangUp_def)
  then show ?thesis using r st0 d(2) by simp
qed

lemma accepting_old_invite_ends_new_call_witness:
  "call_state (acceptInvite demo_call_env (fst (sendInvite demo_call_env ''!q'' Voice invited))) = Disconnected"
proof -
  obtain st1 b where s: "sendInvite demo_call_env ''!q'' Voice invited = (st1, b)"
    by (cases "sendInvite demo_call_env ''!q'' Voice invited")
  have "snd (sendInvite demo_call_env ''!q'' Voice invited) = True" "cm_have_invite invited" by code_simp+
  with s accepting_old_invite_ends_new_call [of invited demo_call_env "''!q''" Voice st1 demo_call_env]
  show ?thesis by simp
qed

section \<open>TURN credentials\<close>

text \<open>The credentials are asked for again when nine tenths of their time are over, for lifetimes from an
  hour to 2386092 seconds (27 days).\<close>

theorem turn_credentials_are_renewed_in_time:
  assumes "3600 \<le> ttl" and "ttl \<le> 2386092"
  shows "turn_interval (word_of_int ttl) = Some (900 * ttl) \<and> 900 * ttl < 1000 * ttl"
proof -
  have u: "uint (word_of_int ttl :: 32 word) = ttl"
    using assms by (simp add: unsigned_of_int take_bit_int_eq_self)
  then have m: "max (word_of_int ttl :: 32 word) 3600 = word_of_int ttl"
    using assms by (simp add: max_def word_le_def)
  have "uint ((word_of_int ttl :: 32 word) * 1000) = ttl * 1000"
    using assms u by (simp add: uint_word_ariths)
  then show ?thesis using assms m by (simp add: turn_interval_def Let_def)
qed

lemma turn_credentials_are_renewed_in_time_witness: "turn_interval 86400 = Some 77760000"
  using turn_credentials_are_renewed_in_time [of 86400] by simp

lemma longer_lifetimes_overflow: "turn_interval 2386093 = None" "turn_interval 4294968 = Some 633"
  by code_simp+

end
