(* ===== verification/Room_State.thy ===== *)
theory Room_State
  imports Cache_Json
begin

text \<open>
  The state of the rooms in the cache (\<open>src/src/Cache_p.h\<close>, \<open>src/src/Cache.cpp\<close>): the tables the
  state events of a room are saved to, how they are read back, and what a room is called.

  The databases of one room are the fields of \<open>room_db\<close>; a database that was never opened is
  empty. \<open>rd_statekeys\<close> is \<open>/state_by_key\<close>: per event type the values are compared by the state key
  alone (\<open>compare_state_key\<close>), so that there is one event id per type and state key, and they are
  read in the order of the state keys. \<open>rd_events\<close> holds the state events among \<open>/events\<close>.

  Event types and contents are those of mtxclient the code names; of a content its fields that the
  code reads are kept. Power levels are opaque: mtxclient says which level a user has and which one
  an event needs, and both functions are parameters. So is the translation of texts (\<open>tr\<close>).
\<close>

section \<open>Events\<close>

datatype (plugins only: code size) event_type =
    RoomName | RoomTopic | RoomAvatar | RoomCanonicalAlias | RoomCreate | RoomMember
  | RoomEncryption | RoomJoinRules | RoomGuestAccess | RoomPowerLevels
  | SpaceChild | SpaceParent | ImagePackInRoom | RoomPinnedEvents | Widget
  | RoomKeyRequest | ReactionType | RoomAliases | RoomEncrypted | RoomHistoryVisibility | RoomMessage
  | RoomTombstone | RoomRedaction | StickerType | TagType | PolicyRuleUser | PolicyRuleRoom
  | PolicyRuleServer | ImagePackInAccountData | ImagePackRooms
  | CallInviteType | CallCandidatesType | CallAnswerType | CallHangUpType
  | KeyVerificationReady | KeyVerificationStart | KeyVerificationAccept | KeyVerificationMac
  | KeyVerificationKey | KeyVerificationDone | KeyVerificationCancel
  | OtherType string | Unsupported

datatype membership = MInvite | MJoin | MBan | MLeave | MKnock

datatype join_rule = Knock | OtherRule string

type_synonym power_levels = string

record pack_image =
  pi_url :: string
  pi_overrides_usage :: bool
  pi_is_sticker :: bool
  pi_is_emoji :: bool

text \<open>The description of a pack is optional; of it the two usages are read.\<close>

record image_pack =
  ip_pack :: "(bool \<times> bool) option"
  ip_images :: "(string, pack_image) fmap"

datatype state_content =
    Member membership string string
  | Encryption string
  | Name string
  | Topic string
  | Avatar string
  | CanonicalAlias string
  | Create string bool
  | JoinRules join_rule
  | GuestAccess bool
  | PowerLevels power_levels
  | Child "string list option"
  | Parent "string list option" bool
  | ImagePack image_pack
  | PinnedEvents "string list"
  | WidgetContent string
  | Redacted event_type
  | OtherContent string
  | UnknownContent

fun content_type :: "state_content \<Rightarrow> event_type" where
  "content_type (Member _ _ _) = RoomMember"
| "content_type (Encryption _) = RoomEncryption"
| "content_type (Name _) = RoomName"
| "content_type (Topic _) = RoomTopic"
| "content_type (Avatar _) = RoomAvatar"
| "content_type (CanonicalAlias _) = RoomCanonicalAlias"
| "content_type (Create _ _) = RoomCreate"
| "content_type (JoinRules _) = RoomJoinRules"
| "content_type (GuestAccess _) = RoomGuestAccess"
| "content_type (PowerLevels _) = RoomPowerLevels"
| "content_type (Child _) = SpaceChild"
| "content_type (Parent _ _) = SpaceParent"
| "content_type (ImagePack _) = ImagePackInRoom"
| "content_type (PinnedEvents _) = RoomPinnedEvents"
| "content_type (WidgetContent _) = Widget"
| "content_type (Redacted t) = t"
| "content_type (OtherContent t) = OtherType t"
| "content_type UnknownContent = Unsupported"

fun is_redacted :: "state_content \<Rightarrow> bool" where
  "is_redacted (Redacted _) = True"
| "is_redacted _ = False"

record state_event =
  se_event_id :: string
  se_sender :: string
  se_state_key :: string
  se_content :: state_content

abbreviation se_type :: "state_event \<Rightarrow> event_type" where
  "se_type e \<equiv> content_type (se_content e)"

section \<open>The tables of a room and the cache\<close>

datatype account_event =
    Tags "string list"
  | FullyRead string
  | HiddenEvents "string list option"
  | AccountPack image_pack
  | AccountPackRooms "(string, string list) fmap"
  | OtherAccount string string

record room_db =
  rd_states :: "(event_type, state_event) table"
  rd_statekeys :: "event_type \<Rightarrow> (string, string) table"
  rd_members :: "(string, member_info) table"
  rd_events :: "(string, state_event) table"
  rd_account_data :: "(string, account_event) table"

definition new_room :: room_db where
  "new_room = \<lparr>rd_states = fmempty, rd_statekeys = (\<lambda>_. fmempty), rd_members = fmempty,
     rd_events = fmempty, rd_account_data = fmempty\<rparr>"

datatype cache_signal =
    RemoveNotification string string
  | NewReadReceipts string "string list"
  | RoomReadStatus "(string, bool) fmap"

text \<open>An invited room's state is stripped to what the invite shows, one event per type.\<close>

record room_cache =
  rc_room_dbs :: "(string, room_db) table"
  rc_rooms :: "(string, join_rule room_info) table"
  rc_invites :: "(string, join_rule room_info) table"
  rc_invite_states :: "(string, (event_type, state_content) table) table"
  rc_invite_members :: "(string, (string, member_info) table) table"
  rc_encrypted :: "string fset"
  rc_receipts :: "(string \<times> string, (string, u64) table) table"
  rc_presence :: "(string, string) table"
  rc_notifications :: "string fset"
  rc_space_children :: "(string, string) dup_table"
  rc_space_parents :: "(string, string) dup_table"
  rc_next_batch :: "string option"
  rc_signals :: "cache_signal list"

definition db_of :: "string \<Rightarrow> room_cache \<Rightarrow> room_db" where
  "db_of r c = (case fmlookup (rc_room_dbs c) r of None \<Rightarrow> new_room | Some d \<Rightarrow> d)"

definition set_room_db :: "string \<Rightarrow> room_db \<Rightarrow> room_cache \<Rightarrow> room_cache" where
  "set_room_db r d c = c\<lparr>rc_room_dbs := fmupd r d (rc_room_dbs c)\<rparr>"

lemma room_db_set_room_db [simp]:
  "db_of r (set_room_db q d c) = (if r = q then d else db_of r c)"
  by (simp add: db_of_def set_room_db_def)

section \<open>Saving state events\<close>

text \<open>A user with an invite or a join is a member, any other membership event removes the user.\<close>

definition member_entry :: "string \<Rightarrow> string \<Rightarrow> string \<Rightarrow> member_info" where
  "member_entry key display_name avatar =
     \<lparr>mi_name = (if display_name = [] then key else display_name), mi_avatar_url = avatar,
      mi_is_direct = False\<rparr>"

definition save_member :: "string \<Rightarrow> membership \<Rightarrow> string \<Rightarrow> string \<Rightarrow> room_db \<Rightarrow> room_db" where
  "save_member key m display_name avatar d =
     (if m = MInvite \<or> m = MJoin
      then d\<lparr>rd_members := fmupd key (member_entry key display_name avatar) (rd_members d)\<rparr>
      else d\<lparr>rd_members := fmdrop key (rd_members d)\<rparr>)"

definition put_state_key :: "event_type \<Rightarrow> string \<Rightarrow> string \<Rightarrow> room_db \<Rightarrow> room_db" where
  "put_state_key t key i d =
     d\<lparr>rd_statekeys := (rd_statekeys d)(t := fmupd key i (rd_statekeys d t))\<rparr>"

definition del_state_key :: "event_type \<Rightarrow> string \<Rightarrow> room_db \<Rightarrow> room_db" where
  "del_state_key t key d =
     d\<lparr>rd_statekeys := (rd_statekeys d)(t := fmdrop key (rd_statekeys d t))\<rparr>"

definition remove_redacted :: "state_event \<Rightarrow> room_db \<Rightarrow> room_db" where
  "remove_redacted e d =
     (if se_type e = RoomMember then d\<lparr>rd_members := fmdrop (se_state_key e) (rd_members d)\<rparr>
      else if se_state_key e = [] then d\<lparr>rd_states := fmdrop (se_type e) (rd_states d)\<rparr>
      else del_state_key (se_type e) (se_state_key e) d)"

definition save_other_state :: "state_event \<Rightarrow> room_db \<Rightarrow> room_db" where
  "save_other_state e d =
     (let d1 = d\<lparr>rd_events := fmupd (se_event_id e) e (rd_events d)\<rparr>
      in if se_type e = Unsupported then d1
         else if is_redacted (se_content e) then remove_redacted e d1
         else if se_state_key e = [] then d1\<lparr>rd_states := fmupd (se_type e) e (rd_states d1)\<rparr>
         else put_state_key (se_type e) (se_state_key e) (se_event_id e) d1)"

definition saveStateEvent :: "string \<Rightarrow> state_event \<Rightarrow> room_cache \<Rightarrow> room_cache" where
  "saveStateEvent room_id e c =
     (case se_content e of
        Member m display_name avatar \<Rightarrow>
          set_room_db room_id (save_member (se_state_key e) m display_name avatar (db_of room_id c)) c
      | Encryption _ \<Rightarrow> c\<lparr>rc_encrypted := finsert room_id (rc_encrypted c)\<rparr>
      | _ \<Rightarrow> set_room_db room_id (save_other_state e (db_of room_id c)) c)"

definition saveStateEvents :: "string \<Rightarrow> state_event list \<Rightarrow> room_cache \<Rightarrow> room_cache" where
  "saveStateEvents room_id events c = fold (saveStateEvent room_id) events c"

section \<open>Reading state\<close>

text \<open>
  A stored event is read as an event of the wanted content; what does not parse is as good as
  absent. The content of a redacted event is the empty object, which parses where every field of
  the content is optional.
\<close>

fun as_name where "as_name (Name n) = Some n" | "as_name _ = None"
fun as_topic where "as_topic (Topic t) = Some t" | "as_topic _ = None"
fun as_avatar where "as_avatar (Avatar u) = Some u" | "as_avatar _ = None"
fun as_alias where "as_alias (CanonicalAlias a) = Some a" | "as_alias _ = None"
fun as_create where "as_create (Create v s) = Some (v, s)" | "as_create _ = None"
fun as_join_rules where "as_join_rules (JoinRules j) = Some j" | "as_join_rules _ = None"
fun as_guest_access where "as_guest_access (GuestAccess g) = Some g" | "as_guest_access _ = None"
fun as_power_levels where "as_power_levels (PowerLevels p) = Some p" | "as_power_levels _ = None"

fun as_pinned where "as_pinned (PinnedEvents ids) = Some ids" | "as_pinned _ = None"

fun as_child :: "state_content \<Rightarrow> string list option option" where
  "as_child (Child via) = Some via"
| "as_child (Redacted _) = Some None"
| "as_child _ = None"

fun as_parent :: "state_content \<Rightarrow> (string list option \<times> bool) option" where
  "as_parent (Parent via canonical) = Some (via, canonical)"
| "as_parent (Redacted _) = Some (None, False)"
| "as_parent _ = None"

fun as_image_pack :: "state_content \<Rightarrow> image_pack option" where
  "as_image_pack (ImagePack p) = Some p"
| "as_image_pack (Redacted _) = Some \<lparr>ip_pack = None, ip_images = fmempty\<rparr>"
| "as_image_pack _ = None"

definition parsed :: "(state_content \<Rightarrow> 'a option) \<Rightarrow> state_event \<Rightarrow> (state_event \<times> 'a) option" where
  "parsed as e = map_option (Pair e) (as (se_content e))"

definition state_entry :: "event_type \<Rightarrow> string \<Rightarrow> room_db \<Rightarrow> state_event option" where
  "state_entry t key d =
     (if key = [] then fmlookup (rd_states d) t
      else Option.bind (fmlookup (rd_statekeys d t) key) (fmlookup (rd_events d)))"

definition getStateEvent ::
  "event_type \<Rightarrow> (state_content \<Rightarrow> 'a option) \<Rightarrow> string \<Rightarrow> string \<Rightarrow> room_cache
     \<Rightarrow> (state_event \<times> 'a) option"
where
  "getStateEvent t as room_id key c =
     (if room_id = [] then None else Option.bind (state_entry t key (db_of room_id c)) (parsed as))"

definition getStateEventsWithType ::
  "event_type \<Rightarrow> (state_content \<Rightarrow> 'a option) \<Rightarrow> string \<Rightarrow> room_cache \<Rightarrow> (state_event \<times> 'a) list"
where
  "getStateEventsWithType t as room_id c =
     (if room_id = [] then []
      else List.map_filter
             (\<lambda>(key, i). Option.bind (fmlookup (rd_events (db_of room_id c)) i) (parsed as))
             (sorted_list_of_fmap (rd_statekeys (db_of room_id c) t)))"

definition state_value ::
  "event_type \<Rightarrow> (state_content \<Rightarrow> 'a option) \<Rightarrow> (event_type, state_event) table \<Rightarrow> 'a option"
where
  "state_value t as states = Option.bind (fmlookup states t) (\<lambda>e. as (se_content e))"

section \<open>What a room looks like\<close>

definition getRoomAvatarUrl ::
  "string \<Rightarrow> (event_type, state_event) table \<Rightarrow> (string, member_info) table \<Rightarrow> string"
where
  "getRoomAvatarUrl local states members =
     (let fallback =
        (if fcard (fmdom members) > 2 then []
         else case filter (\<lambda>(u, m). u \<noteq> local) (sorted_list_of_fmap members) of
                (u, m) # _ \<Rightarrow> mi_avatar_url m
              | [] \<Rightarrow> (case fmlookup members local of Some m \<Rightarrow> mi_avatar_url m | None \<Rightarrow> []))
      in case state_value RoomAvatar as_avatar states of
           Some url \<Rightarrow> if url \<noteq> [] then url else fallback
         | None \<Rightarrow> fallback)"

definition first_member :: "string \<Rightarrow> (string \<times> member_info) list \<Rightarrow> string" where
  "first_member local members =
     (case filter (\<lambda>(u, m). u \<noteq> local) members of (u, m) # _ \<Rightarrow> mi_name m | [] \<Rightarrow> local)"

text \<open>The number shown is an \<open>int\<close>. \<open>others first n\<close> is the translation of ``first and n others''.\<close>

definition name_from_members ::
  "(string \<Rightarrow> string) \<Rightarrow> (string \<Rightarrow> int \<Rightarrow> string) \<Rightarrow> string \<Rightarrow> (string, member_info) table \<Rightarrow> string"
where
  "name_from_members tr others local members =
     (let total = fcard (fmdom members);
          firsts = take 3 (sorted_list_of_fmap members)
      in if total = 1 \<and> firsts \<noteq> [] then mi_name (snd (hd firsts))
         else if total = 2 then first_member local firsts
         else if total > 2 then
           others (first_member local firsts) (sint (word_of_nat total :: 32 word) - 1)
         else tr ''Empty Room'')"

definition getRoomName ::
  "(string \<Rightarrow> string) \<Rightarrow> (string \<Rightarrow> int \<Rightarrow> string) \<Rightarrow> string
     \<Rightarrow> (event_type, state_event) table \<Rightarrow> (string, member_info) table \<Rightarrow> string"
where
  "getRoomName tr others local states members =
     (case state_value RoomName as_name states of
        Some (n # ns) \<Rightarrow> n # ns
      | _ \<Rightarrow>
          (case state_value RoomCanonicalAlias as_alias states of
             Some (a # as) \<Rightarrow> a # as
           | _ \<Rightarrow> name_from_members tr others local members))"

definition getRoomJoinRule :: "(event_type, state_event) table \<Rightarrow> join_rule" where
  "getRoomJoinRule states =
     (case state_value RoomJoinRules as_join_rules states of Some j \<Rightarrow> j | None \<Rightarrow> Knock)"

definition getRoomGuestAccess :: "(event_type, state_event) table \<Rightarrow> bool" where
  "getRoomGuestAccess states =
     (case state_value RoomGuestAccess as_guest_access states of Some g \<Rightarrow> g | None \<Rightarrow> False)"

definition getRoomTopic :: "(event_type, state_event) table \<Rightarrow> string" where
  "getRoomTopic states = (case state_value RoomTopic as_topic states of Some t \<Rightarrow> t | None \<Rightarrow> [])"

definition getRoomVersion :: "(event_type, state_event) table \<Rightarrow> string" where
  "getRoomVersion states =
     (case state_value RoomCreate as_create states of
        Some (v, s) \<Rightarrow> if v \<noteq> [] then v else ''1''
      | None \<Rightarrow> ''1'')"

definition getRoomIsSpace :: "(event_type, state_event) table \<Rightarrow> bool" where
  "getRoomIsSpace states =
     (case state_value RoomCreate as_create states of Some (v, s) \<Rightarrow> s | None \<Rightarrow> False)"

definition getRoomAliases :: "string \<Rightarrow> room_cache \<Rightarrow> string option" where
  "getRoomAliases room_id c = state_value RoomCanonicalAlias as_alias (rd_states (db_of room_id c))"

text \<open>The encryption settings are looked up among the states.\<close>

definition room_encryption_settings :: "string \<Rightarrow> room_cache \<Rightarrow> string option" where
  "room_encryption_settings room_id c =
     map_option (\<lambda>e. case se_content e of Encryption s \<Rightarrow> s | _ \<Rightarrow> [])
       (fmlookup (rd_states (db_of room_id c)) RoomEncryption)"

section \<open>Members\<close>

record listed_member =
  rm_user_id :: string
  rm_display_name :: string
  rm_is_direct :: bool

text \<open>The index of the end is a \<open>size_t\<close>, its sum wraps.\<close>

definition members_page :: "u64 \<Rightarrow> u64 \<Rightarrow> (string, member_info) table \<Rightarrow> (string \<times> member_info) list" where
  "members_page startIndex len members =
     (let endIndex = min (startIndex + len) (word_of_nat (fcard (fmdom members)))
      in map snd (filter (\<lambda>(i, m). startIndex \<le> i \<and> i < endIndex)
           (zip (map word_of_nat [0..<fcard (fmdom members)]) (sorted_list_of_fmap members))))"

definition getMembers :: "string \<Rightarrow> u64 \<Rightarrow> u64 \<Rightarrow> room_cache \<Rightarrow> listed_member list" where
  "getMembers room_id startIndex len c =
     map (\<lambda>(u, m). \<lparr>rm_user_id = u, rm_display_name = mi_name m, rm_is_direct = False\<rparr>)
       (members_page startIndex len (rd_members (db_of room_id c)))"

definition invite_members :: "string \<Rightarrow> room_cache \<Rightarrow> (string, member_info) table" where
  "invite_members r c = (case fmlookup (rc_invite_members c) r of None \<Rightarrow> fmempty | Some m \<Rightarrow> m)"

definition invite_states :: "string \<Rightarrow> room_cache \<Rightarrow> (event_type, state_content) table" where
  "invite_states r c = (case fmlookup (rc_invite_states c) r of None \<Rightarrow> fmempty | Some m \<Rightarrow> m)"

definition getMembersFromInvite :: "string \<Rightarrow> u64 \<Rightarrow> u64 \<Rightarrow> room_cache \<Rightarrow> listed_member list" where
  "getMembersFromInvite room_id startIndex len c =
     map (\<lambda>(u, m). \<lparr>rm_user_id = u, rm_display_name = mi_name m, rm_is_direct = mi_is_direct m\<rparr>)
       (members_page startIndex len (invite_members room_id c))"

definition getMember :: "string \<Rightarrow> string \<Rightarrow> room_cache \<Rightarrow> member_info option" where
  "getMember room_id user_id c =
     (if user_id = [] then None else fmlookup (rd_members (db_of room_id c)) user_id)"

definition memberCount :: "string \<Rightarrow> room_cache \<Rightarrow> nat" where
  "memberCount room_id c = fcard (fmdom (rd_members (db_of room_id c)))"

definition member_ids :: "string \<Rightarrow> room_cache \<Rightarrow> string list" where
  "member_ids room_id c = sorted_list_of_fset (fmdom (rd_members (db_of room_id c)))"

text \<open>
  Despite its name the code's function is true of a name nothing of which is visible. Decoding to
  code points and which of them print are Qt's.
\<close>

definition isDisplaynameSafe :: "(string \<Rightarrow> 'c list) \<Rightarrow> ('c \<Rightarrow> bool) \<Rightarrow> ('c \<Rightarrow> bool) \<Rightarrow> string \<Rightarrow> bool" where
  "isDisplaynameSafe decode isPrint isSpace s = list_all (\<lambda>c. \<not> (isPrint c \<and> \<not> isSpace c)) (decode s)"

definition displayName ::
  "(string \<Rightarrow> 'c list) \<Rightarrow> ('c \<Rightarrow> bool) \<Rightarrow> ('c \<Rightarrow> bool) \<Rightarrow> string \<Rightarrow> string \<Rightarrow> room_cache \<Rightarrow> string"
where
  "displayName decode isPrint isSpace room_id user_id c =
     (case getMember room_id user_id c of
        Some info \<Rightarrow> if \<not> isDisplaynameSafe decode isPrint isSpace (mi_name info) then mi_name info
                     else user_id
      | None \<Rightarrow> user_id)"

definition avatarUrl :: "string \<Rightarrow> string \<Rightarrow> room_cache \<Rightarrow> string" where
  "avatarUrl room_id user_id c =
     (case getMember room_id user_id c of Some info \<Rightarrow> mi_avatar_url info | None \<Rightarrow> [])"

section \<open>Power levels\<close>

text \<open>\<open>int64_t\<close> values, only compared.\<close>

abbreviation int64_max :: int where "int64_max \<equiv> 9223372036854775807"
abbreviation int64_min :: int where "int64_min \<equiv> - 9223372036854775808"

definition hasEnoughPowerLevel ::
  "(power_levels \<Rightarrow> string \<Rightarrow> int) \<Rightarrow> (power_levels \<Rightarrow> event_type \<Rightarrow> int) \<Rightarrow> event_type list
     \<Rightarrow> string \<Rightarrow> string \<Rightarrow> room_cache \<Rightarrow> bool"
where
  "hasEnoughPowerLevel user_level state_level types room_id user_id c =
     (case state_value RoomPowerLevels as_power_levels (rd_states (db_of room_id c)) of
        Some pl \<Rightarrow> user_level pl user_id \<ge> fold (\<lambda>t m. min m (state_level pl t)) types int64_max
      | None \<Rightarrow> int64_min \<ge> int64_max)"

end
