(* ===== verification/Room_Spaces.thy ===== *)
theory Room_Spaces
  imports Room_State
begin

text \<open>
  Spaces (\<open>src/src/Cache.cpp\<close>): which rooms belong to which space, in the two tables
  \<open>spacesChildrenDb_\<close> and \<open>spacesParentsDb_\<close>, how they are recomputed from the rooms' state, and
  the search for image packs along the canonical parents of a room.

  The search recurses over rooms and may meet a room again; its model has fuel, and
  \<open>Room_Properties\<close> shows that the fuel given is enough. mtxclient's functions on power levels
  are the record \<open>level_ops\<close> of parameters.
\<close>

section \<open>Recomputing the spaces\<close>

record level_ops =
  user_level :: "power_levels \<Rightarrow> string \<Rightarrow> int"
  state_level :: "power_levels \<Rightarrow> event_type \<Rightarrow> int"

definition room_ids :: "room_cache \<Rightarrow> string list" where
  "room_ids c = sorted_list_of_fset (fmdom (rc_rooms c))"

definition names_a_room :: "string list option \<Rightarrow> string \<Rightarrow> bool" where
  "names_a_room via key \<longleftrightarrow> via \<noteq> None \<and> 3 < length key \<and> hd key = CHR ''!''"

definition put_child :: "string \<Rightarrow> string \<Rightarrow> room_cache \<Rightarrow> room_cache" where
  "put_child space child c =
     c\<lparr>rc_space_children := finsert (space, child) (rc_space_children c),
       rc_space_parents := finsert (child, space) (rc_space_parents c)\<rparr>"

definition delete_old_entries :: "string \<Rightarrow> room_cache \<Rightarrow> room_cache" where
  "delete_old_entries space c =
     c\<lparr>rc_space_parents := fold (\<lambda>ch ps. ps |-| {|(ch, space)|}) (dup_values (rc_space_children c) space)
          (rc_space_parents c),
       rc_space_children := dup_del_key (rc_space_children c) space\<rparr>"

definition add_children :: "string \<Rightarrow> room_cache \<Rightarrow> room_cache" where
  "add_children space c =
     fold (\<lambda>(e, via) c. if names_a_room via (se_state_key e) then put_child space (se_state_key e) c else c)
       (getStateEventsWithType SpaceChild as_child space c) c"

definition rooms_with_parent :: "string \<Rightarrow> room_cache \<Rightarrow> string list" where
  "rooms_with_parent space c =
     filter (\<lambda>r. getStateEvent SpaceParent as_parent r space c \<noteq> None) (room_ids c)"

definition rebuild_space :: "string \<Rightarrow> room_cache \<times> string fset \<Rightarrow> room_cache \<times> string fset" where
  "rebuild_space space st =
     (let c = add_children space (delete_old_entries space (fst st))
      in (c, snd st |\<union>| fset_of_list (rooms_with_parent space c)))"

definition may_add :: "level_ops \<Rightarrow> state_event \<Rightarrow> string \<Rightarrow> room_cache \<Rightarrow> bool" where
  "may_add lv e space c =
     (case getStateEvent RoomPowerLevels as_power_levels space [] c of
        None \<Rightarrow> False
      | Some (_, pl) \<Rightarrow> user_level lv pl (se_sender e) \<ge> state_level lv pl SpaceChild)"

definition add_to_parents :: "level_ops \<Rightarrow> string \<Rightarrow> room_cache \<Rightarrow> room_cache" where
  "add_to_parents lv room c =
     fold (\<lambda>(e, via, canonical) c.
         if names_a_room via (se_state_key e) \<and> may_add lv e (se_state_key e) c
         then put_child (se_state_key e) room c else c)
       (getStateEventsWithType SpaceParent as_parent room c) c"

definition updateSpaces :: "level_ops \<Rightarrow> string fset \<Rightarrow> string fset \<Rightarrow> room_cache \<Rightarrow> room_cache" where
  "updateSpaces lv spaces_with_updates rooms_with_updates c =
     (let (c1, rooms) = fold rebuild_space (sorted_list_of_fset spaces_with_updates) (c, rooms_with_updates)
      in fold (add_to_parents lv) (sorted_list_of_fset rooms) c1)"

section \<open>Looking spaces up\<close>

text \<open>A room's entry as it reads back from the table.\<close>

definition read_room_info :: "join_rule room_info \<Rightarrow> join_rule room_info" where
  "read_room_info i =
     i\<lparr>ri_approximate_last_modification_ts := repaired_ts (ri_approximate_last_modification_ts i)\<rparr>"

definition spaces :: "room_cache \<Rightarrow> (string, join_rule room_info option) fmap" where
  "spaces c =
     fold (\<lambda>(s, ch) m. if ch \<noteq> [] then fmupd s (map_option read_room_info (fmlookup (rc_rooms c) s)) m else m)
       (sorted_list_of_fset (rc_space_children c)) fmempty"

definition getParentRoomIds :: "string \<Rightarrow> room_cache \<Rightarrow> string list" where
  "getParentRoomIds room_id c = filter (\<lambda>p. p \<noteq> []) (dup_values (rc_space_parents c) room_id)"

definition getChildRoomIds :: "string \<Rightarrow> room_cache \<Rightarrow> string list" where
  "getChildRoomIds room_id c = filter (\<lambda>p. p \<noteq> []) (dup_values (rc_space_children c) room_id)"

section \<open>Image packs\<close>

record image_pack_info =
  ii_source_room :: string
  ii_state_key :: string
  ii_pack :: image_pack
  ii_from_space :: bool

text \<open>\<open>stickers\<close> asks for stickers only (\<open>Some True\<close>), emoji only (\<open>Some False\<close>) or both.\<close>

definition image_wanted :: "bool option \<Rightarrow> image_pack \<Rightarrow> pack_image \<Rightarrow> bool" where
  "image_wanted stickers pack img =
     (case stickers of
        None \<Rightarrow> True
      | Some st \<Rightarrow>
          (if pi_overrides_usage img then (if st then pi_is_sticker img else pi_is_emoji img)
           else case ip_pack pack of
                  None \<Rightarrow> True
                | Some (is_sticker, is_emoji) \<Rightarrow> if st then is_sticker else is_emoji))"

definition addPack ::
  "bool option \<Rightarrow> image_pack \<Rightarrow> string \<Rightarrow> string \<Rightarrow> bool \<Rightarrow> image_pack_info list \<Rightarrow> image_pack_info list"
where
  "addPack stickers pack source_room state_key from_space infos =
     (let images = fmfilter (\<lambda>k. case fmlookup (ip_images pack) k of
                        None \<Rightarrow> False | Some img \<Rightarrow> image_wanted stickers pack img) (ip_images pack)
      in if images = fmempty then infos
         else infos @ [\<lparr>ii_source_room = source_room, ii_state_key = state_key,
                 ii_pack = \<lparr>ip_pack = ip_pack pack, ip_images = images\<rparr>, ii_from_space = from_space\<rparr>])"

definition account_data :: "string \<Rightarrow> string \<Rightarrow> room_cache \<Rightarrow> account_event option" where
  "account_data t room_id c = fmlookup (rd_account_data (db_of room_id c)) t"

definition account_packs :: "bool option \<Rightarrow> room_cache \<Rightarrow> image_pack_info list \<Rightarrow> image_pack_info list" where
  "account_packs stickers c infos =
     (case account_data ''im.ponies.user_emotes'' [] c of
        Some (AccountPack p) \<Rightarrow> addPack stickers p [] [] False infos
      | _ \<Rightarrow> infos)"

definition global_packs ::
  "bool option \<Rightarrow> string \<Rightarrow> room_cache \<Rightarrow> image_pack_info list \<Rightarrow> image_pack_info list"
where
  "global_packs stickers room_id c infos =
     (case account_data ''im.ponies.emote_rooms'' [] c of
        Some (AccountPackRooms rooms) \<Rightarrow>
          fold (\<lambda>(r, keys) infos.
              if r = room_id then infos
              else fold (\<lambda>key infos.
                  case getStateEvent ImagePackInRoom as_image_pack r key c of
                    Some (_, p) \<Rightarrow> addPack stickers p r key False infos
                  | None \<Rightarrow> infos) keys infos)
            (sorted_list_of_fmap rooms) infos
      | _ \<Rightarrow> infos)"

definition room_packs ::
  "bool option \<Rightarrow> string \<Rightarrow> room_cache \<Rightarrow> string \<Rightarrow> image_pack_info list \<Rightarrow> image_pack_info list"
where
  "room_packs stickers room_id c current infos =
     fold (\<lambda>(e, p). addPack stickers p current (se_state_key e) (current \<noteq> room_id))
       (getStateEventsWithType ImagePackInRoom as_image_pack current c)
       (case getStateEvent ImagePackInRoom as_image_pack current [] c of
          Some (_, p) \<Rightarrow> addPack stickers p current [] (current \<noteq> room_id) infos
        | None \<Rightarrow> infos)"

definition canonical_parents :: "room_cache \<Rightarrow> string \<Rightarrow> string list" where
  "canonical_parents c current =
     map (\<lambda>(e, _). se_state_key e)
       (filter (\<lambda>(e, via, canonical). canonical \<and> (\<exists>v \<in> set_option via. v \<noteq> []))
         (getStateEventsWithType SpaceParent as_parent current c))"

fun add_room_and_canonical_parents ::
  "nat \<Rightarrow> bool option \<Rightarrow> string \<Rightarrow> room_cache \<Rightarrow> string \<Rightarrow> string fset \<times> image_pack_info list
     \<Rightarrow> (string fset \<times> image_pack_info list) option"
where
  "add_room_and_canonical_parents 0 stickers room_id c current st = None"
| "add_room_and_canonical_parents (Suc n) stickers room_id c current (visited, infos) =
     (if current |\<in>| visited then Some (visited, infos)
      else fold_opt (add_room_and_canonical_parents n stickers room_id c) (canonical_parents c current)
             (finsert current visited, room_packs stickers room_id c current infos))"

definition pack_fuel :: "room_cache \<Rightarrow> nat" where
  "pack_fuel c = fcard (fmdom (rc_room_dbs c)) + 2"

definition getImagePacks :: "string \<Rightarrow> bool option \<Rightarrow> room_cache \<Rightarrow> image_pack_info list option" where
  "getImagePacks room_id stickers c =
     map_option snd
       (add_room_and_canonical_parents (pack_fuel c) stickers room_id c room_id
         ({||}, global_packs stickers room_id c (account_packs stickers c [])))"

end
