(* ===== verification/Room_Sync.thy ===== *)
theory Room_Sync
  imports Room_Spaces
begin

text \<open>
  What a sync response does to the rooms in the cache (\<open>saveState\<close> of \<open>src/src/Cache.cpp\<close> and the
  functions it calls): joined rooms with their state, account data and receipts, invites, presence
  and rooms that were left; and the queries on the rooms.

  The events of the timeline are stored by another component (\<open>Timeline_Store\<close>); what it does to the
  state events among the stored events is the parameter \<open>timeline\<close>. Which rooms are unread
  (\<open>unread\<close>) is decided there too. The transaction of a sync commits as a whole.
\<close>

section \<open>The sync response\<close>

datatype message_kind = WithMsgtype | EncryptedMessage | CallInviteMessage | CallAnswerMessage
  | CallHangUpMessage | NotAMessage

datatype timeline_event =
    StateInTimeline state_event
  | RoomEvent message_kind u64

record event_receipts =
  er_read :: "(string, u64) fmap option"
  er_read_private :: "(string, u64) fmap option"

record joined_room =
  jr_state :: "state_event list"
  jr_timeline :: "timeline_event list"
  jr_notification_count :: "16 word"
  jr_highlight_count :: "16 word"
  jr_account_data :: "account_event list"
  jr_receipts :: "(string, event_receipts) fmap list"

text \<open>An invite shows members (state key, display name, avatar, direct) and other stripped state.\<close>

datatype stripped_event =
    StrippedMember string string string bool
  | StrippedState state_content

record sync_response =
  sy_next_batch :: string
  sy_account_data :: "account_event list"
  sy_join :: "(string, joined_room) fmap"
  sy_invite :: "(string, stripped_event list) fmap"
  sy_leave :: "string fset"
  sy_presence :: "(string \<times> string) list"

fun isMessage :: "message_kind \<Rightarrow> bool" where
  "isMessage WithMsgtype = True"
| "isMessage EncryptedMessage = True"
| "isMessage CallInviteMessage = True"
| "isMessage CallAnswerMessage = True"
| "isMessage CallHangUpMessage = True"
| "isMessage NotAMessage = False"

fun state_events_of :: "timeline_event list \<Rightarrow> state_event list" where
  "state_events_of [] = []"
| "state_events_of (StateInTimeline e # es) = e # state_events_of es"
| "state_events_of (RoomEvent _ _ # es) = state_events_of es"

definition all_state :: "joined_room \<Rightarrow> state_event list" where
  "all_state r = jr_state r @ state_events_of (jr_timeline r)"

section \<open>Account data\<close>

fun account_key :: "account_event \<Rightarrow> string" where
  "account_key (Tags _) = ''m.tag''"
| "account_key (FullyRead _) = ''m.fully_read''"
| "account_key (HiddenEvents _) = ''im.nheko.hidden_events''"
| "account_key (AccountPack _) = ''im.ponies.user_emotes''"
| "account_key (AccountPackRooms _) = ''im.ponies.emote_rooms''"
| "account_key (OtherAccount t _) = t"

fun save_account_event :: "account_event \<Rightarrow> (string, account_event) table \<Rightarrow> (string, account_event) table" where
  "save_account_event (HiddenEvents None) t = fmdrop ''im.nheko.hidden_events'' t"
| "save_account_event e t = fmupd (account_key e) e t"

definition save_account_data :: "string \<Rightarrow> account_event list \<Rightarrow> room_cache \<Rightarrow> room_cache" where
  "save_account_data room_id es c =
     (if es = [] then c
      else let d = db_of room_id c
           in set_room_db room_id (d\<lparr>rd_account_data := fold save_account_event es (rd_account_data d)\<rparr>) c)"

text \<open>The room's tags are those of the last tag event; a fully read marker clears its notification.\<close>

fun tags_after :: "account_event \<Rightarrow> string list \<Rightarrow> string list" where
  "tags_after (Tags ts) _ = ts"
| "tags_after _ ts = ts"

fun fully_read_signal :: "string \<Rightarrow> account_event \<Rightarrow> cache_signal list" where
  "fully_read_signal room_id (FullyRead e) = [RemoveNotification room_id e]"
| "fully_read_signal room_id _ = []"

section \<open>Receipts\<close>

definition merge_receipts ::
  "string \<Rightarrow> string \<Rightarrow> string \<times> (string, u64) fmap \<Rightarrow> room_cache \<Rightarrow> room_cache"
where
  "merge_receipts local room_id receipt c =
     (let (event_id, users) = receipt;
          saved = (case fmlookup (rc_receipts c) (event_id, room_id) of None \<Rightarrow> fmempty | Some m \<Rightarrow> m)
      in c\<lparr>rc_receipts := fmupd (event_id, room_id) (fold emplace (sorted_list_of_fmap users) saved)
             (rc_receipts c),
           rc_signals := rc_signals c @
             (if local |\<in>| fmdom users then [RemoveNotification room_id event_id] else [])\<rparr>)"

definition updateReadReceipt ::
  "string \<Rightarrow> string \<Rightarrow> (string, (string, u64) fmap) fmap \<Rightarrow> room_cache \<Rightarrow> room_cache"
where
  "updateReadReceipt local room_id receipts c =
     fold (merge_receipts local room_id) (sorted_list_of_fmap receipts) c"

definition add_receipt ::
  "string \<Rightarrow> string \<Rightarrow> u64 \<Rightarrow> (string, (string, u64) fmap) fmap \<Rightarrow> (string, (string, u64) fmap) fmap"
where
  "add_receipt event_id user ts receipts =
     fmupd event_id
       (fmupd user ts (case fmlookup receipts event_id of None \<Rightarrow> fmempty | Some m \<Rightarrow> m)) receipts"

definition collect_receipts ::
  "string \<Rightarrow> (string, event_receipts) fmap \<Rightarrow> (string, (string, u64) fmap) fmap"
where
  "collect_receipts local content =
     fold (\<lambda>(event_id, er) receipts.
         let with_public =
               (case er_read er of
                  None \<Rightarrow> receipts
                | Some users \<Rightarrow> fold (\<lambda>(u, ts). add_receipt event_id u ts) (sorted_list_of_fmap users) receipts)
         in case Option.bind (er_read_private er) (\<lambda>users. fmlookup users local) of
              None \<Rightarrow> with_public
            | Some ts \<Rightarrow> if ts \<noteq> 0 then add_receipt event_id local ts with_public else with_public)
       (sorted_list_of_fmap content) fmempty"

text \<open>The readers of an event, the latest receipt first; readers of the same time in key order.\<close>

definition readReceipts :: "string \<Rightarrow> string \<Rightarrow> room_cache \<Rightarrow> (u64 \<times> string) list" where
  "readReceipts event_id room_id c =
     (case fmlookup (rc_receipts c) (event_id, room_id) of
        None \<Rightarrow> []
      | Some users \<Rightarrow> sort_key (\<lambda>(ts, u). - uint ts) (map (\<lambda>(u, ts). (ts, u)) (sorted_list_of_fmap users)))"

definition others_receipts :: "string \<Rightarrow> (string, event_receipts) fmap \<Rightarrow> string list" where
  "others_receipts local content =
     map fst (filter (\<lambda>(event_id, er). \<exists>users \<in> set_option (er_read er). \<exists>u \<in> set (map fst (sorted_list_of_fmap users)). u \<noteq> local)
       (sorted_list_of_fmap content))"

section \<open>A joined room\<close>

definition new_room_info :: "join_rule room_info" where
  "new_room_info = \<lparr>ri_name = [], ri_topic = [], ri_avatar_url = [], ri_version = [],
     ri_is_invite = False, ri_is_space = False, ri_member_count = 0,
     ri_join_rule = OtherRule ''public'', ri_guest_access = False, ri_tags = [],
     ri_approximate_last_modification_ts = 0, ri_highlight_count = 0, ri_notification_count = 0\<rparr>"

record text_ops =
  tx_tr :: "string \<Rightarrow> string"
  tx_others :: "string \<Rightarrow> int \<Rightarrow> string"
  tx_local :: string

definition describe_room ::
  "text_ops \<Rightarrow> string \<Rightarrow> room_cache \<Rightarrow> join_rule room_info \<Rightarrow> join_rule room_info"
where
  "describe_room tx r c info =
     (let states = rd_states (db_of r c); members = rd_members (db_of r c)
      in info\<lparr>ri_name := getRoomName (tx_tr tx) (tx_others tx) (tx_local tx) states members,
           ri_topic := getRoomTopic states,
           ri_avatar_url := getRoomAvatarUrl (tx_local tx) states members,
           ri_version := getRoomVersion states,
           ri_is_space := getRoomIsSpace states\<rparr>)"

text \<open>State that \<open>updateState\<close> fetched.\<close>

definition updateState ::
  "text_ops \<Rightarrow> level_ops \<Rightarrow> string \<Rightarrow> state_event list \<Rightarrow> room_cache \<Rightarrow> room_cache"
where
  "updateState tx lv room events c =
     (let c1 = saveStateEvents room events c;
          old = (case fmlookup (rc_rooms c1) room of Some i \<Rightarrow> read_room_info i | None \<Rightarrow> new_room_info);
          c2 = c1\<lparr>rc_rooms := fmupd room (describe_room tx room c1 old) (rc_rooms c1)\<rparr>
      in updateSpaces lv {|room|} {|room|} c2)"

definition is_space_update :: "state_event \<Rightarrow> bool" where
  "is_space_update e = (case se_content e of Child _ \<Rightarrow> True | PowerLevels _ \<Rightarrow> True | _ \<Rightarrow> False)"

definition parent_keys :: "state_event list \<Rightarrow> string list" where
  "parent_keys es =
     map se_state_key (filter (\<lambda>e. case se_content e of Parent _ _ \<Rightarrow> True | _ \<Rightarrow> False) es)"

definition space_updates :: "string \<Rightarrow> joined_room \<Rightarrow> bool \<Rightarrow> string fset \<times> string fset \<Rightarrow> string fset \<times> string fset" where
  "space_updates r jr is_space upd =
     (let (spaces, rooms) = upd;
          spaces1 = (if is_space \<and> list_ex is_space_update (all_state jr) then finsert r spaces else spaces);
          parents = parent_keys (all_state jr)
      in (spaces1 |\<union>| fset_of_list parents, if parents \<noteq> [] then finsert r rooms else rooms))"

fun last_message_ts :: "timeline_event list \<Rightarrow> u64 \<Rightarrow> u64" where
  "last_message_ts [] ts = ts"
| "last_message_ts (RoomEvent k t # es) ts = last_message_ts es (if isMessage k then t else ts)"
| "last_message_ts (StateInTimeline _ # es) ts = last_message_ts es ts"

definition save_events ::
  "(string \<Rightarrow> timeline_event list \<Rightarrow> (string, state_event) table \<Rightarrow> (string, state_event) table)
     \<Rightarrow> string \<Rightarrow> joined_room \<Rightarrow> room_cache \<Rightarrow> room_cache"
where
  "save_events timeline r jr c =
     (let c1 = saveStateEvents r (state_events_of (jr_timeline jr)) (saveStateEvents r (jr_state jr) c);
          d = db_of r c1
      in set_room_db r (d\<lparr>rd_events := timeline r (jr_timeline jr) (rd_events d)\<rparr>) c1)"

definition joined_info :: "text_ops \<Rightarrow> string \<Rightarrow> joined_room \<Rightarrow> room_cache \<Rightarrow> join_rule room_info" where
  "joined_info tx r jr c =
     (let kept = (case fmlookup (rc_rooms c) r of
              None \<Rightarrow> new_room_info
            | Some old \<Rightarrow> new_room_info\<lparr>ri_tags := ri_tags old,
                ri_approximate_last_modification_ts := repaired_ts (ri_approximate_last_modification_ts old)\<rparr>)
      in (describe_room tx r c kept)\<lparr>ri_notification_count := jr_notification_count jr,
           ri_highlight_count := jr_highlight_count jr\<rparr>)"

definition finish_info :: "joined_room \<Rightarrow> join_rule room_info \<Rightarrow> join_rule room_info" where
  "finish_info jr i =
     i\<lparr>ri_tags := fold tags_after (jr_account_data jr) (ri_tags i),
       ri_approximate_last_modification_ts :=
         last_message_ts (jr_timeline jr) (ri_approximate_last_modification_ts i)\<rparr>"

definition remove_invite :: "string \<Rightarrow> room_cache \<Rightarrow> room_cache" where
  "remove_invite r c =
     c\<lparr>rc_invites := fmdrop r (rc_invites c), rc_invite_states := fmdrop r (rc_invite_states c),
       rc_invite_members := fmdrop r (rc_invite_members c)\<rparr>"

definition save_joined_room ::
  "text_ops \<Rightarrow> (string \<Rightarrow> timeline_event list \<Rightarrow> (string, state_event) table \<Rightarrow> (string, state_event) table)
     \<Rightarrow> string \<times> joined_room \<Rightarrow> room_cache \<times> string fset \<times> string fset
     \<Rightarrow> room_cache \<times> string fset \<times> string fset"
where
  "save_joined_room tx timeline room st =
     (let (r, jr) = room; (c, upd) = st;
          c1 = save_events timeline r jr c;
          info = joined_info tx r jr c1;
          upd1 = space_updates r jr (ri_is_space info) upd;
          c2 = save_account_data r (jr_account_data jr) c1;
          c3 = c2\<lparr>rc_rooms := fmupd r (finish_info jr info) (rc_rooms c2),
                  rc_signals := rc_signals c2 @ concat (map (fully_read_signal r) (jr_account_data jr))\<rparr>;
          c4 = fold (\<lambda>content. updateReadReceipt (tx_local tx) r (collect_receipts (tx_local tx) content))
                 (jr_receipts jr) c3
      in (remove_invite r c4, upd1))"

section \<open>Invites, presence and rooms that were left\<close>

fun save_stripped :: "string \<Rightarrow> stripped_event \<Rightarrow> room_cache \<Rightarrow> room_cache" where
  "save_stripped r (StrippedMember key display_name avatar direct) c =
     c\<lparr>rc_invite_members := fmupd r
        (fmupd key ((member_entry key display_name avatar)\<lparr>mi_is_direct := direct\<rparr>) (invite_members r c))
        (rc_invite_members c)\<rparr>"
| "save_stripped r (StrippedState content) c =
     c\<lparr>rc_invite_states := fmupd r (fmupd (content_type content) content (invite_states r c))
        (rc_invite_states c)\<rparr>"

definition saveInvite :: "string \<Rightarrow> stripped_event list \<Rightarrow> room_cache \<Rightarrow> room_cache" where
  "saveInvite r es c = fold (save_stripped r) es c"

definition stripped_value ::
  "event_type \<Rightarrow> (state_content \<Rightarrow> 'a option) \<Rightarrow> (event_type, state_content) table \<Rightarrow> 'a option"
where
  "stripped_value t as states = Option.bind (fmlookup states t) as"

definition first_other :: "string \<Rightarrow> (string, member_info) table \<Rightarrow> member_info option" where
  "first_other local members =
     (case filter (\<lambda>(u, m). u \<noteq> local) (sorted_list_of_fmap members) of
        [] \<Rightarrow> None | (u, m) # _ \<Rightarrow> Some m)"

definition getInviteRoomName ::
  "text_ops \<Rightarrow> (event_type, state_content) table \<Rightarrow> (string, member_info) table \<Rightarrow> string"
where
  "getInviteRoomName tx states members =
     (case stripped_value RoomName as_name states of
        Some n \<Rightarrow> n
      | None \<Rightarrow> (case first_other (tx_local tx) members of
                   Some m \<Rightarrow> mi_name m | None \<Rightarrow> tx_tr tx ''Empty Room''))"

definition getInviteRoomAvatarUrl ::
  "text_ops \<Rightarrow> (event_type, state_content) table \<Rightarrow> (string, member_info) table \<Rightarrow> string"
where
  "getInviteRoomAvatarUrl tx states members =
     (case stripped_value RoomAvatar as_avatar states of
        Some u \<Rightarrow> u
      | None \<Rightarrow> (case first_other (tx_local tx) members of Some m \<Rightarrow> mi_avatar_url m | None \<Rightarrow> []))"

definition getInviteRoomTopic :: "(event_type, state_content) table \<Rightarrow> string" where
  "getInviteRoomTopic states =
     (case stripped_value RoomTopic as_topic states of Some t \<Rightarrow> t | None \<Rightarrow> [])"

definition getInviteRoomIsSpace :: "(event_type, state_content) table \<Rightarrow> bool" where
  "getInviteRoomIsSpace states =
     (case stripped_value RoomCreate as_create states of Some (v, s) \<Rightarrow> s | None \<Rightarrow> False)"

definition saveInvites :: "text_ops \<Rightarrow> (string, stripped_event list) fmap \<Rightarrow> room_cache \<Rightarrow> room_cache" where
  "saveInvites tx rooms c =
     fold (\<lambda>(r, es) c.
         let c1 = saveInvite r es c; states = invite_states r c1; members = invite_members r c1
         in c1\<lparr>rc_invites := fmupd r
              (new_room_info\<lparr>ri_name := getInviteRoomName tx states members,
                 ri_topic := getInviteRoomTopic states,
                 ri_avatar_url := getInviteRoomAvatarUrl tx states members,
                 ri_is_space := getInviteRoomIsSpace states, ri_is_invite := True\<rparr>)
              (rc_invites c1)\<rparr>)
       (sorted_list_of_fmap rooms) c"

definition savePresence :: "(string \<times> string) list \<Rightarrow> room_cache \<Rightarrow> room_cache" where
  "savePresence updates c =
     c\<lparr>rc_presence := fold (\<lambda>(sender, p). fmupd sender p) updates (rc_presence c)\<rparr>"

text \<open>The presence of a user nothing is known of is \<open>offline\<close>.\<close>

definition presence :: "string \<Rightarrow> string \<Rightarrow> room_cache \<Rightarrow> string" where
  "presence offline user_id c =
     (if user_id = [] then offline
      else case fmlookup (rc_presence c) user_id of Some p \<Rightarrow> p | None \<Rightarrow> offline)"

definition remove_room :: "string \<Rightarrow> room_cache \<Rightarrow> room_cache" where
  "remove_room r c =
     (let c1 = c\<lparr>rc_rooms := fmdrop r (rc_rooms c)\<rparr>
      in set_room_db r ((db_of r c1)\<lparr>rd_states := fmempty, rd_account_data := fmempty,
           rd_members := fmempty\<rparr>) c1)"

definition removeLeftRooms :: "string fset \<Rightarrow> room_cache \<Rightarrow> room_cache" where
  "removeLeftRooms rooms c =
     fold (\<lambda>r c. remove_invite r (remove_room r c)) (sorted_list_of_fset rooms) c"

section \<open>Saving a sync\<close>

definition receipt_signals :: "string \<Rightarrow> string \<times> joined_room \<Rightarrow> cache_signal list" where
  "receipt_signals local room =
     concat (map (\<lambda>content. let ids = others_receipts local content
                            in if ids \<noteq> [] then [NewReadReceipts (fst room) ids] else [])
               (jr_receipts (snd room)))"

definition commit_sync ::
  "text_ops \<Rightarrow> level_ops
     \<Rightarrow> (string \<Rightarrow> timeline_event list \<Rightarrow> (string, state_event) table \<Rightarrow> (string, state_event) table)
     \<Rightarrow> sync_response \<Rightarrow> room_cache \<Rightarrow> room_cache"
where
  "commit_sync tx lv timeline res c =
     (let c1 = save_account_data [] (sy_account_data res) (c\<lparr>rc_next_batch := Some (sy_next_batch res)\<rparr>);
          (c2, spaces, rooms) =
            fold (save_joined_room tx timeline) (sorted_list_of_fmap (sy_join res)) (c1, {||}, {||});
          c3 = savePresence (sy_presence res) (saveInvites tx (sy_invite res) c2)
      in updateSpaces lv spaces rooms (removeLeftRooms (sy_leave res) c3))"

definition saveState ::
  "text_ops \<Rightarrow> level_ops
     \<Rightarrow> (string \<Rightarrow> timeline_event list \<Rightarrow> (string, state_event) table \<Rightarrow> (string, state_event) table)
     \<Rightarrow> (room_cache \<Rightarrow> string \<Rightarrow> bool) \<Rightarrow> sync_response \<Rightarrow> room_cache \<Rightarrow> room_cache"
where
  "saveState tx lv timeline unread res c =
     (let c1 = commit_sync tx lv timeline res c
      in c1\<lparr>rc_signals := rc_signals c1
              @ concat (map (receipt_signals (tx_local tx)) (sorted_list_of_fmap (sy_join res)))
              @ [RoomReadStatus (fmap_of_list (map (\<lambda>(r, _). (r, unread c1 r))
                   (sorted_list_of_fmap (sy_join res))))]\<rparr>)"

section \<open>Queries\<close>

text \<open>The events the list of rooms shows something of.\<close>

definition is_state_update :: "timeline_event \<Rightarrow> bool" where
  "is_state_update e = (case e of StateInTimeline _ \<Rightarrow> True | RoomEvent _ _ \<Rightarrow> False)"

fun stripped_update :: "stripped_event \<Rightarrow> bool" where
  "stripped_update (StrippedMember _ _ _ _) = True"
| "stripped_update (StrippedState (Avatar _)) = True"
| "stripped_update (StrippedState (CanonicalAlias _)) = True"
| "stripped_update (StrippedState (Name _)) = True"
| "stripped_update (StrippedState (Topic _)) = True"
| "stripped_update (StrippedState _) = False"

definition roomsWithStateUpdates :: "sync_response \<Rightarrow> string list" where
  "roomsWithStateUpdates res =
     map fst (filter (\<lambda>(r, jr). jr_state jr \<noteq> [] \<or> list_ex is_state_update (jr_timeline jr))
       (sorted_list_of_fmap (sy_join res)))
     @ map fst (filter (\<lambda>(r, es). list_ex stripped_update es) (sorted_list_of_fmap (sy_invite res)))"

definition counted :: "nat \<Rightarrow> join_rule room_info \<Rightarrow> join_rule room_info" where
  "counted n i = (read_room_info i)\<lparr>ri_member_count := word_of_nat n\<rparr>"

definition joined_room_info :: "string \<Rightarrow> room_cache \<Rightarrow> join_rule room_info \<Rightarrow> join_rule room_info" where
  "joined_room_info r c i =
     (counted (memberCount r c) i)\<lparr>ri_join_rule := getRoomJoinRule (rd_states (db_of r c)),
        ri_guest_access := getRoomGuestAccess (rd_states (db_of r c))\<rparr>"

definition singleRoomInfo :: "string \<Rightarrow> room_cache \<Rightarrow> join_rule room_info" where
  "singleRoomInfo room_id c =
     (case fmlookup (rc_rooms c) room_id of
        Some i \<Rightarrow> joined_room_info room_id c i
      | None \<Rightarrow> new_room_info)"

definition updateLastMessageTimestamp :: "string \<Rightarrow> u64 \<Rightarrow> room_cache \<Rightarrow> room_cache" where
  "updateLastMessageTimestamp room_id ts c =
     (case fmlookup (rc_rooms c) room_id of
        Some i \<Rightarrow> c\<lparr>rc_rooms := fmupd room_id
                    ((read_room_info i)\<lparr>ri_approximate_last_modification_ts := ts\<rparr>) (rc_rooms c)\<rparr>
      | None \<Rightarrow> c)"

definition invited_room_info :: "string \<Rightarrow> room_cache \<Rightarrow> join_rule room_info option" where
  "invited_room_info r c =
     map_option (counted (fcard (fmdom (invite_members r c)))) (fmlookup (rc_invites c) r)"

definition getRoomInfo :: "string list \<Rightarrow> room_cache \<Rightarrow> (string, join_rule room_info) fmap" where
  "getRoomInfo rooms c =
     fold (\<lambda>r m. case fmlookup (rc_rooms c) r of
              Some i \<Rightarrow> fmupd r (joined_room_info r c i) m
            | None \<Rightarrow> (case invited_room_info r c of Some i \<Rightarrow> fmupd r i m | None \<Rightarrow> m))
       rooms fmempty"

definition roomInfo :: "bool \<Rightarrow> room_cache \<Rightarrow> (string, join_rule room_info) fmap" where
  "roomInfo withInvites c =
     (let joined = fmmap_keys (\<lambda>r i. counted (memberCount r c) i) (rc_rooms c)
      in if withInvites
         then joined ++\<^sub>f fmmap_keys (\<lambda>r i. counted (fcard (fmdom (invite_members r c))) i) (rc_invites c)
         else joined)"

definition invites :: "room_cache \<Rightarrow> (string, join_rule room_info) fmap" where
  "invites c = fmmap_keys (\<lambda>r i. counted (fcard (fmdom (invite_members r c))) i) (rc_invites c)"

definition joinedRooms :: "room_cache \<Rightarrow> string list" where
  "joinedRooms c = sorted_list_of_fset (fmdom (rc_rooms c))"

definition read_status :: "(room_cache \<Rightarrow> string \<Rightarrow> bool) \<Rightarrow> room_cache \<Rightarrow> room_cache" where
  "read_status unread c =
     c\<lparr>rc_signals := rc_signals c @
        [RoomReadStatus (fmap_of_list (map (\<lambda>r. (r, unread c r)) (joinedRooms c)))]\<rparr>"

section \<open>Notifications\<close>

definition markSentNotification :: "string \<Rightarrow> room_cache \<Rightarrow> room_cache" where
  "markSentNotification event_id c = c\<lparr>rc_notifications := finsert event_id (rc_notifications c)\<rparr>"

definition removeReadNotification :: "string \<Rightarrow> room_cache \<Rightarrow> room_cache" where
  "removeReadNotification event_id c = c\<lparr>rc_notifications := rc_notifications c |-| {|event_id|}\<rparr>"

definition isNotificationSent :: "string \<Rightarrow> room_cache \<Rightarrow> bool" where
  "isNotificationSent event_id c \<longleftrightarrow> event_id |\<in>| rc_notifications c"

end
