(* ===== verification/Room_Replay.thy ===== *)
theory Room_Replay
  imports Room_Sync
begin

text \<open>
  What the tables of a room hold is what its state events say: the saved state against the
  reference ``the last event of that type and key'', the typing of the tables, and the fields each
  operation leaves alone.
\<close>

named_theorems room_frames "tables an operation leaves alone"

section \<open>Frames\<close>

lemma room_db_update_simps [room_frames]:
  "db_of r (c\<lparr>rc_rooms := a1\<rparr>) = db_of r c"
  "db_of r (c\<lparr>rc_invites := a1\<rparr>) = db_of r c"
  "db_of r (c\<lparr>rc_invite_states := a2\<rparr>) = db_of r c"
  "db_of r (c\<lparr>rc_invite_members := a3\<rparr>) = db_of r c"
  "db_of r (c\<lparr>rc_encrypted := a4\<rparr>) = db_of r c"
  "db_of r (c\<lparr>rc_receipts := a5\<rparr>) = db_of r c"
  "db_of r (c\<lparr>rc_presence := a6\<rparr>) = db_of r c"
  "db_of r (c\<lparr>rc_notifications := a4\<rparr>) = db_of r c"
  "db_of r (c\<lparr>rc_space_children := a7\<rparr>) = db_of r c"
  "db_of r (c\<lparr>rc_space_parents := a7\<rparr>) = db_of r c"
  "db_of r (c\<lparr>rc_next_batch := a8\<rparr>) = db_of r c"
  "db_of r (c\<lparr>rc_signals := a9\<rparr>) = db_of r c"
  by (simp_all add: db_of_def)

lemma fold_frame:
  assumes "\<And>x s. g (f x s) = g s"
  shows "g (fold f xs s) = g s"
  using assms by (induction xs arbitrary: s) auto

lemma room_db_put_child [room_frames]: "db_of r (put_child s ch c) = db_of r c"
  by (simp add: put_child_def room_frames)

lemma room_db_delete_old_entries [room_frames]: "db_of r (delete_old_entries s c) = db_of r c"
  by (simp add: delete_old_entries_def room_frames)

lemma room_db_add_children [room_frames]: "db_of r (add_children s c) = db_of r c"
  unfolding add_children_def by (rule fold_frame) (auto simp: room_frames split: prod.splits)

lemma room_db_add_to_parents [room_frames]: "db_of r (add_to_parents lv s c) = db_of r c"
  unfolding add_to_parents_def by (rule fold_frame) (auto simp: room_frames split: prod.splits)

lemma room_db_updateSpaces [room_frames]: "db_of r (updateSpaces lv S R c) = db_of r c"
proof -
  have *: "db_of r (fst (fold rebuild_space ss (c, rs))) = db_of r c" for ss rs
    using fold_frame [of "\<lambda>st. db_of r (fst st)" rebuild_space ss "(c, rs)"]
    by (simp add: rebuild_space_def Let_def room_frames)
  have "db_of r (fold (add_to_parents lv) rs c') = db_of r c'" for rs c'
    by (rule fold_frame) (simp add: room_frames)
  with * show ?thesis by (metis (no_types, lifting) case_prod_beta updateSpaces_def)
qed

lemma room_db_saveStateEvent_other:
  "r \<noteq> q \<Longrightarrow> db_of r (saveStateEvent q e c) = db_of r c"
  by (cases "se_content e") (simp_all add: saveStateEvent_def room_frames)

lemma room_db_saveStateEvents_other:
  "r \<noteq> q \<Longrightarrow> db_of r (saveStateEvents q es c) = db_of r c"
  unfolding saveStateEvents_def by (rule fold_frame) (simp add: room_db_saveStateEvent_other)

lemma saveStateEvents_append:
  "saveStateEvents r (es @ fs) c = saveStateEvents r fs (saveStateEvents r es c)"
  by (simp add: saveStateEvents_def)

lemma room_db_updateReadReceipt [room_frames]: "db_of r (updateReadReceipt l q rs c) = db_of r c"
  unfolding updateReadReceipt_def
  by (rule fold_frame) (auto simp: merge_receipts_def Let_def db_of_def split: prod.splits)

lemma room_db_remove_invite [room_frames]: "db_of r (remove_invite q c) = db_of r c"
  by (simp add: remove_invite_def db_of_def)

lemma room_db_saveInvites [room_frames]: "db_of r (saveInvites tx rooms c) = db_of r c"
proof -
  have "db_of r (save_stripped q e c) = db_of r c" for q e c
    by (cases e) (simp_all add: room_frames)
  then have "db_of r (saveInvite q es c) = db_of r c" for q es c
    unfolding saveInvite_def by (rule fold_frame)
  then show ?thesis
    unfolding saveInvites_def
    by (intro fold_frame) (auto simp: Let_def room_frames split: prod.splits)
qed

lemma room_db_savePresence [room_frames]: "db_of r (savePresence us c) = db_of r c"
  by (simp add: savePresence_def room_frames)

section \<open>Members\<close>

text \<open>What an event says of the member it is about.\<close>

definition member_of :: "state_event \<Rightarrow> member_info option" where
  "member_of e =
     (case se_content e of
        Member m display_name avatar \<Rightarrow>
          (if m = MInvite \<or> m = MJoin then Some (member_entry (se_state_key e) display_name avatar) else None)
      | _ \<Rightarrow> None)"

text \<open>The last event of a type and state key.\<close>

definition last_event :: "event_type \<Rightarrow> string \<Rightarrow> state_event list \<Rightarrow> state_event option" where
  "last_event t key es = find (\<lambda>e. se_type e = t \<and> se_state_key e = key) (rev es)"

lemma last_event_Nil [simp]: "last_event t key [] = None"
  by (simp add: last_event_def)

lemma last_event_snoc [simp]:
  "last_event t key (es @ [e]) =
     (if se_type e = t \<and> se_state_key e = key then Some e else last_event t key es)"
  by (simp add: last_event_def)

lemma members_saveStateEvent:
  "fmlookup (rd_members (db_of r (saveStateEvent r e c))) u =
     (if se_type e = RoomMember \<and> se_state_key e = u then member_of e
      else fmlookup (rd_members (db_of r c)) u)"
  by (cases "se_content e")
    (auto simp: saveStateEvent_def member_of_def save_member_def save_other_state_def Let_def
      remove_redacted_def put_state_key_def del_state_key_def room_frames)

lemma members_saveStateEvents:
  "fmlookup (rd_members (db_of r (saveStateEvents r es c))) u =
     (case last_event RoomMember u es of
        Some e \<Rightarrow> member_of e | None \<Rightarrow> fmlookup (rd_members (db_of r c)) u)"
  by (induction es rule: rev_induct)
    (auto simp: saveStateEvents_append saveStateEvents_def members_saveStateEvent)

section \<open>States\<close>

lemma states_saveStateEvent:
  "fmlookup (rd_states (db_of r (saveStateEvent r e c))) t =
     (if se_type e = t \<and> se_state_key e = [] \<and> t \<notin> {RoomMember, Unsupported} then
        (if is_redacted (se_content e) then None
         else if t = RoomEncryption then fmlookup (rd_states (db_of r c)) t else Some e)
      else fmlookup (rd_states (db_of r c)) t)"
  by (cases "se_content e")
    (auto simp: saveStateEvent_def save_member_def save_other_state_def Let_def
      remove_redacted_def put_state_key_def del_state_key_def room_frames)

lemma statekeys_saveStateEvent:
  "fmlookup (rd_statekeys (db_of r (saveStateEvent r e c)) t) key =
     (if se_type e = t \<and> se_state_key e = key \<and> key \<noteq> [] \<and> t \<notin> {RoomMember, Unsupported} then
        (if is_redacted (se_content e) then None
         else if t = RoomEncryption then fmlookup (rd_statekeys (db_of r c) t) key
         else Some (se_event_id e))
      else fmlookup (rd_statekeys (db_of r c) t) key)"
  by (cases "se_content e")
    (auto simp: saveStateEvent_def save_member_def save_other_state_def Let_def
      remove_redacted_def put_state_key_def del_state_key_def room_frames)

lemma statekeys_saveStateEvents:
  assumes "t \<notin> {RoomMember, RoomEncryption, Unsupported}" and "key \<noteq> []"
  shows "fmlookup (rd_statekeys (db_of r (saveStateEvents r es c)) t) key =
     (case last_event t key es of
        Some e \<Rightarrow> if is_redacted (se_content e) then None else Some (se_event_id e)
      | None \<Rightarrow> fmlookup (rd_statekeys (db_of r c) t) key)"
  using assms
  by (induction es rule: rev_induct)
    (auto simp: saveStateEvents_append saveStateEvents_def statekeys_saveStateEvent)

text \<open>Members and the encryption event are not among the stored events.\<close>

definition is_plain :: "state_event \<Rightarrow> bool" where
  "is_plain e = (case se_content e of Member _ _ _ \<Rightarrow> False | Encryption _ \<Rightarrow> False | _ \<Rightarrow> True)"

lemma events_saveStateEvent:
  "fmlookup (rd_events (db_of r (saveStateEvent r e c))) i =
     (if is_plain e \<and> se_event_id e = i then Some e else fmlookup (rd_events (db_of r c)) i)"
  by (cases "se_content e")
    (auto simp: saveStateEvent_def save_member_def save_other_state_def Let_def is_plain_def
      remove_redacted_def put_state_key_def del_state_key_def room_frames)

text \<open>No id stands for two events, among the new ones and against the stored ones.\<close>

definition id_free :: "state_event \<Rightarrow> room_db \<Rightarrow> bool" where
  "id_free e d \<longleftrightarrow> (case fmlookup (rd_events d) (se_event_id e) of None \<Rightarrow> True | Some f \<Rightarrow> f = e)"

definition ids_agree :: "state_event list \<Rightarrow> room_db \<Rightarrow> bool" where
  "ids_agree es d \<longleftrightarrow>
     list_all (\<lambda>e. id_free e d \<and> list_all (\<lambda>f. se_event_id e = se_event_id f \<longrightarrow> e = f) es) es"

lemma id_free_saveStateEvents:
  assumes "id_free e (db_of r c)" and "\<And>f. f \<in> set es \<Longrightarrow> se_event_id f = se_event_id e \<Longrightarrow> f = e"
  shows "id_free e (db_of r (saveStateEvents r es c))"
  using assms(2)
proof (induction es rule: rev_induct)
  case Nil
  then show ?case using assms(1) by (simp add: saveStateEvents_def)
next
  case (snoc f es)
  then have "id_free e (db_of r (saveStateEvents r es c))" by simp
  moreover have "saveStateEvents r (es @ [f]) c = saveStateEvent r f (saveStateEvents r es c)"
    by (simp add: saveStateEvents_def)
  ultimately show ?case using snoc.prems [of f] by (simp add: id_free_def events_saveStateEvent)
qed

lemma ids_agree_snoc:
  assumes "ids_agree (es @ [e]) (db_of r c)"
  shows "ids_agree es (db_of r c)"
    and "id_free e (db_of r (saveStateEvents r es c))"
proof -
  have *: "id_free f (db_of r c)" "\<And>g. g \<in> set (es @ [e]) \<Longrightarrow> se_event_id f = se_event_id g \<Longrightarrow> f = g"
    if "f \<in> set (es @ [e])" for f
    using assms that unfolding ids_agree_def list_all_iff by blast+
  then show "ids_agree es (db_of r c)" by (simp add: ids_agree_def list_all_iff)
  show "id_free e (db_of r (saveStateEvents r es c))"
    by (rule id_free_saveStateEvents) (use * in auto)
qed

text \<open>Every id the state keys refer to has its event.\<close>

definition keyed_present :: "room_db \<Rightarrow> bool" where
  "keyed_present d \<longleftrightarrow> (\<forall>t key i. fmlookup (rd_statekeys d t) key = Some i \<longrightarrow> fmlookup (rd_events d) i \<noteq> None)"

lemma keyed_present_saveStateEvent:
  assumes "keyed_present (db_of r c)"
  shows "keyed_present (db_of r (saveStateEvent r e c))"
proof -
  have "is_plain e \<or> se_type e \<in> {RoomMember, RoomEncryption}"
    by (cases "se_content e") (auto simp: is_plain_def)
  then show ?thesis
    using assms unfolding keyed_present_def
    by (auto simp: statekeys_saveStateEvent events_saveStateEvent split: if_splits)
qed

lemma keyed_present_saveStateEvents:
  "keyed_present (db_of r c) \<Longrightarrow> keyed_present (db_of r (saveStateEvents r es c))"
  unfolding saveStateEvents_def
  by (rule fold_invariant) (auto simp: keyed_present_saveStateEvent)

lemma state_entry_saveStateEvent:
  assumes "t \<notin> {RoomMember, RoomEncryption, Unsupported}"
    and "id_free e (db_of r c)" and "keyed_present (db_of r c)"
  shows "state_entry t key (db_of r (saveStateEvent r e c)) =
     (if se_type e = t \<and> se_state_key e = key then (if is_redacted (se_content e) then None else Some e)
      else state_entry t key (db_of r c))"
proof (cases "key = []")
  case True
  then show ?thesis using assms(1) by (auto simp: state_entry_def states_saveStateEvent)
next
  case False
  have plain: "se_type e = t \<Longrightarrow> is_plain e"
    using assms(1) by (cases "se_content e") (auto simp: is_plain_def)
  have other: "fmlookup (rd_statekeys (db_of r c) t) key = Some i \<Longrightarrow> i = se_event_id e
      \<Longrightarrow> fmlookup (rd_events (db_of r c)) i = Some e" for i
    using assms(2,3) unfolding keyed_present_def id_free_def by (fastforce split: option.splits)
  show ?thesis
    using False plain other assms(1)
    by (cases "fmlookup (rd_statekeys (db_of r c) t) key")
      (auto simp: state_entry_def statekeys_saveStateEvent events_saveStateEvent)
qed

lemma state_entry_saveStateEvents:
  assumes "t \<notin> {RoomMember, RoomEncryption, Unsupported}"
    and "ids_agree es (db_of r c)" and "keyed_present (db_of r c)"
  shows "state_entry t key (db_of r (saveStateEvents r es c)) =
     (case last_event t key es of
        Some e \<Rightarrow> if is_redacted (se_content e) then None else Some e
      | None \<Rightarrow> state_entry t key (db_of r c))"
  using assms(2)
proof (induction es rule: rev_induct)
  case Nil
  then show ?case by (simp add: saveStateEvents_def)
next
  case (snoc e es)
  note ids = ids_agree_snoc [OF snoc.prems]
  have "saveStateEvents r (es @ [e]) c = saveStateEvent r e (saveStateEvents r es c)"
    by (simp add: saveStateEvents_def)
  with snoc.IH [OF ids(1)] show ?case
    by (simp add: state_entry_saveStateEvent [OF assms(1) ids(2) keyed_present_saveStateEvents [OF assms(3)]])
qed

text \<open>The event an entry of the state keys refers to has that state key.\<close>

definition keys_match :: "room_db \<Rightarrow> bool" where
  "keys_match d \<longleftrightarrow> (\<forall>t key i e. fmlookup (rd_statekeys d t) key = Some i \<longrightarrow>
     fmlookup (rd_events d) i = Some e \<longrightarrow> se_state_key e = key)"

lemma keys_match_saveStateEvent:
  assumes "keys_match (db_of r c)" and "id_free e (db_of r c)" and "keyed_present (db_of r c)"
  shows "keys_match (db_of r (saveStateEvent r e c))"
  unfolding keys_match_def
proof (intro allI impI)
  fix t key i f
  assume key: "fmlookup (rd_statekeys (db_of r (saveStateEvent r e c)) t) key = Some i"
    and ev: "fmlookup (rd_events (db_of r (saveStateEvent r e c))) i = Some f"
  have plain: "se_type e = t \<Longrightarrow> t \<notin> {RoomMember, RoomEncryption} \<Longrightarrow> is_plain e"
    by (cases "se_content e") (auto simp: is_plain_def)
  have old: "se_state_key g = key" if "fmlookup (rd_statekeys (db_of r c) t) key = Some i"
    "fmlookup (rd_events (db_of r c)) i = Some g" for g
    using assms(1) that unfolding keys_match_def by blast
  have same: "se_state_key e = key" if "fmlookup (rd_statekeys (db_of r c) t) key = Some i" "i = se_event_id e"
  proof -
    have "fmlookup (rd_events (db_of r c)) i = Some e"
      using assms(2,3) that unfolding keyed_present_def id_free_def by (fastforce split: option.splits)
    then show ?thesis using old that(1) by blast
  qed
  show "se_state_key f = key"
    using key ev old same plain
    by (auto simp: statekeys_saveStateEvent events_saveStateEvent split: if_split_asm)
qed

lemma keys_match_saveStateEvents:
  assumes "ids_agree es (db_of r c)" and "keys_match (db_of r c)" and "keyed_present (db_of r c)"
  shows "keys_match (db_of r (saveStateEvents r es c))"
  using assms(1)
proof (induction es rule: rev_induct)
  case Nil
  then show ?case using assms(2) by (simp add: saveStateEvents_def)
next
  case (snoc e es)
  note ids = ids_agree_snoc [OF snoc.prems]
  have "saveStateEvents r (es @ [e]) c = saveStateEvent r e (saveStateEvents r es c)"
    by (simp add: saveStateEvents_def)
  then show ?case
    using keys_match_saveStateEvent [OF snoc.IH [OF ids(1)] ids(2) keyed_present_saveStateEvents [OF assms(3)]]
    by simp
qed

end
