(* ===== verification/Room_Space_Tables.thy ===== *)
theory Room_Space_Tables
  imports Room_Replay
begin

text \<open>
  The two tables of the spaces: they are inverse to each other, and after an update the children of
  a space are exactly the rooms its own state names and the rooms that name it as their parent with
  enough power.
\<close>

section \<open>Reads depend on the room's tables only\<close>

lemma getStateEvent_cong:
  "db_of r c = db_of r c' \<Longrightarrow> getStateEvent t as r k c = getStateEvent t as r k c'"
  by (simp add: getStateEvent_def)

lemma getStateEventsWithType_cong:
  "db_of r c = db_of r c' \<Longrightarrow> getStateEventsWithType t as r c = getStateEventsWithType t as r c'"
  by (simp add: getStateEventsWithType_def)

lemma may_add_cong: "db_of s c = db_of s c' \<Longrightarrow> may_add lv e s c = may_add lv e s c'"
  unfolding may_add_def by (subst getStateEvent_cong [of s c c']) simp_all

lemma set_map_filter: "set (List.map_filter f xs) = {y. \<exists>x \<in> set xs. f x = Some y}"
proof (induction xs)
  case (Cons x xs)
  then show ?case by (cases "f x") (auto simp: List.map_filter_simps)
qed (simp add: List.map_filter_simps)

lemma in_getStateEventsWithType:
  "(e, v) \<in> set (getStateEventsWithType t as r c) \<longleftrightarrow>
     r \<noteq> [] \<and> as (se_content e) = Some v \<and>
     (\<exists>key i. fmlookup (rd_statekeys (db_of r c) t) key = Some i \<and>
              fmlookup (rd_events (db_of r c)) i = Some e)"
proof -
  have "Option.bind m (parsed as) = Some (e, v) \<longleftrightarrow> m = Some e \<and> as (se_content e) = Some v" for m
    by (cases m) (auto simp: parsed_def)
  then show ?thesis
    by (simp add: getStateEventsWithType_def set_map_filter case_prod_beta' Bex_def) blast
qed

section \<open>The tables after an update\<close>

text \<open>A child event of the space, and a parent event of the room by somebody with enough power.\<close>

definition named_child :: "room_cache \<Rightarrow> string \<Rightarrow> string \<Rightarrow> bool" where
  "named_child c space child \<longleftrightarrow>
     list_ex (\<lambda>(e, via). se_state_key e = child \<and> names_a_room via child)
       (getStateEventsWithType SpaceChild as_child space c)"

definition named_parent :: "level_ops \<Rightarrow> room_cache \<Rightarrow> string \<Rightarrow> string \<Rightarrow> bool" where
  "named_parent lv c space child \<longleftrightarrow>
     list_ex (\<lambda>(e, via, canonical). se_state_key e = space \<and> names_a_room via space \<and> may_add lv e space c)
       (getStateEventsWithType SpaceParent as_parent child c)"

lemma children_put_child [simp]:
  "rc_space_children (put_child s ch c) = finsert (s, ch) (rc_space_children c)"
  "rc_space_parents (put_child s ch c) = finsert (ch, s) (rc_space_parents c)"
  "rc_rooms (put_child s ch c) = rc_rooms c"
  by (simp_all add: put_child_def)

lemma put_children:
  "p |\<in>| rc_space_children (fold (\<lambda>x c. if P x then put_child (s x) (ch x) c else c) xs c) \<longleftrightarrow>
     p |\<in>| rc_space_children c \<or> (\<exists>x \<in> set xs. P x \<and> p = (s x, ch x))"
  by (induction xs arbitrary: c) auto

lemma fold_when:
  assumes "\<And>x c. x \<in> set xs \<Longrightarrow> I c \<Longrightarrow> P x c = Q x" and "\<And>x c. I c \<Longrightarrow> I (f x c)" and "I c"
  shows "fold (\<lambda>x c. if P x c then f x c else c) xs c = fold (\<lambda>x c. if Q x then f x c else c) xs c"
  using assms by (induction xs arbitrary: c) auto

lemma children_delete_old_entries [simp]:
  "rc_space_children (delete_old_entries s c) = dup_del_key (rc_space_children c) s"
  "rc_rooms (delete_old_entries s c) = rc_rooms c"
  by (simp_all add: delete_old_entries_def)

lemma rooms_add_children [simp]: "rc_rooms (add_children s c) = rc_rooms c"
  unfolding add_children_def by (rule fold_frame) (auto split: prod.splits)

lemma children_add_children:
  "(s, ch) |\<in>| rc_space_children (add_children space c) \<longleftrightarrow>
     (s, ch) |\<in>| rc_space_children c \<or> s = space \<and> named_child c space ch"
  unfolding add_children_def named_child_def list_ex_iff case_prod_beta' put_children by blast

lemma children_add_to_parents:
  "(s, ch) |\<in>| rc_space_children (add_to_parents lv room c) \<longleftrightarrow>
     (s, ch) |\<in>| rc_space_children c \<or> ch = room \<and> named_parent lv c s room"
proof -
  let ?xs = "getStateEventsWithType SpaceParent as_parent room c"
  have *: "add_to_parents lv room c =
      fold (\<lambda>x d. if names_a_room (fst (snd x)) (se_state_key (fst x)) \<and>
          may_add lv (fst x) (se_state_key (fst x)) c
        then put_child (se_state_key (fst x)) room d else d) ?xs c"
    unfolding add_to_parents_def case_prod_beta'
  proof (rule fold_when [where I = "\<lambda>d. \<forall>q. db_of q d = db_of q c"])
    fix x :: "state_event \<times> string list option \<times> bool" and d
    assume "\<forall>q. db_of q d = db_of q c"
    then have "may_add lv (fst x) (se_state_key (fst x)) d = may_add lv (fst x) (se_state_key (fst x)) c"
      by (intro may_add_cong) simp
    then show "(names_a_room (fst (snd x)) (se_state_key (fst x)) \<and> may_add lv (fst x) (se_state_key (fst x)) d) =
        (names_a_room (fst (snd x)) (se_state_key (fst x)) \<and> may_add lv (fst x) (se_state_key (fst x)) c)"
      by (rule arg_cong)
  qed (simp_all add: room_frames)
  show ?thesis
    unfolding * put_children named_parent_def list_ex_iff case_prod_beta' by blast
qed

lemma named_child_cong: "db_of s c = db_of s c' \<Longrightarrow> named_child c s ch = named_child c' s ch"
  unfolding named_child_def by (subst getStateEventsWithType_cong [of s c c']) simp_all

lemma named_parent_cong:
  assumes "\<And>q. db_of q c = db_of q c'"
  shows "named_parent lv c s ch = named_parent lv c' s ch"
proof -
  have "may_add lv e s c = may_add lv e s c'" for e by (rule may_add_cong) (rule assms)
  moreover have "getStateEventsWithType SpaceParent as_parent ch c = getStateEventsWithType SpaceParent as_parent ch c'"
    by (rule getStateEventsWithType_cong) (rule assms)
  ultimately show ?thesis by (simp add: named_parent_def)
qed

text \<open>The first loop: the children of every updated space are rebuilt from its child events.\<close>

lemma rebuild_space_children:
  "(s, ch) |\<in>| rc_space_children (fst (rebuild_space space (c, R))) \<longleftrightarrow>
     (if s = space then named_child c s ch else (s, ch) |\<in>| rc_space_children c)"
proof -
  have "named_child (delete_old_entries space c) space ch = named_child c space ch"
    by (rule named_child_cong) (simp add: room_frames)
  then show ?thesis by (auto simp: rebuild_space_def Let_def children_add_children)
qed

lemma rooms_with_parent_cong:
  assumes "\<And>q. db_of q c = db_of q c'" and "rc_rooms c = rc_rooms c'"
  shows "rooms_with_parent s c = rooms_with_parent s c'"
proof -
  have "getStateEvent SpaceParent as_parent r s c = getStateEvent SpaceParent as_parent r s c'" for r
    by (rule getStateEvent_cong) (rule assms)
  then show ?thesis by (simp only: rooms_with_parent_def room_ids_def assms(2))
qed

definition rebuilt :: "room_cache \<Rightarrow> string fset \<Rightarrow> string list \<Rightarrow> room_cache \<times> string fset \<Rightarrow> bool" where
  "rebuilt c R ss st \<longleftrightarrow>
     (\<forall>q. db_of q (fst st) = db_of q c) \<and> rc_rooms (fst st) = rc_rooms c \<and>
     (\<forall>s ch. (s, ch) |\<in>| rc_space_children (fst st) \<longleftrightarrow>
       (if s \<in> set ss then named_child c s ch else (s, ch) |\<in>| rc_space_children c)) \<and>
     (\<forall>r. r |\<in>| snd st \<longleftrightarrow> r |\<in>| R \<or> (\<exists>s \<in> set ss. r \<in> set (rooms_with_parent s c)))"

lemma rebuilt_step:
  assumes I: "rebuilt c R xs st"
  shows "rebuilt c R (xs @ [x]) (rebuild_space x st)"
  unfolding rebuilt_def
proof (intro conjI allI)
  show db: "db_of q (fst (rebuild_space x st)) = db_of q c" for q
    using I by (simp add: rebuilt_def rebuild_space_def Let_def room_frames)
  show rooms: "rc_rooms (fst (rebuild_space x st)) = rc_rooms c"
    using I by (simp add: rebuilt_def rebuild_space_def Let_def)
  have "named_child (fst st) x ch = named_child c x ch" for ch
    by (rule named_child_cong) (use I in \<open>simp add: rebuilt_def\<close>)
  then show "(s, ch) |\<in>| rc_space_children (fst (rebuild_space x st)) \<longleftrightarrow>
      (if s \<in> set (xs @ [x]) then named_child c s ch else (s, ch) |\<in>| rc_space_children c)" for s ch
    using I rebuild_space_children [of s ch x "fst st" "snd st"] by (simp add: rebuilt_def)
  have "rooms_with_parent x (fst (rebuild_space x st)) = rooms_with_parent x c"
    using db rooms by (rule rooms_with_parent_cong)
  moreover have "r |\<in>| snd (rebuild_space x st) \<longleftrightarrow>
      r |\<in>| snd st \<or> r \<in> set (rooms_with_parent x (fst (rebuild_space x st)))" for r
    by (simp add: rebuild_space_def Let_def fset_of_list_elem)
  ultimately show "r |\<in>| snd (rebuild_space x st) \<longleftrightarrow>
      r |\<in>| R \<or> (\<exists>s \<in> set (xs @ [x]). r \<in> set (rooms_with_parent s c))" for r
    using I unfolding rebuilt_def by auto
qed

lemma rebuilt_fold: "rebuilt c R ss (fold rebuild_space ss (c, R))"
proof (induction ss rule: rev_induct)
  case Nil
  then show ?case by (simp add: rebuilt_def)
next
  case (snoc x xs)
  then show ?case by (simp only: fold_append fold_simps comp_apply rebuilt_step)
qed

lemma rebuild_spaces:
  assumes "fold rebuild_space ss (c, R) = (c', R')"
  shows "(s, ch) |\<in>| rc_space_children c' \<longleftrightarrow>
      (if s \<in> set ss then named_child c s ch else (s, ch) |\<in>| rc_space_children c)"
    and "r |\<in>| R' \<longleftrightarrow> r |\<in>| R \<or> (\<exists>s \<in> set ss. r \<in> set (rooms_with_parent s c))"
    and "db_of q c' = db_of q c" and "rc_rooms c' = rc_rooms c"
  using rebuilt_fold [of c R ss] unfolding assms rebuilt_def by auto

text \<open>The second loop adds the rooms that name their parents.\<close>

lemma add_all_to_parents:
  "(s, ch) |\<in>| rc_space_children (fold (add_to_parents lv) rs c) \<longleftrightarrow>
     (s, ch) |\<in>| rc_space_children c \<or> ch \<in> set rs \<and> named_parent lv c s ch"
proof (induction rs arbitrary: c)
  case Nil
  then show ?case by simp
next
  case (Cons r rs)
  have "named_parent lv (add_to_parents lv r c) s ch = named_parent lv c s ch"
    by (rule named_parent_cong) (simp add: room_frames)
  with Cons [of "add_to_parents lv r c"] show ?case
    by (auto simp: children_add_to_parents)
qed

lemma updateSpaces_children:
  "(s, ch) |\<in>| rc_space_children (updateSpaces lv S R c) \<longleftrightarrow>
     (if s |\<in>| S then named_child c s ch else (s, ch) |\<in>| rc_space_children c) \<or>
     (ch |\<in>| R \<or> (\<exists>s' \<in> fset S. ch \<in> set (rooms_with_parent s' c))) \<and> named_parent lv c s ch"
proof -
  obtain c1 R1 where f: "fold rebuild_space (sorted_list_of_fset S) (c, R) = (c1, R1)"
    by (cases "fold rebuild_space (sorted_list_of_fset S) (c, R)")
  note loop = rebuild_spaces [OF f]
  have "named_parent lv c1 s ch = named_parent lv c s ch"
    by (rule named_parent_cong) (rule loop(3))
  then show ?thesis
    using loop(1) [of s ch] loop(2) [of ch]
    by (auto simp: updateSpaces_def f add_all_to_parents)
qed

section \<open>The tables are inverse\<close>

definition spaces_inverse :: "room_cache \<Rightarrow> bool" where
  "spaces_inverse c \<longleftrightarrow> rc_space_parents c = (\<lambda>(s, ch). (ch, s)) |`| rc_space_children c"

lemma spaces_inverse_iff:
  "spaces_inverse c \<longleftrightarrow> (\<forall>s ch. (ch, s) |\<in>| rc_space_parents c \<longleftrightarrow> (s, ch) |\<in>| rc_space_children c)"
  unfolding spaces_inverse_def fset_eq_iff by force

lemma spaces_inverse_cong:
  "rc_space_children c' = rc_space_children c \<Longrightarrow> rc_space_parents c' = rc_space_parents c
     \<Longrightarrow> spaces_inverse c' = spaces_inverse c"
  by (simp add: spaces_inverse_def)

lemma spaces_inverse_put_child: "spaces_inverse c \<Longrightarrow> spaces_inverse (put_child s ch c)"
  by (auto simp: spaces_inverse_iff)

lemma delete_parents:
  "p |\<in>| fold (\<lambda>ch ps. ps |-| {|(ch, s)|}) xs ps \<longleftrightarrow> p |\<in>| ps \<and> (\<forall>ch \<in> set xs. p \<noteq> (ch, s))"
  by (induction xs arbitrary: ps) auto

lemma spaces_inverse_delete: "spaces_inverse c \<Longrightarrow> spaces_inverse (delete_old_entries s c)"
  by (auto simp: spaces_inverse_iff delete_parents delete_old_entries_def)

lemma spaces_inverse_updateSpaces:
  assumes "spaces_inverse c"
  shows "spaces_inverse (updateSpaces lv S R c)"
proof -
  have children: "spaces_inverse (add_children s d)" if "spaces_inverse d" for s d
    unfolding add_children_def
    by (rule fold_invariant) (use that in \<open>auto simp: spaces_inverse_put_child\<close>)
  have parents: "spaces_inverse (add_to_parents lv s d)" if "spaces_inverse d" for s d
    unfolding add_to_parents_def
    by (rule fold_invariant) (use that in \<open>auto simp: spaces_inverse_put_child\<close>)
  have "spaces_inverse (fst (fold rebuild_space ss (c, R)))" for ss
    by (rule fold_invariant)
      (use assms in \<open>auto simp: rebuild_space_def Let_def children spaces_inverse_delete\<close>)
  then have "spaces_inverse (fold (add_to_parents lv) rs (fst (fold rebuild_space ss (c, R))))" for rs ss
    by (rule fold_invariant) (simp add: parents)
  then show ?thesis by (simp add: updateSpaces_def case_prod_beta)
qed

end
