(* ===== verification/Room_Packs.thy ===== *)
theory Room_Packs
  imports Room_Space_Tables
begin

text \<open>
  The search for image packs returns, whatever cycles the parents of the rooms form, and visits
  exactly the rooms that canonical parents lead to. A room the cache has no tables of has no
  parents, so that a path is at most one room longer than there are rooms with tables.
\<close>

definition parent_rel :: "room_cache \<Rightarrow> (string \<times> string) set" where
  "parent_rel c = {(r, p). p \<in> set (canonical_parents c r)}"

lemma canonical_parents_known:
  assumes "r |\<notin>| fmdom (rc_room_dbs c)"
  shows "canonical_parents c r = []"
proof -
  have "db_of r c = new_room" using assms by (simp add: db_of_def fmdom_notD)
  then show ?thesis
    by (simp add: canonical_parents_def getStateEventsWithType_def new_room_def List.map_filter_simps)
qed

text \<open>A state the search can end in when it starts at the rooms \<open>rs\<close> from visited rooms \<open>V\<close>.\<close>

definition explored :: "room_cache \<Rightarrow> string set \<Rightarrow> string fset \<Rightarrow> string fset \<Rightarrow> bool" where
  "explored c rs V V' \<longleftrightarrow> fset V \<subseteq> fset V' \<and> rs \<subseteq> fset V' \<and>
     fset V' \<subseteq> fset V \<union> (parent_rel c)\<^sup>* `` rs \<and>
     (\<forall>x \<in> fset V' - fset V. set (canonical_parents c x) \<subseteq> fset V')"

lemma explored_refl: "explored c {} V V"
  by (simp add: explored_def)

lemma explored_visited: "r |\<in>| V \<Longrightarrow> explored c {r} V V"
  by (auto simp: explored_def)

lemma explored_trans:
  assumes "explored c rs V V1" and "explored c qs V1 V2"
  shows "explored c (rs \<union> qs) V V2"
  unfolding explored_def
proof (intro conjI ballI)
  show "set (canonical_parents c x) \<subseteq> fset V2" if "x \<in> fset V2 - fset V" for x
  proof (cases "x |\<in>| V1")
    case True
    then have "set (canonical_parents c x) \<subseteq> fset V1"
      using that assms(1) unfolding explored_def by blast
    then show ?thesis using assms(2) unfolding explored_def by blast
  next
    case False
    then show ?thesis using that assms(2) unfolding explored_def by blast
  qed
next
  show "fset V2 \<subseteq> fset V \<union> (parent_rel c)\<^sup>* `` (rs \<union> qs)"
    using assms unfolding explored_def Image_Un by blast
qed (use assms in \<open>auto simp: explored_def\<close>)

lemma explored_room:
  assumes "explored c (set (canonical_parents c r)) (finsert r V) V'"
  shows "explored c {r} V V'"
proof -
  have "(parent_rel c)\<^sup>* `` set (canonical_parents c r) \<subseteq> (parent_rel c)\<^sup>* `` {r}"
    by (auto simp: parent_rel_def intro: converse_rtrancl_into_rtrancl)
  moreover have "r \<in> (parent_rel c)\<^sup>* `` {r}" by blast
  moreover have "fset V' \<subseteq> insert r (fset V) \<union> (parent_rel c)\<^sup>* `` set (canonical_parents c r)"
    using assms by (simp add: explored_def)
  ultimately have "fset V' \<subseteq> fset V \<union> (parent_rel c)\<^sup>* `` {r}" by blast
  then show ?thesis using assms unfolding explored_def by auto
qed

text \<open>Every room visited brings the search closer to the rooms without tables.\<close>

definition unvisited :: "room_cache \<Rightarrow> string fset \<Rightarrow> nat" where
  "unvisited c V = fcard (fmdom (rc_room_dbs c) |-| V)"

lemma unvisited_mono:
  assumes "fset V \<subseteq> fset V'"
  shows "unvisited c V' \<le> unvisited c V"
  unfolding unvisited_def by (rule fcard_mono) (use assms in auto)

lemma unvisited_finsert:
  assumes "r |\<in>| fmdom (rc_room_dbs c)" and "r |\<notin>| V"
  shows "unvisited c (finsert r V) < unvisited c V"
  unfolding unvisited_def by (rule pfsubset_fcard_mono) (use assms in auto)

lemma search_returns:
  assumes "unvisited c V + 2 \<le> n"
  shows "\<exists>V' infos'. add_room_and_canonical_parents n stickers room_id c r (V, infos) = Some (V', infos')
      \<and> explored c {r} V V'"
  using assms
proof (induction n arbitrary: r V infos)
  case 0
  then show ?case by simp
next
  case (Suc n)
  have loop: "\<exists>V2 infos2. fold_opt (add_room_and_canonical_parents n stickers room_id c) rs (V1, infos1)
        = Some (V2, infos2) \<and> explored c (set rs) V1 V2"
    if "unvisited c V1 + 2 \<le> n" for rs V1 infos1
    using that
  proof (induction rs arbitrary: V1 infos1)
    case Nil
    then show ?case by (simp add: explored_refl)
  next
    case (Cons q rs)
    obtain V2 infos2 where one: "add_room_and_canonical_parents n stickers room_id c q (V1, infos1) = Some (V2, infos2)"
      "explored c {q} V1 V2" using Suc.IH [OF Cons.prems] by blast
    then have "unvisited c V2 + 2 \<le> n"
      using unvisited_mono [of V1 V2 c] Cons.prems by (auto simp: explored_def)
    from Cons.IH [OF this, of infos2] one explored_trans [of c "{q}" V1 V2 "set rs"] show ?case
      by auto
  qed
  show ?case
  proof (cases "r |\<in>| V")
    case True
    then show ?thesis by (simp add: explored_visited)
  next
    case False
    let ?I = "room_packs stickers room_id c r infos"
    have "\<exists>V2 infos2. fold_opt (add_room_and_canonical_parents n stickers room_id c)
        (canonical_parents c r) (finsert r V, ?I) = Some (V2, infos2)
        \<and> explored c (set (canonical_parents c r)) (finsert r V) V2"
    proof (cases "r |\<in>| fmdom (rc_room_dbs c)")
      case True
      then show ?thesis using unvisited_finsert [OF True False] Suc.prems by (intro loop) simp
    next
      case F: False
      then show ?thesis by (simp add: canonical_parents_known explored_refl)
    qed
    with False explored_room show ?thesis by auto
  qed
qed

text \<open>A search that returned is not changed by more fuel.\<close>

lemma fold_opt_mono:
  assumes "fold_opt f xs s = Some t" and "\<And>x s t. f x s = Some t \<Longrightarrow> g x s = Some t"
  shows "fold_opt g xs s = Some t"
  using assms(1)
proof (induction xs arbitrary: s)
  case (Cons x xs)
  then show ?case by (auto simp: bind_eq_Some_conv intro: assms(2))
qed simp

lemma search_fuel_Suc:
  "add_room_and_canonical_parents n stickers room_id c r st = Some st' \<Longrightarrow>
   add_room_and_canonical_parents (Suc n) stickers room_id c r st = Some st'"
proof (induction n arbitrary: r st st')
  case 0
  then show ?case by simp
next
  case (Suc n)
  obtain V infos where st: "st = (V, infos)" by (cases st)
  show ?case
  proof (cases "r |\<in>| V")
    case True
    then show ?thesis using Suc.prems by (auto simp: st)
  next
    case False
    then have "fold_opt (add_room_and_canonical_parents n stickers room_id c) (canonical_parents c r)
        (finsert r V, room_packs stickers room_id c r infos) = Some st'"
      using Suc.prems by (simp add: st)
    then have "fold_opt (add_room_and_canonical_parents (Suc n) stickers room_id c) (canonical_parents c r)
        (finsert r V, room_packs stickers room_id c r infos) = Some st'"
      by (rule fold_opt_mono) (rule Suc.IH)
    then show ?thesis
      unfolding st add_room_and_canonical_parents.simps(2) [of "Suc n"] using False by (simp only: if_False)
  qed
qed

lemma search_fuel_mono:
  assumes "add_room_and_canonical_parents n stickers room_id c r st = Some st'" and "n \<le> m"
  shows "add_room_and_canonical_parents m stickers room_id c r st = Some st'"
  using assms(2,1) by (induction rule: dec_induct) (auto intro: search_fuel_Suc)

lemma explored_reachable:
  assumes "explored c {r} {||} V"
  shows "fset V = (parent_rel c)\<^sup>* `` {r}"
proof -
  have "x \<in> fset V" if "(r, x) \<in> (parent_rel c)\<^sup>*" for x
    using that assms
    by (induction rule: rtrancl_induct) (auto simp: explored_def parent_rel_def)
  then show ?thesis using assms by (auto simp: explored_def)
qed

section \<open>What is found\<close>

text \<open>Where a pack may come from, and that it holds only images that were asked for.\<close>

definition globally_enabled :: "room_cache \<Rightarrow> string \<Rightarrow> bool" where
  "globally_enabled c r =
     (case account_data ''im.ponies.emote_rooms'' [] c of
        Some (AccountPackRooms rooms) \<Rightarrow> r |\<in>| fmdom rooms | _ \<Rightarrow> False)"

definition good_pack :: "bool option \<Rightarrow> string \<Rightarrow> room_cache \<Rightarrow> image_pack_info \<Rightarrow> bool" where
  "good_pack stickers room_id c i \<longleftrightarrow>
     ip_images (ii_pack i) \<noteq> fmempty \<and>
     (\<forall>k img. fmlookup (ip_images (ii_pack i)) k = Some img \<longrightarrow> image_wanted stickers (ii_pack i) img) \<and>
     (if ii_from_space i
      then ii_source_room i \<noteq> room_id \<and> (room_id, ii_source_room i) \<in> (parent_rel c)\<^sup>+
      else ii_source_room i = [] \<or> ii_source_room i = room_id \<or> globally_enabled c (ii_source_room i))"

definition good_source :: "string \<Rightarrow> room_cache \<Rightarrow> string \<Rightarrow> bool \<Rightarrow> bool" where
  "good_source room_id c src from_space \<longleftrightarrow>
     (if from_space then src \<noteq> room_id \<and> (room_id, src) \<in> (parent_rel c)\<^sup>+
      else src = [] \<or> src = room_id \<or> globally_enabled c src)"

lemma good_addPack:
  assumes "list_all (good_pack stickers room_id c) infos" and "good_source room_id c src from_space"
  shows "list_all (good_pack stickers room_id c) (addPack stickers pack src key from_space infos)"
proof -
  have "image_wanted stickers \<lparr>ip_pack = ip_pack pack, ip_images = m\<rparr> img = image_wanted stickers pack img" for m img
    by (simp only: image_wanted_def image_pack.simps)
  then show ?thesis
    using assms by (auto simp: addPack_def Let_def good_pack_def good_source_def split: option.splits)
qed

lemma good_account_packs:
  "list_all (good_pack stickers room_id c) infos \<Longrightarrow>
   list_all (good_pack stickers room_id c) (account_packs stickers c infos)"
  by (auto simp: account_packs_def good_source_def intro: good_addPack split: option.splits account_event.splits)

lemma good_global_packs:
  assumes "list_all (good_pack stickers room_id c) infos"
  shows "list_all (good_pack stickers room_id c) (global_packs stickers room_id c infos)"
proof (cases "\<exists>rooms. account_data ''im.ponies.emote_rooms'' [] c = Some (AccountPackRooms rooms)")
  case True
  then obtain rooms where rooms: "account_data ''im.ponies.emote_rooms'' [] c = Some (AccountPackRooms rooms)"
    by blast
  have inner: "list_all (good_pack stickers room_id c) (fold (\<lambda>key infos.
        case getStateEvent ImagePackInRoom as_image_pack r key c of
          Some (_, p) \<Rightarrow> addPack stickers p r key False infos | None \<Rightarrow> infos) keys js)"
    if "list_all (good_pack stickers room_id c) js" and "r |\<in>| fmdom rooms" for r keys js
    by (rule fold_invariant)
      (use that rooms in \<open>auto simp: good_source_def globally_enabled_def intro: good_addPack split: option.splits\<close>)
  have "list_all (good_pack stickers room_id c) (fold (\<lambda>(r, keys) infos.
        if r = room_id then infos
        else fold (\<lambda>key infos.
            case getStateEvent ImagePackInRoom as_image_pack r key c of
              Some (_, p) \<Rightarrow> addPack stickers p r key False infos | None \<Rightarrow> infos) keys infos)
      (sorted_list_of_fmap rooms) infos)"
    by (rule fold_invariant) (use assms inner in \<open>auto intro: fmdomI split: prod.splits\<close>)
  then show ?thesis by (simp add: global_packs_def rooms)
next
  case False
  then show ?thesis using assms by (auto simp: global_packs_def split: option.splits account_event.splits)
qed

lemma good_room_packs:
  assumes "list_all (good_pack stickers room_id c) infos" and "(room_id, r) \<in> (parent_rel c)\<^sup>*"
  shows "list_all (good_pack stickers room_id c) (room_packs stickers room_id c r infos)"
proof -
  have src: "good_source room_id c r (r \<noteq> room_id)"
    using assms(2) by (auto simp: good_source_def rtrancl_eq_or_trancl)
  have "list_all (good_pack stickers room_id c) (case getStateEvent ImagePackInRoom as_image_pack r [] c of
      Some (_, p) \<Rightarrow> addPack stickers p r [] (r \<noteq> room_id) infos | None \<Rightarrow> infos)"
    using assms(1) src by (auto intro: good_addPack split: option.splits)
  then show ?thesis
    unfolding room_packs_def by (rule fold_invariant) (use src in \<open>auto intro: good_addPack\<close>)
qed

lemma good_search:
  "add_room_and_canonical_parents n stickers room_id c r (V, infos) = Some (V', infos') \<Longrightarrow>
   list_all (good_pack stickers room_id c) infos \<Longrightarrow> (room_id, r) \<in> (parent_rel c)\<^sup>* \<Longrightarrow>
   list_all (good_pack stickers room_id c) infos'"
proof (induction n arbitrary: r V infos V' infos')
  case 0
  then show ?case by simp
next
  case (Suc n)
  show ?case
  proof (cases "r |\<in>| V")
    case True
    then show ?thesis using Suc.prems by simp
  next
    case False
    then have f: "fold_opt (add_room_and_canonical_parents n stickers room_id c) (canonical_parents c r)
        (finsert r V, room_packs stickers room_id c r infos) = Some (V', infos')"
      using Suc.prems(1) by simp
    have "list_all (good_pack stickers room_id c) (snd (V', infos'))"
      using f
    proof (rule fold_opt_invariant [where P = "\<lambda>st. list_all (good_pack stickers room_id c) (snd st)"])
      show "list_all (good_pack stickers room_id c) (snd (finsert r V, room_packs stickers room_id c r infos))"
        using good_room_packs [OF Suc.prems(2,3)] by simp
    next
      fix q and st st' :: "string fset \<times> image_pack_info list"
      assume "q \<in> set (canonical_parents c r)" "list_all (good_pack stickers room_id c) (snd st)"
        "add_room_and_canonical_parents n stickers room_id c q st = Some st'"
      moreover from this(1) have "(room_id, q) \<in> (parent_rel c)\<^sup>*"
        using Suc.prems(3) by (auto simp: parent_rel_def intro: rtrancl_into_rtrancl)
      ultimately show "list_all (good_pack stickers room_id c) (snd st')"
        using Suc.IH [of q "fst st" "snd st" "fst st'" "snd st'"] by simp
    qed
    then show ?thesis by simp
  qed
qed

end
