(* ===== verification/Room_Machine.thy ===== *)
theory Room_Machine
  imports Room_Packs
begin

text \<open>
  The operations on the rooms in the cache as one machine (\<open>room_step\<close>), and what a sync does to the
  tables of one room.
\<close>

section \<open>The machine\<close>

record 'a room_env =
  en_texts :: text_ops
  en_levels :: level_ops
  en_timeline :: "string \<Rightarrow> timeline_event list \<Rightarrow> (string, state_event) table \<Rightarrow> (string, state_event) table"
  en_unread :: "room_cache \<Rightarrow> string \<Rightarrow> bool"

text \<open>\<open>EventsGone\<close> is the timeline's removal of old events from the events of a room.\<close>

datatype room_op =
    Sync sync_response
  | FetchedState string "state_event list"
  | LastMessage string u64
  | NotificationSent string
  | NotificationRead string
  | EventsGone string "string list"

fun room_step :: "'a room_env \<Rightarrow> room_cache \<Rightarrow> room_op \<Rightarrow> room_cache" where
  "room_step en c (Sync res) =
     saveState (en_texts en) (en_levels en) (en_timeline en) (en_unread en) res c"
| "room_step en c (FetchedState r es) = updateState (en_texts en) (en_levels en) r es c"
| "room_step en c (LastMessage r ts) = updateLastMessageTimestamp r ts c"
| "room_step en c (NotificationSent e) = markSentNotification e c"
| "room_step en c (NotificationRead e) = removeReadNotification e c"
| "room_step en c (EventsGone r ids) =
     set_room_db r ((db_of r c)\<lparr>rd_events := fmdrop_set (set ids) (rd_events (db_of r c))\<rparr>) c"

definition new_room_cache :: room_cache where
  "new_room_cache = \<lparr>rc_room_dbs = fmempty, rc_rooms = fmempty, rc_invites = fmempty,
     rc_invite_states = fmempty, rc_invite_members = fmempty, rc_encrypted = {||},
     rc_receipts = fmempty, rc_presence = fmempty, rc_notifications = {||},
     rc_space_children = {||}, rc_space_parents = {||}, rc_next_batch = None, rc_signals = []\<rparr>"

lemma room_db_new_room_cache [simp]: "db_of r new_room_cache = new_room"
  by (simp add: db_of_def new_room_cache_def)

section \<open>One joined room of a sync\<close>

lemma room_db_save_account_data:
  "db_of r (save_account_data q es c) =
     (if r = q then (db_of r c)\<lparr>rd_account_data := fold save_account_event es (rd_account_data (db_of r c))\<rparr>
      else db_of r c)"
  by (simp add: save_account_data_def Let_def)

lemma room_db_receipts:
  "db_of r (fold (\<lambda>content. updateReadReceipt l q (collect_receipts l content)) contents c) = db_of r c"
  by (rule fold_frame) (simp add: room_frames)

lemma room_db_save_joined_room:
  "db_of r (fst (save_joined_room tx tline (q, jr) st)) =
     (if r = q then
        (db_of q (saveStateEvents q (all_state jr) (fst st)))\<lparr>
           rd_events := tline q (jr_timeline jr) (rd_events (db_of q (saveStateEvents q (all_state jr) (fst st)))),
           rd_account_data := fold save_account_event (jr_account_data jr)
             (rd_account_data (db_of q (saveStateEvents q (all_state jr) (fst st))))\<rparr>
      else db_of r (fst st))"
  by (cases st)
    (simp add: save_joined_room_def Let_def room_frames room_db_receipts room_db_save_account_data
      save_events_def all_state_def saveStateEvents_append room_db_saveStateEvents_other)

text \<open>Tables of a room that no event, receipt or invite touches.\<close>

lemma account_data_saveStateEvents:
  "rd_account_data (db_of r (saveStateEvents q es c)) = rd_account_data (db_of r c)"
proof -
  have "rd_account_data (db_of r (saveStateEvent q e c)) = rd_account_data (db_of r c)" for e c
    by (cases "se_content e")
      (auto simp: saveStateEvent_def save_member_def save_other_state_def Let_def remove_redacted_def
        put_state_key_def del_state_key_def room_frames)
  then show ?thesis unfolding saveStateEvents_def by (rule fold_frame)
qed

lemma room_db_save_joined_rooms_other:
  assumes "r \<notin> fst ` set rooms"
  shows "db_of r (fst (fold (save_joined_room tx tline) rooms st)) = db_of r (fst st)"
  using assms
  by (induction rooms arbitrary: st) (auto simp: room_db_save_joined_room)

text \<open>A room appears once among the joined rooms of a sync.\<close>

lemma room_db_save_joined_rooms:
  assumes "distinct (map fst rooms)" and "(r, jr) \<in> set rooms"
    and st': "st' = fold (save_joined_room tx tline) (takeWhile (\<lambda>x. fst x \<noteq> r) rooms) st"
  shows "db_of r (fst (fold (save_joined_room tx tline) rooms st)) =
     (db_of r (saveStateEvents r (all_state jr) (fst st')))\<lparr>
        rd_events := tline r (jr_timeline jr) (rd_events (db_of r (saveStateEvents r (all_state jr) (fst st')))),
        rd_account_data := fold save_account_event (jr_account_data jr)
          (rd_account_data (db_of r (saveStateEvents r (all_state jr) (fst st'))))\<rparr>"
proof -
  obtain pre post where rooms: "rooms = pre @ (r, jr) # post" using assms(2) by (meson split_list)
  then have "r \<notin> fst ` set pre" "r \<notin> fst ` set post" using assms(1) by auto
  then have "takeWhile (\<lambda>x. fst x \<noteq> r) rooms = pre"
    unfolding rooms by (subst takeWhile_append2) auto
  then show ?thesis
    using \<open>r \<notin> fst ` set post\<close>
    by (simp add: st' rooms room_db_save_joined_rooms_other room_db_save_joined_room)
qed

lemma room_db_remove_room:
  "db_of r (remove_room q c) =
     (if r = q then (db_of r c)\<lparr>rd_states := fmempty, rd_account_data := fmempty, rd_members := fmempty\<rparr>
      else db_of r c)"
  by (simp add: remove_room_def Let_def room_frames)

lemma room_db_removeLeftRooms:
  "db_of r (removeLeftRooms rooms c) =
     (if r |\<in>| rooms then (db_of r c)\<lparr>rd_states := fmempty, rd_account_data := fmempty, rd_members := fmempty\<rparr>
      else db_of r c)"
proof -
  have "db_of r (fold (\<lambda>r c. remove_invite r (remove_room r c)) rs c) =
     (if r \<in> set rs then (db_of r c)\<lparr>rd_states := fmempty, rd_account_data := fmempty, rd_members := fmempty\<rparr>
      else db_of r c)" for rs
    by (induction rs arbitrary: c) (auto simp: room_frames room_db_remove_room)
  then show ?thesis by (simp add: removeLeftRooms_def)
qed

lemma room_db_saveState:
  "db_of r (saveState tx lv tline un res c) = db_of r (commit_sync tx lv tline res c)"
  by (simp add: saveState_def Let_def room_frames)

definition joined_state ::
  "text_ops \<Rightarrow> (string \<Rightarrow> timeline_event list \<Rightarrow> (string, state_event) table \<Rightarrow> (string, state_event) table)
     \<Rightarrow> sync_response \<Rightarrow> room_cache \<Rightarrow> room_cache \<times> string fset \<times> string fset"
where
  "joined_state tx tline res c =
     fold (save_joined_room tx tline) (sorted_list_of_fmap (sy_join res))
       (save_account_data [] (sy_account_data res) (c\<lparr>rc_next_batch := Some (sy_next_batch res)\<rparr>), {||}, {||})"

lemma commit_sync_joined_state:
  "commit_sync tx lv tline res c =
     (let (c2, spaces, rooms) = joined_state tx tline res c
      in updateSpaces lv spaces rooms (removeLeftRooms (sy_leave res)
           (savePresence (sy_presence res) (saveInvites tx (sy_invite res) c2))))"
  by (simp add: commit_sync_def joined_state_def Let_def)

lemma room_db_commit_sync:
  "db_of r (commit_sync tx lv tline res c) =
     (let d = db_of r (fst (joined_state tx tline res c))
      in if r |\<in>| sy_leave res then d\<lparr>rd_states := fmempty, rd_account_data := fmempty, rd_members := fmempty\<rparr>
         else d)"
  by (simp add: commit_sync_joined_state Let_def case_prod_beta room_frames room_db_removeLeftRooms)

text \<open>The members and keys of a room after the joined rooms of a sync.\<close>

lemma room_db_joined_state:
  assumes "fmlookup (sy_join res) r = Some jr"
  obtains c' where "rd_members (db_of r c') = rd_members (db_of r c)"
    and "rd_states (db_of r c') = rd_states (db_of r c)"
    and "rd_statekeys (db_of r c') = rd_statekeys (db_of r c)"
    and "rd_events (db_of r c') = rd_events (db_of r c)"
    and "db_of r (fst (joined_state tx tline res c)) =
      (db_of r (saveStateEvents r (all_state jr) c'))\<lparr>
        rd_events := tline r (jr_timeline jr) (rd_events (db_of r (saveStateEvents r (all_state jr) c'))),
        rd_account_data := fold save_account_event (jr_account_data jr)
          (rd_account_data (db_of r (saveStateEvents r (all_state jr) c')))\<rparr>"
proof -
  let ?rooms = "sorted_list_of_fmap (sy_join res)"
  let ?c1 = "save_account_data [] (sy_account_data res) (c\<lparr>rc_next_batch := Some (sy_next_batch res)\<rparr>)"
  let ?st = "fold (save_joined_room tx tline) (takeWhile (\<lambda>x. fst x \<noteq> r) ?rooms) (?c1, {||}, {||})"
  have "r \<notin> fst ` set (takeWhile (\<lambda>x. fst x \<noteq> r) ?rooms)" by (auto dest: set_takeWhileD)
  then have pre: "db_of r (fst ?st) = db_of r ?c1" by (simp add: room_db_save_joined_rooms_other)
  have mem: "(r, jr) \<in> set ?rooms" using assms by simp
  show ?thesis
    by (rule that [of "fst ?st"])
      (simp_all add: pre room_db_save_account_data room_frames joined_state_def
        room_db_save_joined_rooms [OF distinct_sorted_list_of_fmap mem refl])
qed

end
