(* ===== verification/Room_Invariants.thy ===== *)
theory Room_Invariants
  imports Room_Machine
begin

text \<open>
  What every operation on the rooms keeps: the tables of a room are typed, and the two tables of
  the spaces are inverse to each other.
\<close>

section \<open>Invariants of every run\<close>

definition typed_db :: "room_db \<Rightarrow> bool" where
  "typed_db d \<longleftrightarrow> (\<forall>t e. fmlookup (rd_states d) t = Some e \<longrightarrow>
     se_type e = t \<and> se_state_key e = [] \<and> \<not> is_redacted (se_content e)
     \<and> t \<notin> {RoomMember, RoomEncryption, Unsupported})"

definition well_typed :: "room_cache \<Rightarrow> bool" where
  "well_typed c \<longleftrightarrow> (\<forall>r. typed_db (db_of r c))"

lemma typed_db_frames [simp]:
  "typed_db (d\<lparr>rd_events := a\<rparr>) = typed_db d"
  "typed_db (d\<lparr>rd_account_data := b\<rparr>) = typed_db d"
  "typed_db (d\<lparr>rd_members := m\<rparr>) = typed_db d"
  "typed_db (d\<lparr>rd_states := fmempty\<rparr>)"
  by (simp_all add: typed_db_def)

lemma well_typed_cong: "(\<And>r. db_of r c' = db_of r c) \<Longrightarrow> well_typed c' = well_typed c"
  by (simp add: well_typed_def)

lemma typed_dbD:
  "typed_db d \<Longrightarrow> fmlookup (rd_states d) t = Some e \<Longrightarrow>
     se_type e = t \<and> se_state_key e = [] \<and> \<not> is_redacted (se_content e)
     \<and> t \<notin> {RoomMember, RoomEncryption, Unsupported}"
  unfolding typed_db_def by blast

lemma typed_db_encryption: "typed_db d \<Longrightarrow> fmlookup (rd_states d) RoomEncryption = None"
  using typed_dbD [of d RoomEncryption] by (cases "fmlookup (rd_states d) RoomEncryption") auto

lemma typed_db_saveStateEvent:
  assumes "typed_db (db_of r c)"
  shows "typed_db (db_of r (saveStateEvent r e c))"
  unfolding typed_db_def
proof (intro allI impI)
  fix t f
  assume "fmlookup (rd_states (db_of r (saveStateEvent r e c))) t = Some f"
  then show "se_type f = t \<and> se_state_key f = [] \<and> \<not> is_redacted (se_content f)
     \<and> t \<notin> {RoomMember, RoomEncryption, Unsupported}"
    using typed_dbD [OF assms, of t f] typed_db_encryption [OF assms]
    by (auto simp: states_saveStateEvent split: if_split_asm)
qed

lemma typed_db_saveStateEvents:
  "typed_db (db_of r c) \<Longrightarrow> typed_db (db_of r (saveStateEvents r es c))"
  unfolding saveStateEvents_def by (rule fold_invariant) (simp_all add: typed_db_saveStateEvent)

lemma well_typed_saveStateEvents: "well_typed c \<Longrightarrow> well_typed (saveStateEvents q es c)"
  using typed_db_saveStateEvents [of q c es] room_db_saveStateEvents_other [of _ q es c]
  unfolding well_typed_def by metis

lemma well_typed_save_joined_room:
  assumes "well_typed (fst st)"
  shows "well_typed (fst (save_joined_room tx tline room st))"
proof -
  obtain q jr where room: "room = (q, jr)" by (cases room)
  show ?thesis
    using well_typed_saveStateEvents [OF assms, of q "all_state jr"] assms
    by (simp add: well_typed_def room room_db_save_joined_room)
qed

lemma well_typed_commit_sync:
  assumes "well_typed c"
  shows "well_typed (commit_sync tx lv tline res c)"
proof -
  have "well_typed (save_account_data [] (sy_account_data res) (c\<lparr>rc_next_batch := n\<rparr>))" for n
    using assms by (simp add: well_typed_def room_db_save_account_data room_frames)
  then have "well_typed (fst (joined_state tx tline res c))"
    unfolding joined_state_def
    by (intro fold_invariant [where P = "\<lambda>st. well_typed (fst st)"] well_typed_save_joined_room) simp_all
  then show ?thesis by (simp add: well_typed_def room_db_commit_sync Let_def)
qed

lemma well_typed_room_step: "well_typed c \<Longrightarrow> well_typed (room_step en c op)"
proof (cases op)
  case (Sync res)
  assume "well_typed c"
  then show ?thesis
    using well_typed_commit_sync [of c] well_typed_cong [OF room_db_saveState] by (simp add: Sync)
next
  case (FetchedState r es)
  assume "well_typed c"
  then have "well_typed (saveStateEvents r es c)" by (rule well_typed_saveStateEvents)
  then show ?thesis
    by (simp add: FetchedState updateState_def Let_def well_typed_def room_frames)
qed (auto simp: updateLastMessageTimestamp_def markSentNotification_def removeReadNotification_def
  well_typed_def room_frames split: option.splits)

lemma well_typed_new: "well_typed new_room_cache"
  by (simp add: well_typed_def typed_db_def db_of_def new_room_cache_def new_room_def)

text \<open>The tables of the spaces are only changed by \<open>updateSpaces\<close>.\<close>

definition space_tables where
  "space_tables c = (rc_space_children c, rc_space_parents c)"

lemma space_tables_frames [simp]:
  "space_tables (c\<lparr>rc_room_dbs := b1\<rparr>) = space_tables c"
  "space_tables (c\<lparr>rc_rooms := a1\<rparr>) = space_tables c"
  "space_tables (c\<lparr>rc_invites := a1\<rparr>) = space_tables c"
  "space_tables (c\<lparr>rc_invite_states := a2\<rparr>) = space_tables c"
  "space_tables (c\<lparr>rc_invite_members := a3\<rparr>) = space_tables c"
  "space_tables (c\<lparr>rc_encrypted := a4\<rparr>) = space_tables c"
  "space_tables (c\<lparr>rc_receipts := a5\<rparr>) = space_tables c"
  "space_tables (c\<lparr>rc_presence := a6\<rparr>) = space_tables c"
  "space_tables (c\<lparr>rc_notifications := a4\<rparr>) = space_tables c"
  "space_tables (c\<lparr>rc_next_batch := a8\<rparr>) = space_tables c"
  "space_tables (c\<lparr>rc_signals := a9\<rparr>) = space_tables c"
  "space_tables (set_room_db r d c) = space_tables c"
  by (simp_all add: space_tables_def set_room_db_def)

lemma space_tables_saveStateEvents [simp]: "space_tables (saveStateEvents r es c) = space_tables c"
proof -
  have "space_tables (saveStateEvent r e c) = space_tables c" for e c
    by (cases "se_content e") (simp_all add: saveStateEvent_def)
  then show ?thesis unfolding saveStateEvents_def by (rule fold_frame)
qed

lemma space_tables_save_account_data [simp]: "space_tables (save_account_data r es c) = space_tables c"
  by (simp add: save_account_data_def Let_def)

lemma space_tables_updateReadReceipt [simp]: "space_tables (updateReadReceipt l r rs c) = space_tables c"
  unfolding updateReadReceipt_def
  by (rule fold_frame) (simp add: merge_receipts_def case_prod_beta Let_def)

lemma space_tables_remove_invite [simp]: "space_tables (remove_invite r c) = space_tables c"
  by (simp add: remove_invite_def)

lemma space_tables_save_joined_room [simp]:
  "space_tables (fst (save_joined_room tx tline room st)) = space_tables (fst st)"
proof -
  have "space_tables (fold (\<lambda>content. updateReadReceipt l q (collect_receipts l content)) contents d)
      = space_tables d" for l q contents d
    by (rule fold_frame) simp
  then show ?thesis
    by (cases room; cases st) (simp add: save_joined_room_def Let_def save_events_def)
qed

lemma space_tables_joined_state: "space_tables (fst (joined_state tx tline res c)) = space_tables c"
  unfolding joined_state_def by (subst fold_frame [of "\<lambda>st. space_tables (fst st)"]) simp_all

lemma space_tables_saveInvites [simp]: "space_tables (saveInvites tx rooms c) = space_tables c"
proof -
  have "space_tables (save_stripped q e c) = space_tables c" for q e c by (cases e) simp_all
  then have "space_tables (saveInvite q es c) = space_tables c" for q es c
    unfolding saveInvite_def by (rule fold_frame)
  then show ?thesis
    unfolding saveInvites_def by (intro fold_frame) (simp add: case_prod_beta Let_def)
qed

lemma space_tables_removeLeftRooms [simp]: "space_tables (removeLeftRooms rooms c) = space_tables c"
  unfolding removeLeftRooms_def by (rule fold_frame) (simp add: remove_room_def Let_def)

lemma space_tables_savePresence [simp]: "space_tables (savePresence us c) = space_tables c"
  by (simp add: savePresence_def)

lemma spaces_inverse_tables: "space_tables c' = space_tables c \<Longrightarrow> spaces_inverse c' = spaces_inverse c"
  by (simp add: space_tables_def spaces_inverse_def)

lemma spaces_inverse_commit_sync:
  assumes "spaces_inverse c"
  shows "spaces_inverse (commit_sync tx lv tline res c)"
proof -
  have "space_tables (removeLeftRooms (sy_leave res) (savePresence (sy_presence res)
      (saveInvites tx (sy_invite res) (fst (joined_state tx tline res c))))) = space_tables c"
    by (simp add: space_tables_joined_state)
  from spaces_inverse_updateSpaces [OF iffD2 [OF spaces_inverse_tables [OF this] assms]]
  show ?thesis by (simp add: commit_sync_joined_state case_prod_beta Let_def)
qed

lemma spaces_inverse_room_step: "spaces_inverse c \<Longrightarrow> spaces_inverse (room_step en c op)"
proof (cases op)
  case (Sync res)
  assume "spaces_inverse c"
  then show ?thesis
    using spaces_inverse_commit_sync [of c]
    by (simp add: Sync saveState_def Let_def spaces_inverse_tables [OF space_tables_frames(11)])
next
  case (FetchedState r es)
  assume inv: "spaces_inverse c"
  have "spaces_inverse ((saveStateEvents r es c)\<lparr>rc_rooms := m\<rparr>)" for m
    using inv by (subst spaces_inverse_tables [of _ c]) simp_all
  then show ?thesis
    by (simp add: FetchedState updateState_def Let_def spaces_inverse_updateSpaces)
next
  case (EventsGone r ids)
  assume "spaces_inverse c"
  then show ?thesis
    by (simp only: EventsGone room_step.simps spaces_inverse_tables [OF space_tables_frames(12)])
qed (auto simp: updateLastMessageTimestamp_def markSentNotification_def removeReadNotification_def
  spaces_inverse_def split: option.splits)

interpretation rooms: invariant_machine "room_step en" "\<lambda>c. well_typed c \<and> spaces_inverse c"
  by unfold_locales (simp add: well_typed_room_step spaces_inverse_room_step)

lemma new_room_cache_inv: "well_typed new_room_cache \<and> spaces_inverse new_room_cache"
  using well_typed_new by (simp add: spaces_inverse_def new_room_cache_def)

lemmas room_run_inv = rooms.run_inv [OF new_room_cache_inv]


end
