(* ===== verification/Room_Properties.thy ===== *)
theory Room_Properties
  imports Room_Invariants
begin

text \<open>
  The properties of the rooms in the cache: the types of the tables and the inverse space tables as
  invariants of every run, members and state against their references, the spaces, the search for
  image packs, names, receipts, and what leaving a room leaves behind.
\<close>

section \<open>Every run\<close>


definition room_demo_env :: "unit room_env" where
  "room_demo_env = \<lparr>en_texts = \<lparr>tx_tr = id, tx_others = (\<lambda>a n. a), tx_local = ''@me''\<rparr>,
     en_levels = \<lparr>user_level = (\<lambda>p u. if u = ''@admin'' then 100 else 0), state_level = (\<lambda>p t. 50)\<rparr>,
     en_timeline = (\<lambda>r es evs. evs), en_unread = (\<lambda>c r. False)\<rparr>"

definition named_room :: room_op where
  "named_room = FetchedState ''!a''
     [\<lparr>se_event_id = ''$1'', se_sender = ''@u'', se_state_key = [], se_content = Name ''Room''\<rparr>,
      \<lparr>se_event_id = ''$2'', se_sender = ''@u'', se_state_key = [], se_content = Encryption ''rot''\<rparr>]"

lemma room_db_updateState:
  "db_of r (updateState tx lv q es c) = db_of r (saveStateEvents q es c)"
  by (simp add: updateState_def Let_def room_frames)

lemma named_room_state:
  "fmlookup (rd_states (db_of ''!a'' (run (room_step room_demo_env) new_room_cache [named_room]))) RoomName =
     Some \<lparr>se_event_id = ''$1'', se_sender = ''@u'', se_state_key = [], se_content = Name ''Room''\<rparr>"
  by (simp add: named_room_def room_db_updateState saveStateEvents_def states_saveStateEvent)


text \<open>C27: Both tables of the spaces list the same pairs in every run: a room has a space among its
parents exactly when the space has the room among its children.\<close>

theorem space_tables_stay_inverse:
  "(p \<in> set (getParentRoomIds r (run (room_step en) new_room_cache ops)) \<longleftrightarrow>
     p \<noteq> [] \<and> (p, r) |\<in>| rc_space_children (run (room_step en) new_room_cache ops)) \<and>
   (ch \<in> set (getChildRoomIds s (run (room_step en) new_room_cache ops)) \<longleftrightarrow>
     ch \<noteq> [] \<and> (ch, s) |\<in>| rc_space_parents (run (room_step en) new_room_cache ops))"
  using room_run_inv [of en ops] unfolding spaces_inverse_iff
  by (auto simp: getParentRoomIds_def getChildRoomIds_def)

text \<open>The encryption settings of a room are never found: an encryption event marks the room as
encrypted and is not stored, so the rotation periods it asks for do not reach the sender.\<close>

theorem encryption_settings_are_never_found:
  "room_encryption_settings r (run (room_step en) new_room_cache ops) = None
   \<and> (se_content e = Encryption s \<longrightarrow>
       r |\<in>| rc_encrypted (saveStateEvent r e (run (room_step en) new_room_cache ops))
       \<and> room_encryption_settings r (saveStateEvent r e (run (room_step en) new_room_cache ops)) = None)"
proof -
  let ?c = "run (room_step en) new_room_cache ops"
  have "fmlookup (rd_states (db_of r ?c)) RoomEncryption = None"
    using room_run_inv [of en ops] by (simp add: well_typed_def typed_db_encryption)
  then show ?thesis
    by (auto simp: room_encryption_settings_def saveStateEvent_def room_frames)
qed

lemma encryption_settings_are_never_found_witness:
  "room_encryption_settings ''!a'' (saveStateEvent ''!a''
     \<lparr>se_event_id = ''$2'', se_sender = ''@u'', se_state_key = [], se_content = Encryption ''rot''\<rparr>
     (run (room_step room_demo_env) new_room_cache [])) = None"
  using encryption_settings_are_never_found [of "''!a''" room_demo_env "[]"
      "\<lparr>se_event_id = ''$2'', se_sender = ''@u'', se_state_key = [], se_content = Encryption ''rot''\<rparr>" "''rot''"]
  by simp

section \<open>State and members\<close>

text \<open>C22: After a sync the members of a joined room are what the last membership event of each
user says: an invite or a join makes the user a member, under the state key if no name is given,
anything else removes the user, and users the sync does not mention stay as they were.\<close>

theorem synced_members_are_current:
  assumes "fmlookup (sy_join res) r = Some jr" and "r |\<notin>| sy_leave res" and "u \<noteq> []"
  shows "getMember r u (saveState tx lv timeline unread res c) =
     (case last_event RoomMember u (all_state jr) of
        Some e \<Rightarrow> member_of e
      | None \<Rightarrow> getMember r u c)"
proof -
  obtain c' where "rd_members (db_of r c') = rd_members (db_of r c)"
    "db_of r (fst (joined_state tx timeline res c)) =
      (db_of r (saveStateEvents r (all_state jr) c'))\<lparr>
        rd_events := timeline r (jr_timeline jr) (rd_events (db_of r (saveStateEvents r (all_state jr) c'))),
        rd_account_data := fold save_account_event (jr_account_data jr)
          (rd_account_data (db_of r (saveStateEvents r (all_state jr) c')))\<rparr>"
    by (rule room_db_joined_state [OF assms(1)])
  then show ?thesis
    using assms(2,3)
    by (simp add: getMember_def room_db_saveState room_db_commit_sync Let_def members_saveStateEvents
        split: option.splits)
qed

definition leaving :: sync_response where
  "leaving = \<lparr>sy_next_batch = ''s'', sy_account_data = [],
     sy_join = fmap_of_list [(''!a'', \<lparr>jr_state =
        [\<lparr>se_event_id = ''$1'', se_sender = ''@u'', se_state_key = ''@u'', se_content = Member MJoin [] []\<rparr>],
        jr_timeline = [StateInTimeline
          \<lparr>se_event_id = ''$2'', se_sender = ''@u'', se_state_key = ''@u'', se_content = Member MLeave [] []\<rparr>],
        jr_notification_count = 0, jr_highlight_count = 0, jr_account_data = [], jr_receipts = []\<rparr>)],
     sy_invite = fmempty, sy_leave = {||}, sy_presence = []\<rparr>"

lemma synced_members_are_current_witness:
  "getMember ''!a'' ''@u'' (saveState (en_texts room_demo_env) (en_levels room_demo_env) (en_timeline room_demo_env)
     (en_unread room_demo_env) leaving new_room_cache) = None"
proof -
  have "fmlookup (sy_join leaving) ''!a'' = Some (the (fmlookup (sy_join leaving) ''!a''))"
    "''!a'' |\<notin>| sy_leave leaving" "''@u'' \<noteq> []" by (simp_all add: leaving_def)
  from synced_members_are_current [OF this, of "en_texts room_demo_env" "en_levels room_demo_env"
      "en_timeline room_demo_env" "en_unread room_demo_env" new_room_cache]
  show ?thesis by (simp add: leaving_def all_state_def last_event_def member_of_def)
qed

text \<open>Reading a room's state after saving events gives the last event of that type and state
key, nothing if that was redacted, and what was there before if there is no such event; for
events with an id of their own.\<close>

theorem stored_state_is_the_latest:
  assumes "t \<notin> {RoomMember, RoomEncryption, Unsupported}" and "ids_agree es (db_of r c)"
    and "keyed_present (db_of r c)" and "r \<noteq> []"
  shows "getStateEvent t as r key (saveStateEvents r es c) =
     (case last_event t key es of
        Some e \<Rightarrow> if is_redacted (se_content e) then None else parsed as e
      | None \<Rightarrow> getStateEvent t as r key c)"
  using assms(4) state_entry_saveStateEvents [OF assms(1-3)]
  by (auto simp: getStateEvent_def split: option.splits)

definition child_event :: "string \<Rightarrow> string \<Rightarrow> string list option \<Rightarrow> state_event" where
  "child_event i key via =
     \<lparr>se_event_id = i, se_sender = ''@admin'', se_state_key = key, se_content = Child via\<rparr>"

lemma stored_state_is_the_latest_witness:
  "getStateEvent SpaceChild as_child ''!s'' ''!a1'' (saveStateEvents ''!s''
     [child_event ''$1'' ''!a1'' (Some []), child_event ''$2'' ''!a1'' None] new_room_cache) =
   Some (child_event ''$2'' ''!a1'' None, None)"
proof -
  have "SpaceChild \<notin> {RoomMember, RoomEncryption, Unsupported}"
    "ids_agree [child_event ''$1'' ''!a1'' (Some []), child_event ''$2'' ''!a1'' None] (db_of ''!s'' new_room_cache)"
    "keyed_present (db_of ''!s'' new_room_cache)" "''!s'' \<noteq> []"
    by (simp_all add: ids_agree_def id_free_def keyed_present_def child_event_def new_room_def)
  from stored_state_is_the_latest [OF this, of as_child "''!a1''"]
  show ?thesis by (simp add: last_event_def child_event_def parsed_def)
qed

section \<open>Spaces\<close>

text \<open>C25: After an update the children of an updated space are exactly the rooms its own child
events name and the joined (or updated) rooms that name it as their parent in an event whose
sender may add children to it; other spaces keep their children and gain only such rooms.\<close>

theorem children_follow_the_state:
  assumes "keys_match (db_of ch c)"
  shows "(s, ch) |\<in>| rc_space_children (updateSpaces lv S R c) \<longleftrightarrow>
     (if s |\<in>| S then named_child c s ch \<or> (ch |\<in>| R \<or> ch |\<in>| fmdom (rc_rooms c)) \<and> named_parent lv c s ch
      else (s, ch) |\<in>| rc_space_children c \<or>
        (ch |\<in>| R \<or> (\<exists>s' \<in> fset S. ch \<in> set (rooms_with_parent s' c))) \<and> named_parent lv c s ch)"
proof -
  have "ch \<in> set (rooms_with_parent s c)" if np: "named_parent lv c s ch" and joined: "ch |\<in>| fmdom (rc_rooms c)"
  proof -
    obtain e via canonical where
      "(e, via, canonical) \<in> set (getStateEventsWithType SpaceParent as_parent ch c)"
      and e: "se_state_key e = s" "names_a_room via s"
      using np unfolding named_parent_def list_ex_iff by blast
    then obtain key i where i: "fmlookup (rd_statekeys (db_of ch c) SpaceParent) key = Some i"
      "fmlookup (rd_events (db_of ch c)) i = Some e" "as_parent (se_content e) = Some (via, canonical)" "ch \<noteq> []"
      by (auto simp: in_getStateEventsWithType)
    moreover have "key = s" using assms i(1,2) e(1) unfolding keys_match_def by blast
    moreover have "s \<noteq> []" using e(2) by (auto simp: names_a_room_def)
    ultimately show ?thesis
      using joined by (simp add: rooms_with_parent_def room_ids_def getStateEvent_def state_entry_def parsed_def)
  qed
  moreover have "ch |\<in>| fmdom (rc_rooms c)" if "ch \<in> set (rooms_with_parent s' c)" for s'
    using that by (simp add: rooms_with_parent_def room_ids_def)
  ultimately show ?thesis by (auto simp: updateSpaces_children)
qed

definition demo_space :: room_cache where
  "demo_space = saveStateEvents ''!s11'' [child_event ''$1'' ''!a11'' (Some [])] new_room_cache"

lemma children_follow_the_state_witness:
  "(''!s11'', ''!a11'') |\<in>| rc_space_children (updateSpaces (en_levels room_demo_env) {|''!s11''|} {||} demo_space)"
proof -
  have "keys_match (db_of ''!a11'' demo_space)"
    by (simp add: demo_space_def room_db_saveStateEvents_other keys_match_def new_room_def)
  from children_follow_the_state [OF this, of "''!s11''" "en_levels room_demo_env" "{|''!s11''|}" "{||}"]
  show ?thesis
    by (simp add: demo_space_def saveStateEvents_def saveStateEvent_def child_event_def save_other_state_def
        put_state_key_def Let_def named_child_def getStateEventsWithType_def new_room_def
        sorted_list_of_fmap_def parsed_def names_a_room_def List.map_filter_simps sorted_list_of_fset.rep_eq)
qed

lemma redacted_is_no_update:
  "is_redacted (se_content e) \<Longrightarrow>
     \<not> is_space_update e \<and> \<not> (case se_content e of Parent _ _ \<Rightarrow> True | _ \<Rightarrow> False)"
  by (cases "se_content e") (simp_all add: is_space_update_def)

text \<open>A space is not recomputed because one of its child events came redacted: a sync whose
state consists of redacted events takes the child's entry out of the state of the space and leaves
the children of every space as they were, so the room stays listed.\<close>

theorem redacted_child_stays_listed:
  assumes "\<And>r jr e. fmlookup (sy_join res) r = Some jr \<Longrightarrow> e \<in> set (all_state jr) \<Longrightarrow> is_redacted (se_content e)"
    and "fmlookup (sy_join res) s = Some sjr" and "last_event SpaceChild ch (all_state sjr) \<noteq> None" and "ch \<noteq> []"
  shows "rc_space_children (saveState tx lv timeline unread res c) = rc_space_children c
    \<and> getStateEvent SpaceChild as_child s ch (saveState tx lv timeline unread res c) = None"
proof -
  have upd: "snd (save_joined_room tx timeline (r, jr) st) = snd st"
    if "(r, jr) \<in> set (sorted_list_of_fmap (sy_join res))" for r jr st
  proof -
    have "\<And>e. e \<in> set (all_state jr) \<Longrightarrow> is_redacted (se_content e)" using assms(1) that by simp
    then have "\<not> list_ex is_space_update (all_state jr)" "parent_keys (all_state jr) = []"
      using redacted_is_no_update by (auto simp: list_ex_iff parent_keys_def filter_empty_conv)
    then show ?thesis by (cases st) (simp add: save_joined_room_def Let_def space_updates_def)
  qed
  have "snd (fold (save_joined_room tx timeline) rooms st) = snd st"
    if "set rooms \<subseteq> set (sorted_list_of_fmap (sy_join res))" for rooms st
    using that by (induction rooms arbitrary: st) (auto simp: upd)
  then have "snd (joined_state tx timeline res c) = ({||}, {||})"
    by (simp add: joined_state_def)
  then have "space_tables (commit_sync tx lv timeline res c) = space_tables (fst (joined_state tx timeline res c))"
    by (simp add: commit_sync_joined_state case_prod_beta Let_def updateSpaces_def sorted_list_of_fset.rep_eq)
  then have "space_tables (saveState tx lv timeline unread res c) = space_tables c"
    by (simp add: saveState_def Let_def space_tables_joined_state)
  moreover obtain e where e: "last_event SpaceChild ch (all_state sjr) = Some e"
    using assms(3) by blast
  then have "e \<in> set (all_state sjr)"
    unfolding last_event_def by (metis find_Some_iff nth_mem set_rev)
  then have "is_redacted (se_content e)" using assms(1,2) by blast
  then have "fmlookup (rd_statekeys (db_of s (saveState tx lv timeline unread res c)) SpaceChild) ch = None"
    by (rule_tac room_db_joined_state [OF assms(2), of c tx timeline])
      (simp add: room_db_saveState room_db_commit_sync Let_def statekeys_saveStateEvents e assms(4))
  ultimately show ?thesis
    using assms(4) by (simp add: space_tables_def getStateEvent_def state_entry_def)
qed

definition redacting :: sync_response where
  "redacting = leaving\<lparr>sy_join := fmap_of_list [(''!s11'', \<lparr>jr_state = [], jr_timeline = [StateInTimeline
          \<lparr>se_event_id = ''$1'', se_sender = ''@admin'', se_state_key = ''!a11'', se_content = Redacted SpaceChild\<rparr>],
        jr_notification_count = 0, jr_highlight_count = 0, jr_account_data = [], jr_receipts = []\<rparr>)]\<rparr>"

lemma redacted_child_stays_listed_witness:
  "(''!s11'', ''!a11'') |\<in>| rc_space_children (saveState (en_texts room_demo_env) (en_levels room_demo_env)
      (en_timeline room_demo_env) (en_unread room_demo_env) redacting
      (demo_space\<lparr>rc_space_children := {|(''!s11'', ''!a11'')|}\<rparr>))"
proof -
  have 1: "is_redacted (se_content e)"
    if "fmlookup (sy_join redacting) r = Some jr" "e \<in> set (all_state jr)" for r jr e
    using that by (auto simp: redacting_def all_state_def split: if_splits)
  have 2: "fmlookup (sy_join redacting) ''!s11'' = Some (the (fmlookup (sy_join redacting) ''!s11''))"
    "last_event SpaceChild ''!a11'' (all_state (the (fmlookup (sy_join redacting) ''!s11''))) \<noteq> None"
    "''!a11'' \<noteq> []"
    by (simp_all add: redacting_def all_state_def last_event_def)
  from redacted_child_stays_listed [OF 1 2, where tx = "en_texts room_demo_env" and lv = "en_levels room_demo_env"
      and timeline = "en_timeline room_demo_env" and unread = "en_unread room_demo_env"
      and c = "demo_space\<lparr>rc_space_children := {|(''!s11'', ''!a11'')|}\<rparr>"]
  show ?thesis by simp
qed

end
