(* ===== verification/Room_Behaviour.thy ===== *)
theory Room_Behaviour
  imports Room_Properties
begin

text \<open>
  What the rooms in the cache look like to the rest of the program: the image packs of a room, its
  name and picture, the pages of its members, who may do what, when an event was read, and what is
  left of a room after leaving it.
\<close>

section \<open>Image packs\<close>

text \<open>C26: The search for the image packs of a room returns, also when the canonical parents of the
rooms form a cycle; it visits exactly the rooms that canonical parents lead to from this one, and
no larger bound on the depth of the recursion changes what it finds.\<close>

theorem pack_search_returns:
  "\<exists>visited infos.
     fset visited = (parent_rel c)\<^sup>* `` {room_id} \<and>
     getImagePacks room_id stickers c = Some infos \<and>
     (\<forall>n\<ge>pack_fuel c. add_room_and_canonical_parents n stickers room_id c room_id
         ({||}, global_packs stickers room_id c (account_packs stickers c [])) = Some (visited, infos))"
proof -
  have "unvisited c {||} + 2 \<le> pack_fuel c" by (simp add: unvisited_def pack_fuel_def)
  from search_returns [OF this] obtain V infos where
    s: "add_room_and_canonical_parents (pack_fuel c) stickers room_id c room_id
         ({||}, global_packs stickers room_id c (account_packs stickers c [])) = Some (V, infos)"
    and "explored c {room_id} {||} V" by blast
  with explored_reachable search_fuel_mono [OF s] show ?thesis
    by (intro exI [of _ V] exI [of _ infos]) (simp add: getImagePacks_def)
qed

definition parent_event :: "string \<Rightarrow> string \<Rightarrow> state_event" where
  "parent_event i key =
     \<lparr>se_event_id = i, se_sender = ''@admin'', se_state_key = key, se_content = Parent (Some [''x'']) True\<rparr>"

definition pack_event :: "string \<Rightarrow> state_event" where
  "pack_event i =
     \<lparr>se_event_id = i, se_sender = ''@admin'', se_state_key = [], se_content = ImagePack
        \<lparr>ip_pack = None, ip_images = fmap_of_list [(''cat'', \<lparr>pi_url = ''u'',
           pi_overrides_usage = True, pi_is_sticker = True, pi_is_emoji = False\<rparr>)]\<rparr>\<rparr>"

text \<open>Two rooms that are each other's parent.\<close>

definition parent_cycle :: room_cache where
  "parent_cycle = saveStateEvents ''!a'' [parent_event ''$1'' ''!b'']
     (saveStateEvents ''!b'' [parent_event ''$2'' ''!a'', pack_event ''$3''] new_room_cache)"

lemma pack_search_returns_witness:
  "\<exists>infos. getImagePacks ''!a'' (Some True) parent_cycle = Some infos"
  using pack_search_returns [of parent_cycle "''!a''" "Some True"] by blast

text \<open>A pack that is found holds only images of the wanted kind, and at least one; it comes from
the account, the room itself, a room enabled for all rooms or, marked as such, from a room that
canonical parents lead to.\<close>

theorem found_packs_are_wanted:
  assumes "getImagePacks room_id stickers c = Some infos" and "i \<in> set infos"
  shows "ip_images (ii_pack i) \<noteq> fmempty
    \<and> (\<forall>k img. fmlookup (ip_images (ii_pack i)) k = Some img \<longrightarrow> image_wanted stickers (ii_pack i) img)
    \<and> (if ii_from_space i
        then ii_source_room i \<noteq> room_id \<and> (room_id, ii_source_room i) \<in> (parent_rel c)\<^sup>+
        else ii_source_room i = [] \<or> ii_source_room i = room_id \<or> globally_enabled c (ii_source_room i))"
proof -
  obtain V where s: "add_room_and_canonical_parents (pack_fuel c) stickers room_id c room_id
      ({||}, global_packs stickers room_id c (account_packs stickers c [])) = Some (V, infos)"
    using assms(1) by (auto simp: getImagePacks_def)
  have "list_all (good_pack stickers room_id c) (global_packs stickers room_id c (account_packs stickers c []))"
    by (intro good_global_packs good_account_packs) simp
  from good_search [OF s this] assms(2) show ?thesis
    by (simp add: list_all_iff good_pack_def)
qed

lemma parent_cycle_simps:
  "db_of ''!a'' parent_cycle = new_room\<lparr>rd_statekeys := (\<lambda>_. fmempty)(SpaceParent := fmupd ''!b'' ''$1'' fmempty),
     rd_events := fmupd ''$1'' (parent_event ''$1'' ''!b'') fmempty\<rparr>"
  "db_of ''!b'' parent_cycle = new_room\<lparr>rd_statekeys := (\<lambda>_. fmempty)(SpaceParent := fmupd ''!a'' ''$2'' fmempty),
     rd_states := fmupd ImagePackInRoom (pack_event ''$3'') fmempty,
     rd_events := fmupd ''$3'' (pack_event ''$3'') (fmupd ''$2'' (parent_event ''$2'' ''!a'') fmempty)\<rparr>"
  "db_of [] parent_cycle = new_room"
  "fcard (fmdom (rc_room_dbs parent_cycle)) = 2"
  by (simp_all add: parent_cycle_def saveStateEvents_def saveStateEvent_def parent_event_def pack_event_def
      save_other_state_def put_state_key_def new_room_def set_room_db_def db_of_def new_room_cache_def
      fcard_finsert)

lemma parent_cycle_packs:
  "getImagePacks ''!a'' (Some True) parent_cycle =
     Some [\<lparr>ii_source_room = ''!b'', ii_state_key = [],
       ii_pack = \<lparr>ip_pack = None, ip_images = fmap_of_list [(''cat'', \<lparr>pi_url = ''u'',
           pi_overrides_usage = True, pi_is_sticker = True, pi_is_emoji = False\<rparr>)]\<rparr>, ii_from_space = True\<rparr>]"
  by ((simp add: getImagePacks_def pack_fuel_def parent_cycle_simps account_packs_def global_packs_def
      account_data_def new_room_def canonical_parents_def getStateEventsWithType_def parsed_def
      parent_event_def pack_event_def room_packs_def getStateEvent_def state_entry_def addPack_def Let_def
      sorted_list_of_fmap_def sorted_list_of_fset.rep_eq List.map_filter_simps eval_nat_numeral
      image_wanted_def), (simp only: image_pack.simps), simp)

lemma found_packs_are_wanted_witness:
  "(''!a'', ''!b'') \<in> (parent_rel parent_cycle)\<^sup>+"
  using found_packs_are_wanted [OF parent_cycle_packs] by simp

section \<open>Names and pictures\<close>

text \<open>The first other member of a table by user id.\<close>

lemma filter_take_other:
  assumes "distinct (map fst xs)" and "2 \<le> n"
  shows "filter (\<lambda>(u, m). u \<noteq> x) (take n xs) = [] \<longleftrightarrow> filter (\<lambda>(u, m). u \<noteq> x) xs = []"
    and "filter (\<lambda>(u, m). u \<noteq> x) xs \<noteq> [] \<Longrightarrow>
      hd (filter (\<lambda>(u, m). u \<noteq> x) (take n xs)) = hd (filter (\<lambda>(u, m). u \<noteq> x) xs)"
proof -
  have split: "filter (\<lambda>(u, m). u \<noteq> x) xs =
      filter (\<lambda>(u, m). u \<noteq> x) (take n xs) @ filter (\<lambda>(u, m). u \<noteq> x) (drop n xs)"
    by (metis append_take_drop_id filter_append)
  have none: "filter (\<lambda>(u, m). u \<noteq> x) (drop n xs) = []" if "filter (\<lambda>(u, m). u \<noteq> x) (take n xs) = []"
  proof -
    have all: "\<forall>p \<in> set (take n xs). fst p = x" using that by (auto simp: filter_empty_conv)
    have "length (take n xs) \<le> 1"
    proof (rule ccontr)
      assume "\<not> length (take n xs) \<le> 1"
      then obtain a b rest where "take n xs = a # b # rest"
        by (cases "take n xs"; cases "List.tl (take n xs)") auto
      moreover have "distinct (map fst (take n xs))"
        using assms(1) by (simp add: take_map [symmetric])
      ultimately show False using all by simp
    qed
    then have "drop n xs = []" using assms(2) by simp
    then show ?thesis by simp
  qed
  show iff: "filter (\<lambda>(u, m). u \<noteq> x) (take n xs) = [] \<longleftrightarrow> filter (\<lambda>(u, m). u \<noteq> x) xs = []"
    by (cases "filter (\<lambda>(u, m). u \<noteq> x) (take n xs) = []") (simp_all add: split none)
  assume "filter (\<lambda>(u, m). u \<noteq> x) xs \<noteq> []"
  then have "filter (\<lambda>(u, m). u \<noteq> x) (take n xs) \<noteq> []" by (simp only: iff not_False_eq_True)
  then show "hd (filter (\<lambda>(u, m). u \<noteq> x) (take n xs)) = hd (filter (\<lambda>(u, m). u \<noteq> x) xs)"
    by (simp only: split hd_append if_False)
qed

lemma first_member_first_other:
  assumes "first_other local members = Some m"
  shows "first_member local (take 3 (sorted_list_of_fmap members)) = mi_name m"
proof -
  let ?F = "filter (\<lambda>(u, m). u \<noteq> local)" and ?xs = "sorted_list_of_fmap members"
  obtain u rest where f: "?F ?xs = (u, m) # rest"
    using assms by (auto simp: first_other_def split: list.splits)
  then have "?F (take 3 ?xs) \<noteq> []" and "hd (?F (take 3 ?xs)) = (u, m)"
    using filter_take_other [of ?xs 3 local] distinct_sorted_list_of_fmap [of members] by simp_all
  then show ?thesis by (cases "?F (take 3 ?xs)") (auto simp: first_member_def)
qed

text \<open>A room without a name and an alias is called after the other member with the least user
id: by that member's name alone in a room of two, else with the number of the others; and a room of
two without a picture of its own shows that member's picture.\<close>

theorem room_is_shown_as_its_other_member:
  assumes "state_value RoomName as_name states = None" and "state_value RoomCanonicalAlias as_alias states = None"
    and "state_value RoomAvatar as_avatar states = None"
    and "first_other local members = Some m" and "2 \<le> fcard (fmdom members)" and "fcard (fmdom members) < 2 ^ 31"
  shows "getRoomName tr others local states members =
      (if fcard (fmdom members) = 2 then mi_name m else others (mi_name m) (int (fcard (fmdom members)) - 1))
    \<and> getRoomAvatarUrl local states members = (if fcard (fmdom members) = 2 then mi_avatar_url m else [])"
proof -
  have "sint (word_of_nat (fcard (fmdom members)) :: 32 word) = int (fcard (fmdom members))"
    using assms(6) by (simp add: signed_of_nat signed_take_bit_int_eq_self)
  then have "getRoomName tr others local states members =
      (if fcard (fmdom members) = 2 then mi_name m else others (mi_name m) (int (fcard (fmdom members)) - 1))"
    using assms(5) first_member_first_other [OF assms(4)]
    by (auto simp: getRoomName_def assms(1,2) name_from_members_def Let_def)
  moreover have "getRoomAvatarUrl local states members = (if fcard (fmdom members) = 2 then mi_avatar_url m else [])"
    using assms(3-5) by (auto simp: getRoomAvatarUrl_def Let_def first_other_def split: list.splits)
  ultimately show ?thesis by simp
qed

definition two_members :: "(string, member_info) table" where
  "two_members = fmap_of_list [(''@me'', member_entry ''@me'' ''Me'' ''mine''),
     (''@you'', member_entry ''@you'' [] ''yours'')]"

lemma room_is_shown_as_its_other_member_witness:
  "getRoomName id (\<lambda>a n. a) ''@me'' fmempty two_members = ''@you''
   \<and> getRoomAvatarUrl ''@me'' fmempty two_members = ''yours''"
proof -
  have "first_other ''@me'' two_members = Some (member_entry ''@you'' [] ''yours'')"
    "fcard (fmdom two_members) = 2"
    by (simp_all add: two_members_def first_other_def sorted_list_of_fmap_def sorted_list_of_fset.rep_eq
        fcard_finsert less_char_def)
  then show ?thesis
    using room_is_shown_as_its_other_member [of fmempty "''@me''" two_members "member_entry ''@you'' [] ''yours''"
        id "\<lambda>a n. a"]
    by (simp add: state_value_def member_entry_def)
qed

section \<open>Pages of members\<close>

lemma indexed_interval:
  "b \<le> length xs \<Longrightarrow> map snd (filter (\<lambda>(i, x). a \<le> i \<and> i < b) (zip [0..<length xs] xs)) = take (b - a) (drop a xs)"
proof (induction xs arbitrary: b rule: rev_induct)
  case Nil
  then show ?case by simp
next
  case (snoc x xs)
  have old: "map snd (filter (\<lambda>(i, x). a \<le> i \<and> i < b) (zip [0..<length xs] xs)) = take (b - a) (drop a xs)"
  proof (cases "b \<le> length xs")
    case False
    then have "filter (\<lambda>(i, x). a \<le> i \<and> i < b) (zip [0..<length xs] xs) =
        filter (\<lambda>(i, x). a \<le> i \<and> i < length xs) (zip [0..<length xs] xs)"
      by (intro filter_cong) (auto dest: set_zip_leftD)
    then show ?thesis using snoc.IH [of "length xs"] False by simp
  qed (rule snoc.IH)
  then show ?case using snoc.prems by auto
qed

lemma filter_map_fst:
  assumes "\<And>i. i \<in> set is \<Longrightarrow> P (f i) = Q i"
  shows "map snd (filter (\<lambda>(i, x). P i) (zip (map f is) xs)) = map snd (filter (\<lambda>(i, x). Q i) (zip is xs))"
  using assms
proof (induction "is" arbitrary: xs)
  case (Cons i "is")
  then show ?case by (cases xs) auto
qed simp

lemma word_index_le:
  fixes a :: u64
  assumes "i < 2 ^ 64"
  shows "a \<le> word_of_nat i \<longleftrightarrow> unat a \<le> i" and "word_of_nat i < a \<longleftrightarrow> i < unat a"
proof -
  have "unat (word_of_nat i :: u64) = i" using assms by (simp add: unat_of_nat)
  then show "a \<le> word_of_nat i \<longleftrightarrow> unat a \<le> i" "word_of_nat i < a \<longleftrightarrow> i < unat a"
    by (simp_all add: word_le_nat_alt word_less_nat_alt)
qed

lemma length_sorted_list_of_fmap: "length (sorted_list_of_fmap m) = fcard (fmdom m)"
  by (simp add: sorted_list_of_fmap_def sorted_list_of_fset.rep_eq fcard.rep_eq)

lemma members_page_interval:
  assumes "fcard (fmdom members) < 2 ^ 64"
  shows "members_page start len members =
     (let b = min (unat (start + len)) (fcard (fmdom members))
      in take (b - unat start) (drop (unat start) (sorted_list_of_fmap members)))"
proof -
  let ?n = "fcard (fmdom members)"
  have n: "unat (word_of_nat ?n :: u64) = ?n" using assms by (simp add: unat_of_nat)
  have e: "unat (min (start + len) (word_of_nat ?n)) = min (unat (start + len)) ?n"
    using n by (auto simp: min_def word_le_nat_alt)
  have "members_page start len members = map snd (filter (\<lambda>(i, m). unat start \<le> i \<and> i < min (unat (start + len)) ?n)
      (zip [0..<?n] (sorted_list_of_fmap members)))"
    unfolding members_page_def Let_def
  proof (rule filter_map_fst)
    fix i assume "i \<in> set [0..<?n]"
    then have "i < 2 ^ 64" using assms by simp
    from word_index_le [OF this] show "(start \<le> word_of_nat i \<and> word_of_nat i < min (start + len) (word_of_nat ?n)) =
        (unat start \<le> i \<and> i < min (unat (start + len)) ?n)"
      by (simp only: e)
  qed
  then show ?thesis
    using indexed_interval [of "min (unat (start + len)) ?n" "sorted_list_of_fmap members" "unat start"]
    by (simp add: length_sorted_list_of_fmap Let_def)
qed

text \<open>A page of the members is the interval of the members in order of their ids that was asked
for, so that consecutive pages make up the list; an interval whose end passes the largest index
wraps around and gives an empty page.\<close>

theorem members_pages_are_intervals:
  assumes "fcard (fmdom (rd_members (db_of r c))) < 2 ^ 64"
  shows "map rm_user_id (getMembers r start len c) =
     (if unat start + unat len < 2 ^ 64 then take (unat len) (drop (unat start) (member_ids r c)) else [])"
proof -
  let ?m = "rd_members (db_of r c)" let ?n = "fcard (fmdom ?m)"
  have ids: "map rm_user_id (getMembers r start len c) = map fst (members_page start len ?m)"
    by (simp add: getMembers_def comp_def case_prod_beta)
  have fsts: "map fst (sorted_list_of_fmap ?m) = member_ids r c"
    by (simp add: member_ids_def map_fst_sorted_list_of_fmap)
  then have count: "length (member_ids r c) = ?n"
    by (metis length_map length_sorted_list_of_fmap)
  show ?thesis
  proof (cases "unat start + unat len < 2 ^ 64")
    case True
    then have "unat (start + len) = unat start + unat len" by (simp add: unat_word_ariths)
    then have "map fst (members_page start len ?m) =
        take (min (unat start + unat len) ?n - unat start) (drop (unat start) (member_ids r c))"
      by (simp only: members_page_interval [OF assms] Let_def take_map [symmetric] drop_map [symmetric] fsts)
    also have "\<dots> = take (unat len) (drop (unat start) (member_ids r c))"
      using count by (cases "unat start + unat len \<le> ?n") simp_all
    finally show ?thesis using True by (simp add: ids)
  next
    case False
    have "unat w < 2 ^ 64" for w :: u64
      by (rule less_le_trans [OF unsigned_less]) simp
    from this [of len] this [of start] have "unat (start + len) \<le> unat start"
      using False by (simp add: unat_word_ariths mod_if) arith
    then show ?thesis using False by (simp add: ids members_page_interval [OF assms] Let_def)
  qed
qed

lemma members_pages_are_intervals_witness:
  "map rm_user_id (getMembers ''!a'' 1 30 (set_room_db ''!a'' (new_room\<lparr>rd_members := two_members\<rparr>) new_room_cache))
     = [''@you'']
   \<and> getMembers ''!a'' 1 u64_max (set_room_db ''!a'' (new_room\<lparr>rd_members := two_members\<rparr>) new_room_cache) = []"
proof -
  let ?c = "set_room_db ''!a'' (new_room\<lparr>rd_members := two_members\<rparr>) new_room_cache"
  have "fcard (fmdom (rd_members (db_of ''!a'' ?c))) < 2 ^ 64"
    by (simp add: two_members_def fcard_finsert fcard_fempty)
  note page = members_pages_are_intervals [OF this]
  have "member_ids ''!a'' ?c = [''@me'', ''@you'']"
    by (simp add: member_ids_def two_members_def sorted_list_of_fset.rep_eq less_char_def)
  then show ?thesis using page [of 1 30] page [of 1 u64_max] by simp
qed

section \<open>Power\<close>

lemma fold_min_le:
  "n \<le> fold (\<lambda>t m. min m (f t :: int)) ts b \<longleftrightarrow> n \<le> b \<and> (\<forall>t \<in> set ts. n \<le> f t)"
  by (induction ts arbitrary: b) auto

lemma fold_min_attained:
  "fold (\<lambda>t m. min m (f t :: int)) ts b \<in> insert b (f ` set ts)"
  by (induction ts arbitrary: b) (auto simp: min_def split: if_splits)

text \<open>A user has enough power for a choice of event types exactly when the room has power
levels and the user's level reaches that of at least one of the types, not of all of them; without
power levels, and for no types at all, nobody has (levels being below the largest number).\<close>

theorem power_reaches_the_least_level:
  assumes "\<And>pl t. state_lv pl t \<le> int64_max" and "\<And>pl u. user_lv pl u < int64_max"
  shows "hasEnoughPowerLevel user_lv state_lv types r u c \<longleftrightarrow>
     (\<exists>pl. state_value RoomPowerLevels as_power_levels (rd_states (db_of r c)) = Some pl \<and>
       (\<exists>t \<in> set types. state_lv pl t \<le> user_lv pl u))"
proof (cases "state_value RoomPowerLevels as_power_levels (rd_states (db_of r c))")
  case None
  then show ?thesis by (simp add: hasEnoughPowerLevel_def)
next
  case (Some pl)
  let ?m = "fold (\<lambda>t m. min m (state_lv pl t)) types int64_max"
  have "?m \<le> user_lv pl u \<longleftrightarrow> (\<exists>t \<in> set types. state_lv pl t \<le> user_lv pl u)"
  proof
    assume "?m \<le> user_lv pl u"
    then show "\<exists>t \<in> set types. state_lv pl t \<le> user_lv pl u"
      using fold_min_attained [of "state_lv pl" types int64_max] assms(2) [of pl u] by auto
  next
    assume "\<exists>t \<in> set types. state_lv pl t \<le> user_lv pl u"
    then show "?m \<le> user_lv pl u"
      using fold_min_le [of ?m "state_lv pl" types int64_max] by fastforce
  qed
  then show ?thesis by (simp add: hasEnoughPowerLevel_def Some)
qed

lemma power_reaches_the_least_level_witness:
  "hasEnoughPowerLevel (\<lambda>pl u. if u = ''@admin'' then 100 else 0) (\<lambda>pl t. if t = RoomName then 50 else 100)
     [RoomName, RoomTopic] ''!a'' ''@admin'' (saveStateEvents ''!a''
       [\<lparr>se_event_id = ''$1'', se_sender = ''@admin'', se_state_key = [], se_content = PowerLevels ''p''\<rparr>] new_room_cache)"
  by (subst power_reaches_the_least_level)
    (simp_all add: saveStateEvents_def states_saveStateEvent state_value_def)

section \<open>Receipts\<close>

definition receipt_ts :: "string \<Rightarrow> string \<Rightarrow> string \<Rightarrow> room_cache \<Rightarrow> u64 option" where
  "receipt_ts e r u c = Option.bind (fmlookup (rc_receipts c) (e, r)) (\<lambda>users. fmlookup users u)"

lemma lookup_emplaced:
  "distinct (map fst ps) \<Longrightarrow> fmlookup (fold emplace ps m) u =
     (case fmlookup m u of Some t \<Rightarrow> Some t | None \<Rightarrow> map_of ps u)"
proof (induction ps arbitrary: m)
  case Nil
  then show ?case by (simp split: option.splits)
next
  case (Cons p ps)
  then have "map_of ps (fst p) = None" by (simp add: map_of_eq_None_iff)
  with Cons show ?case
    by (cases p) (auto simp: emplace_def fmdom_notD dest: fmdomE split: option.splits)
qed

lemma map_of_table_entries [simp]: "map_of (sorted_list_of_fmap m) k = fmlookup m k"
proof (cases "fmlookup m k")
  case None
  then have "k \<notin> fst ` set (sorted_list_of_fmap m)" by auto
  then show ?thesis using None by (simp add: map_of_eq_None_iff)
next
  case (Some v)
  then have "(k, v) \<in> set (sorted_list_of_fmap m)" by simp
  then show ?thesis using Some distinct_sorted_list_of_fmap [of m] by (simp add: map_of_is_SomeI)
qed

lemma receipt_ts_merge:
  "receipt_ts e r u (merge_receipts l q (e', users) c) =
     (if e = e' \<and> r = q then (case receipt_ts e r u c of Some t \<Rightarrow> Some t | None \<Rightarrow> fmlookup users u)
      else receipt_ts e r u c)"
  by (cases "fmlookup (rc_receipts c) (e, r)")
    (auto simp: receipt_ts_def merge_receipts_def Let_def lookup_emplaced distinct_sorted_list_of_fmap
      split: option.splits)

text \<open>The receipts of one event are merged once per update.\<close>

lemma receipts_of_events:
  assumes "distinct (map fst rs)"
  shows "receipt_ts e r u (fold (merge_receipts l r) rs c) =
     (case receipt_ts e r u c of Some t \<Rightarrow> Some t
      | None \<Rightarrow> Option.bind (map_of rs e) (\<lambda>users. fmlookup users u))"
  using assms
proof (induction rs arbitrary: c)
  case Nil
  then show ?case by (simp split: option.splits)
next
  case (Cons p rs)
  obtain e' users where p: "p = (e', users)" by (cases p)
  then have "map_of rs e' = None" using Cons.prems by (simp add: map_of_eq_None_iff)
  then show ?case
    using Cons.prems by (simp add: p Cons.IH receipt_ts_merge split: option.splits)
qed

text \<open>The first receipt of a user for an event stays: an update adds receipts where there was
none and never changes the time of one that is stored, nor does it touch another room.\<close>

theorem first_receipt_stays:
  "receipt_ts e r u (updateReadReceipt local q receipts c) =
     (case receipt_ts e r u c of
        Some t \<Rightarrow> Some t
      | None \<Rightarrow> if r = q then Option.bind (fmlookup receipts e) (\<lambda>users. fmlookup users u) else None)"
proof (cases "r = q")
  case True
  then show ?thesis
    using receipts_of_events [OF distinct_sorted_list_of_fmap [of receipts], of e q u local c]
    unfolding map_of_table_entries by (simp add: updateReadReceipt_def True)
next
  case False
  then have "receipt_ts e r u (updateReadReceipt local q receipts c) = receipt_ts e r u c"
    unfolding updateReadReceipt_def
    by (intro fold_frame) (auto simp: receipt_ts_merge)
  then show ?thesis using False by (simp split: option.splits)
qed

section \<open>Rooms that were left\<close>

definition listed :: "room_cache \<Rightarrow> (string, join_rule room_info) table \<times> (string, join_rule room_info) table" where
  "listed c = (rc_rooms c, rc_invites c)"

lemma listed_updateSpaces: "listed (updateSpaces lv S R c) = listed c"
proof -
  have put: "listed (put_child s ch d) = listed d" for s ch d
    by (simp add: listed_def put_child_def)
  have add: "listed (add_to_parents lv s d) = listed d" for s d
    unfolding add_to_parents_def by (rule fold_frame) (simp add: case_prod_beta put)
  have children: "listed (add_children s d) = listed d" for s d
    unfolding add_children_def by (rule fold_frame) (simp add: case_prod_beta put)
  have "listed (fst (rebuild_space s st)) = listed (fst st)" for s st
    unfolding rebuild_space_def Let_def fst_conv children by (simp add: listed_def delete_old_entries_def)
  then have "listed (fst (fold rebuild_space ss (c, R))) = listed c" for ss
    using fold_frame [of "\<lambda>st. listed (fst st)" rebuild_space ss "(c, R)"] by simp
  moreover have "listed (fold (add_to_parents lv) rs d) = listed d" for rs d
    by (rule fold_frame) (rule add)
  ultimately show ?thesis by (simp add: updateSpaces_def case_prod_beta)
qed

lemma left_room_not_listed:
  assumes "r |\<in>| rooms"
  shows "fmlookup (rc_rooms (removeLeftRooms rooms c)) r = None"
    and "fmlookup (rc_invites (removeLeftRooms rooms c)) r = None"
proof -
  have "fmlookup (rc_rooms (fold (\<lambda>r c. remove_invite r (remove_room r c)) rs c)) q =
      (if q \<in> set rs then None else fmlookup (rc_rooms c) q)"
    "fmlookup (rc_invites (fold (\<lambda>r c. remove_invite r (remove_room r c)) rs c)) q =
      (if q \<in> set rs then None else fmlookup (rc_invites c) q)" for rs q
    by (induction rs arbitrary: c)
      (auto simp: remove_invite_def remove_room_def Let_def set_room_db_def)
  then show "fmlookup (rc_rooms (removeLeftRooms rooms c)) r = None"
    "fmlookup (rc_invites (removeLeftRooms rooms c)) r = None"
    using assms by (simp_all add: removeLeftRooms_def)
qed

text \<open>A room the sync says was left is no longer listed, neither as joined nor as invited, and
has no members and no room-wide state; but its state with keys, image packs and space relations
among them, is still read as before.\<close>

theorem left_room_keeps_only_keyed_state:
  assumes "r |\<in>| sy_leave res" and "r |\<notin>| fmdom (sy_join res)"
  shows "getRoomInfo [r] (saveState tx lv timeline unread res c) = fmempty
    \<and> getMember r u (saveState tx lv timeline unread res c) = None
    \<and> getStateEvent t as r [] (saveState tx lv timeline unread res c) = None
    \<and> (key \<noteq> [] \<longrightarrow> getStateEvent t' as' r key (saveState tx lv timeline unread res c) = getStateEvent t' as' r key c)"
proof -
  let ?c = "commit_sync tx lv timeline res c"
  have "r \<notin> fst ` set (sorted_list_of_fmap (sy_join res))"
    using assms(2) by (auto dest: fmdomI)
  then have db: "rd_statekeys (db_of r (fst (joined_state tx timeline res c))) = rd_statekeys (db_of r c)"
    "rd_events (db_of r (fst (joined_state tx timeline res c))) = rd_events (db_of r c)"
    by (simp_all add: joined_state_def room_db_save_joined_rooms_other room_db_save_account_data room_frames)
  have "fmlookup (fst (listed ?c)) r = None" "fmlookup (snd (listed ?c)) r = None"
    using left_room_not_listed [OF assms(1)]
    by (simp_all add: commit_sync_joined_state case_prod_beta Let_def listed_updateSpaces)
      (simp_all add: listed_def)
  then have "getRoomInfo [r] (saveState tx lv timeline unread res c) = fmempty"
    by (simp add: getRoomInfo_def invited_room_info_def saveState_def Let_def listed_def)
  then show ?thesis
    using db assms(1)
    by (simp add: getMember_def getStateEvent_def state_entry_def room_db_saveState room_db_commit_sync Let_def)
qed

definition left_space :: sync_response where
  "left_space = leaving\<lparr>sy_join := fmempty, sy_leave := {|''!s11''|}\<rparr>"

lemma left_room_keeps_only_keyed_state_witness:
  "getStateEvent SpaceChild as_child ''!s11'' ''!a11'' (saveState (en_texts room_demo_env) (en_levels room_demo_env)
      (en_timeline room_demo_env) (en_unread room_demo_env) left_space demo_space) =
   Some (child_event ''$1'' ''!a11'' (Some []), Some [])"
proof -
  have "''!s11'' |\<in>| sy_leave left_space" "''!s11'' |\<notin>| fmdom (sy_join left_space)"
    by (simp_all add: left_space_def)
  note left = left_room_keeps_only_keyed_state [OF this, THEN conjunct2, THEN conjunct2, THEN conjunct2, THEN mp]
  have "getStateEvent SpaceChild as_child ''!s11'' ''!a11'' demo_space =
      Some (child_event ''$1'' ''!a11'' (Some []), Some [])"
    by (simp add: demo_space_def saveStateEvents_def saveStateEvent_def child_event_def save_other_state_def
        put_state_key_def Let_def getStateEvent_def state_entry_def parsed_def new_room_def)
  then show ?thesis by (subst left) simp_all
qed

text \<open>Expiry in the timeline loses keyed state whose event it removes, though its key is still stored.\<close>

lemma expired_event_loses_keyed_state:
  assumes "fmlookup (rd_statekeys (db_of r c) t) key = Some i" and "i \<in> set ids" and "key \<noteq> []"
  shows "getStateEvent t as r key (room_step en c (EventsGone r ids)) = None
    \<and> fmlookup (rd_statekeys (db_of r (room_step en c (EventsGone r ids))) t) key = Some i"
  using assms by (simp add: getStateEvent_def state_entry_def)

lemma expired_event_loses_keyed_state_witness:
  "getStateEvent SpaceChild as_child ''!s11'' ''!a11'' (room_step room_demo_env demo_space (EventsGone ''!s11'' [''$1''])) = None"
proof -
  have "fmlookup (rd_statekeys (db_of ''!s11'' demo_space) SpaceChild) ''!a11'' = Some ''$1''"
    by (simp add: demo_space_def saveStateEvents_def statekeys_saveStateEvent child_event_def)
  from expired_event_loses_keyed_state [OF this, where ids = "[''$1'']" and as = as_child and en = room_demo_env]
  show ?thesis by simp
qed

end
