(* ===== verification/Timeline_Control.thy ===== *)
theory Timeline_Control
  imports Room_Machine
begin

text \<open>
  The timeline controller of one room (\<open>src/src/timeline/Timeline.cpp\<close>, \<open>Permissions.cpp\<close>): what it does
  with a sync, how it sends, the preview of the last message, permissions, pinned messages, and the
  event types it exchanges with the user interface.

  It works on the cache of the rooms. The events shown by the event store are an argument (newest
  last, \<open>None\<close> for one that cannot be read), and a message to be stored is put into \<open>rt_pending\<close>, which
  the event store takes from (\<open>Event_Sync\<close>). Encryption for the room (\<open>encrypt_group_message\<close>), decryption
  and the wording of descriptions are fields of the environment or arguments; encryption may throw.
\<close>

section \<open>Event types\<close>

datatype (plugins only: code size) qml_type =
    QUnsupported | QKeyRequest | QReaction | QAliases | QAvatar | QCallInvite | QCallAnswer
  | QCallHangUp | QCallCandidates | QCanonicalAlias | QRoomCreate | QEncrypted | QEncryption
  | QRoomGuestAccess | QRoomHistoryVisibility | QRoomJoinRules | QMember | QName | QPowerLevels
  | QTombstone | QTopic | QRedaction | QPinnedEvents | QSticker | QTag | QWidget | QAudioMessage
  | QEmoteMessage | QFileMessage | QImageMessage | QLocationMessage | QNoticeMessage | QTextMessage
  | QVideoMessage | QRedacted | QUnknownMessage | QKeyVerificationRequest | QKeyVerificationStart
  | QKeyVerificationMac | QKeyVerificationAccept | QKeyVerificationCancel | QKeyVerificationKey
  | QKeyVerificationDone | QKeyVerificationReady | QImagePackInRoom | QImagePackInAccountData
  | QImagePackRooms | QPolicyRuleUser | QPolicyRuleRoom | QPolicyRuleServer | QSpaceParent | QSpaceChild

definition toRoomEventType_table :: "(event_type \<times> qml_type) list" where
  "toRoomEventType_table =
     [(RoomKeyRequest, QKeyRequest), (ReactionType, QReaction), (RoomAliases, QAliases),
      (RoomAvatar, QAvatar), (RoomCanonicalAlias, QCanonicalAlias),
      (RoomCreate, QRoomCreate), (RoomEncrypted, QEncrypted), (RoomEncryption, QEncryption),
      (RoomGuestAccess, QRoomGuestAccess), (RoomHistoryVisibility, QRoomHistoryVisibility),
      (RoomJoinRules, QRoomJoinRules), (RoomMember, QMember), (RoomMessage, QUnknownMessage),
      (RoomName, QName), (RoomPowerLevels, QPowerLevels), (RoomTopic, QTopic),
      (RoomTombstone, QTombstone), (RoomRedaction, QRedaction),
      (RoomPinnedEvents, QPinnedEvents), (StickerType, QSticker), (TagType, QTag),
      (PolicyRuleUser, QPolicyRuleUser), (PolicyRuleRoom, QPolicyRuleRoom),
      (PolicyRuleServer, QPolicyRuleServer), (SpaceParent, QSpaceParent),
      (SpaceChild, QSpaceChild), (ImagePackInRoom, QImagePackInRoom),
      (ImagePackInAccountData, QImagePackInAccountData), (ImagePackRooms, QImagePackRooms),
      (Unsupported, QUnsupported)]"

definition toRoomEventType :: "event_type \<Rightarrow> qml_type" where
  "toRoomEventType t = (case map_of toRoomEventType_table t of Some q \<Rightarrow> q | None \<Rightarrow> QUnknownMessage)"

definition fromRoomEventType_table :: "(qml_type \<times> event_type) list" where
  "fromRoomEventType_table =
     [(QUnsupported, Unsupported), (QKeyRequest, RoomKeyRequest), (QReaction, ReactionType),
      (QAliases, RoomAliases), (QAvatar, RoomAvatar), (QCallInvite, CallInviteType),
      (QCallAnswer, CallAnswerType), (QCallHangUp, CallHangUpType),
      (QCallCandidates, CallCandidatesType), (QCanonicalAlias, RoomCanonicalAlias),
      (QRoomCreate, RoomCreate), (QEncrypted, RoomEncrypted), (QEncryption, RoomEncryption),
      (QRoomGuestAccess, RoomGuestAccess), (QRoomHistoryVisibility, RoomHistoryVisibility),
      (QRoomJoinRules, RoomJoinRules), (QMember, RoomMember), (QName, RoomName),
      (QPowerLevels, RoomPowerLevels), (QTombstone, RoomTombstone), (QTopic, RoomTopic),
      (QRedaction, RoomRedaction), (QPinnedEvents, RoomPinnedEvents), (QWidget, Widget),
      (QSticker, StickerType), (QTag, TagType), (QPolicyRuleUser, PolicyRuleUser),
      (QPolicyRuleRoom, PolicyRuleRoom), (QPolicyRuleServer, PolicyRuleServer),
      (QSpaceParent, SpaceParent), (QSpaceChild, SpaceChild),
      (QImagePackInRoom, ImagePackInRoom), (QImagePackInAccountData, ImagePackInAccountData),
      (QImagePackRooms, ImagePackRooms)]"

definition fromRoomEventType :: "qml_type \<Rightarrow> event_type" where
  "fromRoomEventType t = (case map_of fromRoomEventType_table t of Some q \<Rightarrow> q | None \<Rightarrow> RoomMessage)"

section \<open>Events\<close>

text \<open>The contents the code tells apart. \<open>OtherMessage\<close> is any other content with a \<open>msgtype\<close>.\<close>

datatype (plugins only: code size) event_body =
    Audio | Emote | File | Image | Location | Notice | Text | Video | OtherMessage
  | VerificationRequest | VerificationReady | VerificationStart | VerificationAccept
  | VerificationMac | VerificationKey | VerificationDone | VerificationCancel
  | Reaction | Sticker | CallInviteBody | CallCandidatesBody | CallAnswerBody | CallHangUpBody
  | EncryptedBody | RedactedBody | StateBody state_content | OtherBody

record room_event =
  re_event_id :: string
  re_sender :: string
  re_ts :: u64
  re_state_key :: string
  re_type :: event_type
  re_body :: event_body

fun visit_event_type :: "event_type \<Rightarrow> event_body \<Rightarrow> qml_type" where
  "visit_event_type t Audio = QAudioMessage"
| "visit_event_type t Emote = QEmoteMessage"
| "visit_event_type t File = QFileMessage"
| "visit_event_type t Image = QImageMessage"
| "visit_event_type t Location = QLocationMessage"
| "visit_event_type t Notice = QNoticeMessage"
| "visit_event_type t Text = QTextMessage"
| "visit_event_type t Video = QVideoMessage"
| "visit_event_type t VerificationRequest = QKeyVerificationRequest"
| "visit_event_type t VerificationStart = QKeyVerificationStart"
| "visit_event_type t VerificationMac = QKeyVerificationMac"
| "visit_event_type t VerificationAccept = QKeyVerificationAccept"
| "visit_event_type t VerificationReady = QKeyVerificationReady"
| "visit_event_type t VerificationCancel = QKeyVerificationCancel"
| "visit_event_type t VerificationKey = QKeyVerificationKey"
| "visit_event_type t VerificationDone = QKeyVerificationDone"
| "visit_event_type t RedactedBody = QRedacted"
| "visit_event_type t CallInviteBody = QCallInvite"
| "visit_event_type t CallAnswerBody = QCallAnswer"
| "visit_event_type t CallHangUpBody = QCallHangUp"
| "visit_event_type t CallCandidatesBody = QCallCandidates"
| "visit_event_type t _ = toRoomEventType t"

fun has_msgtype :: "event_body \<Rightarrow> bool" where
  "has_msgtype b = (b \<in> {Audio, Emote, File, Image, Location, Notice, Text, Video, OtherMessage, VerificationRequest})"

fun is_message_body :: "event_body \<Rightarrow> bool" where
  "is_message_body EncryptedBody = True"
| "is_message_body CallInviteBody = True"
| "is_message_body CallAnswerBody = True"
| "is_message_body CallHangUpBody = True"
| "is_message_body b = has_msgtype b"

section \<open>State\<close>

record desc_info =
  di_event_id :: string
  di_userid :: string
  di_body :: string
  di_descriptive_time :: string
  di_timestamp :: u64
  di_datetime :: u64

definition no_desc :: desc_info where
  "no_desc = \<lparr>di_event_id = [], di_userid = [], di_body = [], di_descriptive_time = [],
     di_timestamp = 0, di_datetime = 0\<rparr>"

definition same_desc :: "desc_info \<Rightarrow> desc_info \<Rightarrow> bool" where
  "same_desc a b \<longleftrightarrow> di_timestamp a = di_timestamp b \<and> di_event_id a = di_event_id b
     \<and> di_userid a = di_userid b \<and> di_body a = di_body b
     \<and> di_descriptive_time a = di_descriptive_time b"

datatype timeline_signal =
    NewEncryptedImage string
  | NewCallEvent room_event
  | LastMessageChanged desc_info
  | NotificationsChanged
  | TypingUsersChanged "string list"
  | EncryptionChanged | RoomNameChanged | RoomTopicChanged | PinnedMessagesChanged
  | WidgetLinksChanged | RoomAvatarUrlChanged | PermissionsChanged | RoomMemberCountChanged
  | ShowNotification string

text \<open>What a request of the controller asks of the server.\<close>

datatype timeline_request =
    ReadEvent string string
  | SendPinned string "string list"

text \<open>A stored message is either what the user wrote or the event that carries it encrypted.\<close>

record outgoing =
  og_body :: event_body
  og_content :: string
  og_file :: "string option"
  og_thumbnail :: "string option"

datatype pending_event =
    Plain event_type outgoing string string u64
  | Encrypted string string string u64

record room_timeline =
  rt_room :: string
  rt_permissions :: power_levels
  rt_last_message :: desc_info
  rt_decrypt_description :: bool
  rt_encrypted :: bool
  rt_is_space :: bool
  rt_notification_count :: u64
  rt_highlight_count :: u64
  rt_typing :: "string list"
  rt_pending :: "pending_event list"
  rt_signals :: "timeline_signal list"
  rt_requests :: "timeline_request list"

record timeline_env =
  tn_user :: string
  tn_device :: string
  tn_tr :: "string \<Rightarrow> string"
  tn_default_levels :: power_levels
  tn_decrypt :: "string \<Rightarrow> room_event \<Rightarrow> room_event option"
  tn_describe :: "room_event \<Rightarrow> string \<Rightarrow> desc_info"
  tn_time :: "u64 \<Rightarrow> string"
  tn_display_name :: "string \<Rightarrow> string \<Rightarrow> room_cache \<Rightarrow> string"

definition show_signals :: "timeline_signal list \<Rightarrow> room_timeline \<Rightarrow> room_timeline" where
  "show_signals ss st = st\<lparr>rt_signals := rt_signals st @ ss\<rparr>"

section \<open>Permissions\<close>

definition current_levels :: "timeline_env \<Rightarrow> string \<Rightarrow> room_cache \<Rightarrow> power_levels" where
  "current_levels tn room c =
     (case getStateEvent RoomPowerLevels as_power_levels room [] c of
        Some (_, pl) \<Rightarrow> pl
      | None \<Rightarrow> tn_default_levels tn)"

definition invalidate_permissions :: "timeline_env \<Rightarrow> room_cache \<Rightarrow> room_timeline \<Rightarrow> room_timeline" where
  "invalidate_permissions tn c st = st\<lparr>rt_permissions := current_levels tn (rt_room st) c\<rparr>"

text \<open>mtxclient's reading of power levels.\<close>

record permission_ops =
  pm_user :: "power_levels \<Rightarrow> string \<Rightarrow> int"
  pm_state :: "power_levels \<Rightarrow> event_type \<Rightarrow> int"
  pm_event :: "power_levels \<Rightarrow> event_type \<Rightarrow> int"
  pm_invite :: "power_levels \<Rightarrow> int"
  pm_ban :: "power_levels \<Rightarrow> int"
  pm_kick :: "power_levels \<Rightarrow> int"
  pm_redact :: "power_levels \<Rightarrow> int"
  pm_notify_room :: "power_levels \<Rightarrow> int"

definition my_level :: "permission_ops \<Rightarrow> timeline_env \<Rightarrow> room_timeline \<Rightarrow> int" where
  "my_level pm tn st = pm_user pm (rt_permissions st) (tn_user tn)"

definition canInvite :: "permission_ops \<Rightarrow> timeline_env \<Rightarrow> room_timeline \<Rightarrow> bool" where
  "canInvite pm tn st \<longleftrightarrow> my_level pm tn st \<ge> pm_invite pm (rt_permissions st)"

definition canBan :: "permission_ops \<Rightarrow> timeline_env \<Rightarrow> room_timeline \<Rightarrow> bool" where
  "canBan pm tn st \<longleftrightarrow> my_level pm tn st \<ge> pm_ban pm (rt_permissions st)"

definition canKick :: "permission_ops \<Rightarrow> timeline_env \<Rightarrow> room_timeline \<Rightarrow> bool" where
  "canKick pm tn st \<longleftrightarrow> my_level pm tn st \<ge> pm_kick pm (rt_permissions st)"

definition canRedact :: "permission_ops \<Rightarrow> timeline_env \<Rightarrow> room_timeline \<Rightarrow> bool" where
  "canRedact pm tn st \<longleftrightarrow> my_level pm tn st \<ge> pm_redact pm (rt_permissions st)"

definition canChange :: "permission_ops \<Rightarrow> timeline_env \<Rightarrow> qml_type \<Rightarrow> room_timeline \<Rightarrow> bool" where
  "canChange pm tn t st \<longleftrightarrow> my_level pm tn st \<ge> pm_state pm (rt_permissions st) (fromRoomEventType t)"

definition canSend :: "permission_ops \<Rightarrow> timeline_env \<Rightarrow> qml_type \<Rightarrow> room_timeline \<Rightarrow> bool" where
  "canSend pm tn t st \<longleftrightarrow> my_level pm tn st \<ge> pm_event pm (rt_permissions st) (fromRoomEventType t)"

definition canPingRoom :: "permission_ops \<Rightarrow> timeline_env \<Rightarrow> room_timeline \<Rightarrow> bool" where
  "canPingRoom pm tn st \<longleftrightarrow> my_level pm tn st \<ge> pm_notify_room pm (rt_permissions st)"

section \<open>Sending\<close>

text \<open>The event type a content is sent as, for the contents that are encrypted in an encrypted room.\<close>

fun sent_type :: "event_body \<Rightarrow> event_type option" where
  "sent_type CallInviteBody = Some CallInviteType"
| "sent_type CallCandidatesBody = Some CallCandidatesType"
| "sent_type CallAnswerBody = Some CallAnswerType"
| "sent_type CallHangUpBody = Some CallHangUpType"
| "sent_type VerificationReady = Some KeyVerificationReady"
| "sent_type VerificationStart = Some KeyVerificationStart"
| "sent_type VerificationAccept = Some KeyVerificationAccept"
| "sent_type VerificationMac = Some KeyVerificationMac"
| "sent_type VerificationKey = Some KeyVerificationKey"
| "sent_type VerificationDone = Some KeyVerificationDone"
| "sent_type VerificationCancel = Some KeyVerificationCancel"
| "sent_type b = (if has_msgtype b then Some RoomMessage else None)"

type_synonym encryption = "string \<Rightarrow> string \<Rightarrow> event_type \<Rightarrow> string \<Rightarrow> string option"

definition add_pending :: "pending_event \<Rightarrow> room_timeline \<Rightarrow> room_timeline" where
  "add_pending e st = st\<lparr>rt_pending := rt_pending st @ [e]\<rparr>"

text \<open>\<open>encrypt room device type content\<close> is \<open>None\<close> where the code's encryption throws.\<close>

definition sendEncryptedMessage ::
  "timeline_env \<Rightarrow> encryption \<Rightarrow> event_type \<Rightarrow> outgoing \<Rightarrow> string \<Rightarrow> u64 \<Rightarrow> room_timeline \<Rightarrow> room_timeline"
where
  "sendEncryptedMessage tn encrypt t m event_id now st =
     (case encrypt (rt_room st) (tn_device tn) t (og_content m) of
        Some ciphertext \<Rightarrow> add_pending (Encrypted ciphertext event_id (tn_user tn) now) st
      | None \<Rightarrow> show_signals [ShowNotification (tn_tr tn ''Failed to encrypt event, sending aborted!'')] st)"

definition is_room_encrypted :: "string \<Rightarrow> room_cache \<Rightarrow> bool" where
  "is_room_encrypted r c \<longleftrightarrow> r |\<in>| rc_encrypted c"

definition image_signals :: "outgoing \<Rightarrow> timeline_signal list" where
  "image_signals m =
     map NewEncryptedImage (case og_file m of Some f \<Rightarrow> [f] | None \<Rightarrow> [])
     @ map NewEncryptedImage (case og_thumbnail m of Some f \<Rightarrow> [f] | None \<Rightarrow> [])"

definition sendRoomEvent ::
  "timeline_env \<Rightarrow> encryption \<Rightarrow> room_cache \<Rightarrow> event_type \<Rightarrow> outgoing \<Rightarrow> string \<Rightarrow> u64
     \<Rightarrow> room_timeline \<Rightarrow> room_timeline"
where
  "sendRoomEvent tn encrypt c t m event_id now st =
     (if is_room_encrypted (rt_room st) c
      then sendEncryptedMessage tn encrypt t m event_id now (show_signals (image_signals m) st)
      else add_pending (Plain t m event_id (tn_user tn) now) st)"

text \<open>\<open>SendMessageVisitor\<close>: reactions keep their relation readable, contents it does not know are dropped.\<close>

definition send_message ::
  "timeline_env \<Rightarrow> encryption \<Rightarrow> room_cache \<Rightarrow> outgoing \<Rightarrow> string \<Rightarrow> u64 \<Rightarrow> room_timeline \<Rightarrow> room_timeline"
where
  "send_message tn encrypt c m event_id now st =
     (case og_body m of
        Reaction \<Rightarrow> add_pending (Plain ReactionType m event_id (tn_user tn) now) st
      | Sticker \<Rightarrow>
          (if is_room_encrypted (rt_room st) c
           then sendEncryptedMessage tn encrypt StickerType m event_id now st
           else add_pending (Plain StickerType m event_id (tn_user tn) now) st)
      | b \<Rightarrow> (case sent_type b of
                 Some t \<Rightarrow> sendRoomEvent tn encrypt c t m event_id now st
               | None \<Rightarrow> st))"

definition addPendingMessage ::
  "timeline_env \<Rightarrow> encryption \<Rightarrow> room_cache \<Rightarrow> outgoing \<Rightarrow> string \<Rightarrow> u64 \<Rightarrow> room_timeline \<Rightarrow> room_timeline"
where
  "addPendingMessage tn encrypt c m txn_id now st = send_message tn encrypt c m (CHR ''m'' # txn_id) now st"

section \<open>The last message\<close>

definition isYourJoin :: "timeline_env \<Rightarrow> room_event \<Rightarrow> bool" where
  "isYourJoin tn e \<longleftrightarrow>
     (case re_body e of
        StateBody (Member m _ _) \<Rightarrow> m = MJoin \<and> re_state_key e = tn_user tn
      | _ \<Rightarrow> False)"

definition join_description :: "timeline_env \<Rightarrow> room_event \<Rightarrow> desc_info" where
  "join_description tn e =
     \<lparr>di_event_id = re_event_id e, di_userid = tn_user tn, di_body = tn_tr tn ''You joined this room.'',
      di_descriptive_time = tn_time tn (re_ts e), di_timestamp = re_ts e, di_datetime = re_ts e\<rparr>"

definition describe :: "timeline_env \<Rightarrow> string \<Rightarrow> room_cache \<Rightarrow> room_event \<Rightarrow> desc_info" where
  "describe tn room c e = tn_describe tn e (tn_display_name tn room (re_sender e) c)"

text \<open>The loop from the newest event backwards, over at most 1001 of them.\<close>

fun find_preview :: "timeline_env \<Rightarrow> string \<Rightarrow> room_cache \<Rightarrow> room_event option list \<Rightarrow> desc_info option" where
  "find_preview tn room c [] = None"
| "find_preview tn room c (None # es) = find_preview tn room c es"
| "find_preview tn room c (Some e # es) =
     (if isYourJoin tn e then Some (join_description tn e)
      else if is_message_body (re_body e) then Some (describe tn room c e)
      else find_preview tn room c es)"

definition updateLastMessage ::
  "timeline_env \<Rightarrow> room_event option list \<Rightarrow> room_cache \<times> room_timeline \<Rightarrow> room_cache \<times> room_timeline"
where
  "updateLastMessage tn shown cst =
     (let (c, st) = cst
      in case find_preview tn (rt_room st) c (rev (drop (length shown - 1001) shown)) of
           None \<Rightarrow> (c, st)
         | Some d \<Rightarrow>
             (if same_desc d (rt_last_message st) then (c, st)
              else
                (if di_timestamp (rt_last_message st) = 0
                 then updateLastMessageTimestamp (rt_room st) (di_timestamp d) c else c,
                 show_signals [LastMessageChanged d] (st\<lparr>rt_last_message := d\<rparr>))))"

section \<open>A sync\<close>

definition call_event_signal :: "timeline_env \<Rightarrow> room_event \<Rightarrow> timeline_signal list" where
  "call_event_signal tn e =
     (if re_body e = CallAnswerBody \<or> re_body e = CallHangUpBody then [NewCallEvent e]
      else if re_sender e \<noteq> tn_user tn then [NewCallEvent e] else [])"

definition add_event :: "timeline_env \<Rightarrow> room_cache \<Rightarrow> room_event \<Rightarrow> room_timeline \<Rightarrow> room_timeline" where
  "add_event tn c e0 st =
     (let e = (if re_body e0 = EncryptedBody
               then (case tn_decrypt tn (rt_room st) e0 of Some d \<Rightarrow> d | None \<Rightarrow> e0) else e0)
      in case re_body e of
           CallCandidatesBody \<Rightarrow> show_signals (call_event_signal tn e) st
         | CallInviteBody \<Rightarrow> show_signals (call_event_signal tn e) st
         | CallAnswerBody \<Rightarrow> show_signals (call_event_signal tn e) st
         | CallHangUpBody \<Rightarrow> show_signals (call_event_signal tn e) st
         | StateBody (Avatar _) \<Rightarrow> show_signals [RoomAvatarUrlChanged] st
         | StateBody (Name _) \<Rightarrow> show_signals [RoomNameChanged] st
         | StateBody (Topic _) \<Rightarrow> show_signals [RoomTopicChanged] st
         | StateBody (PinnedEvents _) \<Rightarrow> show_signals [PinnedMessagesChanged] st
         | StateBody (WidgetContent _) \<Rightarrow> show_signals [WidgetLinksChanged] st
         | StateBody (PowerLevels _) \<Rightarrow> show_signals [PermissionsChanged] (invalidate_permissions tn c st)
         | StateBody (Member _ _ _) \<Rightarrow>
             show_signals [RoomAvatarUrlChanged, RoomNameChanged, RoomMemberCountChanged] st
         | StateBody (Encryption _) \<Rightarrow>
             show_signals [EncryptionChanged] (st\<lparr>rt_encrypted := is_room_encrypted (rt_room st) c\<rparr>)
         | _ \<Rightarrow> st)"

text \<open>\<open>shown\<close> is what the event store shows after it handled the sync.\<close>

definition addEvents ::
  "timeline_env \<Rightarrow> room_event option list \<Rightarrow> room_event list \<Rightarrow> room_cache \<times> room_timeline
     \<Rightarrow> room_cache \<times> room_timeline"
where
  "addEvents tn shown events cst =
     (if events = [] then cst
      else updateLastMessage tn shown (fst cst, fold (add_event tn (fst cst)) events (snd cst)))"

definition updateTypingUsers :: "string list \<Rightarrow> room_timeline \<Rightarrow> room_timeline" where
  "updateTypingUsers users st =
     (if rt_typing st \<noteq> users then show_signals [TypingUsersChanged users] (st\<lparr>rt_typing := users\<rparr>) else st)"

record timeline_sync =
  ts_events :: "room_event list"
  ts_highlight_count :: u64
  ts_notification_count :: u64
  ts_typing :: "string list list"

definition update_counts :: "timeline_sync \<Rightarrow> room_timeline \<Rightarrow> room_timeline" where
  "update_counts room st =
     (if ts_highlight_count room \<noteq> rt_highlight_count st \<or> ts_notification_count room \<noteq> rt_notification_count st
      then show_signals [NotificationsChanged]
             (st\<lparr>rt_notification_count := ts_notification_count room, rt_highlight_count := ts_highlight_count room\<rparr>)
      else st)"

definition sync_timeline ::
  "timeline_env \<Rightarrow> room_event option list \<Rightarrow> timeline_sync \<Rightarrow> room_cache \<times> room_timeline
     \<Rightarrow> room_cache \<times> room_timeline"
where
  "sync_timeline tn shown room cst =
     (let (c, st) = addEvents tn shown (ts_events room) cst
      in (c, fold (\<lambda>users. updateTypingUsers (filter (\<lambda>u. u \<noteq> tn_user tn) users)) (ts_typing room)
               (update_counts room st)))"

section \<open>The controller of a room\<close>

definition new_timeline_for :: "timeline_env \<Rightarrow> string \<Rightarrow> room_cache \<Rightarrow> room_timeline" where
  "new_timeline_for tn room c =
     (let info = singleRoomInfo room c
      in \<lparr>rt_room = room, rt_permissions = current_levels tn room c,
          rt_last_message = no_desc\<lparr>di_timestamp := ri_approximate_last_modification_ts info\<rparr>,
          rt_decrypt_description = True, rt_encrypted = is_room_encrypted room c,
          rt_is_space = ri_is_space info, rt_notification_count = ucast (ri_notification_count info),
          rt_highlight_count = ucast (ri_highlight_count info), rt_typing = [], rt_pending = [],
          rt_signals = [], rt_requests = []\<rparr>)"

definition canFetchMore :: "room_event option list \<Rightarrow> bool" where
  "canFetchMore shown =
     (case shown of
        [] \<Rightarrow> True
      | None # _ \<Rightarrow> False
      | Some e # _ \<Rightarrow> (case re_body e of StateBody (Create _ _) \<Rightarrow> False | _ \<Rightarrow> True))"

definition markEventsAsRead :: "string list \<Rightarrow> room_timeline \<Rightarrow> room_timeline" where
  "markEventsAsRead ids st = st\<lparr>rt_requests := rt_requests st @ map (ReadEvent (rt_room st)) ids\<rparr>"

text \<open>\<open>int\<close> arguments as the code has them; a negative start is not an index of the store.\<close>

definition getEvents ::
  "timeline_env \<Rightarrow> room_event option list \<Rightarrow> nat \<Rightarrow> nat \<Rightarrow> bool \<Rightarrow> room_cache \<Rightarrow> room_timeline
     \<Rightarrow> desc_info list \<times> room_timeline"
where
  "getEvents tn shown from len markAsRead c st =
     (let events = map (describe tn (rt_room st) c) (List.map_filter id (take len (drop from shown)))
      in (events, if markAsRead then markEventsAsRead (map di_event_id events) st else st))"

definition pinnedMessages :: "string \<Rightarrow> room_cache \<Rightarrow> string list" where
  "pinnedMessages room c =
     (case getStateEvent RoomPinnedEvents as_pinned room [] c of Some (_, ids) \<Rightarrow> ids | None \<Rightarrow> [])"

definition unpin :: "string \<Rightarrow> room_cache \<Rightarrow> room_timeline \<Rightarrow> room_timeline" where
  "unpin i c st =
     st\<lparr>rt_requests := rt_requests st @ [SendPinned (rt_room st) (remove1 i (pinnedMessages (rt_room st) c))]\<rparr>"

definition pin :: "string \<Rightarrow> room_cache \<Rightarrow> room_timeline \<Rightarrow> room_timeline" where
  "pin i c st =
     st\<lparr>rt_requests := rt_requests st @ [SendPinned (rt_room st) (pinnedMessages (rt_room st) c @ [i])]\<rparr>"

definition roomMemberCount :: "room_cache \<Rightarrow> room_timeline \<Rightarrow> int" where
  "roomMemberCount c st = sint (word_of_nat (memberCount (rt_room st) c) :: 32 word)"

definition isDirect :: "room_cache \<Rightarrow> room_timeline \<Rightarrow> bool" where
  "isDirect c st \<longleftrightarrow> roomMemberCount c st \<le> 2"

definition directChatOtherUserId :: "timeline_env \<Rightarrow> room_cache \<Rightarrow> room_timeline \<Rightarrow> string" where
  "directChatOtherUserId tn c st =
     (if roomMemberCount c st < 3
      then fold (\<lambda>m i. if rm_user_id m \<noteq> tn_user tn then rm_user_id m else i) (getMembers (rt_room st) 0 30 c) []
      else [])"

section \<open>Cache and controller together\<close>

datatype timeline_op =
    CacheOp room_op
  | SendMessage outgoing string u64 encryption
  | SyncRoom timeline_sync "room_event option list"
  | UpdateLast "room_event option list"
  | Pin string
  | Unpin string
  | ReadEvents nat nat "room_event option list"
  | SetDecryptDescription bool

fun timeline_step ::
  "'a room_env \<Rightarrow> timeline_env \<Rightarrow> room_cache \<times> room_timeline \<Rightarrow> timeline_op \<Rightarrow> room_cache \<times> room_timeline"
where
  "timeline_step en tn (c, st) (CacheOp op) = (room_step en c op, st)"
| "timeline_step en tn (c, st) (SendMessage m txn_id now encrypt) =
     (c, addPendingMessage tn encrypt c m txn_id now st)"
| "timeline_step en tn (c, st) (SyncRoom room shown) = sync_timeline tn shown room (c, st)"
| "timeline_step en tn (c, st) (UpdateLast shown) = updateLastMessage tn shown (c, st)"
| "timeline_step en tn (c, st) (Pin i) = (c, pin i c st)"
| "timeline_step en tn (c, st) (Unpin i) = (c, unpin i c st)"
| "timeline_step en tn (c, st) (ReadEvents from len shown) =
     (c, snd (getEvents tn shown from len True c st))"
| "timeline_step en tn (c, st) (SetDecryptDescription b) = (c, st\<lparr>rt_decrypt_description := b\<rparr>)"

end
