(* ===== verification/Timeline_Control_Properties.thy ===== *)
theory Timeline_Control_Properties
  imports Timeline_Control
begin

text \<open>
  The properties of the timeline controller: what leaves an encrypted room, what happens when
  encryption fails, which message is previewed, whose calls are announced, when permissions are
  read again, pinned messages and event types.
\<close>

section \<open>Encrypted rooms stay encrypted\<close>

lemma updateSpaces_frame:
  assumes put: "\<And>p ch d. g (put_child p ch d) = g d"
    and old: "\<And>p d. g (delete_old_entries p d) = g d"
  shows "g (updateSpaces lv S R c) = g c"
proof -
  have add: "g (add_to_parents lv s d) = g d" for s d
    unfolding add_to_parents_def by (rule fold_frame) (simp add: case_prod_beta put)
  have children: "g (add_children s d) = g d" for s d
    unfolding add_children_def by (rule fold_frame) (simp add: case_prod_beta put)
  have "g (fst (rebuild_space s st)) = g (fst st)" for s st
    by (simp add: rebuild_space_def Let_def children old)
  then have "g (fst (fold rebuild_space ss (c, R))) = g c" for ss
    using fold_frame [of "\<lambda>st. g (fst st)" rebuild_space ss "(c, R)"] by simp
  moreover have "g (fold (add_to_parents lv) rs d) = g d" for rs d
    by (rule fold_frame) (rule add)
  ultimately show ?thesis by (simp add: updateSpaces_def case_prod_beta)
qed

lemma encrypted_updateSpaces [simp]: "rc_encrypted (updateSpaces lv S R c) = rc_encrypted c"
  by (rule updateSpaces_frame) (simp_all add: put_child_def delete_old_entries_def)

lemma encrypted_set_room_db [simp]: "rc_encrypted (set_room_db r d c) = rc_encrypted c"
  by (simp add: set_room_db_def)

lemma encrypted_saveStateEvent:
  "rc_encrypted (saveStateEvent r e c) =
     (case se_content e of Encryption _ \<Rightarrow> finsert r (rc_encrypted c) | _ \<Rightarrow> rc_encrypted c)"
  by (cases "se_content e") (simp_all add: saveStateEvent_def)

lemma encrypted_saveStateEvents:
  "q |\<in>| rc_encrypted (saveStateEvents r es c) \<longleftrightarrow>
     q |\<in>| rc_encrypted c \<or> q = r \<and> (\<exists>e \<in> set es. \<exists>s. se_content e = Encryption s)"
  by (induction es arbitrary: c)
    (auto simp: saveStateEvents_def encrypted_saveStateEvent split: state_content.splits)

lemma encrypted_updateReadReceipt [simp]: "rc_encrypted (updateReadReceipt l r rs c) = rc_encrypted c"
  unfolding updateReadReceipt_def
  by (rule fold_frame) (simp add: merge_receipts_def case_prod_beta Let_def)

lemma encrypted_save_joined_room:
  "q |\<in>| rc_encrypted (fst (save_joined_room tx tline (r, jr) st)) \<longleftrightarrow>
     q |\<in>| rc_encrypted (fst st) \<or> q = r \<and> (\<exists>e \<in> set (all_state jr). \<exists>s. se_content e = Encryption s)"
proof -
  have "rc_encrypted (fold (\<lambda>content. updateReadReceipt l p (collect_receipts l content)) contents d)
      = rc_encrypted d" for l p contents d
    by (rule fold_frame) simp
  then show ?thesis
    by (cases st)
      (auto simp: save_joined_room_def Let_def save_events_def remove_invite_def save_account_data_def
        encrypted_saveStateEvents all_state_def)
qed

lemma encrypted_joined_rooms:
  "q |\<in>| rc_encrypted (fst (fold (save_joined_room tx tline) rooms st)) \<longleftrightarrow>
     q |\<in>| rc_encrypted (fst st) \<or>
     (\<exists>jr. (q, jr) \<in> set rooms \<and> (\<exists>e \<in> set (all_state jr). \<exists>s. se_content e = Encryption s))"
proof (induction rooms arbitrary: st)
  case Nil
  then show ?case by simp
next
  case (Cons room rooms)
  then show ?case
    by (cases room) (simp only: fold_simps Cons.IH encrypted_save_joined_room, fastforce)
qed

lemma encrypted_after_joined [simp]:
  "rc_encrypted (removeLeftRooms left c) = rc_encrypted c"
  "rc_encrypted (saveInvites tx rooms c) = rc_encrypted c"
proof -
  show "rc_encrypted (removeLeftRooms left c) = rc_encrypted c"
    unfolding removeLeftRooms_def
    by (rule fold_frame) (simp add: remove_room_def remove_invite_def Let_def)
  have "rc_encrypted (save_stripped q e d) = rc_encrypted d" for q e d by (cases e) simp_all
  then have "rc_encrypted (saveInvite q es d) = rc_encrypted d" for q es d
    unfolding saveInvite_def by (rule fold_frame)
  then show "rc_encrypted (saveInvites tx rooms c) = rc_encrypted c"
    unfolding saveInvites_def by (intro fold_frame) (simp add: case_prod_beta Let_def)
qed

lemma encrypted_saveState:
  "q |\<in>| rc_encrypted (saveState tx lv tline un res c) \<longleftrightarrow>
     q |\<in>| rc_encrypted c \<or>
     (\<exists>jr. fmlookup (sy_join res) q = Some jr \<and> (\<exists>e \<in> set (all_state jr). \<exists>s. se_content e = Encryption s))"
  by (simp add: saveState_def Let_def commit_sync_joined_state case_prod_beta savePresence_def
      joined_state_def encrypted_joined_rooms save_account_data_def)

lemma encrypted_room_step: "rc_encrypted c |\<subseteq>| rc_encrypted (room_step en c op)"
  by (cases op)
    (auto simp: encrypted_saveState encrypted_saveStateEvents updateState_def Let_def
      updateLastMessageTimestamp_def markSentNotification_def removeReadNotification_def
      split: option.splits)

section \<open>What leaves a room\<close>

text \<open>A pending event that may leave an encrypted room, given which ciphertexts are.\<close>

fun confidential :: "(string \<Rightarrow> bool) \<Rightarrow> pending_event \<Rightarrow> bool" where
  "confidential C (Plain t m i s ts) = (og_body m = Reaction)"
| "confidential C (Encrypted ciphertext i s ts) = C ciphertext"

text \<open>The ciphertexts that encrypting the messages of some operations for a room gave.\<close>

fun encrypts_to :: "string \<Rightarrow> string \<Rightarrow> timeline_op \<Rightarrow> string \<Rightarrow> bool" where
  "encrypts_to room device (SendMessage m i now encrypt) x = (\<exists>t. encrypt room device t (og_content m) = Some x)"
| "encrypts_to room device _ x = False"

definition encrypted_by :: "string \<Rightarrow> string \<Rightarrow> timeline_op list \<Rightarrow> string \<Rightarrow> bool" where
  "encrypted_by room device ops x \<longleftrightarrow> (\<exists>op \<in> set ops. encrypts_to room device op x)"

definition puts_up_only :: "(pending_event \<Rightarrow> bool) \<Rightarrow> room_timeline \<Rightarrow> room_timeline \<Rightarrow> bool" where
  "puts_up_only P st st' \<longleftrightarrow> rt_room st' = rt_room st \<and>
     (\<exists>new. rt_pending st' = rt_pending st @ new \<and> list_all P new)"

lemma puts_up_only_refl [simp]: "puts_up_only P st st"
  by (simp add: puts_up_only_def)

lemma puts_up_only_trans: "puts_up_only P st st1 \<Longrightarrow> puts_up_only P st1 st2 \<Longrightarrow> puts_up_only P st st2"
  by (auto simp: puts_up_only_def)

lemma puts_up_only_quiet:
  "rt_room st' = rt_room st \<Longrightarrow> rt_pending st' = rt_pending st \<Longrightarrow> puts_up_only P st st'"
  by (simp add: puts_up_only_def)

lemma puts_up_only_add_pending: "P e \<Longrightarrow> puts_up_only P st (add_pending e st)"
  by (auto simp: puts_up_only_def add_pending_def)

lemma quiet_signals [simp]:
  "rt_room (show_signals ss st) = rt_room st" "rt_pending (show_signals ss st) = rt_pending st"
  "rt_last_message (show_signals ss st) = rt_last_message st"
  "rt_permissions (show_signals ss st) = rt_permissions st"
  by (simp_all add: show_signals_def)

lemma quiet_add_event [simp]:
  "rt_room (add_event tn c e st) = rt_room st" "rt_pending (add_event tn c e st) = rt_pending st"
  "rt_last_message (add_event tn c e st) = rt_last_message st"
  by (simp_all add: add_event_def Let_def invalidate_permissions_def split: event_body.splits state_content.splits)

lemma quiet_updateLastMessage [simp]:
  "rt_room (snd (updateLastMessage tn shown cst)) = rt_room (snd cst)"
  "rt_pending (snd (updateLastMessage tn shown cst)) = rt_pending (snd cst)"
  "rt_permissions (snd (updateLastMessage tn shown cst)) = rt_permissions (snd cst)"
  by (simp_all add: updateLastMessage_def Let_def case_prod_beta split: option.splits)

lemma quiet_fold_add_event [simp]:
  "rt_room (fold (add_event tn c) es st) = rt_room st"
  "rt_pending (fold (add_event tn c) es st) = rt_pending st"
  "rt_last_message (fold (add_event tn c) es st) = rt_last_message st"
  by (rule fold_frame, simp)+

lemma quiet_typing [simp]:
  "rt_room (fold (\<lambda>us. updateTypingUsers (f us)) uss st) = rt_room st"
  "rt_pending (fold (\<lambda>us. updateTypingUsers (f us)) uss st) = rt_pending st"
  "rt_permissions (fold (\<lambda>us. updateTypingUsers (f us)) uss st) = rt_permissions st"
  "rt_last_message (fold (\<lambda>us. updateTypingUsers (f us)) uss st) = rt_last_message st"
  by (rule fold_frame, simp add: updateTypingUsers_def)+

lemma quiet_counts [simp]:
  "rt_room (update_counts room st) = rt_room st"
  "rt_pending (update_counts room st) = rt_pending st"
  "rt_permissions (update_counts room st) = rt_permissions st"
  "rt_last_message (update_counts room st) = rt_last_message st"
  by (simp_all add: update_counts_def)

lemma quiet_sync_timeline:
  "rt_room (snd (sync_timeline tn shown room cst)) = rt_room (snd cst)"
  "rt_pending (snd (sync_timeline tn shown room cst)) = rt_pending (snd cst)"
  by (simp_all add: sync_timeline_def case_prod_beta addEvents_def)

lemma encrypted_updateLastMessage [simp]:
  "rc_encrypted (fst (updateLastMessage tn shown cst)) = rc_encrypted (fst cst)"
  by (simp add: updateLastMessage_def Let_def case_prod_beta updateLastMessageTimestamp_def
      split: option.splits)

lemma encrypted_sync_timeline:
  "rc_encrypted (fst (sync_timeline tn shown room cst)) = rc_encrypted (fst cst)"
  by (simp add: sync_timeline_def case_prod_beta addEvents_def)

lemma encrypted_message_confidential:
  assumes "\<And>x. encrypt (rt_room st) (tn_device tn) t (og_content m) = Some x \<Longrightarrow> C x"
  shows "puts_up_only (confidential C) st (sendEncryptedMessage tn encrypt t m i now st)"
  using assms
  by (cases "encrypt (rt_room st) (tn_device tn) t (og_content m)")
    (simp_all add: sendEncryptedMessage_def puts_up_only_quiet puts_up_only_add_pending)

lemma room_event_confidential:
  assumes "is_room_encrypted (rt_room st) c"
    and "\<And>x. encrypt (rt_room st) (tn_device tn) t (og_content m) = Some x \<Longrightarrow> C x"
  shows "puts_up_only (confidential C) st (sendRoomEvent tn encrypt c t m i now st)"
proof -
  have "puts_up_only (confidential C) st (show_signals (image_signals m) st)"
    by (rule puts_up_only_quiet) simp_all
  moreover have "puts_up_only (confidential C) (show_signals (image_signals m) st)
      (sendEncryptedMessage tn encrypt t m i now (show_signals (image_signals m) st))"
    by (rule encrypted_message_confidential) (simp add: assms(2))
  ultimately have "puts_up_only (confidential C) st
      (sendEncryptedMessage tn encrypt t m i now (show_signals (image_signals m) st))"
    by (rule puts_up_only_trans)
  then show ?thesis using assms(1) by (simp add: sendRoomEvent_def)
qed

lemma send_message_confidential:
  assumes "is_room_encrypted (rt_room st) c"
    and "\<And>t x. encrypt (rt_room st) (tn_device tn) t (og_content m) = Some x \<Longrightarrow> C x"
  shows "puts_up_only (confidential C) st (send_message tn encrypt c m i now st)"
proof -
  note facts = room_event_confidential [OF assms(1) assms(2)] encrypted_message_confidential [OF assms(2)]
  show ?thesis
    using assms(1)
    by (cases "og_body m") (simp_all add: send_message_def facts puts_up_only_add_pending)
qed

lemma step_confidential:
  assumes "rt_room (snd cst) |\<in>| rc_encrypted (fst cst)"
    and "\<And>x. encrypts_to (rt_room (snd cst)) (tn_device tn) op x \<Longrightarrow> C x"
  shows "rt_room (snd cst) |\<in>| rc_encrypted (fst (timeline_step en tn cst op))"
    and "puts_up_only (confidential C) (snd cst) (snd (timeline_step en tn cst op))"
proof -
  obtain c st where cst: "cst = (c, st)" by (cases cst)
  have keep: "rt_room st |\<in>| rc_encrypted (room_step en c ro)" for ro
    using encrypted_room_step [of c en ro] assms(1) by (auto simp: cst)
  show "rt_room (snd cst) |\<in>| rc_encrypted (fst (timeline_step en tn cst op))"
    using assms(1) keep by (cases op) (simp_all add: cst encrypted_sync_timeline)
  show "puts_up_only (confidential C) (snd cst) (snd (timeline_step en tn cst op))"
  proof (cases op)
    case (SendMessage m txn_id now encrypt)
    have "puts_up_only (confidential C) st (send_message tn encrypt c m (CHR ''m'' # txn_id) now st)"
    proof (rule send_message_confidential)
      show "is_room_encrypted (rt_room st) c" using assms(1) by (simp add: cst is_room_encrypted_def)
      show "C x" if "encrypt (rt_room st) (tn_device tn) t (og_content m) = Some x" for t x
        using assms(2) [of x] that by (auto simp: cst SendMessage)
    qed
    then show ?thesis by (simp add: cst SendMessage addPendingMessage_def)
  qed (simp_all add: cst puts_up_only_quiet quiet_sync_timeline pin_def unpin_def getEvents_def
      markEventsAsRead_def Let_def)
qed

lemma puts_up_only_mono: "puts_up_only P st st' \<Longrightarrow> (\<And>p. P p \<Longrightarrow> Q p) \<Longrightarrow> puts_up_only Q st st'"
  by (auto simp: puts_up_only_def list_all_iff)

lemma run_confidential:
  assumes "rt_room (snd cst) |\<in>| rc_encrypted (fst cst)"
    and "\<And>x. encrypted_by (rt_room (snd cst)) (tn_device tn) ops x \<Longrightarrow> C x"
  shows "puts_up_only (confidential C) (snd cst) (snd (run (timeline_step en tn) cst ops))"
  using assms
proof (induction ops arbitrary: cst)
  case Nil
  then show ?case by simp
next
  case (Cons op ops)
  have head: "\<And>x. encrypts_to (rt_room (snd cst)) (tn_device tn) op x \<Longrightarrow> C x"
    and tail: "\<And>x. encrypted_by (rt_room (snd cst)) (tn_device tn) ops x \<Longrightarrow> C x"
    using Cons.prems(2) by (auto simp: encrypted_by_def)
  note step = step_confidential [where C = C and op = op and tn = tn and en = en, OF Cons.prems(1) head]
  from step(2) have "rt_room (snd (timeline_step en tn cst op)) = rt_room (snd cst)"
    by (simp add: puts_up_only_def)
  with Cons.IH [of "timeline_step en tn cst op"] step(1) tail
  have "puts_up_only (confidential C) (snd (timeline_step en tn cst op))
      (snd (run (timeline_step en tn) (timeline_step en tn cst op) ops))" by simp
  with step(2) show ?case by (simp add: puts_up_only_trans)
qed

text \<open>C19: Once a sync brought an encryption event for a room, whatever else happens to the cache and
the room, every message that is put up for sending in it is either the result of encrypting one of
the messages for this room and our device, or a reaction, whose relation the server must be able to
read; nothing marks the room as unencrypted again.\<close>

theorem encrypted_room_sends_no_plaintext:
  assumes "fmlookup (sy_join res) (rt_room st) = Some jr"
    and "e \<in> set (all_state jr)" and "se_content e = Encryption s"
  shows "\<exists>new. rt_pending (snd (run (timeline_step en tn) (room_step en c (Sync res), st) ops)) = rt_pending st @ new
    \<and> (\<forall>p \<in> set new. case p of
          Plain t m i sender ts \<Rightarrow> og_body m = Reaction
        | Encrypted x i sender ts \<Rightarrow> encrypted_by (rt_room st) (tn_device tn) ops x)"
proof -
  let ?C = "encrypted_by (rt_room st) (tn_device tn) ops"
  have "rt_room st |\<in>| rc_encrypted (room_step en c (Sync res))"
    using assms by (auto simp: encrypted_saveState)
  then have "puts_up_only (confidential ?C) st
      (snd (run (timeline_step en tn) (room_step en c (Sync res), st) ops))"
    using run_confidential [of "(room_step en c (Sync res), st)" tn ops ?C en] by simp
  moreover have "confidential ?C p = (case p of Plain t m i sender ts \<Rightarrow> og_body m = Reaction
        | Encrypted x i sender ts \<Rightarrow> ?C x)" for p by (cases p) simp_all
  ultimately show ?thesis by (auto simp: puts_up_only_def list_all_iff)
qed

definition demo_tn :: timeline_env where
  "demo_tn = \<lparr>tn_user = ''@me'', tn_device = ''DEV'', tn_tr = id, tn_default_levels = ''none'',
     tn_decrypt = (\<lambda>r e. None),
     tn_describe = (\<lambda>e n. no_desc\<lparr>di_event_id := re_event_id e, di_body := n, di_timestamp := re_ts e\<rparr>),
     tn_time = (\<lambda>t. []), tn_display_name = (\<lambda>r u c. u)\<rparr>"

definition encrypting :: sync_response where
  "encrypting = \<lparr>sy_next_batch = ''s'', sy_account_data = [],
     sy_join = fmap_of_list [(''!a'', \<lparr>jr_state =
        [\<lparr>se_event_id = ''$1'', se_sender = ''@u'', se_state_key = [], se_content = Encryption ''s''\<rparr>],
        jr_timeline = [], jr_notification_count = 0, jr_highlight_count = 0, jr_account_data = [],
        jr_receipts = []\<rparr>)],
     sy_invite = fmempty, sy_leave = {||}, sy_presence = []\<rparr>"

definition demo_room_env :: "unit room_env" where
  "demo_room_env = \<lparr>en_texts = \<lparr>tx_tr = id, tx_others = (\<lambda>a n. a), tx_local = ''@me''\<rparr>,
     en_levels = \<lparr>user_level = (\<lambda>p u. if u = ''@admin'' then 100 else 0), state_level = (\<lambda>p t. 50)\<rparr>,
     en_timeline = (\<lambda>r es evs. evs), en_unread = (\<lambda>c r. False)\<rparr>"

definition hello :: outgoing where
  "hello = \<lparr>og_body = Text, og_content = ''hello'', og_file = None, og_thumbnail = None\<rparr>"

lemma encrypted_room_sends_no_plaintext_witness:
  "rt_pending (snd (run (timeline_step demo_room_env demo_tn)
      (room_step demo_room_env new_room_cache (Sync encrypting), new_timeline_for demo_tn ''!a'' new_room_cache)
      [SendMessage hello ''1'' 7 (\<lambda>r d t content. Some (rev content))])) \<noteq> []
   \<and> (\<exists>new. rt_pending (snd (run (timeline_step demo_room_env demo_tn)
        (room_step demo_room_env new_room_cache (Sync encrypting), new_timeline_for demo_tn ''!a'' new_room_cache)
        [SendMessage hello ''1'' 7 (\<lambda>r d t content. Some (rev content))])) = new
      \<and> (\<forall>p \<in> set new. \<forall>t m i sender ts. p \<noteq> Plain t hello i sender ts))"
proof -
  let ?st = "new_timeline_for demo_tn ''!a'' new_room_cache"
  have pre: "fmlookup (sy_join encrypting) (rt_room ?st) = Some (the (fmlookup (sy_join encrypting) ''!a''))"
    "\<lparr>se_event_id = ''$1'', se_sender = ''@u'', se_state_key = [], se_content = Encryption ''s''\<rparr>
       \<in> set (all_state (the (fmlookup (sy_join encrypting) ''!a'')))"
    by (simp_all add: new_timeline_for_def Let_def encrypting_def all_state_def)
  from encrypted_room_sends_no_plaintext [OF this, where s = "''s''" and en = demo_room_env and tn = demo_tn
      and c = new_room_cache and ops = "[SendMessage hello ''1'' 7 (\<lambda>r d t content. Some (rev content))]"]
  obtain new where new: "rt_pending (snd (run (timeline_step demo_room_env demo_tn)
      (room_step demo_room_env new_room_cache (Sync encrypting), ?st)
      [SendMessage hello ''1'' 7 (\<lambda>r d t content. Some (rev content))])) = rt_pending ?st @ new"
    "\<forall>p \<in> set new. case p of Plain t m i sender ts \<Rightarrow> og_body m = Reaction | Encrypted x i sender ts \<Rightarrow>
        encrypted_by (rt_room ?st) (tn_device demo_tn) [SendMessage hello ''1'' 7 (\<lambda>r d t content. Some (rev content))] x"
    by auto
  have "''!a'' |\<in>| rc_encrypted (room_step demo_room_env new_room_cache (Sync encrypting))"
    using pre(2) by (auto simp: encrypted_saveState encrypting_def all_state_def)
  then have "rt_pending (snd (run (timeline_step demo_room_env demo_tn)
      (room_step demo_room_env new_room_cache (Sync encrypting), ?st)
      [SendMessage hello ''1'' 7 (\<lambda>r d t content. Some (rev content))])) \<noteq> []"
    by (simp add: addPendingMessage_def send_message_def hello_def sendRoomEvent_def is_room_encrypted_def
        sendEncryptedMessage_def add_pending_def new_timeline_for_def Let_def del: room_step.simps)
  then show ?thesis
    using new by (fastforce simp: new_timeline_for_def Let_def hello_def)
qed

end
