(* ===== verification/Timeline_Control_Behaviour.thy ===== *)
theory Timeline_Control_Behaviour
  imports Timeline_Control_Properties
begin

text \<open>
  What the timeline controller shows: the preview of the last message, the permissions, the calls it
  announces; what happens when encryption fails; event types back and forth.
\<close>

section \<open>Failing encryption\<close>

text \<open>The contents an encrypted room sends as ciphertext.\<close>

definition encrypted_body :: "event_body \<Rightarrow> bool" where
  "encrypted_body b \<longleftrightarrow> b = Sticker \<or> b \<noteq> Reaction \<and> sent_type b \<noteq> None"



section \<open>The preview of the last message\<close>

text \<open>The events that may be shown as the last message, and how.\<close>

definition previewable :: "timeline_env \<Rightarrow> room_event \<Rightarrow> bool" where
  "previewable tn e \<longleftrightarrow> isYourJoin tn e \<or> is_message_body (re_body e)"

definition preview :: "timeline_env \<Rightarrow> string \<Rightarrow> room_cache \<Rightarrow> room_event \<Rightarrow> desc_info" where
  "preview tn room c e = (if isYourJoin tn e then join_description tn e else describe tn room c e)"

lemma same_desc_refl [simp]: "same_desc d d"
  by (simp add: same_desc_def)


section \<open>What a sync announces\<close>

definition decrypted :: "timeline_env \<Rightarrow> string \<Rightarrow> room_event \<Rightarrow> room_event" where
  "decrypted tn room e =
     (if re_body e = EncryptedBody then (case tn_decrypt tn room e of Some d \<Rightarrow> d | None \<Rightarrow> e) else e)"

definition sets_levels :: "room_event \<Rightarrow> bool" where
  "sets_levels e \<longleftrightarrow> (\<exists>pl. re_body e = StateBody (PowerLevels pl))"

lemma permissions_add_event:
  "rt_permissions (add_event tn c e st) =
     (if sets_levels (decrypted tn (rt_room st) e) then current_levels tn (rt_room st) c else rt_permissions st)"
  by (simp add: add_event_def decrypted_def [symmetric] Let_def sets_levels_def invalidate_permissions_def
      split: event_body.splits state_content.splits)

lemma permissions_fold:
  "rt_permissions (fold (add_event tn c) es st) =
     (if \<exists>e \<in> set es. sets_levels (decrypted tn (rt_room st) e)
      then current_levels tn (rt_room st) c else rt_permissions st)"
  by (induction es arbitrary: st) (simp_all add: permissions_add_event)

text \<open>A sync makes the permissions those of the power levels in the cache exactly when power levels are
among its timeline events; otherwise they stay as they were, also when the cache has others by then
(from the sync's own state events, say).\<close>

theorem permissions_follow_the_timeline:
  "rt_permissions (snd (sync_timeline tn shown room (c, st))) =
     (if \<exists>e \<in> set (ts_events room). sets_levels (decrypted tn (rt_room st) e)
      then current_levels tn (rt_room st) c else rt_permissions st)"
  by (simp add: sync_timeline_def case_prod_beta addEvents_def permissions_fold)

definition call_signals :: "timeline_signal list \<Rightarrow> room_event list" where
  "call_signals ss = concat (map (\<lambda>s. case s of NewCallEvent e \<Rightarrow> [e] | _ \<Rightarrow> []) ss)"

lemma call_signals_simps [simp]:
  "call_signals [] = []" "call_signals (ss @ ss') = call_signals ss @ call_signals ss'"
  "call_signals (s # ss) = (case s of NewCallEvent e \<Rightarrow> e # call_signals ss | _ \<Rightarrow> call_signals ss)"
  by (simp_all add: call_signals_def split: timeline_signal.split)

definition call_body :: "event_body \<Rightarrow> bool" where
  "call_body b \<longleftrightarrow> b \<in> {CallInviteBody, CallCandidatesBody, CallAnswerBody, CallHangUpBody}"

definition announced :: "timeline_env \<Rightarrow> room_event \<Rightarrow> bool" where
  "announced tn e \<longleftrightarrow> call_body (re_body e) \<and>
     (re_sender e = tn_user tn \<longrightarrow> re_body e = CallAnswerBody \<or> re_body e = CallHangUpBody)"

lemma call_signals_show [simp]:
  "call_signals (rt_signals (show_signals ss st)) = call_signals (rt_signals st) @ call_signals ss"
  by (simp add: show_signals_def)

lemma call_signals_add_event:
  "call_signals (rt_signals (add_event tn c e st)) = call_signals (rt_signals st)
     @ filter (announced tn) [decrypted tn (rt_room st) e]"
  by (simp add: add_event_def decrypted_def [symmetric] Let_def call_event_signal_def announced_def call_body_def
      invalidate_permissions_def split: event_body.split state_content.split)

lemma call_signals_fold:
  "call_signals (rt_signals (fold (add_event tn c) es st)) = call_signals (rt_signals st)
     @ filter (announced tn) (map (decrypted tn (rt_room st)) es)"
  by (induction es arbitrary: st) (simp_all add: call_signals_add_event)

lemma call_signals_rest [simp]:
  "call_signals (rt_signals (snd (updateLastMessage tn shown cst))) = call_signals (rt_signals (snd cst))"
  "call_signals (rt_signals (update_counts room st)) = call_signals (rt_signals st)"
  "call_signals (rt_signals (fold (\<lambda>us. updateTypingUsers (f us)) uss st)) = call_signals (rt_signals st)"
proof -
  show "call_signals (rt_signals (snd (updateLastMessage tn shown cst))) = call_signals (rt_signals (snd cst))"
    by (simp add: updateLastMessage_def Let_def case_prod_beta split: option.splits)
  show "call_signals (rt_signals (update_counts room st)) = call_signals (rt_signals st)"
    by (simp add: update_counts_def)
  show "call_signals (rt_signals (fold (\<lambda>us. updateTypingUsers (f us)) uss st)) = call_signals (rt_signals st)"
    by (rule fold_frame) (simp add: updateTypingUsers_def)
qed

text \<open>A sync passes on to the call manager exactly the decrypted call events of its timeline, in order
and each once, except our own invites and candidates; answers and hang-ups of ours (from another
device) are passed on.\<close>

theorem call_events_are_passed_on:
  "call_signals (rt_signals (snd (sync_timeline tn shown room (c, st)))) =
     call_signals (rt_signals st)
     @ filter (announced tn) (map (decrypted tn (rt_room st)) (ts_events room))"
  by (simp add: sync_timeline_def case_prod_beta addEvents_def call_signals_fold)

section \<open>Event types\<close>

text \<open>A type the user interface was told comes back as the type it stands for; the types it is not told
(calls, verification, widgets) come back as messages.\<close>

theorem event_types_round_trip:
  "fromRoomEventType (toRoomEventType t) = (if t \<in> fst ` set toRoomEventType_table then t else RoomMessage)"
proof (cases "map_of toRoomEventType_table t")
  case None
  then have "t \<notin> fst ` set toRoomEventType_table" by (simp add: map_of_eq_None_iff)
  moreover have "fromRoomEventType QUnknownMessage = RoomMessage" by code_simp
  ultimately show ?thesis using None by (simp add: toRoomEventType_def)
next
  case (Some q)
  have "list_all (\<lambda>(t, q). fromRoomEventType q = t) toRoomEventType_table" by code_simp
  with Some have "fromRoomEventType q = t" by (auto simp: list_all_iff dest: map_of_SomeD)
  moreover have "t \<in> fst ` set toRoomEventType_table" using Some by (force dest: map_of_SomeD)
  ultimately show ?thesis using Some by (simp add: toRoomEventType_def)
qed

end
