(* ===== verification/User_Settings.thy ===== *)
theory User_Settings
  imports Session_Store
begin

text \<open>
  The settings (\<open>src/src/UserSettings.cpp\<close>): what they are in memory, how they are read from the stored
  entries when the program starts and written back by \<open>save\<close>, and their setters.

  A setting and its field have the same name. The stored entries are those of \<open>QSettings\<close>, which gives
  back what it was given; the secrets among them are the \<open>settings\<close> of \<open>Session_Store\<close>. The font size a
  desktop has by itself is an argument. The presence is a field that neither is read nor written.
\<close>

section \<open>Settings and their entries\<close>

datatype (plugins only: code size) setting =
    S_tray | S_startInTray | S_roomListWidth | S_communityListWidth | S_hasDesktopNotifications
   | S_hasAlertOnNotification | S_groupView | S_buttonsInTimeline | S_timelineMaxWidth
   | S_messageHoverHighlight | S_enlargeEmojiOnlyMessages | S_markdown | S_bubbles
   | S_smallAvatars | S_animateImagesOnHover | S_typingNotifications | S_sortByImportance
   | S_readReceipts | S_font | S_avatarCircles | S_openImageExternal | S_openVideoExternal
   | S_decryptSidebar | S_spaceNotifications | S_privacyScreen | S_privacyScreenTimeout
   | S_mobileMode | S_emojiFont | S_baseFontSize | S_ringtone | S_microphone | S_camera
   | S_cameraResolution | S_cameraFrameRate | S_screenShareFrameRate | S_screenSharePiP
   | S_screenShareRemoteVideo | S_screenShareHideCursor | S_useStunServer | S_accessToken
   | S_homeserver | S_userId | S_cmUserId | S_deviceId | S_hiddenTags | S_mutedTags
   | S_hiddenPins | S_hiddenWidgets | S_recentReactions | S_collapsedSpaces
   | S_shareKeysWithTrustedUsers | S_onlyShareKeysWithVerifiedUsers | S_useOnlineKeyBackup
   | S_disableCertificateValidation

datatype setting_value =
    VBool bool
  | VInt int
  | VReal rat
  | VString string
  | VList "string list"
  | VLists "string list list"

datatype presence_setting = AutomaticPresence | OnlinePresence | UnavailablePresence | OfflinePresence

text \<open>What \<open>load\<close> reads: whether the entry belongs to a profile, its key, the value when it is missing.\<close>

definition load_table :: "(setting \<times> bool \<times> string \<times> setting_value) list" where
  "load_table =
     [(S_tray, False, ''user/window/tray'', VBool False),
      (S_startInTray, False, ''user/window/start_in_tray'', VBool False),
      (S_roomListWidth, False, ''user/sidebar/room_list_width'', VInt (- 1)),
      (S_communityListWidth, False, ''user/sidebar/community_list_width'', VInt (- 1)),
      (S_hasDesktopNotifications, False, ''user/desktop_notifications'', VBool True),
      (S_hasAlertOnNotification, False, ''user/alert_on_notification'', VBool False),
      (S_groupView, False, ''user/group_view'', VBool True),
      (S_buttonsInTimeline, False, ''user/timeline/buttons'', VBool True),
      (S_timelineMaxWidth, False, ''user/timeline/max_width'', VInt 0),
      (S_messageHoverHighlight, False, ''user/timeline/message_hover_highlight'', VBool False),
      (S_enlargeEmojiOnlyMessages, False, ''user/timeline/enlarge_emoji_only_msg'', VBool False),
      (S_markdown, False, ''user/markdown_enabled'', VBool True),
      (S_bubbles, False, ''user/bubbles_enabled'', VBool False),
      (S_smallAvatars, False, ''user/small_avatars_enabled'', VBool False),
      (S_animateImagesOnHover, False, ''user/animate_images_on_hover'', VBool False),
      (S_typingNotifications, False, ''user/typing_notifications'', VBool True),
      (S_sortByImportance, False, ''user/sort_by_unread'', VBool True),
      (S_readReceipts, False, ''user/read_receipts'', VBool True),
      (S_font, False, ''user/font_family'', VString []),
      (S_avatarCircles, False, ''user/avatar_circles'', VBool True),
      (S_openImageExternal, False, ''user/open_image_external'', VBool False),
      (S_openVideoExternal, False, ''user/open_video_external'', VBool False),
      (S_decryptSidebar, False, ''user/decrypt_sidebar'', VBool True),
      (S_spaceNotifications, False, ''user/space_notifications'', VBool True),
      (S_privacyScreen, False, ''user/privacy_screen'', VBool False),
      (S_privacyScreenTimeout, False, ''user/privacy_screen_timeout'', VInt 0),
      (S_mobileMode, False, ''user/mobile_mode'', VBool False),
      (S_emojiFont, False, ''user/emoji_font_family'', VString ''emoji''),
      (S_ringtone, False, ''user/ringtone'', VString ''Default''),
      (S_microphone, False, ''user/microphone'', VString []),
      (S_camera, False, ''user/camera'', VString []),
      (S_cameraResolution, False, ''user/camera_resolution'', VString []),
      (S_cameraFrameRate, False, ''user/camera_frame_rate'', VString []),
      (S_screenShareFrameRate, False, ''user/screen_share_frame_rate'', VInt 5),
      (S_screenSharePiP, False, ''user/screen_share_pip'', VBool True),
      (S_screenShareRemoteVideo, False, ''user/screen_share_remote_video'', VBool False),
      (S_screenShareHideCursor, False, ''user/screen_share_hide_cursor'', VBool False),
      (S_useStunServer, False, ''user/use_stun_server'', VBool False),
      (S_accessToken, True, ''auth/access_token'', VString []),
      (S_homeserver, True, ''auth/home_server'', VString []),
      (S_userId, True, ''auth/user_id'', VString []),
      (S_cmUserId, True, ''auth/cm_user_id'', VString []),
      (S_deviceId, True, ''auth/device_id'', VString []),
      (S_hiddenTags, True, ''user/hidden_tags'', VList []),
      (S_mutedTags, True, ''user/muted_tags'', VList [''global'']),
      (S_hiddenPins, True, ''user/hidden_pins'', VList []),
      (S_hiddenWidgets, True, ''user/hidden_widgets'', VList []),
      (S_recentReactions, True, ''user/recent_reactions'', VList []),
      (S_collapsedSpaces, True, ''user/collapsed_spaces'', VLists []),
      (S_shareKeysWithTrustedUsers, True, ''user/automatically_share_keys_with_trusted_users'', VBool False),
      (S_onlyShareKeysWithVerifiedUsers, True, ''user/only_share_keys_with_verified_users'', VBool False),
      (S_useOnlineKeyBackup, True, ''user/online_key_backup'', VBool False),
      (S_disableCertificateValidation, False, ''disable_certificate_validation'', VBool True)]"

text \<open>What \<open>save\<close> writes, in its order; some entries are written twice.\<close>

definition save_table :: "(setting \<times> bool \<times> string) list" where
  "save_table =
     [(S_microphone, False, ''user/microphone''), (S_camera, False, ''user/camera''),
      (S_cameraResolution, False, ''user/camera_resolution''),
      (S_cameraFrameRate, False, ''user/camera_frame_rate''), (S_tray, False, ''user/window/tray''),
      (S_startInTray, False, ''user/window/start_in_tray''),
      (S_communityListWidth, False, ''user/sidebar/community_list_width''),
      (S_roomListWidth, False, ''user/sidebar/room_list_width''),
      (S_buttonsInTimeline, False, ''user/timeline/buttons''),
      (S_messageHoverHighlight, False, ''user/timeline/message_hover_highlight''),
      (S_enlargeEmojiOnlyMessages, False, ''user/timeline/enlarge_emoji_only_msg''),
      (S_timelineMaxWidth, False, ''user/timeline/max_width''),
      (S_avatarCircles, False, ''user/avatar_circles''),
      (S_decryptSidebar, False, ''user/decrypt_sidebar''),
      (S_spaceNotifications, False, ''user/space_notifications''),
      (S_privacyScreen, False, ''user/privacy_screen''),
      (S_privacyScreenTimeout, False, ''user/privacy_screen_timeout''),
      (S_mobileMode, False, ''user/mobile_mode''), (S_baseFontSize, False, ''user/font_size''),
      (S_typingNotifications, False, ''user/typing_notifications''),
      (S_sortByImportance, False, ''user/sort_by_unread''),
      (S_sortByImportance, False, ''user/minor_events''),
      (S_readReceipts, False, ''user/read_receipts''), (S_groupView, False, ''user/group_view''),
      (S_markdown, False, ''user/markdown_enabled''), (S_bubbles, False, ''user/bubbles_enabled''),
      (S_smallAvatars, False, ''user/small_avatars_enabled''),
      (S_animateImagesOnHover, False, ''user/animate_images_on_hover''),
      (S_hasDesktopNotifications, False, ''user/desktop_notifications''),
      (S_hasAlertOnNotification, False, ''user/alert_on_notification''),
      (S_font, False, ''user/font_family''), (S_emojiFont, False, ''user/emoji_font_family''),
      (S_ringtone, False, ''user/ringtone''), (S_microphone, False, ''user/microphone''),
      (S_camera, False, ''user/camera''), (S_cameraResolution, False, ''user/camera_resolution''),
      (S_cameraFrameRate, False, ''user/camera_frame_rate''),
      (S_screenShareFrameRate, False, ''user/screen_share_frame_rate''),
      (S_screenSharePiP, False, ''user/screen_share_pip''),
      (S_screenShareRemoteVideo, False, ''user/screen_share_remote_video''),
      (S_screenShareHideCursor, False, ''user/screen_share_hide_cursor''),
      (S_useStunServer, False, ''user/use_stun_server''),
      (S_openImageExternal, False, ''user/open_image_external''),
      (S_openVideoExternal, False, ''user/open_video_external''),
      (S_accessToken, True, ''auth/access_token''), (S_homeserver, True, ''auth/home_server''),
      (S_userId, True, ''auth/user_id''), (S_cmUserId, True, ''auth/cm_user_id''),
      (S_deviceId, True, ''auth/device_id''),
      (S_shareKeysWithTrustedUsers, True, ''user/automatically_share_keys_with_trusted_users''),
      (S_onlyShareKeysWithVerifiedUsers, True, ''user/only_share_keys_with_verified_users''),
      (S_useOnlineKeyBackup, True, ''user/online_key_backup''),
      (S_hiddenTags, True, ''user/hidden_tags''), (S_mutedTags, True, ''user/muted_tags''),
      (S_hiddenPins, True, ''user/hidden_pins''), (S_hiddenWidgets, True, ''user/hidden_widgets''),
      (S_recentReactions, True, ''user/recent_reactions''),
      (S_collapsedSpaces, True, ''user/collapsed_spaces''),
      (S_disableCertificateValidation, False, ''disable_certificate_validation'')]"

section \<open>State\<close>

datatype settings_signal =
    SettingChanged setting setting_value
  | ListChanged setting
  | PresenceChanged presence_setting
  | ProfileChanged string
  | DownloadBackup
  | VerifyCertificates bool

record user_settings =
  ut_profile :: string
  ut_values :: "setting \<Rightarrow> setting_value"
  ut_presence :: presence_setting
  ut_stored :: "(string, setting_value) fmap"
  ut_signals :: "settings_signal list"

definition settings_prefix :: "string \<Rightarrow> string" where
  "settings_prefix profile =
     (if profile \<noteq> [] \<and> profile \<noteq> ''default'' then ''profile/'' @ profile @ ''/'' else [])"

definition entry_key :: "string \<Rightarrow> bool \<Rightarrow> string \<Rightarrow> string" where
  "entry_key profile per_profile key = (if per_profile then settings_prefix profile @ key else key)"

definition profile_key :: string where
  "profile_key = ''user/currentProfile''"

section \<open>Reading and writing the entries\<close>

definition stored_value :: "rat \<Rightarrow> string \<Rightarrow> setting \<Rightarrow> (string, setting_value) fmap \<Rightarrow> setting_value" where
  "stored_value font_size profile s stored =
     (case map_of ((S_baseFontSize, False, ''user/font_size'', VReal font_size) # load_table) s of
        None \<Rightarrow> VBool False
      | Some (per_profile, key, initial) \<Rightarrow>
          (case fmlookup stored (entry_key profile per_profile key) of Some v \<Rightarrow> v | None \<Rightarrow> initial))"

definition load_profile :: "string option \<Rightarrow> (string, setting_value) fmap \<Rightarrow> string" where
  "load_profile profile stored =
     (case profile of
        Some p \<Rightarrow> if p = ''default'' then [] else p
      | None \<Rightarrow> (case fmlookup stored profile_key of Some (VString p) \<Rightarrow> p | _ \<Rightarrow> []))"

definition load_settings :: "rat \<Rightarrow> string option \<Rightarrow> user_settings \<Rightarrow> user_settings" where
  "load_settings font_size profile u =
     (let p = load_profile profile (ut_stored u)
      in u\<lparr>ut_profile := p, ut_values := (\<lambda>s. stored_value font_size p s (ut_stored u))\<rparr>)"

definition save_entry ::
  "user_settings \<Rightarrow> setting \<times> bool \<times> string \<Rightarrow> (string, setting_value) fmap \<Rightarrow> (string, setting_value) fmap"
where
  "save_entry u entry stored =
     (case entry of (s, per_profile, key) \<Rightarrow>
        fmupd (entry_key (ut_profile u) per_profile key) (ut_values u s) stored)"

definition save_settings :: "user_settings \<Rightarrow> user_settings" where
  "save_settings u =
     u\<lparr>ut_stored := fold (save_entry u) save_table (fmupd profile_key (VString (ut_profile u)) (ut_stored u))\<rparr>"

text \<open>\<open>clear\<close> empties the entries and leaves the fields.\<close>

definition clear_settings :: "user_settings \<Rightarrow> user_settings" where
  "clear_settings u = u\<lparr>ut_stored := fmempty\<rparr>"

section \<open>Setters\<close>

definition signal_setting :: "settings_signal list \<Rightarrow> user_settings \<Rightarrow> user_settings" where
  "signal_setting ss u = u\<lparr>ut_signals := ut_signals u @ ss\<rparr>"

definition put_value :: "setting \<Rightarrow> setting_value \<Rightarrow> user_settings \<Rightarrow> user_settings" where
  "put_value s v u = u\<lparr>ut_values := (ut_values u)(s := v)\<rparr>"

definition set_checked :: "setting \<Rightarrow> setting_value \<Rightarrow> user_settings \<Rightarrow> user_settings" where
  "set_checked s v u =
     (if v = ut_values u s then u
      else save_settings (signal_setting [SettingChanged s v] (put_value s v u)))"

definition window_setters :: "setting list" where
  "window_setters = [S_messageHoverHighlight, S_enlargeEmojiOnlyMessages, S_tray, S_startInTray,
     S_mobileMode, S_groupView]"

text \<open>Lists are set without a comparison, three of them with a signal.\<close>

definition list_setters :: "(setting \<times> bool) list" where
  "list_setters = [(S_hiddenTags, False), (S_mutedTags, False), (S_hiddenPins, True),
     (S_hiddenWidgets, True), (S_recentReactions, True), (S_collapsedSpaces, False)]"

definition timeline_setters :: "setting list" where
  "timeline_setters = [S_markdown, S_bubbles, S_smallAvatars, S_animateImagesOnHover, S_readReceipts,
     S_typingNotifications, S_sortByImportance, S_buttonsInTimeline, S_timelineMaxWidth,
     S_communityListWidth, S_roomListWidth, S_hasDesktopNotifications]"

definition display_setters :: "setting list" where
  "display_setters = [S_hasAlertOnNotification, S_avatarCircles, S_decryptSidebar,
     S_spaceNotifications, S_privacyScreen, S_privacyScreenTimeout, S_baseFontSize, S_font]"

definition call_setters :: "setting list" where
  "call_setters = [S_useStunServer, S_onlyShareKeysWithVerifiedUsers, S_shareKeysWithTrustedUsers,
     S_ringtone, S_screenShareFrameRate, S_screenSharePiP, S_screenShareRemoteVideo, S_screenShareHideCursor]"

definition account_setters :: "setting list" where
  "account_setters = [S_userId, S_cmUserId, S_accessToken, S_deviceId, S_homeserver]"

definition device_setters :: "setting list" where
  "device_setters = [S_microphone, S_camera, S_cameraResolution, S_cameraFrameRate,
     S_openImageExternal, S_openVideoExternal]"

definition set_value :: "setting \<Rightarrow> setting_value \<Rightarrow> user_settings \<Rightarrow> user_settings" where
  "set_value s v u =
     (case map_of list_setters s of
        Some signalled \<Rightarrow>
          signal_setting (if signalled then [ListChanged s] else []) (save_settings (put_value s v u))
      | None \<Rightarrow>
          (if s \<in> set (window_setters @ timeline_setters @ display_setters @ call_setters
                      @ account_setters @ device_setters)
           then set_checked s v u else u))"

text \<open>\<open>default_name\<close> is the translation of \<open>Default\<close>.\<close>

definition setEmojiFontFamily :: "string \<Rightarrow> string \<Rightarrow> user_settings \<Rightarrow> user_settings" where
  "setEmojiFontFamily default_name family u =
     (if VString family = ut_values u S_emojiFont then u
      else save_settings (signal_setting [SettingChanged S_emojiFont (VString family)]
             (put_value S_emojiFont (VString (if family = default_name then ''emoji'' else family)) u)))"

definition setPresence :: "presence_setting \<Rightarrow> user_settings \<Rightarrow> user_settings" where
  "setPresence p u =
     (if p = ut_presence u then u
      else save_settings (signal_setting [PresenceChanged p] (u\<lparr>ut_presence := p\<rparr>)))"

definition setUseOnlineKeyBackup :: "bool \<Rightarrow> user_settings \<Rightarrow> user_settings" where
  "setUseOnlineKeyBackup b u =
     (if VBool b = ut_values u S_useOnlineKeyBackup then u
      else signal_setting (if b then [DownloadBackup] else [])
             (save_settings (signal_setting [SettingChanged S_useOnlineKeyBackup (VBool b)]
               (put_value S_useOnlineKeyBackup (VBool b) u))))"

definition setProfile :: "string \<Rightarrow> user_settings \<Rightarrow> user_settings" where
  "setProfile p u =
     (if p = ut_profile u then u
      else save_settings (signal_setting [ProfileChanged p] (u\<lparr>ut_profile := p\<rparr>)))"

definition setDisableCertificateValidation :: "bool \<Rightarrow> user_settings \<Rightarrow> user_settings" where
  "setDisableCertificateValidation b u =
     (if VBool b = ut_values u S_disableCertificateValidation then u
      else signal_setting [VerifyCertificates (\<not> b), SettingChanged S_disableCertificateValidation (VBool b)]
             (put_value S_disableCertificateValidation (VBool b) u))"

text \<open>Secrets: every change of one writes all settings.\<close>

definition store_secret_setting ::
  "string \<Rightarrow> string \<Rightarrow> user_settings \<times> settings \<Rightarrow> user_settings \<times> settings"
where
  "store_secret_setting key v us =
     (if us_at key (snd us) = v then (fst us, us_touch key (snd us))
      else (save_settings (fst us), us_storeSecret key v (snd us)))"

definition delete_secret_setting :: "string \<Rightarrow> user_settings \<times> settings \<Rightarrow> user_settings \<times> settings" where
  "delete_secret_setting key us = (save_settings (fst us), us_deleteSecret key (snd us))"

section \<open>Steps\<close>

datatype settings_op =
    SetValue setting setting_value
  | SetEmojiFont string string
  | SetPresence presence_setting
  | SetUseOnlineKeyBackup bool
  | SetProfile string
  | SetDisableCertificateValidation bool
  | SaveAll

fun settings_step :: "user_settings \<Rightarrow> settings_op \<Rightarrow> user_settings" where
  "settings_step u (SetValue s v) = set_value s v u"
| "settings_step u (SetEmojiFont d f) = setEmojiFontFamily d f u"
| "settings_step u (SetPresence p) = setPresence p u"
| "settings_step u (SetUseOnlineKeyBackup b) = setUseOnlineKeyBackup b u"
| "settings_step u (SetProfile p) = setProfile p u"
| "settings_step u (SetDisableCertificateValidation b) = setDisableCertificateValidation b u"
| "settings_step u SaveAll = save_settings u"

end
