(* ===== verification/User_Settings_Properties.thy ===== *)
theory User_Settings_Properties
  imports User_Settings
begin

text \<open>
  The properties of the settings: what is in memory comes back when the program starts again, a change
  of the profile writes over the account of the profile, and clearing the entries does not last.
\<close>

section \<open>Keys\<close>

definition full_load_table :: "rat \<Rightarrow> (setting \<times> bool \<times> string \<times> setting_value) list" where
  "full_load_table font_size = (S_baseFontSize, False, ''user/font_size'', VReal font_size) # load_table"

lemma keys_determine_settings:
  "list_all (\<lambda>(s, pp, k). k \<noteq> [] \<and> hd k \<noteq> CHR ''p'' \<and>
     list_all (\<lambda>(s', pp', k'). k = k' \<longrightarrow> s = s' \<and> pp = pp') save_table) save_table"
  by code_simp

lemma loaded_entries_are_saved:
  "list_all (\<lambda>(s, pp, k, d). (s, pp, k) \<in> set save_table) (full_load_table font_size)"
  by (simp add: full_load_table_def load_table_def save_table_def)

lemma every_setting_is_loaded: "map_of (full_load_table font_size) s \<noteq> None"
  by (cases s) (simp_all add: full_load_table_def load_table_def)

lemma same_entry:
  assumes "(s, pp, k) \<in> set save_table" and "(s', pp', k') \<in> set save_table"
    and "entry_key p pp k = entry_key p pp' k'"
  shows "s = s'"
proof -
  have keys: "k \<noteq> []" "k' \<noteq> []" "hd k \<noteq> CHR ''p''" "hd k' \<noteq> CHR ''p''" and det: "k = k' \<Longrightarrow> s = s'"
    using keys_determine_settings assms(1,2) by (auto simp: list_all_iff)
  have prefix: "settings_prefix p = [] \<or> (\<exists>q. settings_prefix p = CHR ''p'' # q)"
    by (simp add: settings_prefix_def)
  have "k = k'"
    using assms(3) prefix keys by (cases pp; cases pp') (auto simp: entry_key_def)
  then show ?thesis by (rule det)
qed

lemma saved_entry:
  assumes "\<And>s' pp' k'. (s', pp', k') \<in> set entries \<Longrightarrow> entry_key (ut_profile u) pp' k' = key \<Longrightarrow> s' = s"
    and "(s, pp, k) \<in> set entries" and "entry_key (ut_profile u) pp k = key"
  shows "fmlookup (fold (save_entry u) entries stored) key = Some (ut_values u s)"
proof -
  have "fmlookup (fold (save_entry u) es st) key = Some (ut_values u s)"
    if "set es \<subseteq> set entries"
      "fmlookup st key = Some (ut_values u s) \<or> (\<exists>pp k. (s, pp, k) \<in> set es \<and> entry_key (ut_profile u) pp k = key)"
    for es st
    using that
  proof (induction es arbitrary: st)
    case (Cons e es)
    obtain s' pp' k' where e: "e = (s', pp', k')" by (cases e)
    have "fmlookup (save_entry u e st) key = Some (ut_values u s)
        \<or> (\<exists>pp k. (s, pp, k) \<in> set es \<and> entry_key (ut_profile u) pp k = key)"
      using Cons.prems assms(1) [of s' pp' k'] by (auto simp: e save_entry_def)
    with Cons.IH [of "save_entry u e st"] Cons.prems(1) show ?case by simp
  qed simp
  with assms(2,3) show ?thesis by blast
qed

section \<open>What is in memory is stored\<close>

definition in_memory_as_stored :: "rat \<Rightarrow> user_settings \<Rightarrow> bool" where
  "in_memory_as_stored font_size u \<longleftrightarrow>
     (\<forall>s. s \<noteq> S_disableCertificateValidation \<longrightarrow>
        stored_value font_size (ut_profile u) s (ut_stored u) = ut_values u s)"

lemma stored_after_save [simp]:
  "stored_value font_size (ut_profile u) s (ut_stored (save_settings u)) = ut_values u s"
proof -
  obtain pp k d where l: "map_of (full_load_table font_size) s = Some (pp, k, d)"
    using every_setting_is_loaded [of font_size s] by auto
  then have entry: "(s, pp, k) \<in> set save_table"
    using loaded_entries_are_saved [of font_size] by (force simp: list_all_iff dest: map_of_SomeD)
  have "fmlookup (fold (save_entry u) save_table stored) (entry_key (ut_profile u) pp k) = Some (ut_values u s)" for stored
    by (rule saved_entry [OF _ entry refl]) (use same_entry entry in blast)
  with l show ?thesis
    unfolding stored_value_def full_load_table_def [symmetric] by (simp add: save_settings_def)
qed

lemma save_keeps [simp]:
  "ut_values (save_settings u) = ut_values u" "ut_profile (save_settings u) = ut_profile u"
  "ut_values (signal_setting ss u) = ut_values u" "ut_profile (signal_setting ss u) = ut_profile u"
  "ut_stored (signal_setting ss u) = ut_stored u"
  by (simp_all add: save_settings_def signal_setting_def)

lemma saved_in_memory [simp]:
  "in_memory_as_stored font_size (save_settings u)"
  "in_memory_as_stored font_size (signal_setting ss u) = in_memory_as_stored font_size u"
  by (simp_all add: in_memory_as_stored_def)

lemma load_as_stored: "in_memory_as_stored font_size (load_settings font_size p u)"
  by (simp add: in_memory_as_stored_def load_settings_def Let_def)

lemma step_as_stored:
  assumes "in_memory_as_stored font_size u"
  shows "in_memory_as_stored font_size (settings_step u op)"
proof (cases op)
  case (SetDisableCertificateValidation b)
  with assms show ?thesis
    by (simp add: setDisableCertificateValidation_def) (simp add: in_memory_as_stored_def put_value_def)
qed (use assms in \<open>simp_all add: set_value_def set_checked_def setEmojiFontFamily_def setPresence_def
    setUseOnlineKeyBackup_def setProfile_def split: option.split\<close>)

lemma run_as_stored:
  "in_memory_as_stored font_size u \<Longrightarrow> in_memory_as_stored font_size (run settings_step u ops)"
  by (induction ops arbitrary: u) (simp_all add: step_as_stored)

lemma prefix_of_loaded_profile: "settings_prefix (load_profile (Some p) stored) = settings_prefix p"
  by (simp add: settings_prefix_def load_profile_def)

lemma stored_value_prefix:
  "settings_prefix p = settings_prefix q \<Longrightarrow> stored_value f p s stored = stored_value f q s stored"
proof -
  assume "settings_prefix p = settings_prefix q"
  then have "entry_key p = entry_key q" by (intro ext) (simp add: entry_key_def)
  then show ?thesis by (simp only: stored_value_def)
qed


section \<open>Writing over what was there\<close>

text \<open>A change to another profile stores the account of the old one under the new one: the account
that was stored there is lost.\<close>

theorem new_profile_takes_over_account:
  assumes "q \<noteq> ut_profile u"
  shows "ut_values (load_settings font_size (Some q) (setProfile q u)) s = ut_values u s"
proof -
  have "stored_value font_size (load_profile (Some q) x) s x = stored_value font_size q s x" for x
    by (rule stored_value_prefix) (rule prefix_of_loaded_profile)
  moreover have "stored_value font_size q s (ut_stored (setProfile q u)) = ut_values u s"
    using stored_after_save [of font_size "signal_setting [ProfileChanged q] (u\<lparr>ut_profile := q\<rparr>)" s] assms(1)
    by (simp add: setProfile_def)
  ultimately show ?thesis by (simp add: load_settings_def Let_def)
qed

text \<open>Entries that were cleared are back, account and all, when the next secret is deleted.\<close>

theorem cleared_settings_come_back:
  "stored_value font_size (ut_profile u) s
     (ut_stored (fst (delete_secret_setting key (clear_settings u, ss)))) = ut_values u s"
proof -
  have "stored_value font_size (ut_profile (clear_settings u)) s (ut_stored (save_settings (clear_settings u)))
      = ut_values (clear_settings u) s"
    by (rule stored_after_save)
  then show ?thesis by (simp add: delete_secret_setting_def clear_settings_def)
qed

text \<open>With no stored setting the validation of certificates is off, and turning it on, unlike any
other setter, does not write the settings.\<close>

theorem certificates_are_not_validated_at_first:
  "ut_values (load_settings font_size profile (u\<lparr>ut_stored := fmempty\<rparr>)) S_disableCertificateValidation = VBool True"
  "ut_stored (setDisableCertificateValidation b u) = ut_stored u"
  by (simp_all add: load_settings_def stored_value_def load_table_def Let_def setDisableCertificateValidation_def
      signal_setting_def put_value_def)

end
