(* ===== verification/Client_State.thy ===== *)
theory Client_State
  imports Group_Encryption Timeline_Control User_Settings
begin

text \<open>
  The state of the client object (\<open>src/src/Client.cpp\<close>), its effects, and the events that wait for it.

  The client drives the Olm client with its stores (\<open>olm_state\<close>), the cache of the rooms (\<open>room_cache\<close>),
  the controllers of the rooms and the settings. The database is one; the stores of \<open>olm_state\<close> and the
  cache of the rooms are two views of it, and what both show (the token of the last sync, encrypted
  rooms, members) is written to both. Requests that were sent, timers and queued signals wait in
  \<open>cl_pending\<close> and are delivered in any order, or never.
\<close>

section \<open>Syncs and errors\<close>

text \<open>The parts of a sync response the client hands out: to the cache, to the controllers of the joined
rooms, to the Olm client and to its own counting of one-time keys.\<close>

record sync =
  sn_rooms :: sync_response
  sn_timelines :: "(string, timeline_sync) fmap"
  sn_to_device :: "to_device list"
  sn_key_counts :: "(string, 16 word) fmap"
  sn_unused_fallback :: "string list option"

datatype matrix_error = M_UNKNOWN_TOKEN | M_MISSING_TOKEN | M_UNKNOWN | OtherMatrixError

record http_error =
  he_status :: int
  he_code :: matrix_error
  he_message :: string

text \<open>What may throw while a sync is saved: saving the rooms, or a later step, after a number of the
to-device messages was handled. The database may be full.\<close>

datatype db_failure = SaveFails bool | LaterFails nat bool

section \<open>Pending events\<close>

datatype upload = FirstUpload | StartupUpload | EnsureUpload bool

datatype pending =
    TrySync
  | DelayedSync
  | SyncSent string
  | SyncArrived sync string
  | InitialSyncSent
  | InitialSyncArrived sync
  | KeysSent upload
  | PrepareTimelines
  | FallbackSignal
  | FallbackTimer
  | BackupVersionSent
  | VersionsSent
  | LoginSent
  | LogoutSent

section \<open>Effects\<close>

datatype room_preset = TrustedPrivateChat | OtherPreset

record create_room_request =
  cr_alias :: string
  cr_private :: bool
  cr_preset :: room_preset
  cr_encrypted :: bool
  cr_invite :: "string list"
  cr_is_direct :: bool

datatype client_effect =
    DroppedToLogin string "string list"
  | LoginOk string string string string
  | LoginError string
  | LogoutOk
  | LogoutError string
  | ConnectionLost
  | ConnectionRestored
  | HttpShutdown
  | InitialSyncChanged bool
  | InitialSyncDone
  | NewUpdate
  | NotificationsWanted
  | InitiateFinished
  | UserPresenceChanged string
  | NewNotifications "string list"
  | ShowMessage string
  | UploadKeys string
  | ClaimOwnKey string string
  | GetProfile string
  | QueryDevices string
  | DeleteOldData
  | CreateRoomRequest create_room_request
  | RoomCreated string
  | RoomCreationFailed string
  | JoinedRoom string
  | JoinRoomFailed string
  | LeftRoom string
  | RoomLeaveFailed string
  | UserInvited string string
  | UserInvitationFailed string string string
  | UploadSignatures "(string, device_keys) fmap" "(string, cross_signing_keys) fmap"
  | PassphraseFailed string

section \<open>State and environment\<close>

record ('a, 'c) client =
  cl_olm :: "('a, 'c) olm_state"
  cl_rooms :: room_cache
  cl_timelines :: "(string, room_timeline) fmap"
  cl_settings :: user_settings
  cl_initial_sync :: bool
  cl_connected :: bool
  cl_timer :: bool
  cl_access_token :: string
  cl_fallback_connected :: bool
  cl_sync_counter :: "32 word"
  cl_presences :: "(string, string) fmap"
  cl_pending :: "pending list"
  cl_effects :: "client_effect list"

text \<open>libolm's account and the public key of a private one, the steps of a migration, translation and the
presence of an unknown user, beside the environments of the components.\<close>

record ('i, 'g, 'o, 'a, 'c) client_env =
  ce_olm :: "('i, 'g, 'o, 'a, 'c) olm_env"
  ce_rooms :: "unit room_env"
  ce_timelines :: timeline_env
  ce_load_account :: "string \<Rightarrow> string \<Rightarrow> 'a option"
  ce_generate :: "nat \<Rightarrow> bool \<Rightarrow> 'a \<Rightarrow> 'a"
  ce_published :: "'a \<Rightarrow> 'a"
  ce_forget_fallback :: "'a \<Rightarrow> 'a"
  ce_upload :: "'a \<Rightarrow> string"
  ce_public_key :: "string \<Rightarrow> string"
  ce_migrations :: "(string \<times> (session_store \<Rightarrow> session_store \<times> bool)) list"
  ce_tr :: "string \<Rightarrow> string"
  ce_offline :: string

definition show_effects :: "client_effect list \<Rightarrow> ('a, 'c) client \<Rightarrow> ('a, 'c) client" where
  "show_effects es cl = cl\<lparr>cl_effects := cl_effects cl @ es\<rparr>"

definition wait_for :: "pending list \<Rightarrow> ('a, 'c) client \<Rightarrow> ('a, 'c) client" where
  "wait_for ps cl = cl\<lparr>cl_pending := cl_pending cl @ ps\<rparr>"

definition map_olm :: "(('a, 'c) olm_state \<Rightarrow> ('a, 'c) olm_state) \<Rightarrow> ('a, 'c) client \<Rightarrow> ('a, 'c) client" where
  "map_olm f cl = cl\<lparr>cl_olm := f (cl_olm cl)\<rparr>"

abbreviation cl_store :: "('a, 'c) client \<Rightarrow> session_store" where
  "cl_store cl \<equiv> os_store (cl_olm cl)"

definition map_account :: "('a \<Rightarrow> 'a) \<Rightarrow> ('a, 'c) olm_state \<Rightarrow> ('a, 'c) olm_state" where
  "map_account f st = st\<lparr>os_account := f (os_account st)\<rparr>"

section \<open>One database, two views\<close>

text \<open>What \<open>saveState\<close> writes of what the stores show.\<close>

definition store_state_event :: "string \<Rightarrow> state_event \<Rightarrow> session_store \<Rightarrow> session_store" where
  "store_state_event r e s =
     (case se_content e of
        Member m display_name avatar \<Rightarrow>
          (let members = sub_table r (ss_members s)
           in s\<lparr>ss_members := fmupd r
                (if m = MInvite \<or> m = MJoin
                 then fmupd (se_state_key e)
                        (member_info_to_json (member_entry (se_state_key e) display_name avatar)) members
                 else fmdrop (se_state_key e) members) (ss_members s)\<rparr>)
      | Encryption _ \<Rightarrow> setEncryptedRoom r s
      | Redacted t \<Rightarrow>
          (if t = RoomMember
           then s\<lparr>ss_members := fmupd r (fmdrop (se_state_key e) (sub_table r (ss_members s))) (ss_members s)\<rparr>
           else s)
      | _ \<Rightarrow> s)"

definition store_joined_room :: "string \<times> joined_room \<Rightarrow> session_store \<Rightarrow> session_store" where
  "store_joined_room room s = fold (store_state_event (fst room)) (all_state (snd room)) s"

definition store_left_room :: "string \<Rightarrow> session_store \<Rightarrow> session_store" where
  "store_left_room r s = removeInvite r (removeRoom_txn r s)"

definition store_sync :: "sync_response \<Rightarrow> session_store \<Rightarrow> session_store" where
  "store_sync res s =
     fold store_left_room (sorted_list_of_fset (sy_leave res))
       (fold store_joined_room (sorted_list_of_fmap (sy_join res))
         (setNextBatchToken (sy_next_batch res) s))"

definition save_sync :: "('i, 'g, 'o, 'a, 'c) client_env \<Rightarrow> sync_response \<Rightarrow> ('a, 'c) client \<Rightarrow> ('a, 'c) client" where
  "save_sync en res cl =
     map_olm (map_store (store_sync res)) (cl\<lparr>cl_rooms := room_step (ce_rooms en) (cl_rooms cl) (Sync res)\<rparr>)"

end
