(* ===== verification/Client_Sync.thy ===== *)
theory Client_Sync
  imports Client_State
begin

text \<open>
  Login and logout, the start on a database, the initial sync, the loop of syncs, one-time and fallback
  keys, the connection and the presence of users (\<open>Client.cpp\<close>, \<open>Authentication.cpp\<close>,
  \<open>PresenceEmitter.cpp\<close>).

  A reply to a request or the end of a timer is an operation on what was pending for it. New accounts,
  the outcome of opening the database, failures of the database while a sync is saved, clock readings
  and the events a room shows after a sync are arguments.
\<close>

section \<open>Keys of our account\<close>

definition MAX_ONETIME_KEYS :: nat where
  "MAX_ONETIME_KEYS = 50"

definition SIGNED_CURVE25519 :: string where
  "SIGNED_CURVE25519 = ''signed_curve25519''"

definition publish_keys :: "('i, 'g, 'o, 'a, 'c) client_env \<Rightarrow> ('a, 'c) client \<Rightarrow> ('a, 'c) client" where
  "publish_keys en = map_olm (\<lambda>st. mark_keys_as_published (ce_olm en) (ce_published en (os_account st)) st)"

definition upload_keys :: "('i, 'g, 'o, 'a, 'c) client_env \<Rightarrow> upload \<Rightarrow> ('a, 'c) client \<Rightarrow> ('a, 'c) client" where
  "upload_keys en purpose cl =
     wait_for [KeysSent purpose] (show_effects [UploadKeys (ce_upload en (os_account (cl_olm cl)))] cl)"

definition generate_keys :: "('i, 'g, 'o, 'a, 'c) client_env \<Rightarrow> nat \<Rightarrow> bool \<Rightarrow> ('a, 'c) client \<Rightarrow> ('a, 'c) client" where
  "generate_keys en n fallback = map_olm (map_account (ce_generate en n fallback))"

text \<open>The number to generate is a \<open>size_t\<close>; the counts are 16 bits wide.\<close>

definition ensureOneTimeKeyCount ::
  "('i, 'g, 'o, 'a, 'c) client_env \<Rightarrow> (string, 16 word) fmap \<Rightarrow> string list option
     \<Rightarrow> ('a, 'c) client \<Rightarrow> ('a, 'c) client"
where
  "ensureOneTimeKeyCount en counts unused cl =
     (case fmlookup counts SIGNED_CURVE25519 of
        None \<Rightarrow> cl
      | Some count \<Rightarrow>
          (let replace = (case unused of None \<Rightarrow> False | Some ks \<Rightarrow> SIGNED_CURVE25519 \<notin> set ks)
           in if unat count < MAX_ONETIME_KEYS \<or> replace
              then upload_keys en (EnsureUpload replace)
                     (generate_keys en (if unat count < MAX_ONETIME_KEYS then MAX_ONETIME_KEYS - unat count else 0)
                        replace cl)
              else if unat count > 2 * MAX_ONETIME_KEYS
              then show_effects [ClaimOwnKey (oe_user_id (ce_olm en)) (oe_device_id (ce_olm en))] cl
              else cl))"

definition verifyOneTimeKeyCountAfterStartup ::
  "('i, 'g, 'o, 'a, 'c) client_env \<Rightarrow> ('a, 'c) client \<Rightarrow> ('a, 'c) client"
where
  "verifyOneTimeKeyCountAfterStartup en = upload_keys en StartupUpload"

definition removeOldFallbackKey :: "('i, 'g, 'o, 'a, 'c) client_env \<Rightarrow> ('a, 'c) client \<Rightarrow> ('a, 'c) client" where
  "removeOldFallbackKey en cl = publish_keys en (map_olm (map_account (ce_forget_fallback en)) cl)"

section \<open>Leaving the account\<close>

definition changeInitialSyncStatge :: "bool \<Rightarrow> ('a, 'c) client \<Rightarrow> ('a, 'c) client" where
  "changeInitialSyncStatge b cl =
     (if cl_initial_sync cl \<noteq> b then show_effects [InitialSyncChanged b] (cl\<lparr>cl_initial_sync := b\<rparr>) else cl)"

text \<open>Deleting the data deletes the secrets one by one, each of which saves all settings.\<close>

definition deleteConfigs :: "('a, 'c) client \<Rightarrow> ('a, 'c) client" where
  "deleteConfigs cl =
     (let s = (cl_store cl)\<lparr>ss_settings := (ss_settings (cl_store cl))\<lparr>us_saved := fmempty\<rparr>\<rparr>;
          cl1 = show_effects [HttpShutdown] (cl\<lparr>cl_settings := clear_settings (cl_settings cl)\<rparr>)
      in if ss_ready s
         then map_olm (\<lambda>st. st\<lparr>os_store := deleteData s, os_keys := new_key_store\<rparr>)
                (cl1\<lparr>cl_settings := save_settings (cl_settings cl1), cl_rooms := new_room_cache\<rparr>)
         else map_olm (\<lambda>st. st\<lparr>os_store := s\<rparr>) cl1)"

definition logoutCb :: "('a, 'c) client \<Rightarrow> ('a, 'c) client" where
  "logoutCb cl =
     show_effects [LogoutOk] ((deleteConfigs (changeInitialSyncStatge True cl))\<lparr>cl_timer := False\<rparr>)"

definition dropToLoginCb :: "('a, 'c) client \<Rightarrow> ('a, 'c) client" where
  "dropToLoginCb cl = deleteConfigs (cl\<lparr>cl_timer := False\<rparr>)"

definition drop_to_login :: "string \<Rightarrow> string list \<Rightarrow> ('a, 'c) client \<Rightarrow> ('a, 'c) client" where
  "drop_to_login msg args cl = dropToLoginCb (show_effects [DroppedToLogin msg args] cl)"

section \<open>Login\<close>

definition loginWithPassword :: "string \<Rightarrow> ('a, 'c) client \<Rightarrow> ('a, 'c) client" where
  "loginWithPassword user_id cl =
     (if user_id = [] \<or> hd user_id \<noteq> CHR ''@'' \<or> CHR '':'' \<notin> set user_id
      then show_effects [LoginError ''The UerId format is wrong ''] cl
      else wait_for [LoginSent] cl)"

text \<open>The files of the database of the user are deleted.\<close>

definition delete_db :: "('a, 'c) client \<Rightarrow> ('a, 'c) client" where
  "delete_db cl =
     map_olm (\<lambda>st. st\<lparr>os_keys := new_key_store,
         os_store := new_session_store
           \<lparr>ss_secrets := ss_secrets (os_store st), ss_settings := ss_settings (os_store st),
            ss_pickle_secret := ss_pickle_secret (os_store st), ss_open := False,
            ss_effects := ss_effects (os_store st)\<rparr>\<rparr>)
       (cl\<lparr>cl_rooms := new_room_cache\<rparr>)"

definition loginCb :: "string \<Rightarrow> string \<Rightarrow> string \<Rightarrow> string \<Rightarrow> ('a, 'c) client \<Rightarrow> ('a, 'c) client" where
  "loginCb user device homeserver token cl =
     show_effects [LoginOk user homeserver device token]
       (delete_db (cl\<lparr>cl_settings :=
          set_value S_homeserver (VString homeserver)
            (set_value S_deviceId (VString device)
              (set_value S_accessToken (VString token)
                (set_value S_userId (VString user) (cl_settings cl))))\<rparr>))"

section \<open>The initial sync\<close>

definition startInitialSync :: "('a, 'c) client \<Rightarrow> ('a, 'c) client" where
  "startInitialSync cl = wait_for [InitialSyncSent] cl"

definition tryInitialSync :: "('i, 'g, 'o, 'a, 'c) client_env \<Rightarrow> ('a, 'c) client \<Rightarrow> ('a, 'c) client" where
  "tryInitialSync en cl = upload_keys en FirstUpload (generate_keys en MAX_ONETIME_KEYS False cl)"

definition own_keys_out_of_date :: "('i, 'g, 'o, 'a, 'c) client_env \<Rightarrow> ('a, 'c) client \<Rightarrow> ('a, 'c) client" where
  "own_keys_out_of_date en =
     map_olm (\<lambda>st. st\<lparr>os_keys := markUserKeysOutOfDate
       (case nextBatchToken (os_store st) of Some t \<Rightarrow> t | None \<Rightarrow> []) [oe_user_id (ce_olm en)] (os_keys st)\<rparr>)"

definition first_upload_reply ::
  "('i, 'g, 'o, 'a, 'c) client_env \<Rightarrow> http_error option \<Rightarrow> ('a, 'c) client \<Rightarrow> ('a, 'c) client"
where
  "first_upload_reply en err cl =
     (case err of
        Some e \<Rightarrow>
          (if he_status e = 404 then startInitialSync cl
           else drop_to_login (ce_tr en
                  ''Failed to setup encryption keys. Server response: %1 %2. Please try again later.'')
                  [he_message e] cl)
      | None \<Rightarrow> startInitialSync (own_keys_out_of_date en (publish_keys en cl)))"

definition initial_sync_reply ::
  "('i, 'g, 'o, 'a, 'c) client_env \<Rightarrow> http_error + sync \<Rightarrow> ('a, 'c) client \<Rightarrow> ('a, 'c) client"
where
  "initial_sync_reply en reply cl =
     (case reply of
        Inl e \<Rightarrow>
          (if he_status e \<le> 0 \<or> he_status e \<ge> 600 \<or> he_status e \<in> {502, 504, 524}
           then startInitialSync cl
           else drop_to_login (ce_tr en ''Please try to login again: %1'') [he_message e] cl)
      | Inr res \<Rightarrow> wait_for [InitialSyncArrived res] cl)"

definition presence_sync :: "(string \<times> string) list \<Rightarrow> ('a, 'c) client \<Rightarrow> ('a, 'c) client" where
  "presence_sync updates cl =
     fold (\<lambda>(user, _) cl. show_effects [UserPresenceChanged user]
             (cl\<lparr>cl_presences := fmdrop user (cl_presences cl)\<rparr>)) updates cl"

text \<open>\<open>UserProfile\<close> of ourselves asks for our profile and devices.\<close>

definition own_profile :: "('i, 'g, 'o, 'a, 'c) client_env \<Rightarrow> ('a, 'c) client \<Rightarrow> ('a, 'c) client" where
  "own_profile en = show_effects [GetProfile (oe_user_id (ce_olm en)), QueryDevices (oe_user_id (ce_olm en))]"

definition initial_sync_arrived ::
  "('i, 'g, 'o, 'a, 'c) client_env \<Rightarrow> db_failure option \<Rightarrow> int \<Rightarrow> u64 \<Rightarrow> sync \<Rightarrow> ('a, 'c) client \<Rightarrow> ('a, 'c) client"
where
  "initial_sync_arrived en fail now ms res cl =
     (case fail of
        Some (SaveFails _) \<Rightarrow> startInitialSync cl
      | Some (LaterFails n _) \<Rightarrow>
          startInitialSync
            (map_olm (handle_to_device_messages (ce_olm en) now ms (take n (sn_to_device res)))
              (save_sync en (sn_rooms res) cl))
      | None \<Rightarrow>
          own_profile en (wait_for [TrySync, PrepareTimelines] (presence_sync (sy_presence (sn_rooms res))
            (show_effects [InitialSyncDone] (changeInitialSyncStatge False
              ((map_olm (handle_to_device_messages (ce_olm en) now ms (sn_to_device res))
                 (save_sync en (sn_rooms res) cl))
               \<lparr>cl_rooms := read_status (en_unread (ce_rooms en))
                  (room_step (ce_rooms en) (cl_rooms cl) (Sync (sn_rooms res)))\<rparr>))))))"

section \<open>Starting on a database\<close>

definition uses_backup :: "('a, 'c) client \<Rightarrow> bool" where
  "uses_backup cl \<longleftrightarrow> ut_values (cl_settings cl) S_useOnlineKeyBackup = VBool True"

definition getBackupVersion :: "('a, 'c) client \<Rightarrow> ('a, 'c) client" where
  "getBackupVersion cl = (if uses_backup cl then wait_for [BackupVersionSent] cl else cl)"

definition loadStateFromCache :: "('i, 'g, 'o, 'a, 'c) client_env \<Rightarrow> ('a, 'c) client \<Rightarrow> ('a, 'c) client" where
  "loadStateFromCache en cl =
     (let (s, k) = pickleSecret (oe_random_token (ce_olm en)) (cl_store cl);
          cl1 = map_olm (\<lambda>st. st\<lparr>os_store := s\<rparr>) cl
      in case ce_load_account en k (restoreOlmAccount s) of
           None \<Rightarrow> drop_to_login ''Failed to restore OLM account. Please login again.'' [] cl1
         | Some account \<Rightarrow>
             own_profile en (wait_for [TrySync, PrepareTimelines]
               ((verifyOneTimeKeyCountAfterStartup en (getBackupVersion
                 (show_effects [GetProfile (oe_user_id (ce_olm en))]
                   ((map_olm (map_account (\<lambda>_. account)) cl1)
                    \<lparr>cl_rooms := read_status (en_unread (ce_rooms en)) (cl_rooms cl)\<rparr>))))
                \<lparr>cl_fallback_connected := True\<rparr>)))"

text \<open>A fresh account is an argument, \<open>None\<close> when it cannot be created or stored.\<close>

definition first_start ::
  "('i, 'g, 'o, 'a, 'c) client_env \<Rightarrow> 'a option \<Rightarrow> ('a, 'c) client \<Rightarrow> ('a, 'c) client"
where
  "first_start en account cl =
     (let cl1 = map_olm (map_store setCurrentFormat) cl
      in case account of
           None \<Rightarrow> drop_to_login ''failed to create new olm account'' [] cl1
         | Some a \<Rightarrow>
             tryInitialSync en (getBackupVersion (show_effects [GetProfile (oe_user_id (ce_olm en))]
               (map_olm (\<lambda>st. save_account (ce_olm en) (st\<lparr>os_account := a\<rparr>)) cl1))))"

definition bootstrap ::
  "('i, 'g, 'o, 'a, 'c) client_env \<Rightarrow> 'a option \<Rightarrow> bool \<Rightarrow> string \<Rightarrow> ('a, 'c) client \<Rightarrow> ('a, 'c) client"
where
  "bootstrap en account opens token cl =
     (let cl1 = cl\<lparr>cl_access_token := token\<rparr>
      in if \<not> opens then drop_to_login ''Failed to open database, logging out!'' [] cl1
         else
           let cl2 = map_olm (map_store restart) cl1
           in if \<not> isInitialized (cl_store cl2) then first_start en account cl2
              else case formatVersion (cl_store cl2) of
                     Current \<Rightarrow> loadStateFromCache en cl2
                   | Older \<Rightarrow>
                       (let (s, ok) = runMigrations (ce_migrations en) (cl_store cl2);
                            cl3 = map_olm (\<lambda>st. st\<lparr>os_store := s\<rparr>) cl2
                        in loadStateFromCache en
                             (if ok then cl3 else
                                show_effects [ShowMessage
                                  (ce_tr en ''Migrating the cache to the current version failed.'')] cl3))
                   | Newer \<Rightarrow> show_effects [ShowMessage
                       (ce_tr en ''The cache on your disk is newer than this version of Nheko supports.'')] cl2)"

text \<open>\<open>start\<close> without a user takes the account of the settings.\<close>

definition start_client ::
  "('i, 'g, 'o, 'a, 'c) client_env \<Rightarrow> 'a option \<Rightarrow> bool \<Rightarrow> string \<Rightarrow> string \<Rightarrow> ('a, 'c) client \<Rightarrow> ('a, 'c) client"
where
  "start_client en account opens user_id token cl =
     (if user_id \<noteq> [] then bootstrap en account opens token cl
      else case ut_values (cl_settings cl) S_accessToken of
             VString stored \<Rightarrow>
               (if stored \<noteq> [] then bootstrap en account opens stored cl
                else drop_to_login ''Need to loging in!'' [] cl)
           | _ \<Rightarrow> drop_to_login ''Need to loging in!'' [] cl)"

section \<open>Controllers of rooms\<close>

definition addTimeline :: "('i, 'g, 'o, 'a, 'c) client_env \<Rightarrow> string \<Rightarrow> ('a, 'c) client \<Rightarrow> ('a, 'c) client" where
  "addTimeline en r cl =
     (if r |\<in>| fmdom (cl_timelines cl) then cl
      else cl\<lparr>cl_timelines := fmupd r (new_timeline_for (ce_timelines en) r (cl_rooms cl)) (cl_timelines cl)\<rparr>)"

definition removeTimeline :: "string \<Rightarrow> ('a, 'c) client \<Rightarrow> ('a, 'c) client" where
  "removeTimeline r cl = cl\<lparr>cl_timelines := fmdrop r (cl_timelines cl)\<rparr>"

definition syncTimeline ::
  "('i, 'g, 'o, 'a, 'c) client_env \<Rightarrow> (string \<Rightarrow> room_event option list) \<Rightarrow> string \<Rightarrow> timeline_sync
     \<Rightarrow> ('a, 'c) client \<Rightarrow> ('a, 'c) client"
where
  "syncTimeline en shown r room cl =
     (case fmlookup (cl_timelines cl) r of
        None \<Rightarrow> cl
      | Some st \<Rightarrow>
          (let (c, st') = sync_timeline (ce_timelines en) (shown r) room (cl_rooms cl, st)
           in cl\<lparr>cl_rooms := c, cl_timelines := fmupd r st' (cl_timelines cl)\<rparr>))"

definition syncTimelines ::
  "('i, 'g, 'o, 'a, 'c) client_env \<Rightarrow> (string \<Rightarrow> room_event option list) \<Rightarrow> sync \<Rightarrow> ('a, 'c) client \<Rightarrow> ('a, 'c) client"
where
  "syncTimelines en shown res cl =
     fold removeTimeline (sorted_list_of_fset (sy_leave (sn_rooms res)))
       (fold (addTimeline en) (sorted_list_of_fset (fmdom (sy_invite (sn_rooms res))))
         (fold (\<lambda>(r, room) cl. syncTimeline en shown r room (addTimeline en r cl))
           (sorted_list_of_fmap (sn_timelines res)) cl))"

definition prepareTimelinesCB :: "('i, 'g, 'o, 'a, 'c) client_env \<Rightarrow> ('a, 'c) client \<Rightarrow> ('a, 'c) client" where
  "prepareTimelinesCB en cl =
     show_effects [InitiateFinished]
       (fold (addTimeline en) (sorted_list_of_fset (fmdom (getRoomInfo (joinedRooms (cl_rooms cl)) (cl_rooms cl)))) cl)"

section \<open>The loop of syncs\<close>

definition trySync :: "('a, 'c) client \<Rightarrow> ('a, 'c) client" where
  "trySync cl =
     (let cl1 = cl\<lparr>cl_timer := True\<rparr>
      in case nextBatchToken (cl_store cl1) of
           None \<Rightarrow> cl1
         | Some since \<Rightarrow> wait_for [SyncSent since] cl1)"

definition sync_reply ::
  "('i, 'g, 'o, 'a, 'c) client_env \<Rightarrow> string \<Rightarrow> http_error + sync \<Rightarrow> ('a, 'c) client \<Rightarrow> ('a, 'c) client"
where
  "sync_reply en since reply cl =
     (case reply of
        Inl e \<Rightarrow>
          (if cl_access_token cl \<noteq> [] \<and> he_code e \<in> {M_UNKNOWN_TOKEN, M_MISSING_TOKEN}
              \<or> cl_access_token cl = []
           then drop_to_login (ce_tr en ''Please try to login again: %1'') [he_message e] cl
           else wait_for [DelayedSync] cl)
      | Inr res \<Rightarrow>
          wait_for (SyncArrived res since # (if cl_fallback_connected cl then [FallbackSignal] else [])) cl)"

text \<open>Our own handler of \<open>newUpdate\<close>: the sum is an \<open>unsigned int\<close>.\<close>

definition notification_count :: "sync_response \<Rightarrow> 32 word" where
  "notification_count res =
     sum_list (map (\<lambda>(r, jr). ucast (jr_notification_count jr)) (sorted_list_of_fmap (sy_join res)))"

definition update_rooms ::
  "('i, 'g, 'o, 'a, 'c) client_env \<Rightarrow> (string \<Rightarrow> room_event option list) \<Rightarrow> sync \<Rightarrow> ('a, 'c) client \<Rightarrow> ('a, 'c) client"
where
  "update_rooms en shown res cl =
     (if sy_join (sn_rooms res) \<noteq> fmempty \<or> sy_invite (sn_rooms res) \<noteq> fmempty \<or> sy_leave (sn_rooms res) \<noteq> {||}
      then show_effects (NewUpdate # (if notification_count (sn_rooms res) \<noteq> 0 then [NotificationsWanted] else []))
             (syncTimelines en shown res cl)
      else cl)"

definition count_sync :: "('a, 'c) client \<Rightarrow> ('a, 'c) client" where
  "count_sync cl =
     (if sint (cl_sync_counter cl) \<ge> 500
      then show_effects [DeleteOldData] (cl\<lparr>cl_sync_counter := 0\<rparr>)
      else cl\<lparr>cl_sync_counter := cl_sync_counter cl + 1\<rparr>)"

definition apply_sync ::
  "('i, 'g, 'o, 'a, 'c) client_env \<Rightarrow> db_failure option \<Rightarrow> int \<Rightarrow> u64 \<Rightarrow> (string \<Rightarrow> room_event option list)
     \<Rightarrow> sync \<Rightarrow> ('a, 'c) client \<Rightarrow> ('a, 'c) client"
where
  "apply_sync en fail now ms shown res cl =
     (case fail of
        Some (SaveFails full) \<Rightarrow> (if full then show_effects [DeleteOldData] cl else cl)
      | Some (LaterFails n full) \<Rightarrow>
          show_effects (if full then [DeleteOldData] else [])
            (map_olm (handle_to_device_messages (ce_olm en) now ms (take n (sn_to_device res)))
              (save_sync en (sn_rooms res) cl))
      | None \<Rightarrow>
          count_sync (presence_sync (sy_presence (sn_rooms res)) (update_rooms en shown res
            (changeInitialSyncStatge False
              (map_olm (handle_to_device_messages (ce_olm en) now ms (sn_to_device res))
                (save_sync en (sn_rooms res) cl))))))"

definition handleSyncResponse ::
  "('i, 'g, 'o, 'a, 'c) client_env \<Rightarrow> db_failure option \<Rightarrow> int \<Rightarrow> u64 \<Rightarrow> (string \<Rightarrow> room_event option list)
     \<Rightarrow> sync \<Rightarrow> string \<Rightarrow> ('a, 'c) client \<Rightarrow> ('a, 'c) client"
where
  "handleSyncResponse en fail now ms shown res prev cl =
     (if nextBatchToken (cl_store cl) \<noteq> Some prev then cl
      else wait_for [TrySync] (apply_sync en fail now ms shown res
             (ensureOneTimeKeyCount en (sn_key_counts res) (sn_unused_fallback res) cl)))"

section \<open>Replies to uploads\<close>

text \<open>\<open>Inr\<close> is the counts of the reply; an error leaves them empty.\<close>

definition client_error :: "http_error \<Rightarrow> bool" where
  "client_error e \<longleftrightarrow> 400 \<le> he_status e \<and> he_status e < 500"

definition startup_upload_reply ::
  "('i, 'g, 'o, 'a, 'c) client_env \<Rightarrow> http_error + (string, 16 word) fmap \<Rightarrow> ('a, 'c) client \<Rightarrow> ('a, 'c) client"
where
  "startup_upload_reply en reply cl =
     (case reply of
        Inl e \<Rightarrow>
          (if \<not> client_error e then cl
           else ensureOneTimeKeyCount en (fmap_of_list [(SIGNED_CURVE25519, 0)]) None cl)
      | Inr counts \<Rightarrow>
          ensureOneTimeKeyCount en (fmap_of_list [(SIGNED_CURVE25519,
            (case fmlookup counts SIGNED_CURVE25519 of Some c \<Rightarrow> c | None \<Rightarrow> 0))]) None cl)"

definition ensure_upload_reply ::
  "('i, 'g, 'o, 'a, 'c) client_env \<Rightarrow> bool \<Rightarrow> http_error option \<Rightarrow> ('a, 'c) client \<Rightarrow> ('a, 'c) client"
where
  "ensure_upload_reply en replace err cl =
     (case err of
        Some e \<Rightarrow>
          (if \<not> client_error e then cl
           else wait_for (if replace then [FallbackSignal] else []) (publish_keys en cl))
      | None \<Rightarrow> wait_for (if replace then [FallbackSignal] else []) (publish_keys en cl))"

section \<open>Connection and presence\<close>

definition connectivity_timeout :: "('a, 'c) client \<Rightarrow> ('a, 'c) client" where
  "connectivity_timeout cl =
     (if cl_access_token cl = [] then cl\<lparr>cl_timer := False\<rparr> else wait_for [VersionsSent] cl)"

definition versions_reply :: "http_error option \<Rightarrow> ('a, 'c) client \<Rightarrow> ('a, 'c) client" where
  "versions_reply err cl =
     (case err of
        Some e \<Rightarrow> show_effects [ConnectionLost, HttpShutdown] (cl\<lparr>cl_connected := False\<rparr>)
      | None \<Rightarrow>
          (if cl_connected cl then cl
           else trySync (show_effects [ConnectionRestored, HttpShutdown] (cl\<lparr>cl_connected := True\<rparr>))))"

definition pullPresence :: "('i, 'g, 'o, 'a, 'c) client_env \<Rightarrow> string \<Rightarrow> ('a, 'c) client \<Rightarrow> ('a, 'c) client" where
  "pullPresence en user cl =
     cl\<lparr>cl_presences := fmupd user (presence (ce_offline en) user (cl_rooms cl)) (cl_presences cl)\<rparr>"

definition userPresence ::
  "('i, 'g, 'o, 'a, 'c) client_env \<Rightarrow> string \<Rightarrow> ('a, 'c) client \<Rightarrow> ('a, 'c) client \<times> string"
where
  "userPresence en user cl =
     (if user = [] then (cl, [])
      else case fmlookup (cl_presences cl) user of
             Some p \<Rightarrow> (cl, p)
           | None \<Rightarrow> (pullPresence en user cl, presence (ce_offline en) user (cl_rooms cl)))"

end
