(* ===== verification/Client_Rooms.thy ===== *)
theory Client_Rooms
  imports Client_Sync
begin

text \<open>
  What the client does with rooms, users and notifications, the version of the online backup, and the
  secrets the user unlocks with a recovery key (\<open>Client.cpp\<close>).
\<close>

section \<open>Rooms\<close>

definition removeRoomCb :: "string \<Rightarrow> ('a, 'c) client \<Rightarrow> ('a, 'c) client" where
  "removeRoomCb r cl =
     map_olm (map_store (\<lambda>s. removeInvite r (removeRoom r s)))
       (cl\<lparr>cl_rooms := remove_invite r ((cl_rooms cl)\<lparr>rc_rooms := fmdrop r (rc_rooms (cl_rooms cl))\<rparr>)\<rparr>)"

definition leave_reply :: "string \<Rightarrow> http_error option \<Rightarrow> ('a, 'c) client \<Rightarrow> ('a, 'c) client" where
  "leave_reply r err cl =
     (case err of
        Some e \<Rightarrow>
          (let cl1 = show_effects [RoomLeaveFailed (he_message e)] cl
           in if he_status e = 404 \<and> he_code e = M_UNKNOWN then removeRoomCb r cl1 else cl1)
      | None \<Rightarrow> removeRoomCb r (show_effects [LeftRoom r] cl))"

text \<open>The invite is removed under the name the room was joined by.\<close>

definition join_reply :: "string \<Rightarrow> http_error + string \<Rightarrow> ('a, 'c) client \<Rightarrow> ('a, 'c) client" where
  "join_reply r reply cl =
     (case reply of
        Inl e \<Rightarrow> show_effects [JoinRoomFailed (he_message e)] cl
      | Inr room_id \<Rightarrow>
          map_olm (map_store (removeInvite r))
            (show_effects [JoinedRoom room_id] (cl\<lparr>cl_rooms := remove_invite r (cl_rooms cl)\<rparr>)))"

definition createRoom ::
  "('i, 'g, 'o, 'a, 'c) client_env \<Rightarrow> create_room_request \<Rightarrow> ('a, 'c) client \<Rightarrow> ('a, 'c) client"
where
  "createRoom en req cl =
     (if CHR '':'' \<in> set (cr_alias req) \<or> CHR ''#'' \<in> set (cr_alias req)
      then show_effects [ShowMessage (ce_tr en ''Room creation failed: Bad Alias'')] cl
      else show_effects [CreateRoomRequest req] cl)"

definition create_reply :: "http_error + string \<Rightarrow> ('a, 'c) client \<Rightarrow> ('a, 'c) client" where
  "create_reply reply cl =
     show_effects [case reply of Inl e \<Rightarrow> RoomCreationFailed (he_message e) | Inr r \<Rightarrow> RoomCreated r] cl"

definition invite_reply :: "string \<Rightarrow> string \<Rightarrow> http_error option \<Rightarrow> ('a, 'c) client \<Rightarrow> ('a, 'c) client" where
  "invite_reply r user err cl =
     show_effects [case err of Some e \<Rightarrow> UserInvitationFailed user r (he_message e)
                             | None \<Rightarrow> UserInvited r user] cl"

text \<open>\<open>operator[]\<close> of the infos gives an empty info for a room without one.\<close>

definition is_chat_with :: "string \<Rightarrow> room_cache \<Rightarrow> string \<Rightarrow> bool" where
  "is_chat_with user c r \<longleftrightarrow>
     (case fmlookup (getRoomInfo (joinedRooms c) c) r of
        None \<Rightarrow> False
      | Some i \<Rightarrow> ri_member_count i = 2 \<and> \<not> ri_is_space i)
     \<and> user \<in> set (member_ids r c)"

definition has_devices :: "string \<Rightarrow> key_store \<Rightarrow> bool" where
  "has_devices user ks \<longleftrightarrow>
     (case fmlookup (ks_user_keys ks) user of None \<Rightarrow> False | Some k \<Rightarrow> uk_device_keys k \<noteq> fmempty)"

definition chat_request :: "string \<Rightarrow> string \<Rightarrow> bool \<Rightarrow> create_room_request" where
  "chat_request me user encrypted =
     \<lparr>cr_alias = [], cr_private = True, cr_preset = TrustedPrivateChat, cr_encrypted = encrypted,
      cr_invite = (if me \<noteq> user then [user] else []), cr_is_direct = (me \<noteq> user)\<rparr>"

definition startChat ::
  "('i, 'g, 'o, 'a, 'c) client_env \<Rightarrow> string \<Rightarrow> bool \<Rightarrow> ('a, 'c) client \<Rightarrow> ('a, 'c) client"
where
  "startChat en user encryptionEnabled cl =
     (case find (is_chat_with user (cl_rooms cl)) (joinedRooms (cl_rooms cl)) of
        Some r \<Rightarrow> show_effects [RoomCreated r] cl
      | None \<Rightarrow>
          createRoom en (chat_request (oe_user_id (ce_olm en)) user
            (encryptionEnabled \<or> has_devices user (os_keys (cl_olm cl)))) cl)"

section \<open>Users\<close>

fun begins :: "string \<Rightarrow> string \<Rightarrow> bool" where
  "begins [] ys = True"
| "begins (x # xs) [] = False"
| "begins (x # xs) (y # ys) = (x = y \<and> begins xs ys)"

fun contains :: "string \<Rightarrow> string \<Rightarrow> bool" where
  "contains p [] = (p = [])"
| "contains p (y # ys) = (begins p (y # ys) \<or> contains p ys)"

record known_user =
  ku_user_id :: string
  ku_display_name :: string
  ku_avatar_url :: string

definition known_members :: "string \<Rightarrow> string \<Rightarrow> room_cache \<Rightarrow> string \<Rightarrow> known_user list" where
  "known_members me f c r =
     map (\<lambda>m. \<lparr>ku_user_id = rm_user_id m, ku_display_name = rm_display_name m,
                ku_avatar_url = avatarUrl r (rm_user_id m) c\<rparr>)
       (filter (\<lambda>m. rm_user_id m \<noteq> me \<and> (contains f (rm_user_id m) \<or> contains f (rm_display_name m)))
         (getMembers r 0 30 c))"

definition add_known :: "known_user \<Rightarrow> known_user list \<Rightarrow> known_user list" where
  "add_known u us = (if \<exists>k \<in> set us. ku_user_id k = ku_user_id u then us else us @ [u])"

definition knownUsers ::
  "('i, 'g, 'o, 'a, 'c) client_env \<Rightarrow> string \<Rightarrow> ('a, 'c) client \<Rightarrow> known_user list"
where
  "knownUsers en f cl =
     fold (\<lambda>r. fold add_known (known_members (oe_user_id (ce_olm en)) f (cl_rooms cl) r))
       (sorted_list_of_fset (fmdom (cl_timelines cl))) []"

text \<open>mtxclient's reading of a user id is an argument.\<close>

fun split_at :: "char \<Rightarrow> string \<Rightarrow> string list" where
  "split_at c [] = [[]]"
| "split_at c (x # xs) =
     (if x = c then [] # split_at c xs
      else case split_at c xs of [] \<Rightarrow> [[x]] | w # ws \<Rightarrow> (x # w) # ws)"

definition extractHostName :: "(string \<Rightarrow> string option) \<Rightarrow> string \<Rightarrow> string" where
  "extractHostName host_of user =
     (if user = [] then []
      else if hd user = CHR ''@'' then (case host_of user of Some h \<Rightarrow> h | None \<Rightarrow> [])
      else case split_at CHR ''@'' user of (_ # h # _) \<Rightarrow> h | _ \<Rightarrow> [])"

section \<open>Notifications\<close>

record notification_item =
  ni_event_id :: string
  ni_read :: bool

definition notify_item ::
  "notification_item \<Rightarrow> room_cache \<times> string list \<Rightarrow> room_cache \<times> string list"
where
  "notify_item n acc =
     (let (c, shown) = acc
      in if ni_read n then (removeReadNotification (ni_event_id n) c, shown)
         else if ni_event_id n |\<in>| rc_notifications c then (c, shown)
         else (markSentNotification (ni_event_id n) c, shown @ [ni_event_id n]))"

definition sendNotifications :: "notification_item list \<Rightarrow> ('a, 'c) client \<Rightarrow> ('a, 'c) client" where
  "sendNotifications items cl =
     (let (c, shown) = fold notify_item items (cl_rooms cl, [])
      in show_effects (if shown \<noteq> [] then [NewNotifications shown] else []) (cl\<lparr>cl_rooms := c\<rparr>))"

section \<open>The online backup\<close>

record backup_version =
  bv_algorithm :: string
  bv_version :: string
  bv_public_key :: string

text \<open>The public key of a private one is an argument.\<close>

definition backup_version_reply ::
  "(string \<Rightarrow> string) \<Rightarrow> http_error + backup_version \<Rightarrow> session_store \<Rightarrow> session_store"
where
  "backup_version_reply public_of reply s =
     (case reply of
        Inl e \<Rightarrow> (if he_status e = 404 then deleteBackupVersion s else s)
      | Inr v \<Rightarrow>
          (if bv_algorithm v = ''m.megolm_backup.v1.curve25519-aes-sha2'' then
             (case secret ''m.megolm_backup.v1'' False s of
                None \<Rightarrow> deleteBackupVersion s
              | Some key \<Rightarrow>
                  (if bv_public_key v \<noteq> public_of key then deleteBackupVersion s
                   else saveBackupVersion \<lparr>ob_version = bv_version v, ob_algorithm = bv_algorithm v\<rparr> s))
           else deleteBackupVersion s))"

section \<open>Secrets from the server\<close>

text \<open>The library's handling of recovery keys and signatures. No key comes out where it throws.\<close>

record secrets_lib =
  sl_from_recovery_key :: "string \<Rightarrow> string option"
  sl_from_passphrase :: "string \<Rightarrow> string option"
  sl_has_passphrase :: bool
  sl_decrypt :: "string \<Rightarrow> string \<Rightarrow> string \<Rightarrow> string"
  sl_public_key :: "string \<Rightarrow> string"
  sl_pk_sign :: "string \<Rightarrow> string \<Rightarrow> string"
  sl_olm_sign :: "string \<Rightarrow> string"
  sl_dump_device :: "device_keys \<Rightarrow> string"
  sl_dump_cross :: "cross_signing_keys \<Rightarrow> string"

definition is_own_device :: "('i, 'g, 'o, 'a, 'c) olm_env \<Rightarrow> device_keys \<Rightarrow> bool" where
  "is_own_device env k \<longleftrightarrow>
     dk_user_id k = oe_user_id env \<and> dk_device_id k = oe_device_id env \<and>
     fmlookup (dk_keys k) (''ed25519:'' @ oe_device_id env) = Some (oe_ed25519 env) \<and>
     fmlookup (dk_keys k) (''curve25519:'' @ oe_device_id env) = Some (oe_curve25519 env)"

definition sign_own_device ::
  "('i, 'g, 'o, 'a, 'c) olm_env \<Rightarrow> secrets_lib \<Rightarrow> string \<Rightarrow> device_keys \<Rightarrow> device_keys"
where
  "sign_own_device env lib seed k =
     k\<lparr>dk_signatures := put2 (oe_user_id env) (''ed25519:'' @ sl_public_key lib seed)
        (sl_pk_sign lib seed (sl_dump_device lib (k\<lparr>dk_signatures := fmempty\<rparr>))) (dk_signatures k)\<rparr>"

definition sign_master_key ::
  "('i, 'g, 'o, 'a, 'c) olm_env \<Rightarrow> secrets_lib \<Rightarrow> cross_signing_keys \<Rightarrow> cross_signing_keys"
where
  "sign_master_key env lib k =
     (let bare = k\<lparr>csk_signatures := fmempty\<rparr>
      in bare\<lparr>csk_signatures := put2 (oe_user_id env) (''ed25519:'' @ oe_device_id env)
           (sl_olm_sign lib (sl_dump_cross lib bare)) fmempty\<rparr>)"

type_synonym signature_request = "(string, device_keys) fmap \<times> (string, cross_signing_keys) fmap"

definition sign_with_secret ::
  "('i, 'g, 'o, 'a, 'c) olm_env \<Rightarrow> secrets_lib \<Rightarrow> user_key_cache option \<Rightarrow> string \<Rightarrow> string
     \<Rightarrow> signature_request \<Rightarrow> signature_request"
where
  "sign_with_secret env lib keys name seed req =
     (case keys of
        None \<Rightarrow> req
      | Some ks \<Rightarrow>
          (if name = ''m.cross_signing.self_signing'' then
             (case fmlookup (uk_device_keys ks) (oe_device_id env) of
                Some k \<Rightarrow>
                  (if is_own_device env k
                   then (fmupd (oe_device_id env) (sign_own_device env lib seed k) (fst req), snd req)
                   else req)
              | None \<Rightarrow> req)
           else if name = ''m.cross_signing.master'' then
             (let mk = uk_master_keys ks; pub = sl_public_key lib seed
              in if csk_user_id mk = oe_user_id env
                    \<and> (case fmlookup (csk_keys mk) (''ed25519:'' @ pub) of None \<Rightarrow> [] | Some k \<Rightarrow> k) = pub
                 then (fst req, fmupd pub (sign_master_key env lib mk) (snd req)) else req)
           else req))"

definition store_downloaded ::
  "('i, 'g, 'o, 'a, 'c) olm_env \<Rightarrow> secrets_lib \<Rightarrow> user_key_cache option \<Rightarrow> string \<Rightarrow> string \<times> string
     \<Rightarrow> session_store \<times> signature_request \<Rightarrow> session_store \<times> signature_request"
where
  "store_downloaded env lib keys key entry acc =
     (let decrypted = sl_decrypt lib (snd entry) key (fst entry)
      in if decrypted = [] then acc
         else (storeSecret (fst entry) decrypted False (fst acc),
               sign_with_secret env lib keys (fst entry) decrypted (snd acc)))"

definition decryptDownloadedSecrets ::
  "('i, 'g, 'o, 'a, 'c) client_env \<Rightarrow> secrets_lib \<Rightarrow> string \<Rightarrow> (string, string) fmap
     \<Rightarrow> ('a, 'c) client \<Rightarrow> ('a, 'c) client"
where
  "decryptDownloadedSecrets en lib recoveryKey secrets cl =
     (if recoveryKey = [] then cl
      else case (case sl_from_recovery_key lib recoveryKey of
                   Some k \<Rightarrow> Some k
                 | None \<Rightarrow> if sl_has_passphrase lib then sl_from_passphrase lib recoveryKey else None) of
             None \<Rightarrow> show_effects [PassphraseFailed
               ''Failed to decrypt secrets with the provided recovery key or passphrase''] cl
           | Some key \<Rightarrow>
               (let keys = fmlookup (ks_user_keys (os_keys (cl_olm cl))) (oe_user_id (ce_olm en));
                    (s, req) = fold (store_downloaded (ce_olm en) lib keys key) (sorted_list_of_fmap secrets)
                                 (cl_store cl, fmempty, fmempty)
                in show_effects (if req = (fmempty, fmempty) then [] else [UploadSignatures (fst req) (snd req)])
                     (map_olm (\<lambda>st. st\<lparr>os_store := s\<rparr>) cl)))"

section \<open>Steps\<close>

text \<open>What is delivered to a pending event, and what the user or another component does.\<close>

datatype reply =
    Elapsed
  | Failed http_error
  | SyncReply sync
  | KeyCounts "(string, 16 word) fmap"
  | BackupReply backup_version
  | LoginReply string string string string

datatype 'a client_op =
    Start "'a option" bool string string
  | Deliver nat reply "db_failure option" int u64 "string \<Rightarrow> room_event option list"
  | LeaveReply string "http_error option"
  | JoinReply string "http_error + string"
  | CreateRoom create_room_request
  | CreateReply "http_error + string"
  | InviteReply string string "http_error option"
  | StartChat string bool
  | Notifications "notification_item list"
  | DownloadedSecrets secrets_lib string "(string, string) fmap"
  | LoginWithPassword string
  | Logout
  | ConnectivityTimeout
  | UserPresence string
  | SettingsOp settings_op

text \<open>The replies there are to a pending event; no other is delivered.\<close>

fun fits :: "pending \<Rightarrow> reply \<Rightarrow> bool" where
  "fits (SyncSent since) (Failed e) = True"
| "fits (SyncSent since) (SyncReply res) = True"
| "fits (SyncSent since) _ = False"
| "fits InitialSyncSent (Failed e) = True"
| "fits InitialSyncSent (SyncReply res) = True"
| "fits InitialSyncSent _ = False"
| "fits (KeysSent u) (Failed e) = True"
| "fits (KeysSent u) (KeyCounts c) = True"
| "fits (KeysSent u) _ = False"
| "fits BackupVersionSent (Failed e) = True"
| "fits BackupVersionSent (BackupReply v) = True"
| "fits BackupVersionSent _ = False"
| "fits LoginSent (Failed e) = True"
| "fits LoginSent (LoginReply u d h t) = True"
| "fits LoginSent _ = False"
| "fits VersionsSent r = (r = Elapsed \<or> (\<exists>e. r = Failed e))"
| "fits LogoutSent r = (r = Elapsed \<or> (\<exists>e. r = Failed e))"
| "fits _ r = (r = Elapsed)"

definition reply_result :: "reply \<Rightarrow> http_error + sync" where
  "reply_result r = (case r of SyncReply res \<Rightarrow> Inr res | Failed e \<Rightarrow> Inl e | _ \<Rightarrow> Inl \<lparr>he_status = 0, he_code = OtherMatrixError, he_message = []\<rparr>)"

definition reply_error :: "reply \<Rightarrow> http_error option" where
  "reply_error r = (case r of Failed e \<Rightarrow> Some e | _ \<Rightarrow> None)"

definition reply_counts :: "reply \<Rightarrow> http_error + (string, 16 word) fmap" where
  "reply_counts r = (case r of Failed e \<Rightarrow> Inl e | KeyCounts c \<Rightarrow> Inr c | _ \<Rightarrow> Inr fmempty)"

fun keys_reply ::
  "('i, 'g, 'o, 'a, 'c) client_env \<Rightarrow> upload \<Rightarrow> reply \<Rightarrow> ('a, 'c) client \<Rightarrow> ('a, 'c) client"
where
  "keys_reply en FirstUpload r cl = first_upload_reply en (reply_error r) cl"
| "keys_reply en StartupUpload r cl = startup_upload_reply en (reply_counts r) cl"
| "keys_reply en (EnsureUpload replace) r cl = ensure_upload_reply en replace (reply_error r) cl"

definition backup_reply ::
  "('i, 'g, 'o, 'a, 'c) client_env \<Rightarrow> reply \<Rightarrow> ('a, 'c) client \<Rightarrow> ('a, 'c) client"
where
  "backup_reply en r cl =
     (case r of
        Failed e \<Rightarrow> map_olm (map_store (backup_version_reply (ce_public_key en) (Inl e))) cl
      | BackupReply v \<Rightarrow> map_olm (map_store (backup_version_reply (ce_public_key en) (Inr v))) cl
      | _ \<Rightarrow> cl)"

definition login_reply :: "reply \<Rightarrow> ('a, 'c) client \<Rightarrow> ('a, 'c) client" where
  "login_reply r cl =
     (case r of
        Failed e \<Rightarrow> show_effects [LoginError (he_message e)] cl
      | LoginReply u d h t \<Rightarrow> loginCb u d h t cl
      | _ \<Rightarrow> cl)"

definition logout_reply :: "reply \<Rightarrow> ('a, 'c) client \<Rightarrow> ('a, 'c) client" where
  "logout_reply r cl =
     (case r of Failed e \<Rightarrow> show_effects [LogoutError (he_message e)] cl | _ \<Rightarrow> logoutCb cl)"

fun deliver ::
  "('i, 'g, 'o, 'a, 'c) client_env \<Rightarrow> pending \<Rightarrow> reply \<Rightarrow> db_failure option \<Rightarrow> int \<Rightarrow> u64
     \<Rightarrow> (string \<Rightarrow> room_event option list) \<Rightarrow> ('a, 'c) client \<Rightarrow> ('a, 'c) client"
where
  "deliver en TrySync r fail now ms shown cl = trySync cl"
| "deliver en DelayedSync r fail now ms shown cl = trySync cl"
| "deliver en (SyncSent since) r fail now ms shown cl = sync_reply en since (reply_result r) cl"
| "deliver en (SyncArrived res since) r fail now ms shown cl = handleSyncResponse en fail now ms shown res since cl"
| "deliver en InitialSyncSent r fail now ms shown cl = initial_sync_reply en (reply_result r) cl"
| "deliver en (InitialSyncArrived res) r fail now ms shown cl = initial_sync_arrived en fail now ms res cl"
| "deliver en (KeysSent u) r fail now ms shown cl = keys_reply en u r cl"
| "deliver en PrepareTimelines r fail now ms shown cl = prepareTimelinesCB en cl"
| "deliver en FallbackSignal r fail now ms shown cl = wait_for [FallbackTimer] (cl\<lparr>cl_fallback_connected := False\<rparr>)"
| "deliver en FallbackTimer r fail now ms shown cl = removeOldFallbackKey en cl"
| "deliver en BackupVersionSent r fail now ms shown cl = backup_reply en r cl"
| "deliver en VersionsSent r fail now ms shown cl = versions_reply (reply_error r) cl"
| "deliver en LoginSent r fail now ms shown cl = login_reply r cl"
| "deliver en LogoutSent r fail now ms shown cl = logout_reply r cl"

definition remove_at :: "nat \<Rightarrow> 'x list \<Rightarrow> 'x list" where
  "remove_at i xs = take i xs @ drop (Suc i) xs"

definition deliver_at ::
  "('i, 'g, 'o, 'a, 'c) client_env \<Rightarrow> nat \<Rightarrow> reply \<Rightarrow> db_failure option \<Rightarrow> int \<Rightarrow> u64
     \<Rightarrow> (string \<Rightarrow> room_event option list) \<Rightarrow> ('a, 'c) client \<Rightarrow> ('a, 'c) client"
where
  "deliver_at en i r fail now ms shown cl =
     (if i < length (cl_pending cl) \<and> fits (cl_pending cl ! i) r
      then deliver en (cl_pending cl ! i) r fail now ms shown
             (cl\<lparr>cl_pending := remove_at i (cl_pending cl)\<rparr>)
      else cl)"

fun client_step ::
  "('i, 'g, 'o, 'a, 'c) client_env \<Rightarrow> ('a, 'c) client \<Rightarrow> 'a client_op \<Rightarrow> ('a, 'c) client"
where
  "client_step en cl (Start account opens user token) = start_client en account opens user token cl"
| "client_step en cl (Deliver i r fail now ms shown) = deliver_at en i r fail now ms shown cl"
| "client_step en cl (LeaveReply r err) = leave_reply r err cl"
| "client_step en cl (JoinReply r reply) = join_reply r reply cl"
| "client_step en cl (CreateRoom req) = createRoom en req cl"
| "client_step en cl (CreateReply reply) = create_reply reply cl"
| "client_step en cl (InviteReply r u err) = invite_reply r u err cl"
| "client_step en cl (StartChat u encrypted) = startChat en u encrypted cl"
| "client_step en cl (Notifications items) = sendNotifications items cl"
| "client_step en cl (DownloadedSecrets lib key secrets) = decryptDownloadedSecrets en lib key secrets cl"
| "client_step en cl (LoginWithPassword u) = loginWithPassword u cl"
| "client_step en cl Logout = wait_for [LogoutSent] cl"
| "client_step en cl ConnectivityTimeout = connectivity_timeout cl"
| "client_step en cl (UserPresence u) = fst (userPresence en u cl)"
| "client_step en cl (SettingsOp op) = cl\<lparr>cl_settings := settings_step (cl_settings cl) op\<rparr>"

end
