(* ===== verification/Client_Invariants.thy ===== *)
theory Client_Invariants
  imports Client_Rooms Olm_Safety Timeline_Control_Properties
begin

text \<open>
  What the operations of the client keep. Most of them only add pending events and effects and leave
  alone what the stores and the cache of the rooms share (\<open>grows\<close>); the others save a sync or leave the
  account. From this: the two views of the database agree, and the loop of syncs goes on.
\<close>

section \<open>Operations that only add\<close>

definition rooms_part :: "room_cache \<Rightarrow> string option \<times> string fset \<times> (string \<Rightarrow> (string, member_info) table)" where
  "rooms_part c = (rc_next_batch c, rc_encrypted c, \<lambda>r. rd_members (db_of r c))"

definition grows :: "('a, 'c) client \<Rightarrow> ('a, 'c) client \<Rightarrow> bool" where
  "grows cl cl' \<longleftrightarrow> shared_part (cl_store cl') = shared_part (cl_store cl)
     \<and> rooms_part (cl_rooms cl') = rooms_part (cl_rooms cl)
     \<and> set (cl_pending cl) \<subseteq> set (cl_pending cl')
     \<and> (\<exists>es. cl_effects cl' = cl_effects cl @ es)"

lemma grows_refl [simp]: "grows cl cl"
  by (simp add: grows_def)

lemma grows_trans: "grows cl cl1 \<Longrightarrow> grows cl1 cl2 \<Longrightarrow> grows cl cl2"
  unfolding grows_def by (metis append_assoc subset_trans)

lemma grows_show [intro]: "grows cl (show_effects es cl)"
  by (simp add: grows_def show_effects_def)

lemma grows_wait [intro]: "grows cl (wait_for ps cl)"
  by (auto simp: grows_def wait_for_def)

lemma grows_olm:
  "shared_part (os_store (f (cl_olm cl))) = shared_part (cl_store cl) \<Longrightarrow> grows cl (map_olm f cl)"
  by (simp add: grows_def map_olm_def)

lemma grows_frame:
  "cl_olm cl' = cl_olm cl \<Longrightarrow> rooms_part (cl_rooms cl') = rooms_part (cl_rooms cl)
     \<Longrightarrow> cl_pending cl' = cl_pending cl \<Longrightarrow> cl_effects cl' = cl_effects cl \<Longrightarrow> grows cl cl'"
  by (simp add: grows_def)

lemma grows_fold: "(\<And>x cl. grows cl (f x cl)) \<Longrightarrow> grows cl (fold f xs cl)"
proof (induction xs arbitrary: cl)
  case (Cons x xs)
  then show ?case using grows_trans [of cl "f x cl" "fold f xs (f x cl)"] by simp
qed simp

lemma shared_evolves: "evolves lib s s' \<Longrightarrow> shared_part s' = shared_part s"
  by (simp add: evolves_def)

lemma shared_publish: "shared_part (os_store (mark_keys_as_published env a st)) = shared_part (os_store st)"
  using shared_evolves [of "oe_lib env"] quiet_save_account [of env st a]
  by (auto simp: mark_keys_as_published_def dest!: evolves_quiet)

lemma grows_publish [intro]: "grows cl (publish_keys en cl)"
  unfolding publish_keys_def by (rule grows_olm) (rule shared_publish)

lemma grows_generate [intro]: "grows cl (generate_keys en n b cl)"
  unfolding generate_keys_def by (rule grows_olm) (simp add: map_account_def)

lemma grows_to_device [intro]: "grows cl (map_olm (handle_to_device_messages env now ms msgs) cl)"
  unfolding handle_to_device_messages_def
  by (rule grows_olm, rule shared_evolves, rule evolves_fold, rule evolves_to_device)

lemma grows_upload [intro]: "grows cl (upload_keys en u cl)"
  unfolding upload_keys_def by (rule grows_trans [OF grows_show grows_wait])

lemma grows_ensure [intro]: "grows cl (ensureOneTimeKeyCount en counts unused cl)"
  by (auto simp: ensureOneTimeKeyCount_def Let_def split: option.split
      intro: grows_trans [OF grows_generate grows_upload])

lemma grows_initial [intro]: "grows cl (changeInitialSyncStatge b cl)"
  unfolding changeInitialSyncStatge_def
  by (auto intro: grows_trans [OF grows_frame grows_show])

lemma grows_presence [intro]: "grows cl (presence_sync ps cl)"
  unfolding presence_sync_def
  by (rule grows_fold) (auto intro: grows_trans [OF grows_frame grows_show])

lemma grows_profile [intro]: "grows cl (own_profile en cl)"
  unfolding own_profile_def by (rule grows_show)

lemma grows_own_keys [intro]: "grows cl (own_keys_out_of_date en cl)"
  unfolding own_keys_out_of_date_def by (rule grows_olm) simp

lemma rooms_part_simps [simp]:
  "rooms_part (read_status f c) = rooms_part c"
  "rooms_part (updateLastMessageTimestamp r ts c) = rooms_part c"
  "rooms_part (markSentNotification e c) = rooms_part c"
  "rooms_part (removeReadNotification e c) = rooms_part c"
  "rooms_part (remove_invite r c) = rooms_part c"
  "rooms_part (c\<lparr>rc_rooms := x\<rparr>) = rooms_part c"
  by (simp_all add: rooms_part_def db_of_def read_status_def updateLastMessageTimestamp_def
      markSentNotification_def removeReadNotification_def remove_invite_def split: option.split)

lemma rooms_part_sync_timeline [simp]:
  "rooms_part (fst (sync_timeline tn shown room cst)) = rooms_part (fst cst)"
  by (simp add: sync_timeline_def case_prod_beta addEvents_def updateLastMessage_def Let_def split: option.split)

lemma grows_addTimeline [intro]: "grows cl (addTimeline en r cl)"
  unfolding addTimeline_def by (auto intro: grows_frame)

lemma grows_syncTimeline [intro]: "grows cl (syncTimeline en shown r room cl)"
proof (cases "fmlookup (cl_timelines cl) r")
  case None
  then show ?thesis by (simp add: syncTimeline_def)
next
  case (Some st)
  have "rooms_part (fst (sync_timeline (ce_timelines en) (shown r) room (cl_rooms cl, st))) = rooms_part (cl_rooms cl)"
    using rooms_part_sync_timeline [of "ce_timelines en" "shown r" room "(cl_rooms cl, st)"] by simp
  then show ?thesis
    unfolding syncTimeline_def Some by (auto simp: case_prod_beta intro!: grows_frame)
qed

lemma grows_syncTimelines [intro]: "grows cl (syncTimelines en shown res cl)"
proof -
  have "grows cl (removeTimeline r cl)" for r and cl :: "('a, 'b) client"
    unfolding removeTimeline_def by (rule grows_frame) simp_all
  moreover have "grows cl (syncTimeline en shown r room (addTimeline en r cl))" for r room and cl :: "('a, 'b) client"
    by (rule grows_trans [OF grows_addTimeline grows_syncTimeline])
  ultimately show ?thesis
    unfolding syncTimelines_def
    by (intro grows_trans [OF grows_fold grows_trans [OF grows_fold grows_fold]]) auto
qed

lemma grows_update_rooms [intro]: "grows cl (update_rooms en shown res cl)"
  unfolding update_rooms_def by (auto intro: grows_trans [OF grows_syncTimelines grows_show])

lemma grows_count [intro]: "grows cl (count_sync cl)"
  unfolding count_sync_def by (auto intro: grows_trans [OF grows_frame grows_show] grows_frame)

lemma grows_prepare [intro]: "grows cl (prepareTimelinesCB en cl)"
  unfolding prepareTimelinesCB_def by (intro grows_trans [OF grows_fold grows_show] grows_addTimeline)


lemma grows_more [intro]:
  "grows cl (trySync cl)" "grows cl (startInitialSync cl)" "grows cl (tryInitialSync en cl)"
  "grows cl (removeOldFallbackKey en cl)" "grows cl (getBackupVersion cl)"
  "grows cl (connectivity_timeout cl)" "grows cl (pullPresence en user cl)"
proof -
  have stop: "grows cl (cl\<lparr>cl_timer := b\<rparr>)" for b and cl :: "('a, 'b) client" by (rule grows_frame) simp_all
  show "grows cl (trySync cl)" "grows cl (connectivity_timeout cl)"
    by (auto simp: trySync_def connectivity_timeout_def Let_def intro: stop grows_trans [OF stop grows_wait]
        split: option.split)
  show "grows cl (startInitialSync cl)" "grows cl (getBackupVersion cl)"
    by (auto simp: startInitialSync_def getBackupVersion_def)
  show "grows cl (tryInitialSync en cl)"
    unfolding tryInitialSync_def by (rule grows_trans [OF grows_generate grows_upload])
  have "grows cl (map_olm (map_account f) cl)" for f
    by (rule grows_olm) (simp add: map_account_def)
  then show "grows cl (removeOldFallbackKey en cl)"
    unfolding removeOldFallbackKey_def by (rule grows_trans) auto
  show "grows cl (pullPresence en user cl)"
    unfolding pullPresence_def by (rule grows_frame) simp_all
qed

lemma grows_startup_reply [intro]: "grows cl (startup_upload_reply en reply cl)"
  by (auto simp: startup_upload_reply_def split: sum.split)

lemma grows_ensure_reply [intro]: "grows cl (ensure_upload_reply en replace err cl)"
  by (auto simp: ensure_upload_reply_def intro: grows_trans [OF grows_publish grows_wait] split: option.split)

lemma grows_versions [intro]: "grows cl (versions_reply err cl)"
  unfolding versions_reply_def
  by (auto intro: grows_trans [OF grows_frame grows_show]
      grows_trans [OF grows_trans [OF grows_frame grows_show] grows_more(1)] split: option.split)

lemma grows_backup [intro]: "grows cl (backup_reply en r cl)"
proof -
  have "shared_part (backup_version_reply f reply s) = shared_part s" for f reply s
    by (simp add: backup_version_reply_def deleteBackupVersion_def saveBackupVersion_def shared_part_def
        split: sum.split option.split)
  then have "grows cl (map_olm (map_store (backup_version_reply f reply)) cl)" for f reply
    by (intro grows_olm) (simp add: map_store_def)
  then show ?thesis by (simp add: backup_reply_def split: reply.split)
qed

text \<open>Operations of the user and of the rooms.\<close>

lemma grows_remove_room [intro]: "grows cl (removeRoomCb r cl)"
  by (simp add: grows_def removeRoomCb_def map_olm_def map_store_def shared_part_def removeInvite_def removeRoom_def)

lemma grows_leave [intro]: "grows cl (leave_reply r err cl)"
  by (auto simp: leave_reply_def Let_def intro: grows_trans [OF grows_show grows_remove_room] split: option.split)

lemma grows_join [intro]: "grows cl (join_reply r reply cl)"
  by (auto simp: grows_def join_reply_def map_olm_def map_store_def shared_part_def removeInvite_def
      show_effects_def split: sum.split)

lemma grows_create [intro]: "grows cl (createRoom en req cl)" "grows cl (create_reply reply' cl)"
  "grows cl (invite_reply r user err cl)" "grows cl (startChat en user encrypted cl)"
  "grows cl (loginWithPassword user cl)"
  by (auto simp: createRoom_def create_reply_def invite_reply_def startChat_def loginWithPassword_def
      split: option.split)

lemma grows_notifications [intro]: "grows cl (sendNotifications items cl)"
proof -
  have "rooms_part (fst (fold notify_item items cs)) = rooms_part (fst cs)" for cs
    by (induction items arbitrary: cs) (simp_all add: notify_item_def case_prod_beta)
  then have "rooms_part (fst (fold notify_item items (cl_rooms cl, []))) = rooms_part (cl_rooms cl)" by simp
  then show ?thesis
    unfolding sendNotifications_def case_prod_beta Let_def
    by (intro grows_trans [OF grows_frame grows_show]) simp_all
qed

lemma grows_secrets [intro]: "grows cl (decryptDownloadedSecrets en lib recoveryKey secrets cl)"
proof -
  have one: "shared_part (fst (store_downloaded env lib keys key entry acc)) = shared_part (fst acc)"
    for env :: "('x, 'y, 'z, 'a, 'b) olm_env" and keys key entry acc
    by (simp add: store_downloaded_def Let_def storeSecret_def shared_part_def)
  have "shared_part (fst (fold (store_downloaded env lib keys key) es acc)) = shared_part (fst acc)"
    for env :: "('x, 'y, 'z, 'a, 'b) olm_env" and keys key es acc
    by (induction es arbitrary: acc) (simp_all add: one)
  then show ?thesis
    unfolding decryptDownloadedSecrets_def
    by (auto simp: case_prod_beta Let_def intro!: grows_trans [OF grows_olm grows_show] split: option.split)
qed

end
