(* ===== verification/Client_Views.thy ===== *)
theory Client_Views
  imports Client_Invariants Room_Replay
begin

text \<open>
  Saving a sync writes what the stores of the Olm client and the cache of the rooms share to both, so that
  they agree on the token, the members and the encrypted rooms (\<open>agree_sync\<close>); and every delivery only adds
  to the state, or saves a sync and then adds, or leaves the account (\<open>deliver_cases\<close>).
\<close>

section \<open>Leaving the account\<close>

fun leaving_effect :: "client_effect \<Rightarrow> bool" where
  "leaving_effect (DroppedToLogin msg args) = True"
| "leaving_effect LogoutOk = True"
| "leaving_effect (LoginOk u h d t) = True"
| "leaving_effect e = False"

definition adds :: "('a, 'c) client \<Rightarrow> ('a, 'c) client \<Rightarrow> bool" where
  "adds cl cl' \<longleftrightarrow> (\<exists>es. cl_effects cl' = cl_effects cl @ es)"

definition leaves_account :: "('a, 'c) client \<Rightarrow> ('a, 'c) client \<Rightarrow> bool" where
  "leaves_account cl cl' \<longleftrightarrow> (\<exists>es. cl_effects cl' = cl_effects cl @ es \<and> (\<exists>e \<in> set es. leaving_effect e))"

lemma adds_grows: "grows cl cl' \<Longrightarrow> adds cl cl'"
  by (simp add: grows_def adds_def)

lemma leaves_after: "adds cl cl1 \<Longrightarrow> leaves_account cl1 cl' \<Longrightarrow> leaves_account cl cl'"
  by (auto simp: adds_def leaves_account_def)

lemma leaves_before: "leaves_account cl cl1 \<Longrightarrow> adds cl1 cl' \<Longrightarrow> leaves_account cl cl'"
  by (auto simp: adds_def leaves_account_def)

lemma effects_deleteConfigs: "cl_effects (deleteConfigs cl) = cl_effects cl @ [HttpShutdown]"
  by (simp add: deleteConfigs_def Let_def show_effects_def map_olm_def)

lemma leaves_drop [intro]: "leaves_account cl (drop_to_login msg args cl)"
  by (simp add: leaves_account_def drop_to_login_def dropToLoginCb_def effects_deleteConfigs show_effects_def)

lemma leaves_logout [intro]: "leaves_account cl (logoutCb cl)"
  by (simp add: leaves_account_def logoutCb_def effects_deleteConfigs changeInitialSyncStatge_def show_effects_def)

lemma leaves_login [intro]: "leaves_account cl (loginCb u d h t cl)"
  by (simp add: leaves_account_def loginCb_def delete_db_def map_olm_def show_effects_def)

section \<open>What saving a sync changes\<close>

lemma sync_fields:
  fixes s :: session_store
  shows "ss_next_batch (store_sync res s) = Some (sy_next_batch res)"
    and "ss_open (store_sync res s) = ss_open s" and "ss_ready (store_sync res s) = ss_ready s"
proof -
  have event: "f (store_state_event r e s) = f s"
    if "f = ss_open \<or> f = ss_ready" for f :: "session_store \<Rightarrow> bool" and r e s
    using that by (cases "se_content e") (auto simp: store_state_event_def setEncryptedRoom_def Let_def)
  have event_batch: "ss_next_batch (store_state_event r e s) = ss_next_batch s" for r e s
    by (cases "se_content e") (auto simp: store_state_event_def setEncryptedRoom_def Let_def)
  show "ss_next_batch (store_sync res s) = Some (sy_next_batch res)"
    by (simp add: store_sync_def fold_frame [of ss_next_batch] store_left_room_def removeInvite_def
        removeRoom_txn_def store_joined_room_def event_batch setNextBatchToken_def)
  show "ss_open (store_sync res s) = ss_open s"
    by (simp add: store_sync_def fold_frame [of ss_open] store_left_room_def removeInvite_def
        removeRoom_txn_def store_joined_room_def event setNextBatchToken_def)
  show "ss_ready (store_sync res s) = ss_ready s"
    by (simp add: store_sync_def fold_frame [of ss_ready] store_left_room_def removeInvite_def
        removeRoom_txn_def store_joined_room_def event setNextBatchToken_def)
qed

section \<open>The two views of the database\<close>

definition agree :: "session_store \<Rightarrow> room_cache \<Rightarrow> bool" where
  "agree s c \<longleftrightarrow> ss_next_batch s = rc_next_batch c
     \<and> fmdom (ss_encrypted_rooms s) = rc_encrypted c
     \<and> (\<forall>r u. fmlookup (sub_table r (ss_members s)) u
              = map_option member_info_to_json (fmlookup (rd_members (db_of r c)) u))"

lemma agree_cong:
  assumes "shared_part s' = shared_part s" and "rooms_part c' = rooms_part c" and "agree s c"
  shows "agree s' c'"
proof -
  have "rd_members (db_of r c') = rd_members (db_of r c)" for r
    using assms(2) by (auto simp: rooms_part_def dest: fun_cong)
  then show ?thesis
    using assms by (simp add: agree_def shared_part_def rooms_part_def)
qed

lemma members_store_state_event:
  "fmlookup (sub_table r (ss_members (store_state_event q e s))) u =
     (if q = r \<and> se_type e = RoomMember \<and> se_state_key e = u then map_option member_info_to_json (member_of e)
      else fmlookup (sub_table r (ss_members s)) u)"
  by (cases "se_content e")
    (auto simp: store_state_event_def member_of_def sub_table_def setEncryptedRoom_def Let_def)

lemma encrypted_store_state_event:
  "fmdom (ss_encrypted_rooms (store_state_event q e s)) =
     (case se_content e of Encryption _ \<Rightarrow> finsert q (fmdom (ss_encrypted_rooms s)) | _ \<Rightarrow> fmdom (ss_encrypted_rooms s))"
  by (cases "se_content e") (auto simp: store_state_event_def setEncryptedRoom_def Let_def)

lemma next_batch_store_state_event [simp]: "ss_next_batch (store_state_event q e s) = ss_next_batch s"
  by (cases "se_content e") (auto simp: store_state_event_def setEncryptedRoom_def Let_def)

lemma next_batch_saveStateEvent [simp]: "rc_next_batch (saveStateEvent q e c) = rc_next_batch c"
  by (cases "se_content e") (auto simp: saveStateEvent_def set_room_db_def)

lemma members_other_room: "r \<noteq> q \<Longrightarrow> db_of r (saveStateEvent q e c) = db_of r c"
  by (cases "se_content e") (auto simp: saveStateEvent_def room_frames)

lemma agree_event: "agree s c \<Longrightarrow> agree (store_state_event r e s) (saveStateEvent r e c)"
proof -
  assume a: "agree s c"
  have "fmlookup (sub_table q (ss_members (store_state_event r e s))) u
      = map_option member_info_to_json (fmlookup (rd_members (db_of q (saveStateEvent r e c))) u)" for q u
    using a by (cases "q = r") (auto simp: agree_def members_store_state_event members_saveStateEvent members_other_room)
  then show ?thesis
    using a by (simp add: agree_def encrypted_store_state_event encrypted_saveStateEvent split: state_content.split)
qed

lemma agree_events: "agree s c \<Longrightarrow> agree (fold (store_state_event r) es s) (saveStateEvents r es c)"
  unfolding saveStateEvents_def by (induction es arbitrary: s c) (simp_all add: agree_event)

lemma rooms_part_save_joined:
  "rooms_part (fst (save_joined_room tx tline (r, jr) st)) = rooms_part (saveStateEvents r (all_state jr) (fst st))"
proof -
  let ?c = "saveStateEvents r (all_state jr) (fst st)"
  have "rc_next_batch (fold (\<lambda>content. updateReadReceipt l p (collect_receipts l content)) contents d)
      = rc_next_batch d" for l p contents d
    by (rule fold_frame) (auto simp: updateReadReceipt_def merge_receipts_def case_prod_beta Let_def intro!: fold_frame)
  then have "rc_next_batch (fst (save_joined_room tx tline (r, jr) st)) = rc_next_batch ?c"
    by (cases st) (simp add: save_joined_room_def Let_def save_events_def remove_invite_def
        save_account_data_def set_room_db_def all_state_def saveStateEvents_append)
  moreover have "rc_encrypted (fst (save_joined_room tx tline (r, jr) st)) = rc_encrypted ?c"
    by (rule fset_eqI) (auto simp: encrypted_save_joined_room encrypted_saveStateEvents)
  moreover have "rd_members (db_of q (fst (save_joined_room tx tline (r, jr) st))) = rd_members (db_of q ?c)" for q
    by (simp add: room_db_save_joined_room room_db_saveStateEvents_other)
  ultimately show ?thesis by (simp add: rooms_part_def)
qed

lemma agree_joined_rooms:
  "agree s (fst st) \<Longrightarrow> agree (fold store_joined_room rooms s) (fst (fold (save_joined_room tx tline) rooms st))"
proof (induction rooms arbitrary: s st)
  case (Cons room rooms)
  obtain r jr where room: "room = (r, jr)" by (cases room)
  have "agree (store_joined_room room s) (fst (save_joined_room tx tline room st))"
    unfolding room store_joined_room_def fst_conv snd_conv
    by (rule agree_cong [OF refl rooms_part_save_joined agree_events [OF Cons.prems]])
  then show ?case by (simp add: Cons.IH)
qed simp

lemma agree_left:
  "agree s c \<Longrightarrow> agree (fold store_left_room rs s) (fold (\<lambda>r c. remove_invite r (remove_room r c)) rs c)"
proof (induction rs arbitrary: s c)
  case (Cons r rs)
  have "agree (store_left_room r s) (remove_invite r (remove_room r c))"
    using Cons.prems
    by (auto simp: agree_def store_left_room_def removeInvite_def removeRoom_txn_def sub_table_def
        remove_invite_def remove_room_def Let_def set_room_db_def db_of_def)
  then show ?case using Cons.IH by simp
qed simp

lemma next_batch_set_room_db: "rc_next_batch (set_room_db r d c) = rc_next_batch c"
  by (simp add: set_room_db_def)

lemma rooms_part_frames [simp]:
  "rooms_part (savePresence ps c) = rooms_part c"
  "rooms_part (saveInvites tx invited c) = rooms_part c"
  "rooms_part (updateSpaces lv upd1 upd2 c) = rooms_part c"
  "rooms_part (save_account_data r es c) = rooms_part c"
proof -
  show "rooms_part (savePresence ps c) = rooms_part c"
    by (simp add: rooms_part_def savePresence_def db_of_def)
  have "rc_next_batch (save_stripped q e d) = rc_next_batch d" for q e d by (cases e) simp_all
  then have "rc_next_batch (saveInvite q es d) = rc_next_batch d" for q es d
    unfolding saveInvite_def by (rule fold_frame)
  then have "rc_next_batch (saveInvites tx invited d) = rc_next_batch d" for d
    unfolding saveInvites_def by (intro fold_frame) (simp add: case_prod_beta Let_def)
  then show "rooms_part (saveInvites tx invited c) = rooms_part c"
    by (simp add: rooms_part_def room_frames)
  have "rc_next_batch (updateSpaces lv upd1 upd2 c) = rc_next_batch c"
    by (rule updateSpaces_frame) (simp_all add: put_child_def delete_old_entries_def)
  then show "rooms_part (updateSpaces lv upd1 upd2 c) = rooms_part c"
    by (simp add: rooms_part_def room_frames)
  show "rooms_part (save_account_data r es c) = rooms_part c"
    by (cases "es = []") (auto simp: rooms_part_def save_account_data_def Let_def next_batch_set_room_db)
qed

text \<open>Whatever a sync brings, both views agree after it.\<close>

lemma agree_sync: "agree s c \<Longrightarrow> agree (store_sync res s) (room_step en c (Sync res))"
proof -
  assume a: "agree s c"
  let ?tx = "en_texts en" and ?tline = "en_timeline en"
  let ?c1 = "save_account_data [] (sy_account_data res) (c\<lparr>rc_next_batch := Some (sy_next_batch res)\<rparr>)"
  let ?c2 = "fst (joined_state ?tx ?tline res c)"
  let ?s2 = "fold store_joined_room (sorted_list_of_fmap (sy_join res)) (setNextBatchToken (sy_next_batch res) s)"
  let ?c3 = "savePresence (sy_presence res) (saveInvites ?tx (sy_invite res) ?c2)"
  have "agree (setNextBatchToken (sy_next_batch res) s) (c\<lparr>rc_next_batch := Some (sy_next_batch res)\<rparr>)"
    using a by (simp add: agree_def setNextBatchToken_def db_of_def)
  then have "agree (setNextBatchToken (sy_next_batch res) s) ?c1"
    by (rule agree_cong [rotated 2]) simp_all
  then have "agree ?s2 ?c2"
    unfolding joined_state_def by (intro agree_joined_rooms) simp
  then have "agree ?s2 ?c3"
    by (rule agree_cong [rotated 2]) simp_all
  then have left: "agree (store_sync res s) (removeLeftRooms (sy_leave res) ?c3)"
    unfolding store_sync_def removeLeftRooms_def by (rule agree_left)
  have "rooms_part (room_step en c (Sync res)) = rooms_part (commit_sync ?tx (en_levels en) ?tline res c)"
    by (simp add: saveState_def Let_def rooms_part_def db_of_def)
  also have "\<dots> = rooms_part (removeLeftRooms (sy_leave res) ?c3)"
    by (simp add: commit_sync_joined_state Let_def case_prod_beta)
  finally show ?thesis by (rule agree_cong [OF refl _ left])
qed

section \<open>Every step\<close>

text \<open>The steps of a migration touch neither the token nor members nor the list of encrypted rooms, and
leave the database open.\<close>

definition quiet_migrations :: "('i, 'g, 'o, 'a, 'c) client_env \<Rightarrow> bool" where
  "quiet_migrations en \<longleftrightarrow>
     (\<forall>(target, m) \<in> set (ce_migrations en). \<forall>s. shared_part (fst (m s)) = shared_part s)"

abbreviation views_agree :: "('a, 'c) client \<Rightarrow> bool" where
  "views_agree cl \<equiv> agree (cl_store cl) (cl_rooms cl)"

lemma views_grows: "grows cl cl' \<Longrightarrow> views_agree cl \<Longrightarrow> views_agree cl'"
  unfolding grows_def by (blast intro: agree_cong)

lemma agree_empty [simp]:
  "ss_next_batch s = None \<Longrightarrow> ss_encrypted_rooms s = fmempty \<Longrightarrow> ss_members s = fmempty \<Longrightarrow> agree s new_room_cache"
  by (simp add: agree_def sub_table_def) (simp add: new_room_cache_def new_room_def)

lemma views_deleteConfigs: "views_agree cl \<Longrightarrow> views_agree (deleteConfigs cl)"
  by (auto simp: deleteConfigs_def Let_def map_olm_def show_effects_def deleteData_def deleteSecret_def
      new_session_store_def shared_part_def rooms_part_def intro: agree_cong [rotated 2])

lemma views_leave:
  "views_agree cl \<Longrightarrow> views_agree (drop_to_login msg args cl)"
  "views_agree cl \<Longrightarrow> views_agree (logoutCb cl)"
  "views_agree (loginCb u d h t cl)"
proof -
  assume a: "views_agree cl"
  show "views_agree (drop_to_login msg args cl)"
    unfolding drop_to_login_def dropToLoginCb_def
    by (rule views_deleteConfigs, rule views_grows [OF _ a], rule grows_trans [OF grows_show grows_frame]) simp_all
  have "views_agree (deleteConfigs (changeInitialSyncStatge True cl))"
    by (rule views_deleteConfigs, rule views_grows [OF _ a]) auto
  then show "views_agree (logoutCb cl)"
    by (simp add: logoutCb_def show_effects_def)
next
  show "views_agree (loginCb u d h t cl)"
    by (simp add: loginCb_def delete_db_def map_olm_def show_effects_def new_session_store_def)
qed

lemma views_save: "views_agree cl \<Longrightarrow> views_agree (save_sync en res cl)"
  by (simp add: save_sync_def map_olm_def map_store_def agree_sync del: room_step.simps)

lemma shared_run_migrations:
  assumes "\<forall>(target, m) \<in> set ms. \<forall>s. shared_part (fst (m s)) = shared_part s"
  shows "shared_part (fst (run_migrations stored ms s)) = shared_part s"
  using assms
proof (induction ms arbitrary: s)
  case Nil
  then show ?case by (simp add: setCurrentFormat_def shared_part_def)
next
  case (Cons m ms)
  obtain target f where m: "m = (target, f)" by (cases m)
  obtain s' ok where f: "f s = (s', ok)" by (cases "f s")
  have "shared_part (fst (f s)) = shared_part s" using Cons.prems m by auto
  then show ?case
    using Cons f by (cases ok) (auto simp: m)
qed

lemma shared_runMigrations:
  "quiet_migrations en \<Longrightarrow> shared_part (fst (runMigrations (ce_migrations en) s)) = shared_part s"
  by (simp add: runMigrations_def quiet_migrations_def shared_run_migrations split: option.split)

lemma grows_upload_reply: "grows cl (publish_keys en cl) \<Longrightarrow> grows cl (startInitialSync (own_keys_out_of_date en (publish_keys en cl)))"
  by (rule grows_trans [OF _ grows_trans [OF grows_own_keys grows_more(2)]])

text \<open>After saving a sync only things are added.\<close>

lemma grows_apply:
  "grows (save_sync en (sn_rooms res) cl) (apply_sync en None now ms shown res cl)"
  "grows (save_sync en (sn_rooms res) cl) (apply_sync en (Some (LaterFails n full)) now ms shown res cl)"
  "grows cl (apply_sync en (Some (SaveFails full)) now ms shown res cl)"
  "grows (save_sync en (sn_rooms res) cl) (initial_sync_arrived en (Some (LaterFails n full)) now ms res cl)"
  "grows cl (initial_sync_arrived en (Some (SaveFails full)) now ms res cl)"
proof -
  show "grows (save_sync en (sn_rooms res) cl) (apply_sync en None now ms shown res cl)"
    unfolding apply_sync_def option.case
    by (rule grows_trans [OF _ grows_count], rule grows_trans [OF _ grows_presence],
        rule grows_trans [OF _ grows_update_rooms], rule grows_trans [OF _ grows_initial], rule grows_to_device)
  show "grows (save_sync en (sn_rooms res) cl) (apply_sync en (Some (LaterFails n full)) now ms shown res cl)"
    unfolding apply_sync_def option.case db_failure.case
    by (rule grows_trans [OF grows_to_device grows_show])
  show "grows cl (apply_sync en (Some (SaveFails full)) now ms shown res cl)"
    using grows_show [of cl "[DeleteOldData]"] by (simp add: apply_sync_def)
  show "grows (save_sync en (sn_rooms res) cl) (initial_sync_arrived en (Some (LaterFails n full)) now ms res cl)"
    unfolding initial_sync_arrived_def option.case db_failure.case
    by (rule grows_trans [OF grows_to_device grows_more(2)])
  show "grows cl (initial_sync_arrived en (Some (SaveFails full)) now ms res cl)"
    using grows_more(2) by (simp add: initial_sync_arrived_def)
qed

lemma grows_initial_applied:
  "grows (save_sync en (sn_rooms res) cl) (initial_sync_arrived en None now ms res cl)"
proof -
  let ?cl1 = "save_sync en (sn_rooms res) cl"
  let ?cl2 = "map_olm (handle_to_device_messages (ce_olm en) now ms (sn_to_device res)) ?cl1"
  let ?c = "read_status (en_unread (ce_rooms en)) (room_step (ce_rooms en) (cl_rooms cl) (Sync (sn_rooms res)))"
  have put: "grows ?cl2 (?cl2\<lparr>cl_rooms := ?c\<rparr>)"
    by (rule grows_frame) (simp_all add: map_olm_def save_sync_def del: room_step.simps)
  show ?thesis
    unfolding initial_sync_arrived_def option.case
    by (rule grows_trans [OF _ grows_profile], rule grows_trans [OF _ grows_wait],
        rule grows_trans [OF _ grows_presence], rule grows_trans [OF _ grows_show],
        rule grows_trans [OF _ grows_initial], rule grows_trans [OF grows_to_device put])
qed

lemma sync_reply_cases:
  "grows cl (sync_reply en since reply cl) \<or> (\<exists>msg args. sync_reply en since reply cl = drop_to_login msg args cl)"
proof (cases reply)
  case (Inl e)
  show ?thesis by (simp add: Inl sync_reply_def grows_wait) blast
qed (simp add: sync_reply_def grows_wait)

lemma initial_reply_cases:
  "grows cl (initial_sync_reply en reply cl) \<or> (\<exists>msg args. initial_sync_reply en reply cl = drop_to_login msg args cl)"
proof (cases reply)
  case (Inl e)
  show ?thesis by (simp add: Inl initial_sync_reply_def grows_more(2)) blast
qed (simp add: initial_sync_reply_def grows_wait)

lemma first_reply_cases:
  "grows cl (first_upload_reply en err cl) \<or> (\<exists>msg args. first_upload_reply en err cl = drop_to_login msg args cl)"
proof (cases err)
  case None
  show ?thesis
    using grows_upload_reply [of cl en, OF grows_publish] by (simp add: None first_upload_reply_def)
next
  case (Some e)
  show ?thesis by (simp add: Some first_upload_reply_def grows_more(2)) blast
qed

text \<open>A step adds to the state, or to the state with a sync saved, or leaves the account.\<close>

lemma deliver_cases:
  obtains "grows cl (deliver en p r fail now ms shown cl)"
  | res cl1 where "grows cl cl1" "grows (save_sync en res cl1) (deliver en p r fail now ms shown cl)"
      "set (cl_pending (deliver en p r fail now ms shown cl)) \<inter> {TrySync, InitialSyncSent} \<noteq> {}"
  | msg args where "deliver en p r fail now ms shown cl = drop_to_login msg args cl"
  | "deliver en p r fail now ms shown cl = logoutCb cl"
  | u d h t where "deliver en p r fail now ms shown cl = loginCb u d h t cl"
proof (cases p)
  case (SyncArrived res since)
  let ?cl1 = "ensureOneTimeKeyCount en (sn_key_counts res) (sn_unused_fallback res) cl"
  show ?thesis
  proof (cases "nextBatchToken (cl_store cl) = Some since")
    case True
    then have d: "deliver en p r fail now ms shown cl = wait_for [TrySync] (apply_sync en fail now ms shown res ?cl1)"
      by (simp add: SyncArrived handleSyncResponse_def)
    have "grows cl (wait_for [TrySync] (apply_sync en fail now ms shown res ?cl1))" if "fail = Some (SaveFails full)" for full
      unfolding that by (rule grows_trans [OF grows_ensure grows_trans [OF grows_apply(3) grows_wait]])
    moreover have "grows (save_sync en (sn_rooms res) ?cl1) (wait_for [TrySync] (apply_sync en fail now ms shown res ?cl1))"
      if saved: "\<And>full. fail \<noteq> Some (SaveFails full)"
    proof (cases fail)
      case None
      show ?thesis unfolding None by (rule grows_trans [OF grows_apply(1) grows_wait])
    next
      case (Some f)
      then obtain n full where f: "fail = Some (LaterFails n full)" using saved by (cases f) auto
      show ?thesis unfolding f by (rule grows_trans [OF grows_apply(2) grows_wait])
    qed
    ultimately show ?thesis
      using that(1,2) grows_ensure [of cl en "sn_key_counts res" "sn_unused_fallback res"] unfolding d by (auto simp: wait_for_def)
  next
    case False
    then show ?thesis using that(1) by (simp add: SyncArrived handleSyncResponse_def)
  qed
next
  case (InitialSyncArrived res)
  show ?thesis
  proof (cases fail)
    case None
    have "TrySync \<in> set (cl_pending (initial_sync_arrived en None now ms res cl))"
      by (simp add: initial_sync_arrived_def wait_for_def own_profile_def show_effects_def)
    then show ?thesis 
      using that(2) [of cl "sn_rooms res"] grows_initial_applied [of en res cl now ms] by (auto simp: InitialSyncArrived None)
  next
    case (Some f)
    show ?thesis
    proof (cases f)
      case (SaveFails full)
      then show ?thesis using that(1) grows_apply(5) [of cl en full now ms res] by (simp add: InitialSyncArrived Some)
    next
      case (LaterFails n full)
      have "InitialSyncSent \<in> set (cl_pending (initial_sync_arrived en (Some (LaterFails n full)) now ms res cl))"
        by (simp add: initial_sync_arrived_def wait_for_def startInitialSync_def)
      then show ?thesis 
        using that(2) [of cl "sn_rooms res"] grows_apply(4) [of en res cl n full now ms] by (auto simp: InitialSyncArrived Some LaterFails)
    qed
  qed
next
  case (SyncSent since)
  then show ?thesis
    using that(1,3) sync_reply_cases [of cl en since "reply_result r"] by auto
next
  case InitialSyncSent
  then show ?thesis
    using that(1,3) initial_reply_cases [of cl en "reply_result r"] by auto
next
  case (KeysSent u)
  show ?thesis
    using that(1,3) first_reply_cases [of cl en "reply_error r"] by (cases u) (auto simp: KeysSent)
next
  case LoginSent
  show ?thesis using that(1,5) by (cases r) (auto simp: LoginSent login_reply_def)
next
  case LogoutSent
  show ?thesis using that(1,4) by (cases r) (auto simp: LogoutSent logout_reply_def)
next
  case FallbackSignal
  have "grows cl (wait_for [FallbackTimer] (cl\<lparr>cl_fallback_connected := False\<rparr>))"
    by (rule grows_trans [OF grows_frame grows_wait]) simp_all
  then show ?thesis using that(1) by (simp add: FallbackSignal)
qed (use that(1) in auto)

end
