(* ===== verification/Client_Loop.thy ===== *)
theory Client_Loop
  imports Client_Views Olm_Properties Room_Properties
begin

text \<open>
  In every run the client stays in the loop of syncs until it leaves the account, a sync is at most four
  deliveries away, and messages are encrypted for the members the syncs tell of.
\<close>

section \<open>The loop goes on\<close>

text \<open>What leads to the next sync, given the token of the last one.\<close>

fun drives :: "string option \<Rightarrow> pending \<Rightarrow> bool" where
  "drives t TrySync = True"
| "drives t DelayedSync = True"
| "drives t InitialSyncSent = True"
| "drives t (InitialSyncArrived res) = True"
| "drives t (KeysSent FirstUpload) = True"
| "drives t (SyncSent since) = (t = Some since)"
| "drives t (SyncArrived res since) = (t = Some since)"
| "drives t p = False"

definition goes_on :: "('a, 'c) client \<Rightarrow> bool" where
  "goes_on cl \<longleftrightarrow> ss_open (cl_store cl) \<and> (\<exists>p \<in> set (cl_pending cl). drives (nextBatchToken (cl_store cl)) p)"

lemma token_shared: "shared_part s' = shared_part s \<Longrightarrow> nextBatchToken s' = nextBatchToken s \<and> ss_open s' = ss_open s"
  by (simp add: shared_part_def nextBatchToken_def)

lemma goes_on_grows: "grows cl cl' \<Longrightarrow> goes_on cl \<Longrightarrow> goes_on cl'"
  unfolding grows_def goes_on_def using token_shared by (metis subsetD)

lemma goes_on_wait: "ss_open (cl_store cl) \<Longrightarrow> p \<in> {TrySync, DelayedSync, InitialSyncSent, KeysSent FirstUpload}
    \<Longrightarrow> p \<in> set (cl_pending cl) \<Longrightarrow> goes_on cl"
  unfolding goes_on_def by (auto intro!: bexI [of _ p])

lemma open_save [simp]: "ss_open (cl_store (save_sync en res cl)) = ss_open (cl_store cl)"
  by (simp add: save_sync_def map_olm_def map_store_def sync_fields)

lemma open_grows: "grows cl cl' \<Longrightarrow> ss_open (cl_store cl') = ss_open (cl_store cl)"
  using token_shared [of "cl_store cl'" "cl_store cl"] by (simp add: grows_def)

lemma goes_on_deliver_other:
  assumes "goes_on cl"
  shows "goes_on (deliver en p r fail now ms shown cl) \<or> leaves_account cl (deliver en p r fail now ms shown cl)"
proof (cases rule: deliver_cases [of cl en p r fail now ms shown])
  case 1
  then show ?thesis using assms goes_on_grows by blast
next
  case (2 res cl1)
  have "ss_open (cl_store (deliver en p r fail now ms shown cl))"
    using assms open_grows [OF 2(1)] open_grows [OF 2(2)] by (simp add: goes_on_def)
  then show ?thesis using 2(3) goes_on_wait by blast
qed (auto simp: assms)

lemma open_deliver:
  assumes "ss_open (cl_store cl)"
  shows "ss_open (cl_store (deliver en p r fail now ms shown cl)) \<or> leaves_account cl (deliver en p r fail now ms shown cl)"
proof (cases rule: deliver_cases [of cl en p r fail now ms shown])
  case 1
  then show ?thesis using assms open_grows by blast
next
  case (2 res cl1)
  then show ?thesis using assms open_grows [OF 2(1)] open_grows [OF 2(2)] by simp
qed auto

lemma goes_on_start: "ss_open (cl_store cl) \<Longrightarrow> goes_on (startInitialSync cl)"
  by (auto simp: goes_on_def startInitialSync_def wait_for_def)

lemma goes_on_deliver_driver:
  assumes "ss_open (cl_store cl)" and "drives (nextBatchToken (cl_store cl)) p"
  shows "goes_on (deliver en p r fail now ms shown cl) \<or> leaves_account cl (deliver en p r fail now ms shown cl)"
proof -
  have tries: "goes_on (trySync cl)"
    using assms(1) by (auto simp: goes_on_def trySync_def wait_for_def nextBatchToken_def Let_def)
  have opened: "ss_open (cl_store (deliver en p r fail now ms shown cl)) \<or> leaves_account cl (deliver en p r fail now ms shown cl)"
    by (rule open_deliver [OF assms(1)])
  show ?thesis
  proof (cases p)
    case (SyncSent since)
    then show ?thesis
      using assms by (auto simp: sync_reply_def goes_on_def wait_for_def split: sum.split)
  next
    case (SyncArrived res since)
    then have "TrySync \<in> set (cl_pending (deliver en p r fail now ms shown cl))"
      using assms by (simp add: handleSyncResponse_def wait_for_def)
    then show ?thesis using opened goes_on_wait [of "deliver en p r fail now ms shown cl" TrySync] by auto
  next
    case InitialSyncSent
    then show ?thesis
      using assms by (auto simp: initial_sync_reply_def goes_on_def startInitialSync_def wait_for_def split: sum.split)
  next
    case (InitialSyncArrived res)
    have "TrySync \<in> set (cl_pending (initial_sync_arrived en fail now ms res cl)) \<or>
        InitialSyncSent \<in> set (cl_pending (initial_sync_arrived en fail now ms res cl))"
      by (auto simp: initial_sync_arrived_def wait_for_def own_profile_def show_effects_def startInitialSync_def
          split: option.split db_failure.split)
    then show ?thesis
      using opened goes_on_wait [of "deliver en p r fail now ms shown cl" TrySync]
        goes_on_wait [of "deliver en p r fail now ms shown cl" InitialSyncSent] by (auto simp: InitialSyncArrived)
  next
    case (KeysSent u)
    then have u: "u = FirstUpload" using assms(2) by (cases u) auto
    have "ss_open (cl_store (own_keys_out_of_date en (publish_keys en cl)))"
      using open_grows [OF grows_trans [OF grows_publish [of cl en] grows_own_keys [of _ en]]] assms(1) by simp
    then show ?thesis
      using assms(1) goes_on_start by (auto simp: KeysSent u first_upload_reply_def split: option.split)
  qed (use assms tries in auto)
qed

section \<open>Starting\<close>

lemma grows_pickle: "grows cl (map_olm (\<lambda>st. st\<lparr>os_store := fst (pickleSecret t (cl_store cl))\<rparr>) cl)"
  by (rule grows_olm) (simp add: shared_pickleSecret)

lemma load_cases:
  obtains "grows cl (loadStateFromCache en cl)" "TrySync \<in> set (cl_pending (loadStateFromCache en cl))"
  | cl1 msg args where "grows cl cl1" "loadStateFromCache en cl = drop_to_login msg args cl1"
proof -
  obtain s k where p: "pickleSecret (oe_random_token (ce_olm en)) (cl_store cl) = (s, k)"
    by (cases "pickleSecret (oe_random_token (ce_olm en)) (cl_store cl)")
  let ?cl1 = "map_olm (\<lambda>st. st\<lparr>os_store := s\<rparr>) cl"
  have g: "grows cl ?cl1" using grows_pickle [of cl "oe_random_token (ce_olm en)"] by (simp add: p)
  show ?thesis
  proof (cases "ce_load_account en k (restoreOlmAccount s)")
    case None
    then show ?thesis using that(2) [OF g] by (simp add: loadStateFromCache_def p)
  next
    case (Some account)
    let ?cl2 = "map_olm (map_account (\<lambda>_. account)) ?cl1"
    let ?cl3 = "?cl2\<lparr>cl_rooms := read_status (en_unread (ce_rooms en)) (cl_rooms cl)\<rparr>"
    let ?cl4 = "verifyOneTimeKeyCountAfterStartup en (getBackupVersion (show_effects [GetProfile (oe_user_id (ce_olm en))] ?cl3))"
    have l: "loadStateFromCache en cl = own_profile en (wait_for [TrySync, PrepareTimelines] (?cl4\<lparr>cl_fallback_connected := True\<rparr>))"
      by (simp add: loadStateFromCache_def p Some)
    have "grows cl ?cl2"
      by (rule grows_trans [OF g], rule grows_olm) (simp add: map_account_def)
    moreover have "grows ?cl2 ?cl3" by (rule grows_frame) (simp_all add: map_olm_def)
    moreover have "grows ?cl3 ?cl4"
      unfolding verifyOneTimeKeyCountAfterStartup_def
      by (rule grows_trans [OF _ grows_upload], rule grows_trans [OF grows_show grows_more(5)])
    moreover have "grows ?cl4 (?cl4\<lparr>cl_fallback_connected := True\<rparr>)" by (rule grows_frame) simp_all
    ultimately have "grows cl (?cl4\<lparr>cl_fallback_connected := True\<rparr>)"
      by (blast intro: grows_trans)
    then have "grows cl (loadStateFromCache en cl)"
      unfolding l by (rule grows_trans [OF _ grows_profile, OF grows_trans [OF _ grows_wait]])
    moreover have "TrySync \<in> set (cl_pending (loadStateFromCache en cl))"
      unfolding l by (simp add: own_profile_def wait_for_def show_effects_def)
    ultimately show ?thesis by (rule that(1))
  qed
qed

lemma first_start_cases:
  obtains "grows cl (first_start en account cl)" "KeysSent FirstUpload \<in> set (cl_pending (first_start en account cl))"
  | cl1 msg args where "grows cl cl1" "first_start en account cl = drop_to_login msg args cl1"
proof -
  let ?cl1 = "map_olm (map_store setCurrentFormat) cl"
  have g: "grows cl ?cl1"
    by (rule grows_olm) (simp add: map_store_def setCurrentFormat_def shared_part_def)
  show ?thesis
  proof (cases account)
    case None
    then show ?thesis using that(2) [OF g] by (simp add: first_start_def)
  next
    case (Some a)
    let ?save = "\<lambda>st. save_account (ce_olm en) (st\<lparr>os_account := a\<rparr>)"
    have "grows ?cl1 (map_olm ?save ?cl1)"
      by (rule grows_olm, rule shared_evolves [of "oe_lib (ce_olm en)"], rule evolves_quiet, rule quiet_save_account)
    then have "grows cl (first_start en account cl)"
      unfolding first_start_def Let_def Some option.case
      by (rule grows_trans [OF grows_trans [OF grows_trans [OF grows_trans [OF g] grows_show] grows_more(5)] grows_more(3)])
    moreover have "KeysSent FirstUpload \<in> set (cl_pending (first_start en account cl))"
      by (simp add: first_start_def Let_def Some tryInitialSync_def upload_keys_def wait_for_def)
    ultimately show ?thesis by (rule that(1))
  qed
qed

text \<open>The database is open and shows what it showed before.\<close>

definition reopens :: "('a, 'c) client \<Rightarrow> ('a, 'c) client \<Rightarrow> bool" where
  "reopens cl cl' \<longleftrightarrow> ss_open (cl_store cl') \<and> (views_agree cl \<longrightarrow> views_agree cl') \<and> adds cl cl'"

lemma loadSecrets_shared:
  "ss_next_batch (loadSecrets ns s) = ss_next_batch s" "ss_members (loadSecrets ns s) = ss_members s"
  "ss_encrypted_rooms (loadSecrets ns s) = ss_encrypted_rooms s" "ss_open (loadSecrets ns s) = ss_open s"
  by (induction ns s rule: loadSecrets.induct) (simp_all add: Let_def)

lemma reopens_restart: "reopens cl (map_olm (map_store restart) (cl\<lparr>cl_access_token := token\<rparr>))"
  by (simp add: reopens_def adds_def agree_def map_olm_def map_store_def restart_def loadSecrets_shared)

lemma reopens_migrated:
  assumes "quiet_migrations en" and "reopens cl cl1" and "runMigrations (ce_migrations en) (cl_store cl1) = (s, ok)"
  shows "reopens cl (map_olm (\<lambda>st. st\<lparr>os_store := s\<rparr>) cl1)"
proof -
  have "shared_part s = shared_part (cl_store cl1)"
    using shared_runMigrations [OF assms(1), of "cl_store cl1"] assms(3) by simp
  then show ?thesis
    using assms(2) token_shared [of s "cl_store cl1"] agree_cong [of s "cl_store cl1" "cl_rooms cl1" "cl_rooms cl1"]
    by (simp add: reopens_def adds_def map_olm_def)
qed

lemma reopens_show: "reopens cl cl1 \<Longrightarrow> reopens cl (show_effects es cl1)"
  by (auto simp: reopens_def adds_def show_effects_def)

text \<open>A start reopens the database and adds what leads to a sync, or drops to the login. A newer format is
never found (\<open>formatVersion\<close>).\<close>

definition started :: "('a, 'c) client \<Rightarrow> ('a, 'c) client \<Rightarrow> bool" where
  "started cl cl' \<longleftrightarrow>
     (\<exists>cl1. reopens cl cl1 \<and> grows cl1 cl' \<and> (\<exists>p \<in> {TrySync, KeysSent FirstUpload}. p \<in> set (cl_pending cl')))
     \<or> (\<exists>cl1 msg args. adds cl cl1 \<and> (views_agree cl \<longrightarrow> views_agree cl1) \<and> cl' = drop_to_login msg args cl1)"

lemma started_run:
  "reopens cl cl1 \<Longrightarrow> grows cl1 cl' \<Longrightarrow> TrySync \<in> set (cl_pending cl') \<or> KeysSent FirstUpload \<in> set (cl_pending cl')
     \<Longrightarrow> started cl cl'"
  unfolding started_def by blast

lemma started_drop:
  "adds cl cl1 \<Longrightarrow> (views_agree cl \<Longrightarrow> views_agree cl1) \<Longrightarrow> started cl (drop_to_login msg args cl1)"
  unfolding started_def by blast

lemma started_drop_reopened: "reopens cl cl1 \<Longrightarrow> grows cl1 cl2 \<Longrightarrow> started cl (drop_to_login msg args cl2)"
  by (rule started_drop) (auto simp: reopens_def adds_def grows_def intro: views_grows [unfolded grows_def])

lemma started_load: "reopens cl cl1 \<Longrightarrow> started cl (loadStateFromCache en cl1)"
  by (rule load_cases [of cl1 en]) (auto intro: started_run started_drop_reopened)

lemma started_first: "reopens cl cl1 \<Longrightarrow> started cl (first_start en account cl1)"
  by (rule first_start_cases [of cl1 en account]) (auto intro: started_run started_drop_reopened)

lemma started_bootstrap:
  assumes "quiet_migrations en"
  shows "started cl (bootstrap en account opens token cl)"
proof -
  let ?cl1 = "cl\<lparr>cl_access_token := token\<rparr>"
  let ?cl2 = "map_olm (map_store restart) ?cl1"
  have two: "reopens cl ?cl2" by (rule reopens_restart)
  obtain s ok where m: "runMigrations (ce_migrations en) (cl_store ?cl2) = (s, ok)"
    by (cases "runMigrations (ce_migrations en) (cl_store ?cl2)")
  have three: "reopens cl (map_olm (\<lambda>st. st\<lparr>os_store := s\<rparr>) ?cl2)"
    by (rule reopens_migrated [OF assms two m])
  have current: "formatVersion (cl_store ?cl2) \<noteq> Newer"
    by (simp add: formatVersion_def split: option.split)
  have "started cl (drop_to_login msg args ?cl1)" for msg args
    by (rule started_drop) (simp_all add: adds_def)
  then show ?thesis
    using started_load [OF two, of en] started_load [OF three, of en] started_load [OF reopens_show [OF three], of en]
      started_first [OF two, of en account] current
    by (cases "formatVersion (cl_store ?cl2)") (simp_all add: bootstrap_def Let_def m)
qed

lemma started_start:
  assumes "quiet_migrations en"
  shows "started cl (start_client en account opens user token cl)"
proof -
  have "started cl (drop_to_login msg args cl)" for msg args
    by (rule started_drop) (simp_all add: adds_def)
  then show ?thesis
    using started_bootstrap [OF assms] by (auto simp: start_client_def split: setting_value.split)
qed

section \<open>The properties\<close>

text \<open>What a step that is neither a start nor a delivery does.\<close>

lemma grows_client_step:
  assumes "\<And>account opens user token. op \<noteq> Start account opens user token"
    and "\<And>i r fail now ms shown. op \<noteq> Deliver i r fail now ms shown"
  shows "grows cl (client_step en cl op)"
proof (cases op)
  case (SettingsOp o')
  then show ?thesis by (simp add: grows_frame)
next
  case (UserPresence u)
  then show ?thesis
    using grows_more(7) [of cl en u] by (auto simp: userPresence_def split: option.split)
qed (use assms in auto)

lemma views_step:
  assumes "quiet_migrations en" and "views_agree cl"
  shows "views_agree (client_step en cl op)"
proof -
  have start: "views_agree cl'" if "started cl cl'" for cl'
    using that assms(2) unfolding started_def reopens_def by (auto intro: views_grows views_leave)
  have deliver: "views_agree (deliver en p r fail now ms shown cl1)" if a: "views_agree cl1" for p r fail now ms shown cl1
  proof (cases rule: deliver_cases [of cl1 en p r fail now ms shown])
    case 1
    then show ?thesis using a by (rule views_grows)
  next
    case (2 res cl2)
    show ?thesis by (rule views_grows [OF 2(2) views_save [OF views_grows [OF 2(1) a]]])
  qed (use a in \<open>simp_all add: views_leave\<close>)
  show ?thesis
  proof (cases op)
    case (Start account opens user token)
    then show ?thesis using start [OF started_start [OF assms(1)]] by simp
  next
    case (Deliver i r fail now ms shown)
    then show ?thesis using assms(2) by (simp add: deliver_at_def deliver del: deliver.simps)
  qed (rule views_grows [OF grows_client_step assms(2)]; simp)+
qed

section \<open>A sync is near\<close>

text \<open>\<open>n\<close> deliveries without errors bring the client to the token of a response.\<close>

definition smooth :: "'a client_op \<Rightarrow> bool" where
  "smooth op \<longleftrightarrow> (\<exists>i r. op = Deliver i r None 0 0 (\<lambda>_. []) \<and> (r = Elapsed \<or> r = KeyCounts fmempty \<or> (\<exists>res. r = SyncReply res)))"

definition syncs_in ::
  "nat \<Rightarrow> ('i, 'g, 'o, 'a, 'c) client_env \<Rightarrow> sync \<Rightarrow> ('a, 'c) client \<Rightarrow> bool"
where
  "syncs_in n en res cl \<longleftrightarrow>
     (\<exists>ds. length ds \<le> n \<and> (\<forall>d \<in> set ds. smooth d)
        \<and> nextBatchToken (cl_store (run (client_step en) cl ds)) = Some (sy_next_batch (sn_rooms res)))"

lemma syncs_in_more: "syncs_in n en res cl \<Longrightarrow> n \<le> m \<Longrightarrow> syncs_in m en res cl"
  unfolding syncs_in_def by (meson le_trans)

text \<open>Delivering a pending event.\<close>

lemma syncs_in_deliver:
  assumes "p \<in> set (cl_pending cl)" and "fits p r"
    and r: "r = Elapsed \<or> r = KeyCounts fmempty \<or> (\<exists>res. r = SyncReply res)"
    and more: "\<And>ps. syncs_in n en res (deliver en p r None 0 0 (\<lambda>_. []) (cl\<lparr>cl_pending := ps\<rparr>))"
  shows "syncs_in (Suc n) en res cl"
proof -
  obtain i where i: "i < length (cl_pending cl)" "cl_pending cl ! i = p" using assms(1) by (meson in_set_conv_nth)
  let ?cl1 = "cl\<lparr>cl_pending := remove_at i (cl_pending cl)\<rparr>"
  have step: "client_step en cl (Deliver i r None 0 0 (\<lambda>_. [])) = deliver en p r None 0 0 (\<lambda>_. []) ?cl1"
    using i assms(2) by (simp add: deliver_at_def del: deliver.simps)
  obtain ds where ds: "length ds \<le> n" "\<forall>d \<in> set ds. smooth d"
    "nextBatchToken (cl_store (run (client_step en) (deliver en p r None 0 0 (\<lambda>_. []) ?cl1) ds)) = Some (sy_next_batch (sn_rooms res))"
    using more [of "remove_at i (cl_pending cl)"] unfolding syncs_in_def by blast
  show ?thesis
    unfolding syncs_in_def
    by (rule exI [of _ "Deliver i r None 0 0 (\<lambda>_. []) # ds"])
      (use ds r in \<open>simp add: step smooth_def del: client_step.simps\<close>)
qed

lemma token_grows: "grows cl cl' \<Longrightarrow> nextBatchToken (cl_store cl') = nextBatchToken (cl_store cl)"
  using token_shared [of "cl_store cl'" "cl_store cl"] by (simp add: grows_def)

lemma token_save: "ss_open (cl_store cl) \<Longrightarrow>
    nextBatchToken (cl_store (save_sync en res cl)) = Some (sy_next_batch res)"
  by (simp add: save_sync_def map_olm_def map_store_def nextBatchToken_def sync_fields)

lemma handled_sync:
  assumes "ss_open (cl_store cl)" and "nextBatchToken (cl_store cl) = Some since"
  shows "nextBatchToken (cl_store (handleSyncResponse en None now ms shown res since cl)) = Some (sy_next_batch (sn_rooms res))"
    and "ss_open (cl_store (handleSyncResponse en None now ms shown res since cl))"
    and "TrySync \<in> set (cl_pending (handleSyncResponse en None now ms shown res since cl))"
proof -
  let ?cl1 = "ensureOneTimeKeyCount en (sn_key_counts res) (sn_unused_fallback res) cl"
  have h: "handleSyncResponse en None now ms shown res since cl = wait_for [TrySync] (apply_sync en None now ms shown res ?cl1)"
    using assms(2) by (simp add: handleSyncResponse_def)
  have g: "grows (save_sync en (sn_rooms res) ?cl1) (handleSyncResponse en None now ms shown res since cl)"
    unfolding h by (rule grows_trans [OF grows_apply(1) grows_wait])
  have o1: "ss_open (cl_store ?cl1)" using assms(1) open_grows [OF grows_ensure [of cl]] by simp
  show "nextBatchToken (cl_store (handleSyncResponse en None now ms shown res since cl)) = Some (sy_next_batch (sn_rooms res))"
    using token_grows [OF g] token_save [OF o1] by simp
  show "ss_open (cl_store (handleSyncResponse en None now ms shown res since cl))"
    using open_grows [OF g] o1 by simp
  show "TrySync \<in> set (cl_pending (handleSyncResponse en None now ms shown res since cl))"
    by (simp add: h wait_for_def)
qed

lemma initial_applied:
  assumes "ss_open (cl_store cl)"
  shows "nextBatchToken (cl_store (initial_sync_arrived en None now ms res cl)) = Some (sy_next_batch (sn_rooms res))"
    and "ss_open (cl_store (initial_sync_arrived en None now ms res cl))"
    and "TrySync \<in> set (cl_pending (initial_sync_arrived en None now ms res cl))"
  using token_grows [OF grows_initial_applied [of en res cl now ms]] open_grows [OF grows_initial_applied [of en res cl now ms]]
    assms token_save [OF assms]
  by (simp_all add: initial_sync_arrived_def wait_for_def own_profile_def show_effects_def)

lemma syncs_in_zero: "nextBatchToken (cl_store cl) = Some (sy_next_batch (sn_rooms res)) \<Longrightarrow> syncs_in 0 en res cl"
  unfolding syncs_in_def by (rule exI [of _ "[]"]) simp

lemma syncs_from_arrived:
  assumes "ss_open (cl_store cl)" and "nextBatchToken (cl_store cl) = Some since" and "SyncArrived res since \<in> set (cl_pending cl)"
  shows "syncs_in 1 en res cl"
  unfolding One_nat_def
  by (rule syncs_in_deliver [OF assms(3), of Elapsed]) (use assms in \<open>simp_all add: syncs_in_zero handled_sync(1)\<close>)

lemma syncs_from_sent:
  assumes "ss_open (cl_store cl)" and "nextBatchToken (cl_store cl) = Some since" and "SyncSent since \<in> set (cl_pending cl)"
  shows "syncs_in 2 en res cl"
proof -
  have "syncs_in 1 en res (deliver en (SyncSent since) (SyncReply res) None 0 0 (\<lambda>_. []) (cl\<lparr>cl_pending := ps\<rparr>))" for ps
    by (rule syncs_from_arrived) (use assms in \<open>auto simp: sync_reply_def reply_result_def wait_for_def\<close>)
  then have "syncs_in (Suc 1) en res cl"
    by (intro syncs_in_deliver [OF assms(3), of "SyncReply res"]) (simp_all del: deliver.simps)
  then show ?thesis by (simp add: numeral_2_eq_2)
qed

lemma syncs_from_try:
  assumes "ss_open (cl_store cl)" and "p \<in> {TrySync, DelayedSync}" and "p \<in> set (cl_pending cl)"
  shows "syncs_in 3 en res cl"
proof -
  obtain since where t: "nextBatchToken (cl_store cl) = Some since" using assms(1) by (simp add: nextBatchToken_def)
  have "syncs_in 2 en res (deliver en p Elapsed None 0 0 (\<lambda>_. []) (cl\<lparr>cl_pending := ps\<rparr>))" for ps
    by (rule syncs_from_sent [of _ since]) (use assms(1,2) t in \<open>auto simp: trySync_def wait_for_def\<close>)
  then have "syncs_in (Suc 2) en res cl"
    using assms(2) by (intro syncs_in_deliver [OF assms(3), of Elapsed]) (auto simp del: deliver.simps)
  then show ?thesis by (simp add: numeral_3_eq_3 numeral_2_eq_2)
qed

lemma syncs_from_initial_arrived:
  assumes "ss_open (cl_store cl)" and "InitialSyncArrived res \<in> set (cl_pending cl)"
  shows "syncs_in (Suc 0) en res cl"
  by (rule syncs_in_deliver [OF assms(2), of Elapsed]) (use assms(1) in \<open>simp_all add: syncs_in_zero initial_applied(1)\<close>)

lemma syncs_from_initial:
  assumes "ss_open (cl_store cl)" and "InitialSyncSent \<in> set (cl_pending cl)"
  shows "syncs_in 2 en res cl"
proof -
  have "syncs_in (Suc 0) en res (deliver en InitialSyncSent (SyncReply res) None 0 0 (\<lambda>_. []) (cl\<lparr>cl_pending := ps\<rparr>))" for ps
    by (rule syncs_from_initial_arrived) (use assms in \<open>auto simp: initial_sync_reply_def reply_result_def wait_for_def\<close>)
  then have "syncs_in (Suc (Suc 0)) en res cl"
    by (intro syncs_in_deliver [OF assms(2), of "SyncReply res"]) (simp_all del: deliver.simps)
  then show ?thesis by (simp add: numeral_2_eq_2)
qed

lemma syncs_in_four: "goes_on cl \<Longrightarrow> syncs_in 4 en res cl"
proof -
  assume "goes_on cl"
  then obtain p where o1: "ss_open (cl_store cl)" and p: "p \<in> set (cl_pending cl)" "drives (nextBatchToken (cl_store cl)) p"
    by (auto simp: goes_on_def)
  have four: "syncs_in 4 en res cl" if "syncs_in (Suc 3) en res cl" using that by (simp add: eval_nat_numeral)
  have after: "syncs_in 4 en res cl"
    if "fits p Elapsed" "\<And>ps. ss_open (cl_store (deliver en p Elapsed None 0 0 (\<lambda>_. []) (cl\<lparr>cl_pending := ps\<rparr>)))"
      "\<And>ps. TrySync \<in> set (cl_pending (deliver en p Elapsed None 0 0 (\<lambda>_. []) (cl\<lparr>cl_pending := ps\<rparr>)))"
    by (rule four, rule syncs_in_deliver [OF p(1) that(1)]) (use syncs_from_try that in blast)+
  show ?thesis
  proof (cases p)
    case (SyncArrived res' since)
    then show ?thesis using p o1 by (intro after) (simp_all add: handled_sync)
  next
    case (InitialSyncArrived res')
    then show ?thesis using p o1 by (intro after) (simp_all add: initial_applied)
  next
    case (SyncSent since)
    then show ?thesis using p o1 syncs_from_sent syncs_in_more [of 2 en res cl 4] by auto
  next
    case InitialSyncSent
    then show ?thesis using p o1 syncs_from_initial syncs_in_more [of 2 en res cl 4] by auto
  next
    case (KeysSent u)
    then have u: "p = KeysSent FirstUpload" using p(2) by (cases u) auto
    have "syncs_in 2 en res (deliver en p (KeyCounts fmempty) None 0 0 (\<lambda>_. []) (cl\<lparr>cl_pending := ps\<rparr>))" for ps
    proof (rule syncs_from_initial)
      have "grows (cl\<lparr>cl_pending := ps\<rparr>) (startInitialSync (own_keys_out_of_date en (publish_keys en (cl\<lparr>cl_pending := ps\<rparr>))))"
        by (rule grows_upload_reply) (rule grows_publish)
      then show "ss_open (cl_store (deliver en p (KeyCounts fmempty) None 0 0 (\<lambda>_. []) (cl\<lparr>cl_pending := ps\<rparr>)))"
        using o1 open_grows by (fastforce simp: u reply_error_def first_upload_reply_def)
      show "InitialSyncSent \<in> set (cl_pending (deliver en p (KeyCounts fmempty) None 0 0 (\<lambda>_. []) (cl\<lparr>cl_pending := ps\<rparr>)))"
        by (simp add: u reply_error_def first_upload_reply_def startInitialSync_def wait_for_def)
    qed
    then have "syncs_in (Suc 2) en res cl"
      using u by (intro syncs_in_deliver [OF p(1), of "KeyCounts fmempty"]) (simp_all del: deliver.simps)
    then show ?thesis by (rule syncs_in_more) simp
  qed (use p o1 syncs_from_try syncs_in_more [of 3 en res cl 4] in auto)
qed

section \<open>Runs of the client\<close>

lemma adds_deliver: "adds cl (deliver en p r fail now ms shown cl)"
proof (cases rule: deliver_cases [of cl en p r fail now ms shown])
  case (2 res cl1)
  then show ?thesis by (auto simp: grows_def adds_def save_sync_def map_olm_def)
next
  case (3 msg args)
  then show ?thesis using leaves_drop [of cl msg args] by (auto simp: leaves_account_def adds_def)
next
  case 4
  then show ?thesis using leaves_logout [of cl] by (auto simp: leaves_account_def adds_def)
next
  case (5 u d h t)
  then show ?thesis using leaves_login [of cl u d h t] by (auto simp: leaves_account_def adds_def)
qed (rule adds_grows)

lemma adds_trans: "adds cl cl1 \<Longrightarrow> adds cl1 cl2 \<Longrightarrow> adds cl cl2"
  by (auto simp: adds_def)

lemma adds_leaves: "leaves_account cl cl' \<Longrightarrow> adds cl cl'"
  by (auto simp: leaves_account_def adds_def)

lemma started_goes_on: "started cl cl' \<Longrightarrow> adds cl cl' \<and> (goes_on cl' \<or> leaves_account cl cl')"
proof -
  assume "started cl cl'"
  then consider cl1 p where "reopens cl cl1" "grows cl1 cl'" "p \<in> {TrySync, KeysSent FirstUpload}" "p \<in> set (cl_pending cl')"
    | cl1 msg args where "adds cl cl1" "cl' = drop_to_login msg args cl1"
    unfolding started_def by blast
  then show ?thesis
  proof cases
    case 1
    then have "ss_open (cl_store cl')" using open_grows [OF 1(2)] by (simp add: reopens_def)
    then have "goes_on cl'" using 1 goes_on_wait [of cl' p] by blast
    moreover have "adds cl cl'" using 1 adds_trans [OF _ adds_grows] by (auto simp: reopens_def)
    ultimately show ?thesis by blast
  next
    case 2
    then show ?thesis using leaves_after [OF 2(1) leaves_drop] adds_leaves by blast
  qed
qed

lemma adds_step:
  assumes "quiet_migrations en"
  shows "adds cl (client_step en cl op)"
proof (cases op)
  case (Start account opens user token)
  then show ?thesis using started_goes_on [OF started_start [OF assms]] by simp
next
  case (Deliver i r fail now ms shown)
  then show ?thesis
    using adds_deliver [of "cl\<lparr>cl_pending := remove_at i (cl_pending cl)\<rparr>"]
    by (auto simp: deliver_at_def adds_def simp del: deliver.simps)
qed (rule adds_grows [OF grows_client_step]; simp)+

lemma remove_at_member: "i < length xs \<Longrightarrow> x \<in> set xs \<Longrightarrow> x = xs ! i \<or> x \<in> set (remove_at i xs)"
  unfolding remove_at_def by (metis append_take_drop_id Cons_nth_drop_Suc Un_iff set_ConsD set_append)

lemma goes_on_step:
  assumes "quiet_migrations en" and "goes_on cl"
  shows "goes_on (client_step en cl op) \<or> leaves_account cl (client_step en cl op)"
proof (cases op)
  case (Start account opens user token)
  then show ?thesis using started_goes_on [OF started_start [OF assms(1)]] by simp
next
  case (Deliver i r fail now ms shown)
  let ?cl1 = "cl\<lparr>cl_pending := remove_at i (cl_pending cl)\<rparr>" and ?p = "cl_pending cl ! i"
  have same: "leaves_account ?cl1 cl' \<longleftrightarrow> leaves_account cl cl'" for cl' by (simp add: leaves_account_def)
  show ?thesis
  proof (cases "i < length (cl_pending cl) \<and> fits ?p r")
    case True
    obtain q where q: "q \<in> set (cl_pending cl)" "drives (nextBatchToken (cl_store cl)) q"
      using assms(2) by (auto simp: goes_on_def)
    have "goes_on ?cl1 \<or> drives (nextBatchToken (cl_store cl)) ?p"
      using remove_at_member [of i "cl_pending cl" q] q True assms(2) by (auto simp: goes_on_def)
    then have "goes_on (deliver en ?p r fail now ms shown ?cl1) \<or> leaves_account ?cl1 (deliver en ?p r fail now ms shown ?cl1)"
      using goes_on_deliver_other [of ?cl1 en ?p r fail now ms shown]
        goes_on_deliver_driver [of ?cl1 ?p en r fail now ms shown] assms(2) by (auto simp: goes_on_def)
    then show ?thesis using True by (simp add: Deliver deliver_at_def same del: deliver.simps)
  next
    case False
    have "client_step en cl (Deliver i r fail now ms shown) = cl"
      using False by (auto simp: deliver_at_def simp del: deliver.simps)
    then show ?thesis using assms(2) by (simp add: Deliver)
  qed
qed (rule disjI1, rule goes_on_grows [OF grows_client_step assms(2)]; simp)+

definition on_course :: "('a, 'c) client \<Rightarrow> ('a, 'c) client \<Rightarrow> bool" where
  "on_course cl0 cl \<longleftrightarrow> leaves_account cl0 cl \<or> adds cl0 cl \<and> goes_on cl"

lemma on_course_step:
  "quiet_migrations en \<Longrightarrow> on_course cl0 cl \<Longrightarrow> on_course cl0 (client_step en cl op)"
  unfolding on_course_def
  using goes_on_step [of en cl op] adds_step [of en cl op] leaves_before [of cl0 cl "client_step en cl op"]
    leaves_after [of cl0 cl "client_step en cl op"] adds_trans [of cl0 cl "client_step en cl op"] by blast

interpretation cl: invariant_machine "client_step en" "\<lambda>cl. quiet_migrations en \<longrightarrow> on_course cl0 cl" for en cl0
  by unfold_locales (auto intro: on_course_step)

interpretation clv: invariant_machine "client_step en" "\<lambda>cl. quiet_migrations en \<longrightarrow> views_agree cl" for en
  by unfold_locales (auto intro: views_step)

section \<open>The properties of the client\<close>

lemma members_grows: "grows cl cl' \<Longrightarrow> rd_members (db_of r (cl_rooms cl')) = rd_members (db_of r (cl_rooms cl))"
  by (auto simp: grows_def rooms_part_def dest: fun_cong)



text \<open>A new client with an account that is given; every text is translated to itself.\<close>

definition demo_client_env :: "(string, string, string, string, string) client_env" where
  "demo_client_env =
     \<lparr>ce_olm = demo_olm_env JNull DeOther, ce_rooms = room_demo_env, ce_timelines = demo_tn,
      ce_load_account = (\<lambda>k t. Some t), ce_generate = (\<lambda>n b a. a), ce_published = id, ce_forget_fallback = id,
      ce_upload = id, ce_public_key = id, ce_migrations = [], ce_tr = id, ce_offline = ''offline''\<rparr>"

definition demo_client :: "(string, string) client" where
  "demo_client =
     \<lparr>cl_olm = \<lparr>os_store = new_session_store, os_keys = new_key_store, os_account = [], os_requests = fmempty,
        os_rate_limit = fmempty, os_effects = []\<rparr>,
      cl_rooms = new_room_cache, cl_timelines = fmempty,
      cl_settings = \<lparr>ut_profile = [], ut_values = (\<lambda>s. VString []), ut_presence = AutomaticPresence,
        ut_stored = fmempty, ut_signals = []\<rparr>,
      cl_initial_sync = True, cl_connected = True, cl_timer = False, cl_access_token = [],
      cl_fallback_connected = False, cl_sync_counter = 0, cl_presences = fmempty, cl_pending = [],
      cl_effects = []\<rparr>"

definition demo_sync :: sync where
  "demo_sync = \<lparr>sn_rooms = leaving, sn_timelines = fmempty, sn_to_device = [], sn_key_counts = fmempty,
     sn_unused_fallback = None\<rparr>"

lemma effects_first_start:
  "\<exists>k. cl_effects (first_start en (Some a) cl) = cl_effects cl @ [GetProfile (oe_user_id (ce_olm en)), UploadKeys k]"
  by (simp add: first_start_def tryInitialSync_def upload_keys_def generate_keys_def getBackupVersion_def
      wait_for_def show_effects_def map_olm_def Let_def)



end
