(* ===== verification/Client_Properties.thy ===== *)
theory Client_Properties
  imports Client_Loop
begin

text \<open>
  What the client signs when the user unlocks the secrets of the account, how many one-time keys it
  makes, which notifications it shows, and what a failure of the database or a logout leaves behind.
\<close>

section \<open>Signatures with downloaded secrets\<close>

text \<open>A request signs our own device as we know it, or our own master key with the secret that belongs
to it.\<close>

definition signs_only_own ::
  "('i, 'g, 'o, 'a, 'c) olm_env \<Rightarrow> secrets_lib \<Rightarrow> user_key_cache option \<Rightarrow> (string \<Rightarrow> bool) \<Rightarrow> signature_request \<Rightarrow> bool"
where
  "signs_only_own env lib keys downloaded req \<longleftrightarrow>
     (\<forall>d k. fmlookup (fst req) d = Some k \<longrightarrow>
        d = oe_device_id env \<and> is_own_device env k \<and>
        (\<exists>ks k0. keys = Some ks \<and> fmlookup (uk_device_keys ks) d = Some k0
           \<and> k\<lparr>dk_signatures := dk_signatures k0\<rparr> = k0))
     \<and> (\<forall>p k. fmlookup (snd req) p = Some k \<longrightarrow>
        csk_user_id k = oe_user_id env \<and>
        (case fmlookup (csk_keys k) (''ed25519:'' @ p) of None \<Rightarrow> [] | Some x \<Rightarrow> x) = p \<and>
        (\<exists>seed. downloaded seed \<and> p = sl_public_key lib seed) \<and>
        (\<exists>ks. keys = Some ks \<and> k\<lparr>csk_signatures := csk_signatures (uk_master_keys ks)\<rparr> = uk_master_keys ks))"

lemma signs_only_own_empty: "signs_only_own env lib keys downloaded (fmempty, fmempty)"
  by (simp add: signs_only_own_def)

lemma signs_only_own_sign:
  assumes "signs_only_own env lib keys downloaded req"
    and "name = ''m.cross_signing.master'' \<Longrightarrow> downloaded seed"
  shows "signs_only_own env lib keys downloaded (sign_with_secret env lib keys name seed req)"
proof (cases keys)
  case None
  then show ?thesis using assms by (simp add: sign_with_secret_def)
next
  case (Some ks)
  consider "name = ''m.cross_signing.self_signing''" | "name = ''m.cross_signing.master''"
    | "name \<noteq> ''m.cross_signing.self_signing''" "name \<noteq> ''m.cross_signing.master''" by blast
  then show ?thesis
  proof cases
    case 1
    have "is_own_device env (sign_own_device env lib seed k) = is_own_device env k" for k
      by (simp add: is_own_device_def sign_own_device_def)
    moreover have "(sign_own_device env lib seed k)\<lparr>dk_signatures := dk_signatures k\<rparr> = k" for k
      by (simp add: sign_own_device_def)
    ultimately show ?thesis
      using assms(1) Some 1
      by (cases "fmlookup (uk_device_keys ks) (oe_device_id env)")
        (auto simp: sign_with_secret_def signs_only_own_def)
  next
    case 2
    have "(sign_master_key env lib k)\<lparr>csk_signatures := csk_signatures k\<rparr> = k"
      "csk_user_id (sign_master_key env lib k) = csk_user_id k" "csk_keys (sign_master_key env lib k) = csk_keys k" for k
      by (simp_all add: sign_master_key_def Let_def)
    then show ?thesis
      using assms Some 2 by (auto simp: sign_with_secret_def signs_only_own_def Let_def)
  qed (use assms Some in \<open>simp add: sign_with_secret_def\<close>)
qed

text \<open>C23: When the user unlocks the secrets of the account, the client uploads signatures only of its own
device, if our list of devices names it with the very keys it has, and of our own master key, if the
downloaded secret is the one of that key; what is signed is what the list of keys says, with nothing
but the signatures changed.\<close>

theorem only_own_keys_are_signed:
  assumes "cl_effects (decryptDownloadedSecrets en lib recoveryKey secrets cl) = cl_effects cl @ es"
    and "UploadSignatures devices cross \<in> set es"
  shows "\<exists>key. signs_only_own (ce_olm en) lib (fmlookup (ks_user_keys (os_keys (cl_olm cl))) (oe_user_id (ce_olm en)))
     (\<lambda>seed. \<exists>c. fmlookup secrets ''m.cross_signing.master'' = Some c
        \<and> seed = sl_decrypt lib c key ''m.cross_signing.master'') (devices, cross)"
proof -
  let ?keys = "fmlookup (ks_user_keys (os_keys (cl_olm cl))) (oe_user_id (ce_olm en))"
  define own where "own key = signs_only_own (ce_olm en) lib ?keys (\<lambda>seed. \<exists>c. fmlookup secrets ''m.cross_signing.master'' = Some c
      \<and> seed = sl_decrypt lib c key ''m.cross_signing.master'')" for key
  have fold: "own key (snd (fold (store_downloaded (ce_olm en) lib ?keys key) xs acc))"
    if "own key (snd acc)" "set xs \<subseteq> set (sorted_list_of_fmap secrets)" for key xs and acc :: "session_store \<times> signature_request"
    using that
  proof (induction xs arbitrary: acc)
    case (Cons x xs)
    have "own key (snd (store_downloaded (ce_olm en) lib ?keys key x acc))"
      using Cons.prems unfolding own_def store_downloaded_def
      by (cases x) (auto simp: Let_def intro!: signs_only_own_sign)
    then show ?case using Cons by simp
  qed simp
  have signed: "own key (snd (fold (store_downloaded (ce_olm en) lib ?keys key) (sorted_list_of_fmap secrets) (cl_store cl, fmempty, fmempty)))" for key
    by (rule fold) (simp_all add: own_def signs_only_own_empty)
  define opened where "opened = (case sl_from_recovery_key lib recoveryKey of
      Some k \<Rightarrow> Some k
    | None \<Rightarrow> if sl_has_passphrase lib then sl_from_passphrase lib recoveryKey else None)"
  define result where "result key = fold (store_downloaded (ce_olm en) lib ?keys key) (sorted_list_of_fmap secrets) (cl_store cl, fmempty, fmempty)" for key
  have d: "decryptDownloadedSecrets en lib recoveryKey secrets cl =
      (if recoveryKey = [] then cl
       else case opened of
         None \<Rightarrow> show_effects [PassphraseFailed ''Failed to decrypt secrets with the provided recovery key or passphrase''] cl
       | Some key \<Rightarrow> show_effects (if snd (result key) = (fmempty, fmempty) then []
             else [UploadSignatures (fst (snd (result key))) (snd (snd (result key)))])
           (map_olm (\<lambda>st. st\<lparr>os_store := fst (result key)\<rparr>) cl))"
    by (simp only: decryptDownloadedSecrets_def opened_def result_def Let_def case_prod_beta)
  have "recoveryKey \<noteq> []" and "opened \<noteq> None"
    using assms by (cases opened; auto simp: d show_effects_def split: if_splits)+
  then obtain key where "opened = Some key" by blast
  then have "(devices, cross) = snd (result key)"
    using assms \<open>recoveryKey \<noteq> []\<close> by (auto simp: d show_effects_def map_olm_def split: if_splits)
  then have "own key (devices, cross)" using signed [of key] by (simp add: result_def)
  then show ?thesis unfolding own_def by blast
qed

text \<open>The secret opens with the key; it signs our device, which the list of keys names.\<close>

definition demo_secrets_lib :: secrets_lib where
  "demo_secrets_lib = \<lparr>sl_from_recovery_key = Some, sl_from_passphrase = (\<lambda>p. None), sl_has_passphrase = False,
     sl_decrypt = (\<lambda>c k n. c), sl_public_key = id, sl_pk_sign = (\<lambda>k t. k), sl_olm_sign = id,
     sl_dump_device = (\<lambda>k. []), sl_dump_cross = (\<lambda>k. [])\<rparr>"

lemma only_own_keys_are_signed_witness:
  "\<exists>devices cross key. fmlookup devices ''A'' \<noteq> None
     \<and> signs_only_own (ce_olm demo_client_env) demo_secrets_lib (Some demo_own_keys)
         (\<lambda>seed. \<exists>c. fmlookup (fmap_of_list [(''m.cross_signing.self_signing'', ''sa'')]) ''m.cross_signing.master'' = Some c
            \<and> seed = sl_decrypt demo_secrets_lib c key ''m.cross_signing.master'') (devices, cross)"
proof -
  let ?cl = "demo_client\<lparr>cl_olm := demo_own_state\<rparr>"
  let ?secrets = "fmap_of_list [(''m.cross_signing.self_signing'', ''sa'')]"
  have keys: "fmlookup (ks_user_keys (os_keys demo_own_state)) (oe_user_id (ce_olm demo_client_env)) = Some demo_own_keys"
    by (simp add: demo_own_state_def demo_client_env_def demo_olm_env_def demo_key_env_def)
  have dev: "fmlookup (uk_device_keys demo_own_keys) (oe_device_id (ce_olm demo_client_env)) = Some (demo_device ''a'' ''A'' ''A-key'')"
    by (simp add: demo_own_keys_def demo_client_env_def demo_olm_env_def demo_key_env_def)
  have own: "is_own_device (ce_olm demo_client_env) (demo_device ''a'' ''A'' ''A-key'')"
    by (simp add: is_own_device_def demo_device_def demo_client_env_def demo_olm_env_def demo_key_env_def)
  have single: "sorted_list_of_fmap ?secrets = [(''m.cross_signing.self_signing'', ''sa'')]"
    by (simp add: sorted_list_of_fmap_def sorted_list_of_fset.rep_eq)
  have lib: "sl_from_recovery_key demo_secrets_lib x = Some x" "sl_decrypt demo_secrets_lib c x y = c" for x c y
    by (simp_all add: demo_secrets_lib_def)
  let ?devices = "fmupd (oe_device_id (ce_olm demo_client_env))
      (sign_own_device (ce_olm demo_client_env) demo_secrets_lib ''sa'' (demo_device ''a'' ''A'' ''A-key'')) fmempty"
  have "cl_effects (decryptDownloadedSecrets demo_client_env demo_secrets_lib ''key'' ?secrets ?cl)
      = cl_effects ?cl @ [UploadSignatures ?devices fmempty]"
    using dev own single
    by (simp add: decryptDownloadedSecrets_def keys store_downloaded_def sign_with_secret_def lib show_effects_def map_olm_def Let_def)
  then show ?thesis
    using only_own_keys_are_signed [of demo_client_env demo_secrets_lib "''key''" ?secrets ?cl _ ?devices fmempty] keys
    by (intro exI [of _ ?devices] exI [of _ fmempty])
      (simp add: demo_client_env_def demo_olm_env_def demo_key_env_def)
qed

section \<open>One-time keys\<close>

text \<open>When the server tells how many one-time keys it has left, the client makes exactly as many as
are missing to fifty and uploads once, with a new fallback key exactly if the server says the last one
was used; with fifty to a hundred keys and an unused fallback key it does nothing, and with more it
claims one of its own keys to have the server drop it.\<close>

theorem key_count_is_kept:
  assumes "fmlookup counts SIGNED_CURVE25519 = Some count"
    and "replace \<longleftrightarrow> (\<exists>ks. unused = Some ks \<and> SIGNED_CURVE25519 \<notin> set ks)"
    and "cl' = ensureOneTimeKeyCount en counts unused cl"
  shows "\<not> unat count < 50 \<longrightarrow> \<not> replace \<longrightarrow> unat count \<le> 100 \<longrightarrow> cl' = cl"
    and "unat count > 100 \<longrightarrow> \<not> replace \<longrightarrow>
       cl_olm cl' = cl_olm cl \<and> cl_pending cl' = cl_pending cl
       \<and> cl_effects cl' = cl_effects cl @ [ClaimOwnKey (oe_user_id (ce_olm en)) (oe_device_id (ce_olm en))]"
    and "unat count < 50 \<or> replace \<longrightarrow>
       (\<exists>n. n = (if unat count < 50 then 50 - unat count else 0)
          \<and> os_account (cl_olm cl') = ce_generate en n replace (os_account (cl_olm cl))
          \<and> cl_effects cl' = cl_effects cl @ [UploadKeys (ce_upload en (os_account (cl_olm cl')))]
          \<and> cl_pending cl' = cl_pending cl @ [KeysSent (EnsureUpload replace)])"
  using assms(1) unfolding assms(2,3) ensureOneTimeKeyCount_def
  by (auto simp: Let_def upload_keys_def generate_keys_def map_olm_def map_account_def wait_for_def
      show_effects_def MAX_ONETIME_KEYS_def split: option.split)

section \<open>Notifications\<close>

lemma notify_items_shown:
  assumes "fold notify_item items (c, shown) = (c', shown')" and "\<forall>n \<in> set items. \<not> ni_read n"
    and "distinct shown" and "set shown \<subseteq> fset (rc_notifications c)"
  shows "distinct shown' \<and> rc_notifications c' = rc_notifications c |\<union>| fset_of_list (map ni_event_id items)
     \<and> set shown' = set shown \<union> (ni_event_id ` set items - fset (rc_notifications c))"
  using assms
proof (induction items arbitrary: c shown)
  case (Cons n items)
  obtain c1 shown1 where step: "notify_item n (c, shown) = (c1, shown1)" by (cases "notify_item n (c, shown)")
  then have one: "rc_notifications c1 = finsert (ni_event_id n) (rc_notifications c)"
    "shown1 = (if ni_event_id n |\<in>| rc_notifications c then shown else shown @ [ni_event_id n])"
    using Cons.prems(2) by (auto simp: notify_item_def markSentNotification_def split: if_splits)
  have "distinct shown1" "set shown1 \<subseteq> fset (rc_notifications c1)" using one Cons.prems(3,4) by auto
  then have "distinct shown' \<and> rc_notifications c' = rc_notifications c1 |\<union>| fset_of_list (map ni_event_id items)
     \<and> set shown' = set shown1 \<union> (ni_event_id ` set items - fset (rc_notifications c1))"
    using Cons.prems(1,2) step by (intro Cons.IH) auto
  then show ?case using one by auto
qed simp

text \<open>Of unread notifications exactly those are shown that were not shown before, each once, even if
the server lists one several times; all of them are remembered.\<close>

theorem notifications_are_shown_once:
  assumes "\<forall>n \<in> set items. \<not> ni_read n"
  obtains shown where "distinct shown"
    and "set shown = ni_event_id ` set items - fset (rc_notifications (cl_rooms cl))"
    and "cl_effects (sendNotifications items cl) = cl_effects cl @ (if shown = [] then [] else [NewNotifications shown])"
    and "fset (rc_notifications (cl_rooms (sendNotifications items cl)))
       = fset (rc_notifications (cl_rooms cl)) \<union> ni_event_id ` set items"
proof -
  obtain c' shown where f: "fold notify_item items (cl_rooms cl, []) = (c', shown)"
    by (cases "fold notify_item items (cl_rooms cl, [])")
  show ?thesis
    using notify_items_shown [OF f assms] by (intro that [of shown]) (auto simp: sendNotifications_def f show_effects_def fset_of_list.rep_eq)
qed

section \<open>What a failure and a logout leave\<close>

text \<open>When handling a sync fails after it was saved, the token is the new one all the same: the
messages to our device that were not handled yet have no effect, now or later.\<close>

theorem failure_loses_messages:
  assumes "ss_open (cl_store cl)" and "nextBatchToken (cl_store cl) = Some prev"
  shows "nextBatchToken (cl_store (handleSyncResponse en (Some (LaterFails n full)) now ms shown res prev cl))
       = Some (sy_next_batch (sn_rooms res))"
    and "handleSyncResponse en (Some (LaterFails n full)) now ms shown res prev cl
       = handleSyncResponse en (Some (LaterFails n full)) now ms shown
           (res\<lparr>sn_to_device := take n (sn_to_device res)\<rparr>) prev cl"
proof -
  let ?cl1 = "ensureOneTimeKeyCount en (sn_key_counts res) (sn_unused_fallback res) cl"
  let ?cl' = "handleSyncResponse en (Some (LaterFails n full)) now ms shown res prev cl"
  have "grows (save_sync en (sn_rooms res) ?cl1) ?cl'"
    using assms(2) grows_trans [OF grows_apply(2) grows_wait] by (simp add: handleSyncResponse_def)
  then show "nextBatchToken (cl_store ?cl') = Some (sy_next_batch (sn_rooms res))"
    using token_grows token_save [of ?cl1 en] open_grows [OF grows_ensure [of cl]] assms(1) by metis
  show "?cl' = handleSyncResponse en (Some (LaterFails n full)) now ms shown
           (res\<lparr>sn_to_device := take n (sn_to_device res)\<rparr>) prev cl"
    by (simp add: handleSyncResponse_def apply_sync_def)
qed

text \<open>A logout leaves the controllers of the rooms and the access token of the connection as they
were; dropping to the login leaves the flag of the initial sync, too.\<close>

theorem logout_keeps_controllers:
  "cl_timelines (logoutCb cl) = cl_timelines cl" "cl_access_token (logoutCb cl) = cl_access_token cl"
  "cl_timelines (drop_to_login msg args cl) = cl_timelines cl"
  "cl_initial_sync (drop_to_login msg args cl) = cl_initial_sync cl"
  by (simp_all add: logoutCb_def drop_to_login_def dropToLoginCb_def deleteConfigs_def changeInitialSyncStatge_def
      show_effects_def map_olm_def Let_def)

end
