(* ===== verification/Spec2Isabelle.thy ===== *)
theory Spec2Isabelle
  imports Prelude Crypto_Types Verification_Flow Verification_Flow_Safety
    Verification_Flow_Agreement Verification_Manager Verification_Manager_Safety Self_Verification
    Timeline_Store Timeline_Invariant Timeline_Properties User_Keys User_Keys_Safety
    Cache_Json Session_Store Session_Store_Safety Session_Store_Properties Session_Transfer
    Session_Lifecycle Olm_Client Olm_Receiving Group_Encryption Olm_Safety Olm_Properties Olm_Access
    Key_Claims Group_Properties Event_Store Event_Sync Event_Queue Event_Safety
    Call_Session Call_Manager Call_Safety Call_Properties
    Room_State Room_Spaces Room_Sync Room_Replay Room_Space_Tables Room_Packs Room_Machine
    Room_Invariants Room_Properties Room_Behaviour
    Timeline_Control Timeline_Control_Properties Timeline_Control_Behaviour
    User_Settings User_Settings_Properties
    Client_State Client_Sync Client_Rooms Client_Invariants Client_Views Client_Loop Client_Properties
begin

text \<open>
  A model of the core of nheko-library, a Matrix client library in C++, with the properties that
  make it correct.

  \<^bold>\<open>The program.\<close> \<open>src/src/Cache.cpp\<close> is the database (LMDB) behind everything: the timeline of each
  room, the keys of users and devices, the Olm and Megolm sessions and the secrets.
  \<open>src/src/encryption/Olm.cpp\<close> drives end-to-end encryption on top of it: it sends to devices, handles
  to-device messages, encrypts and decrypts room messages, answers and makes key and secret requests.
  \<open>src/src/encryption/DeviceVerificationFlow.cpp\<close> is one interactive verification,
  \<open>VerificationManager.cpp\<close> the table of the running ones, \<open>SelfVerificationStatus.cpp\<close> the state of our
  own cross-signing. The two machine interfaces of the development (states that are stepped, with an
  invariant; the same with a log of effects) are the locales of \<open>Prelude\<close>; each component interprets
  them on its own step function and takes its lemmas about runs from there.

  \<^bold>\<open>Data.\<close> A \<open>std::map\<close> and a database table are finite maps, walked in key order by
  \<open>sorted_list_of_fmap\<close>; strings are compared byte by byte as \<open>std::string\<close> does; 64-bit and 32-bit
  integers are words, so that wrap-around is the one of the code. An exception that undoes a
  transaction is \<open>None\<close>; errors a function reports are constructors of a result type. Network requests
  and signals are appended to a list of effects, and their callbacks are operations of their own, so
  that they may come in any order or never. Random values, ids and clock readings are arguments.

  \<^bold>\<open>Theories.\<close>

  \<^item> \<open>Prelude\<close>: tables, runs of a machine, guarded runs, logs, loops that may throw.
  \<^item> \<open>Crypto_Types\<close>: keys, signatures and trust levels (\<open>CacheCryptoStructs.h\<close>), the relations of events.
  \<^item> \<open>Verification_Flow\<close>: the state and all handlers of a flow; \<open>Verification_Flow_Safety\<close>: what every run
    of a flow keeps (messages sent once, a device verified only after confirmation and right MACs, the
    string shown only after the commitment was checked); \<open>Verification_Flow_Agreement\<close>: the two ends
    together (MACs accepted or rejected, equal strings, glare).
  \<^item> \<open>Verification_Manager\<close>, \<open>Verification_Manager_Safety\<close>: flows as shared objects and the list of them.
  \<^item> \<open>Self_Verification\<close>: the status of our own user and the steps to set up and verify it.
  \<^item> \<open>Timeline_Store\<close>: the tables of one room (\<open>saveTimelineMessages\<close>, \<open>saveOldMessages\<close>, pending
    messages, expiry, lookups); \<open>Timeline_Invariant\<close>: the order tables stay inverse to each other;
    \<open>Timeline_Properties\<close>: echoes, pages, expiry.
  \<^item> \<open>User_Keys\<close>, \<open>User_Keys_Safety\<close>: device lists, their updates, verification marks and the status
    computed from signatures, with its cache.
  \<^item> \<open>Cache_Json\<close>: the stored records as JSON and back.
  \<^item> \<open>Session_Store\<close>: sessions, settings and secrets, export and import, migrations;
    \<open>Session_Store_Safety\<close>: the invariant; \<open>Session_Store_Properties\<close>, \<open>Session_Transfer\<close>,
    \<open>Session_Lifecycle\<close>: restarts, first known indices, export and import, logout, outbound and Olm
    sessions.
  \<^item> \<open>Olm_Client\<close> (sending to devices, claimed and queried keys), \<open>Olm_Receiving\<close> (Olm messages, room
    keys, key and secret requests, online backup) and \<open>Group_Encryption\<close> (room messages; the step
    function \<open>olm_step\<close> over everything that drives the client): \<open>Olm.cpp\<close>, on the state of the session
    store and the key store.
  \<^item> \<open>Olm_Safety\<close>: the session store moves only by its own guarded operations, and what functions that
    only send leave alone; \<open>Olm_Properties\<close>, \<open>Olm_Access\<close>: who may cause what; \<open>Key_Claims\<close>: how often
    one-time keys are claimed; \<open>Group_Properties\<close>: when a session is kept, replays, recorded indices.
  \<^item> \<open>Event_Store\<close> (decryption, edits, reactions, key requests) and \<open>Event_Sync\<close> (syncs, pages, the send
    queue, the step function \<open>ev_step\<close>): \<open>src/src/timeline/EventStore.cpp\<close>, on the tables of the timeline
    store and the Olm client; \<open>Event_Queue\<close>: the queue is emptied in order; \<open>Event_Safety\<close>: one message
    at a time, how often keys are asked for, edits only by the sender.
  \<^item> \<open>Call_Session\<close> (\<open>src/src/voip/WebRTCSession.cpp\<close>) and \<open>Call_Manager\<close> (\<open>CallManager.cpp\<close>, \<open>call_step\<close>):
    the media session and the calls; \<open>Call_Safety\<close>: who starts and ends a call; \<open>Call_Properties\<close>: how a
    call is set up, and where it is lost.

  \<^item> \<open>Room_State\<close> (state events into the tables of a room and back, names, members: \<open>Cache_p.h\<close>,
    \<open>Cache.cpp\<close>), \<open>Room_Spaces\<close> (the tables of the spaces, image packs) and \<open>Room_Sync\<close> (\<open>saveState\<close>:
    joined, invited and left rooms, receipts, account data, and the queries on rooms); \<open>Room_Machine\<close>:
    these operations as one machine (\<open>room_step\<close>); \<open>Room_Replay\<close>: the tables against the last event of
    each type and key; \<open>Room_Space_Tables\<close>, \<open>Room_Packs\<close>: the children of a space after an update, and
    why the search for packs ends; \<open>Room_Invariants\<close>, \<open>Room_Properties\<close>, \<open>Room_Behaviour\<close>: what every run
    keeps, and the properties. The timeline's part of a sync is a parameter there.
  \<^item> \<open>Timeline_Control\<close> (\<open>src/src/timeline/Timeline.cpp\<close>, \<open>Permissions.cpp\<close>): the controller of one room on
    top of these tables, with \<open>timeline_step\<close>; \<open>Timeline_Control_Properties\<close>: what leaves an encrypted
    room; \<open>Timeline_Control_Behaviour\<close>: failing encryption, the preview, permissions, announced calls.
  \<^item> \<open>User_Settings\<close>, \<open>User_Settings_Properties\<close>: the settings, their entries and setters, and that they
    survive a restart.
  \<^item> \<open>Client_State\<close>, \<open>Client_Sync\<close>, \<open>Client_Rooms\<close> (\<open>src/src/Client.cpp\<close>, \<open>Authentication.cpp\<close>,
    \<open>PresenceEmitter.cpp\<close>): the client on top of the Olm client, the cache of the rooms, the controllers
    and the settings, as one machine (\<open>client_step\<close>) over the requests, timers and signals that are
    pending; \<open>Client_Invariants\<close>: operations that only add; \<open>Client_Views\<close>: both views of the database
    agree; \<open>Client_Loop\<close>: the loop of syncs goes on, and who messages are encrypted for;
    \<open>Client_Properties\<close>: signatures, one-time keys, notifications, failures and logout.

  \<^bold>\<open>Parameters.\<close> libolm, the hashes and signatures, JSON text parsing and the parsing of events of
  mtxclient are fields of environment records (\<open>olm_lib\<close>, \<open>key_env\<close>, \<open>olm_env\<close>, the flow's environment).
  What is relied on is stated by name: \<open>lib_ok\<close> (a pickled session unpickles with its key to itself, an
  exported session imports with its first index, printed JSON of a session index parses back),
  \<open>decrypt_keeps_first_index\<close>, \<open>accessors_ok\<close> (setting relations or text of an event leaves its id and kind
  alone), \<open>quiet_migrations\<close> (migrations leave the token of the last sync, members and the list of encrypted
  rooms alone). Environments of the event store and of calls are \<open>store_env\<close>, \<open>gst_env\<close> and \<open>call_env\<close>. The witnesses use concrete environments (\<open>demo_lib\<close>, \<open>demo_key_env\<close>,
  \<open>demo_olm_env\<close>) that satisfy them.

  \<^bold>\<open>Bounds.\<close> Loops over tables are folds or structural recursion over their sorted entries, and the
  expiry loop recurses over the entries it may delete. The one recursion with fuel is the search for
  image packs; its fuel is the number of rooms with tables and two more, and \<open>pack_search_returns\<close> shows
  that it always suffices and that more changes nothing. Side conditions about
  indices running out (64-bit arrival indices start in the middle of their range) are hypotheses of
  the theorems that need them.

  \<^bold>\<open>Not modelled.\<close> Building GStreamer pipelines and platform audio (\<open>src/src/voip\<close> besides calls and the
  media session), requests to the server and the dialogs of authentication (\<open>MatrixClient.cpp\<close>, \<open>UIA.cpp\<close>),
  user profile objects (\<open>UserProfile.cpp\<close>), the mentions and opening of the databases in \<open>Cache.cpp\<close>,
  server discovery, push registration and forwarding in \<open>Client.cpp\<close>, logging, text helpers and visitors
  over event types: network requests, Qt and GStreamer glue. Threads are not modelled, except that signals
  of the media threads are delivered late: the operations of a component are atomic steps, as the code
  runs them on one thread.
\<close>

end
